(* ===== verification/Prelude.thy ===== *)
theory Prelude
  imports Complex_Main "HOL-Library.Word"
begin

text \<open>
  Shared vocabulary of the development: the values an \<open>any\<close> of the Go code can hold, the
  errors of the whole program with \<open>errors.Is\<close>, \<open>errors.As\<close> and \<open>Error()\<close>, and the
  state-and-error operations in which the bodies of the Go functions are written.

  A Go function that can fail and works on a state \<open>'s\<close> is an operation
  \<open>'s \<Rightarrow> 'a outcome \<times> 's\<close>: the outcome is a value, an error return, or a panic, and the
  state is the one the function leaves behind in each of the three cases.
\<close>

section \<open>Values and errors\<close>

datatype any_val =
    VStr string
  | VInt int
  | VDec rat
  | VBool bool
  | VObj "(string \<times> any_val) list"
  | VList "any_val list"
  | VNil

text \<open>\<open>time.Duration\<close>: nanoseconds in a signed 64-bit integer.\<close>

type_synonym duration = "64 word"

definition second :: duration where "second = 1000000000"
definition millisecond :: duration where "millisecond = 1000000"
definition minute :: duration where "minute = 60 * second"

datatype goerr =
    ErrSkipStep
  | ErrSkipStage
  | ErrBreakStages
  | ErrExitWorkflow
  | ErrNoConsole
  | ErrNotFound
  | ErrRetry
  | ErrExit
  | ErrFailedTransfer
  | ErrCtx string
  | ErrText string
  | ErrExt string string
  | JobSnooze duration string
  | FailedTransferError string string string goerr
  | ErrPg string string
  | Wrapf string goerr
  | Wrapfs string goerr string
  | Wrap2 goerr goerr

text \<open>
  \<open>ErrText\<close> is \<open>errors.New\<close> or \<open>fmt.Errorf\<close> without a wrapped error; \<open>ErrExt kind text\<close> an
  error of a service or library outside the repository, with the class it belongs to;
  \<open>JobSnooze d text\<close> the value of \<open>river.JobSnooze(d)\<close>; \<open>ErrPg text detail\<close> a \<open>pgconn.PgError\<close>; \<open>Wrapf p e\<close> the value of
  \<open>fmt.Errorf("p%w", e)\<close>, \<open>Wrapfs p e q\<close> of \<open>fmt.Errorf("p%wq", e)\<close> and \<open>Wrap2 a b\<close> of \<open>fmt.Errorf("%w: %w", a, b)\<close>;
  \<open>FailedTransferError stage step msg e\<close> the error type of the Tron machine, which has no
  \<open>Unwrap\<close> method.
\<close>

text \<open>\<open>errors.Is(e, t)\<close> for a sentinel \<open>t\<close>.\<close>

fun errIs :: "goerr \<Rightarrow> goerr \<Rightarrow> bool" where
  "errIs (Wrapf p e) t = errIs e t"
| "errIs (Wrapfs p e q) t = errIs e t"
| "errIs (Wrap2 a b) t = (errIs a t \<or> errIs b t)"
| "errIs e t = (e = t)"

text \<open>\<open>errors.As(e, &failedTransferErr)\<close>: the first \<open>FailedTransferError\<close> of the chain.\<close>

fun errAsFailed :: "goerr \<Rightarrow> (string \<times> string \<times> string \<times> goerr) option" where
  "errAsFailed (FailedTransferError sg st m e) = Some (sg, st, m, e)"
| "errAsFailed (Wrapf p e) = errAsFailed e"
| "errAsFailed (Wrapfs p e q) = errAsFailed e"
| "errAsFailed (Wrap2 a b) = (case errAsFailed a of Some x \<Rightarrow> Some x | None \<Rightarrow> errAsFailed b)"
| "errAsFailed _ = None"

text \<open>The duration of the first \<open>river.JobSnooze\<close> of the chain, which is what the queue reads.\<close>

fun errSnooze :: "goerr \<Rightarrow> duration option" where
  "errSnooze (JobSnooze d t) = Some d"
| "errSnooze (Wrapf p e) = errSnooze e"
| "errSnooze (Wrapfs p e q) = errSnooze e"
| "errSnooze (Wrap2 a b) = (case errSnooze a of Some x \<Rightarrow> Some x | None \<Rightarrow> errSnooze b)"
| "errSnooze _ = None"

text \<open>\<open>errors.As(e, &pgErr)\<close>: the detail of the first \<open>PgError\<close> of the chain.\<close>

fun errAsPg :: "goerr \<Rightarrow> string option" where
  "errAsPg (ErrPg t d) = Some d"
| "errAsPg (Wrapf p e) = errAsPg e"
| "errAsPg (Wrapfs p e q) = errAsPg e"
| "errAsPg (Wrap2 a b) = (case errAsPg a of Some x \<Rightarrow> Some x | None \<Rightarrow> errAsPg b)"
| "errAsPg _ = None"

text \<open>\<open>err.Error()\<close>.\<close>

fun errStr :: "goerr \<Rightarrow> string" where
  "errStr ErrSkipStep = ''skip step''"
| "errStr ErrSkipStage = ''skip stage''"
| "errStr ErrBreakStages = ''break stages''"
| "errStr ErrExitWorkflow = ''exit''"
| "errStr ErrNoConsole = ''no console''"
| "errStr ErrNotFound = ''not found''"
| "errStr ErrRetry = ''retry''"
| "errStr ErrExit = ''exit''"
| "errStr ErrFailedTransfer = ''failed transfer''"
| "errStr (ErrCtx t) = t"
| "errStr (ErrText t) = t"
| "errStr (ErrExt k t) = t"
| "errStr (JobSnooze d t) = t"
| "errStr (FailedTransferError sg st m e) = errStr e"
| "errStr (ErrPg t d) = t"
| "errStr (Wrapf p e) = p @ errStr e"
| "errStr (Wrapfs p e q) = p @ errStr e @ q"
| "errStr (Wrap2 a b) = errStr a @ '': '' @ errStr b"

text \<open>\<open>strings.Contains\<close>.\<close>

fun strPrefix :: "string \<Rightarrow> string \<Rightarrow> bool" where
  "strPrefix [] s = True"
| "strPrefix (p # ps) [] = False"
| "strPrefix (p # ps) (c # cs) = (p = c \<and> strPrefix ps cs)"

fun strContains :: "string \<Rightarrow> string \<Rightarrow> bool" where
  "strContains [] p = (p = [])"
| "strContains (c # cs) p = (strPrefix p (c # cs) \<or> strContains cs p)"

text \<open>Decimal rendering of integers, as \<open>%d\<close> prints them.\<close>

fun showNat :: "nat \<Rightarrow> string" where
  "showNat n = (if n < 10 then [char_of (48 + n)] else showNat (n div 10) @ [char_of (48 + n mod 10)])"

declare showNat.simps [simp del]

definition showInt :: "int \<Rightarrow> string" where
  "showInt i = (if i < 0 then ''-'' @ showNat (nat (- i)) else showNat (nat i))"

section \<open>Decimals\<close>

text \<open>
  \<open>Decimal.BigInt()\<close>, the integer part towards zero, \<open>IntPart()\<close>, the same as an \<open>int64\<close>, and \<open>Ceil()\<close>.
\<close>

definition decBigInt :: "rat \<Rightarrow> int" where
  "decBigInt d = (if d < 0 then \<lceil>d\<rceil> else \<lfloor>d\<rfloor>)"

definition intPart :: "rat \<Rightarrow> 64 word" where
  "intPart d = word_of_int (if d < 0 then \<lceil>d\<rceil> else \<lfloor>d\<rfloor>)"

definition decCeil :: "rat \<Rightarrow> rat" where
  "decCeil d = of_int \<lceil>d\<rceil>"

section \<open>Operations\<close>

datatype 'a outcome = Val 'a | Err goerr | Panic string

type_synonym ('s, 'a) op = "'s \<Rightarrow> 'a outcome \<times> 's"
type_synonym 's act = "'s \<Rightarrow> unit outcome \<times> 's"

definition ret :: "'a \<Rightarrow> ('s, 'a) op" where
  "ret x s = (Val x, s)"

definition fail :: "goerr \<Rightarrow> ('s, 'a) op" where
  "fail e s = (Err e, s)"

definition panic :: "string \<Rightarrow> ('s, 'a) op" where
  "panic m s = (Panic m, s)"

definition bnd :: "('s, 'a) op \<Rightarrow> ('a \<Rightarrow> ('s, 'b) op) \<Rightarrow> ('s, 'b) op" where
  "bnd m f s = (case m s of
      (Val x, s') \<Rightarrow> f x s'
    | (Err e, s') \<Rightarrow> (Err e, s')
    | (Panic p, s') \<Rightarrow> (Panic p, s'))"

text \<open>\<open>if err != nil { return fmt.Errorf("msg: %w", err) }\<close>.\<close>

definition wrapErr :: "string \<Rightarrow> ('s, 'a) op \<Rightarrow> ('s, 'a) op" where
  "wrapErr msg m s = (case m s of
      (Err e, s') \<Rightarrow> (Err (Wrapf (msg @ '': '') e), s')
    | r \<Rightarrow> r)"

text \<open>Code that looks at the error it received before it decides what to do.\<close>

definition catchErr :: "('s, 'a) op \<Rightarrow> (goerr \<Rightarrow> ('s, 'a) op) \<Rightarrow> ('s, 'a) op" where
  "catchErr m h s = (case m s of (Err e, s') \<Rightarrow> h e s' | r \<Rightarrow> r)"

text \<open>\<open>if !ok { return err }\<close>.\<close>

definition guardE :: "bool \<Rightarrow> goerr \<Rightarrow> 's act" where
  "guardE ok e = (if ok then ret () else fail e)"

definition getS :: "('s \<Rightarrow> 'a) \<Rightarrow> ('s, 'a) op" where
  "getS f s = (Val (f s), s)"

definition modS :: "('s \<Rightarrow> 's) \<Rightarrow> 's act" where
  "modS f s = (Val (), f s)"

text \<open>A pure library call that fails.\<close>

definition ofSum :: "goerr + 'a \<Rightarrow> ('s, 'a) op" where
  "ofSum r = (case r of Inl e \<Rightarrow> fail e | Inr x \<Rightarrow> ret x)"

text \<open>A call whose error is only logged.\<close>

definition ignoreErr :: "'s act \<Rightarrow> 's act" where
  "ignoreErr m = catchErr m (\<lambda>_. ret ())"

text \<open>A \<open>for\<close> loop that returns at the first error.\<close>

fun forEach :: "'a list \<Rightarrow> ('a \<Rightarrow> 's act) \<Rightarrow> 's act" where
  "forEach [] f = ret ()"
| "forEach (x # xs) f = bnd (f x) (\<lambda>_. forEach xs f)"

section \<open>Lists\<close>

lemma map_update_same: "f y = f (xs ! i) \<Longrightarrow> map f (xs[i := y]) = map f xs"
  by (cases "i < length xs") (simp_all add: map_update list_update_same_conv list_update_beyond)

section \<open>Library of the operations\<close>

named_theorems op_defs "definitions of the state-and-error operations"

lemmas [op_defs] = ret_def fail_def panic_def bnd_def wrapErr_def catchErr_def guardE_def
  getS_def modS_def ignoreErr_def

lemma bnd_ret [simp]: "bnd (ret x) f = f x"
  by (rule ext) (simp add: op_defs)

lemma bnd_fail [simp]: "bnd (fail e) f = fail e"
  by (rule ext) (simp add: op_defs)

lemma bnd_panic [simp]: "bnd (panic p) f = panic p"
  by (rule ext) (simp add: op_defs)

lemma bnd_assoc: "bnd (bnd m f) g = bnd m (\<lambda>x. bnd (f x) g)"
  by (rule ext) (auto simp: op_defs split: prod.splits outcome.splits)

lemma guardE_True [simp]: "guardE True e = ret ()"
  by (simp add: guardE_def)

lemma guardE_False [simp]: "guardE False e = fail e"
  by (simp add: guardE_def)

text \<open>The state a predicate speaks about is kept by an operation.\<close>

definition keeps :: "('s \<Rightarrow> 'b) \<Rightarrow> ('s, 'a) op \<Rightarrow> bool" where
  "keeps v m \<longleftrightarrow> (\<forall>s. v (snd (m s)) = v s)"

lemma keepsI: "(\<And>s. v (snd (m s)) = v s) \<Longrightarrow> keeps v m"
  by (simp add: keeps_def)

lemma keepsD: "keeps v m \<Longrightarrow> m s = (r, s') \<Longrightarrow> v s' = v s"
  unfolding keeps_def by (metis snd_conv)

lemma keeps_snd: "keeps v m \<Longrightarrow> v (snd (m s)) = v s"
  by (simp add: keeps_def)

named_theorems keeps_intros "closure of keeps under the operations"

lemma keeps_ret [keeps_intros]: "keeps v (ret x)"
  by (simp add: keeps_def ret_def)

lemma keeps_fail [keeps_intros]: "keeps v (fail e)"
  by (simp add: keeps_def fail_def)

lemma keeps_panic [keeps_intros]: "keeps v (panic e)"
  by (simp add: keeps_def panic_def)

lemma keeps_guardE [keeps_intros]: "keeps v (guardE b e)"
  by (simp add: guardE_def keeps_intros)

lemma keeps_ofSum [keeps_intros]: "keeps v (ofSum r)"
  by (cases r) (auto simp: ofSum_def intro: keeps_intros)

lemma keeps_getS [keeps_intros]: "keeps v (getS f)"
  by (simp add: keeps_def getS_def)

lemma keeps_modS: "(\<And>s. v (f s) = v s) \<Longrightarrow> keeps v (modS f)"
  by (simp add: keeps_def modS_def)

lemma keeps_bnd [keeps_intros]:
  "keeps v m \<Longrightarrow> (\<And>x. keeps v (f x)) \<Longrightarrow> keeps v (bnd m f)"
  by (rule keepsI) (auto simp: bnd_def keeps_snd dest: keepsD split: prod.splits outcome.splits)

lemma keeps_wrapErr [keeps_intros]: "keeps v m \<Longrightarrow> keeps v (wrapErr t m)"
  by (rule keepsI) (auto simp: wrapErr_def dest: keepsD split: prod.splits outcome.splits)

lemma keeps_catchErr [keeps_intros]:
  "keeps v m \<Longrightarrow> (\<And>e. keeps v (h e)) \<Longrightarrow> keeps v (catchErr m h)"
  by (rule keepsI) (auto simp: catchErr_def keeps_snd dest: keepsD split: prod.splits outcome.splits)

lemma keeps_ignoreErr [keeps_intros]: "keeps v m \<Longrightarrow> keeps v (ignoreErr m)"
  by (simp add: ignoreErr_def keeps_intros)

lemma keeps_forEach [keeps_intros]: "(\<And>x. keeps v (f x)) \<Longrightarrow> keeps v (forEach xs f)"
  by (induction xs) (auto intro: keeps_intros)

lemma keeps_if [keeps_intros]:
  "keeps v m \<Longrightarrow> keeps v n \<Longrightarrow> keeps v (if b then m else n)"
  by simp

lemma keeps_case_option [keeps_intros]:
  "keeps v m \<Longrightarrow> (\<And>x. keeps v (n x)) \<Longrightarrow> keeps v (case x of None \<Rightarrow> m | Some y \<Rightarrow> n y)"
  by (cases x) auto

lemma keeps_case_prod [keeps_intros]: "(\<And>a b. keeps v (f a b)) \<Longrightarrow> keeps v (case x of (a, b) \<Rightarrow> f a b)"
  by (cases x) auto

section \<open>Successful operations\<close>

text \<open>What is known when an operation ends with a value: the facts of its parts, in order.\<close>

named_theorems op_Val "success of an operation from the success of its parts"

lemma bnd_Val [op_Val]: "bnd m f s = (Val y, s') \<longleftrightarrow> (\<exists>x s1. m s = (Val x, s1) \<and> f x s1 = (Val y, s'))"
  by (auto simp: bnd_def split: prod.splits outcome.splits)

lemma wrapErr_Val [op_Val]: "wrapErr t m s = (Val y, s') \<longleftrightarrow> m s = (Val y, s')"
  by (auto simp: wrapErr_def split: prod.splits outcome.splits)

lemma guardE_Val [op_Val]: "guardE c e s = (Val u, s') \<longleftrightarrow> c \<and> s' = s"
  by (auto simp: op_defs)

lemma getS_Val [op_Val]: "getS f s = (Val x, s') \<longleftrightarrow> x = f s \<and> s' = s"
  by (auto simp: op_defs)

lemma modS_Val [op_Val]: "modS f s = (Val u, s') \<longleftrightarrow> s' = f s"
  by (auto simp: op_defs)

lemma ret_Val [op_Val]: "ret y s = (Val x, s') \<longleftrightarrow> x = y \<and> s' = s"
  by (auto simp: op_defs)

lemma fail_Val [op_Val]: "fail e s = (Val x, s') \<longleftrightarrow> False"
  by (auto simp: op_defs)

lemma panic_Val [op_Val]: "panic e s = (Val x, s') \<longleftrightarrow> False"
  by (auto simp: op_defs)

lemma ofSum_Val [op_Val]: "ofSum r s = (Val x, s') \<longleftrightarrow> r = Inr x \<and> s' = s"
  by (cases r) (auto simp: ofSum_def op_defs)

lemma catchErr_Val [op_Val]:
  "catchErr m h s = (Val x, s') \<longleftrightarrow> m s = (Val x, s') \<or> (\<exists>e s1. m s = (Err e, s1) \<and> h e s1 = (Val x, s'))"
  by (auto simp: catchErr_def split: prod.splits outcome.splits)

end
