(* ===== verification/Retry.thy ===== *)
theory Retry
  imports Prelude
begin

text \<open>
  \<open>pkg/retry\<close>: a function is tried again until it succeeds, until it fails with \<open>ErrExit\<close>, or
  until the attempts are used up; the waiting time is constant, doubles, or the attempts go on
  until the context is cancelled. The state \<open>'s\<close> is whatever the function and the two callbacks
  work on; \<open>time.Sleep\<close> and the cancellation of the context are functions of it.
\<close>

section \<open>Configuration\<close>

definition PolicyLinear :: int where "PolicyLinear = 0"
definition PolicyBackoff :: int where "PolicyBackoff = 1"
definition PolicyInfinite :: int where "PolicyInfinite = 2"

lemmas policy_defs = PolicyLinear_def PolicyBackoff_def PolicyInfinite_def

text \<open>\<open>Policy.Validate\<close>.\<close>

definition validatePolicy :: "int \<Rightarrow> goerr option" where
  "validatePolicy p =
     (if p \<in> {PolicyLinear, PolicyBackoff, PolicyInfinite} then None
      else Some (ErrText ''invalid retry policy''))"

text \<open>
  The struct \<open>Retry\<close>. A nil context, callback or logger is \<open>None\<close>; log lines are left out.
  \<open>rtCtx\<close> says whether the context is done in a state, \<open>rtSleep\<close> what sleeping does to it.
\<close>

record 's retry =
  rtCtx :: "('s \<Rightarrow> bool) option"
  rtMaxAttempts :: int
  rtPolicy :: int
  rtDelay :: duration
  rtOnFailed :: "('s \<Rightarrow> 's) option"
  rtOnSuccess :: "('s \<Rightarrow> 's) option"
  rtSleep :: "duration \<Rightarrow> 's \<Rightarrow> 's"

type_synonym 's retry_option = "'s retry \<Rightarrow> 's retry"

definition newRetry :: "(duration \<Rightarrow> 's \<Rightarrow> 's) \<Rightarrow> 's retry_option list \<Rightarrow> 's retry" where
  "newRetry sleep opts =
     fold (\<lambda>opt r. opt r) opts
       \<lparr>rtCtx = None, rtMaxAttempts = 5, rtPolicy = PolicyBackoff, rtDelay = 1 * second,
        rtOnFailed = None, rtOnSuccess = None, rtSleep = sleep\<rparr>"

definition withMaxAttempts :: "int \<Rightarrow> 's retry_option" where
  "withMaxAttempts n r = r\<lparr>rtMaxAttempts := n\<rparr>"

definition withPolicy :: "int \<Rightarrow> 's retry_option" where
  "withPolicy p r = r\<lparr>rtPolicy := p\<rparr>"

definition withDelay :: "duration \<Rightarrow> 's retry_option" where
  "withDelay d r = r\<lparr>rtDelay := d\<rparr>"

definition withContext :: "('s \<Rightarrow> bool) \<Rightarrow> 's retry_option" where
  "withContext c r = r\<lparr>rtCtx := Some c\<rparr>"

definition withOnFailedFn :: "('s \<Rightarrow> 's) \<Rightarrow> 's retry_option" where
  "withOnFailedFn f r = r\<lparr>rtOnFailed := Some f\<rparr>"

definition withOnSuccessFn :: "('s \<Rightarrow> 's) \<Rightarrow> 's retry_option" where
  "withOnSuccessFn f r = r\<lparr>rtOnSuccess := Some f\<rparr>"

lemmas retry_option_defs = withMaxAttempts_def withPolicy_def withDelay_def withContext_def
  withOnFailedFn_def withOnSuccessFn_def

section \<open>The three loops\<close>

definition runHook :: "('s \<Rightarrow> 's) option \<Rightarrow> 's \<Rightarrow> 's" where
  "runHook h s = (case h of None \<Rightarrow> s | Some f \<Rightarrow> f s)"

function linearLoop :: "'s retry \<Rightarrow> 's act \<Rightarrow> int \<Rightarrow> 's act" where
  "linearLoop r fn attempt s =
     (if attempt \<le> rtMaxAttempts r then
        (case fn s of
           (Val u, s1) \<Rightarrow> (Val u, s1)
         | (Panic p, s1) \<Rightarrow> (Panic p, s1)
         | (Err e, s1) \<Rightarrow>
             (let s2 = runHook (rtOnFailed r) s1
              in if errIs e ErrExit then (Err e, s2)
                 else linearLoop r fn (attempt + 1)
                        (if attempt < rtMaxAttempts r then rtSleep r (rtDelay r) s2 else s2)))
      else (Err (ErrText (''linear retry failed after '' @ showInt (rtMaxAttempts r) @ '' attempts'')), s))"
  by pat_completeness auto
termination
  by (relation "measure (\<lambda>(r, fn, attempt, s). nat (rtMaxAttempts r + 1 - attempt))") auto

declare linearLoop.simps [simp del]

definition linearRetry :: "'s retry \<Rightarrow> 's act \<Rightarrow> 's act" where
  "linearRetry r fn = linearLoop r fn 1"

text \<open>\<open>r.delay * (1 << (attempt - 1))\<close>, in 64-bit arithmetic.\<close>

definition backoffDelay :: "duration \<Rightarrow> int \<Rightarrow> duration" where
  "backoffDelay d attempt = d * push_bit (nat (attempt - 1)) 1"

function backoffLoop :: "'s retry \<Rightarrow> 's act \<Rightarrow> int \<Rightarrow> 's act" where
  "backoffLoop r fn attempt s =
     (if attempt \<le> rtMaxAttempts r then
        (case fn s of
           (Val u, s1) \<Rightarrow> (Val u, s1)
         | (Panic p, s1) \<Rightarrow> (Panic p, s1)
         | (Err e, s1) \<Rightarrow>
             (let s2 = runHook (rtOnFailed r) s1
              in if errIs e ErrExit then (Err e, s2)
                 else backoffLoop r fn (attempt + 1)
                        (if attempt < rtMaxAttempts r
                         then rtSleep r (backoffDelay (rtDelay r) attempt) s2 else s2)))
      else (Err (ErrText (''backoff retry failed after '' @ showInt (rtMaxAttempts r) @ '' attempts'')), s))"
  by pat_completeness auto
termination
  by (relation "measure (\<lambda>(r, fn, attempt, s). nat (rtMaxAttempts r + 1 - attempt))") auto

declare backoffLoop.simps [simp del]

definition backoffRetry :: "'s retry \<Rightarrow> 's act \<Rightarrow> 's act" where
  "backoffRetry r fn = backoffLoop r fn 1"

text \<open>
  The loop of the goroutine, \<open>None\<close> if it never ends. The caller receives the error that was put
  into the channel, and nil from the closed channel otherwise.
\<close>

partial_function (option) infiniteLoop ::
  "'s retry \<Rightarrow> ('s \<Rightarrow> bool) \<Rightarrow> 's act \<Rightarrow> 's \<Rightarrow> (unit outcome \<times> 's) option" where
  "infiniteLoop r isDone fn s =
     (if isDone s then Some (Val (), s)
      else (case fn s of
          (Val u, s1) \<Rightarrow> Some (Val (), s1)
        | (Panic p, s1) \<Rightarrow> Some (Panic p, s1)
        | (Err e, s1) \<Rightarrow>
            (let s2 = runHook (rtOnFailed r) s1
             in if errIs e ErrExit then Some (Err e, s2)
                else infiniteLoop r isDone fn (rtSleep r (rtDelay r) s2))))"

definition infiniteRetry :: "'s retry \<Rightarrow> 's act \<Rightarrow> 's \<Rightarrow> (unit outcome \<times> 's) option" where
  "infiniteRetry r fn s =
     (case rtCtx r of
        None \<Rightarrow> Some (Err (ErrText ''infinite retry cannot be initialized without ctx''), s)
      | Some isDone \<Rightarrow> infiniteLoop r isDone fn s)"

text \<open>\<open>Retry.Do\<close>; \<open>None\<close> as the function is a nil function.\<close>

definition retryDo :: "'s retry \<Rightarrow> 's act option \<Rightarrow> 's \<Rightarrow> (unit outcome \<times> 's) option" where
  "retryDo r fnOpt s =
     (case fnOpt of
        None \<Rightarrow> Some (Err (ErrText ''retry function cannot be nil''), s)
      | Some fn \<Rightarrow>
          (case (if rtPolicy r = PolicyLinear then Some (linearRetry r fn s)
                 else if rtPolicy r = PolicyBackoff then Some (backoffRetry r fn s)
                 else if rtPolicy r = PolicyInfinite then infiniteRetry r fn s
                 else Some (Err (ErrText ''unsupported retry policy''), s)) of
             None \<Rightarrow> None
           | Some (Val u, s1) \<Rightarrow> Some (Val u, runHook (rtOnSuccess r) s1)
           | Some (res, s1) \<Rightarrow> Some (res, s1)))"

section \<open>The contract of the bounded loops\<close>

text \<open>
  Both bounded loops have one shape and differ in the waiting time and in the text of the final
  error. What follows from that shape is proved once.
\<close>

locale bounded_retry =
  fixes loop :: "'s retry \<Rightarrow> 's act \<Rightarrow> int \<Rightarrow> 's act"
    and delayOf :: "'s retry \<Rightarrow> int \<Rightarrow> duration"
    and failText :: "'s retry \<Rightarrow> string"
  assumes loop_unfold:
    "loop r fn attempt s =
       (if attempt \<le> rtMaxAttempts r then
          (case fn s of
             (Val u, s1) \<Rightarrow> (Val u, s1)
           | (Panic p, s1) \<Rightarrow> (Panic p, s1)
           | (Err e, s1) \<Rightarrow>
               (let s2 = runHook (rtOnFailed r) s1
                in if errIs e ErrExit then (Err e, s2)
                   else loop r fn (attempt + 1)
                          (if attempt < rtMaxAttempts r then rtSleep r (delayOf r attempt) s2 else s2)))
        else (Err (ErrText (failText r)), s))"
begin

text \<open>The function is called at most as often as attempts are left.\<close>

lemma calls_bound:
  assumes call: "\<And>s. calls (snd (fn s)) \<le> Suc (calls s)"
    and hook: "\<And>s. calls (runHook (rtOnFailed r) s) = calls s"
    and sleep: "\<And>d s. calls (rtSleep r d s) = calls s"
  shows "calls (snd (loop r fn attempt s)) \<le> calls s + nat (rtMaxAttempts r + 1 - attempt)"
proof (induction "nat (rtMaxAttempts r + 1 - attempt)" arbitrary: attempt s)
  case 0
  then show ?case by (subst loop_unfold) simp
next
  case (Suc n)
  then have le: "attempt \<le> rtMaxAttempts r" by simp
  obtain res s1 where fn: "fn s = (res, s1)" by (cases "fn s")
  have c1: "calls s1 \<le> Suc (calls s)" using call [of s] fn by simp
  show ?case
  proof (cases res)
    case (Err e)
    let ?s2 = "runHook (rtOnFailed r) s1"
    let ?s3 = "if attempt < rtMaxAttempts r then rtSleep r (delayOf r attempt) ?s2 else ?s2"
    have "calls (snd (loop r fn (attempt + 1) ?s3)) \<le> calls ?s3 + nat (rtMaxAttempts r + 1 - (attempt + 1))"
      by (rule Suc.hyps) (use Suc.hyps(2) in arith)
    moreover have "calls ?s3 = calls s1" by (simp add: hook sleep)
    ultimately show ?thesis
      using c1 fn Err le hook [of s1] by (subst loop_unfold) (auto simp: Let_def)
  qed (use c1 fn le in \<open>subst loop_unfold, simp\<close>)+
qed

text \<open>
  A preorder between the states that the function, the hook and the pauses respect is respected by the
  loop; for instance a view that all of them keep.
\<close>

lemma loop_respects:
  assumes refl: "\<And>s. R s s" and trans: "\<And>s1 s2 s3. R s1 s2 \<Longrightarrow> R s2 s3 \<Longrightarrow> R s1 s3"
    and call: "\<And>s. R s (snd (fn s))" and hook: "\<And>s. R s (runHook (rtOnFailed r) s)" and sleep: "\<And>d s. R s (rtSleep r d s)"
  shows "R s (snd (loop r fn attempt s))"
proof (induction "nat (rtMaxAttempts r + 1 - attempt)" arbitrary: attempt s)
  case 0
  then show ?case using refl by (subst loop_unfold) simp
next
  case (Suc n)
  from Suc.hyps(2) have dec: "n = nat (rtMaxAttempts r + 1 - (attempt + 1))" by arith
  obtain res s1 where fn: "fn s = (res, s1)" by (cases "fn s")
  let ?s2 = "runHook (rtOnFailed r) s1"
  let ?s3 = "if attempt < rtMaxAttempts r then rtSleep r (delayOf r attempt) ?s2 else ?s2"
  have c1: "R s s1" and c2: "R s ?s2" using call [of s] fn trans hook by auto
  then have "R s ?s3" using trans [OF c2 sleep] by simp
  then have "R s (snd (loop r fn (attempt + 1) ?s3))" by (rule trans) (rule Suc.hyps(1) [OF dec])
  then show ?case
    using fn c1 c2 refl [of s] by (subst loop_unfold, cases res) (simp_all add: Let_def)
qed

text \<open>A nil result comes from a call of the function that returned nil, in the state it left.\<close>

lemma nil_result:
  assumes "loop r fn attempt s = (Val u, s')"
  shows "\<exists>s0. fn s0 = (Val u, s')"
  using assms
proof (induction "nat (rtMaxAttempts r + 1 - attempt)" arbitrary: attempt s)
  case 0
  then show ?case by (subst (asm) loop_unfold) simp
next
  case (Suc n)
  then have le: "attempt \<le> rtMaxAttempts r" by simp
  obtain res s1 where fn: "fn s = (res, s1)" by (cases "fn s")
  show ?case
  proof (cases res)
    case (Val v)
    with Suc.prems fn le show ?thesis by (subst (asm) loop_unfold) auto
  next
    case (Panic p)
    with Suc.prems fn le show ?thesis by (subst (asm) loop_unfold) auto
  next
    case (Err e)
    from Suc.hyps(2) have dec: "n = nat (rtMaxAttempts r + 1 - (attempt + 1))" by arith
    let ?s2 = "runHook (rtOnFailed r) s1"
    let ?s3 = "if attempt < rtMaxAttempts r then rtSleep r (delayOf r attempt) ?s2 else ?s2"
    from Suc.prems fn le Err have "loop r fn (attempt + 1) ?s3 = (Val u, s')"
      by (subst (asm) loop_unfold) (simp add: Let_def split: if_split_asm)
    then show ?thesis by (rule Suc.hyps(1) [OF dec])
  qed
qed

text \<open>When every call fails, all attempts are made and the error says so.\<close>

lemma all_fail:
  assumes fails: "\<And>s. \<exists>e s1. fn s = (Err e, s1) \<and> \<not> errIs e ErrExit \<and> calls s1 = Suc (calls s)"
    and hook: "\<And>s. calls (runHook (rtOnFailed r) s) = calls s"
    and sleep: "\<And>d s. calls (rtSleep r d s) = calls s"
  shows "fst (loop r fn attempt s) = Err (ErrText (failText r)) \<and>
    calls (snd (loop r fn attempt s)) = calls s + nat (rtMaxAttempts r + 1 - attempt)"
proof (induction "nat (rtMaxAttempts r + 1 - attempt)" arbitrary: attempt s)
  case 0
  then show ?case by (subst (1 2) loop_unfold) simp
next
  case (Suc n)
  then have le: "attempt \<le> rtMaxAttempts r" by simp
  from fails [of s] obtain e s1 where
    fn: "fn s = (Err e, s1)" "\<not> errIs e ErrExit" "calls s1 = Suc (calls s)" by blast
  let ?s2 = "runHook (rtOnFailed r) s1"
  let ?s3 = "if attempt < rtMaxAttempts r then rtSleep r (delayOf r attempt) ?s2 else ?s2"
  from Suc.hyps(2) have dec: "n = nat (rtMaxAttempts r + 1 - (attempt + 1))" by arith
  have eq: "loop r fn attempt s = loop r fn (attempt + 1) ?s3"
    using fn le by (subst loop_unfold) (simp add: Let_def)
  have "calls ?s3 = Suc (calls s)" using fn by (simp add: hook sleep)
  with Suc.hyps(1) [OF dec, of ?s3] Suc.hyps(2) dec show ?case unfolding eq by simp
qed

text \<open>An \<open>ErrExit\<close> ends the loop at once.\<close>

lemma exit_stops:
  assumes "attempt \<le> rtMaxAttempts r" and "fn s = (Err e, s1)" and "errIs e ErrExit"
  shows "loop r fn attempt s = (Err e, runHook (rtOnFailed r) s1)"
  using assms by (subst loop_unfold) (simp add: Let_def)

text \<open>The time slept when every call fails: one pause between two attempts, none after the last.\<close>

lemma total_sleep:
  assumes fails: "\<And>s. \<exists>e s1. fn s = (Err e, s1) \<and> \<not> errIs e ErrExit \<and> slept s1 = slept s"
    and hook: "\<And>s. slept (runHook (rtOnFailed r) s) = slept s"
    and sleep: "\<And>d s. slept (rtSleep r d s) = slept s @ [d]"
  shows "slept (snd (loop r fn attempt s)) =
    slept s @ map (delayOf r) [attempt..rtMaxAttempts r - 1]"
proof (induction "nat (rtMaxAttempts r + 1 - attempt)" arbitrary: attempt s)
  case 0
  then show ?case by (subst loop_unfold) (simp add: upto.simps)
next
  case (Suc n)
  then have le: "attempt \<le> rtMaxAttempts r" by simp
  from fails [of s] obtain e s1 where
    fn: "fn s = (Err e, s1)" "\<not> errIs e ErrExit" "slept s1 = slept s" by blast
  let ?s2 = "runHook (rtOnFailed r) s1"
  let ?s3 = "if attempt < rtMaxAttempts r then rtSleep r (delayOf r attempt) ?s2 else ?s2"
  from Suc.hyps(2) have dec: "n = nat (rtMaxAttempts r + 1 - (attempt + 1))" by arith
  have eq: "loop r fn attempt s = loop r fn (attempt + 1) ?s3"
    using fn le by (subst loop_unfold) (simp add: Let_def)
  show ?case
  proof (cases "attempt < rtMaxAttempts r")
    case True
    then have "[attempt..rtMaxAttempts r - 1] = attempt # [attempt + 1..rtMaxAttempts r - 1]"
      by (simp add: upto.simps)
    with True Suc.hyps(1) [OF dec, of ?s3] fn show ?thesis
      unfolding eq by (simp add: hook sleep)
  next
    case False
    with Suc.hyps(1) [OF dec, of ?s3] fn le show ?thesis
      unfolding eq by (simp add: hook upto.simps)
  qed
qed

end

interpretation lin: bounded_retry linearLoop "\<lambda>r _. rtDelay r"
  "\<lambda>r. ''linear retry failed after '' @ showInt (rtMaxAttempts r) @ '' attempts''"
  by unfold_locales (rule linearLoop.simps)

interpretation expo: bounded_retry backoffLoop "\<lambda>r. backoffDelay (rtDelay r)"
  "\<lambda>r. ''backoff retry failed after '' @ showInt (rtMaxAttempts r) @ '' attempts''"
  by unfold_locales (rule backoffLoop.simps)

section \<open>Properties of the package\<close>

text \<open>The words of the doubling delays add up: the shift is a multiplication by a power of two.\<close>

lemma backoffDelay_power: "1 \<le> k \<Longrightarrow> backoffDelay d k = d * 2 ^ nat (k - 1)"
  by (simp add: backoffDelay_def push_bit_eq_mult)

lemma upto_snoc: "i \<le> j \<Longrightarrow> [i..j] = [i..j - 1] @ [j]"
  by (rule upto_rec2)

lemma backoff_sum:
  "sum_list (map (backoffDelay d) [1..int n]) = d * (2 ^ n - 1)"
proof (induction n)
  case 0
  then show ?case by simp
next
  case (Suc n)
  have "[1..int (Suc n)] = [1..int n] @ [int n + 1]"
    using upto_snoc [of 1 "int n + 1"] by (simp add: add.commute)
  with Suc show ?case by (simp add: backoffDelay_power algebra_simps)
qed

text \<open>The infinite policy: the loop ends with nil as soon as the context is done.\<close>

lemma infiniteLoop_done: "isDone s \<Longrightarrow> infiniteLoop r isDone fn s = Some (Val (), s)"
  by (subst infiniteLoop.simps) simp

text \<open>How the loop can end: cancelled, with a successful call, with \<open>ErrExit\<close>, or in a panic.\<close>

definition retryEnd :: "('s \<Rightarrow> bool) \<Rightarrow> 's act \<Rightarrow> unit outcome \<times> 's \<Rightarrow> bool" where
  "retryEnd isDone fn y \<longleftrightarrow>
     (case y of
        (Val u, s') \<Rightarrow> isDone s' \<or> (\<exists>s0. fn s0 = (Val (), s'))
      | (Err e, s') \<Rightarrow> errIs e ErrExit
      | (Panic p, s') \<Rightarrow> True)"

lemma infiniteLoop_end: "infiniteLoop r isDone fn s = Some y \<Longrightarrow> retryEnd isDone fn y"
proof (rule infiniteLoop.raw_induct [where P = "\<lambda>r isDone fn s y. retryEnd isDone fn y"])
  fix loop :: "'a retry \<Rightarrow> ('a \<Rightarrow> bool) \<Rightarrow> 'a act \<Rightarrow> 'a \<Rightarrow> (unit outcome \<times> 'a) option"
  fix r isDone fn s y
  assume IH: "\<And>r isDone fn s y. loop r isDone fn s = Some y \<Longrightarrow> retryEnd isDone fn y"
    and body: "(if isDone s then Some (Val (), s)
      else (case fn s of (Val u, s1) \<Rightarrow> Some (Val (), s1) | (Err e, s1) \<Rightarrow>
            (let s2 = runHook (rtOnFailed r) s1
             in if errIs e ErrExit then Some (Err e, s2)
                else loop r isDone fn (rtSleep r (rtDelay r) s2))
        | (Panic p, s1) \<Rightarrow> Some (Panic p, s1))) = Some y"
  show "retryEnd isDone fn y"
  proof (cases "isDone s")
    case True
    with body show ?thesis by (auto simp: retryEnd_def)
  next
    case False
    obtain res s1 where fn: "fn s = (res, s1)" by (cases "fn s")
    from body False fn show ?thesis
      by (cases res) (auto simp: retryEnd_def Let_def split: if_split_asm dest: IH)
  qed
qed

text \<open>The bounded policies of \<open>Do\<close>, with what they share.\<close>

definition boundedPolicy :: "int \<Rightarrow> bool" where
  "boundedPolicy p \<longleftrightarrow> p = PolicyLinear \<or> p = PolicyBackoff"

definition pauses :: "'s retry \<Rightarrow> duration list" where
  "pauses r = (if rtPolicy r = PolicyLinear then replicate (nat (rtMaxAttempts r - 1)) (rtDelay r)
               else map (backoffDelay (rtDelay r)) [1..rtMaxAttempts r - 1])"

lemma runHook_view: "(\<And>f s. h = Some f \<Longrightarrow> v (f s) = v s) \<Longrightarrow> v (runHook h s) = v s"
  by (simp add: runHook_def split: option.split)

lemma retryDo_bounded:
  "boundedPolicy (rtPolicy r) \<Longrightarrow> retryDo r (Some fn) s =
     Some (case (if rtPolicy r = PolicyLinear then linearRetry r fn s else backoffRetry r fn s) of
             (Val u, s1) \<Rightarrow> (Val u, runHook (rtOnSuccess r) s1) | (res, s1) \<Rightarrow> (res, s1))"
  by (auto simp: retryDo_def boundedPolicy_def policy_defs split: prod.split outcome.split)

lemma map_const_upto: "map (\<lambda>_. x) [1..n] = replicate (nat n) x"
  by (simp add: map_replicate_const)

text \<open>
  A function that always fails with an ordinary error is called exactly \<open>maxAttempts\<close> times by
  the linear and the backoff policy, the pauses between the calls are the constant delay or its
  doublings (none after the last call), and \<open>Do\<close> returns an error. Nothing else is slept or called.
\<close>

theorem retry_attempts_exhausted:
  fixes calls :: "'s \<Rightarrow> nat" and slept :: "'s \<Rightarrow> duration list"
  assumes "boundedPolicy (rtPolicy r)"
    and fails: "\<And>s. \<exists>e s1. fn s = (Err e, s1) \<and> \<not> errIs e ErrExit \<and> calls s1 = Suc (calls s) \<and> slept s1 = slept s"
    and hook: "\<And>f s. rtOnFailed r = Some f \<Longrightarrow> calls (f s) = calls s \<and> slept (f s) = slept s"
    and sleep: "\<And>d s. calls (rtSleep r d s) = calls s \<and> slept (rtSleep r d s) = slept s @ [d]"
  shows "\<exists>m s'. retryDo r (Some fn) s = Some (Err (ErrText m), s') \<and>
     calls s' = calls s + nat (rtMaxAttempts r) \<and> slept s' = slept s @ pauses r"
proof -
  have h: "calls (runHook (rtOnFailed r) s) = calls s" "slept (runHook (rtOnFailed r) s) = slept s" for s
    using hook by (auto intro: runHook_view)
  have f1: "\<exists>e s1. fn s = (Err e, s1) \<and> \<not> errIs e ErrExit \<and> calls s1 = Suc (calls s)"
    and f2: "\<exists>e s1. fn s = (Err e, s1) \<and> \<not> errIs e ErrExit \<and> slept s1 = slept s" for s
    using fails [of s] by blast+
  have sl: "calls (rtSleep r d s) = calls s" "slept (rtSleep r d s) = slept s @ [d]" for d s
    using sleep by auto
  note lin_end = lin.all_fail [where calls = calls and fn = fn and r = r, OF f1 h(1) sl(1), of 1 s]
    lin.total_sleep [where slept = slept and fn = fn and r = r, OF f2 h(2) sl(2), of 1 s]
  note exp_end = expo.all_fail [where calls = calls and fn = fn and r = r, OF f1 h(1) sl(1), of 1 s]
    expo.total_sleep [where slept = slept and fn = fn and r = r, OF f2 h(2) sl(2), of 1 s]
  from lin_end exp_end show ?thesis
    unfolding retryDo_bounded [OF assms(1)] linearRetry_def backoffRetry_def pauses_def
    by (cases "linearLoop r fn 1 s"; cases "backoffLoop r fn 1 s") (simp add: map_const_upto)
qed

text \<open>A function that counts its calls and fails.\<close>

definition countedFail :: "(nat \<times> duration list) act" where
  "countedFail s = (Err (ErrText ''x''), (Suc (fst s), snd s))"

definition demoRetry :: "int \<Rightarrow> (nat \<times> duration list) retry" where
  "demoRetry p = newRetry (\<lambda>d s. (fst s, snd s @ [d])) [withPolicy p, withMaxAttempts 4]"

theorem retry_attempts_exhausted_witness:
  "\<exists>m s'. retryDo (demoRetry PolicyBackoff) (Some countedFail) (0, []) = Some (Err (ErrText m), s') \<and>
     fst s' = 0 + nat (rtMaxAttempts (demoRetry PolicyBackoff)) \<and> snd s' = snd (0, []) @ pauses (demoRetry PolicyBackoff)"
  using retry_attempts_exhausted [of "demoRetry PolicyBackoff" countedFail fst snd "(0, [])"]
  by (simp add: boundedPolicy_def demoRetry_def newRetry_def withPolicy_def withMaxAttempts_def countedFail_def)

text \<open>
  The doubling pauses of the backoff policy add up to \<open>2 ^ (maxAttempts - 1) - 1\<close> delays.
\<close>

theorem backoff_total_pause:
  assumes "rtPolicy r = PolicyBackoff" and "1 \<le> rtMaxAttempts r"
  shows "sum_list (pauses r) = rtDelay r * (2 ^ nat (rtMaxAttempts r - 1) - 1)"
  using assms backoff_sum [of "rtDelay r" "nat (rtMaxAttempts r - 1)"]
  by (simp add: pauses_def policy_defs)

theorem backoff_total_pause_witness:
  "sum_list (pauses (demoRetry PolicyBackoff)) = 7 * second"
  using backoff_total_pause [of "demoRetry PolicyBackoff"]
  by (simp add: demoRetry_def newRetry_def withPolicy_def withMaxAttempts_def)

text \<open>
  \<open>Do\<close> returns nil under a bounded policy only when a call of the function returned nil, and
  the success callback has then run on the state that this call left.
\<close>

theorem retry_nil_is_success:
  assumes "boundedPolicy (rtPolicy r)" and "retryDo r (Some fn) s = Some (Val u, s')"
  shows "\<exists>s0 s1. fn s0 = (Val u, s1) \<and> s' = runHook (rtOnSuccess r) s1"
  using assms(2) unfolding retryDo_bounded [OF assms(1)] linearRetry_def backoffRetry_def
  by (auto split: prod.split_asm outcome.split_asm if_split_asm) (blast dest: lin.nil_result expo.nil_result)+

theorem retry_nil_is_success_witness:
  "\<exists>s0 s1. (\<lambda>s :: nat \<times> duration list. (Val (), (Suc (fst s), snd s))) s0 = (Val (), s1) \<and> (1, []) = runHook None s1"
  using retry_nil_is_success [of "demoRetry PolicyLinear" "\<lambda>s. (Val (), (Suc (fst s), snd s))" "(0, [])" "()" "(1, [])"]
  by (simp add: boundedPolicy_def demoRetry_def newRetry_def withPolicy_def withMaxAttempts_def
      retryDo_bounded linearRetry_def linearLoop.simps [of _ _ 1] runHook_def)

text \<open>
  An error that wraps \<open>ErrExit\<close> ends every policy at once: \<open>Do\<close> returns that error after one
  call of the function and one of the failure callback.
\<close>

theorem retry_exit_is_final:
  assumes "1 \<le> rtMaxAttempts r" and "validatePolicy (rtPolicy r) = None"
    and "rtCtx r = Some isDone" and "\<not> isDone s"
    and "fn s = (Err e, s1)" and "errIs e ErrExit"
  shows "retryDo r (Some fn) s = Some (Err e, runHook (rtOnFailed r) s1)"
proof -
  have "infiniteLoop r isDone fn s = Some (Err e, runHook (rtOnFailed r) s1)"
    using assms(4-6) by (subst infiniteLoop.simps) (simp add: Let_def)
  with assms lin.exit_stops [OF assms(1), of fn s e s1] expo.exit_stops [OF assms(1), of fn s e s1]
  show ?thesis
    by (auto simp: retryDo_def linearRetry_def backoffRetry_def infiniteRetry_def validatePolicy_def
        split: if_split_asm)
qed

theorem retry_exit_is_final_witness:
  "retryDo (withContext (\<lambda>_. False) (demoRetry PolicyInfinite)) (Some (\<lambda>s. (Err (Wrapf ''x: '' ErrExit), s))) (0, [])
     = Some (Err (Wrapf ''x: '' ErrExit), (0, []))"
  using retry_exit_is_final [of "withContext (\<lambda>_. False) (demoRetry PolicyInfinite)" "\<lambda>_. False" "(0, [])"
      "\<lambda>s. (Err (Wrapf ''x: '' ErrExit), s)" "Wrapf ''x: '' ErrExit" "(0, [])"]
  by (simp add: demoRetry_def newRetry_def withPolicy_def withMaxAttempts_def withContext_def
      validatePolicy_def runHook_def policy_defs)

text \<open>
  Under the infinite policy nil does not mean success: when the context is done before the first
  attempt the function is never called, yet \<open>Do\<close> returns nil and runs the success callback.
\<close>

theorem infinite_retry_cancelled_returns_nil:
  assumes "rtPolicy r = PolicyInfinite" and "rtCtx r = Some isDone" and "isDone s"
  shows "retryDo r (Some fn) s = Some (Val (), runHook (rtOnSuccess r) s)"
  using assms by (simp add: retryDo_def infiniteRetry_def infiniteLoop_done policy_defs)

theorem infinite_retry_cancelled_returns_nil_witness:
  "retryDo (withOnSuccessFn Suc (withContext (\<lambda>_. True) (newRetry (\<lambda>_ s. s) [withPolicy PolicyInfinite])))
     (Some (\<lambda>s. (Err (ErrText ''never called''), s))) (0 :: nat) = Some (Val (), 1)"
  using infinite_retry_cancelled_returns_nil
    [of "withOnSuccessFn Suc (withContext (\<lambda>_. True) (newRetry (\<lambda>_ s. s) [withPolicy PolicyInfinite]))" "\<lambda>_. True" "0 :: nat"]
  by (simp add: newRetry_def withPolicy_def withOnSuccessFn_def withContext_def runHook_def)

end
