(* ===== verification/Constants.thy ===== *)
theory Constants
  imports Prelude
begin

text \<open>
  \<open>pkg/walletsdk/wconstants\<close>, \<open>internal/constants\<close> and the conversions of \<open>internal/models\<close>: the
  blockchains with their properties, the statuses of a transfer, and how long the machines wait for
  confirmations. A Go string type with named constants is a datatype with one more constructor for
  every other string. Confirmations are \<open>uint64\<close> and durations \<open>int64\<close>, both with wrap-around.
\<close>

section \<open>Blockchains\<close>

datatype blockchain_type =
    BlockchainTypeTron
  | BlockchainTypeEthereum | BlockchainTypeBinanceSmartChain | BlockchainTypePolygon
  | BlockchainTypeArbitrum | BlockchainTypeOptimism | BlockchainTypeLinea
  | BlockchainTypeBitcoin | BlockchainTypeLitecoin | BlockchainTypeBitcoinCash | BlockchainTypeDogecoin
  | OtherBlockchain string

definition AllBlockchains :: "blockchain_type list" where
  "AllBlockchains =
     [BlockchainTypeTron, BlockchainTypeEthereum, BlockchainTypeBinanceSmartChain,
      BlockchainTypePolygon, BlockchainTypeArbitrum, BlockchainTypeOptimism, BlockchainTypeLinea,
      BlockchainTypeBitcoin, BlockchainTypeLitecoin, BlockchainTypeBitcoinCash, BlockchainTypeDogecoin]"

definition EVMBlockchains :: "blockchain_type list" where
  "EVMBlockchains =
     [BlockchainTypeEthereum, BlockchainTypeBinanceSmartChain, BlockchainTypePolygon,
      BlockchainTypeArbitrum, BlockchainTypeOptimism, BlockchainTypeLinea]"

fun blockchainString :: "blockchain_type \<Rightarrow> string" where
  "blockchainString BlockchainTypeTron = ''tron''"
| "blockchainString BlockchainTypeEthereum = ''ethereum''"
| "blockchainString BlockchainTypeBinanceSmartChain = ''bsc''"
| "blockchainString BlockchainTypePolygon = ''polygon''"
| "blockchainString BlockchainTypeArbitrum = ''arbitrum''"
| "blockchainString BlockchainTypeOptimism = ''optimism''"
| "blockchainString BlockchainTypeLinea = ''linea''"
| "blockchainString BlockchainTypeBitcoin = ''bitcoin''"
| "blockchainString BlockchainTypeLitecoin = ''litecoin''"
| "blockchainString BlockchainTypeBitcoinCash = ''bitcoincash''"
| "blockchainString BlockchainTypeDogecoin = ''dogecoin''"
| "blockchainString (OtherBlockchain s) = s"

fun blockchainValid :: "blockchain_type \<Rightarrow> bool" where
  "blockchainValid (OtherBlockchain s) = False"
| "blockchainValid b = True"

fun getAssetIdentifier :: "blockchain_type \<Rightarrow> string" where
  "getAssetIdentifier BlockchainTypeTron = ''trx''"
| "getAssetIdentifier BlockchainTypeEthereum = ''eth''"
| "getAssetIdentifier BlockchainTypeBinanceSmartChain = ''bnb''"
| "getAssetIdentifier BlockchainTypePolygon = ''pol''"
| "getAssetIdentifier BlockchainTypeArbitrum = ''eth''"
| "getAssetIdentifier BlockchainTypeOptimism = ''eth''"
| "getAssetIdentifier BlockchainTypeLinea = ''eth''"
| "getAssetIdentifier BlockchainTypeBitcoin = ''btc''"
| "getAssetIdentifier BlockchainTypeLitecoin = ''ltc''"
| "getAssetIdentifier BlockchainTypeBitcoinCash = ''bch''"
| "getAssetIdentifier BlockchainTypeDogecoin = ''doge''"
| "getAssetIdentifier (OtherBlockchain s) = ''''"

fun isEVM :: "blockchain_type \<Rightarrow> bool" where
  "isEVM BlockchainTypeEthereum = True"
| "isEVM BlockchainTypeBinanceSmartChain = True"
| "isEVM BlockchainTypePolygon = True"
| "isEVM BlockchainTypeArbitrum = True"
| "isEVM BlockchainTypeOptimism = True"
| "isEVM BlockchainTypeLinea = True"
| "isEVM _ = False"

fun isBitcoinLike :: "blockchain_type \<Rightarrow> bool" where
  "isBitcoinLike BlockchainTypeBitcoin = True"
| "isBitcoinLike BlockchainTypeLitecoin = True"
| "isBitcoinLike BlockchainTypeBitcoinCash = True"
| "isBitcoinLike BlockchainTypeDogecoin = True"
| "isBitcoinLike _ = False"

definition isSystemTransactionsSupported :: "blockchain_type \<Rightarrow> bool" where
  "isSystemTransactionsSupported b \<longleftrightarrow> isEVM b \<or> b = BlockchainTypeTron"

section \<open>Confirmations\<close>

definition minConfirmations :: "blockchain_type \<Rightarrow> 64 word option" where
  "minConfirmations = Map.empty
     (BlockchainTypeTron \<mapsto> 19,
      BlockchainTypeEthereum \<mapsto> 12, BlockchainTypeBinanceSmartChain \<mapsto> 20,
      BlockchainTypePolygon \<mapsto> 12, BlockchainTypeArbitrum \<mapsto> 20,
      BlockchainTypeOptimism \<mapsto> 20, BlockchainTypeLinea \<mapsto> 20,
      BlockchainTypeBitcoin \<mapsto> 1, BlockchainTypeLitecoin \<mapsto> 1,
      BlockchainTypeBitcoinCash \<mapsto> 1, BlockchainTypeDogecoin \<mapsto> 1)"

definition releaseBlockTime :: "blockchain_type \<Rightarrow> duration option" where
  "releaseBlockTime = Map.empty
     (BlockchainTypeTron \<mapsto> 3 * second, BlockchainTypeEthereum \<mapsto> 12 * second,
      BlockchainTypeBinanceSmartChain \<mapsto> 750 * millisecond, BlockchainTypePolygon \<mapsto> 2 * second,
      BlockchainTypeArbitrum \<mapsto> 250 * millisecond, BlockchainTypeOptimism \<mapsto> 2 * second,
      BlockchainTypeLinea \<mapsto> 2 * second + millisecond * 500)"

definition getMinConfirmations :: "blockchain_type \<Rightarrow> 64 word" where
  "getMinConfirmations b = (case minConfirmations b of Some mc \<Rightarrow> mc | None \<Rightarrow> 1)"

text \<open>
  \<open>int64(required - current)\<close> is the difference read as a signed number; the two products are
  products of \<open>time.Duration\<close> values.
\<close>

definition confirmationsTimeoutWithRequired :: "blockchain_type \<Rightarrow> 64 word \<Rightarrow> 64 word \<Rightarrow> duration" where
  "confirmationsTimeoutWithRequired b required current =
     (let left = required - current in
      if sint left > 0 then
        (case releaseBlockTime b of
           Some release \<Rightarrow> release * left + second * 2
         | None \<Rightarrow> left * 10 * second)
      else 0)"

definition confirmationsTimeout :: "blockchain_type \<Rightarrow> 64 word \<Rightarrow> duration" where
  "confirmationsTimeout b confirmations =
     (let left = getMinConfirmations b - confirmations in
      if sint left > 0 then
        (case releaseBlockTime b of
           Some release \<Rightarrow> release * left + second * 2
         | None \<Rightarrow> left * 10 * second)
      else 0)"

section \<open>Statuses and kinds\<close>

datatype transfer_status =
    TransferStatusNew | TransferStatusPending | TransferStatusProcessing | TransferStatusInMempool
  | TransferStatusUnconfirmed | TransferStatusCompleted | TransferStatusFailed | TransferStatusFrozen
  | OtherTransferStatus string

fun transferStatusString :: "transfer_status \<Rightarrow> string" where
  "transferStatusString TransferStatusNew = ''new''"
| "transferStatusString TransferStatusPending = ''pending''"
| "transferStatusString TransferStatusProcessing = ''processing''"
| "transferStatusString TransferStatusInMempool = ''in_mempool''"
| "transferStatusString TransferStatusUnconfirmed = ''unconfirmed''"
| "transferStatusString TransferStatusCompleted = ''completed''"
| "transferStatusString TransferStatusFailed = ''failed''"
| "transferStatusString TransferStatusFrozen = ''frozen''"
| "transferStatusString (OtherTransferStatus s) = s"

fun transferStatusValid :: "transfer_status \<Rightarrow> bool" where
  "transferStatusValid (OtherTransferStatus s) = False"
| "transferStatusValid _ = True"

definition AllTransferStatuses :: "transfer_status list" where
  "AllTransferStatuses =
     [TransferStatusNew, TransferStatusPending, TransferStatusProcessing, TransferStatusInMempool,
      TransferStatusUnconfirmed, TransferStatusCompleted, TransferStatusFailed, TransferStatusFrozen]"

text \<open>The status of the RPC interface, and the conversion to it.\<close>

datatype pb_status =
    STATUS_UNSPECIFIED | STATUS_NEW | STATUS_PENDING | STATUS_PROCESSING | STATUS_IN_MEMPOOL
  | STATUS_UNCONFIRMED | STATUS_COMPLETED | STATUS_FAILED | STATUS_FROZEN

fun convertTransferStatusToPb :: "transfer_status \<Rightarrow> pb_status" where
  "convertTransferStatusToPb TransferStatusNew = STATUS_NEW"
| "convertTransferStatusToPb TransferStatusProcessing = STATUS_PROCESSING"
| "convertTransferStatusToPb TransferStatusInMempool = STATUS_IN_MEMPOOL"
| "convertTransferStatusToPb TransferStatusUnconfirmed = STATUS_UNCONFIRMED"
| "convertTransferStatusToPb TransferStatusCompleted = STATUS_COMPLETED"
| "convertTransferStatusToPb TransferStatusFailed = STATUS_FAILED"
| "convertTransferStatusToPb TransferStatusFrozen = STATUS_FROZEN"
| "convertTransferStatusToPb _ = STATUS_UNSPECIFIED"

datatype wallet_type = WalletTypeCold | WalletTypeHot | WalletTypeProcessing | OtherWalletType string

fun walletTypeString :: "wallet_type \<Rightarrow> string" where
  "walletTypeString WalletTypeCold = ''cold''"
| "walletTypeString WalletTypeHot = ''hot''"
| "walletTypeString WalletTypeProcessing = ''processing''"
| "walletTypeString (OtherWalletType s) = s"

fun walletTypeValid :: "wallet_type \<Rightarrow> bool" where
  "walletTypeValid (OtherWalletType s) = False"
| "walletTypeValid _ = True"

datatype webhook_status = WebhookStatusNew | WebhookStatusSent | OtherWebhookStatus string

fun webhookStatusString :: "webhook_status \<Rightarrow> string" where
  "webhookStatusString WebhookStatusNew = ''new''"
| "webhookStatusString WebhookStatusSent = ''sent''"
| "webhookStatusString (OtherWebhookStatus s) = s"

fun webhookStatusValid :: "webhook_status \<Rightarrow> bool" where
  "webhookStatusValid (OtherWebhookStatus s) = False"
| "webhookStatusValid _ = True"

datatype webhook_kind = WebhookKindTransfer | WebhookKindDeposit | WebhookKindTransferStatus | OtherWebhookKind string

fun webhookKindString :: "webhook_kind \<Rightarrow> string" where
  "webhookKindString WebhookKindTransfer = ''transfer''"
| "webhookKindString WebhookKindDeposit = ''deposit''"
| "webhookKindString WebhookKindTransferStatus = ''transfer_status''"
| "webhookKindString (OtherWebhookKind s) = s"

datatype tron_kind = TronTransferKindBurnTRX | TronTransferKindResources | TronTransferKindCloudDelegate

fun tronKindString :: "tron_kind \<Rightarrow> string" where
  "tronKindString TronTransferKindBurnTRX = ''burntrx''"
| "tronKindString TronTransferKindResources = ''resources''"
| "tronKindString TronTransferKindCloudDelegate = ''cloud_delegate''"

definition tronKindValid :: "string \<Rightarrow> bool" where
  "tronKindValid s \<longleftrightarrow>
     s = tronKindString TronTransferKindBurnTRX \<or> s = tronKindString TronTransferKindResources \<or>
     s = tronKindString TronTransferKindCloudDelegate"

end
