(* ===== verification/Workflow.thy ===== *)
theory Workflow
  imports Prelude
begin

text \<open>
  \<open>internal/workflow\<close>: the engine that runs the stages and steps of a transfer, skips what an
  earlier run has completed, jumps to a named stage or step, and keeps the status of every step.

  The state of the engine is the record \<open>workflow\<close>; a finite state machine extends it with its
  own fields, and everything here is polymorphic in that extension. The function fields of the Go
  structs \<open>Workflow\<close>, \<open>Stage\<close> and \<open>Step\<close> do not change during a run and stand in a record of
  their own, \<open>hooks\<close>, in which a step is named by its indices. Slices of pointers to stages and
  steps are lists of the records; the pointer \<open>Step.State\<close> is an \<open>option\<close>, since it is nil until
  a snapshot or \<open>init\<close> has set it, and reading through it before is a panic.
\<close>

section \<open>Data\<close>

text \<open>\<open>StepStatus\<close> is a string; \<open>OtherStatus\<close> holds every other one, the zero value included.\<close>

datatype step_status =
    StatusPending | StatusProcessing | StatusCompleted | StatusFailed | StatusSuspended
  | StatusSkipped | OtherStatus string

fun validStatus :: "step_status \<Rightarrow> bool" where
  "validStatus StatusPending = True"
| "validStatus StatusProcessing = True"
| "validStatus StatusCompleted = True"
| "validStatus StatusFailed = True"
| "validStatus StatusSuspended = True"
| "validStatus StatusSkipped = True"
| "validStatus (OtherStatus s) = False"

record step_state =
  PreviousStage :: "string option"
  PreviousStep :: "string option"
  CurrentStage :: string
  CurrentStep :: string
  NextStageOf :: "string option"
  NextStepOf :: "string option"
  StartTime :: "int option"
  EndTime :: "int option"
  Status :: step_status
  StepError :: string
  Args :: "(string \<rightharpoonup> any_val) option"

definition newStepState :: step_state where
  "newStepState =
     \<lparr>PreviousStage = None, PreviousStep = None, CurrentStage = '''', CurrentStep = '''',
      NextStageOf = None, NextStepOf = None, StartTime = None, EndTime = None,
      Status = OtherStatus '''', StepError = '''', Args = None\<rparr>"

text \<open>The setters that do something else than an assignment. A time is an integer, 0 the zero time.\<close>

definition setPreviousStage :: "string \<Rightarrow> step_state \<Rightarrow> step_state" where
  "setPreviousStage sg s = (if sg \<noteq> '''' then s\<lparr>PreviousStage := Some sg\<rparr> else s)"

definition setPreviousStep :: "string \<Rightarrow> step_state \<Rightarrow> step_state" where
  "setPreviousStep st s = (if st \<noteq> '''' then s\<lparr>PreviousStep := Some st\<rparr> else s)"

definition setStateNextStep :: "string \<Rightarrow> step_state \<Rightarrow> step_state" where
  "setStateNextStep st s = (if st \<noteq> '''' then s\<lparr>NextStepOf := Some st\<rparr> else s)"

definition setStartTime :: "int \<Rightarrow> step_state \<Rightarrow> step_state" where
  "setStartTime t s = (if t \<noteq> 0 then s\<lparr>StartTime := Some t\<rparr> else s)"

definition setEndTime :: "int \<Rightarrow> step_state \<Rightarrow> step_state" where
  "setEndTime t s = (if t \<noteq> 0 then s\<lparr>EndTime := Some t\<rparr> else s)"

definition setStepError :: "goerr option \<Rightarrow> step_state \<Rightarrow> step_state" where
  "setStepError e s = s\<lparr>StepError := (case e of None \<Rightarrow> '''' | Some e \<Rightarrow> errStr e)\<rparr>"

definition setArgs :: "(string \<rightharpoonup> any_val) \<Rightarrow> step_state \<Rightarrow> step_state" where
  "setArgs m s = s\<lparr>Args := Some m\<rparr>"

definition setArg :: "string \<Rightarrow> any_val \<Rightarrow> step_state \<Rightarrow> step_state" where
  "setArg k v s = s\<lparr>Args := Some ((case Args s of None \<Rightarrow> Map.empty | Some m \<Rightarrow> m)(k \<mapsto> v))\<rparr>"

lemmas step_state_setters = setPreviousStage_def setPreviousStep_def setStateNextStep_def
  setStartTime_def setEndTime_def setStepError_def setArgs_def setArg_def

record workflow_state =
  IsSuspended :: bool
  IsCompleted :: bool
  IsFailed :: bool
  CustomError :: "any_val option"
  WfError :: string
  NextStage :: string
  NextStep :: string

definition newWorkflowState :: workflow_state where
  "newWorkflowState =
     \<lparr>IsSuspended = False, IsCompleted = False, IsFailed = False, CustomError = None,
      WfError = '''', NextStage = '''', NextStep = ''''\<rparr>"

definition setWfError :: "goerr option \<Rightarrow> workflow_state \<Rightarrow> workflow_state" where
  "setWfError e s = (case e of None \<Rightarrow> s | Some e \<Rightarrow> s\<lparr>WfError := errStr e\<rparr>)"

datatype retry_policy = RunWithLinear | RunWithBackoff

record step =
  spName :: string
  spTimeout :: duration
  spMaxRetries :: int
  spRetryPolicy :: "retry_policy option"
  spFinish :: bool
  spState :: "step_state option"

record stage =
  sgName :: string
  sgSteps :: "step list"

record workflow =
  wName :: string
  wState :: workflow_state
  wStages :: "stage list"
  wPrevStep :: "(nat \<times> nat) option"
  wSkipError :: bool

record snapshot =
  StepsStates :: "step_state list"
  WorkflowState :: workflow_state

text \<open>
  The function fields, for a state \<open>'s\<close>. \<open>hStopped\<close> is what \<open>w.isStopped.Load()\<close> reads,
  \<open>hCtxErr\<close> the \<open>ctx.Err()\<close> of a cancelled context, \<open>hNow\<close> and \<open>hSleep\<close> the clock.
\<close>

record 's hooks =
  hBefore :: "'s act option"
  hAfter :: "'s act option"
  hOnFailure :: "(goerr \<Rightarrow> 's act) option"
  hBeforeAll :: "(nat \<Rightarrow> nat \<Rightarrow> 's act) option"
  hAfterAll :: "(nat \<Rightarrow> nat \<Rightarrow> 's act) option"
  hStageBefore :: "nat \<Rightarrow> 's act option"
  hStageAfter :: "nat \<Rightarrow> 's act option"
  hFunc :: "nat \<Rightarrow> nat \<Rightarrow> 's act option"
  hStepBefore :: "nat \<Rightarrow> nat \<Rightarrow> 's act option"
  hStepAfter :: "nat \<Rightarrow> nat \<Rightarrow> 's act option"
  hStopped :: "'s \<Rightarrow> bool"
  hCtxErr :: "'s \<Rightarrow> goerr"
  hNow :: "'s \<Rightarrow> int"
  hSleep :: "duration \<Rightarrow> 's \<Rightarrow> 's"

section \<open>Access\<close>

definition stageAt :: "('a workflow_scheme) \<Rightarrow> nat \<Rightarrow> stage option" where
  "stageAt w i = (if i < length (wStages w) then Some (wStages w ! i) else None)"

definition stepAt :: "('a workflow_scheme) \<Rightarrow> nat \<Rightarrow> nat \<Rightarrow> step option" where
  "stepAt w i j =
     (case stageAt w i of None \<Rightarrow> None
      | Some sg \<Rightarrow> if j < length (sgSteps sg) then Some (sgSteps sg ! j) else None)"

definition statusAt :: "('a workflow_scheme) \<Rightarrow> nat \<Rightarrow> nat \<Rightarrow> step_status option" where
  "statusAt w i j =
     (case stepAt w i j of None \<Rightarrow> None | Some st \<Rightarrow> map_option Status (spState st))"

definition updStep :: "nat \<Rightarrow> nat \<Rightarrow> (step \<Rightarrow> step) \<Rightarrow> 'a workflow_scheme \<Rightarrow> 'a workflow_scheme" where
  "updStep i j f w =
     (case stepAt w i j of None \<Rightarrow> w
      | Some st \<Rightarrow> w\<lparr>wStages := (wStages w)
          [i := (wStages w ! i)\<lparr>sgSteps := (sgSteps (wStages w ! i))[j := f st]\<rparr>]\<rparr>)"

text \<open>An assignment through \<open>step.State\<close>.\<close>

definition updState :: "nat \<Rightarrow> nat \<Rightarrow> (step_state \<Rightarrow> step_state) \<Rightarrow> 'a workflow_scheme \<Rightarrow> 'a workflow_scheme" where
  "updState i j f = updStep i j (\<lambda>st. st\<lparr>spState := map_option f (spState st)\<rparr>)"

definition setNextStage :: "string \<Rightarrow> 'a workflow_scheme \<Rightarrow> 'a workflow_scheme" where
  "setNextStage sg w = w\<lparr>wState := (wState w)\<lparr>NextStage := sg\<rparr>\<rparr>"

definition setNextStep :: "string \<Rightarrow> 'a workflow_scheme \<Rightarrow> 'a workflow_scheme" where
  "setNextStep st w = w\<lparr>wState := (wState w)\<lparr>NextStep := st\<rparr>\<rparr>"

definition checkStatus :: "'a workflow_scheme \<Rightarrow> bool" where
  "checkStatus w \<longleftrightarrow> IsCompleted (wState w) \<or> IsSuspended (wState w) \<or> IsFailed (wState w)"

section \<open>Initialisation\<close>

definition setDefaultValues :: "step \<Rightarrow> step" where
  "setDefaultValues st =
     (let st = (if spTimeout st = 0 then st\<lparr>spTimeout := second\<rparr> else st);
          st = (if spMaxRetries st = 0 then st\<lparr>spMaxRetries := 1\<rparr> else st)
      in (if spRetryPolicy st = None then st\<lparr>spRetryPolicy := Some RunWithLinear\<rparr> else st))"

definition initStep :: "string \<Rightarrow> step \<Rightarrow> step" where
  "initStep sg st =
     (let ss = (case spState st of None \<Rightarrow> newStepState | Some ss \<Rightarrow> ss)
      in (setDefaultValues st)\<lparr>spState := Some (ss\<lparr>CurrentStage := sg, CurrentStep := spName st\<rparr>)\<rparr>)"

text \<open>
  The two loops of \<open>init\<close>: the steps before the one whose name is taken have been initialised
  when the error is returned.
\<close>

fun initSteps :: "string \<Rightarrow> string list \<Rightarrow> step list \<Rightarrow> goerr option \<times> step list" where
  "initSteps sg seen [] = (None, [])"
| "initSteps sg seen (st # sts) =
     (if spName st \<in> set seen
      then (Some (ErrText (''step ['' @ spName st @ ''] is not unique in stage ['' @ sg @ '']'')), st # sts)
      else (case initSteps sg (spName st # seen) sts of (e, sts') \<Rightarrow> (e, initStep sg st # sts')))"

fun initStages :: "stage list \<Rightarrow> goerr option \<times> stage list" where
  "initStages [] = (None, [])"
| "initStages (sg # sgs) =
     (case initSteps (sgName sg) [] (sgSteps sg) of
        (Some e, sts) \<Rightarrow> (Some e, sg\<lparr>sgSteps := sts\<rparr> # sgs)
      | (None, sts) \<Rightarrow>
          (case initStages sgs of (e, sgs') \<Rightarrow> (e, sg\<lparr>sgSteps := sts\<rparr> # sgs')))"

definition initWorkflow :: "('a workflow_scheme) act" where
  "initWorkflow w =
     (case initStages (wStages w) of
        (None, sgs) \<Rightarrow> (Val (), w\<lparr>wStages := sgs\<rparr>)
      | (Some e, sgs) \<Rightarrow> (Err e, w\<lparr>wStages := sgs\<rparr>))"

section \<open>Retry policies of a step\<close>

text \<open>
  \<open>RunWithLinear\<close>; \<open>None\<close> is a loop that never ends, which needs a negative \<open>MaxRetries\<close>.
  The result of a loop without a single round is the zero value of \<open>err\<close>.
\<close>

partial_function (option) runWithLinear ::
  "(duration \<Rightarrow> 's \<Rightarrow> 's) \<Rightarrow> int \<Rightarrow> duration \<Rightarrow> 's act \<Rightarrow> unit outcome \<Rightarrow> int \<Rightarrow> 's \<Rightarrow> (unit outcome \<times> 's) option" where
  "runWithLinear sleep maxRetries timeout fn err retries s =
     (if retries < maxRetries \<or> maxRetries < 0 then
        (case fn s of
           (Val u, s1) \<Rightarrow> Some (Val (), s1)
         | (Panic p, s1) \<Rightarrow> Some (Panic p, s1)
         | (Err e, s1) \<Rightarrow>
             runWithLinear sleep maxRetries timeout fn (Err e) (retries + 1)
               (if retries + 1 < maxRetries then sleep timeout s1 else s1))
      else Some (err, s))"

partial_function (option) runWithBackoff ::
  "(duration \<Rightarrow> 's \<Rightarrow> 's) \<Rightarrow> int \<Rightarrow> duration \<Rightarrow> 's act \<Rightarrow> unit outcome \<Rightarrow> int \<Rightarrow> 's \<Rightarrow> (unit outcome \<times> 's) option" where
  "runWithBackoff sleep maxRetries backoff fn err retries s =
     (if retries < maxRetries \<or> maxRetries < 0 then
        (case fn s of
           (Val u, s1) \<Rightarrow> Some (Val (), s1)
         | (Panic p, s1) \<Rightarrow> Some (Panic p, s1)
         | (Err e, s1) \<Rightarrow>
             (if retries + 1 < maxRetries
              then runWithBackoff sleep maxRetries (2 * backoff) fn (Err e) (retries + 1) (sleep backoff s1)
              else runWithBackoff sleep maxRetries backoff fn (Err e) (retries + 1) s1))
      else Some (err, s))"

definition runPolicy :: "'s hooks \<Rightarrow> retry_policy \<Rightarrow> step \<Rightarrow> 's act \<Rightarrow> 's \<Rightarrow> (unit outcome \<times> 's) option" where
  "runPolicy h p st fn s =
     (case p of
        RunWithLinear \<Rightarrow> runWithLinear (hSleep h) (spMaxRetries st) (spTimeout st) fn (Val ()) 0 s
      | RunWithBackoff \<Rightarrow> runWithBackoff (hSleep h) (spMaxRetries st) second fn (Val ()) 0 s)"

section \<open>Steps\<close>

definition runOpt :: "'s act option \<Rightarrow> 's act" where
  "runOpt a = (case a of None \<Rightarrow> ret () | Some f \<Rightarrow> f)"

text \<open>The body of \<open>handleStep\<close> after the deferred function is set up.\<close>

definition stepEnter :: "nat \<Rightarrow> nat \<Rightarrow> 'a workflow_scheme \<Rightarrow> 'a workflow_scheme" where
  "stepEnter i j w =
     (let w1 = updState i j (\<lambda>s. s\<lparr>Status := StatusPending\<rparr>) w;
          w2 = (case wPrevStep w1 of None \<Rightarrow> w1
                | Some (ip, jp) \<Rightarrow>
                    (case stepAt w1 ip jp of None \<Rightarrow> w1
                     | Some prev \<Rightarrow>
                         (case spState prev of None \<Rightarrow> w1
                          | Some ps \<Rightarrow> updState i j (\<lambda>s. setPreviousStep (CurrentStep ps)
                              (setPreviousStage (CurrentStage ps) s)) w1)));
          w3 = w2\<lparr>wPrevStep := Some (i, j)\<rparr>
      in updState i j (\<lambda>s. s\<lparr>Status := StatusProcessing\<rparr>) w3)"

definition stepBody :: "('a workflow_scheme) hooks \<Rightarrow> nat \<Rightarrow> nat \<Rightarrow> step \<Rightarrow> string \<Rightarrow>
    'a workflow_scheme \<Rightarrow> (unit outcome \<times> 'a workflow_scheme) option" where
  "stepBody h i j st sname w0 =
     (let w = stepEnter i j w0 in
      case hFunc h i j of
        None \<Rightarrow> Some (Err (ErrText (''step ['' @ spName st @ ''] in stage ['' @ sname @ ''] has no function'')), w)
      | Some fn \<Rightarrow>
      (case spRetryPolicy st of
        None \<Rightarrow> Some (Err (ErrText (''step ['' @ spName st @ ''] in stage ['' @ sname @ ''] has no retry policy'')), w)
      | Some pol \<Rightarrow>
      (case bnd (runOpt (map_option (\<lambda>f. f i j) (hBeforeAll h))) (\<lambda>_. runOpt (hStepBefore h i j)) w of
        (Err e, w1) \<Rightarrow> Some (Err e, w1)
      | (Panic p, w1) \<Rightarrow> Some (Panic p, w1)
      | (Val _, w1) \<Rightarrow>
      (case runPolicy h pol st fn w1 of
        None \<Rightarrow> None
      | Some (Panic p, w2) \<Rightarrow> Some (Panic p, w2)
      | Some (res, w2) \<Rightarrow>
      (case bnd (runOpt (hStepAfter h i j)) (\<lambda>_. runOpt (map_option (\<lambda>f. f i j) (hAfterAll h))) w2 of
        (Err e, w3) \<Rightarrow> Some (Err e, w3)
      | (Panic p, w3) \<Rightarrow> Some (Panic p, w3)
      | (Val _, w3) \<Rightarrow>
          (case res of
             Err e \<Rightarrow> Some (Err (Wrapf (''stage ['' @ sname @ ''] failed on step ['' @ spName st @ '']: '') e), w3)
           | _ \<Rightarrow> Some (if spFinish st then Err ErrBreakStages else Val (), w3)))))))"

text \<open>The deferred function of \<open>handleStep\<close>.\<close>

definition stepFinish :: "('a workflow_scheme) hooks \<Rightarrow> nat \<Rightarrow> nat \<Rightarrow> unit outcome \<Rightarrow>
    'a workflow_scheme \<Rightarrow> 'a workflow_scheme" where
  "stepFinish h i j res w =
     (let w1 = updState i j (setEndTime (hNow h w)) w in
      case res of
        Val _ \<Rightarrow> updState i j (\<lambda>s. (setStepError None s)\<lparr>Status := StatusCompleted\<rparr>) w1
      | Err e \<Rightarrow>
          (if errIs e ErrSkipStep \<or> errIs e ErrBreakStages
           then updState i j (\<lambda>s. s\<lparr>Status := StatusSkipped\<rparr>) w1
           else updState i j (\<lambda>s. setStepError (Some e) (s\<lparr>Status := StatusFailed\<rparr>)) w1)
      | Panic p \<Rightarrow> w1)"

definition handleStep :: "('a workflow_scheme) hooks \<Rightarrow> nat \<Rightarrow> nat \<Rightarrow> 'a workflow_scheme \<Rightarrow>
    (unit outcome \<times> 'a workflow_scheme) option" where
  "handleStep h i j w =
     (case stepAt w i j of
        None \<Rightarrow> Some (Panic ''index out of range'', w)
      | Some st \<Rightarrow>
     (let next = NextStep (wState w);
          w1 = (if next \<noteq> '''' \<and> next = spName st then setNextStep '''' w else w)
      in
      if checkStatus w1 then Some (Err ErrExitWorkflow, w1)
      else
      (case spState st of
        None \<Rightarrow> Some (Panic ''nil pointer dereference'', w1)
      | Some ss \<Rightarrow>
          if Status ss = StatusCompleted then Some (Err ErrSkipStep, w1)
          else if Status ss = StatusSkipped then Some (Err ErrSkipStep, w1)
          else if Status ss = StatusSuspended then Some (Err ErrBreakStages, w1)
          else if next \<noteq> '''' \<and> next \<noteq> spName st
          then Some (Err ErrSkipStep, updState i j (\<lambda>s. s\<lparr>Status := StatusSkipped\<rparr>) w1)
          else
          (let w2 = (if next \<noteq> '''' then setNextStep '''' w1 else w1);
               w3 = updState i j (setStartTime (hNow h w2)) w2
           in (case stepBody h i j st (sgName (wStages w ! i)) w3 of
                 None \<Rightarrow> None
               | Some (Panic p, w4) \<Rightarrow> Some (Panic p, w4)
               | Some (res, w4) \<Rightarrow> Some (res, stepFinish h i j res w4))))))"

section \<open>Stages and the whole run\<close>

text \<open>The loop of \<open>handleStage\<close> over the steps with the given indices.\<close>

fun runSteps :: "('a workflow_scheme) hooks \<Rightarrow> nat \<Rightarrow> nat list \<Rightarrow> 'a workflow_scheme \<Rightarrow>
    (unit outcome \<times> 'a workflow_scheme) option" where
  "runSteps h i [] w = Some (Val (), w)"
| "runSteps h i (j # js) w =
     (if hStopped h w then Some (Err (hCtxErr h w), w)
      else (case handleStep h i j w of
          None \<Rightarrow> None
        | Some (Val _, w') \<Rightarrow> runSteps h i js w'
        | Some (Panic p, w') \<Rightarrow> Some (Panic p, w')
        | Some (Err e, w') \<Rightarrow>
            (if errIs e ErrBreakStages then Some (Err ErrBreakStages, w')
             else if errIs e ErrSkipStep then runSteps h i js w'
             else if errIs e ErrExitWorkflow then Some (Err ErrExitWorkflow, w')
             else Some (Err e, w'))))"

definition handleStage :: "('a workflow_scheme) hooks \<Rightarrow> nat \<Rightarrow> 'a workflow_scheme \<Rightarrow>
    (unit outcome \<times> 'a workflow_scheme) option" where
  "handleStage h i w =
     (case stageAt w i of
        None \<Rightarrow> Some (Panic ''index out of range'', w)
      | Some sg \<Rightarrow>
     (let next = NextStage (wState w);
          w1 = (if next \<noteq> '''' \<and> next = sgName sg then setNextStage '''' w else w)
      in
      if checkStatus w1 then Some (Err ErrExitWorkflow, w1)
      else if next \<noteq> '''' \<and> next \<noteq> sgName sg then Some (Err ErrSkipStage, w1)
      else
      (let w2 = (if next \<noteq> '''' then setNextStage '''' w1 else w1) in
       if sgSteps sg = [] then Some (Err ErrSkipStage, w2)
       else
       (case runOpt (hStageBefore h i) w2 of
          (Err e, w3) \<Rightarrow> Some (Err e, w3)
        | (Panic p, w3) \<Rightarrow> Some (Panic p, w3)
        | (Val _, w3) \<Rightarrow>
            (case runSteps h i [0..<length (sgSteps sg)] w3 of
               Some (Val _, w4) \<Rightarrow> Some (runOpt (hStageAfter h i) w4)
             | r \<Rightarrow> r)))))"

text \<open>
  How the loop of \<open>execute\<close> over the stages ends: by running off the list or by a \<open>break\<close>,
  with the \<open>stepHandlerError\<close>; or by a \<open>return\<close> of its own.
\<close>

datatype stages_end = Broke "goerr option" | Returned "goerr option" | Panicked string

fun runStages :: "('a workflow_scheme) hooks \<Rightarrow> nat list \<Rightarrow> 'a workflow_scheme \<Rightarrow>
    (stages_end \<times> 'a workflow_scheme) option" where
  "runStages h [] w = Some (Broke None, w)"
| "runStages h (i # is) w =
     (if hStopped h w then Some (Returned (Some (hCtxErr h w)), w)
      else (case handleStage h i w of
          None \<Rightarrow> None
        | Some (Val _, w') \<Rightarrow> runStages h is w'
        | Some (Panic p, w') \<Rightarrow> Some (Panicked p, w')
        | Some (Err e, w') \<Rightarrow>
            (if errIs e ErrSkipStage then runStages h is w'
             else if errIs e ErrBreakStages then Some (Broke None, w')
             else if errIs e ErrExitWorkflow then Some (Returned None, w')
             else Some (Broke (Some e), w'))))"

definition errOutcome :: "goerr option \<Rightarrow> unit outcome" where
  "errOutcome e = (case e of None \<Rightarrow> Val () | Some e \<Rightarrow> Err e)"

definition execute :: "('a workflow_scheme) hooks \<Rightarrow> 'a workflow_scheme \<Rightarrow>
    (unit outcome \<times> 'a workflow_scheme) option" where
  "execute h w =
     (case initWorkflow w of
        (Err e, w0) \<Rightarrow> Some (Err (Wrapf ''workflow init: '' e), w0)
      | (Panic p, w0) \<Rightarrow> Some (Panic p, w0)
      | (Val _, w0) \<Rightarrow>
     (if checkStatus w0 then Some (Val (), w0)
      else
     (case runOpt (hBefore h) w0 of
        (Err e, w1) \<Rightarrow> Some (Err (Wrapf ''workflow before: '' e), w1)
      | (Panic p, w1) \<Rightarrow> Some (Panic p, w1)
      | (Val _, w1) \<Rightarrow>
     (case runStages h [0..<length (wStages w1)] w1 of
        None \<Rightarrow> None
      | Some (Panicked p, w2) \<Rightarrow> Some (Panic p, w2)
      | Some (Returned e, w2) \<Rightarrow> Some (errOutcome e, w2)
      | Some (Broke e, w2) \<Rightarrow>
          (let w3 = (if e = None then w2\<lparr>wState := (wState w2)\<lparr>IsCompleted := True\<rparr>\<rparr> else w2)
           in (case runOpt (hAfter h) w3 of
                 (Panic p, w4) \<Rightarrow> Some (Panic p, w4)
               | (_, w4) \<Rightarrow> Some (errOutcome e, w4)))))))"

text \<open>The deferred function of \<open>Run\<close>: the failure handler, and the error it may take away.\<close>

definition runFinish :: "('a workflow_scheme) hooks \<Rightarrow> unit outcome \<Rightarrow> 'a workflow_scheme \<Rightarrow>
    unit outcome \<times> 'a workflow_scheme" where
  "runFinish h res w =
     (case res of
        Err e \<Rightarrow>
          (case hOnFailure h of
             None \<Rightarrow> (Err e, w)
           | Some f \<Rightarrow>
               (case f e w of
                  (Panic p, w') \<Rightarrow> (Panic p, w')
                | (_, w') \<Rightarrow> ((if wSkipError w' then Val () else Err e), w')))
      | _ \<Rightarrow> (res, w))"

text \<open>
  \<open>Run\<close>. \<open>Ended\<close> is a run whose goroutine delivers its error; \<open>TimedOut w'\<close> one whose context
  is cancelled and that is still at work nine seconds later, in a state \<open>w'\<close> the scheduler picks.
\<close>

datatype 's run_end = Ended | TimedOut 's

definition runWorkflow :: "('a workflow_scheme) hooks \<Rightarrow> ('a workflow_scheme) run_end \<Rightarrow>
    'a workflow_scheme \<Rightarrow> (unit outcome \<times> 'a workflow_scheme) option" where
  "runWorkflow h sched w =
     (case sched of
        Ended \<Rightarrow> map_option (\<lambda>(res, w'). runFinish h res w') (execute h w)
      | TimedOut w' \<Rightarrow>
          Some (runFinish h (Err (ErrText ''workflow shutdown execution timeout'')) w'))"

section \<open>Snapshots and the current step\<close>

text \<open>\<open>StepStates\<close>; reading the status through a nil state is a panic.\<close>

definition allSteps :: "'a workflow_scheme \<Rightarrow> step list" where
  "allSteps w = concat (map sgSteps (wStages w))"

definition stepStates :: "('a workflow_scheme, step_state list) op" where
  "stepStates w =
     (if \<exists>st \<in> set (allSteps w). spState st = None then (Panic ''nil pointer dereference'', w)
      else (Val (filter (\<lambda>ss. validStatus (Status ss)) (map (\<lambda>st. the (spState st)) (allSteps w))), w))"

definition getSnapshot :: "('a workflow_scheme, snapshot) op" where
  "getSnapshot = bnd stepStates (\<lambda>ss. getS (\<lambda>w. \<lparr>StepsStates = ss, WorkflowState = wState w\<rparr>))"

definition restoreState :: "step_state \<Rightarrow> stage list \<Rightarrow> stage list" where
  "restoreState ss sgs =
     map (\<lambda>sg. sg\<lparr>sgSteps := map (\<lambda>st.
        if sgName sg = CurrentStage ss \<and> spName st = CurrentStep ss
        then st\<lparr>spState := Some ss\<rparr> else st) (sgSteps sg)\<rparr>) sgs"

definition setSnapshot :: "snapshot \<Rightarrow> 'a workflow_scheme \<Rightarrow> 'a workflow_scheme" where
  "setSnapshot sh w =
     w\<lparr>wStages := fold restoreState (StepsStates sh) (wStages w), wState := WorkflowState sh\<rparr>"

text \<open>
  \<open>CurrentStage\<close>: the last stage that has a step with a valid status, the first stage if there is
  none. \<open>Val None\<close> is the nil pointer of a workflow without stages.
\<close>

definition stageValid :: "stage \<Rightarrow> bool" where
  "stageValid sg \<longleftrightarrow> (\<exists>st \<in> set (sgSteps sg). \<exists>ss. spState st = Some ss \<and> validStatus (Status ss))"

definition scanPanics :: "step list \<Rightarrow> bool" where
  "scanPanics sts \<longleftrightarrow>
     (case dropWhile (\<lambda>st. \<exists>ss. spState st = Some ss \<and> \<not> validStatus (Status ss)) (rev sts) of
        [] \<Rightarrow> False | st # _ \<Rightarrow> spState st = None)"

definition currentStage :: "('a workflow_scheme, stage option) op" where
  "currentStage w =
     (if scanPanics (allSteps w) then (Panic ''nil pointer dereference'', w)
      else (case filter stageValid (rev (wStages w)) of
              sg # _ \<Rightarrow> (Val (Some sg), w)
            | [] \<Rightarrow> (Val (case wStages w of [] \<Rightarrow> None | sg # _ \<Rightarrow> Some sg), w)))"

definition currentStep :: "('a workflow_scheme, step option) op" where
  "currentStep = bnd currentStage (\<lambda>sgo.
     case sgo of
       None \<Rightarrow> panic ''nil pointer dereference''
     | Some sg \<Rightarrow>
         (if scanPanics (sgSteps sg) then panic ''nil pointer dereference''
          else (case filter (\<lambda>st. \<exists>ss. spState st = Some ss \<and> validStatus (Status ss)) (rev (sgSteps sg)) of
                  st # _ \<Rightarrow> ret (Some st)
                | [] \<Rightarrow> ret (case sgSteps sg of [] \<Rightarrow> None | st # _ \<Rightarrow> Some st))))"

text \<open>\<open>GetArg[string]\<close> on a snapshot.\<close>

definition getArgString :: "snapshot \<Rightarrow> string \<Rightarrow> string \<Rightarrow> goerr + string" where
  "getArgString sh stepName key =
     (if stepName = '''' then Inl (ErrText ''step is empty'')
      else if key = '''' then Inl (ErrText ''key is empty'')
      else (case filter (\<lambda>ss. CurrentStep ss = stepName) (StepsStates sh) of
              [] \<Rightarrow> Inl (ErrText ''step not found'')
            | ss # _ \<Rightarrow>
                (case (case Args ss of None \<Rightarrow> None | Some m \<Rightarrow> m key) of
                   None \<Rightarrow> Inl (Wrapf (''value not found for key '' @ key @ '': '') ErrNotFound)
                 | Some (VStr v) \<Rightarrow> Inr v
                 | Some _ \<Rightarrow> Inl (ErrText ''type assertion failed''))))"

end
