(* ===== verification/Store.thy ===== *)
theory Store
  imports Constants Workflow
begin

text \<open>
  The database and the services on it: \<open>internal/models\<close>, the queries of \<open>sql/postgres/queries\<close>
  that the generated repositories run, and the services of \<open>internal/services/transfers\<close>,
  \<open>internal/services/webhooks\<close>, \<open>internal/services/wallets\<close> and \<open>internal/services/owners\<close> that
  the state machines call.

  A table is the list of its rows. A query can fail, before or after its effect, as the connection
  decides; a service's option \<open>repos.WithTx(tx)\<close> is the boolean argument \<open>tx\<close>: the query then sees
  and changes the database through the open transaction, whose effect reaches the tables when it is
  committed. A UUID is its textual form and a decimal the rational number it stands for.
\<close>

section \<open>Rows\<close>

type_synonym uuid = string

definition nilUuid :: uuid where
  "nilUuid = ''00000000-0000-0000-0000-000000000000''"

record transfer =
  trID :: uuid
  trStatus :: transfer_status
  trClientID :: uuid
  trOwnerID :: uuid
  trRequestID :: string
  trBlockchain :: blockchain_type
  trFromAddresses :: "string list"
  trToAddresses :: "string list"
  trWalletFromType :: wallet_type
  trAssetIdentifier :: string
  trKind :: "string option"
  trWholeAmount :: bool
  trAmount :: "rat option"
  trFee :: "rat option"
  trFeeMax :: "rat option"
  trTxHash :: "string option"
  trCreatedAt :: "int option"
  trUpdatedAt :: "int option"
  trStateData :: "string \<rightharpoonup> any_val"
  trSnapshot :: snapshot

text \<open>The zero value of the struct.\<close>

definition zeroTransfer :: transfer where
  "zeroTransfer =
     \<lparr>trID = nilUuid, trStatus = OtherTransferStatus '''', trClientID = nilUuid, trOwnerID = nilUuid,
      trRequestID = '''', trBlockchain = OtherBlockchain '''', trFromAddresses = [], trToAddresses = [],
      trWalletFromType = OtherWalletType '''', trAssetIdentifier = '''', trKind = None,
      trWholeAmount = False, trAmount = None, trFee = None, trFeeMax = None, trTxHash = None,
      trCreatedAt = None, trUpdatedAt = None, trStateData = Map.empty,
      trSnapshot = \<lparr>StepsStates = [], WorkflowState = newWorkflowState\<rparr>\<rparr>"

text \<open>The \<open>Decimal\<close> of a \<open>NullDecimal\<close> and the \<open>String\<close> of a \<open>pgtype.Text\<close>.\<close>

definition nullDecimal :: "rat option \<Rightarrow> rat" where
  "nullDecimal d = (case d of None \<Rightarrow> 0 | Some x \<Rightarrow> x)"

definition textString :: "string option \<Rightarrow> string" where
  "textString t = (case t of None \<Rightarrow> '''' | Some s \<Rightarrow> s)"

definition getFromAddress :: "transfer \<Rightarrow> string" where
  "getFromAddress t = (case trFromAddresses t of [] \<Rightarrow> '''' | a # _ \<Rightarrow> a)"

definition getToAddress :: "transfer \<Rightarrow> string" where
  "getToAddress t = (case trToAddresses t of [] \<Rightarrow> '''' | a # _ \<Rightarrow> a)"

record owner =
  owID :: uuid
  owClientID :: uuid
  owMnemonic :: string
  owPassPhrase :: "string option"

record wallet =
  wlBlockchain :: blockchain_type
  wlAddress :: string
  wlOwnerID :: uuid

record hot_wallet = wallet +
  hwExternalID :: string
  hwSequence :: int
  hwIsActivated :: bool
  hwIsDirty :: bool

record processing_wallet = wallet +
  pwSequence :: int

datatype tx_type =
    TxTypeDelegateResources | TxTypeReclaimResources | TxTypeSendBurnBaseAsset
  | TxTypeAccountActivation | TxTypeTransfer

datatype tx_status = TxStatusPending | TxStatusUnconfirmed | TxStatusConfirmed | TxStatusFailed

record transfer_tx =
  ttID :: uuid
  ttTransferID :: uuid
  ttTxHash :: string
  ttBandwidthAmount :: rat
  ttEnergyAmount :: rat
  ttNativeTokenAmount :: rat
  ttNativeTokenFee :: rat
  ttTxType :: tx_type
  ttStatus :: tx_status
  ttStep :: string
  ttCreatedAt :: int
  ttUpdatedAt :: "int option"

text \<open>
  The payload of a status webhook. The code stores its JSON text, and the fields determine the text
  and the other way round.
\<close>

record status_payload =
  spKind :: webhook_kind
  spIsSystem :: bool
  spRequestID :: string
  spStatus :: transfer_status
  spStep :: string
  spSystemTransactions :: "transfer_tx list"
  spErrorMessage :: string

record webhook =
  whKind :: webhook_kind
  whStatus :: webhook_status
  whAttempts :: int
  whPayload :: status_payload
  whClientID :: uuid
  whResponse :: "string option"
  whCreatedAt :: int
  whSentAt :: "int option"
  whUpdatedAt :: "int option"

record webhook_params =
  wpKind :: webhook_kind
  wpStatus :: webhook_status
  wpPayload :: status_payload
  wpClientID :: uuid

record db =
  dbTransfers :: "transfer list"
  dbOwners :: "owner list"
  dbHotWallets :: "hot_wallet list"
  dbProcessingWallets :: "processing_wallet list"
  dbColdWallets :: "wallet list"
  dbTransferTransactions :: "transfer_tx list"
  dbWebhooks :: "webhook list"

section \<open>The environment\<close>

text \<open>
  What is outside the code: the clock, the database connection, the context, the queue, the decimal
  library, the order of a map, the seed encryption and the explorer proxy, over a state \<open>'e\<close> of the
  outside world. \<open>envFault\<close> says how a query ends; \<open>envCtx\<close> is \<open>ctx.Err()\<close>, \<open>None\<close> for nil.
\<close>

datatype db_fault = NoFault | FaultBefore goerr | FaultAfter goerr

record tron_data =
  tdEnergyUsage :: string
  tdNetUsage :: string
  tdNetFee :: string
  tdEnergyFee :: string

record etx =
  etxHash :: string
  etxConfirmations :: "64 word"
  etxStatus :: string
  etxFee :: string
  etxAssetIdentifier :: string
  etxAmount :: string
  etxTron :: "tron_data option"

record utxo_item =
  uiTxHash :: string
  uiSequence :: "32 word"
  uiAmount :: string
  uiPkScript :: string

record 'e env =
  envFault :: "string \<Rightarrow> 'e \<Rightarrow> db_fault \<times> 'e"
  envNow :: "'e \<Rightarrow> int"
  envSleep :: "duration \<Rightarrow> 'e \<Rightarrow> 'e"
  envStopped :: "'e \<Rightarrow> bool"
  envCtx :: "'e \<Rightarrow> goerr option"
  envOwnerCached :: "uuid \<Rightarrow> 'e \<Rightarrow> bool"
  envCacheReady :: "'e \<Rightarrow> bool"
  envSnoozeString :: "duration \<Rightarrow> string"
  envDecimalString :: "rat \<Rightarrow> string"
  envDecimalParse :: "string \<Rightarrow> goerr + rat"
  envDecimalDiv :: "rat \<Rightarrow> rat \<Rightarrow> rat"
  envDivRound :: "rat \<Rightarrow> rat \<Rightarrow> int \<Rightarrow> rat"
  envMapOrder :: "string list \<Rightarrow> 'e \<Rightarrow> string list \<times> 'e"
  envDecrypt :: "string \<Rightarrow> string \<Rightarrow> goerr + string"
  envFindTransactions :: "blockchain_type \<Rightarrow> string \<Rightarrow> ('e, etx list) op"
  envGetTransactionInfo :: "blockchain_type \<Rightarrow> string \<Rightarrow> ('e, etx) op"
  envGetUTXO :: "blockchain_type \<Rightarrow> string \<Rightarrow> ('e, utxo_item list) op"
  envAddressBalance :: "string \<Rightarrow> string \<Rightarrow> blockchain_type \<Rightarrow> ('e, rat) op"
  envAssetDecimals :: "blockchain_type \<Rightarrow> string \<Rightarrow> ('e, int) op"
  envNewID :: "'e \<Rightarrow> uuid"

text \<open>
  The state of the process: the tables, the effect of the open transaction that is not committed
  yet, the caches of owners and wallets, and the outside world.
\<close>

record 'e world =
  wdDb :: db
  wdTx :: "(db \<Rightarrow> db) option"
  wdOwnerCache :: "uuid \<rightharpoonup> owner"
  wdHotCache :: "string \<rightharpoonup> hot_wallet"
  wdProcessingCache :: "string \<rightharpoonup> processing_wallet"
  wdColdCache :: "string \<rightharpoonup> wallet"
  wdExt :: 'e

definition liftExt :: "('e, 'a) op \<Rightarrow> ('e world, 'a) op" where
  "liftExt m w = (case m (wdExt w) of (r, x) \<Rightarrow> (r, w\<lparr>wdExt := x\<rparr>))"

section \<open>Queries\<close>

definition errNoRows :: goerr where "errNoRows = ErrExt ''pgx'' ''no rows in result set''"

definition dbView :: "bool \<Rightarrow> 'e world \<Rightarrow> db" where
  "dbView tx w = (case wdTx w of Some f \<Rightarrow> if tx then f (wdDb w) else wdDb w | None \<Rightarrow> wdDb w)"

definition dbApply :: "bool \<Rightarrow> (db \<Rightarrow> db) \<Rightarrow> 'e world \<Rightarrow> 'e world" where
  "dbApply tx g w =
     (case wdTx w of
        Some f \<Rightarrow> if tx then w\<lparr>wdTx := Some (g \<circ> f)\<rparr> else w\<lparr>wdDb := g (wdDb w)\<rparr>
      | None \<Rightarrow> w\<lparr>wdDb := g (wdDb w)\<rparr>)"

text \<open>A query with an effect \<open>g\<close> and a result \<open>f\<close> read after the effect.\<close>

definition dbQuery :: "'e env \<Rightarrow> bool \<Rightarrow> string \<Rightarrow> (int \<Rightarrow> db \<Rightarrow> db) \<Rightarrow> (db \<Rightarrow> goerr + 'a) \<Rightarrow> ('e world, 'a) op" where
  "dbQuery env tx name g f w =
     (case envFault env name (wdExt w) of
        (FaultBefore e, x) \<Rightarrow> (Err e, w\<lparr>wdExt := x\<rparr>)
      | (fault, x) \<Rightarrow>
          (let w' = dbApply tx (g (envNow env (wdExt w))) (w\<lparr>wdExt := x\<rparr>)
           in case fault of
                FaultAfter e \<Rightarrow> (Err e, w')
              | _ \<Rightarrow> ofSum (f (dbView tx w')) w'))"

definition dbRead :: "'e env \<Rightarrow> bool \<Rightarrow> string \<Rightarrow> (db \<Rightarrow> goerr + 'a) \<Rightarrow> ('e world, 'a) op" where
  "dbRead env tx name f w =
     (case envFault env name (wdExt w) of
        (NoFault, x) \<Rightarrow> ofSum (f (dbView tx w)) (w\<lparr>wdExt := x\<rparr>)
      | (FaultBefore e, x) \<Rightarrow> (Err e, w\<lparr>wdExt := x\<rparr>)
      | (FaultAfter e, x) \<Rightarrow> (Err e, w\<lparr>wdExt := x\<rparr>))"

definition dbExec :: "'e env \<Rightarrow> bool \<Rightarrow> string \<Rightarrow> (int \<Rightarrow> db \<Rightarrow> db) \<Rightarrow> 'e world act" where
  "dbExec env tx name g = dbQuery env tx name g (\<lambda>_. Inr ())"

definition oneRow :: "'a list \<Rightarrow> goerr + 'a" where
  "oneRow rows = (case rows of [] \<Rightarrow> Inl errNoRows | r # _ \<Rightarrow> Inr r)"

text \<open>\<open>update transfers set updated_at = now(), \<dots> where id = $1\<close>.\<close>

definition updTransfer :: "uuid \<Rightarrow> (transfer \<Rightarrow> transfer) \<Rightarrow> int \<Rightarrow> db \<Rightarrow> db" where
  "updTransfer tid f now d =
     d\<lparr>dbTransfers := map (\<lambda>t. if trID t = tid then (f t)\<lparr>trUpdatedAt := Some now\<rparr> else t) (dbTransfers d)\<rparr>"

definition transferRow :: "uuid \<Rightarrow> db \<Rightarrow> goerr + transfer" where
  "transferRow tid d = oneRow (filter (\<lambda>t. trID t = tid) (dbTransfers d))"

definition qTransferGetByID :: "'e env \<Rightarrow> uuid \<Rightarrow> ('e world, transfer) op" where
  "qTransferGetByID env tid = dbRead env False ''transfers.GetByID'' (transferRow tid)"

definition qTransferSetStatus :: "'e env \<Rightarrow> bool \<Rightarrow> uuid \<Rightarrow> transfer_status \<Rightarrow> 'e world act" where
  "qTransferSetStatus env tx tid st =
     dbExec env tx ''transfers.SetStatus'' (updTransfer tid (\<lambda>t. t\<lparr>trStatus := st\<rparr>))"

definition qTransferSetTxHash :: "'e env \<Rightarrow> bool \<Rightarrow> uuid \<Rightarrow> string \<Rightarrow> ('e world, transfer) op" where
  "qTransferSetTxHash env tx tid hash =
     dbQuery env tx ''transfers.SetTxHash'' (updTransfer tid (\<lambda>t. t\<lparr>trTxHash := Some hash\<rparr>)) (transferRow tid)"

definition qTransferSetSnapshot :: "'e env \<Rightarrow> bool \<Rightarrow> uuid \<Rightarrow> snapshot \<Rightarrow> 'e world act" where
  "qTransferSetSnapshot env tx tid sh =
     dbExec env tx ''transfers.SetWorkflowSnapshot'' (updTransfer tid (\<lambda>t. t\<lparr>trSnapshot := sh\<rparr>))"

definition qTransferGetStateData :: "'e env \<Rightarrow> uuid \<Rightarrow> ('e world, string \<rightharpoonup> any_val) op" where
  "qTransferGetStateData env tid =
     dbRead env False ''transfers.GetStateData'' (\<lambda>d. map_sum id trStateData (transferRow tid d))"

definition qTransferSetStateData :: "'e env \<Rightarrow> bool \<Rightarrow> uuid \<Rightarrow> (string \<rightharpoonup> any_val) \<Rightarrow> 'e world act" where
  "qTransferSetStateData env tx tid sd =
     dbExec env tx ''transfers.SetStateData'' (updTransfer tid (\<lambda>t. t\<lparr>trStateData := sd\<rparr>))"

definition qOwnerGetByID :: "'e env \<Rightarrow> uuid \<Rightarrow> ('e world, owner) op" where
  "qOwnerGetByID env oid =
     dbRead env False ''owners.GetByID'' (\<lambda>d. oneRow (filter (\<lambda>o'. owID o' = oid) (dbOwners d)))"

definition qTxGetByTransfer :: "'e env \<Rightarrow> uuid \<Rightarrow> ('e world, transfer_tx list) op" where
  "qTxGetByTransfer env tid =
     dbRead env False ''transfer_transactions.GetByTransfer''
       (\<lambda>d. Inr (filter (\<lambda>t. ttTransferID t = tid) (dbTransferTransactions d)))"

definition qTxFindByType :: "'e env \<Rightarrow> uuid \<Rightarrow> tx_type \<Rightarrow> ('e world, transfer_tx list) op" where
  "qTxFindByType env tid ty =
     dbRead env False ''transfer_transactions.FindTransactionByType''
       (\<lambda>d. Inr (filter (\<lambda>t. ttTransferID t = tid \<and> ttTxType t = ty) (dbTransferTransactions d)))"

text \<open>\<open>insert into transfer_transactions \<dots> returning\<close>; the amounts that are not given are zero.\<close>

definition newTransferTx :: "uuid \<Rightarrow> uuid \<Rightarrow> string \<Rightarrow> tx_type \<Rightarrow> tx_status \<Rightarrow> string \<Rightarrow> int \<Rightarrow> transfer_tx" where
  "newTransferTx i tid hash ty st stepName now =
     \<lparr>ttID = i, ttTransferID = tid, ttTxHash = hash, ttBandwidthAmount = 0, ttEnergyAmount = 0,
      ttNativeTokenAmount = 0, ttNativeTokenFee = 0, ttTxType = ty, ttStatus = st, ttStep = stepName,
      ttCreatedAt = now, ttUpdatedAt = None\<rparr>"

definition qTxCreate :: "'e env \<Rightarrow> bool \<Rightarrow> uuid \<Rightarrow> string \<Rightarrow> tx_type \<Rightarrow> tx_status \<Rightarrow> string \<Rightarrow> 'e world act" where
  "qTxCreate env tx tid hash ty st stepName w =
     (let i = envNewID env (wdExt w)
      in dbExec env tx ''transfer_transactions.Create'' (\<lambda>now d. d\<lparr>dbTransferTransactions :=
           dbTransferTransactions d @ [newTransferTx i tid hash ty st stepName now]\<rparr>) w)"

definition qTxUpdateExpense :: "'e env \<Rightarrow> bool \<Rightarrow> uuid \<Rightarrow> string \<Rightarrow> rat \<Rightarrow> rat \<Rightarrow> rat \<Rightarrow> rat \<Rightarrow> tx_status \<Rightarrow> 'e world act" where
  "qTxUpdateExpense env tx tid hash bandwidth energy amount fee st =
     dbExec env tx ''transfer_transactions.UpdatePendingTxExpense'' (\<lambda>now d. d\<lparr>dbTransferTransactions :=
       map (\<lambda>t. if ttTransferID t = tid \<and> ttTxHash t = hash
             then t\<lparr>ttBandwidthAmount := bandwidth, ttEnergyAmount := energy, ttNativeTokenAmount := amount,
                    ttNativeTokenFee := fee, ttStatus := st, ttUpdatedAt := Some now\<rparr> else t)
         (dbTransferTransactions d)\<rparr>)"

text \<open>
  \<open>insert into webhooks \<dots> on conflict ((payload::text), client_id) do update\<close>: a webhook with the
  same payload for the same client is queued again instead of being doubled.
\<close>

definition insertWebhook :: "int \<Rightarrow> webhook_params \<Rightarrow> webhook list \<Rightarrow> webhook list" where
  "insertWebhook now p hs =
     (if \<exists>h \<in> set hs. whPayload h = wpPayload p \<and> whClientID h = wpClientID p
      then map (\<lambda>h. if whPayload h = wpPayload p \<and> whClientID h = wpClientID p
             then h\<lparr>whUpdatedAt := Some now, whStatus := WebhookStatusNew, whAttempts := 0,
                    whResponse := None, whSentAt := None\<rparr> else h) hs
      else hs @ [\<lparr>whKind = wpKind p, whStatus = wpStatus p, whAttempts = 0, whPayload = wpPayload p,
                  whClientID = wpClientID p, whResponse = None, whCreatedAt = now, whSentAt = None,
                  whUpdatedAt = None\<rparr>])"

definition qWebhookCreate :: "'e env \<Rightarrow> bool \<Rightarrow> webhook_params list \<Rightarrow> 'e world act" where
  "qWebhookCreate env tx ps =
     dbExec env tx ''webhooks.Create'' (\<lambda>now d. d\<lparr>dbWebhooks := fold (insertWebhook now) ps (dbWebhooks d)\<rparr>)"

definition walletIs :: "blockchain_type \<Rightarrow> string \<Rightarrow> 'a wallet_scheme \<Rightarrow> bool" where
  "walletIs b a w \<longleftrightarrow> wlBlockchain w = b \<and> wlAddress w = a"

definition qHotGet :: "'e env \<Rightarrow> uuid \<Rightarrow> blockchain_type \<Rightarrow> string \<Rightarrow> ('e world, hot_wallet) op" where
  "qHotGet env oid b a =
     dbRead env False ''hot_wallets.Get''
       (\<lambda>d. oneRow (filter (\<lambda>w. walletIs b a w \<and> wlOwnerID w = oid) (dbHotWallets d)))"

definition qHotGetByAddress :: "'e env \<Rightarrow> blockchain_type \<Rightarrow> string \<Rightarrow> ('e world, hot_wallet) op" where
  "qHotGetByAddress env b a =
     dbRead env False ''hot_wallets.GetByBlockchainAndAddress'' (\<lambda>d. oneRow (filter (walletIs b a) (dbHotWallets d)))"

definition qProcessingGetByOwnerID :: "'e env \<Rightarrow> uuid \<Rightarrow> blockchain_type \<Rightarrow> string \<Rightarrow> ('e world, processing_wallet) op" where
  "qProcessingGetByOwnerID env oid b a =
     dbRead env False ''processing_wallets.GetByOwnerID''
       (\<lambda>d. oneRow (filter (\<lambda>w. walletIs b a w \<and> wlOwnerID w = oid) (dbProcessingWallets d)))"

definition qProcessingGetByBlockchain :: "'e env \<Rightarrow> uuid \<Rightarrow> blockchain_type \<Rightarrow> ('e world, processing_wallet) op" where
  "qProcessingGetByBlockchain env oid b =
     dbRead env False ''processing_wallets.GetByBlockchain''
       (\<lambda>d. oneRow (filter (\<lambda>w. wlOwnerID w = oid \<and> wlBlockchain w = b) (dbProcessingWallets d)))"

definition qProcessingGetByAddress :: "'e env \<Rightarrow> blockchain_type \<Rightarrow> string \<Rightarrow> ('e world, processing_wallet) op" where
  "qProcessingGetByAddress env b a =
     dbRead env False ''processing_wallets.GetByBlockchainAndAddress''
       (\<lambda>d. oneRow (filter (walletIs b a) (dbProcessingWallets d)))"

definition qColdGetByAddress :: "'e env \<Rightarrow> blockchain_type \<Rightarrow> string \<Rightarrow> ('e world, wallet) op" where
  "qColdGetByAddress env b a =
     dbRead env False ''cold_wallets.GetByBlockchainAndAddress'' (\<lambda>d. oneRow (filter (walletIs b a) (dbColdWallets d)))"

definition qProcessingGet :: "'e env \<Rightarrow> blockchain_type \<Rightarrow> string \<Rightarrow> ('e world, processing_wallet) op" where
  "qProcessingGet env b a =
     dbRead env False ''processing_wallets.Get'' (\<lambda>d. oneRow (filter (walletIs b a) (dbProcessingWallets d)))"

text \<open>\<open>update hot_wallets set is_activated = true, updated_at = now() where \<dots>\<close>; the time of the update is not read.\<close>

definition qHotActivateWallet :: "'e env \<Rightarrow> bool \<Rightarrow> blockchain_type \<Rightarrow> string \<Rightarrow> uuid \<Rightarrow> 'e world act" where
  "qHotActivateWallet env tx b a oid =
     dbExec env tx ''hot_wallets.ActivateWallet'' (\<lambda>now d. d\<lparr>dbHotWallets :=
       map (\<lambda>w. if walletIs b a w \<and> wlOwnerID w = oid then w\<lparr>hwIsActivated := True\<rparr> else w) (dbHotWallets d)\<rparr>)"

section \<open>Values of the state data\<close>

text \<open>
  \<open>util.GetByPath\<close> finds a value by its path; a missing or null member of a JSON object is the zero
  value of the field it is read into.
\<close>

fun lookupPath :: "any_val \<Rightarrow> string list \<Rightarrow> any_val option" where
  "lookupPath v [] = Some v"
| "lookupPath (VObj obj) (k # ks) = (case map_of obj k of None \<Rightarrow> None | Some v \<Rightarrow> lookupPath v ks)"
| "lookupPath _ (k # ks) = None"

fun decOfVal :: "'e env \<Rightarrow> any_val option \<Rightarrow> goerr + rat" where
  "decOfVal env None = Inr 0"
| "decOfVal env (Some VNil) = Inr 0"
| "decOfVal env (Some (VDec d)) = Inr d"
| "decOfVal env (Some (VInt i)) = Inr (of_int i)"
| "decOfVal env (Some (VStr s)) = envDecimalParse env s"
| "decOfVal env (Some _) = Inl (ErrText ''error decoding string'')"

fun decFields :: "'e env \<Rightarrow> (string \<times> any_val) list \<Rightarrow> string list \<Rightarrow> goerr + rat list" where
  "decFields env obj [] = Inr []"
| "decFields env obj (k # ks) =
     (case decOfVal env (map_of obj k) of
        Inl e \<Rightarrow> Inl e
      | Inr d \<Rightarrow> (case decFields env obj ks of Inl e \<Rightarrow> Inl e | Inr ds \<Rightarrow> Inr (d # ds)))"

definition strOfVal :: "any_val option \<Rightarrow> goerr + string" where
  "strOfVal v =
     (case v of
        None \<Rightarrow> Inr ''''
      | Some VNil \<Rightarrow> Inr ''''
      | Some (VStr s) \<Rightarrow> Inr s
      | Some _ \<Rightarrow> Inl (ErrText ''cannot unmarshal into string''))"

text \<open>\<open>GetByPath[string]\<close> for a path of one member; \<open>Inr None\<close> is \<open>ErrGetByPathNotFound\<close>.\<close>

definition getStringByPath :: "(string \<rightharpoonup> any_val) \<Rightarrow> string \<Rightarrow> goerr + string option" where
  "getStringByPath sd path =
     (case sd path of
        None \<Rightarrow> Inr None
      | Some v \<Rightarrow> (case strOfVal (Some v) of Inl e \<Rightarrow> Inl (Wrapf ''unmarshal json value: '' e) | Inr s \<Rightarrow> Inr (Some s)))"

end
