(* ===== verification/Services.thy ===== *)
theory Services
  imports Store
begin

text \<open>
  The services on the database: \<open>internal/services/transfers/methods.go\<close>,
  \<open>internal/services/webhooks\<close>, \<open>internal/services/owners/methods.go\<close> and the lookups of
  \<open>internal/services/wallets\<close>, operation by operation. The arguments \<open>env\<close> and \<open>tx\<close> stand for the
  context with the connection and for the repository options.
\<close>

section \<open>Errors of \<open>storecmn\<close>\<close>

definition storeErrNotFound :: goerr where "storeErrNotFound = ErrExt ''storecmn'' ''not found''"
definition storeErrEmptyID :: goerr where "storeErrEmptyID = ErrExt ''storecmn'' ''empty id''"
definition storeErrEmptyHash :: goerr where "storeErrEmptyHash = ErrExt ''storecmn'' ''empty hash''"
definition storeErrEmptyAddress :: goerr where "storeErrEmptyAddress = ErrExt ''storecmn'' ''empty address''"

text \<open>\<open>if errors.Is(err, pgx.ErrNoRows) { return nil, storecmn.ErrNotFound }\<close>.\<close>

definition noRowsToNotFound :: "('s, 'a) op \<Rightarrow> ('s, 'a) op" where
  "noRowsToNotFound m = catchErr m (\<lambda>e. if errIs e errNoRows then fail storeErrNotFound else fail e)"

section \<open>Transfers\<close>

definition transfersGetByID :: "'e env \<Rightarrow> uuid \<Rightarrow> ('e world, transfer) op" where
  "transfersGetByID env tid =
     bnd (guardE (tid \<noteq> nilUuid) storeErrEmptyID) (\<lambda>_.
     noRowsToNotFound (qTransferGetByID env tid))"

text \<open>
  Both results of the Go function: a nil pointer with the errors of its guards, and a pointer to a
  zero transfer with an error of the query, whose generated code returns \<open>&i, err\<close>.
\<close>

definition transfersSetTxHash :: "'e env \<Rightarrow> bool \<Rightarrow> uuid \<Rightarrow> string \<Rightarrow> ('e world, transfer option \<times> goerr option) op" where
  "transfersSetTxHash env tx tid hash =
     (if tid = nilUuid then ret (None, Some storeErrEmptyID)
      else if hash = '''' then ret (None, Some storeErrEmptyHash)
      else catchErr (bnd (qTransferSetTxHash env tx tid hash) (\<lambda>t. ret (Some t, None)))
             (\<lambda>e. ret (Some zeroTransfer, Some e)))"

definition transfersSetStatus :: "'e env \<Rightarrow> bool \<Rightarrow> uuid \<Rightarrow> transfer_status \<Rightarrow> 'e world act" where
  "transfersSetStatus env tx tid st =
     bnd (guardE (tid \<noteq> nilUuid) storeErrEmptyID) (\<lambda>_.
     bnd (guardE (transferStatusValid st)
            (ErrText (''status '' @ transferStatusString st @ '' is invalid''))) (\<lambda>_.
     qTransferSetStatus env tx tid st))"

definition transfersSetWorkflowSnapshot :: "'e env \<Rightarrow> bool \<Rightarrow> uuid \<Rightarrow> snapshot \<Rightarrow> 'e world act" where
  "transfersSetWorkflowSnapshot env tx tid sh =
     bnd (guardE (tid \<noteq> nilUuid) storeErrEmptyID) (\<lambda>_.
     qTransferSetSnapshot env tx tid sh)"

definition transfersGetStateData :: "'e env \<Rightarrow> uuid \<Rightarrow> ('e world, string \<rightharpoonup> any_val) op" where
  "transfersGetStateData env tid =
     bnd (guardE (tid \<noteq> nilUuid) storeErrEmptyID) (\<lambda>_.
     qTransferGetStateData env tid)"

text \<open>The state data is a non-nil map here; the current data are read outside the transaction.\<close>

definition transfersSetStateData :: "'e env \<Rightarrow> bool \<Rightarrow> uuid \<Rightarrow> (string \<rightharpoonup> any_val) \<Rightarrow> 'e world act" where
  "transfersSetStateData env tx tid sd =
     bnd (guardE (tid \<noteq> nilUuid) storeErrEmptyID) (\<lambda>_.
     bnd (wrapErr ''get state data'' (transfersGetStateData env tid)) (\<lambda>cur.
     qTransferSetStateData env tx tid (cur ++ sd)))"

section \<open>Owners\<close>

definition ownersGetByID :: "'e env \<Rightarrow> uuid \<Rightarrow> ('e world, owner) op" where
  "ownersGetByID env oid =
     bnd (guardE (oid \<noteq> nilUuid) storeErrEmptyID) (\<lambda>_.
     bnd (getS (\<lambda>w. if envOwnerCached env oid (wdExt w) then wdOwnerCache w oid else None)) (\<lambda>item.
     case item of
       Some own \<Rightarrow> ret own
     | None \<Rightarrow>
         bnd (noRowsToNotFound (qOwnerGetByID env oid)) (\<lambda>own.
         bnd (modS (\<lambda>w. w\<lparr>wdOwnerCache := (wdOwnerCache w)(oid \<mapsto> own)\<rparr>)) (\<lambda>_.
         ret own))))"

section \<open>Webhooks\<close>

record status_event =
  evIsSystem :: bool
  evTransferID :: uuid
  evOwnerID :: uuid
  evStatus :: transfer_status
  evStep :: string
  evErrorMessage :: string

definition eventTransferStatusCreateParams :: "'e env \<Rightarrow> status_event \<Rightarrow> ('e world, webhook_params) op" where
  "eventTransferStatusCreateParams env ev =
     bnd (guardE (evTransferID ev \<noteq> nilUuid) storeErrEmptyHash) (\<lambda>_.
     bnd (guardE (evOwnerID ev \<noteq> nilUuid) storeErrEmptyID) (\<lambda>_.
     bnd (guardE (transferStatusValid (evStatus ev))
            (ErrText (''status '' @ transferStatusString (evStatus ev) @ '' is invalid''))) (\<lambda>_.
     bnd (wrapErr ''get transfer by id'' (transfersGetByID env (evTransferID ev))) (\<lambda>transfer.
     bnd (wrapErr ''get transfer transactions'' (qTxGetByTransfer env (trID transfer))) (\<lambda>sysTxs.
     bnd (wrapErr ''get owner'' (qOwnerGetByID env (evOwnerID ev))) (\<lambda>own.
     ret \<lparr>wpKind = WebhookKindTransferStatus, wpStatus = WebhookStatusNew,
          wpPayload = \<lparr>spKind = WebhookKindTransferStatus, spIsSystem = evIsSystem ev,
             spRequestID = trRequestID transfer, spStatus = evStatus ev, spStep = evStep ev,
             spSystemTransactions = sysTxs, spErrorMessage = evErrorMessage ev\<rparr>,
          wpClientID = owClientID own\<rparr>))))))"

definition checkWebhookParams :: "webhook_params \<Rightarrow> 's act" where
  "checkWebhookParams p =
     bnd (guardE (webhookKindString (wpKind p) \<noteq> '''') (ErrText ''webhook kind is required'')) (\<lambda>_.
     guardE (webhookStatusValid (wpStatus p))
       (ErrText (''status '' @ webhookStatusString (wpStatus p) @ '' is invalid'')))"

text \<open>The batch is one implicit transaction of the connection: all rows are inserted or none.\<close>

definition webhooksBatchCreate :: "'e env \<Rightarrow> bool \<Rightarrow> webhook_params list \<Rightarrow> 'e world act" where
  "webhooksBatchCreate env tx ps =
     bnd (forEach ps checkWebhookParams) (\<lambda>_.
     if ps = [] then ret ()
     else catchErr (qWebhookCreate env tx ps) (\<lambda>e.
       case errAsPg e of
         Some detail \<Rightarrow> fail (Wrapfs ''batch create webhooks error: '' e ('' / '' @ detail))
       | None \<Rightarrow> fail (Wrapf ''batch create webhooks error: '' e)))"

section \<open>Wallets\<close>

definition invalidBlockchain :: "string \<Rightarrow> blockchain_type \<Rightarrow> goerr" where
  "invalidBlockchain msg b = ErrText (msg @ blockchainString b)"

definition hotGet :: "'e env \<Rightarrow> uuid \<Rightarrow> blockchain_type \<Rightarrow> string \<Rightarrow> ('e world, hot_wallet) op" where
  "hotGet env oid b a =
     bnd (guardE (oid \<noteq> nilUuid) storeErrEmptyID) (\<lambda>_.
     bnd (guardE (blockchainValid b) (invalidBlockchain ''invalid blockchain: '' b)) (\<lambda>_.
     bnd (guardE (a \<noteq> '''') storeErrEmptyAddress) (\<lambda>_.
     qHotGet env oid b a)))"

definition processingGetByOwnerID :: "'e env \<Rightarrow> uuid \<Rightarrow> blockchain_type \<Rightarrow> string \<Rightarrow> ('e world, processing_wallet) op" where
  "processingGetByOwnerID env oid b a =
     bnd (guardE (oid \<noteq> nilUuid) storeErrEmptyID) (\<lambda>_.
     bnd (guardE (blockchainValid b) (invalidBlockchain ''invalid blockchain: '' b)) (\<lambda>_.
     bnd (guardE (a \<noteq> '''') storeErrEmptyAddress) (\<lambda>_.
     qProcessingGetByOwnerID env oid b a)))"

definition processingGetByBlockchain :: "'e env \<Rightarrow> uuid \<Rightarrow> blockchain_type \<Rightarrow> ('e world, processing_wallet) op" where
  "processingGetByBlockchain env oid b =
     bnd (guardE (oid \<noteq> nilUuid) storeErrEmptyID) (\<lambda>_.
     bnd (guardE (blockchainValid b) (invalidBlockchain ''invalid blockchain: '' b)) (\<lambda>_.
     noRowsToNotFound (qProcessingGetByBlockchain env oid b)))"

definition hotGetByBlockchainAndAddress :: "'e env \<Rightarrow> blockchain_type \<Rightarrow> string \<Rightarrow> ('e world, hot_wallet) op" where
  "hotGetByBlockchainAndAddress env b a =
     bnd (guardE (blockchainValid b) (invalidBlockchain ''invalid blockchain: '' b)) (\<lambda>_.
     bnd (guardE (a \<noteq> '''') storeErrEmptyAddress) (\<lambda>_.
     noRowsToNotFound (qHotGetByAddress env b a)))"

definition processingGetByBlockchainAndAddress :: "'e env \<Rightarrow> blockchain_type \<Rightarrow> string \<Rightarrow> ('e world, processing_wallet) op" where
  "processingGetByBlockchainAndAddress env b a =
     bnd (guardE (blockchainValid b) (invalidBlockchain ''invalid blockchain: '' b)) (\<lambda>_.
     bnd (guardE (a \<noteq> '''') storeErrEmptyAddress) (\<lambda>_.
     noRowsToNotFound (qProcessingGetByAddress env b a)))"

definition coldGetByBlockchainAndAddress :: "'e env \<Rightarrow> blockchain_type \<Rightarrow> string \<Rightarrow> ('e world, wallet) op" where
  "coldGetByBlockchainAndAddress env b a =
     bnd (guardE (blockchainValid b) (invalidBlockchain ''invalid blockchain: '' b)) (\<lambda>_.
     bnd (guardE (a \<noteq> '''') storeErrEmptyAddress) (\<lambda>_.
     noRowsToNotFound (qColdGetByAddress env b a)))"

definition processingGet :: "'e env \<Rightarrow> blockchain_type \<Rightarrow> string \<Rightarrow> ('e world, processing_wallet) op" where
  "processingGet env b a =
     bnd (guardE (blockchainValid b) (invalidBlockchain ''invalid blockchain: '' b)) (\<lambda>_.
     bnd (guardE (a \<noteq> '''') storeErrEmptyAddress) (\<lambda>_.
     qProcessingGet env b a))"

definition hotActivateWallet :: "'e env \<Rightarrow> bool \<Rightarrow> uuid \<Rightarrow> blockchain_type \<Rightarrow> string \<Rightarrow> 'e world act" where
  "hotActivateWallet env tx oid b a =
     bnd (guardE (oid \<noteq> nilUuid) storeErrEmptyID) (\<lambda>_.
     bnd (guardE (blockchainValid b) (invalidBlockchain ''invalid blockchain: '' b)) (\<lambda>_.
     bnd (guardE (a \<noteq> '''') storeErrEmptyAddress) (\<lambda>_.
     qHotActivateWallet env tx b a oid)))"

record check_wallet_result =
  cwWalletType :: wallet_type
  cwOwnerID :: uuid
  cwExternalWalletID :: "string option"
  cwIsActivated :: "bool option"

definition checkActivated :: "check_wallet_result \<Rightarrow> bool" where
  "checkActivated r \<longleftrightarrow> cwIsActivated r = Some True"

definition errAddressNotFound :: goerr where
  "errAddressNotFound = ErrExt ''wallets'' ''address not found''"

definition hotResult :: "hot_wallet \<Rightarrow> check_wallet_result" where
  "hotResult w = \<lparr>cwWalletType = WalletTypeHot, cwOwnerID = wlOwnerID w,
     cwExternalWalletID = Some (hwExternalID w), cwIsActivated = Some (hwIsActivated w)\<rparr>"

definition plainResult :: "wallet_type \<Rightarrow> 'a wallet_scheme \<Rightarrow> check_wallet_result" where
  "plainResult t w = \<lparr>cwWalletType = t, cwOwnerID = wlOwnerID w,
     cwExternalWalletID = None, cwIsActivated = None\<rparr>"

definition cacherKey :: "blockchain_type \<Rightarrow> string \<Rightarrow> string" where
  "cacherKey b a = blockchainString b @ ''-'' @ a"

definition checkWalletInCache :: "blockchain_type \<Rightarrow> string \<Rightarrow> ('e world, check_wallet_result) op" where
  "checkWalletInCache b a w =
     (case wdHotCache w (cacherKey b a) of
        Some hw \<Rightarrow> ret (hotResult hw) w
      | None \<Rightarrow>
     (case wdProcessingCache w (cacherKey b a) of
        Some pw \<Rightarrow> ret (plainResult WalletTypeProcessing pw) w
      | None \<Rightarrow>
     (case wdColdCache w (cacherKey b a) of
        Some cw \<Rightarrow> ret (plainResult WalletTypeCold cw) w
      | None \<Rightarrow> fail (Wrapf ''check wallet in cache: '' errAddressNotFound) w)))"

text \<open>One of the three lookups: the wallet, any other error, or the next lookup if it is not found.\<close>

definition lookupOrNext :: "string \<Rightarrow> ('s, 'a) op \<Rightarrow> ('a \<Rightarrow> 'b) \<Rightarrow> ('s, 'b) op \<Rightarrow> ('s, 'b) op" where
  "lookupOrNext msg m f next' =
     catchErr (bnd m (\<lambda>x. ret (f x)))
       (\<lambda>e. if errIs e storeErrNotFound then next' else fail (Wrapf (msg @ '': '') e))"

definition checkWalletInDatabase :: "'e env \<Rightarrow> blockchain_type \<Rightarrow> string \<Rightarrow> ('e world, check_wallet_result) op" where
  "checkWalletInDatabase env b a =
     lookupOrNext ''find hot wallets'' (hotGetByBlockchainAndAddress env b a) hotResult
     (lookupOrNext ''find processing wallets'' (processingGetByBlockchainAndAddress env b a)
        (plainResult WalletTypeProcessing)
     (lookupOrNext ''find cold wallets'' (coldGetByBlockchainAndAddress env b a)
        (plainResult WalletTypeCold)
     (fail (Wrapf ''check wallet in database: '' errAddressNotFound))))"

definition checkWallet :: "'e env \<Rightarrow> bool \<Rightarrow> blockchain_type \<Rightarrow> string \<Rightarrow> ('e world, check_wallet_result) op" where
  "checkWallet env useCacheForWallets b a =
     bnd (guardE (blockchainValid b) (invalidBlockchain ''invalid blockchain type: '' b)) (\<lambda>_.
     bnd (guardE (a \<noteq> '''') storeErrEmptyAddress) (\<lambda>_.
     if useCacheForWallets then
       (\<lambda>w. if envCacheReady env (wdExt w) then checkWalletInCache b a w
            else (case envCtx env (wdExt w) of
                    Some e \<Rightarrow> fail e w
                  | None \<Rightarrow> panic ''blocked until the cache is ready'' w))
     else checkWalletInDatabase env b a))"

text \<open>The sequence of a hot or processing wallet; an \<open>int32\<close> in the code.\<close>

definition getSequenceByWalletType :: "'e env \<Rightarrow> wallet_type \<Rightarrow> uuid \<Rightarrow> blockchain_type \<Rightarrow> string \<Rightarrow> ('e world, int) op" where
  "getSequenceByWalletType env wt oid b a =
     bnd (guardE (walletTypeValid wt) (ErrText (''invalid wallet type: '' @ walletTypeString wt))) (\<lambda>_.
     bnd (guardE (oid \<noteq> nilUuid) (ErrText ''empty owner id'')) (\<lambda>_.
     bnd (guardE (blockchainValid b) (invalidBlockchain ''invalid blockchain type: '' b)) (\<lambda>_.
     bnd (guardE (a \<noteq> '''') (ErrText ''empty address'')) (\<lambda>_.
     case wt of
       WalletTypeHot \<Rightarrow>
         bnd (wrapErr ''get hot wallet'' (hotGet env oid b a)) (\<lambda>w. ret (hwSequence w))
     | WalletTypeProcessing \<Rightarrow>
         bnd (wrapErr ''get processing wallet'' (processingGetByOwnerID env oid b a)) (\<lambda>w. ret (pwSequence w))
     | _ \<Rightarrow> fail (ErrText (''unsupported wallet type: '' @ walletTypeString wt))))))"

section \<open>The cache of wallets\<close>

text \<open>
  \<open>cacherHandler\<close>: one of the three parts stores every row of its table under its key and deletes the
  other keys. The parts run concurrently, each on its own map; all of them run to their end, and the
  first error is reported. \<open>inUse\<close> says that another call is at work. The channel that tells that the
  cache is ready belongs to the environment.
\<close>

definition reloadCache :: "('a wallet_scheme) list \<Rightarrow> (string \<rightharpoonup> 'a wallet_scheme) \<Rightarrow> (string \<rightharpoonup> 'a wallet_scheme)" where
  "reloadCache rows cache =
     (let updated = set (map (\<lambda>w. cacherKey (wlBlockchain w) (wlAddress w)) rows)
      in fold (\<lambda>w m. m(cacherKey (wlBlockchain w) (wlAddress w) \<mapsto> w)) rows cache |` updated)"

definition qHotFind :: "'e env \<Rightarrow> ('e world, hot_wallet list) op" where
  "qHotFind env = dbRead env False ''hot_wallets.Find'' (\<lambda>d. Inr (dbHotWallets d))"

definition qProcessingFind :: "'e env \<Rightarrow> ('e world, processing_wallet list) op" where
  "qProcessingFind env = dbRead env False ''processing_wallets.Find'' (\<lambda>d. Inr (dbProcessingWallets d))"

definition qColdFind :: "'e env \<Rightarrow> ('e world, wallet list) op" where
  "qColdFind env = dbRead env False ''cold_wallets.Find'' (\<lambda>d. Inr (dbColdWallets d))"

definition bothRun :: "'s act \<Rightarrow> 's act \<Rightarrow> 's act" where
  "bothRun m n s =
     (case m s of
        (Val _, s1) \<Rightarrow> n s1
      | (Panic q, s1) \<Rightarrow> (Panic q, s1)
      | (Err e, s1) \<Rightarrow> (case n s1 of (Panic q, s2) \<Rightarrow> (Panic q, s2) | (_, s2) \<Rightarrow> (Err e, s2)))"

definition cacherHandler :: "'e env \<Rightarrow> bool \<Rightarrow> 'e world act" where
  "cacherHandler env inUse =
     (if inUse then ret ()
      else bothRun
        (bnd (wrapErr ''find hot wallets'' (qHotFind env)) (\<lambda>rows.
           modS (\<lambda>w. w\<lparr>wdHotCache := reloadCache rows (wdHotCache w)\<rparr>)))
        (bothRun
          (bnd (wrapErr ''find processing wallets'' (qProcessingFind env)) (\<lambda>rows.
             modS (\<lambda>w. w\<lparr>wdProcessingCache := reloadCache rows (wdProcessingCache w)\<rparr>)))
          (bnd (wrapErr ''find cold wallets'' (qColdFind env)) (\<lambda>rows.
             modS (\<lambda>w. w\<lparr>wdColdCache := reloadCache rows (wdColdCache w)\<rparr>)))))"

end
