(* ===== verification/ServicesFacts.thy ===== *)
theory ServicesFacts
  imports Services
begin

text \<open>
  The library about the services: what a query that succeeds has read or written, the stored hash
  and status of a transfer, the webhook of a status change, and the wallets a lookup can deliver.
\<close>

section \<open>Queries and transfers\<close>

lemma oneRow_map: "oneRow (map f xs) = map_sum id f (oneRow xs)"
  by (cases xs) (simp_all add: oneRow_def)

lemma transferRow_updTransfer:
  assumes "\<And>t. trID (f t) = trID t"
  shows "transferRow tid (updTransfer tid f now d) = map_sum id (\<lambda>t. (f t)\<lparr>trUpdatedAt := Some now\<rparr>) (transferRow tid d)"
proof -
  let ?g = "\<lambda>t. if trID t = tid then (f t)\<lparr>trUpdatedAt := Some now\<rparr> else t"
  have "filter (\<lambda>t. trID t = tid) (map ?g xs) = map (\<lambda>t. (f t)\<lparr>trUpdatedAt := Some now\<rparr>) (filter (\<lambda>t. trID t = tid) xs)" for xs
    by (induction xs) (auto simp: assms)
  then show ?thesis by (simp add: transferRow_def updTransfer_def oneRow_map)
qed

text \<open>The stored hash of a transfer.\<close>

definition storedHash :: "uuid \<Rightarrow> db \<Rightarrow> string option" where
  "storedHash tid d = (case transferRow tid d of Inr t \<Rightarrow> trTxHash t | Inl _ \<Rightarrow> None)"

lemma storedHash_updTransfer:
  "(\<And>t. trID (f t) = trID t \<and> trTxHash (f t) = trTxHash t) \<Longrightarrow> storedHash tid (updTransfer tid f now d) = storedHash tid d"
  by (simp add: storedHash_def transferRow_updTransfer split: sum.splits)

lemma dbView_apply: "dbView False (dbApply False g w) = g (wdDb w)"
  by (simp add: dbView_def dbApply_def split: option.splits)

lemma wdDb_apply [simp]: "wdDb (dbApply False g w) = g (wdDb w)"
  by (simp add: dbApply_def split: option.splits)

lemma qTransferSetTxHash_ok:
  assumes "qTransferSetTxHash env False tid hash w = (Val t, w')"
  shows "trTxHash t = Some hash \<and> trID t = tid \<and> storedHash tid (wdDb w') = Some hash"
proof -
  let ?f = "\<lambda>t :: transfer. t\<lparr>trTxHash := Some hash\<rparr>"
  obtain x now where w': "w' = dbApply False (updTransfer tid ?f now) (w\<lparr>wdExt := x\<rparr>)"
    and row: "transferRow tid (updTransfer tid ?f now (wdDb w)) = Inr t"
    using assms by (auto simp: qTransferSetTxHash_def dbQuery_def Let_def ofSum_Val dbView_apply
        split: prod.split_asm db_fault.split_asm)
  then obtain t0 where t0: "transferRow tid (wdDb w) = Inr t0" "t = (?f t0)\<lparr>trUpdatedAt := Some now\<rparr>"
    by (cases "transferRow tid (wdDb w)") (auto simp: transferRow_updTransfer)
  then have "trID t0 = tid"
    by (auto simp: transferRow_def oneRow_def filter_eq_Cons_iff split: list.split_asm)
  with t0 row w' show ?thesis by (simp add: storedHash_def)
qed

lemma storedHash_kept [keeps_intros]: "keeps (\<lambda>w. storedHash tid (wdDb w)) (qTransferSetStateData env False tid sd)"
  by (rule keepsI)
    (auto simp: qTransferSetStateData_def dbExec_def dbQuery_def Let_def ofSum_def op_defs storedHash_updTransfer
      split: prod.split db_fault.split)

lemma keeps_dbRead: "(\<And>w x. v (w\<lparr>wdExt := x\<rparr>) = v w) \<Longrightarrow> keeps v (dbRead env tx nm f)"
  by (rule keepsI) (auto simp: dbRead_def ofSum_def op_defs split: prod.split db_fault.split sum.split)

lemma storedHash_stateData: "keeps (\<lambda>w. storedHash tid (wdDb w)) (transfersSetStateData env False tid sd)"
  unfolding transfersSetStateData_def transfersGetStateData_def qTransferGetStateData_def
  by (intro keeps_intros keeps_dbRead) simp

text \<open>The errors of \<open>SetTxHash\<close> are those of its query.\<close>

lemma transfersSetTxHash_Val:
  assumes "transfersSetTxHash env tx tid hash w = (Val (t', None), w')"
  shows "\<exists>t. t' = Some t \<and> qTransferSetTxHash env tx tid hash w = (Val t, w')"
  using assms by (auto simp: transfersSetTxHash_def ret_Val catchErr_Val bnd_Val split: if_split_asm)

section \<open>Statuses and webhooks\<close>

text \<open>Successful queries.\<close>

lemma dbRead_Val: "dbRead env tx nm f w = (Val x, w') \<Longrightarrow> f (dbView tx w) = Inr x \<and> wdDb w' = wdDb w \<and> wdTx w' = wdTx w"
  by (auto simp: dbRead_def ofSum_def op_defs split: prod.split_asm db_fault.split_asm sum.split_asm)

lemma dbView_outside: "dbView False w = wdDb w"
  by (simp add: dbView_def split: option.split)

lemma dbExec_Val: "dbExec env False nm g w = (Val x, w') \<Longrightarrow> \<exists>now. wdDb w' = g now (wdDb w) \<and> wdTx w' = wdTx w"
  by (auto simp: dbExec_def dbQuery_def Let_def ofSum_def op_defs dbApply_def
      split: prod.split_asm db_fault.split_asm option.split_asm)

text \<open>A query that writes, as seen by a reader of the same side of the open transaction.\<close>

lemma dbExec_view: "dbExec env tx nm g w = (Val x, w') \<Longrightarrow> \<exists>now. dbView tx w' = g now (dbView tx w)"
  by (rule exI [of _ "envNow env (wdExt w)"])
    (auto simp: dbExec_def dbQuery_def Let_def ofSum_def op_defs dbApply_def dbView_def
      split: prod.split_asm db_fault.split_asm option.splits)

text \<open>The webhook of a status change.\<close>

definition announced :: "status_event \<Rightarrow> transfer \<Rightarrow> transfer_tx list \<Rightarrow> owner \<Rightarrow> webhook_params" where
  "announced ev row txs own =
     \<lparr>wpKind = WebhookKindTransferStatus, wpStatus = WebhookStatusNew,
      wpPayload = \<lparr>spKind = WebhookKindTransferStatus, spIsSystem = evIsSystem ev, spRequestID = trRequestID row,
        spStatus = evStatus ev, spStep = evStep ev, spSystemTransactions = txs, spErrorMessage = evErrorMessage ev\<rparr>,
      wpClientID = owClientID own\<rparr>"

lemma eventParams_Val:
  assumes "eventTransferStatusCreateParams env ev w = (Val ps, w')"
  shows "wdDb w' = wdDb w \<and> transferStatusValid (evStatus ev) \<and>
    (\<exists>row own. transferRow (evTransferID ev) (wdDb w) = Inr row \<and>
       ps = announced ev row (filter (\<lambda>x. ttTransferID x = trID row) (dbTransferTransactions (wdDb w))) own \<and>
       own \<in> set (dbOwners (wdDb w)) \<and> owID own = evOwnerID ev)"
proof -
  obtain row txs own w1 w2 where
    r1: "transfersGetByID env (evTransferID ev) w = (Val row, w1)"
    and r2: "qTxGetByTransfer env (trID row) w1 = (Val txs, w2)"
    and r3: "qOwnerGetByID env (evOwnerID ev) w2 = (Val own, w')"
    and ps: "ps = announced ev row txs own" and v: "transferStatusValid (evStatus ev)"
    using assms unfolding eventTransferStatusCreateParams_def announced_def op_Val by blast
  have "qTransferGetByID env (evTransferID ev) w = (Val row, w1)"
    using r1 by (auto simp: transfersGetByID_def noRowsToNotFound_def op_Val split: if_split_asm)
  from dbRead_Val [OF this [unfolded qTransferGetByID_def]]
    dbRead_Val [OF r2 [unfolded qTxGetByTransfer_def]] dbRead_Val [OF r3 [unfolded qOwnerGetByID_def]] ps v
  show ?thesis
    by (auto simp: dbView_outside oneRow_def filter_eq_Cons_iff split: list.split_asm)
qed

lemma insertWebhook_in:
  "\<exists>h\<in>set (insertWebhook now p hs). whPayload h = wpPayload p \<and> whClientID h = wpClientID p \<and>
     (wpStatus p = WebhookStatusNew \<longrightarrow> whStatus h = WebhookStatusNew)"
proof (cases "\<exists>h\<in>set hs. whPayload h = wpPayload p \<and> whClientID h = wpClientID p")
  case True
  then obtain h where h: "h \<in> set hs" "whPayload h = wpPayload p" "whClientID h = wpClientID p" by blast
  let ?h = "h\<lparr>whUpdatedAt := Some now, whStatus := WebhookStatusNew, whAttempts := 0, whResponse := None, whSentAt := None\<rparr>"
  have "?h \<in> set (insertWebhook now p hs)" using True h by (force simp: insertWebhook_def)
  then show ?thesis using h by (intro bexI [of _ ?h]) auto
next
  case False
  show ?thesis unfolding insertWebhook_def if_not_P [OF False] by simp
qed

lemma webhooksBatchCreate_view:
  assumes "webhooksBatchCreate env tx [ps] w = (Val u, w')"
  shows "\<exists>now. dbView tx w' = (dbView tx w)\<lparr>dbWebhooks := insertWebhook now ps (dbWebhooks (dbView tx w))\<rparr>"
proof -
  have "qWebhookCreate env tx [ps] w = (Val u, w')"
    using assms
    by (auto simp: webhooksBatchCreate_def op_Val checkWebhookParams_def split: if_split_asm option.split_asm)
  from dbExec_view [OF this [unfolded qWebhookCreate_def]] show ?thesis by auto
qed

definition storedStatus :: "uuid \<Rightarrow> db \<Rightarrow> transfer_status option" where
  "storedStatus tid d = (case transferRow tid d of Inr t \<Rightarrow> Some (trStatus t) | Inl _ \<Rightarrow> None)"

lemma transfersSetStatus_view:
  assumes "transfersSetStatus env tx tid st w = (Val u, w')" and "transferRow tid (dbView tx w) = Inr row"
  shows "storedStatus tid (dbView tx w') = Some st \<and> dbWebhooks (dbView tx w') = dbWebhooks (dbView tx w)"
proof -
  have "qTransferSetStatus env tx tid st w = (Val u, w')"
    using assms by (auto simp: transfersSetStatus_def op_Val)
  from dbExec_view [OF this [unfolded qTransferSetStatus_def]] obtain now where
    "dbView tx w' = updTransfer tid (\<lambda>t. t\<lparr>trStatus := st\<rparr>) now (dbView tx w)" by blast
  then show ?thesis using assms(2) by (simp add: storedStatus_def transferRow_updTransfer) (simp add: updTransfer_def)
qed

lemma transfersSetWorkflowSnapshot_view:
  assumes "transfersSetWorkflowSnapshot env tx tid sh w = (Val u, w')" and "transferRow tid (dbView tx w) = Inr row"
  shows "\<exists>row'. transferRow tid (dbView tx w') = Inr row' \<and> trSnapshot row' = sh"
proof -
  have "qTransferSetSnapshot env tx tid sh w = (Val u, w')"
    using assms by (auto simp: transfersSetWorkflowSnapshot_def op_Val)
  from dbExec_view [OF this [unfolded qTransferSetSnapshot_def]] assms(2) show ?thesis
    by (auto simp: transferRow_updTransfer)
qed

lemmas webhooksBatchCreate_Val = webhooksBatchCreate_view [where tx = False, unfolded dbView_outside]
  and transfersSetStatus_Val = transfersSetStatus_view [where tx = False, unfolded dbView_outside]
  and transfersSetWorkflowSnapshot_Val = transfersSetWorkflowSnapshot_view [where tx = False, unfolded dbView_outside]

text \<open>Queries of an open transaction leave the tables alone.\<close>

definition held :: "'e world \<Rightarrow> bool \<times> db option" where
  "held w = (case wdTx w of None \<Rightarrow> (False, None) | Some _ \<Rightarrow> (True, Some (wdDb w)))"

lemma held_in: "wdTx w \<noteq> None \<Longrightarrow> held w' = held w \<Longrightarrow> wdTx w' \<noteq> None \<and> wdDb w' = wdDb w"
  by (auto simp: held_def split: option.splits)

lemma held_ext [simp]: "held (w\<lparr>wdExt := x\<rparr>) = held w"
  by (simp add: held_def split: option.split)

lemma held_dbExec: "keeps held (dbExec env True nm g)"
  by (rule keepsI)
    (auto simp: dbExec_def dbQuery_def Let_def ofSum_def op_defs dbApply_def held_def
      split: prod.split db_fault.split option.splits)

lemma held_dbRead: "keeps held (dbRead env tx nm f)"
  by (rule keeps_dbRead) simp

lemmas held_query = keeps_intros held_dbRead held_dbExec

lemma held_eventParams: "keeps held (eventTransferStatusCreateParams env ev)"
  unfolding eventTransferStatusCreateParams_def transfersGetByID_def noRowsToNotFound_def qTransferGetByID_def
    qTxGetByTransfer_def qOwnerGetByID_def by (intro held_query)

lemma held_batch: "keeps held (webhooksBatchCreate env True ps)"
  unfolding webhooksBatchCreate_def qWebhookCreate_def checkWebhookParams_def by (intro held_query)

lemma held_transfers:
  "keeps held (transfersSetStatus env True tid st)" "keeps held (transfersSetWorkflowSnapshot env True tid sh)"
  unfolding transfersSetStatus_def transfersSetWorkflowSnapshot_def qTransferSetStatus_def qTransferSetSnapshot_def
  by (intro held_query)+

section \<open>Wallets\<close>

text \<open>What a wallet lookup in the database delivers is a row of one of the three tables.\<close>

lemma lookupOrNext_Val: "lookupOrNext msg m f nxt w = (Val y, w') \<longleftrightarrow>
    (\<exists>x. m w = (Val x, w') \<and> y = f x) \<or> (\<exists>e w1. m w = (Err e, w1) \<and> errIs e storeErrNotFound \<and> nxt w1 = (Val y, w'))"
  by (auto simp: lookupOrNext_def op_defs split: prod.splits outcome.splits if_splits)

lemma keeps_wallet_lookups:
  "keeps wdDb (hotGetByBlockchainAndAddress env b a)" "keeps wdDb (processingGetByBlockchainAndAddress env b a)"
  "keeps wdDb (coldGetByBlockchainAndAddress env b a)"
  unfolding hotGetByBlockchainAndAddress_def processingGetByBlockchainAndAddress_def coldGetByBlockchainAndAddress_def
    noRowsToNotFound_def qHotGetByAddress_def qProcessingGetByAddress_def qColdGetByAddress_def
  by (intro keeps_intros keeps_dbRead; simp add: keeps_intros)+

lemma noRows_Val: "noRowsToNotFound m w = (Val x, w') \<longleftrightarrow> m w = (Val x, w')"
  by (auto simp: noRowsToNotFound_def op_defs split: prod.splits outcome.splits)

lemma oneRow_Inr: "oneRow (filter P xs) = Inr x \<Longrightarrow> x \<in> set xs \<and> P x"
  by (auto simp: oneRow_def filter_eq_Cons_iff split: list.split_asm)

lemma wallet_rows:
  "hotGetByBlockchainAndAddress env b a w = (Val hw, w') \<Longrightarrow> hw \<in> set (dbHotWallets (wdDb w)) \<and> walletIs b a hw"
  "processingGetByBlockchainAndAddress env b a w = (Val pw, w') \<Longrightarrow> pw \<in> set (dbProcessingWallets (wdDb w)) \<and> walletIs b a pw"
  "coldGetByBlockchainAndAddress env b a w = (Val cw, w') \<Longrightarrow> cw \<in> set (dbColdWallets (wdDb w)) \<and> walletIs b a cw"
  unfolding hotGetByBlockchainAndAddress_def processingGetByBlockchainAndAddress_def coldGetByBlockchainAndAddress_def
    op_Val noRows_Val qHotGetByAddress_def qProcessingGetByAddress_def qColdGetByAddress_def
  by (auto dest!: dbRead_Val oneRow_Inr simp: dbView_outside)

definition knownWallet :: "db \<Rightarrow> blockchain_type \<Rightarrow> string \<Rightarrow> check_wallet_result \<Rightarrow> bool" where
  "knownWallet d b a r \<longleftrightarrow>
     (\<exists>hw\<in>set (dbHotWallets d). walletIs b a hw \<and> r = hotResult hw) \<or>
     (\<exists>pw\<in>set (dbProcessingWallets d). walletIs b a pw \<and> r = plainResult WalletTypeProcessing pw) \<or>
     (\<exists>cw\<in>set (dbColdWallets d). walletIs b a cw \<and> r = plainResult WalletTypeCold cw)"

lemma checkWallet_db:
  assumes "checkWallet env False b a w = (Val r, w')"
  shows "knownWallet (wdDb w) b a r"
proof -
  have "checkWalletInDatabase env b a w = (Val r, w')"
    using assms by (auto simp: checkWallet_def op_Val)
  then consider (hot) hw w2 where "hotGetByBlockchainAndAddress env b a w = (Val hw, w2)" "r = hotResult hw"
    | (processing) e w1 pw w2 where "hotGetByBlockchainAndAddress env b a w = (Err e, w1)"
        "processingGetByBlockchainAndAddress env b a w1 = (Val pw, w2)" "r = plainResult WalletTypeProcessing pw"
    | (cold) e w1 e' w2 cw w3 where "hotGetByBlockchainAndAddress env b a w = (Err e, w1)"
        "processingGetByBlockchainAndAddress env b a w1 = (Err e', w2)"
        "coldGetByBlockchainAndAddress env b a w2 = (Val cw, w3)" "r = plainResult WalletTypeCold cw"
    unfolding checkWalletInDatabase_def lookupOrNext_Val fail_Val by blast
  then show ?thesis
  proof cases
    case hot
    with wallet_rows(1) [OF hot(1)] show ?thesis by (auto simp: knownWallet_def)
  next
    case processing
    with wallet_rows(2) [OF processing(2)] keepsD [OF keeps_wallet_lookups(1) processing(1)]
    show ?thesis by (auto simp: knownWallet_def)
  next
    case cold
    with wallet_rows(3) [OF cold(3)] keepsD [OF keeps_wallet_lookups(1) cold(1)]
      keepsD [OF keeps_wallet_lookups(2) cold(2)] show ?thesis by (auto simp: knownWallet_def)
  qed
qed

end
