(* ===== verification/WorkflowFacts.thy ===== *)
theory WorkflowFacts
  imports Workflow
begin

text \<open>
  The library about the engine: reading after writing one step, the frame that the functions of a
  state machine keep, the fate of a completed step during a run, and the interface locale under
  which the engine's lemmas hold for every machine.
\<close>

section \<open>Reading and writing one step\<close>

lemma stepAt_updStep:
  "stepAt (updStep i j f w) i' j' =
     (if i' = i \<and> j' = j then map_option f (stepAt w i j) else stepAt w i' j')"
  by (auto simp: stepAt_def stageAt_def updStep_def nth_list_update split: option.splits if_splits)

lemma stageAt_updStep_name:
  "map_option sgName (stageAt (updStep i j f w) k) = map_option sgName (stageAt w k)"
  by (auto simp: stepAt_def stageAt_def updStep_def nth_list_update split: option.splits if_splits)

lemma length_updStep [simp]: "length (wStages (updStep i j f w)) = length (wStages w)"
  by (simp add: updStep_def split: option.splits)

lemma wState_updStep [simp]: "wState (updStep i j f w) = wState w"
  by (simp add: updStep_def split: option.splits)

lemma wSkip_updStep [simp]: "wSkipError (updStep i j f w) = wSkipError w"
  by (simp add: updStep_def split: option.splits)

lemma wState_updState [simp]: "wState (updState i j f w) = wState w"
  by (simp add: updState_def)

lemma statusAt_updState:
  "statusAt (updState i j f w) i' j' =
     (if i' = i \<and> j' = j
      then (case stepAt w i j of None \<Rightarrow> None | Some st \<Rightarrow> map_option (Status \<circ> f) (spState st))
      else statusAt w i' j')"
  by (auto simp: statusAt_def updState_def stepAt_updStep option.map_comp split: option.splits)

lemma statusAt_updState_other: "(i', j') \<noteq> (i, j) \<Longrightarrow> statusAt (updState i j f w) i' j' = statusAt w i' j'"
  by (auto simp: statusAt_updState)

lemma stepAt_cong: "wStages w' = wStages w \<Longrightarrow> stepAt w' i j = stepAt w i j"
  by (simp add: stepAt_def stageAt_def)

lemma statusAt_cong: "wStages w' = wStages w \<Longrightarrow> statusAt w' i j = statusAt w i j"
  by (simp add: statusAt_def stepAt_def stageAt_def)

lemma wStages_field [simp]:
  "wStages (setNextStep s w) = wStages w"
  "wStages (setNextStage s w) = wStages w"
  by (simp_all add: setNextStep_def setNextStage_def)

lemma statusAt_setNextStep [simp]: "statusAt (setNextStep s w) i j = statusAt w i j"
  by (rule statusAt_cong) simp

lemma statusAt_setNextStage [simp]: "statusAt (setNextStage s w) i j = statusAt w i j"
  by (rule statusAt_cong) simp

lemma statusAt_wState [simp]: "statusAt (w\<lparr>wState := ws\<rparr>) i j = statusAt w i j"
  by (rule statusAt_cong) simp

lemma statusAt_wPrevStep [simp]: "statusAt (w\<lparr>wPrevStep := p\<rparr>) i j = statusAt w i j"
  by (rule statusAt_cong) simp

section \<open>The frame of a run\<close>

text \<open>
  What a function of a state machine leaves alone: the stages and steps with their settings and the
  status of every step. It may set arguments of a step state, the state of the workflow and its own
  fields.
\<close>

definition frameStep :: "step \<Rightarrow> step" where
  "frameStep st = st\<lparr>spState := map_option (\<lambda>ss. newStepState\<lparr>Status := Status ss\<rparr>) (spState st)\<rparr>"

definition frame :: "'a workflow_scheme \<Rightarrow> stage list" where
  "frame w = map (\<lambda>sg. sg\<lparr>sgSteps := map frameStep (sgSteps sg)\<rparr>) (wStages w)"

lemma frame_length: "frame w = frame w' \<Longrightarrow> length (wStages w) = length (wStages w')"
  by (drule arg_cong [of _ _ length]) (simp add: frame_def)

lemma frame_stepAt: "map_option frameStep (stepAt w i j) =
    (if i < length (frame w) \<and> j < length (sgSteps (frame w ! i)) then Some (sgSteps (frame w ! i) ! j) else None)"
  by (auto simp: frame_def stepAt_def stageAt_def)

lemma frameStep_status: "map_option Status (spState (frameStep st)) = map_option Status (spState st)"
  by (simp add: frameStep_def newStepState_def option.map_comp o_def)

lemma statusAt_frame: "frame w = frame w' \<Longrightarrow> statusAt w i j = statusAt w' i j"
proof -
  assume "frame w = frame w'"
  then have "map_option frameStep (stepAt w i j) = map_option frameStep (stepAt w' i j)"
    by (simp add: frame_stepAt)
  then show ?thesis
    unfolding statusAt_def
    by (cases "stepAt w i j"; cases "stepAt w' i j")
      (auto simp: frameStep_status dest: arg_cong [of _ _ "\<lambda>st. map_option Status (spState st)"])
qed

lemma frame_cong: "wStages w' = wStages w \<Longrightarrow> frame w' = frame w"
  by (simp add: frame_def)

lemma frame_setNextStep [simp]: "frame (setNextStep s w) = frame w"
  by (rule frame_cong) simp

lemma frame_setNextStage [simp]: "frame (setNextStage s w) = frame w"
  by (rule frame_cong) simp

lemma frame_wState [simp]: "frame (w\<lparr>wState := ws\<rparr>) = frame w"
  by (rule frame_cong) simp

lemma frame_wSkipError [simp]: "frame (w\<lparr>wSkipError := b\<rparr>) = frame w"
  by (rule frame_cong) simp

lemma frame_updStep:
  assumes "\<And>st. frameStep (f st) = frameStep st"
  shows "frame (updStep i j f w) = frame w"
proof (cases "stepAt w i j")
  case None
  then show ?thesis by (simp add: updStep_def)
next
  case (Some st)
  then have st: "st = sgSteps (wStages w ! i) ! j"
    by (auto simp: stepAt_def stageAt_def split: if_splits option.splits)
  let ?sg = "wStages w ! i"
  let ?fr = "\<lambda>sg. sg\<lparr>sgSteps := map frameStep (sgSteps sg)\<rparr>"
  have "map frameStep ((sgSteps ?sg)[j := f st]) = map frameStep (sgSteps ?sg)"
    by (rule map_update_same) (simp add: assms st)
  then have "?fr (?sg\<lparr>sgSteps := (sgSteps ?sg)[j := f st]\<rparr>) = ?fr ?sg"
    by simp
  then have "map ?fr ((wStages w)[i := ?sg\<lparr>sgSteps := (sgSteps ?sg)[j := f st]\<rparr>]) = map ?fr (wStages w)"
    by (rule map_update_same)
  with Some show ?thesis by (simp add: updStep_def frame_def)
qed

lemma frame_updState: "(\<And>ss. Status (f ss) = Status ss) \<Longrightarrow> frame (updState i j f w) = frame w"
  unfolding updState_def
  by (rule frame_updStep) (simp add: frameStep_def option.map_comp o_def)

text \<open>The part of the frame that no operation of the engine changes after the initialisation.\<close>

definition bareStep :: "step \<Rightarrow> step" where
  "bareStep st = st\<lparr>spState := map_option (\<lambda>_. newStepState) (spState st)\<rparr>"

definition shape :: "'a workflow_scheme \<Rightarrow> stage list" where
  "shape w = map (\<lambda>sg. sg\<lparr>sgSteps := map bareStep (sgSteps sg)\<rparr>) (wStages w)"

lemma shape_cong: "wStages w' = wStages w \<Longrightarrow> shape w' = shape w"
  by (simp add: shape_def)

lemma shape_setNext [simp]:
  "shape (setNextStep s w) = shape w" "shape (setNextStage s w) = shape w"
  by (rule shape_cong, simp)+

lemma shape_wPrevStep [simp]: "shape (w\<lparr>wPrevStep := p\<rparr>) = shape w"
  by (rule shape_cong) simp

lemma shape_frame:
  "shape w = map (\<lambda>sg. sg\<lparr>sgSteps := map bareStep (sgSteps sg)\<rparr>) (frame w)"
  by (simp add: shape_def frame_def frameStep_def bareStep_def option.map_comp o_def)

lemma shape_of_frame: "frame w = frame w' \<Longrightarrow> shape w = shape w'"
  unfolding shape_frame by (rule arg_cong)

lemma shape_updState [simp]: "shape (updState i j f w) = shape w"
proof (cases "stepAt w i j")
  case None
  then show ?thesis by (simp add: updState_def updStep_def)
next
  case (Some st)
  then have st: "st = sgSteps (wStages w ! i) ! j"
    by (auto simp: stepAt_def stageAt_def split: if_splits option.splits)
  let ?sg = "wStages w ! i"
  let ?bare = "\<lambda>sg. sg\<lparr>sgSteps := map bareStep (sgSteps sg)\<rparr>"
  let ?st = "st\<lparr>spState := map_option f (spState st)\<rparr>"
  have "map bareStep ((sgSteps ?sg)[j := ?st]) = map bareStep (sgSteps ?sg)"
    by (rule map_update_same) (simp add: st bareStep_def option.map_comp o_def)
  then have "?bare (?sg\<lparr>sgSteps := (sgSteps ?sg)[j := ?st]\<rparr>) = ?bare ?sg" by simp
  then have "map ?bare ((wStages w)[i := ?sg\<lparr>sgSteps := (sgSteps ?sg)[j := ?st]\<rparr>]) = map ?bare (wStages w)"
    by (rule map_update_same)
  with Some show ?thesis by (simp add: updState_def updStep_def shape_def)
qed

lemma shape_stage: "shape w = shape w' \<Longrightarrow>
   length (wStages w) = length (wStages w') \<and>
   map_option (\<lambda>sg. (sgName sg, length (sgSteps sg))) (stageAt w i) =
   map_option (\<lambda>sg. (sgName sg, length (sgSteps sg))) (stageAt w' i)"
proof -
  assume eq: "shape w = shape w'"
  then have len: "length (wStages w) = length (wStages w')"
    by (drule_tac arg_cong [of _ _ length]) (simp add: shape_def)
  moreover have "map_option (\<lambda>sg. (sgName sg, length (sgSteps sg))) (stageAt w i) =
    map_option (\<lambda>sg. (sgName sg, length (sgSteps sg))) (stageAt w' i)"
  proof (cases "i < length (wStages w)")
    case True
    from eq have "shape w ! i = shape w' ! i" by simp
    with True len have sg: "(wStages w ! i)\<lparr>sgSteps := map bareStep (sgSteps (wStages w ! i))\<rparr> =
        (wStages w' ! i)\<lparr>sgSteps := map bareStep (sgSteps (wStages w' ! i))\<rparr>"
      by (simp add: shape_def)
    from arg_cong [OF sg, of sgName] arg_cong [OF sg, of "\<lambda>sg. length (sgSteps sg)"] True len
    show ?thesis by (simp add: stageAt_def)
  next
    case False
    with len show ?thesis by (simp add: stageAt_def)
  qed
  ultimately show ?thesis by blast
qed

text \<open>The names and limits of the steps, and which of them have a state, are part of the shape.\<close>

lemma stepAt_shape:
  fixes w w' :: "'a workflow_scheme"
  assumes "shape w = shape w'"
  shows "map_option bareStep (stepAt w i j) = map_option bareStep (stepAt w' i j)"
proof -
  have "map_option bareStep (stepAt u i j) =
     (if i < length (shape u) \<and> j < length (sgSteps (shape u ! i)) then Some (sgSteps (shape u ! i) ! j) else None)"
    for u :: "'a workflow_scheme" by (auto simp: shape_def stepAt_def stageAt_def)
  then show ?thesis by (simp only: assms)
qed

lemma statusAt_shape:
  fixes w w' :: "'a workflow_scheme"
  assumes "shape w = shape w'"
  shows "statusAt w i j = None \<longleftrightarrow> statusAt w' i j = None"
proof -
  have "(statusAt u i j = None) = (case map_option bareStep (stepAt u i j) of None \<Rightarrow> True | Some st \<Rightarrow> spState st = None)"
    for u :: "'a workflow_scheme" by (auto simp: statusAt_def bareStep_def split: option.splits)
  then show ?thesis by (simp only: stepAt_shape [OF assms])
qed

section \<open>The retry policies of a step\<close>

text \<open>A view that the function and the pauses keep is kept by the whole loop.\<close>

lemma runWithLinear_keeps:
  assumes "runWithLinear sleep m t fn e r s = Some y" and "\<And>d s. v (sleep d s) = v s" and "keeps v fn"
  shows "v (snd y) = v s"
proof -
  have "(\<forall>d s. v (sleep d s) = v s) \<longrightarrow> keeps v fn \<longrightarrow> v (snd y) = v s"
  proof (rule runWithLinear.raw_induct
      [where P = "\<lambda>sleep m t fn e r s y. (\<forall>d s. v (sleep d s) = v s) \<longrightarrow> keeps v fn \<longrightarrow> v (snd y) = v s",
       OF _ assms(1)])
    fix loop sleep m t fn e r s y
    assume IH: "\<And>sleep m t fn e r s y. loop sleep m t fn e r s = Some y \<Longrightarrow>
        (\<forall>d s. v (sleep d s) = v s) \<longrightarrow> keeps v fn \<longrightarrow> v (snd y) = v s"
      and body: "(if r < m \<or> m < 0 then case fn s of (Val u, s1) \<Rightarrow> Some (Val (), s1)
         | (Err e, s1) \<Rightarrow> loop sleep m t fn (Err e) (r + 1) (if r + 1 < m then sleep t s1 else s1)
         | (Panic p, s1) \<Rightarrow> Some (Panic p, s1) else Some (e, s)) = Some y"
    show "(\<forall>d s. v (sleep d s) = v s) \<longrightarrow> keeps v fn \<longrightarrow> v (snd y) = v s"
    proof (intro impI)
      assume sl: "\<forall>d s. v (sleep d s) = v s" and kf: "keeps v fn"
      obtain res s1 where fn: "fn s = (res, s1)" by (cases "fn s")
      have vs: "v s1 = v s" using keepsD [OF kf fn] .
      show "v (snd y) = v s"
      proof (cases res)
        case (Err e')
        show ?thesis
        proof (cases "r < m \<or> m < 0")
          case True
          with body fn Err
          have "loop sleep m t fn (Err e') (r + 1) (if r + 1 < m then sleep t s1 else s1) = Some y" by simp
          from IH [OF this] sl kf have "v (snd y) = v (if r + 1 < m then sleep t s1 else s1)" by blast
          with sl vs show ?thesis by simp
        qed (use body in auto)
      qed (use body fn vs in \<open>auto split: if_split_asm\<close>)
    qed
  qed
  with assms(2,3) show ?thesis by blast
qed

lemma runWithBackoff_keeps:
  assumes "runWithBackoff sleep m t fn e r s = Some y" and "\<And>d s. v (sleep d s) = v s" and "keeps v fn"
  shows "v (snd y) = v s"
proof -
  have "(\<forall>d s. v (sleep d s) = v s) \<longrightarrow> keeps v fn \<longrightarrow> v (snd y) = v s"
  proof (rule runWithBackoff.raw_induct
      [where P = "\<lambda>sleep m t fn e r s y. (\<forall>d s. v (sleep d s) = v s) \<longrightarrow> keeps v fn \<longrightarrow> v (snd y) = v s",
       OF _ assms(1)])
    fix loop sleep m t fn e r s y
    assume IH: "\<And>sleep m t fn e r s y. loop sleep m t fn e r s = Some y \<Longrightarrow>
        (\<forall>d s. v (sleep d s) = v s) \<longrightarrow> keeps v fn \<longrightarrow> v (snd y) = v s"
      and body: "(if r < m \<or> m < 0 then case fn s of (Val u, s1) \<Rightarrow> Some (Val (), s1)
         | (Err e, s1) \<Rightarrow> if r + 1 < m then loop sleep m (2 * t) fn (Err e) (r + 1) (sleep t s1)
              else loop sleep m t fn (Err e) (r + 1) s1
         | (Panic p, s1) \<Rightarrow> Some (Panic p, s1) else Some (e, s)) = Some y"
    show "(\<forall>d s. v (sleep d s) = v s) \<longrightarrow> keeps v fn \<longrightarrow> v (snd y) = v s"
    proof (intro impI)
      assume sl: "\<forall>d s. v (sleep d s) = v s" and kf: "keeps v fn"
      obtain res s1 where fn: "fn s = (res, s1)" by (cases "fn s")
      have vs: "v s1 = v s" using keepsD [OF kf fn] .
      show "v (snd y) = v s"
      proof (cases res)
        case (Err e')
        show ?thesis
        proof (cases "r < m \<or> m < 0")
          case True
          with body fn Err obtain t' s2 where
            "loop sleep m t' fn (Err e') (r + 1) s2 = Some y" and "s2 = s1 \<or> s2 = sleep t s1"
            by (auto split: if_split_asm)
          with IH [OF this(1)] sl kf vs show ?thesis by auto
        qed (use body in auto)
      qed (use body fn vs in \<open>auto split: if_split_asm\<close>)
    qed
  qed
  with assms(2,3) show ?thesis by blast
qed

lemma runPolicy_keeps:
  assumes "runPolicy h p st fn s = Some y" and "\<And>d s. v (hSleep h d s) = v s" and "keeps v fn"
  shows "v (snd y) = v s"
  using assms(1) unfolding runPolicy_def
  by (cases p) (auto intro: runWithLinear_keeps [OF _ assms(2,3)] runWithBackoff_keeps [OF _ assms(2,3)])

section \<open>Exchanging the functions of one step\<close>

definition settled :: "step_status \<Rightarrow> bool" where
  "settled s \<longleftrightarrow> s = StatusCompleted \<or> s = StatusSkipped"

definition withStep :: "nat \<Rightarrow> nat \<Rightarrow> 's act option \<Rightarrow> 's act option \<Rightarrow> 's act option \<Rightarrow> 's hooks \<Rightarrow> 's hooks" where
  "withStep i0 j0 f b a h = h\<lparr>
     hFunc := (\<lambda>i j. if (i, j) = (i0, j0) then f else hFunc h i j),
     hStepBefore := (\<lambda>i j. if (i, j) = (i0, j0) then b else hStepBefore h i j),
     hStepAfter := (\<lambda>i j. if (i, j) = (i0, j0) then a else hStepAfter h i j)\<rparr>"

lemma withStep_hooks [simp]:
  "hStopped (withStep i0 j0 f b a h) = hStopped h"
  "hNow (withStep i0 j0 f b a h) = hNow h"
  "hSleep (withStep i0 j0 f b a h) = hSleep h"
  "hBeforeAll (withStep i0 j0 f b a h) = hBeforeAll h"
  "hAfterAll (withStep i0 j0 f b a h) = hAfterAll h"
  "hCtxErr (withStep i0 j0 f b a h) = hCtxErr h"
  "hBefore (withStep i0 j0 f b a h) = hBefore h"
  "hAfter (withStep i0 j0 f b a h) = hAfter h"
  "hStageBefore (withStep i0 j0 f b a h) = hStageBefore h"
  "hStageAfter (withStep i0 j0 f b a h) = hStageAfter h"
  "hOnFailure (withStep i0 j0 f b a h) = hOnFailure h"
  by (simp_all add: withStep_def)

section \<open>The interface of a state machine\<close>

text \<open>
  What the engine relies on: none of the machine's functions changes the frame. The lemmas of the
  engine are proved under this contract; every machine of the development interprets it.
\<close>

locale framed_hooks =
  fixes h :: "('a workflow_scheme) hooks"
  assumes func_frame: "hFunc h i j = Some f \<Longrightarrow> keeps frame f"
    and before_frame: "hStepBefore h i j = Some f \<Longrightarrow> keeps frame f"
    and after_frame: "hStepAfter h i j = Some f \<Longrightarrow> keeps frame f"
    and before_all_frame: "hBeforeAll h = Some g \<Longrightarrow> keeps frame (g i j)"
    and after_all_frame: "hAfterAll h = Some g \<Longrightarrow> keeps frame (g i j)"
    and stage_before_frame: "hStageBefore h i = Some f \<Longrightarrow> keeps frame f"
    and stage_after_frame: "hStageAfter h i = Some f \<Longrightarrow> keeps frame f"
    and wf_before_frame: "hBefore h = Some f \<Longrightarrow> keeps frame f"
    and wf_after_frame: "hAfter h = Some f \<Longrightarrow> keeps frame f"
    and sleep_frame: "frame (hSleep h d w) = frame w"
begin

lemma runOpt_frame: "(\<And>f. a = Some f \<Longrightarrow> keeps frame f) \<Longrightarrow> keeps frame (runOpt a)"
  by (cases a) (auto simp: runOpt_def intro: keeps_intros)

lemma stepEnter_effect:
  "shape (stepEnter i j w) = shape w"
  "(i', j') \<noteq> (i, j) \<Longrightarrow> statusAt (stepEnter i j w) i' j' = statusAt w i' j'"
  by (auto simp: stepEnter_def Let_def statusAt_updState_other split: option.splits prod.splits)

text \<open>The functions around a step and the step's own function keep the frame.\<close>

lemma entry_hooks_frame:
  "keeps frame (bnd (runOpt (map_option (\<lambda>f. f i j) (hBeforeAll h))) (\<lambda>_. runOpt (hStepBefore h i j)))"
  by (intro keeps_bnd runOpt_frame) (auto intro: before_frame before_all_frame)

lemma exit_hooks_frame:
  "keeps frame (bnd (runOpt (hStepAfter h i j)) (\<lambda>_. runOpt (map_option (\<lambda>f. f i j) (hAfterAll h))))"
  by (intro keeps_bnd runOpt_frame) (auto intro: after_frame after_all_frame)

lemma runPolicy_frame:
  assumes "runPolicy h p st f w = Some y" and "hFunc h i j = Some f"
  shows "frame (snd y) = frame w"
  by (rule runPolicy_keeps [OF assms(1) sleep_frame func_frame [OF assms(2)]])

lemma stepBody_frame:
  assumes "stepBody h i j st sname w0 = Some (res, w')"
  shows "frame w' = frame (stepEnter i j w0)"
proof (cases "hFunc h i j")
  case None
  with assms show ?thesis by (auto simp: stepBody_def Let_def)
next
  case (Some fn)
  show ?thesis
  proof (cases "spRetryPolicy st")
    case None
    with assms Some show ?thesis by (auto simp: stepBody_def Let_def)
  next
    case (Some pol)
    obtain r1 w1 where e: "bnd (runOpt (map_option (\<lambda>f. f i j) (hBeforeAll h)))
        (\<lambda>_. runOpt (hStepBefore h i j)) (stepEnter i j w0) = (r1, w1)" by (rule prod.exhaust)
    have f1: "frame w1 = frame (stepEnter i j w0)" by (rule keepsD [OF entry_hooks_frame e])
    show ?thesis
    proof (cases r1)
      case (Val u)
      show ?thesis
      proof (cases "runPolicy h pol st fn w1")
        case None
        with assms \<open>hFunc h i j = Some fn\<close> Some e Val show ?thesis by (simp add: stepBody_def Let_def)
      next
        case (Some y)
        obtain r2 w2 where y: "y = (r2, w2)" by (cases y)
        from runPolicy_frame [OF Some \<open>hFunc h i j = Some fn\<close>] y f1
        have f2: "frame w2 = frame (stepEnter i j w0)" by simp
        obtain r3 w3 where x: "bnd (runOpt (hStepAfter h i j))
            (\<lambda>_. runOpt (map_option (\<lambda>f. f i j) (hAfterAll h))) w2 = (r3, w3)" by (rule prod.exhaust)
        have f3: "frame w3 = frame (stepEnter i j w0)" using keepsD [OF exit_hooks_frame x] f2 by simp
        from assms \<open>hFunc h i j = Some fn\<close> \<open>spRetryPolicy st = Some pol\<close> e Val Some y x f2 f3
        show ?thesis by (cases r2; cases r3) (auto simp: stepBody_def Let_def)
      qed
    qed (use assms \<open>hFunc h i j = Some fn\<close> Some e f1 in \<open>simp_all add: stepBody_def Let_def\<close>)
  qed
qed

lemma stepFinish_effect:
  "shape (stepFinish h i j res w) = shape w"
  "(i', j') \<noteq> (i, j) \<Longrightarrow> statusAt (stepFinish h i j res w) i' j' = statusAt w i' j'"
  by (auto simp: stepFinish_def Let_def statusAt_updState_other split: outcome.splits)

lemma handleStep_effect:
  assumes "handleStep h i j w = Some (res, w')"
  shows "shape w' = shape w" and "(i', j') \<noteq> (i, j) \<Longrightarrow> statusAt w' i' j' = statusAt w i' j'"
proof -
  have "shape w' = shape w \<and> ((i', j') \<noteq> (i, j) \<longrightarrow> statusAt w' i' j' = statusAt w i' j')"
    using assms unfolding handleStep_def
    by (auto simp: Let_def stepEnter_effect stepFinish_effect statusAt_updState_other
        shape_of_frame [OF stepBody_frame] statusAt_frame [OF stepBody_frame]
        split: option.splits if_splits outcome.splits prod.splits)
  then show "shape w' = shape w" and "(i', j') \<noteq> (i, j) \<Longrightarrow> statusAt w' i' j' = statusAt w i' j'"
    by blast+
qed

text \<open>
  A step that an earlier run completed or skipped is settled. Handling it reads its status and
  nothing else, so its functions can be exchanged without any effect.
\<close>

lemma handleStep_settled:
  assumes "statusAt w i j = Some s" and "settled s"
  shows "\<exists>e w'. handleStep h i j w = Some (Err e, w') \<and> (e = ErrSkipStep \<or> e = ErrExitWorkflow) \<and> wStages w' = wStages w"
  using assms unfolding handleStep_def statusAt_def settled_def
  by (auto simp: Let_def setNextStep_def split: option.splits)

lemma handleStep_withStep:
  assumes "(i, j) \<noteq> (i0, j0) \<or> (\<exists>s. statusAt w i0 j0 = Some s \<and> settled s)"
  shows "handleStep (withStep i0 j0 f b a h) i j w = handleStep h i j w"
proof (cases "(i, j) = (i0, j0)")
  case True
  with assms obtain s where "statusAt w i j = Some s" "settled s" by auto
  then show ?thesis unfolding handleStep_def statusAt_def settled_def
    by (auto simp: Let_def split: option.splits)
next
  case False
  then have at: "hFunc (withStep i0 j0 f b a h) i j = hFunc h i j"
    "hStepBefore (withStep i0 j0 f b a h) i j = hStepBefore h i j"
    "hStepAfter (withStep i0 j0 f b a h) i j = hStepAfter h i j"
    by (auto simp: withStep_def)
  show ?thesis
    unfolding handleStep_def stepBody_def stepFinish_def runPolicy_def at withStep_hooks ..
qed

lemma handleStep_keeps_settled:
  assumes "handleStep h i j w = Some (res, w')" and "statusAt w i0 j0 = Some s" and "settled s"
  shows "statusAt w' i0 j0 = Some s"
proof (cases "(i, j) = (i0, j0)")
  case True
  with handleStep_settled [of w i j s] assms have "wStages w' = wStages w" by auto
  then show ?thesis using assms(2) statusAt_cong by metis
next
  case False
  with handleStep_effect(2) [OF assms(1), of i0 j0] assms(2) show ?thesis by auto
qed

lemma runSteps_effect:
  assumes "runSteps h i js w = Some (res, w')"
  shows "shape w' = shape w" and "statusAt w i0 j0 = Some s \<Longrightarrow> settled s \<Longrightarrow> statusAt w' i0 j0 = Some s"
proof -
  have "shape w' = shape w \<and> (statusAt w i0 j0 = Some s \<and> settled s \<longrightarrow> statusAt w' i0 j0 = Some s)"
    using assms
  proof (induction js arbitrary: w)
    case (Cons j js)
    show ?case
    proof (cases "handleStep h i j w")
      case (Some y)
      obtain r w1 where y: "handleStep h i j w = Some (r, w1)" using Some by (cases y) auto
      have w1: "shape w1 = shape w" "statusAt w i0 j0 = Some s \<Longrightarrow> settled s \<Longrightarrow> statusAt w1 i0 j0 = Some s"
        by (rule handleStep_effect(1) [OF y]) (rule handleStep_keeps_settled [OF y])
      from Cons.prems y w1 Cons.IH [of w1] show ?thesis
        by (auto split: if_split_asm outcome.split_asm)
    qed (use Cons.prems in \<open>simp split: if_split_asm\<close>)
  qed simp
  then show "shape w' = shape w" and "statusAt w i0 j0 = Some s \<Longrightarrow> settled s \<Longrightarrow> statusAt w' i0 j0 = Some s"
    by blast+
qed

lemma runSteps_withStep:
  assumes "statusAt w i0 j0 = Some s" and "settled s"
  shows "runSteps (withStep i0 j0 f b a h) i js w = runSteps h i js w"
  using assms(1)
proof (induction js arbitrary: w)
  case (Cons j js)
  have same: "handleStep (withStep i0 j0 f b a h) i j w = handleStep h i j w"
    using Cons.prems assms(2) by (intro handleStep_withStep) blast
  show ?case
  proof (cases "handleStep h i j w")
    case (Some y)
    obtain r w1 where y: "handleStep h i j w = Some (r, w1)" using Some by (cases y) auto
    have "statusAt w1 i0 j0 = Some s" by (rule handleStep_keeps_settled [OF y Cons.prems assms(2)])
    from Cons.IH [OF this] same y show ?thesis
      by (simp add: withStep_hooks split: outcome.splits)
  qed (simp add: same withStep_hooks)
qed simp

end

section \<open>Stages and the whole run\<close>

lemma setNext_twice [simp]:
  "setNextStage a (setNextStage b w) = setNextStage a w"
  "setNextStep a (setNextStep b w) = setNextStep a w"
  by (simp_all add: setNextStage_def setNextStep_def)

context framed_hooks begin

lemma hook_kept:
  assumes "\<And>f. a = Some f \<Longrightarrow> keeps frame f" and "runOpt a w = (r, w')"
  shows "shape w' = shape w" and "statusAt w' i j = statusAt w i j"
  using shape_of_frame [OF keepsD [OF runOpt_frame [OF assms(1)] assms(2)]]
    statusAt_frame [OF keepsD [OF runOpt_frame [OF assms(1)] assms(2)]] by auto

lemma handleStage_effect:
  assumes "handleStage h i w = Some (res, w')"
  shows "shape w' = shape w" and "statusAt w i0 j0 = Some s \<Longrightarrow> settled s \<Longrightarrow> statusAt w' i0 j0 = Some s"
proof -
  have "shape w' = shape w \<and> (statusAt w i0 j0 = Some s \<and> settled s \<longrightarrow> statusAt w' i0 j0 = Some s)"
  proof (cases "stageAt w i")
    case None
    with assms show ?thesis by (auto simp: handleStage_def)
  next
    case (Some sg)
    define w2 where "w2 = (if NextStage (wState w) \<noteq> '''' then setNextStage '''' w else w)"
    have w2: "shape w2 = shape w" "statusAt w2 i0 j0 = statusAt w i0 j0"
      by (simp_all add: w2_def)
    obtain r3 w3 where b: "runOpt (hStageBefore h i) w2 = (r3, w3)" by (rule prod.exhaust)
    have w3: "shape w3 = shape w" "statusAt w3 i0 j0 = statusAt w i0 j0"
      using hook_kept [OF stage_before_frame b] w2 by auto
    show ?thesis
    proof (cases "wStages w' = wStages w \<or> wStages w' = wStages w3")
      case True
      then show ?thesis
        using w3 shape_cong [of w' w] shape_cong [of w' w3]
          statusAt_cong [of w' w i0 j0] statusAt_cong [of w' w3 i0 j0] by auto
    next
      case False
      then obtain r4 w4 where s4: "runSteps h i [0..<length (sgSteps sg)] w3 = Some (r4, w4)"
        and fin: "w' = w4 \<or> (\<exists>r. runOpt (hStageAfter h i) w4 = (r, w'))"
        using assms Some b unfolding handleStage_def w2_def
        by (auto simp: Let_def split: if_split_asm outcome.split_asm option.split_asm prod.split_asm)
      have w4: "shape w4 = shape w" "statusAt w i0 j0 = Some s \<Longrightarrow> settled s \<Longrightarrow> statusAt w4 i0 j0 = Some s"
        using runSteps_effect [OF s4] w3 by auto
      from fin show ?thesis
      proof (elim disjE exE)
        fix r assume "runOpt (hStageAfter h i) w4 = (r, w')"
        from hook_kept [OF stage_after_frame this] w4 show ?thesis by simp
      qed (use w4 in simp)
    qed
  qed
  then show "shape w' = shape w" and "statusAt w i0 j0 = Some s \<Longrightarrow> settled s \<Longrightarrow> statusAt w' i0 j0 = Some s"
    by blast+
qed

lemma handleStage_withStep:
  assumes "statusAt w i0 j0 = Some s" and "settled s"
  shows "handleStage (withStep i0 j0 f b a h) i w = handleStage h i w"
proof (cases "stageAt w i")
  case None
  then show ?thesis by (simp add: handleStage_def)
next
  case (Some sg)
  define w2 where "w2 = (if NextStage (wState w) \<noteq> '''' then setNextStage '''' w else w)"
  obtain r3 w3 where bf: "runOpt (hStageBefore h i) w2 = (r3, w3)" by (rule prod.exhaust)
  have "statusAt w3 i0 j0 = Some s"
    using hook_kept(2) [OF stage_before_frame bf] assms(1) by (simp add: w2_def)
  from runSteps_withStep [OF this assms(2)] Some bf show ?thesis
    unfolding handleStage_def withStep_hooks by (auto simp: Let_def w2_def split: outcome.split)
qed

lemma runStages_effect:
  assumes "runStages h ks w = Some (e, w')"
  shows "shape w' = shape w" and "statusAt w i0 j0 = Some s \<Longrightarrow> settled s \<Longrightarrow> statusAt w' i0 j0 = Some s"
proof -
  have "shape w' = shape w \<and> (statusAt w i0 j0 = Some s \<and> settled s \<longrightarrow> statusAt w' i0 j0 = Some s)"
    using assms
  proof (induction ks arbitrary: w)
    case (Cons i ks)
    show ?case
    proof (cases "handleStage h i w")
      case (Some y)
      obtain r w1 where y: "handleStage h i w = Some (r, w1)" using Some by (cases y) auto
      have w1: "shape w1 = shape w" "statusAt w i0 j0 = Some s \<Longrightarrow> settled s \<Longrightarrow> statusAt w1 i0 j0 = Some s"
        by (rule handleStage_effect(1) [OF y]) (rule handleStage_effect(2) [OF y])
      from Cons.prems y w1 Cons.IH [of w1] show ?thesis
        by (auto split: if_split_asm outcome.split_asm)
    qed (use Cons.prems in \<open>simp split: if_split_asm\<close>)
  qed simp
  then show "shape w' = shape w" and "statusAt w i0 j0 = Some s \<Longrightarrow> settled s \<Longrightarrow> statusAt w' i0 j0 = Some s"
    by blast+
qed

lemma runStages_withStep:
  assumes "statusAt w i0 j0 = Some s" and "settled s"
  shows "runStages (withStep i0 j0 f b a h) ks w = runStages h ks w"
  using assms(1)
proof (induction ks arbitrary: w)
  case (Cons i ks)
  note same = handleStage_withStep [OF Cons.prems assms(2), of f b a i]
  show ?case
  proof (cases "handleStage h i w")
    case (Some y)
    obtain r w1 where y: "handleStage h i w = Some (r, w1)" using Some by (cases y) auto
    have "statusAt w1 i0 j0 = Some s" by (rule handleStage_effect(2) [OF y Cons.prems assms(2)])
    from Cons.IH [OF this] same y show ?thesis by (simp split: outcome.splits)
  qed (simp add: same)
qed simp

end

section \<open>Initialisation\<close>

lemma initStep_state: "spState (initStep sg st) =
    Some ((case spState st of None \<Rightarrow> newStepState | Some ss \<Rightarrow> ss)\<lparr>CurrentStage := sg, CurrentStep := spName st\<rparr>)"
  by (simp add: initStep_def Let_def)

lemma initSteps_length: "initSteps sg seen sts = (e, sts') \<Longrightarrow> length sts' = length sts"
  by (induction sg seen sts arbitrary: e sts' rule: initSteps.induct) (auto split: if_split_asm prod.split_asm)

lemma initSteps_nth:
  "initSteps sg seen sts = (e, sts') \<Longrightarrow> j < length sts \<Longrightarrow> sts' ! j = sts ! j \<or> sts' ! j = initStep sg (sts ! j)"
proof (induction sts arbitrary: seen e sts' j)
  case (Cons st sts)
  obtain e1 sts1 where r: "initSteps sg (spName st # seen) sts = (e1, sts1)" by (rule prod.exhaust)
  show ?case
  proof (cases j)
    case 0
    with Cons.prems r show ?thesis by (auto split: if_split_asm)
  next
    case (Suc k)
    with Cons.prems r Cons.IH [OF r, of k] show ?thesis by (auto split: if_split_asm)
  qed
qed simp

lemma initSteps_status:
  assumes "initSteps sg seen sts = (e, sts')" and "j < length sts" and "spState (sts ! j) = Some ss"
  shows "map_option Status (spState (sts' ! j)) = Some (Status ss)"
  using initSteps_nth [OF assms(1,2)] assms(3) by (auto simp: initStep_state)

lemma initStages_length: "initStages sgs = (e, sgs') \<Longrightarrow> length sgs' = length sgs"
  by (induction sgs arbitrary: e sgs') (auto split: option.split_asm prod.split_asm)

lemma initStages_nth:
  "initStages sgs = (e, sgs') \<Longrightarrow> i < length sgs \<Longrightarrow>
     sgs' ! i = sgs ! i \<or> (\<exists>e' sts'. initSteps (sgName (sgs ! i)) [] (sgSteps (sgs ! i)) = (e', sts') \<and>
        sgs' ! i = (sgs ! i)\<lparr>sgSteps := sts'\<rparr>)"
proof (induction sgs arbitrary: e sgs' i)
  case (Cons sg sgs)
  obtain e1 sts1 where s: "initSteps (sgName sg) [] (sgSteps sg) = (e1, sts1)" by (rule prod.exhaust)
  obtain e2 sgs2 where r: "initStages sgs = (e2, sgs2)" by (rule prod.exhaust)
  show ?case
  proof (cases i)
    case 0
    with Cons.prems s r show ?thesis by (cases e1) auto
  next
    case (Suc k)
    with Cons.prems s r Cons.IH [OF r, of k] show ?thesis by (cases e1) auto
  qed
qed simp

lemma initWorkflow_status:
  assumes "initWorkflow w = (r, w')" and "statusAt w i j = Some s"
  shows "statusAt w' i j = Some s"
proof -
  obtain e sgs where init: "initStages (wStages w) = (e, sgs)" by (rule prod.exhaust)
  with assms(1) have w': "wStages w' = sgs" by (cases e) (auto simp: initWorkflow_def)
  from assms(2) obtain ss where i: "i < length (wStages w)" and j: "j < length (sgSteps (wStages w ! i))"
    and ss: "spState (sgSteps (wStages w ! i) ! j) = Some ss" "Status ss = s"
    by (auto simp: statusAt_def stepAt_def stageAt_def split: option.split_asm if_split_asm)
  from initStages_nth [OF init i] show ?thesis
    using i j ss w' initStages_length [OF init] initSteps_status [OF _ j ss(1)] initSteps_length
    by (auto simp: statusAt_def stepAt_def stageAt_def)
qed

context framed_hooks begin

text \<open>
  A step that is settled when a run starts stays settled, and the run is the same whatever its
  functions are: they are not called.
\<close>

lemma execute_effect:
  assumes "execute h w = Some (r, w')" and "statusAt w i0 j0 = Some s" and "settled s"
  shows "statusAt w' i0 j0 = Some s"
proof -
  obtain r0 w0 where init: "initWorkflow w = (r0, w0)" by (rule prod.exhaust)
  have s0: "statusAt w0 i0 j0 = Some s" by (rule initWorkflow_status [OF init assms(2)])
  obtain r1 w1 where bf: "runOpt (hBefore h) w0 = (r1, w1)" by (rule prod.exhaust)
  have s1: "statusAt w1 i0 j0 = Some s" using hook_kept(2) [OF wf_before_frame bf] s0 by simp
  show ?thesis
  proof (cases "runStages h [0..<length (wStages w1)] w1")
    case None
    with assms(1) init bf s0 s1 show ?thesis
      by (auto simp: execute_def split: outcome.split_asm if_split_asm)
  next
    case (Some y)
    obtain e w2 where rs: "runStages h [0..<length (wStages w1)] w1 = Some (e, w2)" using Some by (cases y) auto
    have s2: "statusAt w2 i0 j0 = Some s" by (rule runStages_effect(2) [OF rs s1 assms(3)])
    have s4: "statusAt w4 i0 j0 = Some s"
      if "runOpt (hAfter h) (w2\<lparr>wState := ws\<rparr>) = (r4, w4) \<or> runOpt (hAfter h) w2 = (r4, w4)" for ws r4 w4
      using that hook_kept(2) [OF wf_after_frame] s2 by fastforce
    from assms(1) init bf rs s0 s1 s2 s4 show ?thesis
      by (auto simp: execute_def Let_def split: outcome.split_asm if_split_asm stages_end.split_asm prod.split_asm)
  qed
qed

lemma execute_shape:
  assumes "execute h w = Some (r, w')"
  shows "shape w' = shape (snd (initWorkflow w))"
proof -
  obtain r0 w0 where init: "initWorkflow w = (r0, w0)" by (rule prod.exhaust)
  obtain r1 w1 where bf: "runOpt (hBefore h) w0 = (r1, w1)" by (rule prod.exhaust)
  have s1: "shape w1 = shape w0" by (rule hook_kept(1) [OF wf_before_frame bf])
  show ?thesis
  proof (cases "runStages h [0..<length (wStages w1)] w1")
    case None
    with assms(1) init bf s1 show ?thesis
      by (auto simp: execute_def split: outcome.split_asm if_split_asm)
  next
    case (Some y)
    obtain e w2 where rs: "runStages h [0..<length (wStages w1)] w1 = Some (e, w2)" using Some by (cases y) auto
    have s2: "shape w2 = shape w1" by (rule runStages_effect(1) [OF rs])
    have st: "shape (w2\<lparr>wState := ws\<rparr>) = shape w2" for ws by (rule shape_cong) simp
    have s4: "shape w4 = shape w2"
      if "runOpt (hAfter h) (w2\<lparr>wState := ws\<rparr>) = (r4, w4) \<or> runOpt (hAfter h) w2 = (r4, w4)" for ws r4 w4
      using that hook_kept(1) [OF wf_after_frame] st by metis
    from assms(1) init bf rs s1 s2 s4 show ?thesis
      by (auto simp: execute_def Let_def split: outcome.split_asm if_split_asm stages_end.split_asm prod.split_asm)
  qed
qed

lemma execute_withStep:
  assumes "statusAt w i0 j0 = Some s" and "settled s"
  shows "execute (withStep i0 j0 f b a h) w = execute h w"
proof -
  obtain r0 w0 where init: "initWorkflow w = (r0, w0)" by (rule prod.exhaust)
  have s0: "statusAt w0 i0 j0 = Some s" by (rule initWorkflow_status [OF init assms(1)])
  obtain r1 w1 where bf: "runOpt (hBefore h) w0 = (r1, w1)" by (rule prod.exhaust)
  have s1: "statusAt w1 i0 j0 = Some s" using hook_kept(2) [OF wf_before_frame bf] s0 by simp
  from runStages_withStep [OF s1 assms(2)] init bf show ?thesis
    unfolding execute_def withStep_hooks by (simp split: outcome.split)
qed

end

section \<open>What a step that was due is left with\<close>

lemma statusAt_updState_None: "statusAt (updState i j f w) i' j' = None \<longleftrightarrow> statusAt w i' j' = None"
  by (auto simp: statusAt_def updState_def stepAt_updStep split: option.splits)

lemma stepEnter_None: "statusAt (stepEnter i j w) i' j' = None \<longleftrightarrow> statusAt w i' j' = None"
  by (simp add: stepEnter_def Let_def statusAt_updState_None split: option.splits prod.splits)

lemma statusAt_stepFinish:
  assumes "statusAt w i j \<noteq> None"
  shows "statusAt (stepFinish h i j res w) i j =
    (case res of
       Val _ \<Rightarrow> Some StatusCompleted
     | Err e \<Rightarrow> Some (if errIs e ErrSkipStep \<or> errIs e ErrBreakStages then StatusSkipped else StatusFailed)
     | Panic _ \<Rightarrow> statusAt (updState i j (setEndTime (hNow h w)) w) i j)"
proof -
  obtain st ss where "stepAt (updState i j (setEndTime (hNow h w)) w) i j = Some st" "spState st = Some ss"
    using assms by (auto simp: statusAt_def updState_def stepAt_updStep split: option.splits)
  then show ?thesis
    by (simp add: stepFinish_def Let_def statusAt_updState setStepError_def split: outcome.split)
qed

context framed_hooks begin

text \<open>The status an executed step is left with.\<close>

lemma stepBody_present:
  assumes "stepBody h i j st sname w0 = Some (res, w')"
  shows "statusAt w' i' j' = None \<longleftrightarrow> statusAt w0 i' j' = None"
  using statusAt_frame [OF stepBody_frame [OF assms(1)], of i' j'] stepEnter_None [of i j w0 i' j'] by simp

text \<open>
  A step that is due: its state is there and neither settled nor suspended, no jump to another step
  is pending, and the workflow is not finished.
\<close>

lemma handleStep_due:
  assumes "handleStep h i j w = Some (res, w')"
    and "stepAt w i j = Some st" "spState st = Some ss" "\<not> settled (Status ss)" "Status ss \<noteq> StatusSuspended"
    and "NextStep (wState w) = '''' \<or> NextStep (wState w) = spName st" and "\<not> checkStatus w"
  shows "case res of
      Val _ \<Rightarrow> statusAt w' i j = Some StatusCompleted
    | Err e \<Rightarrow> statusAt w' i j = Some (if errIs e ErrSkipStep \<or> errIs e ErrBreakStages then StatusSkipped else StatusFailed)
    | Panic _ \<Rightarrow> True"
proof -
  define w3 where "w3 = updState i j (setStartTime (hNow h (if NextStep (wState w) \<noteq> '''' then setNextStep '''' w else w)))
     (if NextStep (wState w) \<noteq> '''' then setNextStep '''' w else w)"
  have cs: "checkStatus (setNextStep s w) = checkStatus w" for s
    by (simp add: checkStatus_def setNextStep_def)
  obtain r4 w4 where b: "stepBody h i j st (sgName (wStages w ! i)) w3 = Some (r4, w4)"
    and res: "res = r4" "(\<forall>p. r4 \<noteq> Panic p) \<longrightarrow> w' = stepFinish h i j r4 w4"
    using assms unfolding handleStep_def w3_def settled_def
    by (auto simp: Let_def cs split: option.split_asm if_split_asm outcome.split_asm prod.split_asm)
  have "statusAt w3 i j \<noteq> None"
    using assms(2,3) by (auto simp: w3_def statusAt_updState_None) (auto simp: statusAt_def)
  then have "statusAt w4 i j \<noteq> None" using stepBody_present [OF b, of i j] by simp
  from statusAt_stepFinish [OF this, of h r4] res show ?thesis by (cases r4) auto
qed

text \<open>A stage whose loop ends well has settled every one of its steps.\<close>

lemma handleStep_passed:
  assumes "handleStep h i j w = Some (res, w')" and "(\<exists>u. res = Val u) \<or> (\<exists>e. res = Err e \<and> errIs e ErrSkipStep \<and> \<not> errIs e ErrBreakStages)"
  shows "\<exists>s. statusAt w' i j = Some s \<and> settled s"
proof -
  from assms obtain st ss where st: "stepAt w i j = Some st" "spState st = Some ss"
    unfolding handleStep_def by (auto simp: Let_def split: option.split_asm if_split_asm)
  then have s: "statusAt w i j = Some (Status ss)" by (simp add: statusAt_def)
  have chk: "\<not> checkStatus w"
    using assms st unfolding handleStep_def
    by (auto simp: Let_def checkStatus_def setNextStep_def split: if_split_asm)
  show ?thesis
  proof (cases "settled (Status ss)")
    case True
    from handleStep_keeps_settled [OF assms(1) s True] True show ?thesis by blast
  next
    case False
    have ns: "Status ss \<noteq> StatusSuspended"
      using assms st chk unfolding handleStep_def
      by (auto simp: Let_def checkStatus_def setNextStep_def split: if_split_asm)
    show ?thesis
    proof (cases "NextStep (wState w) = '''' \<or> NextStep (wState w) = spName st")
      case True
      from handleStep_due [OF assms(1) st False ns True chk] assms(2) show ?thesis
        by (auto simp: settled_def)
    next
      case jump: False
      with assms st chk False ns show ?thesis unfolding handleStep_def settled_def
        by (auto simp: Let_def statusAt_updState split: if_split_asm)
    qed
  qed
qed

lemma runSteps_passed:
  assumes "runSteps h i js w = Some (Val u, w')" and "j \<in> set js"
  shows "\<exists>s. statusAt w' i j = Some s \<and> settled s"
  using assms
proof (induction js arbitrary: w)
  case (Cons k js)
  obtain r w1 where s: "handleStep h i k w = Some (r, w1)"
    and rest: "runSteps h i js w1 = Some (Val u, w')"
    and ok: "(\<exists>u. r = Val u) \<or> (\<exists>e. r = Err e \<and> errIs e ErrSkipStep \<and> \<not> errIs e ErrBreakStages)"
    using Cons.prems(1) by (auto split: if_split_asm option.split_asm outcome.split_asm prod.split_asm)
  show ?case
  proof (cases "j = k")
    case True
    from handleStep_passed [OF s ok] obtain x where "statusAt w1 i j = Some x" "settled x" using True by blast
    with runSteps_effect(2) [OF rest] show ?thesis by blast
  next
    case False
    with Cons.IH [OF rest] Cons.prems(2) show ?thesis by auto
  qed
qed simp

end

end
