(* ===== verification/WorkflowCount.thy ===== *)
theory WorkflowCount
  imports WorkflowFacts
begin

text \<open>
  Runs end, and how often they call a step's function: the retry policies with a limit, the limits
  of the steps during a run, and the contract under which a counter of the machine is raised by at
  most the attempts of one step in a whole run.
\<close>

section \<open>The retry policies end\<close>

text \<open>
  With a limit that is not negative both loops end; a counter that one call of the function raises
  by at most one grows by at most the attempts that are left.
\<close>

lemma runWithLinear_bound:
  assumes "0 \<le> m" and call: "\<And>s. v (snd (fn s)) \<le> v s + (k :: nat)" and slp: "\<And>d s. v (sleep d s) = v s"
  shows "\<exists>y. runWithLinear sleep m t fn e r s = Some y \<and> v (snd y) \<le> v s + nat (m - r) * k"
proof (induction "nat (m - r)" arbitrary: e r s)
  case 0
  then have "\<not> r < m" "\<not> m < 0" using assms(1) by auto
  then show ?case by (subst runWithLinear.simps) simp
next
  case (Suc n)
  then have r: "r < m" and n: "n = nat (m - (r + 1))" by auto
  obtain res s1 where fn: "fn s = (res, s1)" by (cases "fn s")
  have v1: "v s1 \<le> v s + k" using call [of s] fn by simp
  have step: "v s1 \<le> v s + nat (m - r) * k" using v1 Suc(2) [symmetric] by simp
  show ?case
  proof (cases res)
    case (Err e')
    let ?s2 = "if r + 1 < m then sleep t s1 else s1"
    have "v ?s2 = v s1" by (simp add: slp)
    from Suc(1) [OF n, of "Err e'" ?s2] obtain y where
      y: "runWithLinear sleep m t fn (Err e') (r + 1) ?s2 = Some y" "v (snd y) \<le> v s1 + n * k"
      using n \<open>v ?s2 = v s1\<close> by auto
    have "v (snd y) \<le> v s + nat (m - r) * k" using y(2) v1 Suc(2) [symmetric] by simp
    with y(1) r fn Err show ?thesis by (subst runWithLinear.simps) simp
  qed (use r fn step in \<open>subst runWithLinear.simps, simp\<close>)+
qed

lemma runWithBackoff_bound:
  assumes "0 \<le> m" and call: "\<And>s. v (snd (fn s)) \<le> v s + (k :: nat)" and slp: "\<And>d s. v (sleep d s) = v s"
  shows "\<exists>y. runWithBackoff sleep m t fn e r s = Some y \<and> v (snd y) \<le> v s + nat (m - r) * k"
proof (induction "nat (m - r)" arbitrary: e r s t)
  case 0
  then have "\<not> r < m" "\<not> m < 0" using assms(1) by auto
  then show ?case by (subst runWithBackoff.simps) simp
next
  case (Suc n)
  then have r: "r < m" and n: "n = nat (m - (r + 1))" by auto
  obtain res s1 where fn: "fn s = (res, s1)" by (cases "fn s")
  have v1: "v s1 \<le> v s + k" using call [of s] fn by simp
  have step: "v s1 \<le> v s + nat (m - r) * k" using v1 Suc(2) [symmetric] by simp
  show ?case
  proof (cases res)
    case (Err e')
    let ?t = "if r + 1 < m then 2 * t else t" and ?s2 = "if r + 1 < m then sleep t s1 else s1"
    have "v ?s2 = v s1" by (simp add: slp)
    from Suc(1) [OF n, of ?t "Err e'" ?s2] obtain y where
      y: "runWithBackoff sleep m ?t fn (Err e') (r + 1) ?s2 = Some y" "v (snd y) \<le> v s1 + n * k"
      using n \<open>v ?s2 = v s1\<close> by auto
    have "v (snd y) \<le> v s + nat (m - r) * k" using y(2) v1 Suc(2) [symmetric] by simp
    with y(1) r fn Err show ?thesis by (subst runWithBackoff.simps) (cases y; auto split: if_splits)
  qed (use r fn step in \<open>subst runWithBackoff.simps, simp\<close>)+
qed

lemma runPolicy_bound:
  assumes "0 \<le> spMaxRetries st" and "\<And>s. v (snd (fn s)) \<le> v s + (k :: nat)" and "\<And>d s. v (hSleep h d s) = v s"
  shows "\<exists>y. runPolicy h pol st fn s = Some y \<and> v (snd y) \<le> v s + nat (spMaxRetries st) * k"
  using runWithLinear_bound [where v = v and k = k and fn = fn and sleep = "hSleep h" and r = 0, OF assms]
    runWithBackoff_bound [where v = v and k = k and fn = fn and sleep = "hSleep h" and r = 0, OF assms]
  by (cases pol) (simp_all add: runPolicy_def)

section \<open>The steps of a run and their limits\<close>

definition retriesAt :: "'a workflow_scheme \<Rightarrow> nat \<Rightarrow> nat \<Rightarrow> int option" where
  "retriesAt w i j = map_option spMaxRetries (stepAt w i j)"

lemma retriesAt_shape:
  fixes w w' :: "'a workflow_scheme"
  assumes "shape w = shape w'"
  shows "retriesAt w i j = retriesAt w' i j"
  using arg_cong [OF stepAt_shape [OF assms], of "map_option spMaxRetries" i j]
  by (simp add: retriesAt_def option.map_comp o_def bareStep_def)

definition bounded :: "'a workflow_scheme \<Rightarrow> bool" where
  "bounded w \<longleftrightarrow> (\<forall>i j m. retriesAt w i j = Some m \<longrightarrow> 0 \<le> m)"

lemma bounded_shape:
  fixes w w' :: "'a workflow_scheme"
  shows "shape w = shape w' \<Longrightarrow> bounded w \<longleftrightarrow> bounded w'"
  using retriesAt_shape [of w w'] by (simp add: bounded_def)

text \<open>
  What a counter needs so that a run of a machine cannot raise it by more than the step
  \<open>(i0, j0)\<close> does: every other function keeps it, and one call of the step's function adds at most
  one.
\<close>

locale counted_hooks = framed_hooks h for h :: "('a workflow_scheme) hooks" +
  fixes v :: "'a workflow_scheme \<Rightarrow> nat" and i0 j0 :: nat
  assumes engine_v: "\<And>w x. v (w\<lparr>wStages := x\<rparr>) = v w" "\<And>w x. v (w\<lparr>wState := x\<rparr>) = v w"
      "\<And>w x. v (w\<lparr>wPrevStep := x\<rparr>) = v w"
    and func_v: "hFunc h i j = Some f \<Longrightarrow> (i, j) \<noteq> (i0, j0) \<Longrightarrow> keeps v f"
    and func0_v: "hFunc h i0 j0 = Some f \<Longrightarrow> v (snd (f w)) \<le> v w + 1"
    and before_v: "hStepBefore h i j = Some f \<Longrightarrow> keeps v f"
    and after_v: "hStepAfter h i j = Some f \<Longrightarrow> keeps v f"
    and before_all_v: "hBeforeAll h = Some g \<Longrightarrow> keeps v (g i j)"
    and after_all_v: "hAfterAll h = Some g \<Longrightarrow> keeps v (g i j)"
    and stage_before_v: "hStageBefore h i = Some f \<Longrightarrow> keeps v f"
    and stage_after_v: "hStageAfter h i = Some f \<Longrightarrow> keeps v f"
    and wf_before_v: "hBefore h = Some f \<Longrightarrow> keeps v f"
    and wf_after_v: "hAfter h = Some f \<Longrightarrow> keeps v f"
    and sleep_v: "v (hSleep h d w) = v w"
begin

lemma updState_v [simp]: "v (updState i j f w) = v w"
  by (simp add: updState_def updStep_def engine_v split: option.splits)

lemma setNext_v [simp]: "v (setNextStep s w) = v w" "v (setNextStage s w) = v w"
  by (simp_all add: setNextStep_def setNextStage_def engine_v)

lemma runOpt_v: "(\<And>f. a = Some f \<Longrightarrow> keeps v f) \<Longrightarrow> keeps v (runOpt a)"
  by (cases a) (auto simp: runOpt_def intro: keeps_intros)

lemma stepEnter_v [simp]: "v (stepEnter i j w) = v w"
  by (simp add: stepEnter_def Let_def engine_v split: option.splits prod.splits)

lemma stepFinish_v [simp]: "v (stepFinish h i j res w) = v w"
  by (simp add: stepFinish_def Let_def split: outcome.splits)

text \<open>How much the step at \<open>(i, j)\<close> can add: its attempts if it is the counted step.\<close>

definition gain :: "nat \<Rightarrow> nat \<Rightarrow> step \<Rightarrow> nat" where
  "gain i j st = (if (i, j) = (i0, j0) then nat (spMaxRetries st) else 0)"

lemma func_gain: "hFunc h i j = Some f \<Longrightarrow> v (snd (f w)) \<le> v w + (if (i, j) = (i0, j0) then 1 else 0)"
  using func0_v func_v keeps_snd by fastforce

lemma entry_v: "keeps v (bnd (runOpt (map_option (\<lambda>f. f i j) (hBeforeAll h))) (\<lambda>_. runOpt (hStepBefore h i j)))"
  by (intro keeps_bnd runOpt_v) (auto intro: before_v before_all_v)

lemma exit_v: "keeps v (bnd (runOpt (hStepAfter h i j)) (\<lambda>_. runOpt (map_option (\<lambda>f. f i j) (hAfterAll h))))"
  by (intro keeps_bnd runOpt_v) (auto intro: after_v after_all_v)

lemma stepBody_gain:
  assumes "0 \<le> spMaxRetries st"
  shows "\<exists>y. stepBody h i j st sname w0 = Some y \<and> v (snd y) \<le> v w0 + gain i j st"
proof -
  obtain r1 w1 where e: "bnd (runOpt (map_option (\<lambda>f. f i j) (hBeforeAll h)))
      (\<lambda>_. runOpt (hStepBefore h i j)) (stepEnter i j w0) = (r1, w1)" by (rule prod.exhaust)
  have v1: "v w1 = v w0" using keepsD [OF entry_v e] by simp
  show ?thesis
  proof (cases "\<exists>fn pol u. hFunc h i j = Some fn \<and> spRetryPolicy st = Some pol \<and> r1 = Val u")
    case False
    with e v1 show ?thesis by (auto simp: stepBody_def Let_def split: option.splits outcome.splits)
  next
    case True
    then obtain fn pol u where fp: "hFunc h i j = Some fn" "spRetryPolicy st = Some pol" "r1 = Val u" by blast
    from runPolicy_bound [where v = v and fn = fn, OF assms func_gain [OF fp(1)] sleep_v, of pol w1]
    obtain r2 w2 where p: "runPolicy h pol st fn w1 = Some (r2, w2)" and v2: "v w2 \<le> v w0 + gain i j st"
      using v1 by (fastforce simp: gain_def split: if_splits)
    obtain r3 w3 where x: "bnd (runOpt (hStepAfter h i j))
        (\<lambda>_. runOpt (map_option (\<lambda>f. f i j) (hAfterAll h))) w2 = (r3, w3)" by (rule prod.exhaust)
    have "v w3 = v w2" by (rule keepsD [OF exit_v x])
    with v2 fp e p x show ?thesis by (cases r2; cases r3) (auto simp: stepBody_def Let_def)
  qed
qed

lemma handleStep_gain:
  assumes "stepAt w i j = Some st" and "0 \<le> spMaxRetries st"
  shows "\<exists>y. handleStep h i j w = Some y \<and> v (snd y) \<le> v w + gain i j st"
proof -
  have body: "\<exists>r w'. stepBody h i j st sn w0 = Some (r, w') \<and> v w' \<le> v w0 + gain i j st" for sn w0
    using stepBody_gain [OF assms(2), of i j sn w0] by auto
  show ?thesis
    unfolding handleStep_def Let_def using assms(1) body
    by (auto split: option.splits if_splits outcome.splits) (metis setNext_v(1) updState_v option.inject prod.inject option.distinct(1))+
qed

definition allow :: "'a workflow_scheme \<Rightarrow> nat" where
  "allow w = (case retriesAt w i0 j0 of None \<Rightarrow> 0 | Some m \<Rightarrow> nat m)"

lemma allow_le: "(\<And>st. stepAt w i0 j0 = Some st \<Longrightarrow> spMaxRetries st = m) \<Longrightarrow> allow w \<le> nat m"
  by (simp add: allow_def retriesAt_def split: option.splits)

lemma allow_shape: "shape w = shape w' \<Longrightarrow> allow w = allow w'"
  by (simp add: allow_def retriesAt_shape [of w w'])

lemma handleStep_allow:
  assumes "bounded w"
  shows "\<exists>y. handleStep h i j w = Some y \<and> v (snd y) \<le> v w + (if (i, j) = (i0, j0) then allow w else 0)"
proof (cases "stepAt w i j")
  case None
  then show ?thesis by (simp add: handleStep_def)
next
  case (Some st)
  with assms have "0 \<le> spMaxRetries st" by (auto simp: bounded_def retriesAt_def)
  from handleStep_gain [OF Some this] Some show ?thesis
    by (auto simp: gain_def allow_def retriesAt_def split: if_splits)
qed

lemma runSteps_allow:
  "bounded w \<Longrightarrow> distinct js \<Longrightarrow>
     \<exists>y. runSteps h i js w = Some y \<and> v (snd y) \<le> v w + (if i = i0 \<and> j0 \<in> set js then allow w else 0)"
proof (induction js arbitrary: w)
  case (Cons j js)
  obtain r w1 where s: "handleStep h i j w = Some (r, w1)"
    and v1: "v w1 \<le> v w + (if (i, j) = (i0, j0) then allow w else 0)"
    using handleStep_allow [OF Cons.prems(1), of i j] by auto
  have sh: "shape w1 = shape w" by (rule handleStep_effect(1) [OF s])
  have b1: "bounded w1" and a1: "allow w1 = allow w"
    using Cons.prems(1) bounded_shape [OF sh] allow_shape [OF sh] by auto
  obtain y where y: "runSteps h i js w1 = Some y"
    "v (snd y) \<le> v w1 + (if i = i0 \<and> j0 \<in> set js then allow w else 0)"
    using Cons.IH [OF b1] Cons.prems(2) unfolding a1 by auto
  have total: "v (snd y) \<le> v w + (if i = i0 \<and> j0 \<in> set (j # js) then allow w else 0)"
    using y(2) v1 Cons.prems(2) by (auto split: if_split_asm)
  have first: "v w1 \<le> v w + (if i = i0 \<and> j0 \<in> set (j # js) then allow w else 0)"
    using v1 by (auto split: if_split_asm)
  show ?case
  proof (cases r)
    case (Err e)
    with s y total first show ?thesis by (cases y) simp
  qed (use s y total first in \<open>cases y, simp\<close>)+
qed simp

lemma handleStage_allow:
  assumes "bounded w"
  shows "\<exists>y. handleStage h i w = Some y \<and> v (snd y) \<le> v w + (if i = i0 then allow w else 0)"
proof (cases "stageAt w i")
  case None
  then show ?thesis by (simp add: handleStage_def)
next
  case (Some sg)
  define w2 where "w2 = (if NextStage (wState w) \<noteq> '''' then setNextStage '''' w else w)"
  have w2: "shape w2 = shape w" "v w2 = v w" by (simp_all add: w2_def)
  obtain r3 w3 where b: "runOpt (hStageBefore h i) w2 = (r3, w3)" by (rule prod.exhaust)
  have sh3: "shape w3 = shape w" using hook_kept(1) [OF stage_before_frame b] w2 by simp
  have v3: "v w3 = v w" using keepsD [OF runOpt_v b] stage_before_v w2 by metis
  have b3: "bounded w3" "allow w3 = allow w"
    using assms bounded_shape [OF sh3] allow_shape [OF sh3] by auto
  from runSteps_allow [OF b3(1) distinct_upt, of i 0 "length (sgSteps sg)"] obtain r4 w4 where
    s4: "runSteps h i [0..<length (sgSteps sg)] w3 = Some (r4, w4)"
    and v4: "v w4 \<le> v w + (if i = i0 then allow w else 0)"
    using v3 b3(2) by (auto split: if_splits)
  obtain r5 w5 where a: "runOpt (hStageAfter h i) w4 = (r5, w5)" by (rule prod.exhaust)
  have "v w5 = v w4" by (rule keepsD [OF runOpt_v a]) (rule stage_after_v)
  with Some b s4 a v3 v4 w2 show ?thesis
    unfolding handleStage_def
    by (auto simp: Let_def w2_def split: outcome.splits)
qed

lemma runStages_allow:
  "bounded w \<Longrightarrow> distinct ks \<Longrightarrow>
     \<exists>y. runStages h ks w = Some y \<and> v (snd y) \<le> v w + (if i0 \<in> set ks then allow w else 0)"
proof (induction ks arbitrary: w)
  case (Cons i ks)
  obtain r w1 where s: "handleStage h i w = Some (r, w1)"
    and v1: "v w1 \<le> v w + (if i = i0 then allow w else 0)"
    using handleStage_allow [OF Cons.prems(1), of i] by auto
  have sh: "shape w1 = shape w" by (rule handleStage_effect(1) [OF s])
  have b1: "bounded w1" and a1: "allow w1 = allow w"
    using Cons.prems(1) bounded_shape [OF sh] allow_shape [OF sh] by auto
  obtain y where y: "runStages h ks w1 = Some y"
    "v (snd y) \<le> v w1 + (if i0 \<in> set ks then allow w else 0)"
    using Cons.IH [OF b1] Cons.prems(2) unfolding a1 by auto
  have total: "v (snd y) \<le> v w + (if i0 \<in> set (i # ks) then allow w else 0)"
    using y(2) v1 Cons.prems(2) by (auto split: if_split_asm)
  have first: "v w1 \<le> v w + (if i0 \<in> set (i # ks) then allow w else 0)"
    using v1 by (auto split: if_split_asm)
  show ?case
  proof (cases r)
    case (Err e)
    with s y total first show ?thesis by (cases y) simp
  qed (use s y total first in \<open>cases y, simp\<close>)+
qed simp

text \<open>
  A run whose limits are not negative after the initialisation ends, and raises the counter by at
  most the attempts of the counted step.
\<close>

lemma execute_allow:
  assumes init: "initWorkflow w = (r0, w0)" and "bounded w0"
  shows "\<exists>y. execute h w = Some y \<and> v (snd y) \<le> v w + allow w0"
proof -
  have v0: "v w0 = v w"
    using init by (auto simp: initWorkflow_def engine_v split: prod.splits option.splits)
  obtain r1 w1 where bf: "runOpt (hBefore h) w0 = (r1, w1)" by (rule prod.exhaust)
  have sh1: "shape w1 = shape w0" by (rule hook_kept(1) [OF wf_before_frame bf])
  have v1: "v w1 = v w" using keepsD [OF runOpt_v bf] wf_before_v v0 by metis
  have b1: "bounded w1" "allow w1 = allow w0"
    using assms(2) bounded_shape [OF sh1] allow_shape [OF sh1] by auto
  obtain e w2 where rs: "runStages h [0..<length (wStages w1)] w1 = Some (e, w2)"
    and v2: "v w2 \<le> v w + allow w0"
    using runStages_allow [OF b1(1) distinct_upt, of 0 "length (wStages w1)"] v1 b1(2)
    by (auto split: if_splits)
  have after: "v w4 = v w2" if "runOpt (hAfter h) (w2\<lparr>wState := ws\<rparr>) = (r4, w4)" for ws r4 w4
    using keepsD [OF runOpt_v that] wf_after_v engine_v by metis
  have after': "v w4 = v w2" if "runOpt (hAfter h) w2 = (r4, w4)" for r4 w4
    using keepsD [OF runOpt_v that] wf_after_v by metis
  show ?thesis
    using init bf rs v0 v1 v2 unfolding execute_def
    by (auto simp: Let_def split: outcome.splits stages_end.splits prod.splits dest!: after after')
qed

end

context counted_hooks begin

text \<open>
  A counted step that is settled when the run starts is not called: the run is that of the machine
  without the functions of the step, which keeps the counter.
\<close>

lemma without_step: "counted_hooks (withStep i0 j0 None None None h) v i1 j1"
proof
  have k: "hFunc h i j = Some f \<Longrightarrow> (i, j) \<noteq> (i0, j0) \<Longrightarrow> v (snd (f w)) \<le> v w + 1" for i j f w
    using func_v [of i j f] keeps_snd [of v f w] by simp
  show "hFunc (withStep i0 j0 None None None h) i1 j1 = Some f \<Longrightarrow> v (snd (f w)) \<le> v w + 1" for f w
    using k by (simp add: withStep_def split: if_split_asm)
qed (auto simp: withStep_def engine_v sleep_frame sleep_v split: if_split_asm
    dest: func_frame before_frame after_frame before_all_frame after_all_frame stage_before_frame stage_after_frame
      wf_before_frame wf_after_frame func_v before_v after_v before_all_v after_all_v stage_before_v stage_after_v
      wf_before_v wf_after_v)

lemma execute_settled:
  assumes init: "initWorkflow w = (r0, w0)" and "bounded w0" and "statusAt w i0 j0 = Some s" and "settled s"
  shows "\<exists>y. execute h w = Some y \<and> v (snd y) \<le> v w"
proof -
  let ?i1 = "length (wStages w0)"
  have "counted_hooks.allow ?i1 0 w0 = 0"
    by (simp add: counted_hooks.allow_def [OF without_step] retriesAt_def stepAt_def stageAt_def)
  with counted_hooks.execute_allow [OF without_step init assms(2), of ?i1 0] execute_withStep [OF assms(3,4)]
  show ?thesis by simp
qed

end

end
