(* ===== verification/WorkflowLaws.thy ===== *)
theory WorkflowLaws
  imports WorkflowCount
begin

text \<open>
  The behaviour of the engine on its own: jumps to a named step, the initialisation, snapshots and
  their restoration, a finished workflow, and the retry policies of a step.
\<close>

section \<open>Jumps\<close>

text \<open>The steps before the target of a jump are marked and not run.\<close>

definition skipStep :: "nat \<Rightarrow> nat \<Rightarrow> 'a workflow_scheme \<Rightarrow> 'a workflow_scheme" where
  "skipStep i j = updState i j (\<lambda>s. s\<lparr>Status := StatusSkipped\<rparr>)"

text \<open>A step that waits to be run: its state is there, neither settled nor suspended.\<close>

definition waiting :: "'a workflow_scheme \<Rightarrow> nat \<Rightarrow> nat \<Rightarrow> bool" where
  "waiting w i j \<longleftrightarrow> (\<exists>s. statusAt w i j = Some s \<and> \<not> settled s \<and> s \<noteq> StatusSuspended)"

definition stepNameAt :: "'a workflow_scheme \<Rightarrow> nat \<Rightarrow> nat \<Rightarrow> string" where
  "stepNameAt w i j = (case stepAt w i j of None \<Rightarrow> '''' | Some st \<Rightarrow> spName st)"

lemma stepNameAt_skipStep [simp]: "stepNameAt (skipStep i j w) i' j' = stepNameAt w i' j'"
  by (auto simp: stepNameAt_def skipStep_def updState_def stepAt_updStep split: option.splits)

lemma wState_skipStep [simp]: "wState (skipStep i j w) = wState w"
  by (simp add: skipStep_def)

lemma waiting_skipStep: "(i', j') \<noteq> (i, j) \<Longrightarrow> waiting (skipStep i j w) i' j' = waiting w i' j'"
  by (simp add: waiting_def skipStep_def statusAt_updState_other)

lemma handleStep_jumped:
  assumes "waiting w i j" and "NextStep (wState w) \<noteq> ''''" and "NextStep (wState w) \<noteq> stepNameAt w i j"
    and "\<not> checkStatus w"
  shows "handleStep h i j w = Some (Err ErrSkipStep, skipStep i j w)"
  using assms unfolding waiting_def statusAt_def stepNameAt_def settled_def
  by (auto simp: handleStep_def Let_def skipStep_def split: option.splits)

lemma runSteps_jump:
  assumes "\<And>w. \<not> hStopped h w" and "distinct js"
  shows "\<forall>j\<in>set js. waiting w i j \<and> NextStep (wState w) \<noteq> stepNameAt w i j \<Longrightarrow>
    NextStep (wState w) \<noteq> '''' \<Longrightarrow> \<not> checkStatus w \<Longrightarrow>
    runSteps h i (js @ ks) w = runSteps h i ks (fold (skipStep i) js w)"
  using assms(2)
proof (induction js arbitrary: w)
  case (Cons j js)
  have s: "handleStep h i j w = Some (Err ErrSkipStep, skipStep i j w)"
    using Cons.prems by (intro handleStep_jumped) auto
  have "\<forall>j'\<in>set js. waiting (skipStep i j w) i j' \<and>
      NextStep (wState (skipStep i j w)) \<noteq> stepNameAt (skipStep i j w) i j'"
    using Cons.prems by (auto intro!: waiting_skipStep [THEN iffD2])
  from Cons.IH [OF this] Cons.prems s assms(1) show ?case by (simp add: checkStatus_def)
qed simp

section \<open>Stages that a run passes by\<close>

lemma handleStage_other:
  assumes "stageAt w i = Some sg" and "NextStage (wState w) \<noteq> ''''" and "NextStage (wState w) \<noteq> sgName sg"
    and "\<not> checkStatus w"
  shows "handleStage h i w = Some (Err ErrSkipStage, w)"
  using assms by (simp add: handleStage_def Let_def)

lemma runStages_others:
  assumes "\<forall>i\<in>set is. \<exists>sg. stageAt w i = Some sg \<and> NextStage (wState w) \<noteq> sgName sg"
    and "NextStage (wState w) \<noteq> ''''" and "\<not> checkStatus w" and "\<not> hStopped h w"
  shows "runStages h (is @ ks) w = runStages h ks w"
  using assms(1)
proof (induction "is")
  case (Cons i "is")
  from Cons.prems obtain sg where "stageAt w i = Some sg" "NextStage (wState w) \<noteq> sgName sg" by auto
  from handleStage_other [OF this(1) assms(2) this(2) assms(3)] Cons assms(4) show ?case by simp
qed simp

lemma handleStep_over:
  assumes "statusAt w i j = Some s" and "settled s" and "NextStep (wState w) = ''''" and "\<not> checkStatus w"
  shows "handleStep h i j w = Some (Err ErrSkipStep, w)"
  using assms by (auto simp: handleStep_def Let_def statusAt_def settled_def split: option.splits)

lemma runSteps_over:
  assumes "\<forall>j\<in>set js. \<exists>s. statusAt w i j = Some s \<and> settled s"
    and "NextStep (wState w) = ''''" and "\<not> checkStatus w" and "\<not> hStopped h w"
  shows "runSteps h i js w = Some (Val (), w)"
  using assms(1)
proof (induction js)
  case (Cons j js)
  then obtain s where "statusAt w i j = Some s" "settled s" by auto
  from handleStep_over [OF this assms(2,3)] Cons assms(4) show ?case by simp
qed simp

lemma handleStage_over:
  assumes "stageAt w i = Some sg" and "sgSteps sg \<noteq> []" and "\<forall>j<length (sgSteps sg). \<exists>s. statusAt w i j = Some s \<and> settled s"
    and "NextStage (wState w) = ''''" and "NextStep (wState w) = ''''" and "\<not> checkStatus w" and "\<not> hStopped h w"
    and "hStageBefore h i = None" and "hStageAfter h i = None"
  shows "handleStage h i w = Some (Val (), w)"
  using assms runSteps_over [of "[0..<length (sgSteps sg)]" w i h]
  by (simp add: handleStage_def Let_def runOpt_def ret_def)

section \<open>Initialisation\<close>

lemma initSteps_ok: "fst (initSteps sg seen sts) = None \<longleftrightarrow>
    distinct (map spName sts) \<and> set (map spName sts) \<inter> set seen = {}"
proof (induction sts arbitrary: seen)
  case (Cons st sts)
  show ?case
    using Cons [of "spName st # seen"] by (cases "initSteps sg (spName st # seen) sts") auto
qed simp

lemma initSteps_none: "initSteps sg seen sts = (None, sts') \<Longrightarrow> sts' = map (initStep sg) sts"
  by (induction sts arbitrary: seen sts') (auto split: prod.splits if_splits)

lemma initStages_ok: "fst (initStages sgs) = None \<longleftrightarrow> (\<forall>sg\<in>set sgs. distinct (map spName (sgSteps sg)))"
proof (induction sgs)
  case (Cons sg sgs)
  show ?case
    using Cons initSteps_ok [of "sgName sg" "[]" "sgSteps sg"]
    by (auto split: prod.splits option.splits)
qed simp

definition initStage :: "stage \<Rightarrow> stage" where
  "initStage sg = sg\<lparr>sgSteps := map (initStep (sgName sg)) (sgSteps sg)\<rparr>"

lemma initStages_none: "initStages sgs = (None, sgs') \<Longrightarrow> sgs' = map initStage sgs"
  by (induction sgs arbitrary: sgs')
    (auto simp: initStage_def dest: initSteps_none split: prod.splits option.splits)

lemma initWorkflow_distinct:
  "\<forall>sg\<in>set (wStages w). distinct (map spName (sgSteps sg)) \<Longrightarrow>
   initWorkflow w = (Val (), w\<lparr>wStages := map initStage (wStages w)\<rparr>)"
proof -
  assume "\<forall>sg\<in>set (wStages w). distinct (map spName (sgSteps sg))"
  then have "fst (initStages (wStages w)) = None" by (simp add: initStages_ok)
  then obtain sgs where "initStages (wStages w) = (None, sgs)" by (cases "initStages (wStages w)") auto
  with initStages_none [OF this] show ?thesis by (simp add: initWorkflow_def)
qed

lemma initWorkflow_clash:
  "\<not> (\<forall>sg\<in>set (wStages w). distinct (map spName (sgSteps sg))) \<Longrightarrow> \<exists>e w'. initWorkflow w = (Err e, w')"
proof -
  assume "\<not> (\<forall>sg\<in>set (wStages w). distinct (map spName (sgSteps sg)))"
  then have "fst (initStages (wStages w)) \<noteq> None" by (simp add: initStages_ok)
  then obtain e sgs where "initStages (wStages w) = (Some e, sgs)" by (cases "initStages (wStages w)") auto
  then show ?thesis by (simp add: initWorkflow_def)
qed

section \<open>Snapshots\<close>

text \<open>
  A workflow whose stage names are distinct, whose step names are distinct in each stage, and whose
  step states carry the names of their stage and step, as \<open>init\<close> leaves them.
\<close>

definition wellNamed :: "stage list \<Rightarrow> bool" where
  "wellNamed sgs \<longleftrightarrow> distinct (map sgName sgs) \<and>
     (\<forall>sg\<in>set sgs. distinct (map spName (sgSteps sg)) \<and>
        (\<forall>st\<in>set (sgSteps sg). \<exists>ss. spState st = Some ss \<and> CurrentStage ss = sgName sg \<and> CurrentStep ss = spName st))"

text \<open>The stages as \<open>NewFSM\<close> builds them, without states.\<close>

definition bareStages :: "stage list \<Rightarrow> stage list" where
  "bareStages = map (\<lambda>sg. sg\<lparr>sgSteps := map (\<lambda>st. st\<lparr>spState := None\<rparr>) (sgSteps sg)\<rparr>)"

text \<open>What a snapshot keeps of a step: its state, if the status is one of the six.\<close>

definition keepValid :: "step \<Rightarrow> step" where
  "keepValid st = (case spState st of
      Some ss \<Rightarrow> if validStatus (Status ss) then st else st\<lparr>spState := None\<rparr> | None \<Rightarrow> st)"

definition restored :: "stage list \<Rightarrow> stage list" where
  "restored = map (\<lambda>sg. sg\<lparr>sgSteps := map keepValid (sgSteps sg)\<rparr>)"

text \<open>Restoring a list of states, seen from one step: the last state with its names wins.\<close>

definition lastState :: "string \<Rightarrow> string \<Rightarrow> step_state list \<Rightarrow> step_state option \<Rightarrow> step_state option" where
  "lastState sg st sss o0 =
     fold (\<lambda>ss o'. if sg = CurrentStage ss \<and> st = CurrentStep ss then Some ss else o') sss o0"

lemma fold_restoreState:
  "fold restoreState sss sgs = map (\<lambda>sg. sg\<lparr>sgSteps := map (\<lambda>st.
      st\<lparr>spState := lastState (sgName sg) (spName st) sss (spState st)\<rparr>) (sgSteps sg)\<rparr>) sgs"
proof (induction sss arbitrary: sgs)
  case Nil
  have "map (\<lambda>st :: step. st\<lparr>spState := spState st\<rparr>) xs = xs" for xs by (induction xs) auto
  moreover have "map (\<lambda>sg :: stage. sg\<lparr>sgSteps := sgSteps sg\<rparr>) sgs = sgs" by (induction sgs) auto
  ultimately show ?case by (simp add: lastState_def)
next
  case (Cons ss sss)
  have "fold restoreState (ss # sss) sgs = fold restoreState sss (restoreState ss sgs)" by simp
  also have "\<dots> = map (\<lambda>sg. sg\<lparr>sgSteps := map (\<lambda>st.
      st\<lparr>spState := lastState (sgName sg) (spName st) sss (spState st)\<rparr>) (sgSteps sg)\<rparr>) (restoreState ss sgs)"
    by (rule Cons)
  also have "\<dots> = map (\<lambda>sg. sg\<lparr>sgSteps := map (\<lambda>st.
      st\<lparr>spState := lastState (sgName sg) (spName st) (ss # sss) (spState st)\<rparr>) (sgSteps sg)\<rparr>) sgs"
    by (auto simp: restoreState_def lastState_def)
  finally show ?case .
qed

lemma lastState_none:
  "\<forall>ss\<in>set sss. \<not> (sg = CurrentStage ss \<and> st = CurrentStep ss) \<Longrightarrow> lastState sg st sss o0 = o0"
  unfolding lastState_def by (induction sss arbitrary: o0) auto

lemma lastState_some:
  assumes "s0 \<in> set sss" "sg = CurrentStage s0" "st = CurrentStep s0"
    and "\<forall>ss\<in>set sss. sg = CurrentStage ss \<and> st = CurrentStep ss \<longrightarrow> ss = s0"
  shows "lastState sg st sss o0 = Some s0"
proof -
  obtain xs ys where sss: "sss = xs @ s0 # ys" "s0 \<notin> set ys"
    using split_list_last [OF assms(1)] by blast
  have "lastState sg st ys (Some s0) = Some s0"
    using assms(4) sss by (intro lastState_none) auto
  then show ?thesis using assms(2,3) sss(1) by (simp add: lastState_def)
qed

text \<open>The states a snapshot holds, and the step each of them belongs to.\<close>

definition validStates :: "stage list \<Rightarrow> step_state list" where
  "validStates sgs = filter (\<lambda>ss. validStatus (Status ss)) (map (\<lambda>st. the (spState st)) (concat (map sgSteps sgs)))"

lemma wellNamed_state:
  assumes "wellNamed sgs" and "sg \<in> set sgs" and "st \<in> set (sgSteps sg)"
    and "ss \<in> set (validStates sgs)" and "sgName sg = CurrentStage ss" and "spName st = CurrentStep ss"
  shows "spState st = Some ss"
proof -
  obtain sg' st' where in': "sg' \<in> set sgs" "st' \<in> set (sgSteps sg')" "ss = the (spState st')"
    using assms(4) by (auto simp: validStates_def)
  from assms(1) in' obtain ss' where s': "spState st' = Some ss'" "CurrentStage ss' = sgName sg'" "CurrentStep ss' = spName st'"
    unfolding wellNamed_def by blast
  with in'(3) assms(5,6) have nm: "sgName sg' = sgName sg" "spName st' = spName st" by auto
  from assms(1,2) in'(1) nm(1) have "sg' = sg" unfolding wellNamed_def by (meson distinct_map inj_onD)
  with assms(1-3) in'(2) nm(2) have "st' = st" unfolding wellNamed_def by (meson distinct_map inj_onD)
  with s' in'(3) show ?thesis by simp
qed

lemma restored_step:
  assumes "wellNamed sgs" and "sg \<in> set sgs" and "st \<in> set (sgSteps sg)"
  shows "st\<lparr>spState := lastState (sgName sg) (spName st) (validStates sgs) None\<rparr> = keepValid st"
proof -
  from assms obtain ss where ss: "spState st = Some ss" "CurrentStage ss = sgName sg" "CurrentStep ss = spName st"
    unfolding wellNamed_def by blast
  show ?thesis
  proof (cases "validStatus (Status ss)")
    case True
    have i: "ss \<in> set (validStates sgs)" using True ss(1) assms(2,3) by (force simp: validStates_def)
    have u: "\<forall>s'\<in>set (validStates sgs). sgName sg = CurrentStage s' \<and> spName st = CurrentStep s' \<longrightarrow> s' = ss"
      using wellNamed_state [OF assms] ss(1) by auto
    have "lastState (sgName sg) (spName st) (validStates sgs) None = Some ss"
      by (rule lastState_some [OF i ss(2) [symmetric] ss(3) [symmetric] u])
    with True ss(1) show ?thesis by (simp add: keepValid_def)
  next
    case False
    have "lastState (sgName sg) (spName st) (validStates sgs) None = None"
    proof (intro lastState_none ballI notI)
      fix s' assume "s' \<in> set (validStates sgs)" "sgName sg = CurrentStage s' \<and> spName st = CurrentStep s'"
      with wellNamed_state [OF assms, of s'] ss(1) False show False by (auto simp: validStates_def)
    qed
    with False ss(1) show ?thesis by (simp add: keepValid_def)
  qed
qed

lemma restore_validStates:
  assumes "wellNamed sgs"
  shows "fold restoreState (validStates sgs) (bareStages sgs) = restored sgs"
proof -
  have "map (\<lambda>st. st\<lparr>spState := lastState (sgName sg) (spName st) (validStates sgs) None\<rparr>) (sgSteps sg) =
      map keepValid (sgSteps sg)" if "sg \<in> set sgs" for sg
    using restored_step [OF assms that] by simp
  then show ?thesis
    unfolding fold_restoreState bareStages_def restored_def by simp
qed

lemma getSnapshot_wellNamed:
  assumes "wellNamed (wStages w)"
  shows "getSnapshot w = (Val \<lparr>StepsStates = validStates (wStages w), WorkflowState = wState w\<rparr>, w)"
proof -
  have "\<not> (\<exists>st\<in>set (allSteps w). spState st = None)"
    using assms by (fastforce simp: wellNamed_def allSteps_def)
  then show ?thesis
    by (simp add: getSnapshot_def stepStates_def op_defs validStates_def allSteps_def)
qed

section \<open>Failing steps and finished workflows\<close>

lemma runWithLinear_failing:
  assumes fails: "\<forall>s. \<exists>e s1. fn s = (Err e, s1) \<and> calls s1 = calls s + (1 :: nat) \<and> slept s1 = (slept s :: nat)"
    and sleeps: "\<forall>d s. slept (sleep d s) = slept s + 1 \<and> calls (sleep d s) = calls s"
    and m: "0 \<le> m"
  shows "r < m \<Longrightarrow> \<exists>e' s'. runWithLinear sleep m t fn e r s = Some (Err e', s') \<and>
     calls s' = calls s + nat (m - r) \<and> slept s' = slept s + nat (m - r - 1)"
proof (induction "nat (m - r)" arbitrary: e r s)
  case (Suc n)
  obtain e1 s1 where fn: "fn s = (Err e1, s1)" "calls s1 = calls s + 1" "slept s1 = slept s"
    using fails by blast
  let ?s2 = "if r + 1 < m then sleep t s1 else s1"
  have unf: "runWithLinear sleep m t fn e r s = runWithLinear sleep m t fn (Err e1) (r + 1) ?s2"
    using fn Suc.prems by (subst runWithLinear.simps) simp
  show ?case
  proof (cases "r + 1 < m")
    case True
    have n: "n = nat (m - (r + 1))" using Suc.hyps(2) by simp
    from Suc.hyps(1) [OF n True, of "Err e1" ?s2] obtain e' s' where
      run: "runWithLinear sleep m t fn (Err e1) (r + 1) ?s2 = Some (Err e', s')"
        "calls s' = calls ?s2 + nat (m - (r + 1))" "slept s' = slept ?s2 + nat (m - (r + 1) - 1)" by blast
    have "calls ?s2 = calls s + 1" "slept ?s2 = slept s + 1" using True fn sleeps by auto
    with run True have "calls s' = calls s + nat (m - r)" "slept s' = slept s + nat (m - r - 1)" by auto
    moreover have "runWithLinear sleep m t fn e r s = Some (Err e', s')" using unf run(1) by (rule trans)
    ultimately show ?thesis by (intro exI conjI)
  next
    case False
    with Suc.prems have "m = r + 1" by simp
    with fn unf m show ?thesis by (simp add: runWithLinear.simps [of _ _ _ _ _ "r + 1"])
  qed
qed simp

lemma runWithLinear_diverges:
  assumes fails: "\<forall>s. \<exists>e s1. fn s = (Err e, s1)" and "m < 0"
  shows "runWithLinear sleep m t fn e r s = None"
proof (rule ccontr)
  assume "runWithLinear sleep m t fn e r s \<noteq> None"
  then obtain y where "runWithLinear sleep m t fn e r s = Some y" by blast
  then have "m < 0 \<longrightarrow> (\<forall>s. \<exists>e s1. fn s = (Err e, s1)) \<longrightarrow> False"
  proof (rule runWithLinear.raw_induct
      [where P = "\<lambda>sleep m t fn e r s y. m < 0 \<longrightarrow> (\<forall>s. \<exists>e s1. fn s = (Err e, s1)) \<longrightarrow> False", rotated])
    fix loop sleep m t fn e r s y
    assume IH: "\<And>sleep m t fn e r s y. loop sleep m t fn e r s = Some y \<Longrightarrow>
        m < 0 \<longrightarrow> (\<forall>s. \<exists>e s1. fn s = (Err e, s1)) \<longrightarrow> False"
      and body: "(if r < m \<or> m < 0 then case fn s of (Val u, s1) \<Rightarrow> Some (Val (), s1)
         | (Err e, s1) \<Rightarrow> loop sleep m t fn (Err e) (r + 1) (if r + 1 < m then sleep t s1 else s1)
         | (Panic p, s1) \<Rightarrow> Some (Panic p, s1) else Some (e, s)) = Some y"
    show "m < 0 \<longrightarrow> (\<forall>s. \<exists>e s1. fn s = (Err e, s1)) \<longrightarrow> False"
    proof (intro impI)
      assume m: "m < 0" and f: "\<forall>s. \<exists>e s1. fn s = (Err e, s1)"
      obtain e1 s1 where fn: "fn s = (Err e1, s1)" using f by blast
      with body m have "loop sleep m t fn (Err e1) (r + 1) (if r + 1 < m then sleep t s1 else s1) = Some y" by simp
      from IH [OF this] m f show False by blast
    qed
  qed
  with assms show False by blast
qed

lemma execute_finished:
  assumes "checkStatus w" and "\<forall>sg\<in>set (wStages w). distinct (map spName (sgSteps sg))"
  shows "execute h w = Some (Val (), w\<lparr>wStages := map initStage (wStages w)\<rparr>)"
  using assms(1) initWorkflow_distinct [OF assms(2)] by (simp add: execute_def checkStatus_def)

lemma statusAt_skipStep:
  "statusAt (skipStep i k w) i j = (if j = k \<and> statusAt w i j \<noteq> None then Some StatusSkipped else statusAt w i j)"
  unfolding skipStep_def statusAt_updState by (auto simp: statusAt_def split: option.splits)

lemma statusAt_fold_skip:
  "j \<in> set js \<Longrightarrow> statusAt w i j \<noteq> None \<Longrightarrow> statusAt (fold (skipStep i) js w) i j = Some StatusSkipped"
proof (induction js arbitrary: w)
  case (Cons k js)
  have keep: "statusAt w' i j = Some StatusSkipped \<Longrightarrow> statusAt (fold (skipStep i) ks w') i j = Some StatusSkipped" for ks w'
    by (induction ks arbitrary: w') (simp_all add: statusAt_skipStep)
  show ?case
  proof (cases "j = k")
    case True
    then have "statusAt (skipStep i k w) i j = Some StatusSkipped"
      using Cons.prems(2) by (simp add: statusAt_skipStep)
    with keep show ?thesis by simp
  next
    case False
    with Cons show ?thesis by (simp add: statusAt_skipStep)
  qed
qed simp

lemma runWithLinear_no_pause:
  assumes "runWithLinear sleep m t fn e r s = Some y" and "m < 0" and "0 \<le> r"
  shows "runWithLinear sleep' m t fn e r s = Some y"
proof -
  have "m < 0 \<longrightarrow> 0 \<le> r \<longrightarrow> runWithLinear sleep' m t fn e r s = Some y"
  proof (rule runWithLinear.raw_induct
      [where P = "\<lambda>sleep m t fn e r s y. m < 0 \<longrightarrow> 0 \<le> r \<longrightarrow> runWithLinear sleep' m t fn e r s = Some y",
       OF _ assms(1)])
    fix loop sleep m t fn e r s y
    assume IH: "\<And>sleep m t fn e r s y. loop sleep m t fn e r s = Some y \<Longrightarrow>
        m < 0 \<longrightarrow> 0 \<le> r \<longrightarrow> runWithLinear sleep' m t fn e r s = Some y"
      and body: "(if r < m \<or> m < 0 then case fn s of (Val u, s1) \<Rightarrow> Some (Val (), s1)
         | (Err e, s1) \<Rightarrow> loop sleep m t fn (Err e) (r + 1) (if r + 1 < m then sleep t s1 else s1)
         | (Panic p, s1) \<Rightarrow> Some (Panic p, s1) else Some (e, s)) = Some y"
    show "m < 0 \<longrightarrow> 0 \<le> r \<longrightarrow> runWithLinear sleep' m t fn e r s = Some y"
    proof (intro impI)
      assume m: "m < 0" and r: "0 \<le> r"
      obtain res s1 where fn: "fn s = (res, s1)" by (cases "fn s")
      show "runWithLinear sleep' m t fn e r s = Some y"
      proof (cases res)
        case (Err e')
        with body fn m r have "loop sleep m t fn (Err e') (r + 1) s1 = Some y" by simp
        from IH [OF this] m r have "runWithLinear sleep' m t fn (Err e') (r + 1) s1 = Some y" by simp
        with fn Err m r show ?thesis by (subst runWithLinear.simps) simp
      next
        case (Val u)
        with body fn m have y: "y = (Val (), s1)" by simp
        show ?thesis unfolding y by (subst runWithLinear.simps) (simp add: fn Val m)
      next
        case (Panic q)
        with body fn m have y: "y = (Panic q, s1)" by simp
        show ?thesis unfolding y by (subst runWithLinear.simps) (simp add: fn Panic m)
      qed
    qed
  qed
  with assms show ?thesis by blast
qed

section \<open>Machines built from stages and a snapshot\<close>

text \<open>
  A machine is built with fresh stages, the states of the snapshot's steps are restored, and the
  initialisation gives every step one attempt.
\<close>

lemma restored_fields:
  "map (\<lambda>sg. map spMaxRetries (sgSteps sg)) (fold restoreState sss sgs) = map (\<lambda>sg. map spMaxRetries (sgSteps sg)) sgs"
  "map (\<lambda>sg. map spName (sgSteps sg)) (fold restoreState sss sgs) = map (\<lambda>sg. map spName (sgSteps sg)) sgs"
  by (simp_all add: fold_restoreState o_def)

definition freshStages :: "stage list \<Rightarrow> bool" where
  "freshStages sgs \<longleftrightarrow> (\<forall>sg\<in>set sgs. distinct (map spName (sgSteps sg)) \<and> (\<forall>st\<in>set (sgSteps sg). spMaxRetries st = 0))"

lemma fresh_init:
  assumes "wStages m = fold restoreState sss sgs" and "freshStages sgs"
  shows "initWorkflow m = (Val (), m\<lparr>wStages := map initStage (wStages m)\<rparr>)"
proof (rule initWorkflow_distinct)
  have "set (map (\<lambda>sg. map spName (sgSteps sg)) (wStages m)) = set (map (\<lambda>sg. map spName (sgSteps sg)) sgs)"
    by (simp only: assms(1) restored_fields)
  moreover have "\<forall>ns \<in> set (map (\<lambda>sg. map spName (sgSteps sg)) sgs). distinct ns"
    using assms(2) by (simp add: freshStages_def)
  ultimately have "\<forall>ns \<in> set (map (\<lambda>sg. map spName (sgSteps sg)) (wStages m)). distinct ns" by simp
  then show "\<forall>sg\<in>set (wStages m). distinct (map spName (sgSteps sg))" by simp
qed

lemma fresh_retries:
  assumes "wStages m = fold restoreState sss sgs" and "freshStages sgs"
    and "stepAt (m\<lparr>wStages := map initStage (wStages m)\<rparr>) i j = Some st"
  shows "spMaxRetries st = 1"
proof -
  let ?sgs = "wStages m"
  from assms(3) have ij: "i < length ?sgs" "j < length (sgSteps (?sgs ! i))"
    and st: "st = initStep (sgName (?sgs ! i)) (sgSteps (?sgs ! i) ! j)"
    by (auto simp: stepAt_def stageAt_def initStage_def split: if_split_asm option.split_asm)
  have "spMaxRetries (sgSteps (?sgs ! i) ! j) \<in> set (concat (map (\<lambda>sg. map spMaxRetries (sgSteps sg)) ?sgs))"
    using ij by (auto intro!: bexI [OF _ nth_mem])
  also have "\<dots> = set (concat (map (\<lambda>sg. map spMaxRetries (sgSteps sg)) sgs))"
    by (simp only: assms(1) restored_fields)
  finally have "spMaxRetries (sgSteps (?sgs ! i) ! j) = 0"
    using assms(2) by (auto simp: freshStages_def)
  with st show ?thesis by (simp add: initStep_def setDefaultValues_def Let_def)
qed

lemma fresh_bounded:
  assumes "wStages m = fold restoreState sss sgs" and "freshStages sgs"
  shows "bounded (m\<lparr>wStages := map initStage (wStages m)\<rparr>)"
  unfolding bounded_def retriesAt_def by (auto dest: fresh_retries [OF assms])

section \<open>Properties\<close>

text \<open>A small workflow on which the properties are evaluated.\<close>

definition demoStep :: "string \<Rightarrow> step_status \<Rightarrow> step" where
  "demoStep n s = \<lparr>spName = n, spTimeout = 0, spMaxRetries = 1, spRetryPolicy = Some RunWithLinear,
     spFinish = False, spState = Some (newStepState\<lparr>CurrentStage := ''s'', CurrentStep := n, Status := s\<rparr>)\<rparr>"

definition demoFlow :: "string \<Rightarrow> bool \<Rightarrow> workflow" where
  "demoFlow jump done' = \<lparr>wName = ''demo'', wState = newWorkflowState\<lparr>NextStep := jump, IsCompleted := done'\<rparr>,
     wStages = [\<lparr>sgName = ''s'', sgSteps = [demoStep ''a'' StatusPending, demoStep ''b'' StatusCompleted,
       demoStep ''c'' StatusPending]\<rparr>], wPrevStep = None, wSkipError = False\<rparr>"

definition demoHooks :: "workflow hooks" where
  "demoHooks = \<lparr>hBefore = None, hAfter = None, hOnFailure = None, hBeforeAll = None, hAfterAll = None,
     hStageBefore = (\<lambda>_. None), hStageAfter = (\<lambda>_. None), hFunc = (\<lambda>_ _. Some (ret ())),
     hStepBefore = (\<lambda>_ _. None), hStepAfter = (\<lambda>_ _. None), hStopped = (\<lambda>_. False),
     hCtxErr = (\<lambda>_. ErrCtx ''''), hNow = (\<lambda>_. 1), hSleep = (\<lambda>_ s. s)\<rparr>"

text \<open>
  A jump to a named step: the steps before the target are marked as skipped, none of their
  functions is called, and the run goes on exactly as it would from the target.
\<close>

theorem jump_skips_to_target:
  assumes "\<forall>w. \<not> hStopped h w" and "distinct js"
    and "\<forall>j\<in>set js. waiting w i j \<and> NextStep (wState w) \<noteq> stepNameAt w i j"
    and "NextStep (wState w) \<noteq> ''''" and "\<not> checkStatus w"
  shows "runSteps h i (js @ ks) w = runSteps h i ks (fold (skipStep i) js w) \<and>
    (\<forall>j\<in>set js. statusAt (fold (skipStep i) js w) i j = Some StatusSkipped)"
proof
  show "runSteps h i (js @ ks) w = runSteps h i ks (fold (skipStep i) js w)"
    using assms by (intro runSteps_jump) auto
  show "\<forall>j\<in>set js. statusAt (fold (skipStep i) js w) i j = Some StatusSkipped"
    using assms(3) by (intro ballI statusAt_fold_skip) (auto simp: waiting_def)
qed

theorem jump_skips_to_target_witness:
  "runSteps demoHooks 0 ([0] @ [1, 2]) (demoFlow ''c'' False) =
   runSteps demoHooks 0 [1, 2] (fold (skipStep 0) [0] (demoFlow ''c'' False))"
  using jump_skips_to_target [of demoHooks "[0]" "demoFlow ''c'' False" 0 "[1, 2]"]
  by (simp add: demoHooks_def demoFlow_def demoStep_def waiting_def statusAt_def stepAt_def stageAt_def
      stepNameAt_def settled_def checkStatus_def newWorkflowState_def newStepState_def)

text \<open>
  The initialisation of a workflow succeeds exactly when the step names are distinct in every
  stage, never panics, and on success every step has a state, a limit and a policy, and carries the
  status it had before.
\<close>

theorem init_iff_unique_names:
  "(\<exists>w'. initWorkflow w = (Val (), w')) = (\<forall>sg\<in>set (wStages w). distinct (map spName (sgSteps sg))) \<and>
   (case initWorkflow w of
      (Panic p, w') \<Rightarrow> False
    | (Err e, w') \<Rightarrow> True
    | (Val u, w') \<Rightarrow> (\<forall>sg\<in>set (wStages w'). \<forall>st\<in>set (sgSteps sg).
         spState st \<noteq> None \<and> spMaxRetries st \<noteq> 0 \<and> spTimeout st \<noteq> 0 \<and> spRetryPolicy st \<noteq> None) \<and>
       (\<forall>i j s. statusAt w i j = Some s \<longrightarrow> statusAt w' i j = Some s))"
proof (cases "\<forall>sg\<in>set (wStages w). distinct (map spName (sgSteps sg))")
  case True
  have ready: "\<forall>sg\<in>set (map initStage (wStages w)). \<forall>st\<in>set (sgSteps sg).
      spState st \<noteq> None \<and> spMaxRetries st \<noteq> 0 \<and> spTimeout st \<noteq> 0 \<and> spRetryPolicy st \<noteq> None"
    by (auto simp: initStage_def initStep_def setDefaultValues_def Let_def second_def)
  from initWorkflow_status [OF initWorkflow_distinct [OF True]] ready initWorkflow_distinct [OF True] True
  show ?thesis by simp
next
  case False
  with initWorkflow_clash [of w] show ?thesis by auto
qed

theorem init_iff_unique_names_witness:
  "\<exists>w'. initWorkflow (demoFlow '''' False) = (Val (), w')"
  using init_iff_unique_names [of "demoFlow '''' False"] by (simp add: demoFlow_def demoStep_def)

text \<open>
  C40. A snapshot taken of an initialised workflow and set on the same machine built anew restores the
  state of the workflow and the state of every step whose status is one of the six, and of no other.
\<close>

theorem snapshot_roundtrip:
  assumes "wellNamed (wStages w)"
  shows "\<exists>sh. getSnapshot w = (Val sh, w) \<and>
    setSnapshot sh (w\<lparr>wStages := bareStages (wStages w), wState := s0\<rparr>) = w\<lparr>wStages := restored (wStages w)\<rparr>"
  using getSnapshot_wellNamed [OF assms] restore_validStates [OF assms]
  by (simp add: setSnapshot_def)

theorem snapshot_roundtrip_witness:
  "\<exists>sh. getSnapshot (demoFlow '''' False) = (Val sh, demoFlow '''' False) \<and>
    setSnapshot sh ((demoFlow '''' False)\<lparr>wStages := bareStages (wStages (demoFlow '''' False)), wState := newWorkflowState\<rparr>) =
    (demoFlow '''' False)\<lparr>wStages := restored (wStages (demoFlow '''' False))\<rparr>"
  by (rule snapshot_roundtrip)
    (simp add: demoFlow_def demoStep_def wellNamed_def newStepState_def)

text \<open>
  A run of a workflow that is completed, suspended or failed initialises its steps and returns
  without an error; no function of the machine is called and no state or status changes.
\<close>

theorem finished_workflow_is_inert:
  assumes "checkStatus w" and "\<forall>sg\<in>set (wStages w). distinct (map spName (sgSteps sg))"
  shows "runWorkflow h Ended w = Some (Val (), w\<lparr>wStages := map initStage (wStages w)\<rparr>)"
  using execute_finished [OF assms] by (simp add: runWorkflow_def runFinish_def)

theorem finished_workflow_is_inert_witness:
  "runWorkflow demoHooks Ended (demoFlow '''' True) =
     Some (Val (), (demoFlow '''' True)\<lparr>wStages := map initStage (wStages (demoFlow '''' True))\<rparr>)"
  by (rule finished_workflow_is_inert)
    (simp_all add: demoFlow_def demoStep_def checkStatus_def newWorkflowState_def)

text \<open>
  A step that keeps failing under a limit \<open>m > 0\<close> is tried exactly \<open>m\<close> times with a pause
  between two attempts, and the error of an attempt is the result.
\<close>

theorem linear_policy_attempts:
  assumes "\<forall>s. \<exists>e s1. fn s = (Err e, s1) \<and> calls s1 = calls s + (1 :: nat) \<and> slept s1 = (slept s :: nat)"
    and "\<forall>d s. slept (sleep d s) = slept s + 1 \<and> calls (sleep d s) = calls s" and "0 < m"
  shows "\<exists>e s'. runWithLinear sleep m t fn (Val ()) 0 s = Some (Err e, s') \<and>
    calls s' = calls s + nat m \<and> slept s' = slept s + nat (m - 1)"
  using runWithLinear_failing [where calls = calls and slept = slept and r = 0, OF assms(1,2) _ assms(3)] assms(3)
  by simp

theorem linear_policy_attempts_witness:
  "\<exists>e s'. runWithLinear (\<lambda>_ (c, p). (c, p + 1)) 3 0 (\<lambda>(c, p). (Err ErrRetry, (c + 1, p))) (Val ()) 0 (0 :: nat, 0 :: nat) =
     Some (Err e, s') \<and> fst s' = 3 \<and> snd s' = 2"
  using linear_policy_attempts [where calls = fst and slept = snd and m = 3 and s = "(0, 0)" and t = 0
    and fn = "\<lambda>(c, p). (Err ErrRetry, (c + 1, p))" and sleep = "\<lambda>_ (c, p). (c, p + 1)"]
  by auto

text \<open>
  A negative limit means no limit: a step that keeps failing under it never lets the run
  return. There is no pause between its attempts either, whatever the pause would do, because it is
  taken only when the number of attempts is below the limit.
\<close>

theorem negative_limit_never_pauses:
  assumes "m < 0" and "0 \<le> r"
  shows "runWithLinear sleep m t fn e r s = runWithLinear sleep' m t fn e r s \<and>
    ((\<forall>s. \<exists>e s1. fn s = (Err e, s1)) \<longrightarrow> runWithLinear sleep m t fn e r s = None)"
  using runWithLinear_diverges [OF _ assms(1)] runWithLinear_no_pause [OF _ assms]
  by (metis not_None_eq)

theorem negative_limit_never_pauses_witness:
  "runWithLinear (\<lambda>_ n. n + 7) (- 1) 0 (\<lambda>n. (Err ErrRetry, n * 2)) (Val ()) 0 (0 :: nat) = None"
  using negative_limit_never_pauses [of "- 1" 0 "\<lambda>_ n. n + 7" 0 "\<lambda>n. (Err ErrRetry, n * 2)" "Val ()" "0 :: nat" "\<lambda>_ n. n", THEN conjunct2]
  by simp

end
