(* ===== verification/Fsm.thy ===== *)
theory Fsm
  imports ServicesFacts WorkflowLaws
begin

text \<open>
  What the finite state machines of \<open>internal/fsm\<close> share: the state they work on, which is the
  engine's workflow with the machine's transfer and the process around it, the lifting of a service
  call to that state, and the functions that store the workflow's snapshot.
\<close>

section \<open>State\<close>

text \<open>\<open>fsTransfer\<close> is the pointer \<open>s.transfer\<close>; \<open>None\<close> is nil.\<close>

record 'e fsm = workflow +
  fsTransfer :: "transfer option"
  fsWorld :: "'e world"

definition liftW :: "('e world, 'a) op \<Rightarrow> (('e, 'z) fsm_scheme, 'a) op" where
  "liftW m s = (case m (fsWorld s) of (r, w) \<Rightarrow> (r, s\<lparr>fsWorld := w\<rparr>))"

definition liftE :: "('e, 'a) op \<Rightarrow> (('e, 'z) fsm_scheme, 'a) op" where
  "liftE m = liftW (liftExt m)"

text \<open>\<open>*s.transfer\<close>.\<close>

definition theTransfer :: "(('e, 'z) fsm_scheme, transfer) op" where
  "theTransfer s =
     (case fsTransfer s of
        Some t \<Rightarrow> (Val t, s)
      | None \<Rightarrow> (Panic ''nil pointer dereference'', s))"

text \<open>
  The body of the hooks around the steps and of the after function:
  \<open>SetWorkflowSnapshot(ctx, fsm.transfer.ID, fsm.wf.GetSnapshot())\<close>.
\<close>

definition saveSnapshot :: "'e env \<Rightarrow> (('e, 'z) fsm_scheme) act" where
  "saveSnapshot env =
     bnd theTransfer (\<lambda>t.
     bnd getSnapshot (\<lambda>sh.
     wrapErr ''set workflow snapshot'' (liftW (transfersSetWorkflowSnapshot env False (trID t) sh))))"

definition noConsoleError :: "goerr \<Rightarrow> goerr" where
  "noConsoleError e = Wrap2 ErrNoConsole e"

definition jobSnooze :: "'e env \<Rightarrow> duration \<Rightarrow> goerr" where
  "jobSnooze env d = JobSnooze d (envSnoozeString env d)"

text \<open>The name of the current step, \<open>""\<close> if there is none.\<close>

definition currentStepName :: "('a workflow_scheme, string) op" where
  "currentStepName = bnd currentStep (\<lambda>st. ret (case st of None \<Rightarrow> '''' | Some st \<Rightarrow> spName st))"

text \<open>A call whose error the code inspects: \<open>Inl\<close> the error, \<open>Inr\<close> the value.\<close>

definition tryE :: "('s, 'a) op \<Rightarrow> ('s, goerr + 'a) op" where
  "tryE m = catchErr (bnd m (\<lambda>x. ret (Inr x))) (\<lambda>e. ret (Inl e))"

text \<open>
  \<open>s.transfer, err = \<dots>SetTxHash(ctx, s.transfer.ID, hash)\<close>, and the return of the wrapped error: the
  pointer is replaced also when there is an error.
\<close>

definition replaceTxHash :: "'e env \<Rightarrow> string \<Rightarrow> (('e, 'z) fsm_scheme) act" where
  "replaceTxHash env hash =
     bnd theTransfer (\<lambda>t.
     bnd (liftW (transfersSetTxHash env False (trID t) hash)) (\<lambda>(t', err).
     bnd (modS (\<lambda>s. s\<lparr>fsTransfer := t'\<rparr>)) (\<lambda>_.
     case err of Some e \<Rightarrow> fail (Wrapf ''set tx hash: '' e) | None \<Rightarrow> ret ())))"

definition newStep :: "string \<Rightarrow> step" where
  "newStep name = \<lparr>spName = name, spTimeout = 0, spMaxRetries = 0, spRetryPolicy = None,
     spFinish = False, spState = None\<rparr>"

section \<open>Transactions of the database\<close>

text \<open>
  \<open>pgx.BeginTxFunc\<close>: begin, the body, then a commit, or a rollback when the body fails or panics. A
  fault of the commit leaves the effect of the transaction undone or done.
\<close>

definition txBegin :: "'e env \<Rightarrow> 'e world act" where
  "txBegin env w =
     (case envFault env ''begin'' (wdExt w) of
        (NoFault, x) \<Rightarrow> (Val (), w\<lparr>wdExt := x, wdTx := Some id\<rparr>)
      | (FaultBefore e, x) \<Rightarrow> (Err e, w\<lparr>wdExt := x\<rparr>)
      | (FaultAfter e, x) \<Rightarrow> (Err e, w\<lparr>wdExt := x\<rparr>))"

definition txRollback :: "'e world \<Rightarrow> 'e world" where
  "txRollback w = w\<lparr>wdTx := None\<rparr>"

definition txCommit :: "'e env \<Rightarrow> 'e world act" where
  "txCommit env w =
     (let done' = w\<lparr>wdDb := dbView True w, wdTx := None\<rparr>
      in case envFault env ''commit'' (wdExt w) of
        (NoFault, x) \<Rightarrow> (Val (), done'\<lparr>wdExt := x\<rparr>)
      | (FaultBefore e, x) \<Rightarrow> (Err e, (txRollback w)\<lparr>wdExt := x\<rparr>)
      | (FaultAfter e, x) \<Rightarrow> (Err e, done'\<lparr>wdExt := x\<rparr>))"

definition inTx :: "'e env \<Rightarrow> (('e, 'z) fsm_scheme, 'a) op \<Rightarrow> (('e, 'z) fsm_scheme, 'a) op" where
  "inTx env body =
     bnd (liftW (txBegin env)) (\<lambda>_ s1.
     case body s1 of
       (Val r, s2) \<Rightarrow> bnd (liftW (txCommit env)) (\<lambda>_. ret r) s2
     | (Err e, s2) \<Rightarrow> (Err e, s2\<lparr>fsWorld := txRollback (fsWorld s2)\<rparr>)
     | (Panic q, s2) \<Rightarrow> (Panic q, s2\<lparr>fsWorld := txRollback (fsWorld s2)\<rparr>))"

section \<open>Library of the machines\<close>

lemma frame_fsTransfer [simp]: "frame (s\<lparr>fsTransfer := t\<rparr>) = frame s"
  by (rule frame_cong) simp

lemma frame_fsWorld [simp]: "frame (s\<lparr>fsWorld := t\<rparr>) = frame s"
  by (rule frame_cong) simp

lemma keeps_liftW:
  assumes "\<And>s x. v (s\<lparr>fsWorld := x\<rparr>) = v s"
  shows "keeps v (liftW m)"
  by (rule keepsI) (simp add: liftW_def assms split: prod.splits)

lemma keeps_liftE: "(\<And>s x. v (s\<lparr>fsWorld := x\<rparr>) = v s) \<Longrightarrow> keeps v (liftE m)"
  by (simp add: liftE_def keeps_liftW)

lemma keeps_theTransfer [keeps_intros]: "keeps v theTransfer"
  by (rule keepsI) (simp add: theTransfer_def split: option.splits)

lemma keeps_stepStates [keeps_intros]: "keeps v stepStates"
  by (rule keepsI) (simp add: stepStates_def)

lemma keeps_getSnapshot [keeps_intros]: "keeps v getSnapshot"
  by (simp add: getSnapshot_def keeps_intros)

lemma keeps_currentStage [keeps_intros]: "keeps v currentStage"
  by (rule keepsI) (simp add: currentStage_def split: list.splits)

lemma keeps_currentStep [keeps_intros]: "keeps v currentStep"
  unfolding currentStep_def
  by (intro keeps_bnd keeps_currentStage) (auto intro: keeps_intros split: option.splits list.splits)

lemma keeps_currentStepName [keeps_intros]: "keeps v currentStepName"
  by (simp add: currentStepName_def keeps_intros)

lemma keeps_frame_liftW [keeps_intros]: "keeps frame (liftW m)"
  by (rule keeps_liftW) simp

lemma keeps_frame_liftE [keeps_intros]: "keeps frame (liftE m)"
  by (rule keeps_liftE) simp

lemma keeps_frame_saveSnapshot [keeps_intros]: "keeps frame (saveSnapshot env)"
  by (simp add: saveSnapshot_def keeps_intros)

lemma keeps_tryE [keeps_intros]: "keeps v m \<Longrightarrow> keeps v (tryE m)"
  by (simp add: tryE_def keeps_intros)

lemma keeps_replaceTxHash:
  assumes "\<And>s x. v (s\<lparr>fsWorld := x\<rparr>) = v s" and "\<And>s x. v (s\<lparr>fsTransfer := x\<rparr>) = v s"
  shows "keeps v (replaceTxHash env h)"
  unfolding replaceTxHash_def by (intro keeps_intros keeps_liftW keeps_modS assms)

lemma keeps_inTx:
  assumes "\<And>s x. v (s\<lparr>fsWorld := x\<rparr>) = v s" and "keeps v m"
  shows "keeps v (inTx env m)"
proof (rule keepsI)
  fix s
  have b: "v s1 = v s" if "liftW (txBegin env) s = (r, s1)" for r s1
    by (rule keepsD [OF keeps_liftW that]) (rule assms(1))
  have m: "v s2 = v s1" if "m s1 = (r, s2)" for r s1 s2 by (rule keepsD [OF assms(2) that])
  have c: "v s3 = v s2" if "liftW (txCommit env) s2 = (r, s3)" for r s2 s3
    by (rule keepsD [OF keeps_liftW that]) (rule assms(1))
  show "v (snd (inTx env m s)) = v s"
    by (auto simp: inTx_def bnd_def ret_def assms(1) dest!: b m c split: prod.split outcome.split)
qed

lemma keeps_case_sum [keeps_intros]:
  "(\<And>x. keeps v (f x)) \<Longrightarrow> (\<And>x. keeps v (g x)) \<Longrightarrow> keeps v (case r of Inl x \<Rightarrow> f x | Inr x \<Rightarrow> g x)"
  by (cases r) simp_all

section \<open>Successful operations of a machine\<close>

named_theorems fsm_Val "success of an operation of a machine from the success of its parts"

lemma theTransfer_Val [op_Val, fsm_Val]: "theTransfer s = (Val t, s') \<longleftrightarrow> fsTransfer s = Some t \<and> s' = s"
  by (auto simp: theTransfer_def split: option.splits)

lemma liftW_iff [fsm_Val]:
  "liftW m s = (Val x, s') \<longleftrightarrow> (\<exists>w'. m (fsWorld s) = (Val x, w') \<and> s' = s\<lparr>fsWorld := w'\<rparr>)"
  by (auto simp: liftW_def split: prod.splits)

lemma liftE_iff [fsm_Val]:
  "liftE m s = (Val x, s') \<longleftrightarrow>
     (\<exists>e. m (wdExt (fsWorld s)) = (Val x, e) \<and> s' = s\<lparr>fsWorld := (fsWorld s)\<lparr>wdExt := e\<rparr>\<rparr>)"
  by (auto simp: liftE_def liftExt_def liftW_iff split: prod.splits)

lemma tryE_Val [fsm_Val]:
  "tryE m s = (Val r, s') \<longleftrightarrow> (\<exists>x. m s = (Val x, s') \<and> r = Inr x) \<or> (\<exists>e. m s = (Err e, s') \<and> r = Inl e)"
  by (cases r) (auto simp: tryE_def op_defs split: prod.splits outcome.splits)

lemma inTx_Val [fsm_Val]:
  "inTx env m s = (Val x, s') \<longleftrightarrow>
     (\<exists>s1 s2. liftW (txBegin env) s = (Val (), s1) \<and> m s1 = (Val x, s2) \<and> liftW (txCommit env) s2 = (Val (), s'))"
  by (auto simp: inTx_def op_defs split: prod.splits outcome.splits)

lemma txBegin_Val [fsm_Val]:
  "txBegin env w = (Val u, w') \<longleftrightarrow> (\<exists>e. envFault env ''begin'' (wdExt w) = (NoFault, e) \<and> w' = w\<lparr>wdExt := e, wdTx := Some id\<rparr>)"
  by (auto simp: txBegin_def split: prod.splits db_fault.splits)

lemma txCommit_Val [fsm_Val]:
  "txCommit env w = (Val u, w') \<longleftrightarrow>
     (\<exists>e. envFault env ''commit'' (wdExt w) = (NoFault, e) \<and> w' = w\<lparr>wdDb := dbView True w, wdTx := None, wdExt := e\<rparr>)"
  by (auto simp: txCommit_def Let_def split: prod.splits db_fault.splits)

text \<open>A query that writes through the open transaction.\<close>

lemma dbExec_tx:
  assumes "dbExec env True nm g w = (Val u, w')" and "wdTx w = Some f"
  shows "\<exists>now e. w' = w\<lparr>wdExt := e, wdTx := Some (g now \<circ> f)\<rparr>"
  using assms
  by (auto simp: dbExec_def dbQuery_def Let_def ofSum_def op_defs dbApply_def split: prod.split_asm db_fault.split_asm)

lemma keeps_liftW_world: "keeps v m \<Longrightarrow> keeps (\<lambda>s. v (fsWorld s)) (liftW m)"
  by (rule keepsI) (auto simp: liftW_def keeps_def split: prod.split dest: sym; metis snd_conv)


text \<open>A body that writes through the transaction only: all of its writes or none of them.\<close>

lemma inTx_atomic:
  assumes "inTx env m s = (r, s')" and "keeps (\<lambda>s. held (fsWorld s)) m" and "wdTx (fsWorld s) = None"
  shows "wdTx (fsWorld s') = None \<and>
    (wdDb (fsWorld s') = wdDb (fsWorld s) \<and> (\<forall>x. r \<noteq> Val x) \<or>
     (\<exists>x e s2. m (s\<lparr>fsWorld := (fsWorld s)\<lparr>wdExt := e, wdTx := Some id\<rparr>\<rparr>) = (Val x, s2) \<and>
        wdDb (fsWorld s') = dbView True (fsWorld s2)))"
proof -
  obtain fl e where f: "envFault env ''begin'' (wdExt (fsWorld s)) = (fl, e)" by (rule prod.exhaust)
  show ?thesis
  proof (cases fl)
    case NoFault
    let ?s1 = "s\<lparr>fsWorld := (fsWorld s)\<lparr>wdExt := e, wdTx := Some id\<rparr>\<rparr>"
    obtain q s2 where m: "m ?s1 = (q, s2)" by (rule prod.exhaust)
    have h: "wdTx (fsWorld s2) \<noteq> None \<and> wdDb (fsWorld s2) = wdDb (fsWorld s)"
      using held_in [OF _ keepsD [OF assms(2) m]] by simp
    obtain fl2 e2 where f2: "envFault env ''commit'' (wdExt (fsWorld s2)) = (fl2, e2)" by (rule prod.exhaust)
    show ?thesis
      using assms(1) f f2 m h NoFault
      by (cases q; cases fl2)
        (auto simp: inTx_def bnd_def liftW_def txBegin_def txCommit_def txRollback_def ret_def Let_def dbView_def
          intro!: exI [of _ e])
  qed (use assms(1,3) f in \<open>auto simp: inTx_def bnd_def liftW_def txBegin_def\<close>)
qed

section \<open>Views of the state\<close>

text \<open>A view that does not depend on the process around the machine.\<close>

definition offWorld :: "((('e, 'z) fsm_scheme) \<Rightarrow> 'b) \<Rightarrow> bool" where
  "offWorld v \<longleftrightarrow> (\<forall>s x. v (s\<lparr>fsWorld := x\<rparr>) = v s)"

lemma offWorldD: "offWorld v \<Longrightarrow> v (s\<lparr>fsWorld := x\<rparr>) = v s"
  by (simp add: offWorld_def)

lemma keeps_case_list [keeps_intros]:
  "keeps v m \<Longrightarrow> (\<And>x xs. keeps v (f x xs)) \<Longrightarrow> keeps v (case ys of [] \<Rightarrow> m | x # xs \<Rightarrow> f x xs)"
  by (cases ys) simp_all

lemma keeps_off: "offWorld v \<Longrightarrow> keeps v (liftW m)" "offWorld v \<Longrightarrow> keeps v (liftE m')"
  by (intro keeps_liftW keeps_liftE offWorldD; assumption)+

lemmas keeps_world = keeps_intros keeps_off

section \<open>How often an operation raises a counter\<close>

text \<open>An operation raises a counter by at most \<open>n\<close>.\<close>

definition adds :: "('s \<Rightarrow> nat) \<Rightarrow> nat \<Rightarrow> ('s, 'a) op \<Rightarrow> bool" where
  "adds v n m \<longleftrightarrow> (\<forall>s. v (snd (m s)) \<le> v s + n)"

lemma addsD: "adds v n m \<Longrightarrow> m s = (r, s') \<Longrightarrow> v s' \<le> v s + n"
  unfolding adds_def by (metis snd_conv)

lemma adds_snd: "adds v n m \<Longrightarrow> v (snd (m s)) \<le> v s + n"
  by (simp add: adds_def)

lemma adds_keeps: "keeps v m \<Longrightarrow> adds v n m"
  by (simp add: adds_def keeps_snd)

lemma adds_rest:
  assumes "keeps v m" and "\<And>x. adds v n (f x)"
  shows "adds v n (bnd m f)"
  unfolding adds_def
proof
  fix s
  obtain r s1 where m: "m s = (r, s1)" by (rule prod.exhaust)
  have "v s1 = v s" by (rule keepsD [OF assms(1) m])
  then show "v (snd (bnd m f s)) \<le> v s + n"
    using m adds_snd [OF assms(2)] by (cases r) (auto simp: bnd_def, metis)
qed

lemma adds_first:
  assumes "adds v n m" and "\<And>x. keeps v (f x)"
  shows "adds v n (bnd m f)"
  unfolding adds_def
proof
  fix s
  obtain r s1 where m: "m s = (r, s1)" by (rule prod.exhaust)
  have "v s1 \<le> v s + n" by (rule addsD [OF assms(1) m])
  then show "v (snd (bnd m f s)) \<le> v s + n"
    using m keeps_snd [OF assms(2)] by (cases r) (auto simp: bnd_def)
qed

lemma adds_wrapErr: "adds v n m \<Longrightarrow> adds v n (wrapErr t m)"
  unfolding adds_def
proof
  fix s
  assume "\<forall>s. v (snd (m s)) \<le> v s + n"
  then have "v (snd (m s)) \<le> v s + n" ..
  then show "v (snd (wrapErr t m s)) \<le> v s + n"
    by (cases "m s"; cases "fst (m s)") (simp_all add: wrapErr_def)
qed

lemma adds_if: "adds v n m \<Longrightarrow> adds v n m' \<Longrightarrow> adds v n (if b then m else m')"
  by simp

lemma adds_inTx:
  fixes v :: "('e, 'z) fsm_scheme \<Rightarrow> nat" and m :: "(('e, 'z) fsm_scheme, 'a) op"
  assumes "offWorld v" and "adds v n m"
  shows "adds v n (inTx env m)"
  unfolding adds_def
proof
  fix s :: "('e, 'z) fsm_scheme"
  obtain r1 s1 where b: "liftW (txBegin env) s = (r1, s1)" by (rule prod.exhaust)
  have v1: "v s1 = v s" by (rule keepsD [OF keeps_off(1) [OF assms(1)] b])
  obtain r2 s2 where m: "m s1 = (r2, s2)" by (rule prod.exhaust)
  have v2: "v s2 \<le> v s + n" using addsD [OF assms(2) m] v1 by simp
  obtain r3 s3 where c: "liftW (txCommit env) s2 = (r3, s3)" by (rule prod.exhaust)
  have v3: "v s3 = v s2" by (rule keepsD [OF keeps_off(1) [OF assms(1)] c])
  show "v (snd (inTx env m s)) \<le> v s + n"
    using b m c v1 v2 v3
    by (cases r1; cases r2; cases r3) (simp_all add: inTx_def bnd_def ret_def offWorldD [OF assms(1)])
qed

end
