(* ===== verification/TxBuilder.thy ===== *)
theory TxBuilder
  imports Prelude
begin

text \<open>
  \<open>pkg/walletsdk/{btc,ltc,doge,bch}/tx_builder.go\<close>: the builder of a transaction that spends
  unspent outputs. The four files are copies of one another; where they differ the definitions
  branch on the coin. The node libraries (hashes, addresses, scripts, signatures, the script engine,
  serialised sizes) are the functions of the record \<open>utxo_lib\<close>. An output's value is an \<open>int64\<close>.
\<close>

section \<open>Transactions\<close>

datatype utxo_coin = Btc | Ltc | Doge | Bch

record tx_in =
  tiHash :: string
  tiIndex :: "32 word"
  tiSequence :: "32 word"
  tiSignatureScript :: string
  tiWitness :: "string list"

record tx_out =
  toValue :: "64 word"
  toPkScript :: string

record msg_tx =
  mtTxIn :: "tx_in list"
  mtTxOut :: "tx_out list"

record tx_input =
  inPrivateKey :: string
  inPkScript :: string
  inHash :: string
  inSequence :: "32 word"
  inAmount :: "64 word"

record tx_builder =
  tbTx :: msg_tx
  tbInputs :: "tx_input list"
  tbOutputs :: "(string \<times> rat) list"

type_synonym prev_outs = "((string \<times> 32 word) \<times> 64 word \<times> string) list"

record utxo_lib =
  ulHashFromStr :: "string \<Rightarrow> goerr + string"
  ulDecodeAddress :: "string \<Rightarrow> goerr + string"
  ulPayToAddrScript :: "string \<Rightarrow> goerr + string"
  ulHexDecode :: "string \<Rightarrow> goerr + string"
  ulIsPayToPubKeyHash :: "string \<Rightarrow> bool"
  ulIsPayToScriptHash :: "string \<Rightarrow> bool"
  ulIsPayToWitnessPubKeyHash :: "string \<Rightarrow> bool"
  ulIsPayToTaproot :: "string \<Rightarrow> bool"
  ulSignatureScript :: "msg_tx \<Rightarrow> nat \<Rightarrow> string \<Rightarrow> string \<Rightarrow> goerr + string"
  ulRedeemScript :: "string \<Rightarrow> goerr + string"
  ulRawTxInSignature :: "msg_tx \<Rightarrow> nat \<Rightarrow> string \<Rightarrow> string \<Rightarrow> goerr + string"
  ulScriptHashScript :: "string \<Rightarrow> string \<Rightarrow> goerr + string"
  ulWitnessSignature :: "msg_tx \<Rightarrow> prev_outs \<Rightarrow> nat \<Rightarrow> 64 word \<Rightarrow> string \<Rightarrow> string \<Rightarrow> goerr + string list"
  ulTaprootSignature :: "msg_tx \<Rightarrow> prev_outs \<Rightarrow> nat \<Rightarrow> 64 word \<Rightarrow> string \<Rightarrow> string \<Rightarrow> goerr + string list"
  ulSignTxOutput :: "msg_tx \<Rightarrow> nat \<Rightarrow> 64 word \<Rightarrow> string \<Rightarrow> string \<Rightarrow> string \<Rightarrow> goerr + string"
  ulNewEngine :: "string \<Rightarrow> msg_tx \<Rightarrow> nat \<Rightarrow> 64 word \<Rightarrow> prev_outs \<Rightarrow> goerr + unit"
  ulExecute :: "string \<Rightarrow> msg_tx \<Rightarrow> nat \<Rightarrow> 64 word \<Rightarrow> prev_outs \<Rightarrow> goerr + unit"
  ulSerializeSize :: "msg_tx \<Rightarrow> int"
  ulSerializeSizeStripped :: "msg_tx \<Rightarrow> int"
  ulTxHash :: "msg_tx \<Rightarrow> string"
  ulCashAddressPrefix :: string
  ulDecimalDiv :: "rat \<Rightarrow> rat \<Rightarrow> rat"

definition errInputAlreadyUsed :: goerr where "errInputAlreadyUsed = ErrExt ''txbuilder'' ''input already used''"
definition errOutputAlreadyExists :: goerr where
  "errOutputAlreadyExists = ErrExt ''txbuilder'' ''output already exists''"

definition trimPrefix :: "string \<Rightarrow> string \<Rightarrow> string" where
  "trimPrefix p s = (if strPrefix p s then drop (length p) s else s)"

section \<open>Building\<close>

definition newTxBuilder :: tx_builder where
  "newTxBuilder = \<lparr>tbTx = \<lparr>mtTxIn = [], mtTxOut = []\<rparr>, tbInputs = [], tbOutputs = []\<rparr>"

text \<open>\<open>NewTransactionFromBuilder\<close> copies the transaction; the builder it returns is a value of its own.\<close>

definition newTransactionFromBuilder :: "tx_builder \<Rightarrow> tx_builder" where
  "newTransactionFromBuilder b = \<lparr>tbTx = tbTx b, tbInputs = tbInputs b, tbOutputs = tbOutputs b\<rparr>"

definition outPoint :: "tx_in \<Rightarrow> string \<times> 32 word" where
  "outPoint i = (tiHash i, tiIndex i)"

text \<open>\<open>bch\<close> records the input before its checks, the other coins after them.\<close>

definition addInput :: "utxo_coin \<Rightarrow> utxo_lib \<Rightarrow> tx_input \<Rightarrow> tx_builder act" where
  "addInput c lib inp =
     bnd (modS (\<lambda>b. if c = Bch then b\<lparr>tbInputs := tbInputs b @ [inp]\<rparr> else b)) (\<lambda>_.
     bnd (wrapErr ''cannot make hash from source tx'' (ofSum (ulHashFromStr lib (inHash inp)))) (\<lambda>h.
     bnd (getS (\<lambda>b. (h, inSequence inp) \<in> set (map outPoint (mtTxIn (tbTx b))))) (\<lambda>used.
     if used then fail errInputAlreadyUsed
     else modS (\<lambda>b. b\<lparr>
       tbTx := (tbTx b)\<lparr>mtTxIn := mtTxIn (tbTx b) @
         [\<lparr>tiHash = h, tiIndex = inSequence inp, tiSequence = 0xfffffffd,
           tiSignatureScript = '''', tiWitness = []\<rparr>]\<rparr>,
       tbInputs := (if c = Bch then tbInputs b else tbInputs b @ [inp])\<rparr>))))"

definition addOutput :: "utxo_coin \<Rightarrow> utxo_lib \<Rightarrow> string \<Rightarrow> rat \<Rightarrow> tx_builder act" where
  "addOutput c lib address0 amount =
     bnd (getS (\<lambda>b. address0 \<in> fst ` set (tbOutputs b))) (\<lambda>used.
     if used then fail errOutputAlreadyExists
     else
     (let address = (if c = Bch then trimPrefix (ulCashAddressPrefix lib @ '':'') address0 else address0) in
     bnd (case ulDecodeAddress lib address of
            Inl e \<Rightarrow> fail (if c = Doge then Wrapf (''decode address '' @ address @ '': '') e
                           else ErrText (''decode address '' @ address))
          | Inr a \<Rightarrow> ret a) (\<lambda>addr.
     bnd (guardE (c \<noteq> Bch \<or> address = addr)
            (ErrText (''addresses is not equal: '' @ address @ '' != '' @ addr))) (\<lambda>_.
     bnd (wrapErr ''PayToAddrScript error'' (ofSum (ulPayToAddrScript lib addr))) (\<lambda>pk.
     modS (\<lambda>b. b\<lparr>
       tbTx := (tbTx b)\<lparr>mtTxOut := mtTxOut (tbTx b) @ [\<lparr>toValue = intPart amount, toPkScript = pk\<rparr>]\<rparr>,
       tbOutputs := tbOutputs b @ [(address, amount)]\<rparr>))))))"

section \<open>Signing\<close>

text \<open>\<open>s.tx.TxIn[i] = f(s.tx.TxIn[i])\<close>.\<close>

definition updTxIn :: "nat \<Rightarrow> (tx_in \<Rightarrow> tx_in) \<Rightarrow> tx_builder act" where
  "updTxIn i f b =
     (if i < length (mtTxIn (tbTx b))
      then (Val (), b\<lparr>tbTx := (tbTx b)\<lparr>mtTxIn := (mtTxIn (tbTx b))[i := f (mtTxIn (tbTx b) ! i)]\<rparr>\<rparr>)
      else (Panic ''index out of range'', b))"

definition whenS :: "bool \<Rightarrow> 's act \<Rightarrow> 's act" where
  "whenS c m = (if c then m else ret ())"

text \<open>\<open>signTxIn\<close> of \<open>btc\<close>, \<open>ltc\<close> and \<open>doge\<close>; \<open>doge\<close> has no Taproot branch.\<close>

definition signTxInScript :: "utxo_coin \<Rightarrow> utxo_lib \<Rightarrow> prev_outs \<Rightarrow> nat \<Rightarrow> tx_input \<Rightarrow> tx_builder act" where
  "signTxInScript c lib prevs i inp =
     bnd (wrapErr ''cannot decode source pk script'' (ofSum (ulHexDecode lib (inPkScript inp)))) (\<lambda>script.
     bnd (whenS (ulIsPayToPubKeyHash lib script)
       (bnd (getS tbTx) (\<lambda>tx.
        bnd (wrapErr ''cannot create signature for P2PKH''
               (ofSum (ulSignatureScript lib tx i script (inPrivateKey inp)))) (\<lambda>sig.
        updTxIn i (\<lambda>t. t\<lparr>tiSignatureScript := sig\<rparr>))))) (\<lambda>_.
     bnd (whenS (ulIsPayToScriptHash lib script)
       (bnd (wrapErr ''cannot create redeem script'' (ofSum (ulRedeemScript lib (inPrivateKey inp)))) (\<lambda>redeem.
        bnd (getS tbTx) (\<lambda>tx.
        bnd (wrapErr ''cannot create signature for P2SH''
               (ofSum (ulRawTxInSignature lib tx i redeem (inPrivateKey inp)))) (\<lambda>sig.
        bnd (wrapErr ''cannot create signature script for P2SH'' (ofSum (ulScriptHashScript lib sig redeem))) (\<lambda>ss.
        updTxIn i (\<lambda>t. t\<lparr>tiSignatureScript := ss\<rparr>))))))) (\<lambda>_.
     bnd (whenS (ulIsPayToWitnessPubKeyHash lib script)
       (bnd (getS tbTx) (\<lambda>tx.
        bnd (wrapErr ''cannot create witness signature for P2WPKH''
               (ofSum (ulWitnessSignature lib tx prevs i (inAmount inp) script (inPrivateKey inp)))) (\<lambda>wit.
        updTxIn i (\<lambda>t. t\<lparr>tiWitness := wit\<rparr>))))) (\<lambda>_.
     bnd (whenS (c \<noteq> Doge \<and> ulIsPayToTaproot lib script)
       (bnd (getS tbTx) (\<lambda>tx.
        bnd (wrapErr ''cannot create Taproot witness signature''
               (ofSum (ulTaprootSignature lib tx prevs i (inAmount inp) script (inPrivateKey inp)))) (\<lambda>wit.
        updTxIn i (\<lambda>t. t\<lparr>tiWitness := wit\<rparr>))))) (\<lambda>_.
     bnd (getS tbTx) (\<lambda>tx.
     bnd (wrapErr ''cannot create script engine'' (ofSum (ulNewEngine lib script tx i (inAmount inp) prevs))) (\<lambda>_.
     wrapErr ''cannot execute vm script'' (ofSum (ulExecute lib script tx i (inAmount inp) prevs)))))))))"

text \<open>\<open>signTxIn\<close> of \<open>bch\<close>.\<close>

definition signTxInBch :: "utxo_lib \<Rightarrow> nat \<Rightarrow> tx_input \<Rightarrow> tx_builder act" where
  "signTxInBch lib i inp =
     bnd (wrapErr ''invalid sourcePkScript'' (ofSum (ulHexDecode lib (inPkScript inp)))) (\<lambda>script.
     bnd (getS tbTx) (\<lambda>tx.
     bnd (if i < length (mtTxIn tx) then ret () else panic ''index out of range'') (\<lambda>_.
     bnd (wrapErr ''failed to sign input'' (ofSum (ulSignTxOutput lib tx i (inAmount inp) script
            (inPrivateKey inp) (tiSignatureScript (mtTxIn tx ! i))))) (\<lambda>sig.
     bnd (updTxIn i (\<lambda>t. t\<lparr>tiSignatureScript := sig\<rparr>)) (\<lambda>_.
     bnd (getS tbTx) (\<lambda>tx.
     bnd (wrapErr ''failed to create script engine'' (ofSum (ulNewEngine lib script tx i (inAmount inp) []))) (\<lambda>_.
     wrapErr ''failed to execute script'' (ofSum (ulExecute lib script tx i (inAmount inp) [])))))))))"

definition signTxIn :: "utxo_coin \<Rightarrow> utxo_lib \<Rightarrow> prev_outs \<Rightarrow> nat \<Rightarrow> tx_input \<Rightarrow> tx_builder act" where
  "signTxIn c lib prevs i inp =
     (if c = Bch then signTxInBch lib i inp else signTxInScript c lib prevs i inp)"

text \<open>The loop over the inputs that collects the outputs they spend; \<open>i\<close> is the loop's index.\<close>

fun collectPrevOuts :: "utxo_lib \<Rightarrow> nat \<Rightarrow> tx_input list \<Rightarrow> goerr + prev_outs" where
  "collectPrevOuts lib i [] = Inr []"
| "collectPrevOuts lib i (inp # inps) =
     (case ulHexDecode lib (inPkScript inp) of
        Inl e \<Rightarrow> Inl (Wrapf (''cannot decode pkScript for input '' @ showNat i @ '': '') e)
      | Inr script \<Rightarrow>
          (case ulHashFromStr lib (inHash inp) of
             Inl e \<Rightarrow> Inl e
           | Inr h \<Rightarrow> map_sum id (\<lambda>ps. ((h, inSequence inp), inAmount inp, script) # ps)
                         (collectPrevOuts lib (Suc i) inps)))"

definition signTx :: "utxo_coin \<Rightarrow> utxo_lib \<Rightarrow> tx_builder act" where
  "signTx c lib =
     bnd (getS tbInputs) (\<lambda>inputs.
     bnd (guardE (inputs \<noteq> []) (ErrText ''no inputs to sign'')) (\<lambda>_.
     bnd (if c = Bch then ret [] else ofSum (collectPrevOuts lib 0 inputs)) (\<lambda>prevs.
     forEach (enumerate 0 inputs) (\<lambda>(i, inp).
       wrapErr ''cannot sign input'' (signTxIn c lib prevs i inp)))))"

section \<open>Size and fee\<close>

record tx_size_data =
  szTxFullSize :: rat
  szTxStrippedSize :: rat
  szWeight :: rat
  szVSize :: rat
  szTotalFee :: rat

definition calculateTxSize :: "utxo_coin \<Rightarrow> utxo_lib \<Rightarrow> rat \<Rightarrow> tx_builder \<Rightarrow> tx_size_data" where
  "calculateTxSize c lib feePerByte b =
     (let full = of_int (ulSerializeSize lib (tbTx b));
          stripped = of_int (if c = Bch then ulSerializeSize lib (tbTx b) else ulSerializeSizeStripped lib (tbTx b));
          weight = stripped * 3 + full;
          vsize = ulDecimalDiv lib weight 4
      in \<lparr>szTxFullSize = full, szTxStrippedSize = stripped, szWeight = weight, szVSize = vsize,
          szTotalFee = decCeil (vsize * feePerByte)\<rparr>)"

text \<open>\<open>MsgTx().TxOut[0].Value -= fee.IntPart()\<close>.\<close>

definition subFee :: "rat \<Rightarrow> tx_builder act" where
  "subFee fee b =
     (case mtTxOut (tbTx b) of
        [] \<Rightarrow> (Panic ''index out of range'', b)
      | o' # os \<Rightarrow> (Val (), b\<lparr>tbTx := (tbTx b)\<lparr>mtTxOut := o'\<lparr>toValue := toValue o' - intPart fee\<rparr> # os\<rparr>\<rparr>))"

text \<open>The two clones are signed one after the other; the builder itself does not change.\<close>

definition emulateTxSize :: "utxo_coin \<Rightarrow> utxo_lib \<Rightarrow> rat \<Rightarrow> (tx_builder, tx_size_data) op" where
  "emulateTxSize c lib feePerByte b =
     (fst (bnd (wrapErr ''sign cloned transaction 1'' (signTx c lib)) (\<lambda>_.
           bnd (getS (calculateTxSize c lib feePerByte)) (\<lambda>d.
           bnd (modS (\<lambda>_. newTransactionFromBuilder b)) (\<lambda>_.
           bnd (subFee (szTotalFee d)) (\<lambda>_.
           bnd (wrapErr ''sign cloned transaction 2'' (signTx c lib)) (\<lambda>_.
           getS (calculateTxSize c lib feePerByte))))))
         (newTransactionFromBuilder b)), b)"

end
