(* ===== verification/TxBuilderFacts.thy ===== *)
theory TxBuilderFacts
  imports TxBuilder
begin

text \<open>
  The library about the transaction builder: signing changes nothing but scripts, an input is
  recorded once, outputs carry the truncated amounts, and the emulated fee.
\<close>

section \<open>What the operations leave alone\<close>

text \<open>Everything of a builder but the scripts of its inputs.\<close>

definition skeleton :: "tx_builder \<Rightarrow> ((string \<times> 32 word) \<times> 32 word) list \<times> tx_out list \<times> tx_input list \<times> (string \<times> rat) list" where
  "skeleton b = (map (\<lambda>i. (outPoint i, tiSequence i)) (mtTxIn (tbTx b)), mtTxOut (tbTx b), tbInputs b, tbOutputs b)"

lemma keeps_updTxIn:
  "(\<And>i. outPoint (f i) = outPoint i \<and> tiSequence (f i) = tiSequence i) \<Longrightarrow> keeps skeleton (updTxIn k f)"
  by (rule keepsI) (simp add: updTxIn_def skeleton_def map_update_same)

lemma keeps_skeleton_sig [keeps_intros]:
  "keeps skeleton (updTxIn k (\<lambda>t. t\<lparr>tiSignatureScript := x\<rparr>))"
  "keeps skeleton (updTxIn k (\<lambda>t. t\<lparr>tiWitness := y\<rparr>))"
  by (rule keeps_updTxIn; simp add: outPoint_def)+

lemma keeps_whenS [keeps_intros]: "keeps v m \<Longrightarrow> keeps v (whenS c m)"
  by (simp add: whenS_def keeps_intros)

lemma keeps_signTxIn: "keeps skeleton (signTxIn c lib prevs i inp)"
proof (cases "c = Bch")
  case True
  then show ?thesis unfolding signTxIn_def signTxInBch_def if_P [OF True] by (intro keeps_intros)
next
  case False
  then show ?thesis unfolding signTxIn_def signTxInScript_def if_not_P [OF False] by (intro keeps_intros)
qed

lemma keeps_signTx [keeps_intros]: "keeps skeleton (signTx c lib)"
  unfolding signTx_def
  by (intro keeps_intros keeps_forEach) (auto intro: keeps_intros keeps_signTxIn)

section \<open>Inputs\<close>

text \<open>
  A sound builder: no output is spent twice, and the inputs of the transaction are the recorded
  inputs with their hashes parsed, one by one.
\<close>

definition pointOf :: "utxo_lib \<Rightarrow> tx_input \<Rightarrow> goerr + (string \<times> 32 word)" where
  "pointOf lib inp = map_sum id (\<lambda>h. (h, inSequence inp)) (ulHashFromStr lib (inHash inp))"

definition sound :: "utxo_lib \<Rightarrow> tx_builder \<Rightarrow> bool" where
  "sound lib b \<longleftrightarrow> distinct (map outPoint (mtTxIn (tbTx b))) \<and>
     map (pointOf lib) (tbInputs b) = map (Inr \<circ> outPoint) (mtTxIn (tbTx b)) \<and>
     (\<forall>i\<in>set (mtTxIn (tbTx b)). tiSequence i = 0xfffffffd)"

lemma sound_new: "sound lib newTxBuilder"
  by (simp add: sound_def newTxBuilder_def)

lemma skeleton_fields:
  assumes "skeleton b' = skeleton b"
  shows "mtTxOut (tbTx b') = mtTxOut (tbTx b)" "tbInputs b' = tbInputs b" "tbOutputs b' = tbOutputs b"
    "map outPoint (mtTxIn (tbTx b')) = map outPoint (mtTxIn (tbTx b))"
    "map tiSequence (mtTxIn (tbTx b')) = map tiSequence (mtTxIn (tbTx b))"
proof -
  from assms have eq: "map (\<lambda>i. (outPoint i, tiSequence i)) (mtTxIn (tbTx b')) =
      map (\<lambda>i. (outPoint i, tiSequence i)) (mtTxIn (tbTx b))"
    and "mtTxOut (tbTx b') = mtTxOut (tbTx b)" "tbInputs b' = tbInputs b" "tbOutputs b' = tbOutputs b"
    by (simp_all add: skeleton_def)
  then show "mtTxOut (tbTx b') = mtTxOut (tbTx b)" "tbInputs b' = tbInputs b" "tbOutputs b' = tbOutputs b"
    by auto
  from arg_cong [OF eq, of "map fst"] arg_cong [OF eq, of "map snd"]
  show "map outPoint (mtTxIn (tbTx b')) = map outPoint (mtTxIn (tbTx b))"
    "map tiSequence (mtTxIn (tbTx b')) = map tiSequence (mtTxIn (tbTx b))" by (simp_all add: o_def)
qed

lemma sound_skeleton:
  assumes "skeleton b' = skeleton b"
  shows "sound lib b' \<longleftrightarrow> sound lib b"
proof -
  note f = skeleton_fields [OF assms]
  have "map (Inr \<circ> outPoint) (mtTxIn (tbTx b')) = (map (Inr \<circ> outPoint) (mtTxIn (tbTx b)) :: (goerr + _) list)"
    using arg_cong [OF f(4), of "map Inr"] by simp
  moreover have all: "(\<forall>i\<in>set xs. tiSequence i = q) \<longleftrightarrow> set (map tiSequence xs) \<subseteq> {q}" for xs q by auto
  have "(\<forall>i\<in>set (mtTxIn (tbTx b')). tiSequence i = 0xfffffffd) = (\<forall>i\<in>set (mtTxIn (tbTx b)). tiSequence i = 0xfffffffd)"
    unfolding all f(5) ..
  ultimately show ?thesis by (simp add: sound_def f)
qed

lemma addInput_ok:
  assumes "addInput c lib inp b = (Val u, b')" and "sound lib b"
  shows "sound lib b' \<and> tbInputs b' = tbInputs b @ [inp] \<and> mtTxOut (tbTx b') = mtTxOut (tbTx b) \<and> tbOutputs b' = tbOutputs b"
proof -
  obtain h where h: "ulHashFromStr lib (inHash inp) = Inr h"
    using assms(1) by (cases "ulHashFromStr lib (inHash inp)") (auto simp: addInput_def op_defs ofSum_def)
  with assms have new: "(h, inSequence inp) \<notin> outPoint ` set (mtTxIn (tbTx b))"
    by (auto simp: addInput_def op_defs ofSum_def split: if_split_asm)
  with assms h show ?thesis
    by (auto simp: addInput_def op_defs ofSum_def sound_def pointOf_def outPoint_def split: if_splits)
qed

text \<open>An output that is spent already is refused.\<close>

lemma addInput_refused:
  assumes "ulHashFromStr lib (inHash inp) = Inr h" and "(h, inSequence inp) \<in> outPoint ` set (mtTxIn (tbTx b))"
  shows "fst (addInput c lib inp b) = Err errInputAlreadyUsed \<and> tbTx (snd (addInput c lib inp b)) = tbTx b"
  using assms by (auto simp: addInput_def op_defs ofSum_def)

section \<open>Outputs\<close>

lemma addOutput_ok:
  assumes "addOutput c lib a amount b = (Val u, b')"
  shows "\<exists>a' pk. mtTxOut (tbTx b') = mtTxOut (tbTx b) @ [\<lparr>toValue = intPart amount, toPkScript = pk\<rparr>] \<and>
    tbOutputs b' = tbOutputs b @ [(a', amount)] \<and> a \<notin> fst ` set (tbOutputs b) \<and>
    mtTxIn (tbTx b') = mtTxIn (tbTx b) \<and> tbInputs b' = tbInputs b"
  using assms by (auto simp: addOutput_def Let_def op_defs ofSum_def split: if_split_asm sum.split_asm)

lemma sound_cong: "mtTxIn (tbTx b') = mtTxIn (tbTx b) \<Longrightarrow> tbInputs b' = tbInputs b \<Longrightarrow> sound lib b' \<longleftrightarrow> sound lib b"
  by (simp add: sound_def)

lemma subFee_ok:
  assumes "subFee fee b = (Val u, b')"
  shows "\<exists>o' os. mtTxOut (tbTx b) = o' # os \<and> mtTxOut (tbTx b') = o'\<lparr>toValue := toValue o' - intPart fee\<rparr> # os \<and>
    mtTxIn (tbTx b') = mtTxIn (tbTx b) \<and> tbInputs b' = tbInputs b \<and> tbOutputs b' = tbOutputs b"
  using assms by (auto simp: subFee_def split: list.split_asm)

lemma emulateTxSize_state: "snd (emulateTxSize c lib fee b) = b"
  by (simp add: emulateTxSize_def)

lemma skeleton_new [simp]: "skeleton (newTransactionFromBuilder b) = skeleton b"
  by (simp add: skeleton_def newTransactionFromBuilder_def)

text \<open>
  The emulation signs a clone with the fee of a first estimate taken off its first output; the
  result is the size and fee of that clone.
\<close>

lemma emulateTxSize_ok:
  assumes "emulateTxSize c lib fee b = (Val d, b')"
  shows "b' = b \<and> (\<exists>b1 b2 b3 b4. skeleton b1 = skeleton b \<and> skeleton b2 = skeleton b \<and>
     subFee (szTotalFee (calculateTxSize c lib fee b1)) b2 = (Val (), b3) \<and>
     skeleton b4 = skeleton b3 \<and> d = calculateTxSize c lib fee b4)"
proof -
  from assms have b': "b' = b" and run: "fst (bnd (wrapErr ''sign cloned transaction 1'' (signTx c lib)) (\<lambda>_.
           bnd (getS (calculateTxSize c lib fee)) (\<lambda>d.
           bnd (modS (\<lambda>_. newTransactionFromBuilder b)) (\<lambda>_.
           bnd (subFee (szTotalFee d)) (\<lambda>_.
           bnd (wrapErr ''sign cloned transaction 2'' (signTx c lib)) (\<lambda>_.
           getS (calculateTxSize c lib fee))))))
         (newTransactionFromBuilder b)) = Val d"
    unfolding emulateTxSize_def by blast+
  from run obtain b5 where "bnd (wrapErr ''sign cloned transaction 1'' (signTx c lib)) (\<lambda>_.
           bnd (getS (calculateTxSize c lib fee)) (\<lambda>d.
           bnd (modS (\<lambda>_. newTransactionFromBuilder b)) (\<lambda>_.
           bnd (subFee (szTotalFee d)) (\<lambda>_.
           bnd (wrapErr ''sign cloned transaction 2'' (signTx c lib)) (\<lambda>_.
           getS (calculateTxSize c lib fee))))))
         (newTransactionFromBuilder b) = (Val d, b5)" by (metis prod.collapse)
  then obtain b1 b3 b4 where
    s1: "signTx c lib (newTransactionFromBuilder b) = (Val (), b1)"
    and sf: "subFee (szTotalFee (calculateTxSize c lib fee b1)) (newTransactionFromBuilder b) = (Val (), b3)"
    and s2: "signTx c lib b3 = (Val (), b4)" and d: "d = calculateTxSize c lib fee b4"
    by (auto simp: bnd_Val wrapErr_Val getS_def modS_def)
  have "skeleton b1 = skeleton b" using keepsD [OF keeps_signTx s1] by simp
  moreover have "skeleton b4 = skeleton b3" by (rule keepsD [OF keeps_signTx s2])
  ultimately show ?thesis using b' sf d by (metis skeleton_new)
qed

end
