(* ===== verification/FsmUtxo.thy ===== *)
theory FsmUtxo
  imports Fsm TxBuilderFacts
begin

text \<open>
  \<open>internal/fsm/fsmbtc\<close>, \<open>fsmltc\<close>, \<open>fsmdoge\<close> and \<open>fsmbch\<close>: the machines that move the unspent
  outputs of addresses to one address. The four packages are copies of one another with the coin's
  names; the definitions take the coin and branch where the sources differ, and the last section
  names the functions of the three other packages.
\<close>

section \<open>The coin\<close>

fun coinBlockchain :: "utxo_coin \<Rightarrow> blockchain_type" where
  "coinBlockchain Btc = BlockchainTypeBitcoin"
| "coinBlockchain Ltc = BlockchainTypeLitecoin"
| "coinBlockchain Doge = BlockchainTypeDogecoin"
| "coinBlockchain Bch = BlockchainTypeBitcoinCash"

fun coinText :: "utxo_coin \<Rightarrow> string" where
  "coinText Btc = ''bitcoin''"
| "coinText Ltc = ''litecoin''"
| "coinText Doge = ''dogecoin''"
| "coinText Bch = ''bitcoin cash''"

fun coinFsmName :: "utxo_coin \<Rightarrow> string" where
  "coinFsmName Btc = ''BTC FSM''"
| "coinFsmName Ltc = ''LTC FSM''"
| "coinFsmName Doge = ''DOGECOIN FSM''"
| "coinFsmName Bch = ''BCH FSM''"

definition assetDecimals :: rat where "assetDecimals = 100000000"

definition stageBeforeSending :: string where "stageBeforeSending = ''before_sending''"
definition stageSending :: string where "stageSending = ''sending''"
definition stageAfterSending :: string where "stageAfterSending = ''after_sending''"

definition stepValidateRequest :: string where "stepValidateRequest = ''validate_request''"
definition stepSending :: string where "stepSending = ''sending''"
definition stepWaitingInMempool :: string where "stepWaitingInMempool = ''waiting_in_mempool''"
definition stepWaitingForTheFirstConfirmation :: string where
  "stepWaitingForTheFirstConfirmation = ''waiting_for_the_first_confirmation''"
definition stepWaitingConfirmations :: string where "stepWaitingConfirmations = ''waiting_confirmations''"
definition stepSendSuccessEvent :: string where "stepSendSuccessEvent = ''send_success_event''"

lemmas utxo_names = stageBeforeSending_def stageSending_def stageAfterSending_def stepValidateRequest_def
  stepSending_def stepWaitingInMempool_def stepWaitingForTheFirstConfirmation_def
  stepWaitingConfirmations_def stepSendSuccessEvent_def

text \<open>
  The coin's part of the configuration, the environment, the node library, the wallet SDK and the
  node. \<open>upSend\<close> is \<open>SendRawTransaction\<close> with the error it delivers, \<open>upTimeout\<close> the context's
  error when the five minutes of the \<open>select\<close> are over before that.
\<close>

record 'e utxo_params =
  upEnv :: "'e env"
  upLib :: utxo_lib
  upNetwork :: string
  upFeePerByte :: int
  upMinUTXOAmount :: int
  upSeedEncryption :: bool
  upUseCacheForWallets :: bool
  upDecodeAddressType :: "string \<Rightarrow> goerr + string"
  upGenerateAddress :: "string option \<Rightarrow> string \<Rightarrow> string \<Rightarrow> 32 word \<Rightarrow> goerr + string"
  upSend :: "msg_tx \<Rightarrow> 'e \<Rightarrow> goerr option \<times> 'e"
  upTimeout :: "'e \<Rightarrow> goerr option \<times> 'e"

text \<open>
  The state of the machine, with the transactions handed to the node so far. The code does not
  read that list; it records the calls of \<open>SendRawTransaction\<close> so that theorems can speak of them.
\<close>

record 'e utxo_fsm = "'e fsm" +
  ufSent :: "msg_tx list"

definition feePerByte0 :: "'e utxo_params \<Rightarrow> rat" where
  "feePerByte0 p = (if upFeePerByte p > 0 then of_int (upFeePerByte p) else 0)"

definition minUTXOAmount :: "'e utxo_params \<Rightarrow> rat" where
  "minUTXOAmount p = (if upMinUTXOAmount p > 0 then of_int (upMinUTXOAmount p) else 0)"

section \<open>Events and statuses\<close>

definition setTransferStatus :: "utxo_coin \<Rightarrow> 'e utxo_params \<Rightarrow> transfer_status \<Rightarrow> ('e utxo_fsm) act" where
  "setTransferStatus c p status =
     bnd (if c = Bch then ret '''' else currentStepName) (\<lambda>stepName.
     bnd theTransfer (\<lambda>t.
     bnd (wrapErr ''get event transfer status create params''
            (liftW (eventTransferStatusCreateParams (upEnv p)
               \<lparr>evIsSystem = False, evTransferID = trID t, evOwnerID = trOwnerID t, evStatus = status,
                evStep = stepName, evErrorMessage = ''''\<rparr>))) (\<lambda>params.
     bnd (wrapErr ''create failed event'' (liftW (webhooksBatchCreate (upEnv p) False [params]))) (\<lambda>_.
     wrapErr (''set transfer status '' @ transferStatusString status)
       (liftW (transfersSetStatus (upEnv p) False (trID t) status))))))"

text \<open>
  The failure handler's work. The parameter \<open>err\<close> is overwritten by \<open>params, err :=\<close> before
  \<open>SetError(err)\<close>, which therefore receives nil.
\<close>

definition sendFailureEvent :: "utxo_coin \<Rightarrow> 'e utxo_params \<Rightarrow> goerr \<Rightarrow> ('e utxo_fsm) act" where
  "sendFailureEvent c p err =
     bnd (if c = Btc then currentStepName else ret '''') (\<lambda>stepName.
     bnd theTransfer (\<lambda>t.
     bnd (wrapErr ''get event transfer status create params''
            (liftW (eventTransferStatusCreateParams (upEnv p)
               \<lparr>evIsSystem = False, evTransferID = trID t, evOwnerID = trOwnerID t,
                evStatus = TransferStatusFailed, evStep = stepName, evErrorMessage = errStr err\<rparr>))) (\<lambda>params.
     bnd (modS (\<lambda>s. s\<lparr>wState := setWfError None ((wState s)\<lparr>IsFailed := True\<rparr>), wSkipError := True\<rparr>)) (\<lambda>_.
     bnd getSnapshot (\<lambda>sh.
     bnd (wrapErr ''set workflow snapshot''
            (liftW (transfersSetWorkflowSnapshot (upEnv p) False (trID t) sh))) (\<lambda>_.
     bnd (wrapErr ''create failed event'' (liftW (webhooksBatchCreate (upEnv p) False [params]))) (\<lambda>_.
     wrapErr (''set transfer status '' @ transferStatusString TransferStatusFailed)
       (liftW (transfersSetStatus (upEnv p) False (trID t) TransferStatusFailed)))))))))"

section \<open>Before sending\<close>

definition validateRequest :: "utxo_coin \<Rightarrow> 'e utxo_params \<Rightarrow> ('e utxo_fsm) act" where
  "validateRequest c p =
     bnd theTransfer (\<lambda>t.
     bnd (guardE (\<not> length (trFromAddresses t) < 1) (ErrText ''at least one from address is required'')) (\<lambda>_.
     bnd (guardE (length (trToAddresses t) = 1) (ErrText ''required one to address'')) (\<lambda>_.
     bnd (guardE (trWholeAmount t)
            (ErrText (''only whole amount is supported for '' @ coinText c @ '' transfers''))) (\<lambda>_.
     bnd (whenS (trWalletFromType t = WalletTypeHot)
       (bnd (wrapErr ''check wallet'' (liftW (checkWallet (upEnv p) (upUseCacheForWallets p)
               (coinBlockchain c) (getToAddress t)))) (\<lambda>r.
        bnd (guardE (cwWalletType r \<in> {WalletTypeCold, WalletTypeProcessing})
               (ErrText (''invalid wallet type '' @ walletTypeString (cwWalletType r)))) (\<lambda>_.
        guardE (cwOwnerID r = trOwnerID t) (ErrText (''invalid wallet owner '' @ cwOwnerID r)))))) (\<lambda>_.
     setTransferStatus c p TransferStatusProcessing)))))"

section \<open>Unspent outputs\<close>

record utxo =
  utTxHash :: string
  utSequence :: "32 word"
  utAmount :: rat
  utPkScript :: string

definition mapPut :: "'k \<Rightarrow> 'v \<Rightarrow> ('k \<times> 'v) list \<Rightarrow> ('k \<times> 'v) list" where
  "mapPut k v m = (k, v) # filter (\<lambda>kv. fst kv \<noteq> k) m"

text \<open>The loop that fills the Go map \<open>inputs\<close>, keyed by the transaction hash.\<close>

fun collectUTXOs :: "'e env \<Rightarrow> rat \<Rightarrow> utxo_item list \<Rightarrow> (string \<times> utxo) list \<Rightarrow> goerr + (string \<times> utxo) list" where
  "collectUTXOs env mn [] inputs = Inr inputs"
| "collectUTXOs env mn (item # items) inputs =
     (case envDecimalParse env (uiAmount item) of
        Inl e \<Rightarrow> Inl (Wrapf (''convert amount '' @ uiAmount item @ '': '') e)
      | Inr d \<Rightarrow>
          (let amount = d * assetDecimals in
           if (mn > 0 \<and> amount < mn) \<or> amount = 0 then collectUTXOs env mn items inputs
           else collectUTXOs env mn items
                  (mapPut (uiTxHash item)
                     \<lparr>utTxHash = uiTxHash item, utSequence = uiSequence item, utAmount = amount,
                      utPkScript = uiPkScript item\<rparr> inputs)))"

text \<open>The values of the map come in the order the runtime picks for its keys.\<close>

definition getAddressUTXO :: "utxo_coin \<Rightarrow> 'e utxo_params \<Rightarrow> string \<Rightarrow> ('e utxo_fsm, utxo list) op" where
  "getAddressUTXO c p fromAddress =
     bnd (wrapErr ''get utxo'' (liftE (envGetUTXO (upEnv p) (coinBlockchain c) fromAddress))) (\<lambda>items.
     bnd (ofSum (collectUTXOs (upEnv p) (minUTXOAmount p) items [])) (\<lambda>inputs.
     bnd (liftE (\<lambda>x. case envMapOrder (upEnv p) (map fst inputs) x of (ks, x') \<Rightarrow> (Val ks, x'))) (\<lambda>ks.
     ret (map (\<lambda>k. the (map_of inputs k)) ks))))"

text \<open>A call of a method of the builder \<open>b\<close>, with the builder it leaves behind.\<close>

definition runOn :: "tx_builder \<Rightarrow> (tx_builder, 'a) op \<Rightarrow> ('s, 'a \<times> tx_builder) op" where
  "runOn b m s =
     (case m b of
        (Val x, b') \<Rightarrow> (Val (x, b'), s)
      | (Err e, b') \<Rightarrow> (Err e, s)
      | (Panic q, b') \<Rightarrow> (Panic q, s))"

fun addInputs :: "utxo_coin \<Rightarrow> utxo_lib \<Rightarrow> string \<Rightarrow> int \<Rightarrow> utxo list \<Rightarrow> tx_builder \<Rightarrow> rat \<Rightarrow> ('s, tx_builder \<times> rat) op" where
  "addInputs c lib key sequence [] b tot = ret (b, tot)"
| "addInputs c lib key sequence (u # us) b tot =
     bnd (wrapErr (''add transaction input: hash '' @ utTxHash u @ '', sequence '' @ showInt sequence)
       (runOn b (addInput c lib \<lparr>inPrivateKey = key, inPkScript = utPkScript u, inHash = utTxHash u,
                                 inSequence = utSequence u, inAmount = intPart (utAmount u)\<rparr>)))
       (\<lambda>(_, b'). addInputs c lib key sequence us b' (tot + utAmount u))"

fun addressesLoop :: "utxo_coin \<Rightarrow> 'e utxo_params \<Rightarrow> owner \<Rightarrow> string \<Rightarrow> string list \<Rightarrow> tx_builder \<Rightarrow> rat \<Rightarrow>
    ('e utxo_fsm, tx_builder \<times> rat) op" where
  "addressesLoop c p own mnemonic [] b tot = ret (b, tot)"
| "addressesLoop c p own mnemonic (address # addresses) b tot =
     bnd (wrapErr ''prepare transfer'' (getAddressUTXO c p address)) (\<lambda>utxos.
     bnd theTransfer (\<lambda>t.
     bnd (wrapErr ''get sequence by wallet type''
            (liftW (getSequenceByWalletType (upEnv p) (trWalletFromType t) (trOwnerID t) (coinBlockchain c) address))) (\<lambda>sequence.
     bnd (if c = Btc \<or> c = Ltc
          then bnd (wrapErr ''decode address type'' (ofSum (upDecodeAddressType p address))) (\<lambda>ty. ret (Some ty))
          else ret None) (\<lambda>addrType.
     bnd (wrapErr (''get private key for address '' @ address)
            (ofSum (upGenerateAddress p addrType mnemonic (textString (owPassPhrase own)) (word_of_int sequence)))) (\<lambda>key.
     bnd (addInputs c (upLib p) key sequence utxos b tot) (\<lambda>(b', tot').
     addressesLoop c p own mnemonic addresses b' tot'))))))"

definition processAddressesUTXOs :: "utxo_coin \<Rightarrow> 'e utxo_params \<Rightarrow> owner \<Rightarrow> tx_builder \<Rightarrow> string list \<Rightarrow>
    ('e utxo_fsm, tx_builder \<times> rat) op" where
  "processAddressesUTXOs c p own b addresses =
     bnd (if upSeedEncryption p
          then wrapErr ''decrypt mnemonic'' (ofSum (envDecrypt (upEnv p) (owMnemonic own) (owID own)))
          else ret (owMnemonic own)) (\<lambda>mnemonic.
     addressesLoop c p own mnemonic addresses b 0)"

section \<open>Sending\<close>

text \<open>The fee per byte: the configured one, 5 on the test network, the requested one if it is positive.\<close>

definition chooseFee :: "'e utxo_params \<Rightarrow> transfer \<Rightarrow> rat" where
  "chooseFee p t =
     (let fee = (if upNetwork p = ''testnet'' then 5 else feePerByte0 p)
      in if trFee t \<noteq> None \<and> nullDecimal (trFee t) > 0 then nullDecimal (trFee t) else fee)"

text \<open>The transaction that is sent and the values that are stored with it.\<close>

record send_data =
  sdToAddress :: string
  sdSize :: tx_size_data
  sdFeePerByte :: rat
  sdTransferAmount :: rat
  sdAmountRemaining :: rat

text \<open>\<open>newTx.MsgTx().TxOut[0].Value\<close>.\<close>

definition firstValue :: "(tx_builder, 64 word) op" where
  "firstValue b =
     (case mtTxOut (tbTx b) of [] \<Rightarrow> (Panic ''index out of range'', b) | o' # _ \<Rightarrow> (Val (toValue o'), b))"

text \<open>
  The part of \<open>sendTransfer\<close> that works on the builder: from the total of the inputs to the check
  of the signed transaction's first output.
\<close>

definition buildTransfer :: "utxo_coin \<Rightarrow> 'e utxo_params \<Rightarrow> transfer \<Rightarrow> rat \<Rightarrow> (tx_builder, send_data) op" where
  "buildTransfer c p t totalUTXO =
     (let ds = envDecimalString (upEnv p);
          feePerByte = chooseFee p t;
          toAddress = getToAddress t;
          transferAmount = (if trWholeAmount t then totalUTXO else nullDecimal (trAmount t) * assetDecimals);
          amountRemaining = (if trWholeAmount t then 0 else totalUTXO - transferAmount) in
     bnd (guardE (totalUTXO > 0)
            (ErrText (''total utxo amount is less than or equal to zero: '' @ ds totalUTXO))) (\<lambda>_.
     bnd (guardE (transferAmount > 0)
            (ErrText (''transferAmount is not positive '' @ ds (envDecimalDiv (upEnv p) transferAmount assetDecimals)))) (\<lambda>_.
     bnd (guardE (\<not> amountRemaining < 0) (ErrText (''amount remaining is negative: '' @ ds amountRemaining))) (\<lambda>_.
     bnd (wrapErr (''add transaction output for address '' @ toAddress)
            (addOutput c (upLib p) toAddress transferAmount)) (\<lambda>_.
     bnd (whenS (amountRemaining > 0)
            (wrapErr (''add transaction output for address '' @ hd (trFromAddresses t))
               (addOutput c (upLib p) (hd (trFromAddresses t)) amountRemaining))) (\<lambda>_.
     bnd (wrapErr ''emulate transaction size'' (emulateTxSize c (upLib p) feePerByte)) (\<lambda>size'.
     bnd (subFee (szTotalFee size')) (\<lambda>_.
     bnd (wrapErr ''sign transaction'' (signTx c (upLib p))) (\<lambda>_.
     bnd firstValue (\<lambda>v.
     bnd (guardE (\<not> sint v < 0) (ErrText (''result value is less than zero: '' @ showInt (sint v)))) (\<lambda>_.
     ret \<lparr>sdToAddress = toAddress, sdSize = size', sdFeePerByte = feePerByte,
          sdTransferAmount = transferAmount, sdAmountRemaining = amountRemaining\<rparr>)))))))))))"

text \<open>The part of \<open>sendTransfer\<close> before the hash is stored.\<close>

definition prepareTransfer :: "utxo_coin \<Rightarrow> 'e utxo_params \<Rightarrow> ('e utxo_fsm, send_data \<times> tx_builder) op" where
  "prepareTransfer c p =
     (let ds = envDecimalString (upEnv p) in
     bnd theTransfer (\<lambda>t.
     bnd (guardE (\<not> length (trFromAddresses t) < 1) (ErrText ''at least one from address is required'')) (\<lambda>_.
     bnd (guardE (length (trToAddresses t) = 1) (ErrText ''required one to address'')) (\<lambda>_.
     bnd (guardE (\<not> (trFeeMax t \<noteq> None \<and> nullDecimal (trFeeMax t) > 0 \<and> chooseFee p t > nullDecimal (trFeeMax t)))
            (ErrText (''fee per byte '' @ ds (chooseFee p t) @ '' is greater than max fee '' @ ds (nullDecimal (trFeeMax t))))) (\<lambda>_.
     bnd (wrapErr ''get owner'' (liftW (ownersGetByID (upEnv p) (trOwnerID t)))) (\<lambda>own.
     bnd (wrapErr ''get addresses utxo''
            (processAddressesUTXOs c p own newTxBuilder (trFromAddresses t))) (\<lambda>(b, totalUTXO).
     runOn b (buildTransfer c p t totalUTXO))))))))"

definition sendStateData :: "'e utxo_params \<Rightarrow> transfer \<Rightarrow> send_data \<Rightarrow> 64 word \<Rightarrow> (string \<rightharpoonup> any_val)" where
  "sendStateData p t d v =
     (let ds = (\<lambda>x. VStr (envDecimalString (upEnv p) x)) in
      [''from'' \<mapsto> VList (map VStr (trFromAddresses t)),
       ''to'' \<mapsto> VStr (sdToAddress d),
       ''tx_full_size'' \<mapsto> ds (szTxFullSize (sdSize d)),
       ''tx_stripped_size'' \<mapsto> ds (szTxStrippedSize (sdSize d)),
       ''weight'' \<mapsto> ds (szWeight (sdSize d)),
       ''v_size'' \<mapsto> ds (szVSize (sdSize d)),
       ''total_fee'' \<mapsto> ds (szTotalFee (sdSize d)),
       ''fee_per_byte'' \<mapsto> ds (sdFeePerByte d),
       ''min_utxo_amount'' \<mapsto> ds (minUTXOAmount p),
       ''transfer_amount'' \<mapsto> ds (sdTransferAmount d),
       ''amount_remaining'' \<mapsto> ds (sdAmountRemaining d),
       ''result_value'' \<mapsto> VInt (sint v),
       ''whole_amount'' \<mapsto> VBool (trWholeAmount t),
       ''requested_amount'' \<mapsto> ds (nullDecimal (trAmount t) * assetDecimals),
       ''requested_fee'' \<mapsto> ds (nullDecimal (trFee t)),
       ''requested_fee_max'' \<mapsto> ds (nullDecimal (trFeeMax t))])"

text \<open>
  \<open>SendRawTransaction\<close>. All coins but \<open>bch\<close> call it in a goroutine and give up after five minutes;
  the call has been made then, whatever becomes of it.
\<close>

definition broadcast :: "utxo_coin \<Rightarrow> 'e utxo_params \<Rightarrow> msg_tx \<Rightarrow> ('e utxo_fsm) act" where
  "broadcast c p tx =
     bnd (modS (\<lambda>s. s\<lparr>ufSent := ufSent s @ [tx]\<rparr>)) (\<lambda>_.
     bnd (liftE (\<lambda>x. case upSend p tx x of (r, x') \<Rightarrow> (Val r, x'))) (\<lambda>res.
     bnd (if c = Bch then ret None else liftE (\<lambda>x. case upTimeout p x of (r, x') \<Rightarrow> (Val r, x'))) (\<lambda>timeout.
     case timeout of
       Some e \<Rightarrow> fail (Wrapf ''send transaction timeout: '' e)
     | None \<Rightarrow>
         (case res of
            Some e \<Rightarrow> fail (Wrapf (''failed to send transaction ['' @ ulTxHash (upLib p) tx @ '']: '') e)
          | None \<Rightarrow> ret ()))))"

definition sendTransfer :: "utxo_coin \<Rightarrow> 'e utxo_params \<Rightarrow> ('e utxo_fsm) act" where
  "sendTransfer c p =
     bnd (prepareTransfer c p) (\<lambda>(d, b).
     bnd theTransfer (\<lambda>t0.
     bnd (liftW (transfersSetTxHash (upEnv p) False (trID t0) (ulTxHash (upLib p) (tbTx b)))) (\<lambda>(t', err).
     bnd (modS (\<lambda>s. s\<lparr>fsTransfer := t'\<rparr>)) (\<lambda>_.
     bnd (case err of Some e \<Rightarrow> fail (Wrapf ''set tx hash: '' e) | None \<Rightarrow> ret ()) (\<lambda>_.
     bnd theTransfer (\<lambda>t.
     bnd (runOn b firstValue) (\<lambda>(v, _).
     bnd (wrapErr ''set state data''
            (liftW (transfersSetStateData (upEnv p) False (trID t) (sendStateData p t d v)))) (\<lambda>_.
     broadcast c p (tbTx b)))))))))"

section \<open>After sending\<close>

definition waitingInMempool :: "utxo_coin \<Rightarrow> 'e utxo_params \<Rightarrow> ('e utxo_fsm) act" where
  "waitingInMempool c p =
     bnd theTransfer (\<lambda>t.
     bnd (liftE (envFindTransactions (upEnv p) (coinBlockchain c) (textString (trTxHash t)))) (\<lambda>txs.
     bnd (guardE (txs \<noteq> []) (noConsoleError (jobSnooze (upEnv p) (second * 3)))) (\<lambda>_.
     setTransferStatus c p TransferStatusInMempool)))"

definition waitingForTheFirstConfirmation :: "utxo_coin \<Rightarrow> 'e utxo_params \<Rightarrow> ('e utxo_fsm) act" where
  "waitingForTheFirstConfirmation c p =
     bnd theTransfer (\<lambda>t.
     bnd (catchErr (liftE (envGetTransactionInfo (upEnv p) (coinBlockchain c) (textString (trTxHash t))))
            (\<lambda>e. if strContains (errStr e) ''data not found''
                  then fail (noConsoleError (jobSnooze (upEnv p) (second * 5)))
                  else fail (Wrapf ''find transaction: '' e))) (\<lambda>tx.
     bnd (guardE (etxConfirmations tx \<noteq> 0)
            (noConsoleError (jobSnooze (upEnv p)
               (confirmationsTimeout (coinBlockchain c) (getMinConfirmations (coinBlockchain c) - 1))))) (\<lambda>_.
     setTransferStatus c p TransferStatusUnconfirmed)))"

definition waitingConfirmations :: "utxo_coin \<Rightarrow> 'e utxo_params \<Rightarrow> ('e utxo_fsm) act" where
  "waitingConfirmations c p =
     bnd theTransfer (\<lambda>t.
     bnd (wrapErr ''find transaction''
            (liftE (envGetTransactionInfo (upEnv p) (coinBlockchain c) (textString (trTxHash t))))) (\<lambda>tx.
     guardE (\<not> etxConfirmations tx < getMinConfirmations (coinBlockchain c))
       (noConsoleError (jobSnooze (upEnv p) (confirmationsTimeout (coinBlockchain c) (etxConfirmations tx))))))"

definition sendSuccessEvent :: "utxo_coin \<Rightarrow> 'e utxo_params \<Rightarrow> ('e utxo_fsm) act" where
  "sendSuccessEvent c p = setTransferStatus c p TransferStatusCompleted"

section \<open>The machine\<close>

definition utxoStages :: "stage list" where
  "utxoStages =
     [\<lparr>sgName = stageBeforeSending, sgSteps = [newStep stepValidateRequest]\<rparr>,
      \<lparr>sgName = stageSending, sgSteps = [newStep stepSending]\<rparr>,
      \<lparr>sgName = stageAfterSending, sgSteps =
         [newStep stepWaitingInMempool, newStep stepWaitingForTheFirstConfirmation,
          newStep stepWaitingConfirmations, newStep stepSendSuccessEvent]\<rparr>]"

definition utxoFuncs :: "utxo_coin \<Rightarrow> 'e utxo_params \<Rightarrow> ('e utxo_fsm) act list list" where
  "utxoFuncs c p =
     [[validateRequest c p],
      [sendTransfer c p],
      [waitingInMempool c p, waitingForTheFirstConfirmation c p, waitingConfirmations c p, sendSuccessEvent c p]]"

definition onFailure :: "utxo_coin \<Rightarrow> 'e utxo_params \<Rightarrow> goerr \<Rightarrow> ('e utxo_fsm) act" where
  "onFailure c p err =
     bnd currentStage (\<lambda>sg.
     case sg of
       None \<Rightarrow> ret ()
     | Some sg \<Rightarrow> if sgName sg \<noteq> stageAfterSending then sendFailureEvent c p err else ret ())"

definition utxoHooks :: "utxo_coin \<Rightarrow> 'e utxo_params \<Rightarrow> ('e utxo_fsm) hooks" where
  "utxoHooks c p =
     \<lparr>hBefore = None, hAfter = Some (saveSnapshot (upEnv p)), hOnFailure = Some (onFailure c p),
      hBeforeAll = Some (\<lambda>_ _. saveSnapshot (upEnv p)), hAfterAll = Some (\<lambda>_ _. saveSnapshot (upEnv p)),
      hStageBefore = (\<lambda>_. None), hStageAfter = (\<lambda>_. None),
      hFunc = (\<lambda>i j. if i < length (utxoFuncs c p) \<and> j < length (utxoFuncs c p ! i)
                      then Some (utxoFuncs c p ! i ! j) else None),
      hStepBefore = (\<lambda>_ _. None), hStepAfter = (\<lambda>_ _. None),
      hStopped = (\<lambda>s. envStopped (upEnv p) (wdExt (fsWorld s))),
      hCtxErr = (\<lambda>s. case envCtx (upEnv p) (wdExt (fsWorld s)) of
                        Some e \<Rightarrow> e | None \<Rightarrow> ErrCtx ''context canceled''),
      hNow = (\<lambda>s. envNow (upEnv p) (wdExt (fsWorld s))),
      hSleep = (\<lambda>d s. s\<lparr>fsWorld := (fsWorld s)\<lparr>wdExt := envSleep (upEnv p) d (wdExt (fsWorld s))\<rparr>\<rparr>)\<rparr>"

text \<open>\<open>NewFSM\<close>: the stages, then the snapshot of the transfer.\<close>

definition newFSM :: "utxo_coin \<Rightarrow> transfer \<Rightarrow> 'e world \<Rightarrow> 'e utxo_fsm" where
  "newFSM c t w =
     setSnapshot (trSnapshot t)
       \<lparr>wName = coinFsmName c, wState = newWorkflowState, wStages = utxoStages, wPrevStep = None,
        wSkipError = False, fsTransfer = Some t, fsWorld = w, ufSent = []\<rparr>"

definition runFSM :: "utxo_coin \<Rightarrow> 'e utxo_params \<Rightarrow> ('e utxo_fsm) run_end \<Rightarrow> transfer \<Rightarrow> 'e world \<Rightarrow>
    (unit outcome \<times> 'e utxo_fsm) option" where
  "runFSM c p sched t w = runWorkflow (utxoHooks c p) sched (newFSM c t w)"

section \<open>What the machine's functions leave alone\<close>

lemma keeps_frame_ext:
  "(\<And>s. frame (f s) = frame s) \<Longrightarrow> keeps frame (modS f)"
  by (rule keeps_modS)

lemma frame_ufSent [simp]: "frame (s\<lparr>ufSent := x\<rparr>) = frame s"
  by (rule frame_cong) simp

lemma keeps_runOn [keeps_intros]: "keeps v (runOn b m)"
  by (rule keepsI) (simp add: runOn_def split: prod.splits outcome.splits)

lemma keeps_addInputs [keeps_intros]: "keeps v (addInputs c lib k sq us b tot)"
  by (induction us arbitrary: b tot) (auto intro!: keeps_intros)

text \<open>Views that no service call changes.\<close>

lemma keeps_addressesLoop:
  assumes "\<And>s x. v (s\<lparr>fsWorld := x\<rparr>) = v s"
  shows "keeps v (addressesLoop c p own m as b tot)"
  by (induction as arbitrary: b tot)
    (auto simp: getAddressUTXO_def intro!: keeps_intros keeps_liftW keeps_liftE assms)

lemma keeps_prepareTransfer:
  assumes "\<And>s x. v (s\<lparr>fsWorld := x\<rparr>) = v s"
  shows "keeps v (prepareTransfer c p)"
  unfolding prepareTransfer_def Let_def processAddressesUTXOs_def
  by (intro keeps_intros keeps_liftW keeps_addressesLoop assms)

lemma keeps_setTransferStatus:
  assumes "\<And>s x. v (s\<lparr>fsWorld := x\<rparr>) = v s"
  shows "keeps v (setTransferStatus c p st)"
  unfolding setTransferStatus_def by (intro keeps_intros keeps_liftW assms)

lemmas utxo_step_defs = validateRequest_def waitingInMempool_def waitingForTheFirstConfirmation_def
  waitingConfirmations_def sendSuccessEvent_def

lemma keeps_steps:
  assumes "\<And>s x. v (s\<lparr>fsWorld := x\<rparr>) = v s"
  shows "keeps v (validateRequest c p)" "keeps v (waitingInMempool c p)"
    "keeps v (waitingForTheFirstConfirmation c p)" "keeps v (waitingConfirmations c p)"
    "keeps v (sendSuccessEvent c p)" "keeps v (saveSnapshot env)"
  unfolding utxo_step_defs saveSnapshot_def
  by (intro keeps_intros keeps_liftW keeps_liftE keeps_setTransferStatus assms; auto intro!: keeps_intros)+

lemma keeps_frame_sendTransfer: "keeps frame (sendTransfer c p)"
  unfolding sendTransfer_def broadcast_def
  by (intro keeps_intros keeps_prepareTransfer keeps_modS) (auto intro!: keeps_intros split: option.splits)

lemma utxoFuncs_frame:
  "hFunc (utxoHooks c p) i j = Some f \<Longrightarrow> keeps frame f"
proof -
  assume "hFunc (utxoHooks c p) i j = Some f"
  then have "i < 3" "j < length (utxoFuncs c p ! i)" "f = utxoFuncs c p ! i ! j"
    by (auto simp: utxoHooks_def utxoFuncs_def split: if_splits)
  then show ?thesis
    using keeps_steps(1-5) [where v = frame and c = c and p = p] keeps_frame_sendTransfer [of c p]
    by (auto simp: utxoFuncs_def less_Suc_eq numeral_3_eq_3 nth_Cons')
qed

interpretation utxo: framed_hooks "utxoHooks c p" for c p
proof
  fix i j f
  show "hFunc (utxoHooks c p) i j = Some f \<Longrightarrow> keeps frame f" by (rule utxoFuncs_frame)
qed (auto simp: utxoHooks_def intro: keeps_intros)

section \<open>The functions of the litecoin, dogecoin and bitcoin cash packages\<close>

text \<open>
  \<open>fsmltc\<close>, \<open>fsmdoge\<close>, \<open>fsmbch\<close> and their transaction builders, function by function: the
  definitions above at the package's coin.
\<close>

definition ltc_addInput :: "utxo_lib \<Rightarrow> tx_input \<Rightarrow> tx_builder act" where "ltc_addInput = addInput Ltc"
definition ltc_addOutput :: "utxo_lib \<Rightarrow> string \<Rightarrow> rat \<Rightarrow> tx_builder act" where "ltc_addOutput = addOutput Ltc"
definition ltc_signTxIn :: "utxo_lib \<Rightarrow> prev_outs \<Rightarrow> nat \<Rightarrow> tx_input \<Rightarrow> tx_builder act" where "ltc_signTxIn = signTxIn Ltc"
definition ltc_signTx :: "utxo_lib \<Rightarrow> tx_builder act" where "ltc_signTx = signTx Ltc"
definition ltc_calculateTxSize :: "utxo_lib \<Rightarrow> rat \<Rightarrow> tx_builder \<Rightarrow> tx_size_data" where "ltc_calculateTxSize = calculateTxSize Ltc"
definition ltc_emulateTxSize :: "utxo_lib \<Rightarrow> rat \<Rightarrow> (tx_builder, tx_size_data) op" where "ltc_emulateTxSize = emulateTxSize Ltc"
definition ltc_setTransferStatus :: "'e utxo_params \<Rightarrow> transfer_status \<Rightarrow> ('e utxo_fsm) act" where "ltc_setTransferStatus = setTransferStatus Ltc"
definition ltc_sendFailureEvent :: "'e utxo_params \<Rightarrow> goerr \<Rightarrow> ('e utxo_fsm) act" where "ltc_sendFailureEvent = sendFailureEvent Ltc"
definition ltc_validateRequest :: "'e utxo_params \<Rightarrow> ('e utxo_fsm) act" where "ltc_validateRequest = validateRequest Ltc"
definition ltc_getAddressUTXO :: "'e utxo_params \<Rightarrow> string \<Rightarrow> ('e utxo_fsm, utxo list) op" where "ltc_getAddressUTXO = getAddressUTXO Ltc"
definition ltc_processAddressesUTXOs :: "'e utxo_params \<Rightarrow> owner \<Rightarrow> tx_builder \<Rightarrow> string list \<Rightarrow> ('e utxo_fsm, tx_builder \<times> rat) op" where "ltc_processAddressesUTXOs = processAddressesUTXOs Ltc"
definition ltc_prepareTransfer :: "'e utxo_params \<Rightarrow> ('e utxo_fsm, send_data \<times> tx_builder) op" where "ltc_prepareTransfer = prepareTransfer Ltc"
definition ltc_sendTransfer :: "'e utxo_params \<Rightarrow> ('e utxo_fsm) act" where "ltc_sendTransfer = sendTransfer Ltc"
definition ltc_waitingInMempool :: "'e utxo_params \<Rightarrow> ('e utxo_fsm) act" where "ltc_waitingInMempool = waitingInMempool Ltc"
definition ltc_waitingForTheFirstConfirmation :: "'e utxo_params \<Rightarrow> ('e utxo_fsm) act" where "ltc_waitingForTheFirstConfirmation = waitingForTheFirstConfirmation Ltc"
definition ltc_waitingConfirmations :: "'e utxo_params \<Rightarrow> ('e utxo_fsm) act" where "ltc_waitingConfirmations = waitingConfirmations Ltc"
definition ltc_sendSuccessEvent :: "'e utxo_params \<Rightarrow> ('e utxo_fsm) act" where "ltc_sendSuccessEvent = sendSuccessEvent Ltc"
definition ltc_onFailure :: "'e utxo_params \<Rightarrow> goerr \<Rightarrow> ('e utxo_fsm) act" where "ltc_onFailure = onFailure Ltc"
definition ltc_utxoHooks :: "'e utxo_params \<Rightarrow> ('e utxo_fsm) hooks" where "ltc_utxoHooks = utxoHooks Ltc"
definition ltc_newFSM :: "transfer \<Rightarrow> 'e world \<Rightarrow> 'e utxo_fsm" where "ltc_newFSM = newFSM Ltc"
definition ltc_runFSM :: "'e utxo_params \<Rightarrow> ('e utxo_fsm) run_end \<Rightarrow> transfer \<Rightarrow> 'e world \<Rightarrow> (unit outcome \<times> 'e utxo_fsm) option" where "ltc_runFSM = runFSM Ltc"

definition doge_addInput :: "utxo_lib \<Rightarrow> tx_input \<Rightarrow> tx_builder act" where "doge_addInput = addInput Doge"
definition doge_addOutput :: "utxo_lib \<Rightarrow> string \<Rightarrow> rat \<Rightarrow> tx_builder act" where "doge_addOutput = addOutput Doge"
definition doge_signTxIn :: "utxo_lib \<Rightarrow> prev_outs \<Rightarrow> nat \<Rightarrow> tx_input \<Rightarrow> tx_builder act" where "doge_signTxIn = signTxIn Doge"
definition doge_signTx :: "utxo_lib \<Rightarrow> tx_builder act" where "doge_signTx = signTx Doge"
definition doge_calculateTxSize :: "utxo_lib \<Rightarrow> rat \<Rightarrow> tx_builder \<Rightarrow> tx_size_data" where "doge_calculateTxSize = calculateTxSize Doge"
definition doge_emulateTxSize :: "utxo_lib \<Rightarrow> rat \<Rightarrow> (tx_builder, tx_size_data) op" where "doge_emulateTxSize = emulateTxSize Doge"
definition doge_setTransferStatus :: "'e utxo_params \<Rightarrow> transfer_status \<Rightarrow> ('e utxo_fsm) act" where "doge_setTransferStatus = setTransferStatus Doge"
definition doge_sendFailureEvent :: "'e utxo_params \<Rightarrow> goerr \<Rightarrow> ('e utxo_fsm) act" where "doge_sendFailureEvent = sendFailureEvent Doge"
definition doge_validateRequest :: "'e utxo_params \<Rightarrow> ('e utxo_fsm) act" where "doge_validateRequest = validateRequest Doge"
definition doge_getAddressUTXO :: "'e utxo_params \<Rightarrow> string \<Rightarrow> ('e utxo_fsm, utxo list) op" where "doge_getAddressUTXO = getAddressUTXO Doge"
definition doge_processAddressesUTXOs :: "'e utxo_params \<Rightarrow> owner \<Rightarrow> tx_builder \<Rightarrow> string list \<Rightarrow> ('e utxo_fsm, tx_builder \<times> rat) op" where "doge_processAddressesUTXOs = processAddressesUTXOs Doge"
definition doge_prepareTransfer :: "'e utxo_params \<Rightarrow> ('e utxo_fsm, send_data \<times> tx_builder) op" where "doge_prepareTransfer = prepareTransfer Doge"
definition doge_sendTransfer :: "'e utxo_params \<Rightarrow> ('e utxo_fsm) act" where "doge_sendTransfer = sendTransfer Doge"
definition doge_waitingInMempool :: "'e utxo_params \<Rightarrow> ('e utxo_fsm) act" where "doge_waitingInMempool = waitingInMempool Doge"
definition doge_waitingForTheFirstConfirmation :: "'e utxo_params \<Rightarrow> ('e utxo_fsm) act" where "doge_waitingForTheFirstConfirmation = waitingForTheFirstConfirmation Doge"
definition doge_waitingConfirmations :: "'e utxo_params \<Rightarrow> ('e utxo_fsm) act" where "doge_waitingConfirmations = waitingConfirmations Doge"
definition doge_sendSuccessEvent :: "'e utxo_params \<Rightarrow> ('e utxo_fsm) act" where "doge_sendSuccessEvent = sendSuccessEvent Doge"
definition doge_onFailure :: "'e utxo_params \<Rightarrow> goerr \<Rightarrow> ('e utxo_fsm) act" where "doge_onFailure = onFailure Doge"
definition doge_utxoHooks :: "'e utxo_params \<Rightarrow> ('e utxo_fsm) hooks" where "doge_utxoHooks = utxoHooks Doge"
definition doge_newFSM :: "transfer \<Rightarrow> 'e world \<Rightarrow> 'e utxo_fsm" where "doge_newFSM = newFSM Doge"
definition doge_runFSM :: "'e utxo_params \<Rightarrow> ('e utxo_fsm) run_end \<Rightarrow> transfer \<Rightarrow> 'e world \<Rightarrow> (unit outcome \<times> 'e utxo_fsm) option" where "doge_runFSM = runFSM Doge"

definition bch_addInput :: "utxo_lib \<Rightarrow> tx_input \<Rightarrow> tx_builder act" where "bch_addInput = addInput Bch"
definition bch_addOutput :: "utxo_lib \<Rightarrow> string \<Rightarrow> rat \<Rightarrow> tx_builder act" where "bch_addOutput = addOutput Bch"
definition bch_signTxIn :: "utxo_lib \<Rightarrow> prev_outs \<Rightarrow> nat \<Rightarrow> tx_input \<Rightarrow> tx_builder act" where "bch_signTxIn = signTxIn Bch"
definition bch_signTx :: "utxo_lib \<Rightarrow> tx_builder act" where "bch_signTx = signTx Bch"
definition bch_calculateTxSize :: "utxo_lib \<Rightarrow> rat \<Rightarrow> tx_builder \<Rightarrow> tx_size_data" where "bch_calculateTxSize = calculateTxSize Bch"
definition bch_emulateTxSize :: "utxo_lib \<Rightarrow> rat \<Rightarrow> (tx_builder, tx_size_data) op" where "bch_emulateTxSize = emulateTxSize Bch"
definition bch_setTransferStatus :: "'e utxo_params \<Rightarrow> transfer_status \<Rightarrow> ('e utxo_fsm) act" where "bch_setTransferStatus = setTransferStatus Bch"
definition bch_sendFailureEvent :: "'e utxo_params \<Rightarrow> goerr \<Rightarrow> ('e utxo_fsm) act" where "bch_sendFailureEvent = sendFailureEvent Bch"
definition bch_validateRequest :: "'e utxo_params \<Rightarrow> ('e utxo_fsm) act" where "bch_validateRequest = validateRequest Bch"
definition bch_getAddressUTXO :: "'e utxo_params \<Rightarrow> string \<Rightarrow> ('e utxo_fsm, utxo list) op" where "bch_getAddressUTXO = getAddressUTXO Bch"
definition bch_processAddressesUTXOs :: "'e utxo_params \<Rightarrow> owner \<Rightarrow> tx_builder \<Rightarrow> string list \<Rightarrow> ('e utxo_fsm, tx_builder \<times> rat) op" where "bch_processAddressesUTXOs = processAddressesUTXOs Bch"
definition bch_prepareTransfer :: "'e utxo_params \<Rightarrow> ('e utxo_fsm, send_data \<times> tx_builder) op" where "bch_prepareTransfer = prepareTransfer Bch"
definition bch_sendTransfer :: "'e utxo_params \<Rightarrow> ('e utxo_fsm) act" where "bch_sendTransfer = sendTransfer Bch"
definition bch_waitingInMempool :: "'e utxo_params \<Rightarrow> ('e utxo_fsm) act" where "bch_waitingInMempool = waitingInMempool Bch"
definition bch_waitingForTheFirstConfirmation :: "'e utxo_params \<Rightarrow> ('e utxo_fsm) act" where "bch_waitingForTheFirstConfirmation = waitingForTheFirstConfirmation Bch"
definition bch_waitingConfirmations :: "'e utxo_params \<Rightarrow> ('e utxo_fsm) act" where "bch_waitingConfirmations = waitingConfirmations Bch"
definition bch_sendSuccessEvent :: "'e utxo_params \<Rightarrow> ('e utxo_fsm) act" where "bch_sendSuccessEvent = sendSuccessEvent Bch"
definition bch_onFailure :: "'e utxo_params \<Rightarrow> goerr \<Rightarrow> ('e utxo_fsm) act" where "bch_onFailure = onFailure Bch"
definition bch_utxoHooks :: "'e utxo_params \<Rightarrow> ('e utxo_fsm) hooks" where "bch_utxoHooks = utxoHooks Bch"
definition bch_newFSM :: "transfer \<Rightarrow> 'e world \<Rightarrow> 'e utxo_fsm" where "bch_newFSM = newFSM Bch"
definition bch_runFSM :: "'e utxo_params \<Rightarrow> ('e utxo_fsm) run_end \<Rightarrow> transfer \<Rightarrow> 'e world \<Rightarrow> (unit outcome \<times> 'e utxo_fsm) option" where "bch_runFSM = runFSM Bch"

end
