(* ===== verification/FsmUtxoFacts.thy ===== *)
theory FsmUtxoFacts
  imports FsmUtxo "HOL-Library.Multiset"
begin

text \<open>
  The library about the machines of the coins with unspent outputs: the amounts of the transaction
  they build, what is recorded before it is sent, and how often it is sent.
\<close>

lemma firstValue_Val [op_Val]: "firstValue b = (Val x, b') \<longleftrightarrow>
    b' = b \<and> (\<exists>o' os. mtTxOut (tbTx b) = o' # os \<and> x = toValue o')"
  by (auto simp: firstValue_def split: list.splits)

lemma if_Val [op_Val]: "(if c then m else n) s = (if c then m s else n s)"
  by simp

section \<open>The amounts of a transaction\<close>

text \<open>An amount in satoshis: a whole number that an \<open>int64\<close> holds.\<close>

definition wholeAmount :: "rat \<Rightarrow> bool" where
  "wholeAmount d \<longleftrightarrow> (\<exists>n. d = of_int n \<and> 0 \<le> n \<and> n < 2 ^ 63)"

lemma sint_word_of_int: "- (2 ^ 63) \<le> n \<Longrightarrow> n < 2 ^ 63 \<Longrightarrow> sint (word_of_int n :: 64 word) = n"
  by (simp add: sint_sbintrunc' signed_take_bit_int_eq_self)

lemma sint_intPart: "wholeAmount d \<Longrightarrow> signed (intPart d) = d"
proof -
  assume "wholeAmount d"
  then have "of_int (sint (intPart d)) = d"
    by (auto simp: wholeAmount_def intPart_def sint_word_of_int simp del: of_int_sint)
  then show ?thesis by simp
qed

lemma sint_intPart_int: "wholeAmount d \<Longrightarrow> sint (intPart d) = \<lfloor>d\<rfloor>"
  by (auto simp: wholeAmount_def intPart_def sint_word_of_int)

lemma sint_diff_whole:
  assumes "wholeAmount a" "wholeAmount b"
  shows "sint (intPart a - intPart b) = \<lfloor>a\<rfloor> - \<lfloor>b\<rfloor>"
proof -
  from assms obtain n m where nm: "a = of_int n" "0 \<le> n" "n < 2 ^ 63" "b = of_int m" "0 \<le> m" "m < 2 ^ 63"
    by (auto simp: wholeAmount_def)
  have "intPart a - intPart b = word_of_int (n - m)" using nm by (simp add: intPart_def)
  moreover have "sint (word_of_int (n - m) :: 64 word) = n - m"
    using nm by (intro sint_word_of_int) auto
  ultimately show ?thesis using nm by simp
qed

text \<open>What the recorded inputs are worth.\<close>

definition inputSum :: "tx_builder \<Rightarrow> int" where
  "inputSum b = sum_list (map (\<lambda>inp. sint (inAmount inp)) (tbInputs b))"

definition outputSum :: "msg_tx \<Rightarrow> int" where
  "outputSum tx = sum_list (map (\<lambda>o'. sint (toValue o')) (mtTxOut tx))"

lemma runOn_Val [op_Val]: "runOn b m s = (Val r, s') \<longleftrightarrow> s' = s \<and> m b = (Val (fst r), snd r)"
  by (cases r) (auto simp: runOn_def split: prod.splits outcome.splits)

text \<open>
  What the loops keep about the builder and the total: the builder is sound and has no output yet,
  and with whole amounts the total is the worth of the inputs.
\<close>

definition loopInv :: "utxo_lib \<Rightarrow> tx_builder \<Rightarrow> rat \<Rightarrow> bool" where
  "loopInv lib b tot \<longleftrightarrow> sound lib b \<and> mtTxOut (tbTx b) = [] \<and> tbOutputs b = [] \<and> tot = of_int (inputSum b)"

lemma loopInv_new: "loopInv lib newTxBuilder 0"
  using sound_new [of lib] by (simp add: loopInv_def newTxBuilder_def inputSum_def)

lemma addInputs_inv:
  assumes "addInputs c lib key sq us b tot s = (Val (b', tot'), s')" and "loopInv lib b tot"
    and "\<forall>u\<in>set us. wholeAmount (utAmount u)"
  shows "loopInv lib b' tot'"
  using assms
proof (induction us arbitrary: b tot s)
  case (Cons u us)
  let ?inp = "\<lparr>inPrivateKey = key, inPkScript = utPkScript u, inHash = utTxHash u,
      inSequence = utSequence u, inAmount = intPart (utAmount u)\<rparr>"
  obtain x b1 where step: "addInput c lib ?inp b = (Val x, b1)"
    and rest: "addInputs c lib key sq us b1 (tot + utAmount u) s = (Val (b', tot'), s')"
    using Cons.prems(1) by (auto simp: op_Val)
  have "sound lib b" using Cons.prems(2) by (simp add: loopInv_def)
  from addInput_ok [OF step this] Cons.prems(2,3) have "loopInv lib b1 (tot + utAmount u)"
    by (auto simp: loopInv_def inputSum_def sint_intPart)
  with Cons.IH [OF rest] Cons.prems(3) show ?case by simp
qed (simp add: op_Val)

text \<open>Documented behaviour of the environment: the runtime visits every key of a map once.\<close>

definition mapOrderOk :: "'e env \<Rightarrow> bool" where
  "mapOrderOk env \<longleftrightarrow> (\<forall>ks x. mset (fst (envMapOrder env ks x)) = mset ks)"

definition wholeAmounts :: "'e env \<Rightarrow> bool" where
  "wholeAmounts env \<longleftrightarrow> (\<forall>s d. envDecimalParse env s = Inr d \<longrightarrow> wholeAmount (d * assetDecimals))"

lemma collectUTXOs_all:
  assumes "collectUTXOs env mn items m = Inr m'" and "\<forall>kv\<in>set m. P (snd kv)"
    and "\<And>item d. item \<in> set items \<Longrightarrow> envDecimalParse env (uiAmount item) = Inr d \<Longrightarrow>
      \<not> (mn > 0 \<and> d * assetDecimals < mn) \<Longrightarrow> d \<noteq> 0 \<Longrightarrow>
      P \<lparr>utTxHash = uiTxHash item, utSequence = uiSequence item, utAmount = d * assetDecimals, utPkScript = uiPkScript item\<rparr>"
  shows "\<forall>kv\<in>set m'. P (snd kv)"
  using assms
proof (induction items arbitrary: m)
  case (Cons item items)
  obtain d where d: "envDecimalParse env (uiAmount item) = Inr d"
    using Cons.prems(1) by (cases "envDecimalParse env (uiAmount item)") auto
  show ?case
  proof (cases "(mn > 0 \<and> d * assetDecimals < mn) \<or> d * assetDecimals = 0")
    case True
    with Cons.prems d have "collectUTXOs env mn items m = Inr m'" by (simp add: Let_def)
    from Cons.IH [OF this Cons.prems(2)] Cons.prems(3) show ?thesis by simp
  next
    case False
    let ?u = "\<lparr>utTxHash = uiTxHash item, utSequence = uiSequence item, utAmount = d * assetDecimals, utPkScript = uiPkScript item\<rparr>"
    have run: "collectUTXOs env mn items (mapPut (uiTxHash item) ?u m) = Inr m'"
      using Cons.prems(1) d False by (auto simp add: Let_def split: if_splits)
    have "P ?u" using Cons.prems(3) [OF _ d] False by (auto simp: assetDecimals_def)
    then have "\<forall>kv\<in>set (mapPut (uiTxHash item) ?u m). P (snd kv)"
      using Cons.prems(2) by (auto simp: mapPut_def)
    from Cons.IH [OF run this] Cons.prems(3) show ?thesis by simp
  qed
qed simp

lemma getAddressUTXO_all:
  assumes "getAddressUTXO c p a s = (Val us, s')" and "mapOrderOk (upEnv p)" and "wholeAmounts (upEnv p)"
  shows "\<forall>u\<in>set us. wholeAmount (utAmount u)"
proof -
  obtain items m ks x x' where m: "collectUTXOs (upEnv p) (minUTXOAmount p) items [] = Inr m"
    and ks: "envMapOrder (upEnv p) (map fst m) x = (ks, x')" and us: "us = map (\<lambda>k. the (map_of m k)) ks"
    using assms(1) by (auto simp: getAddressUTXO_def op_Val liftE_def liftW_def liftExt_def split: prod.splits)
  have P: "\<forall>kv\<in>set m. wholeAmount (utAmount (snd kv))"
    by (rule collectUTXOs_all [OF m]) (use assms(3) in \<open>auto simp: wholeAmounts_def\<close>)
  have "set ks = set (map fst m)"
    using assms(2) ks by (metis fst_conv mapOrderOk_def set_mset_mset)
  have "wholeAmount (utAmount (the (map_of m k)))" if "k \<in> set ks" for k
  proof -
    from that \<open>set ks = set (map fst m)\<close> obtain v where "map_of m k = Some v"
      by (cases "map_of m k") (auto simp: map_of_eq_None_iff)
    with map_of_SomeD [OF this] P show ?thesis by fastforce
  qed
  with us show ?thesis by auto
qed

lemma addressesLoop_inv:
  fixes p :: "'e utxo_params"
  assumes "addressesLoop c p own mn as b tot s = (Val (b', tot'), s')" and "loopInv (upLib p) b tot"
    and "mapOrderOk (upEnv p)" and "wholeAmounts (upEnv p)"
  shows "loopInv (upLib p) b' tot'"
  using assms(1,2)
proof (induction as arbitrary: b tot s)
  case (Cons a as)
  obtain us s1 key sq r s2 s3 s4 where us: "getAddressUTXO c p a s = (Val us, s1)"
    and add: "addInputs c (upLib p) key sq us b tot (s2 :: 'e utxo_fsm) = (Val r, s3)"
    and rest: "addressesLoop c p own mn as (fst r) (snd r) s4 = (Val (b', tot'), s')"
    using Cons.prems(1) unfolding addressesLoop.simps op_Val split_beta by blast
  have "addInputs c (upLib p) key sq us b tot s2 = (Val (fst r, snd r), s3)" using add by simp
  from addInputs_inv [OF this Cons.prems(2) getAddressUTXO_all [OF us assms(3,4)]]
  have "loopInv (upLib p) (fst r) (snd r)" .
  from Cons.IH [OF rest this] show ?case .
qed (simp add: op_Val)

lemma whenS_False [simp]: "whenS False m = ret ()"
  by (simp add: whenS_def)

text \<open>The builder after a successful \<open>buildTransfer\<close> of a whole amount.\<close>

lemma buildTransfer_whole:
  assumes run: "buildTransfer c p t tot b0 = (Val d, b)" and whole: "trWholeAmount t"
    and inv: "loopInv (upLib p) b0 tot"
  shows "sound (upLib p) b" "tbInputs b = tbInputs b0" "tot > 0" "sdTransferAmount d = tot"
    "sdFeePerByte d = chooseFee p t"
    "\<exists>pk. mtTxOut (tbTx b) = [\<lparr>toValue = intPart tot - intPart (szTotalFee (sdSize d)), toPkScript = pk\<rparr>]"
    "\<not> sint (intPart tot - intPart (szTotalFee (sdSize d))) < 0"
proof -
  obtain b1 sz b2 b3 b4 v where steps: "tot > 0"
      "addOutput c (upLib p) (getToAddress t) tot b0 = (Val (), b1)"
      "emulateTxSize c (upLib p) (chooseFee p t) b1 = (Val sz, b2)"
      "subFee (szTotalFee sz) b2 = (Val (), b3)" "signTx c (upLib p) b3 = (Val (), b4)"
      "firstValue b4 = (Val v, b)" "\<not> sint v < 0"
    and d: "d = \<lparr>sdToAddress = getToAddress t, sdSize = sz, sdFeePerByte = chooseFee p t, sdTransferAmount = tot, sdAmountRemaining = 0\<rparr>"
    using run whole by (auto simp: buildTransfer_def Let_def bnd_Val wrapErr_Val guardE_Val ret_Val)
  from steps(6) have b: "b = b4" "\<exists>o' os. mtTxOut (tbTx b4) = o' # os \<and> v = toValue o'" by (auto simp: op_Val)
  obtain a' pk where o1: "mtTxOut (tbTx b1) = [\<lparr>toValue = intPart tot, toPkScript = pk\<rparr>]"
    "mtTxIn (tbTx b1) = mtTxIn (tbTx b0)" "tbInputs b1 = tbInputs b0"
    using addOutput_ok [OF steps(2)] inv by (auto simp: loopInv_def)
  have b2: "b2 = b1" using emulateTxSize_ok [OF steps(3)] by blast
  from subFee_ok [OF steps(4)] o1 b2 have o3: "mtTxOut (tbTx b3) = [\<lparr>toValue = intPart tot - intPart (szTotalFee sz), toPkScript = pk\<rparr>]"
    "mtTxIn (tbTx b3) = mtTxIn (tbTx b0)" "tbInputs b3 = tbInputs b0" by auto
  have sk: "skeleton b4 = skeleton b3" by (rule keepsD [OF keeps_signTx steps(5)])
  note f4 = skeleton_fields [OF sk]
  show "sound (upLib p) b"
    using sound_skeleton [OF sk] sound_cong [OF o3(2,3)] inv b(1) by (simp add: loopInv_def)
  show "tbInputs b = tbInputs b0" using f4 o3 b by simp
  show "tot > 0" by fact
  show "sdTransferAmount d = tot" "sdFeePerByte d = chooseFee p t" using d by simp_all
  show "\<exists>pk. mtTxOut (tbTx b) = [\<lparr>toValue = intPart tot - intPart (szTotalFee (sdSize d)), toPkScript = pk\<rparr>]"
    using f4(1) o3(1) b(1) d by auto
  show "\<not> sint (intPart tot - intPart (szTotalFee (sdSize d))) < 0"
    using steps(7) b(2) f4(1) o3(1) d by auto
qed

lemma prepareTransfer_sound:
  assumes run: "prepareTransfer c p s = (Val (d, b), s')" and t: "fsTransfer s = Some t" and whole: "trWholeAmount t"
    and env: "mapOrderOk (upEnv p)" "wholeAmounts (upEnv p)"
  shows "sound (upLib p) b" "sdTransferAmount d = of_int (inputSum b)" "sdTransferAmount d > 0"
    "sdFeePerByte d = chooseFee p t"
    "\<not> (trFeeMax t \<noteq> None \<and> nullDecimal (trFeeMax t) > 0 \<and> sdFeePerByte d > nullDecimal (trFeeMax t))"
    "\<exists>pk. mtTxOut (tbTx b) = [\<lparr>toValue = intPart (sdTransferAmount d) - intPart (szTotalFee (sdSize d)), toPkScript = pk\<rparr>]"
    "\<not> sint (intPart (sdTransferAmount d) - intPart (szTotalFee (sdSize d))) < 0"
proof -
  obtain own s1 r s2 where
    fee: "\<not> (trFeeMax t \<noteq> None \<and> nullDecimal (trFeeMax t) > 0 \<and> chooseFee p t > nullDecimal (trFeeMax t))"
    and proc: "processAddressesUTXOs c p own newTxBuilder (trFromAddresses t) s1 = (Val r, s2)"
    and build: "buildTransfer c p t (snd r) (fst r) = (Val d, b)"
    using run t unfolding prepareTransfer_def Let_def op_Val split_beta by auto
  obtain mn s3 where "addressesLoop c p own mn (trFromAddresses t) newTxBuilder 0 s3 = (Val (fst r, snd r), s2)"
    using proc unfolding processAddressesUTXOs_def op_Val by auto
  from addressesLoop_inv [OF this loopInv_new env] have inv: "loopInv (upLib p) (fst r) (snd r)" .
  note b = buildTransfer_whole [OF build whole inv]
  show "sound (upLib p) b" by (rule b(1))
  show "sdTransferAmount d = of_int (inputSum b)"
    using inv b(2,4) by (simp add: loopInv_def inputSum_def)
  show "sdTransferAmount d > 0" using b(3,4) by simp
  show "sdFeePerByte d = chooseFee p t" by (rule b(5))
  show "\<not> (trFeeMax t \<noteq> None \<and> nullDecimal (trFeeMax t) > 0 \<and> sdFeePerByte d > nullDecimal (trFeeMax t))"
    using fee b(5) by simp
  show "\<exists>pk. mtTxOut (tbTx b) = [\<lparr>toValue = intPart (sdTransferAmount d) - intPart (szTotalFee (sdSize d)), toPkScript = pk\<rparr>]"
    using b(4,6) by simp
  show "\<not> sint (intPart (sdTransferAmount d) - intPart (szTotalFee (sdSize d))) < 0"
    using b(4,7) by simp
qed

section \<open>What is recorded before the transaction is sent\<close>

lemma keeps_liftE_ext:
  assumes "\<And>s x. v (s\<lparr>fsWorld := (fsWorld s)\<lparr>wdExt := x\<rparr>\<rparr>) = v s"
  shows "keeps v (liftE m)"
  by (rule keepsI) (simp add: liftE_def liftW_def liftExt_def assms split: prod.split)

lemma keeps_broadcast:
  assumes "\<And>s x. v (s\<lparr>fsWorld := (fsWorld s)\<lparr>wdExt := x\<rparr>\<rparr>) = v s" and "\<And>s x. v (s\<lparr>ufSent := x\<rparr>) = v s"
  shows "keeps v (broadcast c p tx)"
  unfolding broadcast_def
  by (intro keeps_intros keeps_modS keeps_liftE_ext assms)

lemma broadcast_sent: "broadcast c p tx s = (r, s') \<Longrightarrow> ufSent s' = ufSent s @ [tx]"
proof -
  assume b: "broadcast c p tx s = (r, s')"
  have "keeps ufSent (bnd (liftE (\<lambda>x. case upSend p tx x of (r, x') \<Rightarrow> (Val r, x'))) (\<lambda>res.
     bnd (if c = Bch then ret None else liftE (\<lambda>x. case upTimeout p x of (r, x') \<Rightarrow> (Val r, x'))) (\<lambda>timeout.
     case timeout of
       Some e \<Rightarrow> fail (Wrapf ''send transaction timeout: '' e)
     | None \<Rightarrow>
         (case res of
            Some e \<Rightarrow> fail (Wrapf (''failed to send transaction ['' @ ulTxHash (upLib p) tx @ '']: '') e)
          | None \<Rightarrow> ret ()))))"
    by (intro keeps_intros keeps_liftE_ext) auto
  from keepsD [OF this, of "s\<lparr>ufSent := ufSent s @ [tx]\<rparr>" r s'] b
  show ?thesis by (simp add: broadcast_def bnd_def [of "modS _"] modS_def)
qed

text \<open>What can be on the machine when the call of the node has been made.\<close>

lemma liftW_Val: "liftW m s = (Val x, s') \<longleftrightarrow> m (fsWorld s) = (Val x, fsWorld s') \<and> s' = s\<lparr>fsWorld := fsWorld s'\<rparr>"
  by (auto simp: liftW_def split: prod.splits)

text \<open>The part of \<open>sendTransfer\<close> before the call of the node.\<close>

definition storeTransfer :: "utxo_coin \<Rightarrow> 'e utxo_params \<Rightarrow> ('e utxo_fsm, tx_builder) op" where
  "storeTransfer c p =
     bnd (prepareTransfer c p) (\<lambda>(d, b).
     bnd theTransfer (\<lambda>t0.
     bnd (liftW (transfersSetTxHash (upEnv p) False (trID t0) (ulTxHash (upLib p) (tbTx b)))) (\<lambda>(t', err).
     bnd (modS (\<lambda>s. s\<lparr>fsTransfer := t'\<rparr>)) (\<lambda>_.
     bnd (case err of Some e \<Rightarrow> fail (Wrapf ''set tx hash: '' e) | None \<Rightarrow> ret ()) (\<lambda>_.
     bnd theTransfer (\<lambda>t.
     bnd (runOn b firstValue) (\<lambda>(v, _).
     bnd (wrapErr ''set state data''
            (liftW (transfersSetStateData (upEnv p) False (trID t) (sendStateData p t d v)))) (\<lambda>_.
     ret b))))))))"

lemma sendTransfer_parts: "sendTransfer c p = bnd (storeTransfer c p) (\<lambda>b. broadcast c p (tbTx b))"
  unfolding sendTransfer_def storeTransfer_def split_beta bnd_assoc bnd_ret ..

lemma keeps_storeTransfer: "keeps ufSent (storeTransfer c p)"
  unfolding storeTransfer_def split_beta
  by (intro keeps_intros keeps_prepareTransfer keeps_liftW keeps_modS) simp_all

lemma storeTransfer_ok:
  assumes "storeTransfer c p s = (Val b, s')"
  shows "\<exists>d s1 t. prepareTransfer c p s = (Val (d, b), s1) \<and> fsTransfer s' = Some t \<and>
     trTxHash t = Some (ulTxHash (upLib p) (tbTx b)) \<and>
     storedHash (trID t) (wdDb (fsWorld s')) = Some (ulTxHash (upLib p) (tbTx b))"
proof -
  let ?hash = "ulTxHash (upLib p) (tbTx b)"
  from assms show ?thesis
    unfolding storeTransfer_def split_beta op_Val
  proof (elim exE conjE, goal_cases)
    case (1 r s1 t0 s1' q s2 u3 s3 u4 s4 t s5 vb s6 u s7 o' os)
    note f = 1
    have b: "snd r = b" using f by simp
    have q: "snd q = None" "s4 = s3" using f by (auto simp: op_Val split: option.split_asm)
    have "transfersSetTxHash (upEnv p) False (trID t0) ?hash (fsWorld s1) = (Val (fst q, None), fsWorld s2)"
    proof -
      have "liftW (transfersSetTxHash (upEnv p) False (trID t0) ?hash) s1 = (Val (fst q, None), s2)"
        using f q(1) by (cases q) simp
      from this [unfolded liftW_Val] show ?thesis by blast
    qed
    from transfersSetTxHash_Val [OF this] obtain t1 where t1: "fst q = Some t1"
      "qTransferSetTxHash (upEnv p) False (trID t0) ?hash (fsWorld s1) = (Val t1, fsWorld s2)" by blast
    have t: "t1 = t" using f q t1(1) by simp
    from qTransferSetTxHash_ok [OF t1(2)] t have h: "trTxHash t = Some ?hash" "trID t = trID t0"
      "storedHash (trID t0) (wdDb (fsWorld s2)) = Some ?hash" by auto
    have "liftW (transfersSetStateData (upEnv p) False (trID t) (sendStateData p t (fst r) (fst vb))) s3 = (Val u, s')"
      using f q by simp
    then have w: "transfersSetStateData (upEnv p) False (trID t) (sendStateData p t (fst r) (fst vb)) (fsWorld s3) = (Val u, fsWorld s')"
      and s': "s' = s3\<lparr>fsWorld := fsWorld s'\<rparr>" unfolding liftW_Val by blast+
    have "storedHash (trID t) (wdDb (fsWorld s')) = storedHash (trID t) (wdDb (fsWorld s3))"
      by (rule keepsD [OF storedHash_stateData w])
    moreover have "fsWorld s3 = fsWorld s2" using f by simp
    moreover have "fsTransfer s' = Some t"
      using f q(2) trans [OF arg_cong [OF s', of fsTransfer]] by simp
    ultimately show ?case using f(1) b h by (metis prod.collapse)
  qed
qed

lemma sendTransfer_sent:
  assumes "sendTransfer c p s = (r, s')"
  shows "ufSent s' = ufSent s \<or>
    (\<exists>d b s1 t. prepareTransfer c p s = (Val (d, b), s1) \<and> ufSent s' = ufSent s @ [tbTx b] \<and>
       fsTransfer s' = Some t \<and> trTxHash t = Some (ulTxHash (upLib p) (tbTx b)) \<and>
       storedHash (trID t) (wdDb (fsWorld s')) = Some (ulTxHash (upLib p) (tbTx b)))"
proof -
  obtain r1 s1 where st: "storeTransfer c p s = (r1, s1)" by (rule prod.exhaust)
  have u1: "ufSent s1 = ufSent s" by (rule keepsD [OF keeps_storeTransfer st])
  show ?thesis
  proof (cases r1)
    case (Val b)
    with assms st have br: "broadcast c p (tbTx b) s1 = (r, s')"
      by (simp add: sendTransfer_parts bnd_def)
    from storeTransfer_ok st Val obtain d s0 t where
      ok: "prepareTransfer c p s = (Val (d, b), s0)" "fsTransfer s1 = Some t"
        "trTxHash t = Some (ulTxHash (upLib p) (tbTx b))"
        "storedHash (trID t) (wdDb (fsWorld s1)) = Some (ulTxHash (upLib p) (tbTx b))" by blast
    have "fsTransfer s' = fsTransfer s1" by (rule keepsD [OF keeps_broadcast br]) simp_all
    moreover have "wdDb (fsWorld s') = wdDb (fsWorld s1)" by (rule keepsD [OF keeps_broadcast br]) simp_all
    ultimately show ?thesis using broadcast_sent [OF br] u1 ok by auto
  qed (use assms st u1 in \<open>auto simp: sendTransfer_parts bnd_def\<close>)
qed

section \<open>Changes of status\<close>

lemma setTransferStatus_ok:
  fixes p :: "'e utxo_params"
  assumes "setTransferStatus c p st s = (Val u, s')" and "fsTransfer s = Some t"
  shows "storedStatus (trID t) (wdDb (fsWorld s')) = Some st \<and> transferStatusValid st \<and>
    (\<exists>h\<in>set (dbWebhooks (wdDb (fsWorld s'))). whStatus h = WebhookStatusNew \<and> spStatus (whPayload h) = st \<and>
       (\<exists>row. transferRow (trID t) (wdDb (fsWorld s)) = Inr row \<and> spRequestID (whPayload h) = trRequestID row) \<and>
       (\<exists>own\<in>set (dbOwners (wdDb (fsWorld s))). owID own = trOwnerID t \<and> whClientID h = owClientID own))"
proof -
  obtain nm s0 t2 ps s1 u1 s2 where nm: "(if c = Bch then ret [] else currentStepName) s = (Val nm, s0)"
    and t2: "fsTransfer s0 = Some t2"
    and e2: "eventTransferStatusCreateParams (upEnv p)
         \<lparr>evIsSystem = False, evTransferID = trID t2, evOwnerID = trOwnerID t2, evStatus = st, evStep = nm, evErrorMessage = []\<rparr>
         (fsWorld s0) = (Val ps, fsWorld (s1 :: 'e utxo_fsm))"
    and h: "webhooksBatchCreate (upEnv p) False [ps] (fsWorld s1) = (Val u1, fsWorld (s2 :: 'e utxo_fsm))"
    and u2: "transfersSetStatus (upEnv p) False (trID t2) st (fsWorld s2) = (Val u, fsWorld s')"
    using assms(1) unfolding setTransferStatus_def bnd_Val wrapErr_Val theTransfer_Val liftW_Val by blast
  have k: "keeps (\<lambda>s. (fsTransfer s, fsWorld s)) (if c = Bch then ret [] else currentStepName)"
    by (intro keeps_intros)
  have s0: "fsTransfer s0 = Some t" "fsWorld s0 = fsWorld s" using keepsD [OF k nm] assms(2) by auto
  with t2 e2 u2 have e: "eventTransferStatusCreateParams (upEnv p)
         \<lparr>evIsSystem = False, evTransferID = trID t, evOwnerID = trOwnerID t, evStatus = st, evStep = nm, evErrorMessage = []\<rparr>
         (fsWorld s0) = (Val ps, fsWorld s1)"
    and u: "transfersSetStatus (upEnv p) False (trID t) st (fsWorld s2) = (Val u, fsWorld s')" by auto
  from eventParams_Val [OF e] obtain row own txs where
    w1: "wdDb (fsWorld s1) = wdDb (fsWorld s)" and st: "transferStatusValid st"
    and row: "transferRow (trID t) (wdDb (fsWorld s)) = Inr row" and own: "own \<in> set (dbOwners (wdDb (fsWorld s)))" "owID own = trOwnerID t"
    and ps: "ps = announced \<lparr>evIsSystem = False, evTransferID = trID t, evOwnerID = trOwnerID t, evStatus = st, evStep = nm, evErrorMessage = []\<rparr> row txs own"
    using s0(2) by auto
  from webhooksBatchCreate_Val [OF h] obtain now where
    w2: "wdDb (fsWorld s2) = (wdDb (fsWorld s1))\<lparr>dbWebhooks := insertWebhook now ps (dbWebhooks (wdDb (fsWorld s1)))\<rparr>" by blast
  have "transferRow (trID t) (wdDb (fsWorld s2)) = Inr row" using row w1 w2 by (simp add: transferRow_def)
  from transfersSetStatus_Val [OF u this] w1 w2
  have f: "storedStatus (trID t) (wdDb (fsWorld s')) = Some st"
    "dbWebhooks (wdDb (fsWorld s')) = insertWebhook now ps (dbWebhooks (wdDb (fsWorld s)))" by auto
  from insertWebhook_in [of now ps "dbWebhooks (wdDb (fsWorld s))"] obtain x where
    "x \<in> set (dbWebhooks (wdDb (fsWorld s')))" "whPayload x = wpPayload ps" "whClientID x = wpClientID ps" "whStatus x = WebhookStatusNew"
    unfolding f(2) by (auto simp: ps announced_def)
  with f(1) st row own show ?thesis by (auto simp: ps announced_def intro!: bexI [of _ x] bexI [of _ own])
qed

end
