(* ===== verification/UtxoSend.thy ===== *)
theory UtxoSend
  imports FsmUtxoFacts
begin

text \<open>
  The properties of the step that builds, stores and sends the transaction of the coins with unspent
  outputs, of the validation of its request and of the outputs it finds, evaluated on a sample.
\<close>

section \<open>A sample process\<close>

definition demoLib :: utxo_lib where
  "demoLib =
     \<lparr>ulHashFromStr = Inr, ulDecodeAddress = Inr, ulPayToAddrScript = (\<lambda>a. Inr (''76a9'' @ a)),
      ulHexDecode = Inr, ulIsPayToPubKeyHash = (\<lambda>_. False), ulIsPayToScriptHash = (\<lambda>_. False),
      ulIsPayToWitnessPubKeyHash = (\<lambda>_. True), ulIsPayToTaproot = (\<lambda>_. False),
      ulSignatureScript = (\<lambda>_ _ _ k. Inr k), ulRedeemScript = Inr, ulRawTxInSignature = (\<lambda>_ _ _ k. Inr k),
      ulScriptHashScript = (\<lambda>s r. Inr s), ulWitnessSignature = (\<lambda>_ _ _ _ _ k. Inr [k]),
      ulTaprootSignature = (\<lambda>_ _ _ _ _ k. Inr [k]), ulSignTxOutput = (\<lambda>_ _ _ _ k _. Inr k),
      ulNewEngine = (\<lambda>_ _ _ _ _. Inr ()), ulExecute = (\<lambda>_ _ _ _ _. Inr ()),
      ulSerializeSize = (\<lambda>tx. 10 + 148 * int (length (mtTxIn tx)) + 34 * int (length (mtTxOut tx))),
      ulSerializeSizeStripped = (\<lambda>tx. 10 + 68 * int (length (mtTxIn tx)) + 34 * int (length (mtTxOut tx))),
      ulTxHash = (\<lambda>tx. ''hash-'' @ concat (map tiHash (mtTxIn tx))), ulCashAddressPrefix = ''bitcoincash'',
      ulDecimalDiv = (\<lambda>a b. a / b)\<rparr>"

definition demoItems :: "utxo_item list" where
  "demoItems =
     [\<lparr>uiTxHash = ''t1'', uiSequence = 0, uiAmount = ''1.5'', uiPkScript = ''0014''\<rparr>,
      \<lparr>uiTxHash = ''t2'', uiSequence = 1, uiAmount = ''0.25'', uiPkScript = ''0014''\<rparr>]"

definition demoParse :: "string \<Rightarrow> goerr + rat" where
  "demoParse s = (if s = ''1.5'' then Inr (3 / 2) else if s = ''0.25'' then Inr (1 / 4)
                  else Inl (ErrText ''not a decimal''))"

text \<open>A process without faults; an address has the unspent outputs of the argument.\<close>

definition demoTx :: "string \<Rightarrow> etx" where
  "demoTx h = \<lparr>etxHash = h, etxConfirmations = 6, etxStatus = ''success'', etxFee = '''',
     etxAssetIdentifier = '''', etxAmount = '''', etxTron = None\<rparr>"

definition demoEnv :: "utxo_item list \<Rightarrow> unit env" where
  "demoEnv items =
     \<lparr>envFault = (\<lambda>_ x. (NoFault, x)), envNow = (\<lambda>_. 7), envSleep = (\<lambda>_ x. x), envStopped = (\<lambda>_. False),
      envCtx = (\<lambda>_. None), envOwnerCached = (\<lambda>_ _. False), envCacheReady = (\<lambda>_. True),
      envSnoozeString = (\<lambda>_. ''''), envDecimalString = (\<lambda>_. ''''), envDecimalParse = demoParse,
      envDecimalDiv = (\<lambda>a b. a / b), envDivRound = (\<lambda>a b _. a / b), envMapOrder = (\<lambda>ks x. (ks, x)), envDecrypt = (\<lambda>m _. Inr m),
      envFindTransactions = (\<lambda>_ h x. (Val [demoTx h], x)),
      envGetTransactionInfo = (\<lambda>_ h x. (Val (demoTx h), x)),
      envGetUTXO = (\<lambda>_ _ x. (Val items, x)), envAddressBalance = (\<lambda>_ _ _ x. (Val 100, x)),
      envAssetDecimals = (\<lambda>_ _ x. (Val 6, x)), envNewID = (\<lambda>_. ''new-id'')\<rparr>"

definition demoParams :: "utxo_item list \<Rightarrow> unit utxo_params" where
  "demoParams items =
     \<lparr>upEnv = demoEnv items, upLib = demoLib, upNetwork = ''mainnet'', upFeePerByte = 10,
      upMinUTXOAmount = 1000, upSeedEncryption = False, upUseCacheForWallets = False,
      upDecodeAddressType = (\<lambda>_. Inr ''P2WPKH''),
      upGenerateAddress = (\<lambda>_ _ _ _. Inr ''key''), upSend = (\<lambda>_ x. (None, x)), upTimeout = (\<lambda>x. (None, x))\<rparr>"

definition demoTransfer :: transfer where
  "demoTransfer = zeroTransfer\<lparr>trID := ''transfer-1'', trStatus := TransferStatusNew, trOwnerID := ''owner-1'',
     trBlockchain := BlockchainTypeBitcoin, trFromAddresses := [''from-1''], trToAddresses := [''to-1''],
     trWalletFromType := WalletTypeProcessing, trWholeAmount := True, trFeeMax := Some 12\<rparr>"

definition demoDb :: db where
  "demoDb = \<lparr>dbTransfers = [demoTransfer],
     dbOwners = [\<lparr>owID = ''owner-1'', owClientID = ''client-1'', owMnemonic = ''words'', owPassPhrase = None\<rparr>],
     dbHotWallets = [],
     dbProcessingWallets = [\<lparr>wlBlockchain = BlockchainTypeBitcoin, wlAddress = ''from-1'',
        wlOwnerID = ''owner-1'', pwSequence = 0\<rparr>],
     dbColdWallets = [], dbTransferTransactions = [], dbWebhooks = []\<rparr>"

definition demoWorld :: "unit world" where
  "demoWorld = \<lparr>wdDb = demoDb, wdTx = None, wdOwnerCache = Map.empty, wdHotCache = Map.empty,
     wdProcessingCache = Map.empty, wdColdCache = Map.empty, wdExt = ()\<rparr>"

definition demoFsm :: "unit utxo_fsm" where
  "demoFsm = newFSM Btc demoTransfer demoWorld"


lemmas demo_defs = demoLib_def demoItems_def demoEnv_def demoParams_def demoTransfer_def demoDb_def
  demoWorld_def demoFsm_def demoParse_def zeroTransfer_def

lemma demo_collect: "collectUTXOs (demoEnv demoItems) 1000 demoItems [] =
   Inr [(''t2'', \<lparr>utTxHash = ''t2'', utSequence = 1, utAmount = 25000000, utPkScript = ''0014''\<rparr>),
        (''t1'', \<lparr>utTxHash = ''t1'', utSequence = 0, utAmount = 150000000, utPkScript = ''0014''\<rparr>)]"
  by (simp add: demo_defs Let_def assetDecimals_def mapPut_def)

lemma demo_utxo: "getAddressUTXO Btc (demoParams demoItems) a s =
  (Val [\<lparr>utTxHash = ''t2'', utSequence = 1, utAmount = 25000000, utPkScript = ''0014''\<rparr>,
        \<lparr>utTxHash = ''t1'', utSequence = 0, utAmount = 150000000, utPkScript = ''0014''\<rparr>], s)"
  using demo_collect
  by (simp add: getAddressUTXO_def op_defs ofSum_def liftE_def liftW_def liftExt_def demo_defs minUTXOAmount_def)


definition demoInput :: "string \<Rightarrow> 32 word \<Rightarrow> 64 word \<Rightarrow> tx_input" where
  "demoInput h i v = \<lparr>inPrivateKey = ''key'', inPkScript = ''0014'', inHash = h, inSequence = i, inAmount = v\<rparr>"

definition demoTxIn :: "string \<Rightarrow> 32 word \<Rightarrow> string list \<Rightarrow> tx_in" where
  "demoTxIn h i wit = \<lparr>tiHash = h, tiIndex = i, tiSequence = 0xfffffffd, tiSignatureScript = '''', tiWitness = wit\<rparr>"

definition demoLoaded :: tx_builder where
  "demoLoaded = \<lparr>tbTx = \<lparr>mtTxIn = [demoTxIn ''t2'' 1 [], demoTxIn ''t1'' 0 []], mtTxOut = []\<rparr>,
     tbInputs = [demoInput ''t2'' 1 25000000, demoInput ''t1'' 0 150000000], tbOutputs = []\<rparr>"

definition demoBuilt :: tx_builder where
  "demoBuilt = \<lparr>tbTx = \<lparr>mtTxIn = [demoTxIn ''t2'' 1 [''key''], demoTxIn ''t1'' 0 [''key'']],
       mtTxOut = [\<lparr>toValue = 174997800, toPkScript = ''76a9to-1''\<rparr>]\<rparr>,
     tbInputs = [demoInput ''t2'' 1 25000000, demoInput ''t1'' 0 150000000], tbOutputs = [(''to-1'', 175000000)]\<rparr>"

lemma demo_addInputs:
  "addInputs Btc demoLib ''key'' 0
     [\<lparr>utTxHash = ''t2'', utSequence = 1, utAmount = 25000000, utPkScript = ''0014''\<rparr>,
      \<lparr>utTxHash = ''t1'', utSequence = 0, utAmount = 150000000, utPkScript = ''0014''\<rparr>] newTxBuilder 0 s =
   (Val (demoLoaded, 175000000), s)"
  by (simp add: op_defs runOn_def addInput_def ofSum_def newTxBuilder_def demoLib_def outPoint_def
      demoLoaded_def demoTxIn_def demoInput_def intPart_def)

lemma demo_sequence: "wdDb w = demoDb \<Longrightarrow> wdTx w = None \<Longrightarrow>
  getSequenceByWalletType (demoEnv items) WalletTypeProcessing ''owner-1'' BlockchainTypeBitcoin ''from-1'' w = (Val 0, w)"
  by (simp add: getSequenceByWalletType_def processingGetByOwnerID_def qProcessingGetByOwnerID_def dbRead_def
      op_defs ofSum_def demoEnv_def demoDb_def nilUuid_def oneRow_def walletIs_def dbView_def)

lemma demo_prepare_w:
  "ownersGetByID (demoEnv items) ''owner-1'' demoWorld =
    (Val \<lparr>owID = ''owner-1'', owClientID = ''client-1'', owMnemonic = ''words'', owPassPhrase = None\<rparr>,
     demoWorld\<lparr>wdOwnerCache := [''owner-1'' \<mapsto> \<lparr>owID = ''owner-1'', owClientID = ''client-1'', owMnemonic = ''words'', owPassPhrase = None\<rparr>]\<rparr>)"
  by (simp add: ownersGetByID_def noRowsToNotFound_def qOwnerGetByID_def dbRead_def
      op_defs ofSum_def demo_defs nilUuid_def oneRow_def dbView_def)

lemma demo_build: "buildTransfer Btc (demoParams items) demoTransfer 175000000 demoLoaded = 
  (Val \<lparr>sdToAddress = ''to-1'', sdSize = \<lparr>szTxFullSize = 340, szTxStrippedSize = 180, szWeight = 880,
       szVSize = 220, szTotalFee = 2200\<rparr>, sdFeePerByte = 10, sdTransferAmount = 175000000, sdAmountRemaining = 0\<rparr>, demoBuilt)"
  by (simp add: op_defs ofSum_def buildTransfer_def addOutput_def getToAddress_def chooseFee_def feePerByte0_def 
    demoParams_def demoEnv_def demoLib_def demoTransfer_def zeroTransfer_def Let_def demoLoaded_def demoBuilt_def
    emulateTxSize_def signTx_def signTxIn_def signTxInScript_def whenS_def updTxIn_def demoTxIn_def demoInput_def
    newTransactionFromBuilder_def calculateTxSize_def subFee_def decCeil_def firstValue_def intPart_def nullDecimal_def)


definition demoOwner :: owner where
  "demoOwner = \<lparr>owID = ''owner-1'', owClientID = ''client-1'', owMnemonic = ''words'', owPassPhrase = None\<rparr>"

definition demoData :: send_data where
  "demoData = \<lparr>sdToAddress = ''to-1'', sdSize = \<lparr>szTxFullSize = 340, szTxStrippedSize = 180, szWeight = 880,
     szVSize = 220, szTotalFee = 2200\<rparr>, sdFeePerByte = 10, sdTransferAmount = 175000000, sdAmountRemaining = 0\<rparr>"

lemma demo_loop:
  fixes s :: "unit utxo_fsm"
  assumes "wdDb (fsWorld s) = demoDb" "wdTx (fsWorld s) = None" "fsTransfer s = Some demoTransfer"
  shows "addressesLoop Btc (demoParams demoItems) own mn [''from-1''] newTxBuilder 0 s = (Val (demoLoaded, 175000000), s)"
proof -
  have sq: "liftW (getSequenceByWalletType (demoEnv demoItems) WalletTypeProcessing ''owner-1'' BlockchainTypeBitcoin ''from-1'') s = (Val 0, s)"
    using demo_sequence [OF assms(1,2)] by (simp add: liftW_def)
  have p: "upEnv (demoParams demoItems) = demoEnv demoItems" "upLib (demoParams demoItems) = demoLib"
    "trOwnerID demoTransfer = ''owner-1''" "trWalletFromType demoTransfer = WalletTypeProcessing"
    "upDecodeAddressType (demoParams demoItems) = (\<lambda>_. Inr ''P2WPKH'')"
    "upGenerateAddress (demoParams demoItems) = (\<lambda>_ _ _ _. Inr ''key'')"
    by (simp_all add: demoParams_def demoTransfer_def)
  show ?thesis
    by (simp add: op_defs demo_utxo theTransfer_def assms(3) p sq ofSum_def demo_addInputs del: addInputs.simps)
qed

definition demoPrepared :: "unit utxo_fsm" where
  "demoPrepared = demoFsm\<lparr>fsWorld := demoWorld\<lparr>wdOwnerCache := [''owner-1'' \<mapsto> demoOwner]\<rparr>\<rparr>"

lemma demo_prepare: "prepareTransfer Btc (demoParams demoItems) demoFsm = (Val (demoData, demoBuilt), demoPrepared)"
proof -
  have t: "fsTransfer demoFsm = Some demoTransfer" "fsWorld demoFsm = demoWorld"
    by (simp_all add: demoFsm_def newFSM_def setSnapshot_def)
  have p: "upEnv (demoParams demoItems) = demoEnv demoItems" "upSeedEncryption (demoParams demoItems) = False"
    "trOwnerID demoTransfer = ''owner-1''" "trFromAddresses demoTransfer = [''from-1'']" "trToAddresses demoTransfer = [''to-1'']"
    "trFeeMax demoTransfer = Some 12" "chooseFee (demoParams demoItems) demoTransfer = 10"
    by (simp_all add: demoParams_def demoTransfer_def zeroTransfer_def chooseFee_def feePerByte0_def)
  have o': "liftW (ownersGetByID (demoEnv demoItems) ''owner-1'') demoFsm = (Val demoOwner, demoPrepared)"
    using demo_prepare_w [of demoItems] t by (simp add: liftW_def demoOwner_def demoPrepared_def)
  have l: "addressesLoop Btc (demoParams demoItems) demoOwner mn [''from-1''] newTxBuilder 0 demoPrepared =
      (Val (demoLoaded, 175000000), demoPrepared)" for mn
    by (rule demo_loop) (simp_all add: demoPrepared_def demoWorld_def t)
  show ?thesis
    by (simp add: prepareTransfer_def Let_def op_defs theTransfer_def t p o' processAddressesUTXOs_def l runOn_def
        demo_build demoData_def nullDecimal_def del: addressesLoop.simps)
qed

lemma demo_send:
  "case sendTransfer Btc (demoParams demoItems) demoFsm of (r, s') \<Rightarrow> r = Val () \<and> ufSent s' = [tbTx demoBuilt] \<and>
     map trTxHash (dbTransfers (wdDb (fsWorld s'))) = [Some ''hash-t2t1'']"
  by (simp add: sendTransfer_def op_defs demo_prepare theTransfer_def)
    (simp add: theTransfer_def demoPrepared_def demoFsm_def newFSM_def setSnapshot_def transfersSetTxHash_def op_defs
   qTransferSetTxHash_def dbQuery_def demo_defs liftW_def demoBuilt_def demoTxIn_def nilUuid_def
   dbApply_def updTransfer_def dbView_def transferRow_def oneRow_def ofSum_def
   runOn_def firstValue_def Let_def transfersSetStateData_def transfersGetStateData_def qTransferGetStateData_def dbRead_def
   qTransferSetStateData_def dbExec_def broadcast_def liftE_def liftExt_def)


section \<open>Library\<close>

lemma decCeil_whole: "0 \<le> d \<Longrightarrow> d \<le> 2 ^ 63 - 1 \<Longrightarrow> wholeAmount (decCeil d)"
proof -
  assume d: "0 \<le> d" "d \<le> 2 ^ 63 - 1"
  have "\<lceil>d\<rceil> \<le> \<lceil>2 ^ 63 - 1 :: rat\<rceil>" by (rule ceiling_mono) (rule d(2))
  then have "\<lceil>d\<rceil> \<le> 2 ^ 63 - 1" by simp
  moreover have "0 \<le> \<lceil>d\<rceil>" using ceiling_mono [OF d(1)] by simp
  ultimately show ?thesis unfolding wholeAmount_def decCeil_def by (intro exI [of _ "\<lceil>d\<rceil>"]) simp
qed

lemma buildTransfer_fee:
  assumes "buildTransfer c p t tot b0 = (Val d, b)"
  shows "szTotalFee (sdSize d) = decCeil (szVSize (sdSize d) * sdFeePerByte d) \<and> sdFeePerByte d = chooseFee p t"
proof -
  obtain b1 sz b2 where e: "emulateTxSize c (upLib p) (chooseFee p t) b1 = (Val sz, b2)"
    and d: "sdSize d = sz" "sdFeePerByte d = chooseFee p t"
    using assms by (auto simp: buildTransfer_def Let_def bnd_Val wrapErr_Val guardE_Val ret_Val)
  from emulateTxSize_ok [OF e] obtain b4 where "sz = calculateTxSize c (upLib p) (chooseFee p t) b4" by blast
  with d show ?thesis by (simp add: calculateTxSize_def Let_def)
qed

lemma prepareTransfer_fee:
  assumes "prepareTransfer c p s = (Val (d, b), s')" and "fsTransfer s = Some t"
  shows "szTotalFee (sdSize d) = decCeil (szVSize (sdSize d) * chooseFee p t)"
    "sdFeePerByte d = chooseFee p t"
    "\<not> (trFeeMax t \<noteq> None \<and> nullDecimal (trFeeMax t) > 0 \<and> chooseFee p t > nullDecimal (trFeeMax t))"
proof -
  obtain r where fee: "\<not> (trFeeMax t \<noteq> None \<and> nullDecimal (trFeeMax t) > 0 \<and> chooseFee p t > nullDecimal (trFeeMax t))"
    and build: "buildTransfer c p t (snd r) (fst r) = (Val d, b)"
    using assms unfolding prepareTransfer_def Let_def op_Val split_beta by auto
  from buildTransfer_fee [OF build] fee
  show "szTotalFee (sdSize d) = decCeil (szVSize (sdSize d) * chooseFee p t)"
    "sdFeePerByte d = chooseFee p t"
    "\<not> (trFeeMax t \<noteq> None \<and> nullDecimal (trFeeMax t) > 0 \<and> chooseFee p t > nullDecimal (trFeeMax t))" by auto
qed

section \<open>Properties of sending\<close>


text \<open>
  C2. Before \<open>sendTransfer\<close> hands a transaction to the node, its hash is in the machine's transfer and
  in the transfer's row of the database, whatever the node answers.
\<close>

theorem hash_recorded_before_sending:
  assumes "sendTransfer c p s = (r, s')" and "ufSent s' \<noteq> ufSent s"
  shows "\<exists>tx t. ufSent s' = ufSent s @ [tx] \<and> fsTransfer s' = Some t \<and> trTxHash t = Some (ulTxHash (upLib p) tx) \<and>
    storedHash (trID t) (wdDb (fsWorld s')) = Some (ulTxHash (upLib p) tx)"
  using sendTransfer_sent [OF assms(1)] assms(2) by blast



text \<open>The properties at the sample transfer.\<close>

lemma demo_env: "mapOrderOk (demoEnv items)" "wholeAmounts (demoEnv items)"
proof -
  show "mapOrderOk (demoEnv items)" by (simp add: mapOrderOk_def demoEnv_def)
  have "wholeAmount (d * assetDecimals)" if "demoParse s = Inr d" for s d
  proof -
    from that have "d = 3 / 2 \<or> d = 1 / 4" by (auto simp: demoParse_def split: if_split_asm)
    then have "d * assetDecimals = of_int 150000000 \<or> d * assetDecimals = of_int 25000000"
      by (auto simp: assetDecimals_def)
    then show ?thesis unfolding wholeAmount_def by fastforce
  qed
  then show "wholeAmounts (demoEnv items)" by (simp add: wholeAmounts_def demoEnv_def)
qed

definition demoAfter :: "unit utxo_fsm" where
  "demoAfter = snd (sendTransfer Btc (demoParams demoItems) demoFsm)"

lemma demo_after: "sendTransfer Btc (demoParams demoItems) demoFsm = (Val (), demoAfter)"
  "ufSent demoAfter = [tbTx demoBuilt]" "ufSent demoFsm = []" "fsTransfer demoFsm = Some demoTransfer"
  "upEnv (demoParams demoItems) = demoEnv demoItems" "upLib (demoParams demoItems) = demoLib"
  using demo_send by (auto simp: demoAfter_def demoFsm_def newFSM_def setSnapshot_def demoParams_def split: prod.splits)


theorem hash_recorded_before_sending_witness:
  "\<exists>t. fsTransfer demoAfter = Some t \<and> trTxHash t = Some ''hash-t2t1''"
  using hash_recorded_before_sending [OF demo_after(1)]
  by (auto simp: demo_after demoLib_def demoBuilt_def demoTxIn_def)




text \<open>A hot wallet's transfer to the processing wallet of its owner.\<close>

definition demoHotTransfer :: transfer where
  "demoHotTransfer = demoTransfer\<lparr>trFromAddresses := [''hot-1''], trToAddresses := [''from-1''],
     trWalletFromType := WalletTypeHot\<rparr>"

definition demoHotFsm :: "unit utxo_fsm" where
  "demoHotFsm = newFSM Bch demoHotTransfer (demoWorld\<lparr>wdDb := demoDb\<lparr>dbTransfers := [demoHotTransfer],
     dbProcessingWallets := [\<lparr>wlBlockchain = BlockchainTypeBitcoinCash, wlAddress = ''from-1'',
        wlOwnerID = ''owner-1'', pwSequence = 0\<rparr>]\<rparr>\<rparr>)"

lemma demo_check: "checkWallet (demoEnv items) False BlockchainTypeBitcoinCash ''from-1'' (fsWorld demoHotFsm) =
   (Val \<lparr>cwWalletType = WalletTypeProcessing, cwOwnerID = ''owner-1'', cwExternalWalletID = None, cwIsActivated = None\<rparr>, fsWorld demoHotFsm)"
  by (simp add: checkWallet_def checkWalletInDatabase_def lookupOrNext_def hotGetByBlockchainAndAddress_def
      processingGetByBlockchainAndAddress_def noRowsToNotFound_def qHotGetByAddress_def qProcessingGetByAddress_def
      dbRead_def op_defs ofSum_def demoHotFsm_def newFSM_def setSnapshot_def demoWorld_def demoDb_def demoEnv_def
      dbView_outside oneRow_def walletIs_def errNoRows_def storeErrNotFound_def plainResult_def)

lemma demo_validate: "fst (validateRequest Bch (demoParams items) demoHotFsm) = Val ()"
proof -
  have w: "liftW (checkWallet (demoEnv items) False BlockchainTypeBitcoinCash ''from-1'') demoHotFsm =
     (Val \<lparr>cwWalletType = WalletTypeProcessing, cwOwnerID = ''owner-1'', cwExternalWalletID = None, cwIsActivated = None\<rparr>, demoHotFsm)"
    by (simp add: liftW_def demo_check)
  have t: "fsTransfer demoHotFsm = Some demoHotTransfer" by (simp add: demoHotFsm_def newFSM_def setSnapshot_def)
  have p: "upEnv (demoParams items) = demoEnv items" "upUseCacheForWallets (demoParams items) = False"
    "trFromAddresses demoHotTransfer = [''hot-1'']" "getToAddress demoHotTransfer = ''from-1''"
    "trToAddresses demoHotTransfer = [''from-1'']"
    "trWholeAmount demoHotTransfer" "trWalletFromType demoHotTransfer = WalletTypeHot" "trOwnerID demoHotTransfer = ''owner-1''"
    "trID demoHotTransfer = ''transfer-1''"
    by (simp_all add: demoParams_def demoHotTransfer_def demoTransfer_def getToAddress_def zeroTransfer_def)
  have "fst (setTransferStatus Bch (demoParams items) TransferStatusProcessing demoHotFsm) = Val ()"
    by (simp add: setTransferStatus_def op_defs theTransfer_def t p) (simp add: 
      eventTransferStatusCreateParams_def op_defs liftW_def transfersGetByID_def noRowsToNotFound_def qTransferGetByID_def dbRead_def
      demoHotFsm_def newFSM_def setSnapshot_def demoWorld_def demoDb_def demoEnv_def nilUuid_def dbView_outside transferRow_def
      oneRow_def demoHotTransfer_def demoTransfer_def ofSum_def qTxGetByTransfer_def qOwnerGetByID_def webhooksBatchCreate_def
      checkWebhookParams_def qWebhookCreate_def dbExec_def dbQuery_def dbApply_def Let_def insertWebhook_def transfersSetStatus_def
      qTransferSetStatus_def)
  then show ?thesis
    by (simp add: validateRequest_def whenS_def op_defs theTransfer_def t p w)
qed


section \<open>Unspent outputs\<close>

text \<open>The entries of the map: one for each hash, with an amount that is neither zero nor below the minimum.\<close>

definition entryOk :: "rat \<Rightarrow> utxo_item list \<Rightarrow> string \<times> utxo \<Rightarrow> bool" where
  "entryOk mn items kv \<longleftrightarrow> utTxHash (snd kv) = fst kv \<and> utAmount (snd kv) \<noteq> 0 \<and> (mn > 0 \<longrightarrow> mn \<le> utAmount (snd kv)) \<and>
     (\<exists>item\<in>set items. uiTxHash item = fst kv \<and> uiSequence item = utSequence (snd kv) \<and> uiPkScript item = utPkScript (snd kv))"

lemma collectUTXOs_entries:
  assumes "collectUTXOs env mn items m = Inr m'" and "distinct (map fst m)" and "\<forall>kv\<in>set m. entryOk mn all kv"
    and "set items \<subseteq> set all"
  shows "distinct (map fst m') \<and> (\<forall>kv\<in>set m'. entryOk mn all kv)"
  using assms
proof (induction items arbitrary: m)
  case (Cons item items)
  obtain d where d: "envDecimalParse env (uiAmount item) = Inr d"
    using Cons.prems(1) by (cases "envDecimalParse env (uiAmount item)") auto
  show ?case
  proof (cases "(mn > 0 \<and> d * assetDecimals < mn) \<or> d * assetDecimals = 0")
    case True
    with Cons.prems d have "collectUTXOs env mn items m = Inr m'" by (simp add: Let_def)
    from Cons.IH [OF this] Cons.prems(2-4) show ?thesis by simp
  next
    case False
    let ?u = "\<lparr>utTxHash = uiTxHash item, utSequence = uiSequence item, utAmount = d * assetDecimals, utPkScript = uiPkScript item\<rparr>"
    have run: "collectUTXOs env mn items (mapPut (uiTxHash item) ?u m) = Inr m'"
      using Cons.prems(1) d False by (auto simp add: Let_def split: if_splits)
    have "distinct (map fst (mapPut (uiTxHash item) ?u m))"
      using Cons.prems(2) by (auto simp: mapPut_def distinct_map inj_on_def)
    moreover have "\<forall>kv\<in>set (mapPut (uiTxHash item) ?u m). entryOk mn all kv"
      using Cons.prems(3,4) False by (auto simp: mapPut_def entryOk_def)
    ultimately show ?thesis using Cons.IH [OF run] Cons.prems(4) by simp
  qed
qed simp

text \<open>
  The unspent outputs found for an address have pairwise different transaction hashes, because the
  map that collects them is keyed by the hash alone: of two outputs of one transaction only one is
  spent. None of them is worth nothing or less than the configured minimum.
\<close>

theorem one_output_per_transaction:
  assumes "getAddressUTXO c p a s = (Val us, s')" and "mapOrderOk (upEnv p)"
  shows "distinct (map utTxHash us) \<and>
    (\<forall>u\<in>set us. utAmount u \<noteq> 0 \<and> (minUTXOAmount p > 0 \<longrightarrow> minUTXOAmount p \<le> utAmount u))"
proof -
  obtain items m ks x x' where m: "collectUTXOs (upEnv p) (minUTXOAmount p) items [] = Inr m"
    and ks: "envMapOrder (upEnv p) (map fst m) x = (ks, x')" and us: "us = map (\<lambda>k. the (map_of m k)) ks"
    using assms(1) by (auto simp: getAddressUTXO_def op_Val liftE_def liftW_def liftExt_def split: prod.splits)
  from collectUTXOs_entries [OF m, of items] have ok: "distinct (map fst m)" "\<forall>kv\<in>set m. entryOk (minUTXOAmount p) items kv" by auto
  have ms: "mset ks = mset (map fst m)" using assms(2) ks by (metis fst_conv mapOrderOk_def)
  have e: "entryOk (minUTXOAmount p) items (k, the (map_of m k))" if "k \<in> set ks" for k
  proof -
    have "k \<in> set (map fst m)" using that mset_eq_setD [OF ms] by simp
    then obtain v where "map_of m k = Some v" by (cases "map_of m k") (auto simp: map_of_eq_None_iff)
    with map_of_SomeD [OF this] ok(2) show ?thesis by fastforce
  qed
  then have "map utTxHash us = ks" using us by (auto simp: entryOk_def intro: map_idI)
  moreover have "distinct ks" using ok(1) ms by (metis mset_eq_imp_distinct_iff)
  ultimately show ?thesis using us e by (auto simp: entryOk_def)
qed

text \<open>Two outputs of the transaction \<open>t1\<close>, 1.75 coins together: only the second one is found.\<close>

definition demoTwins :: "utxo_item list" where
  "demoTwins =
     [\<lparr>uiTxHash = ''t1'', uiSequence = 0, uiAmount = ''1.5'', uiPkScript = ''0014''\<rparr>,
      \<lparr>uiTxHash = ''t1'', uiSequence = 1, uiAmount = ''0.25'', uiPkScript = ''0014''\<rparr>]"

lemma demo_twins: "getAddressUTXO Btc (demoParams demoTwins) a s =
  (Val [\<lparr>utTxHash = ''t1'', utSequence = 1, utAmount = 25000000, utPkScript = ''0014''\<rparr>], s)"
  by (simp add: getAddressUTXO_def op_defs ofSum_def liftE_def liftW_def liftExt_def demoParams_def demoEnv_def
      demoTwins_def demoParse_def mapPut_def Let_def assetDecimals_def minUTXOAmount_def)

theorem one_output_per_transaction_witness:
  "getAddressUTXO Btc (demoParams demoTwins) ''from-1'' demoFsm =
     (Val [\<lparr>utTxHash = ''t1'', utSequence = 1, utAmount = 25000000, utPkScript = ''0014''\<rparr>], demoFsm) \<and> distinct [''t1'']"
proof -
  have "mapOrderOk (upEnv (demoParams demoTwins))" using demo_env(1) by (simp add: demoParams_def)
  from one_output_per_transaction [where s = demoFsm, OF demo_twins this] demo_twins show ?thesis by simp
qed

end
