(* ===== verification/UtxoRun.thy ===== *)
theory UtxoRun
  imports UtxoSend
begin

text \<open>
  Whole runs of the machines of the coins with unspent outputs: how often they send, what a run does
  after the transaction was sent or seen, and what the failure handler leaves behind.
\<close>

section \<open>How often the transaction is sent\<close>

lemma utxoHooks_func:
  "hFunc (utxoHooks c p) i j = Some f \<Longrightarrow>
     (i, j, f) \<in> {(0, 0, validateRequest c p), (1, 0, sendTransfer c p), (2, 0, waitingInMempool c p),
       (2, 1, waitingForTheFirstConfirmation c p), (2, 2, waitingConfirmations c p), (2, 3, sendSuccessEvent c p)}"
  by (auto simp: utxoHooks_def utxoFuncs_def less_Suc_eq numeral_3_eq_3 nth_Cons' split: if_splits)

lemma sendTransfer_length: "length (ufSent (snd (sendTransfer c p s))) \<le> length (ufSent s) + 1"
proof -
  obtain r s' where st: "sendTransfer c p s = (r, s')" by (rule prod.exhaust)
  from sendTransfer_sent [OF st] have "ufSent s' = ufSent s \<or> (\<exists>tx. ufSent s' = ufSent s @ [tx])" by blast
  with st show ?thesis by auto
qed

lemma utxoHooks_none:
  "hStepBefore (utxoHooks c p) i j = None" "hStepAfter (utxoHooks c p) i j = None"
  "hStageBefore (utxoHooks c p) i = None" "hStageAfter (utxoHooks c p) i = None"
  "hBefore (utxoHooks c p) = None" "hBeforeAll (utxoHooks c p) = Some (\<lambda>_ _. saveSnapshot (upEnv p))"
  "hAfter (utxoHooks c p) = Some (saveSnapshot (upEnv p))"
  "hAfterAll (utxoHooks c p) = Some (\<lambda>_ _. saveSnapshot (upEnv p))"
  "length (ufSent (hSleep (utxoHooks c p) d s)) = length (ufSent s)"
  by (simp_all add: utxoHooks_def)

interpretation sent: counted_hooks "utxoHooks c p" "\<lambda>s. length (ufSent s)" 1 0 for c and p :: "'e utxo_params"
proof
  fix w i j f x
  show "hFunc (utxoHooks c p) i j = Some f \<Longrightarrow> (i, j) \<noteq> (1, 0) \<Longrightarrow> keeps (\<lambda>s. length (ufSent s)) f"
    using keeps_steps(1-5) [where v = "\<lambda>s. length (ufSent s)" and c = c and p = p]
    by (auto dest: utxoHooks_func)
  show "hFunc (utxoHooks c p) 1 0 = Some f \<Longrightarrow> length (ufSent (snd (f w))) \<le> length (ufSent w) + 1"
  proof -
    assume "hFunc (utxoHooks c p) 1 0 = Some f"
    from utxoHooks_func [OF this] have "f = sendTransfer c p" by simp
    with sendTransfer_length [of c p w] show ?thesis by simp
  qed
next
  have k: "keeps (\<lambda>s :: 'e utxo_fsm. length (ufSent s)) (saveSnapshot (upEnv p))" by (rule keeps_steps(6)) simp
  fix g i j f
  show "hBeforeAll (utxoHooks c p) = Some g \<Longrightarrow> keeps (\<lambda>s. length (ufSent s)) (g i j)"
    "hAfterAll (utxoHooks c p) = Some g \<Longrightarrow> keeps (\<lambda>s. length (ufSent s)) (g i j)"
    "hAfter (utxoHooks c p) = Some f \<Longrightarrow> keeps (\<lambda>s. length (ufSent s)) f"
    unfolding utxoHooks_none option.inject by (erule subst, rule k)+
qed (simp_all add: utxoHooks_none)

text \<open>The stages of a machine built from a transfer: those of the code, with the states of the snapshot.\<close>

lemma newFSM_stages: "wStages (newFSM c t w) = fold restoreState (StepsStates (trSnapshot t)) utxoStages"
  by (simp add: newFSM_def setSnapshot_def)

lemma utxo_fresh: "freshStages utxoStages"
  by (simp add: freshStages_def utxoStages_def newStep_def utxo_names)

lemmas utxo_init = fresh_init [OF newFSM_stages utxo_fresh]
  and utxo_retries = fresh_retries [OF newFSM_stages utxo_fresh]
  and utxo_bounded = fresh_bounded [OF newFSM_stages utxo_fresh]

lemma keeps_onFailure:
  assumes "\<And>s x. v (s\<lparr>fsWorld := x\<rparr>) = v s" and "\<And>s x y. v (s\<lparr>wState := x, wSkipError := y\<rparr>) = v s"
  shows "keeps v (onFailure c p e)"
  unfolding onFailure_def sendFailureEvent_def
  by (intro keeps_intros keeps_liftW keeps_modS assms)

lemma runFinish_keeps:
  assumes "\<And>s x. v (s\<lparr>fsWorld := x\<rparr>) = v s" and "\<And>s x y. v (s\<lparr>wState := x, wSkipError := y\<rparr>) = v s"
  shows "v (snd (runFinish (utxoHooks c p) r s)) = v s"
proof -
  have "v s' = v s" if "onFailure c p e s = (r', s')" for e r' s'
    by (rule keepsD [OF keeps_onFailure [of v c p e] that]) (rule assms)+
  then show ?thesis
    by (auto simp: runFinish_def utxoHooks_def split: outcome.splits prod.splits)
qed

text \<open>
  C3. Whatever the snapshot of the transfer, the database and the node do, a run of the machine ends, and
  it hands at most one transaction to the node.
\<close>

theorem run_sends_at_most_once:
  "\<exists>r s'. runFSM c p Ended t w = Some (r, s') \<and> length (ufSent s') \<le> 1"
proof -
  let ?w0 = "(newFSM c t w)\<lparr>wStages := map initStage (wStages (newFSM c t w))\<rparr>"
  have "\<exists>y. execute (utxoHooks c p) (newFSM c t w) = Some y \<and>
      length (ufSent (snd y)) \<le> length (ufSent (newFSM c t w)) + sent.allow ?w0"
    by (rule sent.execute_allow [OF utxo_init utxo_bounded])
  then obtain r s1 where e: "execute (utxoHooks c p) (newFSM c t w) = Some (r, s1)"
    and l: "length (ufSent s1) \<le> length (ufSent (newFSM c t w)) + sent.allow ?w0"
    by (metis prod.collapse)
  have "sent.allow ?w0 \<le> nat 1" by (rule sent.allow_le [OF utxo_retries])
  moreover have "ufSent (newFSM c t w) = []" by (simp add: newFSM_def setSnapshot_def)
  moreover have "ufSent (snd (runFinish (utxoHooks c p) r s1)) = ufSent s1" by (rule runFinish_keeps) simp_all
  ultimately show ?thesis using e l
    by (cases "runFinish (utxoHooks c p) r s1") (simp add: runFSM_def runWorkflow_def)
qed


section \<open>Runs after the sending\<close>

lemma runFSM_cases:
  assumes "runFSM c p Ended t w = Some (r, s')"
  shows "\<exists>r1 s1. execute (utxoHooks c p) (newFSM c t w) = Some (r1, s1) \<and> runFinish (utxoHooks c p) r1 s1 = (r, s')"
  using assms by (auto simp: runFSM_def runWorkflow_def)

text \<open>
  C4. A transfer whose snapshot says that the sending step was completed or skipped is not sent again:
  the run ends and hands no transaction to the node.
\<close>

theorem sent_transfer_is_not_sent_again:
  assumes "statusAt (newFSM c t w) 1 0 = Some st" and "settled st"
  shows "\<exists>r s'. runFSM c p Ended t w = Some (r, s') \<and> ufSent s' = []"
proof -
  from sent.execute_settled [OF utxo_init utxo_bounded assms] obtain r s1 where
    e: "execute (utxoHooks c p) (newFSM c t w) = Some (r, s1)" and l: "length (ufSent s1) \<le> length (ufSent (newFSM c t w))"
    by (metis prod.collapse)
  have "ufSent (newFSM c t w) = []" by (simp add: newFSM_def setSnapshot_def)
  moreover have "ufSent (snd (runFinish (utxoHooks c p) r s1)) = ufSent s1" by (rule runFinish_keeps) simp_all
  ultimately show ?thesis using e l
    by (cases "runFinish (utxoHooks c p) r s1") (simp add: runFSM_def runWorkflow_def)
qed

text \<open>
  A stage that ends well has settled every one of its steps: each is completed or was skipped.
\<close>

theorem stage_success_settles_steps:
  assumes "handleStage (utxoHooks c p) i s = Some (Val u, s')" and "j < length (sgSteps (wStages s ! i))"
  shows "\<exists>st. statusAt s' i j = Some st \<and> settled st"
proof -
  obtain sg s3 s4 where sg: "stageAt s i = Some sg"
    and rs: "runSteps (utxoHooks c p) i [0..<length (sgSteps sg)] s3 = Some (Val (), s4)" and s4: "s' = s4"
    using assms(1) unfolding handleStage_def
    by (auto simp: Let_def utxoHooks_none runOpt_def ret_def split: option.split_asm if_split_asm outcome.split_asm prod.split_asm)
  have "j \<in> set [0..<length (sgSteps sg)]" using sg assms(2) by (auto simp: stageAt_def split: if_split_asm)
  from utxo.runSteps_passed [OF rs this] s4 show ?thesis by simp
qed


section \<open>Failures\<close>

text \<open>The failure handler after the sending: nothing happens.\<close>

lemma onFailure_after_sending:
  assumes "currentStage s = (Val (Some sg), s)" and "sgName sg = stageAfterSending"
  shows "runFinish (utxoHooks c p) (Err e) s = ((if wSkipError s then Val () else Err e), s)"
  using assms by (simp add: runFinish_def utxoHooks_def onFailure_def op_defs)

text \<open>A run does not touch the flag that hides its error.\<close>

definition skipFlag :: "'e utxo_fsm \<Rightarrow> nat" where
  "skipFlag s = (if wSkipError s then 1 else 0)"

lemma skipFlag_world: "skipFlag (s\<lparr>fsWorld := x\<rparr>) = skipFlag s"
  by (simp add: skipFlag_def)

lemma keeps_skipFlag:
  "keeps skipFlag (sendTransfer c p)" "keeps skipFlag (saveSnapshot (upEnv p) :: 'e utxo_fsm act)"
  "(i, j, f) \<in> {(0, 0, validateRequest c p), (2, 0, waitingInMempool c p),
       (2, 1, waitingForTheFirstConfirmation c p), (2, 2, waitingConfirmations c p), (2, 3, sendSuccessEvent c p)} \<Longrightarrow>
   keeps skipFlag f"
proof -
  show "keeps skipFlag (sendTransfer c p)"
    unfolding sendTransfer_def broadcast_def
    by (intro keeps_intros keeps_prepareTransfer keeps_modS keeps_liftW keeps_liftE) (simp_all add: skipFlag_def)
  show "keeps skipFlag (saveSnapshot (upEnv p) :: 'e utxo_fsm act)"
    by (rule keeps_steps(6)) (simp add: skipFlag_def)
  from keeps_steps(1-5) [where v = skipFlag and c = c and p = p, OF skipFlag_world]
  show "(i, j, f) \<in> {(0, 0, validateRequest c p), (2, 0, waitingInMempool c p),
       (2, 1, waitingForTheFirstConfirmation c p), (2, 2, waitingConfirmations c p), (2, 3, sendSuccessEvent c p)} \<Longrightarrow>
   keeps skipFlag f" by auto
qed

interpretation flag: counted_hooks "utxoHooks c p" skipFlag 9 9 for c and p :: "'e utxo_params"
proof
  have k: "keeps skipFlag f" if "hFunc (utxoHooks c p) i j = Some f" for i j f
    using utxoHooks_func [OF that] keeps_skipFlag(1) [of c p] keeps_skipFlag(3) [of i j f c p] by auto
  fix i j f w
  show "hFunc (utxoHooks c p) i j = Some f \<Longrightarrow> (i, j) \<noteq> (9, 9) \<Longrightarrow> keeps skipFlag f" by (rule k)
  show "hFunc (utxoHooks c p) 9 9 = Some f \<Longrightarrow> skipFlag (snd (f w)) \<le> skipFlag w + 1"
    using keeps_snd [OF k] by simp
next
  fix g i j f
  show "hBeforeAll (utxoHooks c p) = Some g \<Longrightarrow> keeps skipFlag (g i j)"
    "hAfterAll (utxoHooks c p) = Some g \<Longrightarrow> keeps skipFlag (g i j)"
    "hAfter (utxoHooks c p) = Some f \<Longrightarrow> keeps skipFlag f"
    unfolding utxoHooks_none option.inject by (erule subst, rule keeps_skipFlag(2))+
qed (simp_all add: utxoHooks_none skipFlag_def, simp_all add: utxoHooks_def)

text \<open>The stages of a run, seen from its end.\<close>

lemma utxo_end_stages:
  assumes "execute (utxoHooks c p) (newFSM c t w) = Some (r, s)"
  shows "map sgName (wStages s) = [stageBeforeSending, stageSending, stageAfterSending]"
    "\<forall>sg\<in>set (wStages s). \<forall>st\<in>set (sgSteps sg). spState st \<noteq> None"
proof -
  let ?w0 = "(newFSM c t w)\<lparr>wStages := map initStage (wStages (newFSM c t w))\<rparr>"
  have sh: "shape s = shape ?w0" using utxo.execute_shape [OF assms] by (simp add: utxo_init)
  have nm: "map sgName (shape u) = map sgName (wStages u)" for u :: "'a utxo_fsm" by (simp add: shape_def o_def)
  have "map sgName (wStages ?w0) = [stageBeforeSending, stageSending, stageAfterSending]"
    by (simp add: newFSM_stages fold_restoreState initStage_def utxoStages_def o_def)
  with arg_cong [OF sh, of "map sgName"] show "map sgName (wStages s) = [stageBeforeSending, stageSending, stageAfterSending]"
    by (simp add: nm)
  have st: "(\<forall>sg\<in>set (shape u). \<forall>st\<in>set (sgSteps sg). spState st \<noteq> None) \<longleftrightarrow>
      (\<forall>sg\<in>set (wStages u). \<forall>st\<in>set (sgSteps sg). spState st \<noteq> None)" for u :: "'a utxo_fsm"
    by (simp add: shape_def bareStep_def)
  have "\<forall>sg\<in>set (wStages ?w0). \<forall>st\<in>set (sgSteps sg). spState st \<noteq> None"
    by (auto simp: initStage_def initStep_def setDefaultValues_def Let_def)
  then show "\<forall>sg\<in>set (wStages s). \<forall>st\<in>set (sgSteps sg). spState st \<noteq> None"
    using sh st [of s] st [of ?w0] by simp
qed

lemma currentStage_last:
  assumes "map sgName (wStages s) = [a, b, d]"
    and "\<forall>sg\<in>set (wStages s). \<forall>st\<in>set (sgSteps sg). spState st \<noteq> None"
    and "statusAt s 2 j = Some st" and "validStatus st"
  shows "\<exists>sg. currentStage s = (Val (Some sg), s) \<and> sgName sg = d"
proof -
  obtain s0 s1 s2 where sgs: "wStages s = [s0, s1, s2]" "sgName s2 = d" using assms(1) by auto
  have "scanPanics (allSteps s) = False"
  proof -
    have "\<forall>st\<in>set (allSteps s). spState st \<noteq> None" using assms(2) by (auto simp: allSteps_def)
    then have "\<forall>st\<in>set (dropWhile P (rev (allSteps s))). spState st \<noteq> None" for P
      by (metis dropWhile_eq_drop set_drop_subset set_rev subsetD)
    from this [of "\<lambda>st. \<exists>ss. spState st = Some ss \<and> \<not> validStatus (Status ss)"]
    show ?thesis by (auto simp: scanPanics_def split: list.split)
  qed
  moreover have "stageValid s2"
    using assms(3,4) sgs(1) by (force simp: stageValid_def statusAt_def stepAt_def stageAt_def split: option.split_asm if_split_asm)
  ultimately show ?thesis using sgs by (simp add: currentStage_def)
qed

text \<open>
  Once the transaction was seen in the mempool the machine never marks the transfer as failed on
  its own: whatever goes wrong in the rest of the run is returned to the queue, and the failure
  handler changes nothing.
\<close>

theorem failure_after_mempool_is_left_to_the_queue:
  assumes "statusAt (newFSM c t w) 2 0 = Some st" and "settled st"
    and "runFSM c p Ended t w = Some (r, s')"
  shows "execute (utxoHooks c p) (newFSM c t w) = Some (r, s') \<and> wSkipError s' = False"
proof -
  obtain r1 s1 where e: "execute (utxoHooks c p) (newFSM c t w) = Some (r1, s1)"
    and f: "runFinish (utxoHooks c p) r1 s1 = (r, s')" using runFSM_cases [OF assms(3)] by blast
  have "statusAt s1 2 0 = Some st" by (rule utxo.execute_effect [OF e assms(1,2)])
  moreover have "validStatus st" using assms(2) by (auto simp: settled_def)
  ultimately obtain sg where cs: "currentStage s1 = (Val (Some sg), s1)" "sgName sg = stageAfterSending"
    using currentStage_last [OF utxo_end_stages [OF e]] by blast
  have "skipFlag s1 \<le> skipFlag (newFSM c t w) + 0"
  proof -
    have "flag.allow ((newFSM c t w)\<lparr>wStages := map initStage (wStages (newFSM c t w))\<rparr>) = 0"
      by (simp add: flag.allow_def retriesAt_def stepAt_def stageAt_def newFSM_stages fold_restoreState utxoStages_def)
    with flag.execute_allow [OF utxo_init utxo_bounded, of c p c t w] e show ?thesis by simp
  qed
  then have "\<not> wSkipError s1" by (simp add: skipFlag_def newFSM_def setSnapshot_def split: if_split_asm)
  with f e onFailure_after_sending [OF cs, of c p] show ?thesis
    by (cases r1) (auto simp: runFinish_def)
qed

lemma sendFailureEvent_ok:
  fixes p :: "'e utxo_params"
  assumes "sendFailureEvent c p e s = (Val u, s')" and "fsTransfer s = Some t"
  shows "storedStatus (trID t) (wdDb (fsWorld s')) = Some TransferStatusFailed \<and>
    (\<exists>h\<in>set (dbWebhooks (wdDb (fsWorld s'))). whStatus h = WebhookStatusNew \<and>
       spStatus (whPayload h) = TransferStatusFailed \<and> spErrorMessage (whPayload h) = errStr e) \<and>
    wSkipError s' \<and> wState s' = (wState s)\<lparr>IsFailed := True\<rparr>"
proof -
  let ?ev = "\<lambda>t2 nm. \<lparr>evIsSystem = False, evTransferID = trID t2, evOwnerID = trOwnerID t2,
      evStatus = TransferStatusFailed, evStep = nm, evErrorMessage = errStr e\<rparr>"
  let ?flag = "\<lambda>s :: 'e utxo_fsm. s\<lparr>wState := setWfError None ((wState s)\<lparr>IsFailed := True\<rparr>), wSkipError := True\<rparr>"
  obtain nm s0 t2 ps s1 u1 s2 sh u2 s3 u3 s4 where nm: "(if c = Btc then currentStepName else ret []) s = (Val nm, s0)"
    and t2: "fsTransfer s0 = Some t2"
    and e: "eventTransferStatusCreateParams (upEnv p) (?ev t2 nm) (fsWorld s0) = (Val ps, fsWorld (s1 :: 'e utxo_fsm))"
    and s1: "liftW (eventTransferStatusCreateParams (upEnv p) (?ev t2 nm)) s0 = (Val ps, s1)"
    and fl: "modS ?flag s1 = (Val u1, s2)" and sh: "getSnapshot s2 = (Val sh, s2)"
    and sn: "transfersSetWorkflowSnapshot (upEnv p) False (trID t2) sh (fsWorld s2) = (Val u2, fsWorld (s3 :: 'e utxo_fsm))"
    and s3: "liftW (transfersSetWorkflowSnapshot (upEnv p) False (trID t2) sh) s2 = (Val u2, s3)"
    and h: "webhooksBatchCreate (upEnv p) False [ps] (fsWorld s3) = (Val u3, fsWorld (s4 :: 'e utxo_fsm))"
    and s4: "liftW (webhooksBatchCreate (upEnv p) False [ps]) s3 = (Val u3, s4)"
    and st: "transfersSetStatus (upEnv p) False (trID t2) TransferStatusFailed (fsWorld s4) = (Val u, fsWorld s')"
    and s': "liftW (transfersSetStatus (upEnv p) False (trID t2) TransferStatusFailed) s4 = (Val u, s')"
  proof -
    from assms(1) obtain nm s0 t2 ps s1 u1 s2 sh s20 u2 s3 u3 s4 where
      a: "(if c = Btc then currentStepName else ret []) s = (Val nm, s0)" "fsTransfer s0 = Some t2"
      "liftW (eventTransferStatusCreateParams (upEnv p) (?ev t2 nm)) s0 = (Val ps, s1)"
      "modS ?flag s1 = (Val u1, s2)" "getSnapshot s2 = (Val sh, s20)"
      "liftW (transfersSetWorkflowSnapshot (upEnv p) False (trID t2) sh) s20 = (Val u2, s3)"
      "liftW (webhooksBatchCreate (upEnv p) False [ps]) s3 = (Val u3, s4)"
      "liftW (transfersSetStatus (upEnv p) False (trID t2) TransferStatusFailed) s4 = (Val u, s')"
      unfolding sendFailureEvent_def bnd_Val wrapErr_Val theTransfer_Val by blast
    have "s20 = s2" by (rule keepsD [of "\<lambda>x. x", OF keeps_getSnapshot a(5)])
    with a show ?thesis using that by (meson liftW_Val)
  qed
  have k: "keeps (\<lambda>s. s) (if c = Btc then currentStepName else ret [])" by (intro keeps_intros)
  have s0: "s0 = s" by (rule keepsD [OF k nm])
  with t2 assms(2) have t2: "t2 = t" by simp
  have kl: "keeps (\<lambda>s :: 'e utxo_fsm. (wState s, wSkipError s)) (liftW m)" for m :: "('e world, 'x) op"
    by (rule keeps_liftW) simp
  have w2: "fsWorld s2 = fsWorld s1" "wState s2 = (wState s)\<lparr>IsFailed := True\<rparr>" "wSkipError s2"
    using fl keepsD [OF kl s1] s0 by (auto simp: modS_Val setWfError_def)
  from eventParams_Val [OF e [unfolded s0 t2]] obtain row own txs where
    d1: "wdDb (fsWorld s1) = wdDb (fsWorld s)" and row: "transferRow (trID t) (wdDb (fsWorld s)) = Inr row"
    and ps: "ps = announced (?ev t nm) row txs own" by auto
  from transfersSetWorkflowSnapshot_Val [OF sn, of row] t2 row d1 w2(1) obtain row' where
    row': "transferRow (trID t) (wdDb (fsWorld s3)) = Inr row'" by auto
  from webhooksBatchCreate_Val [OF h] obtain now where
    d4: "wdDb (fsWorld s4) = (wdDb (fsWorld s3))\<lparr>dbWebhooks := insertWebhook now ps (dbWebhooks (wdDb (fsWorld s3)))\<rparr>" by blast
  have "transferRow (trID t) (wdDb (fsWorld s4)) = Inr row'" using row' d4 by (simp add: transferRow_def)
  from transfersSetStatus_Val [OF st [unfolded t2] this] d4
  have f: "storedStatus (trID t) (wdDb (fsWorld s')) = Some TransferStatusFailed"
    "dbWebhooks (wdDb (fsWorld s')) = insertWebhook now ps (dbWebhooks (wdDb (fsWorld s3)))" by auto
  from insertWebhook_in [of now ps "dbWebhooks (wdDb (fsWorld s3))"] obtain x where
    x: "x \<in> set (dbWebhooks (wdDb (fsWorld s')))" "whPayload x = wpPayload ps" "whStatus x = WebhookStatusNew"
    unfolding f(2) by (auto simp: ps announced_def)
  have "(wState s', wSkipError s') = (wState s2, wSkipError s2)"
    using keepsD [OF kl s'] keepsD [OF kl s4] keepsD [OF kl s3] by simp
  with f(1) x w2 show ?thesis by (auto simp: ps announced_def intro!: bexI [of _ x])
qed

text \<open>
  C38. A failure before the last stage, recorded without a failure of its own, marks the transfer as
  failed, queues a webhook with the error's text and hides the error from the queue, so that the job
  is not tried again. The text of the error is not in the workflow's state: \<open>SetError\<close> is called with
  the nil result of the preceding call and leaves the field as it was.
\<close>

theorem failure_before_confirmation_is_final:
  fixes p :: "'e utxo_params"
  assumes "currentStage s = (Val (Some sg), s)" and "sgName sg \<noteq> stageAfterSending"
    and "fsTransfer s = Some t" and "sendFailureEvent c p e s = (Val u, s')"
  shows "runFinish (utxoHooks c p) (Err e) s = (Val (), s') \<and>
    storedStatus (trID t) (wdDb (fsWorld s')) = Some TransferStatusFailed \<and>
    (\<exists>h\<in>set (dbWebhooks (wdDb (fsWorld s'))). whStatus h = WebhookStatusNew \<and>
       spStatus (whPayload h) = TransferStatusFailed \<and> spErrorMessage (whPayload h) = errStr e) \<and>
    IsFailed (wState s') \<and> WfError (wState s') = WfError (wState s)"
proof -
  note ok = sendFailureEvent_ok [OF assms(4,3)]
  moreover have "runFinish (utxoHooks c p) (Err e) s = (Val (), s')"
    using assms(1,2,4) ok by (simp add: runFinish_def utxoHooks_def onFailure_def bnd_def)
  ultimately show ?thesis by simp
qed


section \<open>The properties at sample transfers\<close>

text \<open>A transfer that was sent and seen in the mempool, and the machine after the initialisation.\<close>

definition demoSent :: transfer where
  "demoSent = demoTransfer\<lparr>trSnapshot := \<lparr>StepsStates =
      [newStepState\<lparr>CurrentStage := stageSending, CurrentStep := stepSending, Status := StatusCompleted\<rparr>,
       newStepState\<lparr>CurrentStage := stageAfterSending, CurrentStep := stepWaitingInMempool, Status := StatusCompleted\<rparr>],
     WorkflowState = newWorkflowState\<rparr>\<rparr>"

definition demoStarted :: "transfer \<Rightarrow> unit utxo_fsm" where
  "demoStarted t = snd (initWorkflow (newFSM Ltc t demoWorld))"

lemma demo_started_stages: "wStages (demoStarted t) = map initStage (wStages (newFSM Ltc t demoWorld))"
  by (simp add: demoStarted_def utxo_init)

lemma demo_sent_status:
  "statusAt (newFSM c demoSent w) 1 0 = Some StatusCompleted" "statusAt (newFSM c demoSent w) 2 0 = Some StatusCompleted"
  by (simp_all add: statusAt_def stepAt_def stageAt_def newFSM_stages fold_restoreState utxoStages_def newStep_def
      demoSent_def restoreState_def utxo_names newStepState_def)

theorem sent_transfer_is_not_sent_again_witness:
  "\<exists>r s'. runFSM Btc (demoParams demoItems) Ended demoSent demoWorld = Some (r, s') \<and> ufSent s' = []"
  by (rule sent_transfer_is_not_sent_again [OF demo_sent_status(1)]) (simp add: settled_def)

lemma demo_sent_stage: "handleStage (utxoHooks Ltc (demoParams [])) 1 (demoStarted demoSent) = Some (Val (), demoStarted demoSent)"
proof -
  have st: "stageAt (demoStarted demoSent) 1 = Some (wStages (demoStarted demoSent) ! 1)"
    "length (sgSteps (wStages (demoStarted demoSent) ! 1)) = 1" "sgName (wStages (demoStarted demoSent) ! 1) = ''sending''"
    by (simp_all add: demo_started_stages stageAt_def newFSM_stages fold_restoreState utxoStages_def newStep_def initStage_def utxo_names)
  have "stepAt (demoStarted demoSent) 1 0 = Some (sgSteps (wStages (demoStarted demoSent) ! 1) ! 0)"
    using st by (simp add: stepAt_def)
  have "statusAt (demoStarted demoSent) 1 0 = Some StatusCompleted"
    using initWorkflow_status [OF utxo_init demo_sent_status(1), of Ltc demoWorld]
    by (simp add: demoStarted_def utxo_init)
  then obtain sp ss where sp: "stepAt (demoStarted demoSent) 1 0 = Some sp" "spState sp = Some ss" "Status ss = StatusCompleted"
    by (auto simp: statusAt_def split: option.split_asm)
  have w: "wState (demoStarted demoSent) = newWorkflowState"
    unfolding demoStarted_def utxo_init by (simp add: newFSM_def setSnapshot_def demoSent_def)
  show ?thesis
    using st sp w length_greater_0_conv [of "sgSteps (wStages (demoStarted demoSent) ! 1)"]
    by (simp add: handleStage_def Let_def checkStatus_def newWorkflowState_def utxoHooks_none runOpt_def ret_def
        handleStep_def) (simp add: utxoHooks_def demoParams_def demoEnv_def errIs.simps)
qed

theorem stage_success_settles_steps_witness:
  "\<exists>st. statusAt (demoStarted demoSent) 1 0 = Some st \<and> settled st"
  by (rule stage_success_settles_steps [OF demo_sent_stage])
    (simp add: demo_started_stages newFSM_stages fold_restoreState utxoStages_def newStep_def initStage_def)

lemma runFSM_ends: "\<exists>r s'. runFSM c p Ended t w = Some (r, s')"
  using sent.execute_allow [OF utxo_init utxo_bounded, of c p c t w]
  by (auto simp: runFSM_def runWorkflow_def)

theorem failure_after_mempool_is_left_to_the_queue_witness:
  "\<exists>r s'. runFSM Btc (demoParams demoItems) Ended demoSent demoWorld = Some (r, s') \<and>
     execute (utxoHooks Btc (demoParams demoItems)) (newFSM Btc demoSent demoWorld) = Some (r, s')"
proof -
  obtain r s' where run: "runFSM Btc (demoParams demoItems) Ended demoSent demoWorld = Some (r, s')"
    using runFSM_ends by blast
  from failure_after_mempool_is_left_to_the_queue [OF demo_sent_status(2) _ run] run show ?thesis
    by (simp add: settled_def)
qed

lemma demo_started: "demoStarted demoTransfer =
  \<lparr>wName = ''LTC FSM'', wState = newWorkflowState, wStages = map initStage utxoStages, wPrevStep = None,
   wSkipError = False, fsTransfer = Some demoTransfer, fsWorld = demoWorld, ufSent = []\<rparr>"
  unfolding demoStarted_def utxo_init snd_conv
  by (simp add: newFSM_def setSnapshot_def demoTransfer_def zeroTransfer_def)

lemma demo_failure: "\<exists>s'. sendFailureEvent Ltc (demoParams []) (ErrText ''boom'') (demoStarted demoTransfer) = (Val (), s')"
proof -
  have st: "\<forall>sg\<in>set utxoStages. \<forall>st\<in>set (sgSteps (initStage sg)). \<exists>y. spState st = Some y"
    by (auto simp: initStage_def initStep_def setDefaultValues_def Let_def)
  show ?thesis
    using st
    by (simp add: sendFailureEvent_def op_defs theTransfer_def demo_started)
      (simp add: getSnapshot_def stepStates_def allSteps_def setWfError_def
      eventTransferStatusCreateParams_def op_defs liftW_def transfersGetByID_def noRowsToNotFound_def qTransferGetByID_def dbRead_def
      demoWorld_def demoDb_def demoParams_def demoEnv_def nilUuid_def dbView_outside transferRow_def
      oneRow_def demoTransfer_def ofSum_def qTxGetByTransfer_def qOwnerGetByID_def webhooksBatchCreate_def
      checkWebhookParams_def qWebhookCreate_def dbExec_def dbQuery_def dbApply_def Let_def insertWebhook_def transfersSetStatus_def
      transfersSetWorkflowSnapshot_def qTransferSetSnapshot_def
      qTransferSetStatus_def)
qed

theorem failure_before_confirmation_is_final_witness:
  "\<exists>s'. runFinish (utxoHooks Ltc (demoParams [])) (Err (ErrText ''boom'')) (demoStarted demoTransfer) = (Val (), s') \<and>
     storedStatus ''transfer-1'' (wdDb (fsWorld s')) = Some TransferStatusFailed"
proof -
  obtain s' where f: "sendFailureEvent Ltc (demoParams []) (ErrText ''boom'') (demoStarted demoTransfer) = (Val (), s')"
    using demo_failure by blast
  obtain sg where sg: "currentStage (demoStarted demoTransfer) = (Val (Some sg), demoStarted demoTransfer)" "sgName sg = stageBeforeSending"
    by (simp add: demo_started currentStage_def scanPanics_def allSteps_def utxoStages_def newStep_def initStage_def initStep_def
        setDefaultValues_def Let_def newStepState_def stageValid_def)
  have t: "fsTransfer (demoStarted demoTransfer) = Some demoTransfer" "trID demoTransfer = ''transfer-1''"
    by (simp_all add: demo_started) (simp add: demoTransfer_def)
  have "sgName sg \<noteq> stageAfterSending" using sg(2) by (simp add: utxo_names)
  from failure_before_confirmation_is_final [OF sg(1) this t(1) f] t(2) show ?thesis by auto
qed

end
