(* ===== verification/EvmFee.thy ===== *)
theory EvmFee
  imports Store
begin

text \<open>
  \<open>pkg/walletsdk/evm\<close>: the units of an amount (unit.go), the estimate of the fee of a transaction
  (estimate.go) and the derivation of a wallet (wallet.go). The client of the node and the libraries
  of go-ethereum are the functions of the records \<open>evm_node\<close> and \<open>evm_lib\<close>; a \<open>big.Int\<close> is an \<open>int\<close>.
\<close>

section \<open>Units\<close>

datatype ether_unit =
    EtherUnitWei | EtherUnitKWei | EtherUnitMWei | EtherUnitGWei | EtherUnitSzabo | EtherUnitFinney
  | EtherUnitEther | OtherEtherUnit int

fun UnitMap :: "ether_unit \<Rightarrow> rat" where
  "UnitMap EtherUnitWei = 1"
| "UnitMap EtherUnitKWei = 1000"
| "UnitMap EtherUnitMWei = 1000000"
| "UnitMap EtherUnitGWei = 1000000000"
| "UnitMap EtherUnitSzabo = 1000000000000"
| "UnitMap EtherUnitFinney = 1000000000000000"
| "UnitMap EtherUnitEther = 1000000000000000000"
| "UnitMap (OtherEtherUnit n) = 0"

text \<open>A \<open>Unit\<close> is its value in Wei.\<close>

fun newUnit :: "rat \<Rightarrow> ether_unit \<Rightarrow> rat" where
  "newUnit value EtherUnitWei = value"
| "newUnit value EtherUnitKWei = value * UnitMap EtherUnitKWei"
| "newUnit value EtherUnitMWei = value * UnitMap EtherUnitMWei"
| "newUnit value EtherUnitGWei = value * UnitMap EtherUnitGWei"
| "newUnit value EtherUnitSzabo = value * UnitMap EtherUnitSzabo"
| "newUnit value EtherUnitFinney = value * UnitMap EtherUnitFinney"
| "newUnit value EtherUnitEther = value * UnitMap EtherUnitEther"
| "newUnit value (OtherEtherUnit n) = value"

fun unitValue :: "'e env \<Rightarrow> rat \<Rightarrow> ether_unit \<Rightarrow> rat" where
  "unitValue env c EtherUnitWei = c"
| "unitValue env c EtherUnitKWei = envDivRound env c (UnitMap EtherUnitKWei) 3"
| "unitValue env c EtherUnitMWei = envDivRound env c (UnitMap EtherUnitMWei) 6"
| "unitValue env c EtherUnitGWei = envDivRound env c (UnitMap EtherUnitGWei) 9"
| "unitValue env c EtherUnitSzabo = envDivRound env c (UnitMap EtherUnitSzabo) 12"
| "unitValue env c EtherUnitFinney = envDivRound env c (UnitMap EtherUnitFinney) 15"
| "unitValue env c EtherUnitEther = envDivRound env c (UnitMap EtherUnitEther) 18"
| "unitValue env c (OtherEtherUnit n) = c"

section \<open>The node and the libraries\<close>

record gas_call =
  gcFrom :: string
  gcTo :: string
  gcValue :: int
  gcData :: string

record evm_tx =
  etChainID :: int
  etNonce :: "64 word"
  etGasFeeCap :: int
  etGasTipCap :: int
  etGas :: "64 word"
  etTo :: string
  etValue :: int

record signed_tx =
  stTx :: evm_tx
  stHash :: string

record erc20_auth =
  auFrom :: string
  auNonce :: int
  auGasLimit :: "64 word"
  auGasFeeCap :: int
  auGasTipCap :: int

record evm_lib =
  elHexAddress :: "string \<Rightarrow> string"
  elHexHash :: "string \<Rightarrow> string"
  elPackTransfer :: "string \<Rightarrow> int \<Rightarrow> goerr + string"
  elDerive :: "string \<Rightarrow> string \<Rightarrow> string \<Rightarrow> string option"
  elToECDSA :: "string \<Rightarrow> string option"
  elPubkeyAddress :: "string \<Rightarrow> string"
  elEncodeKey :: "string \<Rightarrow> string"
  elEncodePub :: "string \<Rightarrow> string"
  elSignTx :: "evm_tx \<Rightarrow> int \<Rightarrow> string \<Rightarrow> goerr + signed_tx"
  elTransactor :: "string \<Rightarrow> int \<Rightarrow> goerr option"
  elNewERC20 :: "string \<Rightarrow> goerr option"

record 'e evm_node =
  enEstimateGas :: "gas_call \<Rightarrow> ('e, 64 word) op"
  enSuggestGasTipCap :: "('e, int) op"
  enSuggestGasPrice :: "('e, int) op"
  enChainID :: "('e, int) op"
  enPendingNonceAt :: "string \<Rightarrow> ('e, 64 word) op"
  enSendTransaction :: "signed_tx \<Rightarrow> 'e act"
  enERC20Transfer :: "erc20_auth \<Rightarrow> string \<Rightarrow> string \<Rightarrow> int \<Rightarrow> ('e, string) op"
  enTransactionByHash :: "string \<Rightarrow> ('e, bool) op"
  enBalanceAt :: "string \<Rightarrow> ('e, int) op"
  enERC20BalanceOf :: "string \<Rightarrow> string \<Rightarrow> ('e, int) op"

text \<open>An \<open>EVM\<close> instance.\<close>

record 'e evm =
  evBlockchain :: blockchain_type
  evLib :: evm_lib
  evNode :: "'e evm_node"

section \<open>The price of gas\<close>

text \<open>All amounts are in Wei.\<close>

record fee_result =
  frMaxFeePerGas :: rat
  frSuggestGasTipCap :: rat
  frSuggestGasPrice :: rat

record estimate_result =
  erEstimate :: fee_result
  erEstimateGasAmount :: rat
  erTotalFeeAmount :: rat
  erTotalGasPrice :: rat
  erGasTipCap :: rat

fun getMinGasTipCapByBlockchain :: "'e env \<Rightarrow> blockchain_type \<Rightarrow> rat" where
  "getMinGasTipCapByBlockchain env BlockchainTypeBinanceSmartChain = envDecimalDiv env (UnitMap EtherUnitGWei) 10"
| "getMinGasTipCapByBlockchain env BlockchainTypeEthereum = UnitMap EtherUnitGWei"
| "getMinGasTipCapByBlockchain env BlockchainTypePolygon = 30 * UnitMap EtherUnitGWei"
| "getMinGasTipCapByBlockchain env BlockchainTypeArbitrum = envDecimalDiv env (UnitMap EtherUnitGWei) 100"
| "getMinGasTipCapByBlockchain env BlockchainTypeOptimism = envDecimalDiv env (UnitMap EtherUnitGWei) 100"
| "getMinGasTipCapByBlockchain env BlockchainTypeLinea = envDecimalDiv env (UnitMap EtherUnitGWei) 100"
| "getMinGasTipCapByBlockchain env _ = UnitMap EtherUnitGWei"

fun gasLimitByBlockchain :: "blockchain_type \<Rightarrow> 64 word" where
  "gasLimitByBlockchain BlockchainTypeArbitrum = 38000"
| "gasLimitByBlockchain _ = 21000"

definition feeMultipliers :: "(rat \<times> rat) list" where
  "feeMultipliers =
     [(200, 114 / 100), (100, 117 / 100), (40, 118 / 100), (20, 119 / 100), (10, 1192 / 1000),
      (9, 1195 / 1000), (8, 120 / 100), (7, 1215 / 1000), (6, 122 / 100), (5, 124 / 100), (4, 126 / 100)]"

fun multiplierLoop :: "rat \<Rightarrow> rat \<Rightarrow> (rat \<times> rat) list \<Rightarrow> rat" where
  "multiplierLoop gwei baseFeeWei [] = 130 / 100 * baseFeeWei"
| "multiplierLoop gwei baseFeeWei ((threshold, multiplier) # items) =
     (if gwei \<ge> threshold then multiplier * baseFeeWei else multiplierLoop gwei baseFeeWei items)"

definition getBaseFeeMultiplier :: "'e env \<Rightarrow> rat \<Rightarrow> rat" where
  "getBaseFeeMultiplier env baseFeeWei =
     multiplierLoop (unitValue env (newUnit baseFeeWei EtherUnitWei) EtherUnitGWei) baseFeeWei feeMultipliers"

text \<open>Two calls of an \<open>errgroup\<close>: both are made, and an error of either is returned.\<close>

definition bothGet :: "('s, 'a) op \<Rightarrow> ('s, 'b) op \<Rightarrow> ('s, 'a \<times> 'b) op" where
  "bothGet m n s =
     (case m s of
        (Val x, s1) \<Rightarrow> bnd n (\<lambda>y. ret (x, y)) s1
      | (Panic q, s1) \<Rightarrow> (Panic q, s1)
      | (Err e, s1) \<Rightarrow> (case n s1 of (Panic q, s2) \<Rightarrow> (Panic q, s2) | (_, s2) \<Rightarrow> (Err e, s2)))"

definition estimateFee :: "'e env \<Rightarrow> 'e evm \<Rightarrow> ('e, fee_result) op" where
  "estimateFee env ev =
     bnd (bothGet (enSuggestGasTipCap (evNode ev)) (enSuggestGasPrice (evNode ev))) (\<lambda>(tip0, price0).
     (let price = of_int price0;
          minTip = getMinGasTipCapByBlockchain env (evBlockchain ev);
          tip = (if of_int tip0 < minTip then minTip else of_int tip0);
          maxFee0 = getBaseFeeMultiplier env price;
          maxFee = (if maxFee0 < price + tip then price + tip else maxFee0)
      in ret \<lparr>frMaxFeePerGas = maxFee, frSuggestGasTipCap = tip, frSuggestGasPrice = price\<rparr>))"

section \<open>The fee of a transfer\<close>

definition estimateNativeAssetGas :: "'e env \<Rightarrow> 'e evm \<Rightarrow> string \<Rightarrow> string \<Rightarrow> rat \<Rightarrow> ('e, rat) op" where
  "estimateNativeAssetGas env ev from to' amount =
     bnd (wrapErr ''failed to estimate gas for eth'' (enEstimateGas (evNode ev)
            \<lparr>gcFrom = elHexAddress (evLib ev) from, gcTo = elHexAddress (evLib ev) to',
             gcValue = decBigInt (unitValue env (newUnit amount EtherUnitEther) EtherUnitWei), gcData = ''''\<rparr>)) (\<lambda>gas.
     (let limit = gasLimitByBlockchain (evBlockchain ev)
      in if gas > limit then ret (of_int (uint gas)) else ret (of_int (uint limit))))"

text \<open>\<open>decimal.NewFromInt(10).Pow(decimals)\<close>.\<close>

definition assetUnit :: "int \<Rightarrow> rat" where
  "assetUnit decimals = 1 * (10 powi decimals)"

definition estimateTokenGas :: "'e evm \<Rightarrow> string \<Rightarrow> string \<Rightarrow> string \<Rightarrow> rat \<Rightarrow> int \<Rightarrow> ('e, rat) op" where
  "estimateTokenGas ev from to' asset amount decimals =
     bnd (wrapErr ''failed to pack transfer data''
            (ofSum (elPackTransfer (evLib ev) (elHexAddress (evLib ev) to') (decBigInt (amount * assetUnit decimals))))) (\<lambda>data.
     bnd (wrapErr ''failed to estimate gas for contract'' (enEstimateGas (evNode ev)
            \<lparr>gcFrom = elHexAddress (evLib ev) from, gcTo = elHexAddress (evLib ev) asset, gcValue = 0, gcData = data\<rparr>)) (\<lambda>gas.
     ret (of_int (uint gas))))"

definition estimateTransfer :: "'e env \<Rightarrow> 'e evm \<Rightarrow> string \<Rightarrow> string \<Rightarrow> string \<Rightarrow> rat \<Rightarrow> int \<Rightarrow> ('e, estimate_result) op" where
  "estimateTransfer env ev from to' asset amount decimals =
     bnd (wrapErr ''failed to estimate fee'' (estimateFee env ev)) (\<lambda>estimate.
     bnd (if asset = getAssetIdentifier (evBlockchain ev)
          then estimateNativeAssetGas env ev from to' amount
          else estimateTokenGas ev from to' asset amount decimals) (\<lambda>gasAmount.
     ret \<lparr>erEstimate = estimate, erEstimateGasAmount = gasAmount,
          erTotalFeeAmount = frMaxFeePerGas estimate * gasAmount,
          erTotalGasPrice = frMaxFeePerGas estimate, erGasTipCap = frSuggestGasTipCap estimate\<rparr>))"

section \<open>Wallets\<close>

text \<open>\<open>strings.ToLower\<close> on the letters of ASCII, the only ones in an address; \<open>strings.EqualFold\<close> compares the results.\<close>

definition lowerChar :: "char \<Rightarrow> char" where
  "lowerChar c = (let n = (of_char c :: nat) in if 65 \<le> n \<and> n \<le> 90 then char_of (n + 32) else c)"

definition strToLower :: "string \<Rightarrow> string" where
  "strToLower = map lowerChar"

definition derivationPath :: "32 word \<Rightarrow> string" where
  "derivationPath sq = ''44'' @ [CHR 39] @ ''/60'' @ [CHR 39] @ ''/0'' @ [CHR 39] @ ''/0/'' @ showNat (unat sq)"

definition walletPubKeyHash :: "evm_lib \<Rightarrow> string \<Rightarrow> string \<Rightarrow> 32 word \<Rightarrow> goerr + string \<times> string" where
  "walletPubKeyHash lib mnemonic pass sq =
     (case elDerive lib mnemonic pass (derivationPath sq) of
        None \<Rightarrow> Inl (ErrText ''failed to derive private key'')
      | Some secret \<Rightarrow>
     (case elToECDSA lib secret of
        None \<Rightarrow> Inl (ErrText ''failed to generate ECDSA from secret'')
      | Some key \<Rightarrow> Inr (strToLower (elPubkeyAddress lib key), key)))"

definition addressWallet :: "evm_lib \<Rightarrow> string \<Rightarrow> string \<Rightarrow> 32 word \<Rightarrow> goerr + string" where
  "addressWallet lib mnemonic pass sq =
     (case walletPubKeyHash lib mnemonic pass sq of
        Inl e \<Rightarrow> Inl e | Inr (address, _) \<Rightarrow> Inr (strToLower address))"

definition addressSecret :: "evm_lib \<Rightarrow> string \<Rightarrow> string \<Rightarrow> string \<Rightarrow> 32 word \<Rightarrow> goerr + string" where
  "addressSecret lib address mnemonic pass sq =
     (case walletPubKeyHash lib mnemonic pass sq of
        Inl e \<Rightarrow> Inl e
      | Inr (wAddress, key) \<Rightarrow>
          if strToLower address \<noteq> strToLower wAddress then Inl (ErrText ''generate private key address'')
          else Inr (elEncodeKey lib key))"

definition addressPublic :: "evm_lib \<Rightarrow> string \<Rightarrow> string \<Rightarrow> string \<Rightarrow> 32 word \<Rightarrow> goerr + string" where
  "addressPublic lib address mnemonic pass sq =
     (case walletPubKeyHash lib mnemonic pass sq of
        Inl e \<Rightarrow> Inl e
      | Inr (wAddress, key) \<Rightarrow>
          if strToLower address \<noteq> strToLower wAddress then Inl (ErrText ''generate private key address'')
          else Inr (elEncodePub lib key))"

section \<open>Rounding and units\<close>

text \<open>
  What the decimal library documents of \<open>DivRound(y, k)\<close>: a multiple of \<open>10 ^ -k\<close> that is nearest to the
  quotient.
\<close>

definition divRoundOk :: "'e env \<Rightarrow> bool" where
  "divRoundOk env \<longleftrightarrow> (\<forall>x y. \<forall>k::nat. 0 < y \<longrightarrow>
     (\<exists>n::int. envDivRound env x y (int k) = of_int n / 10 ^ k \<and> \<bar>of_int n - x / y * 10 ^ k\<bar> \<le> 1 / 2))"

lemma divRound_near:
  assumes "divRoundOk env" "0 < y"
  obtains n :: int where "envDivRound env x y (int k) = of_int n / 10 ^ k" "\<bar>of_int n - x / y * 10 ^ k\<bar> \<le> 1 / 2"
  using assms unfolding divRoundOk_def by blast

lemma int_near: "\<bar>of_int n - (of_int m :: rat)\<bar> \<le> 1 / 2 \<Longrightarrow> n = m"
  by linarith

text \<open>How many decimals an amount in a unit has, and the division by the unit as one equation.\<close>

fun unitDigits :: "ether_unit \<Rightarrow> nat" where
  "unitDigits EtherUnitWei = 0"
| "unitDigits EtherUnitKWei = 3"
| "unitDigits EtherUnitMWei = 6"
| "unitDigits EtherUnitGWei = 9"
| "unitDigits EtherUnitSzabo = 12"
| "unitDigits EtherUnitFinney = 15"
| "unitDigits EtherUnitEther = 18"
| "unitDigits (OtherEtherUnit n) = 0"

lemma newUnit_digits: "newUnit x u = x * 10 ^ unitDigits u"
  by (cases u) simp_all

lemma unitValue_digits:
  "u \<notin> {EtherUnitWei} \<union> range OtherEtherUnit \<Longrightarrow>
   unitValue env c u = envDivRound env c (10 ^ unitDigits u) (int (unitDigits u))"
  by (cases u) auto

lemma unitValue_whole:
  assumes "divRoundOk env"
  shows "unitValue env (of_int n) u = of_int n / 10 ^ unitDigits u"
proof (cases "u \<in> {EtherUnitWei} \<union> range OtherEtherUnit")
  case True
  then show ?thesis by auto
next
  case False
  obtain m :: int where m: "envDivRound env (of_int n) (10 ^ unitDigits u) (int (unitDigits u)) = of_int m / 10 ^ unitDigits u"
    and near: "\<bar>of_int m - of_int n / 10 ^ unitDigits u * 10 ^ unitDigits u\<bar> \<le> (1 / 2 :: rat)"
    using divRound_near [OF assms, of "10 ^ unitDigits u" "of_int n" "unitDigits u"] by auto
  from near have "m = n" by (intro int_near) simp
  with m show ?thesis by (simp add: unitValue_digits [OF False])
qed

text \<open>
  An amount that is a whole number of Wei survives the conversion to Wei and back in every unit.
\<close>

theorem unit_roundtrip:
  assumes "divRoundOk env" and "x * 10 ^ unitDigits u = of_int n"
  shows "unitValue env (newUnit x u) u = x"
proof -
  have "x = of_int n / 10 ^ unitDigits u" unfolding assms(2) [symmetric] by simp
  then show ?thesis using unitValue_whole [OF assms(1), of n u] assms(2) by (simp add: newUnit_digits)
qed

section \<open>Bounds of the fee\<close>

lemma multiplierLoop_bounds:
  assumes "0 \<le> b" and "\<forall>m\<in>snd ` set items. lo \<le> m \<and> m \<le> 130 / 100" and "lo \<le> 130 / 100"
  shows "lo * b \<le> multiplierLoop g b items \<and> multiplierLoop g b items \<le> 130 / 100 * b"
  using assms
proof (induction g b items rule: multiplierLoop.induct)
  case (1 g b)
  then show ?case using mult_right_mono [of lo "130 / 100" b] by simp
next
  case (2 g b t m items)
  then show ?case using mult_right_mono [of lo m b] mult_right_mono [of m "130 / 100" b] by simp
qed

lemma multiplier_bounds:
  "0 \<le> b \<Longrightarrow> 114 / 100 * b \<le> getBaseFeeMultiplier env b \<and> getBaseFeeMultiplier env b \<le> 130 / 100 * b"
  unfolding getBaseFeeMultiplier_def by (rule multiplierLoop_bounds) (auto simp: feeMultipliers_def)

lemma bothGet_Val:
  "bothGet m n s = (Val y, s') \<longleftrightarrow> (\<exists>s1. m s = (Val (fst y), s1) \<and> n s1 = (Val (snd y), s'))"
  by (cases y) (auto simp: bothGet_def op_defs split: prod.splits outcome.splits)

lemma estimateFee_parts:
  assumes "estimateFee env ev x = (Val f, x')"
  obtains p x1 where "enSuggestGasPrice (evNode ev) x1 = (Val p, x')" and "frSuggestGasPrice f = of_int p"
    and "getMinGasTipCapByBlockchain env (evBlockchain ev) \<le> frSuggestGasTipCap f"
    and "frMaxFeePerGas f = max (getBaseFeeMultiplier env (of_int p)) (of_int p + frSuggestGasTipCap f)"
proof -
  obtain y x2 where y: "bothGet (enSuggestGasTipCap (evNode ev)) (enSuggestGasPrice (evNode ev)) x = (Val y, x2)"
    and f: "(Val f, x') = (\<lambda>(tip0, price0).
     (let price = of_int price0;
          minTip = getMinGasTipCapByBlockchain env (evBlockchain ev);
          tip = (if of_int tip0 < minTip then minTip else of_int tip0);
          maxFee0 = getBaseFeeMultiplier env price;
          maxFee = (if maxFee0 < price + tip then price + tip else maxFee0)
      in ret \<lparr>frMaxFeePerGas = maxFee, frSuggestGasTipCap = tip, frSuggestGasPrice = price\<rparr>)) y x2"
    using assms unfolding estimateFee_def bnd_Val by force
  obtain x1 where p: "enSuggestGasPrice (evNode ev) x1 = (Val (snd y), x2)" using y unfolding bothGet_Val by blast
  have "x2 = x'" "frSuggestGasPrice f = of_int (snd y)" "getMinGasTipCapByBlockchain env (evBlockchain ev) \<le> frSuggestGasTipCap f"
    "frMaxFeePerGas f = max (getBaseFeeMultiplier env (of_int (snd y))) (of_int (snd y) + frSuggestGasTipCap f)"
    using f by (auto simp: Let_def ret_def max_def split: prod.split_asm)
  with p that show ?thesis by simp
qed

text \<open>
  The estimated price of gas: the tip is at least the minimum of the chain, the maximal fee covers
  the suggested price and the tip, and for a price that is not negative it is at least 1.14 times the
  price and at most 1.3 times the price or the price and the tip.
\<close>

theorem fee_estimate_bounds:
  assumes "estimateFee env ev x = (Val f, x')"
  shows "getMinGasTipCapByBlockchain env (evBlockchain ev) \<le> frSuggestGasTipCap f \<and>
    frSuggestGasPrice f + frSuggestGasTipCap f \<le> frMaxFeePerGas f \<and>
    (0 \<le> frSuggestGasPrice f \<longrightarrow> 114 / 100 * frSuggestGasPrice f \<le> frMaxFeePerGas f \<and>
       frMaxFeePerGas f \<le> max (130 / 100 * frSuggestGasPrice f) (frSuggestGasPrice f + frSuggestGasTipCap f))"
proof (rule estimateFee_parts [OF assms])
  fix p x1
  assume "frSuggestGasPrice f = of_int p" "getMinGasTipCapByBlockchain env (evBlockchain ev) \<le> frSuggestGasTipCap f"
    "frMaxFeePerGas f = max (getBaseFeeMultiplier env (of_int p)) (of_int p + frSuggestGasTipCap f)"
  then show ?thesis using multiplier_bounds [of "of_int p" env] by (auto simp: max_def)
qed

text \<open>
  The fee reserved for a transfer is the price times the gas, and the gas of a transfer of the
  chain's own asset is never less than the limit that its transaction carries.
\<close>

lemma estimateTransfer_parts:
  assumes "estimateTransfer env ev from to' asset amount decimals x = (Val r, x')"
  shows "erTotalFeeAmount r = frMaxFeePerGas (erEstimate r) * erEstimateGasAmount r \<and>
    (\<exists>x2. estimateFee env ev x = (Val (erEstimate r), x2)) \<and>
    erTotalGasPrice r = frMaxFeePerGas (erEstimate r) \<and> erGasTipCap r = frSuggestGasTipCap (erEstimate r) \<and>
    (asset = getAssetIdentifier (evBlockchain ev) \<longrightarrow>
       of_int (uint (gasLimitByBlockchain (evBlockchain ev))) \<le> erEstimateGasAmount r)"
  using assms
  by (auto simp: estimateTransfer_def estimateNativeAssetGas_def Let_def op_Val word_less_def not_less
      simp del: of_int_uint split: if_split_asm)

text \<open>A node whose suggested price of gas is not negative.\<close>

definition pricesOk :: "'e evm \<Rightarrow> bool" where
  "pricesOk ev \<longleftrightarrow> (\<forall>x p x'. enSuggestGasPrice (evNode ev) x = (Val p, x') \<longrightarrow> 0 \<le> p)"

lemma estimateFee_nonneg:
  assumes "estimateFee env ev x = (Val f, x')" and "pricesOk ev"
  shows "0 \<le> frMaxFeePerGas f"
proof (rule estimateFee_parts [OF assms(1)])
  fix p x1
  assume "enSuggestGasPrice (evNode ev) x1 = (Val p, x')"
    and m: "frMaxFeePerGas f = max (getBaseFeeMultiplier env (of_int p)) (of_int p + frSuggestGasTipCap f)"
  then have "0 \<le> p" using assms(2) unfolding pricesOk_def by blast
  then have "0 \<le> getBaseFeeMultiplier env (of_int p)" using multiplier_bounds [of "of_int p" env] by simp
  then show ?thesis using m by simp
qed

lemma lowerChar_idem: "lowerChar (lowerChar c) = lowerChar c"
proof (cases "65 \<le> (of_char c :: nat) \<and> (of_char c :: nat) \<le> 90")
  case True
  then have "(of_char (char_of (of_char c + 32 :: nat)) :: nat) = of_char c + 32"
    by (simp add: of_char_mod_256 of_char_of)
  with True show ?thesis by (simp add: lowerChar_def)
next
  case False
  then show ?thesis by (auto simp: lowerChar_def)
qed

lemma strToLower_idem [simp]: "strToLower (strToLower s) = strToLower s"
  by (simp add: strToLower_def lowerChar_idem)

text \<open>
  C37. A wallet's own address opens its keys: the secret and the public key are given out for the
  address that \<open>AddressWallet\<close> derives, in any case of its letters, and for no other address.
\<close>

theorem address_opens_own_keys:
  assumes "addressWallet lib mnemonic pass sq = Inr a"
  shows "((\<exists>k. addressSecret lib a' mnemonic pass sq = Inr k) \<longleftrightarrow> strToLower a' = strToLower a) \<and>
    ((\<exists>k. addressPublic lib a' mnemonic pass sq = Inr k) \<longleftrightarrow> strToLower a' = strToLower a)"
  using assms
  by (auto simp: addressWallet_def addressSecret_def addressPublic_def walletPubKeyHash_def
      split: sum.splits option.splits prod.splits)

section \<open>A sample\<close>

text \<open>An environment without faults whose rounding is the documented one, and a node with fixed answers.\<close>

definition demoRound :: "rat \<Rightarrow> rat \<Rightarrow> int \<Rightarrow> rat" where
  "demoRound x y k = of_int (round (x / y * 10 ^ nat k)) / 10 ^ nat k"

definition evmEnv :: "unit env" where
  "evmEnv =
     \<lparr>envFault = (\<lambda>_ x. (NoFault, x)), envNow = (\<lambda>_. 7), envSleep = (\<lambda>_ x. x), envStopped = (\<lambda>_. False),
      envCtx = (\<lambda>_. None), envOwnerCached = (\<lambda>_ _. False), envCacheReady = (\<lambda>_. True),
      envSnoozeString = (\<lambda>_. ''''), envDecimalString = (\<lambda>_. ''''), envDecimalParse = (\<lambda>_. Inr 0),
      envDecimalDiv = (\<lambda>a b. a / b), envDivRound = demoRound, envMapOrder = (\<lambda>ks x. (ks, x)),
      envDecrypt = (\<lambda>m _. Inr m), envFindTransactions = (\<lambda>_ h x. (Val [], x)),
      envGetTransactionInfo = (\<lambda>_ h x. (Val \<lparr>etxHash = h, etxConfirmations = 30, etxStatus = ''success'',
         etxFee = ''0'', etxAssetIdentifier = ''eth'', etxAmount = ''0'', etxTron = None\<rparr>, x)),
      envGetUTXO = (\<lambda>_ _ x. (Val [], x)), envAddressBalance = (\<lambda>a _ _ x. (Val (if a = ''hot-1'' then 0 else 1), x)),
      envAssetDecimals = (\<lambda>_ _ x. (Val 18, x)), envNewID = (\<lambda>_. ''new-id'')\<rparr>"

definition evmLib :: evm_lib where
  "evmLib =
     \<lparr>elHexAddress = (\<lambda>a. a), elHexHash = (\<lambda>h. h), elPackTransfer = (\<lambda>_ _. Inr ''data''),
      elDerive = (\<lambda>m p path. Some path), elToECDSA = (\<lambda>s. Some s), elPubkeyAddress = (\<lambda>k. ''0xAB''),
      elEncodeKey = (\<lambda>k. k), elEncodePub = (\<lambda>k. k),
      elSignTx = (\<lambda>tx _ _. Inr \<lparr>stTx = tx, stHash = ''0xhash''\<rparr>), elTransactor = (\<lambda>_ _. None), elNewERC20 = (\<lambda>_. None)\<rparr>"

definition evmNode :: "unit evm_node" where
  "evmNode =
     \<lparr>enEstimateGas = (\<lambda>_ x. (Val 20000, x)), enSuggestGasTipCap = (\<lambda>x. (Val 5, x)),
      enSuggestGasPrice = (\<lambda>x. (Val 10000000000, x)), enChainID = (\<lambda>x. (Val 1, x)),
      enPendingNonceAt = (\<lambda>_ x. (Val 3, x)), enSendTransaction = (\<lambda>_ x. (Val (), x)),
      enERC20Transfer = (\<lambda>_ _ _ _ x. (Val ''0xtoken'', x)), enTransactionByHash = (\<lambda>_ x. (Val False, x)),
      enBalanceAt = (\<lambda>_ x. (Val 0, x)), enERC20BalanceOf = (\<lambda>_ _ x. (Val 0, x))\<rparr>"

definition evmDemo :: "unit evm" where
  "evmDemo = \<lparr>evBlockchain = BlockchainTypeEthereum, evLib = evmLib, evNode = evmNode\<rparr>"

definition demoFee :: fee_result where
  "demoFee = \<lparr>frMaxFeePerGas = 11920000000, frSuggestGasTipCap = 1000000000, frSuggestGasPrice = 10000000000\<rparr>"

lemma evmEnv_rounds: "divRoundOk evmEnv"
  unfolding divRoundOk_def
proof (intro allI impI)
  fix x y :: rat and k :: nat
  show "\<exists>n::int. envDivRound evmEnv x y (int k) = of_int n / 10 ^ k \<and> \<bar>of_int n - x / y * 10 ^ k\<bar> \<le> 1 / 2"
    by (rule exI [of _ "round (x / y * 10 ^ k)"], rule conjI [OF _ of_int_round_abs_le])
      (simp add: evmEnv_def demoRound_def)
qed

lemma demo_fee: "estimateFee evmEnv evmDemo () = (Val demoFee, ())"
  by (simp add: estimateFee_def bothGet_def op_defs evmDemo_def evmNode_def evmEnv_def demoRound_def demoFee_def
      getBaseFeeMultiplier_def feeMultipliers_def round_def)

definition demoEstimate :: "rat \<Rightarrow> estimate_result" where
  "demoEstimate gas = \<lparr>erEstimate = demoFee, erEstimateGasAmount = gas, erTotalFeeAmount = 11920000000 * gas,
     erTotalGasPrice = 11920000000, erGasTipCap = 1000000000\<rparr>"

lemma demo_estimate:
  "estimateTransfer evmEnv evmDemo from to' asset amount decimals () =
    (Val (demoEstimate (if asset = ''eth'' then 21000 else 20000)), ())"
  by (simp add: estimateTransfer_def demo_fee wrapErr_def bnd_def ret_def estimateNativeAssetGas_def estimateTokenGas_def Let_def
      ofSum_def op_defs demoEstimate_def)
    (simp add: evmDemo_def evmNode_def evmLib_def demoFee_def ret_def bnd_def wrapErr_def)

theorem unit_roundtrip_witness:
  "unitValue evmEnv (newUnit (25 / 10) EtherUnitGWei) EtherUnitGWei = 25 / 10"
  by (rule unit_roundtrip [OF evmEnv_rounds, of _ _ 2500000000]) simp

theorem fee_estimate_bounds_witness:
  "frSuggestGasPrice demoFee + frSuggestGasTipCap demoFee \<le> frMaxFeePerGas demoFee"
  using fee_estimate_bounds [OF demo_fee] by blast

lemma demo_lower: "strToLower ''0xAB'' = ''0xab''" "strToLower ''0xab'' = ''0xab''"
  by code_simp+

theorem address_opens_own_keys_witness:
  "\<exists>k. addressSecret evmLib ''0xAB'' ''m'' ''p'' 5 = Inr k"
  using address_opens_own_keys [of evmLib "''m''" "''p''" 5 "''0xab''" "''0xAB''"]
  by (simp add: addressWallet_def walletPubKeyHash_def demo_lower)
    (simp add: evmLib_def demo_lower)

end
