(* ===== verification/FsmEvm.thy ===== *)
theory FsmEvm
  imports Fsm EvmFee
begin

text \<open>
  \<open>internal/fsm/fsmevm\<close>: the machine that moves the asset of an address on the chains of the EVM. A
  token is moved with gas that the address may have to receive first from the processing wallet of
  its owner. The definitions follow the files of the package: constants and errors, the helpers, the
  stages before, of and after sending, and the construction of the machine.
\<close>

section \<open>Constants, errors and state\<close>

definition evm_stageBeforeSending :: string where "evm_stageBeforeSending = ''before_sending''"
definition evm_stageSending :: string where "evm_stageSending = ''sending''"
definition evm_stageAfterSending :: string where "evm_stageAfterSending = ''after_sending''"

definition evm_stepValidateRequest :: string where "evm_stepValidateRequest = ''validate_request''"
definition evm_stepSendBaseAssetForBurn :: string where "evm_stepSendBaseAssetForBurn = ''send_base_asset_for_burn''"
definition evm_stepWaitingSendBaseAsset :: string where
  "evm_stepWaitingSendBaseAsset = ''waiting_send_base_asset_for_burn_confirmations''"
definition evm_stepSending :: string where "evm_stepSending = ''sending''"
definition evm_stepWaitingForTheFirstConfirmation :: string where
  "evm_stepWaitingForTheFirstConfirmation = ''waiting_for_the_first_confirmation''"
definition evm_stepWaitingConfirmations :: string where "evm_stepWaitingConfirmations = ''waiting_confirmations''"
definition evm_stepSendSuccessEvent :: string where "evm_stepSendSuccessEvent = ''send_success_event''"

definition SendBurnBaseAsset :: string where "SendBurnBaseAsset = ''send_burn_base_asset''"

lemmas evm_names = evm_stageBeforeSending_def evm_stageSending_def evm_stageAfterSending_def
  evm_stepValidateRequest_def evm_stepSendBaseAssetForBurn_def evm_stepWaitingSendBaseAsset_def evm_stepSending_def
  evm_stepWaitingForTheFirstConfirmation_def evm_stepWaitingConfirmations_def evm_stepSendSuccessEvent_def

definition exitOnFailedSteps :: "string \<rightharpoonup> string list" where
  "exitOnFailedSteps =
     [evm_stageBeforeSending \<mapsto> [evm_stepValidateRequest, evm_stepSendBaseAssetForBurn],
      evm_stageSending \<mapsto> [evm_stepSending]]"

definition newErrFailedTransfer :: "goerr \<Rightarrow> goerr" where
  "newErrFailedTransfer err = Wrap2 ErrFailedTransfer err"

text \<open>
  The configuration, the environment and the instance of the chain. \<open>vpMaxGasFee\<close> is
  \<open>decimal.NewFromFloat(config.GetMaxGasFee())\<close>.
\<close>

record 'e evm_params =
  vpEnv :: "'e env"
  vpEvm :: "'e evm"
  vpMaxGasFee :: rat
  vpSeedEncryption :: bool
  vpUseCacheForWallets :: bool

text \<open>
  The state of the machine, with the transactions handed to the node so far and the purpose of each.
  The code does not read that list; it records the calls of \<open>SendTransaction\<close> and of the token's
  \<open>Transfer\<close>, so that theorems can speak of them.
\<close>

datatype evm_send = SentBase signed_tx | SentToken erc20_auth string string int

record 'e evm_fsm = "'e fsm" +
  efSent :: "(tx_type \<times> evm_send) list"

definition evmChain :: "'e evm_params \<Rightarrow> blockchain_type" where
  "evmChain p = evBlockchain (vpEvm p)"

definition evmAsset :: "'e evm_params \<Rightarrow> string" where
  "evmAsset p = getAssetIdentifier (evmChain p)"

definition etherOf :: "'e evm_params \<Rightarrow> rat \<Rightarrow> rat" where
  "etherOf p wei = unitValue (vpEnv p) (newUnit wei EtherUnitWei) EtherUnitEther"

section \<open>Events and statuses\<close>

text \<open>As in the other machines \<open>SetError\<close> receives the nil of the preceding call.\<close>

definition evm_sendFailureEvent :: "'e evm_params \<Rightarrow> bool \<Rightarrow> goerr \<Rightarrow> ('e evm_fsm) act" where
  "evm_sendFailureEvent p tx err =
     bnd currentStepName (\<lambda>stepName.
     bnd theTransfer (\<lambda>t.
     bnd (wrapErr ''get event transfer status create params''
            (liftW (eventTransferStatusCreateParams (vpEnv p)
               \<lparr>evIsSystem = False, evTransferID = trID t, evOwnerID = trOwnerID t,
                evStatus = TransferStatusFailed, evStep = stepName, evErrorMessage = errStr err\<rparr>))) (\<lambda>params.
     bnd (modS (\<lambda>s. s\<lparr>wState := setWfError None ((wState s)\<lparr>IsFailed := True\<rparr>), wSkipError := True\<rparr>)) (\<lambda>_.
     bnd getSnapshot (\<lambda>sh.
     bnd (wrapErr ''set workflow snapshot''
            (liftW (transfersSetWorkflowSnapshot (vpEnv p) tx (trID t) sh))) (\<lambda>_.
     bnd (wrapErr ''create failed event'' (liftW (webhooksBatchCreate (vpEnv p) tx [params]))) (\<lambda>_.
     wrapErr (''set transfer status '' @ transferStatusString TransferStatusFailed)
       (liftW (transfersSetStatus (vpEnv p) tx (trID t) TransferStatusFailed)))))))))"

definition evm_setTransferStatus :: "'e evm_params \<Rightarrow> transfer_status \<Rightarrow> ('e evm_fsm) act" where
  "evm_setTransferStatus p status =
     bnd currentStepName (\<lambda>stepName.
     bnd theTransfer (\<lambda>t.
     bnd (wrapErr ''get event transfer status create params''
            (liftW (eventTransferStatusCreateParams (vpEnv p)
               \<lparr>evIsSystem = False, evTransferID = trID t, evOwnerID = trOwnerID t, evStatus = status,
                evStep = stepName, evErrorMessage = ''''\<rparr>))) (\<lambda>params.
     bnd (wrapErr ''create failed event'' (liftW (webhooksBatchCreate (vpEnv p) False [params]))) (\<lambda>_.
     wrapErr (''set transfer status '' @ transferStatusString status)
       (liftW (transfersSetStatus (vpEnv p) False (trID t) status))))))"

definition createTransferStepWh :: "'e evm_params \<Rightarrow> string \<Rightarrow> ('e evm_fsm) act" where
  "createTransferStepWh p stepName =
     bnd theTransfer (\<lambda>t.
     bnd (wrapErr ''get event transfer status create params''
            (liftW (eventTransferStatusCreateParams (vpEnv p)
               \<lparr>evIsSystem = False, evTransferID = trID t, evOwnerID = trOwnerID t, evStatus = trStatus t,
                evStep = stepName, evErrorMessage = ''''\<rparr>))) (\<lambda>params.
     wrapErr ''create failed event'' (liftW (webhooksBatchCreate (vpEnv p) False [params]))))"

section \<open>Transactions in the chain\<close>

text \<open>\<open>s.transfer.CreatedAt.Valid && time.Since(s.transfer.CreatedAt.Time) > d\<close>.\<close>

definition olderThan :: "'e evm_params \<Rightarrow> transfer \<Rightarrow> duration \<Rightarrow> ('e evm_fsm, bool) op" where
  "olderThan p t d =
     getS (\<lambda>s. case trCreatedAt t of
       Some c \<Rightarrow> envNow (vpEnv p) (wdExt (fsWorld s)) - c > sint d
     | None \<Rightarrow> False)"

definition updateSystemTransactionStatus :: "'e evm_params \<Rightarrow> etx option \<Rightarrow> tx_status \<Rightarrow> ('e evm_fsm) act" where
  "updateSystemTransactionStatus p tx status =
     (case tx of
        None \<Rightarrow> fail (ErrText ''invalid transaction'')
      | Some tx \<Rightarrow>
     bnd (guardE (etxHash tx \<noteq> '''') (ErrText ''invalid transaction: empty hash'')) (\<lambda>_.
     bnd (wrapErr ''failed to parse native token fee'' (ofSum (envDecimalParse (vpEnv p) (etxFee tx)))) (\<lambda>fee.
     bnd (if etxAssetIdentifier tx = evmAsset p
          then wrapErr ''parse native token amount'' (ofSum (envDecimalParse (vpEnv p) (etxAmount tx)))
          else ret 0) (\<lambda>amount.
     bnd theTransfer (\<lambda>t.
     liftW (qTxUpdateExpense (vpEnv p) False (trID t) (etxHash tx) 0 0 amount fee status))))))"

definition ensureTxInBlockchain :: "'e evm_params \<Rightarrow> string \<Rightarrow> ('e evm_fsm) act" where
  "ensureTxInBlockchain p txHash =
     bnd theTransfer (\<lambda>t.
     bnd (tryE (liftE (envGetTransactionInfo (vpEnv p) (trBlockchain t) txHash))) (\<lambda>res.
     case res of
       Inl e \<Rightarrow>
         bnd (olderThan p t (3600 * second)) (\<lambda>old.
         if old then
           bnd (tryE (updateSystemTransactionStatus p None TxStatusFailed)) (\<lambda>u.
           case u of
             Inl e' \<Rightarrow> fail (newErrFailedTransfer e')
           | Inr _ \<Rightarrow> fail (newErrFailedTransfer (ErrText
               (''transaction '' @ txHash @ '' not found in the blockchain after 1 hour: %!w(<nil>)''))))
         else if strContains (errStr e) ''not found'' then fail (noConsoleError (jobSnooze (vpEnv p) second))
         else fail (Wrapf ''get transaction info: '' e))
     | Inr tx \<Rightarrow>
         if etxStatus tx \<noteq> ''success'' then
           bnd (tryE (updateSystemTransactionStatus p (Some tx) TxStatusFailed)) (\<lambda>u.
           case u of
             Inl e' \<Rightarrow> fail (newErrFailedTransfer e')
           | Inr _ \<Rightarrow> fail (newErrFailedTransfer (ErrText (''transaction status is '' @ etxStatus tx))))
         else if etxConfirmations tx < 1 then
           fail (noConsoleError (jobSnooze (vpEnv p)
             (confirmationsTimeoutWithRequired (trBlockchain t) 1 (etxConfirmations tx))))
         else
           bnd (tryE (updateSystemTransactionStatus p (Some tx) TxStatusUnconfirmed)) (\<lambda>u.
           case u of Inl e' \<Rightarrow> fail (newErrFailedTransfer e') | Inr _ \<Rightarrow> ret ())))"

definition checkTransactionConfirmations :: "'e evm_params \<Rightarrow> string \<Rightarrow> 64 word \<Rightarrow> ('e evm_fsm) act" where
  "checkTransactionConfirmations p txHash required =
     bnd (catchErr (liftE (envGetTransactionInfo (vpEnv p) (evmChain p) txHash))
            (\<lambda>e. if strContains (errStr e) ''not found'' then fail (noConsoleError (jobSnooze (vpEnv p) (second * 2)))
                  else fail (Wrapf ''get transaction info: '' e))) (\<lambda>tx.
     if etxStatus tx \<noteq> ''success'' then
       bnd (wrapErr ''update system transaction expenses'' (updateSystemTransactionStatus p (Some tx) TxStatusFailed)) (\<lambda>_.
       fail (newErrFailedTransfer (ErrText (''transaction status is not success: '' @ etxStatus tx))))
     else if etxConfirmations tx < required then
       bnd (wrapErr ''update system transaction expenses'' (updateSystemTransactionStatus p (Some tx) TxStatusUnconfirmed)) (\<lambda>_.
       fail (noConsoleError (jobSnooze (vpEnv p)
         (confirmationsTimeoutWithRequired (evmChain p) required (etxConfirmations tx)))))
     else updateSystemTransactionStatus p (Some tx) TxStatusConfirmed)"

section \<open>Balances and keys\<close>

definition evm_getAssetDecimals :: "'e evm_params \<Rightarrow> string \<Rightarrow> ('e evm_fsm, int) op" where
  "evm_getAssetDecimals p asset = liftE (envAssetDecimals (vpEnv p) (evmChain p) asset)"

definition getBalanceFromNode :: "'e evm_params \<Rightarrow> string \<Rightarrow> string \<Rightarrow> ('e evm_fsm, rat) op" where
  "getBalanceFromNode p address asset =
     (let lib = evLib (vpEvm p); node = evNode (vpEvm p); addr = elHexAddress lib address in
      if asset = evmAsset p then
        bnd (wrapErr ''get eth balance from node'' (liftE (enBalanceAt node addr))) (\<lambda>balance.
        ret (envDecimalDiv (vpEnv p) (of_int balance) 1000000000000000000))
      else
        bnd (case elNewERC20 lib (elHexAddress lib asset) of
               Some e \<Rightarrow> fail (Wrapf ''create erc20 caller: '' e) | None \<Rightarrow> ret ()) (\<lambda>_.
        bnd (wrapErr ''get erc20 balance from node'' (liftE (enERC20BalanceOf node (elHexAddress lib asset) addr))) (\<lambda>balance.
        bnd (wrapErr ''get asset decimals'' (evm_getAssetDecimals p asset)) (\<lambda>decimals.
        ret (envDecimalDiv (vpEnv p) (of_int balance) (10 powi decimals))))))"

definition getBalance :: "'e evm_params \<Rightarrow> string \<Rightarrow> string \<Rightarrow> ('e evm_fsm, rat) op" where
  "getBalance p address asset =
     catchErr (liftE (envAddressBalance (vpEnv p) address asset (evmChain p))) (\<lambda>_. getBalanceFromNode p address asset)"

text \<open>The address and the private key of a wallet; the public key is not used.\<close>

definition getWalletCreds :: "'e evm_params \<Rightarrow> uuid \<Rightarrow> 32 word \<Rightarrow> ('e evm_fsm, string \<times> string) op" where
  "getWalletCreds p ownerID sq =
     bnd (wrapErr ''get owner'' (liftW (ownersGetByID (vpEnv p) ownerID))) (\<lambda>own.
     bnd (if vpSeedEncryption p
          then wrapErr ''decrypt mnemonic'' (ofSum (envDecrypt (vpEnv p) (owMnemonic own) (owID own)))
          else ret (owMnemonic own)) (\<lambda>mnemonic.
     ofSum (walletPubKeyHash (evLib (vpEvm p)) mnemonic (textString (owPassPhrase own)) sq)))"

section \<open>Sending\<close>

definition stringForBaseAsset :: "'e evm_params \<Rightarrow> string \<Rightarrow> string \<Rightarrow> string" where
  "stringForBaseAsset p before after = before @ evmAsset p @ after"

text \<open>The JSON object of an estimate, and what is read back from a stored object.\<close>

definition estimateVal :: "estimate_result \<Rightarrow> any_val" where
  "estimateVal r = VObj
     [(''estimate'', VObj
        [(''max_fee_per_gas'', VDec (frMaxFeePerGas (erEstimate r))),
         (''suggest_gas_tip_cap'', VDec (frSuggestGasTipCap (erEstimate r))),
         (''suggest_gas_price'', VDec (frSuggestGasPrice (erEstimate r)))]),
      (''estimate_gas_amount'', VDec (erEstimateGasAmount r)),
      (''total_fee_amount'', VDec (erTotalFeeAmount r)),
      (''total_gas_price'', VDec (erTotalGasPrice r)),
      (''gas_tip_cap'', VDec (erGasTipCap r))]"

definition prepareTransferTransactionTypeByStep :: "('e evm_fsm, tx_type) op" where
  "prepareTransferTransactionTypeByStep =
     bnd currentStep (\<lambda>st.
     case st of
       None \<Rightarrow> panic ''nil pointer dereference''
     | Some st \<Rightarrow>
         if spName st = evm_stepSendBaseAssetForBurn then ret TxTypeSendBurnBaseAsset
         else if spName st = evm_stepSending then ret TxTypeTransfer
         else fail (ErrText (''unknown transfer step: '' @ spName st)))"

definition initPendingSystemTransaction :: "'e evm_params \<Rightarrow> string \<Rightarrow> ('e evm_fsm) act" where
  "initPendingSystemTransaction p hash =
     bnd (wrapErr ''prepare transfer transaction type'' prepareTransferTransactionTypeByStep) (\<lambda>ty.
     bnd theTransfer (\<lambda>t.
     bnd currentStepName (\<lambda>stepName.
     wrapErr ''create transfer transaction''
       (liftW (qTxCreate (vpEnv p) True (trID t) hash ty TxStatusPending stepName)))))"

text \<open>\<open>what\<close> only labels the call in the record of calls; the code has no such argument.\<close>

definition sendBaseAsset :: "'e evm_params \<Rightarrow> tx_type \<Rightarrow> string \<times> string \<Rightarrow> string \<Rightarrow> rat \<Rightarrow> estimate_result \<Rightarrow>
    ('e evm_fsm, string \<times> (string \<times> any_val) list) op" where
  "sendBaseAsset p what creds toAddress amount est =
     (let ds = envDecimalString (vpEnv p); lib = evLib (vpEvm p); node = evNode (vpEvm p);
          amountWei = unitValue (vpEnv p) (newUnit amount EtherUnitEther) EtherUnitWei;
          gasLimit = gasLimitByBlockchain (evmChain p) in
     bnd (guardE (toAddress \<noteq> '''') (ErrText ''to address is not valid'')) (\<lambda>_.
     bnd (guardE (amount > 0) (ErrText ''amount must be greater than 0'')) (\<lambda>_.
     bnd (liftE (enChainID node)) (\<lambda>chainID.
     bnd (liftE (enPendingNonceAt node (elHexAddress lib (fst creds)))) (\<lambda>nonce.
     bnd (wrapErr ''sign transaction'' (ofSum (elSignTx lib
            \<lparr>etChainID = chainID, etNonce = nonce, etGasFeeCap = decBigInt (frMaxFeePerGas (erEstimate est)),
             etGasTipCap = decBigInt (erGasTipCap est), etGas = gasLimit, etTo = elHexAddress lib toAddress,
             etValue = decBigInt amountWei\<rparr> chainID (snd creds)))) (\<lambda>signed.
     bnd (inTx (vpEnv p)
       (bnd (wrapErr ''create system transaction'' (initPendingSystemTransaction p (stHash signed))) (\<lambda>_.
        bnd (modS (\<lambda>s. s\<lparr>efSent := efSent s @ [(what, SentBase signed)]\<rparr>)) (\<lambda>_.
        wrapErr ''send transaction'' (liftE (enSendTransaction node signed)))))) (\<lambda>_.
     ret (stHash signed,
       [(stringForBaseAsset p ''amount_'' '''', VStr (ds amount)), (''amount_wei'', VStr (ds amountWei)),
        (''nonce'', VInt (uint nonce)), (''gas_limit'', VInt (uint gasLimit)), (''estimated_data'', estimateVal est)]))))))))"

definition sendERC20 :: "'e evm_params \<Rightarrow> tx_type \<Rightarrow> string \<times> string \<Rightarrow> string \<Rightarrow> string \<Rightarrow> rat \<Rightarrow> int \<Rightarrow> estimate_result \<Rightarrow>
    ('e evm_fsm, string \<times> (string \<times> any_val) list) op" where
  "sendERC20 p what creds contract toAddress amount0 decimals est =
     (let ds = envDecimalString (vpEnv p); lib = evLib (vpEvm p); node = evNode (vpEvm p);
          amount = amount0 * assetUnit decimals in
     bnd (guardE (\<not> (contract = evmAsset p \<or> contract = '''')) (ErrText ''contract address is not valid'')) (\<lambda>_.
     bnd (guardE (toAddress \<noteq> '''') (ErrText ''to address is not valid'')) (\<lambda>_.
     bnd (guardE (amount0 > 0) (ErrText ''amount must be greater than 0'')) (\<lambda>_.
     bnd (liftE (enChainID node)) (\<lambda>chainID.
     bnd (liftE (enPendingNonceAt node (elHexAddress lib (fst creds)))) (\<lambda>nonce.
     bnd (case elTransactor lib (snd creds) chainID of Some e \<Rightarrow> fail e | None \<Rightarrow> ret ()) (\<lambda>_.
     (let auth = \<lparr>auFrom = elHexAddress lib (fst creds), auNonce = sint nonce,
            auGasLimit = word_of_int (decBigInt (erEstimateGasAmount est)),
            auGasFeeCap = decBigInt (frMaxFeePerGas (erEstimate est)), auGasTipCap = decBigInt (erGasTipCap est)\<rparr>;
          to' = elHexAddress lib toAddress; asset = elHexAddress lib contract; units = decBigInt amount in
     bnd (case elNewERC20 lib asset of
            Some e \<Rightarrow> fail (Wrapf ''create erc20 transactor: '' e) | None \<Rightarrow> ret ()) (\<lambda>_.
     bnd (inTx (vpEnv p)
       (bnd (modS (\<lambda>s. s\<lparr>efSent := efSent s @ [(what, SentToken auth asset to' units)]\<rparr>)) (\<lambda>_.
        bnd (wrapErr ''create transfer tx'' (liftE (enERC20Transfer node auth asset to' units))) (\<lambda>hash.
        bnd (wrapErr ''create system transaction'' (initPendingSystemTransaction p hash)) (\<lambda>_.
        ret hash))))) (\<lambda>hash.
     ret (hash,
       [(''contract_address'', VStr contract), (''amount'', VDec amount), (''decimals'', VInt decimals),
        (''nonce'', VStr (showInt (auNonce auth))), (''max_fee_per_gas'', VStr (ds (frMaxFeePerGas (erEstimate est)))),
        (''gas_limit'', VInt (uint (auGasLimit auth))), (''gas_tip_cap'', VStr (showInt (auGasTipCap auth))),
        (''estimated_data'', estimateVal est)])))))))))))"

section \<open>Before sending\<close>

definition evm_validateRequest :: "'e evm_params \<Rightarrow> ('e evm_fsm) act" where
  "evm_validateRequest p =
     (let ds = envDecimalString (vpEnv p) in
     bnd theTransfer (\<lambda>t.
     bnd (guardE (length (trFromAddresses t) = 1) (ErrText ''required one from address'')) (\<lambda>_.
     bnd (guardE (length (trToAddresses t) = 1) (ErrText ''required one to address'')) (\<lambda>_.
     bnd (guardE (trAssetIdentifier t \<noteq> '''') (ErrText ''asset identifier is empty'')) (\<lambda>_.
     bnd (if trWalletFromType t = WalletTypeHot then
       bnd (wrapErr ''check wallet'' (liftW (checkWallet (vpEnv p) (vpUseCacheForWallets p) (evmChain p) (getToAddress t)))) (\<lambda>r.
       bnd (guardE (cwWalletType r \<in> {WalletTypeCold, WalletTypeProcessing})
              (ErrText (''invalid wallet type '' @ walletTypeString (cwWalletType r)))) (\<lambda>_.
       guardE (cwOwnerID r = trOwnerID t) (ErrText (''invalid wallet owner '' @ cwOwnerID r))))
       else ret ()) (\<lambda>_.
     bnd (if trWalletFromType t = WalletTypeHot \<and> (trFee t \<noteq> None \<or> vpMaxGasFee p > 0) then
       bnd (if trWholeAmount t
            then wrapErr ''get balance'' (getBalance p (getFromAddress t) (trAssetIdentifier t))
            else ret (nullDecimal (trAmount t))) (\<lambda>amount.
       bnd (wrapErr ''get asset decimals'' (evm_getAssetDecimals p (trAssetIdentifier t))) (\<lambda>decimals.
       bnd (wrapErr ''estimate transfer resources'' (liftE (estimateTransfer (vpEnv p) (vpEvm p)
              (getFromAddress t) (getToAddress t) (trAssetIdentifier t) amount decimals))) (\<lambda>est.
       (let feeMax = (case trFeeMax t of Some m \<Rightarrow> m | None \<Rightarrow> vpMaxGasFee p);
            gwei = unitValue (vpEnv p) (newUnit (erTotalGasPrice est) EtherUnitWei) EtherUnitGWei in
        guardE (\<not> gwei > feeMax)
          (Wrapfs '''' (ErrExt ''rpccode'' ''max fee value exceeded'')
             ('': estimated gas price is exceeded: '' @ ds gwei @ '' > '' @ ds feeMax))))))
       else ret ()) (\<lambda>_.
     evm_setTransferStatus p TransferStatusProcessing)))))))"

definition jumpToSending :: "('e evm_fsm) act" where
  "jumpToSending = modS (\<lambda>s. setNextStep evm_stepSending (setNextStage evm_stageSending s))"

definition burnStateData :: "'e evm_params \<Rightarrow> transfer \<Rightarrow> string \<Rightarrow> rat \<Rightarrow> rat \<Rightarrow> rat \<Rightarrow> rat \<Rightarrow> rat \<Rightarrow> rat \<Rightarrow> rat \<Rightarrow>
    (string \<times> any_val) list \<Rightarrow> any_val" where
  "burnStateData p t from fee need diff hotBase hotAsset procBase cost sendData =
     (let ds = (\<lambda>x. VStr (envDecimalString (vpEnv p) x)) in
      VObj [(''from'', VStr from), (''to'', VStr (getFromAddress t)), (''transfer_fee_amount'', ds fee),
        (''need_fee_amount'', ds need), (stringForBaseAsset p ''diff_hot_wallet_'' ''_and_fee'', ds diff),
        (stringForBaseAsset p ''hot_wallet_'' ''_amount'', ds hotBase), (''hot_wallet_asset_amount'', ds hotAsset),
        (stringForBaseAsset p ''processing_wallet_'' '''', ds procBase), (''current_transfer_fee_amount'', ds cost),
        (''send_result'', VObj sendData)])"

text \<open>
  The part of \<open>sendBaseAssetForBurn\<close> after the balances are read and the transfer is estimated. The
  goroutine that stores the state data is waited for and only logs its error.
\<close>

definition topUpHotWallet :: "'e evm_params \<Rightarrow> transfer \<Rightarrow> processing_wallet \<Rightarrow> rat \<Rightarrow> rat \<Rightarrow> rat \<Rightarrow> estimate_result \<Rightarrow>
    ('e evm_fsm) act" where
  "topUpHotWallet p t pw procBase hotBase hotAsset est =
     (let ds = envDecimalString (vpEnv p); asset = evmAsset p;
          fee = etherOf p (erTotalFeeAmount est * (1007 / 1000)); diff = hotBase - fee; need = fee - hotBase in
     if diff > 0 then jumpToSending
     else if \<not> need > 0 then jumpToSending
     else
     bnd (guardE (\<not> procBase < need) (ErrText (''not enough '' @ asset @ '' on processing wallet: fee '' @ ds need @
            '' / balance '' @ ds procBase))) (\<lambda>_.
     bnd (wrapErr (''estimate '' @ asset @ '' transfer resources'') (liftE (estimateTransfer (vpEnv p) (vpEvm p)
            (wlAddress pw) (getFromAddress t) asset need 18))) (\<lambda>est2.
     (let cost = etherOf p (erTotalFeeAmount est2) in
     bnd (guardE (\<not> procBase - cost < need) (ErrText (''not enough '' @ asset @ '' on processing wallet: fee '' @ ds need @
            '' / transfer cost '' @ ds cost @ '' / balance '' @ ds procBase))) (\<lambda>_.
     bnd (wrapErr ''get wallet creds'' (getWalletCreds p (trOwnerID t) (word_of_int (pwSequence pw)))) (\<lambda>creds.
     bnd (wrapErr (''send '' @ asset) (sendBaseAsset p TxTypeSendBurnBaseAsset creds (getFromAddress t) need est)) (\<lambda>(_, sendData).
     ignoreErr (wrapErr ''set state data'' (liftW (transfersSetStateData (vpEnv p) False (trID t)
       [SendBurnBaseAsset \<mapsto> burnStateData p t (wlAddress pw) fee need diff hotBase hotAsset procBase cost sendData]))))))))))"

text \<open>The part of \<open>sendBaseAssetForBurn\<close> after the transaction was found not to be sent yet.\<close>

definition sendBurn :: "'e evm_params \<Rightarrow> transfer \<Rightarrow> ('e evm_fsm) act" where
  "sendBurn p t =
     (let asset = evmAsset p in
     bnd (wrapErr ''get processing wallet'' (liftW (processingGetByBlockchain (vpEnv p) (trOwnerID t) (evmChain p)))) (\<lambda>pw.
     bnd (wrapErr (''get processing '' @ asset @ '' balance'') (getBalance p (wlAddress pw) asset)) (\<lambda>procBase.
     bnd (wrapErr (''get hot wallet '' @ asset @ '' balance'') (getBalance p (getFromAddress t) asset)) (\<lambda>hotBase.
     bnd (if trWholeAmount t
          then wrapErr ''get balance'' (getBalance p (getFromAddress t) (trAssetIdentifier t))
          else ret (nullDecimal (trAmount t))) (\<lambda>hotAsset.
     bnd (wrapErr ''get asset decimals'' (evm_getAssetDecimals p (trAssetIdentifier t))) (\<lambda>decimals.
     bnd (wrapErr ''estimate transfer resources'' (liftE (estimateTransfer (vpEnv p) (vpEvm p)
            (getFromAddress t) (getToAddress t) (trAssetIdentifier t) hotAsset decimals))) (\<lambda>est.
     topUpHotWallet p t pw procBase hotBase hotAsset est)))))))"

definition sendBaseAssetForBurn :: "'e evm_params \<Rightarrow> ('e evm_fsm) act" where
  "sendBaseAssetForBurn p =
     bnd theTransfer (\<lambda>t.
     if trWalletFromType t = WalletTypeProcessing then jumpToSending
     else if trWalletFromType t \<noteq> WalletTypeHot
     then fail (ErrText (''unsupported wallet type: '' @ walletTypeString (trWalletFromType t)))
     else if trAssetIdentifier t = evmAsset p then jumpToSending
     else
     bnd (wrapErr ''find existing transaction''
            (liftW (qTxFindByType (vpEnv p) (trID t) TxTypeSendBurnBaseAsset))) (\<lambda>txs.
     if txs \<noteq> [] then ret () else sendBurn p t))"

definition waitingSendBurnBaseAssetConfirmations :: "'e evm_params \<Rightarrow> ('e evm_fsm) act" where
  "waitingSendBurnBaseAssetConfirmations p =
     bnd theTransfer (\<lambda>t.
     bnd (liftW (qTxFindByType (vpEnv p) (trID t) TxTypeSendBurnBaseAsset)) (\<lambda>txs.
     case txs of
       [tx] \<Rightarrow> bnd (ensureTxInBlockchain p (ttTxHash tx)) (\<lambda>_. jumpToSending)
     | _ \<Rightarrow> fail (ErrText (''expected exectly one tx, got: '' @ showNat (length txs)))))"

section \<open>The stage of sending\<close>

text \<open>The stored estimate, read back from its JSON object.\<close>

definition feeOfVal :: "'e env \<Rightarrow> any_val option \<Rightarrow> goerr + fee_result" where
  "feeOfVal env v =
     (case v of
        None \<Rightarrow> Inr \<lparr>frMaxFeePerGas = 0, frSuggestGasTipCap = 0, frSuggestGasPrice = 0\<rparr>
      | Some VNil \<Rightarrow> Inr \<lparr>frMaxFeePerGas = 0, frSuggestGasTipCap = 0, frSuggestGasPrice = 0\<rparr>
      | Some (VObj obj) \<Rightarrow>
          (case decFields env obj [''max_fee_per_gas'', ''suggest_gas_tip_cap'', ''suggest_gas_price''] of
             Inr [a, b, c] \<Rightarrow> Inr \<lparr>frMaxFeePerGas = a, frSuggestGasTipCap = b, frSuggestGasPrice = c\<rparr>
           | Inl e \<Rightarrow> Inl e
           | Inr _ \<Rightarrow> Inl (ErrText ''unreachable''))
      | Some _ \<Rightarrow> Inl (ErrText ''cannot unmarshal into EstimateFeeResult''))"

definition estimateOfVal :: "'e env \<Rightarrow> any_val \<Rightarrow> goerr + estimate_result" where
  "estimateOfVal env v =
     (case v of
        VNil \<Rightarrow> Inr \<lparr>erEstimate = \<lparr>frMaxFeePerGas = 0, frSuggestGasTipCap = 0, frSuggestGasPrice = 0\<rparr>,
          erEstimateGasAmount = 0, erTotalFeeAmount = 0, erTotalGasPrice = 0, erGasTipCap = 0\<rparr>
      | VObj obj \<Rightarrow>
          (case feeOfVal env (map_of obj ''estimate'') of
             Inl e \<Rightarrow> Inl e
           | Inr fee \<Rightarrow>
          (case decFields env obj [''estimate_gas_amount'', ''total_fee_amount'', ''total_gas_price'', ''gas_tip_cap''] of
             Inr [a, b, c, d] \<Rightarrow> Inr \<lparr>erEstimate = fee, erEstimateGasAmount = a, erTotalFeeAmount = b,
               erTotalGasPrice = c, erGasTipCap = d\<rparr>
           | Inl e \<Rightarrow> Inl e
           | Inr _ \<Rightarrow> Inl (ErrText ''unreachable'')))
      | _ \<Rightarrow> Inl (ErrText ''cannot unmarshal into EstimateTransferResult''))"

definition getEstimateByPath :: "'e env \<Rightarrow> (string \<rightharpoonup> any_val) \<Rightarrow> goerr + estimate_result option" where
  "getEstimateByPath env sd =
     (case sd SendBurnBaseAsset of
        None \<Rightarrow> Inr None
      | Some v \<Rightarrow>
     (case lookupPath v [''send_result'', ''estimated_data''] of
        None \<Rightarrow> Inr None
      | Some w \<Rightarrow>
     (case estimateOfVal env w of
        Inl e \<Rightarrow> Inl (Wrapf ''unmarshal json value: '' e)
      | Inr r \<Rightarrow> Inr (Some r))))"

text \<open>The estimate that the transaction of a token uses: the one that paid for its gas, if that was cheaper.\<close>

definition chooseEstimate :: "'e evm_params \<Rightarrow> estimate_result \<Rightarrow> estimate_result option \<Rightarrow> goerr + estimate_result" where
  "chooseEstimate p current stored =
     (let ds = envDecimalString (vpEnv p) in
      case stored of
        None \<Rightarrow> Inr current
      | Some res \<Rightarrow>
          if \<not> erTotalFeeAmount res < erTotalFeeAmount current then Inr current
          else if frSuggestGasPrice (erEstimate current) > frMaxFeePerGas (erEstimate res)
          then Inl (ErrText (''base fee is greater than max fee per gas, base fee '' @
                 ds (frSuggestGasPrice (erEstimate res)) @ '' / max fee per gas '' @ ds (frMaxFeePerGas (erEstimate res))))
          else if erEstimateGasAmount current > erEstimateGasAmount res
          then Inl (ErrText (''estimated gas amount is greater than previous, estimated gas amount '' @
                 ds (erEstimateGasAmount res) @ '' / previous '' @ ds (erEstimateGasAmount res)))
          else Inr res)"

definition sendNew :: "'e evm_params \<Rightarrow> transfer \<Rightarrow> ('e evm_fsm) act" where
  "sendNew p t =
     (let ds = envDecimalString (vpEnv p); from = getFromAddress t; to' = getToAddress t;
          base = (trAssetIdentifier t = evmAsset p) in
     bnd (if trWholeAmount t then wrapErr ''get balance'' (getBalance p from (trAssetIdentifier t))
          else ret (nullDecimal (trAmount t))) (\<lambda>amount0.
     bnd (wrapErr ''get asset decimals'' (evm_getAssetDecimals p (trAssetIdentifier t))) (\<lambda>decimals.
     bnd (wrapErr ''estimate transfer'' (liftE (estimateTransfer (vpEnv p) (vpEvm p) from to' (trAssetIdentifier t) amount0 decimals))) (\<lambda>current.
     bnd (if base then ret current
          else bnd (wrapErr ''get state data'' (liftW (transfersGetStateData (vpEnv p) (trID t)))) (\<lambda>sd.
               bnd (wrapErr ''get by path'' (ofSum (getEstimateByPath (vpEnv p) sd))) (\<lambda>stored.
               ofSum (chooseEstimate p current stored)))) (\<lambda>est.
     (let amount = (if trWholeAmount t \<and> base then amount0 - etherOf p (erTotalFeeAmount est) else amount0) in
     bnd (guardE (amount > 0) (ErrText (''transfer amount is less than or equal to zero, amount '' @ ds amount @
            '' / fee '' @ ds (erTotalFeeAmount est)))) (\<lambda>_.
     bnd (wrapErr ''get sequence by wallet type''
            (liftW (getSequenceByWalletType (vpEnv p) (trWalletFromType t) (trOwnerID t) (evmChain p) from))) (\<lambda>sq.
     bnd (wrapErr ''get wallet creds'' (getWalletCreds p (trOwnerID t) (word_of_int sq))) (\<lambda>creds.
     bnd (if base then wrapErr (''send '' @ evmAsset p) (sendBaseAsset p TxTypeTransfer creds to' amount est)
          else wrapErr ''send erc20'' (sendERC20 p TxTypeTransfer creds (trAssetIdentifier t) to' amount decimals est)) (\<lambda>(hash, sendData).
     bnd (wrapErr ''set state data'' (liftW (transfersSetStateData (vpEnv p) False (trID t)
            [''send_asset'' \<mapsto> VObj sendData]))) (\<lambda>_.
     replaceTxHash (vpEnv p) hash)))))))))))"

definition sending :: "'e evm_params \<Rightarrow> ('e evm_fsm) act" where
  "sending p =
     bnd theTransfer (\<lambda>t.
     bnd (wrapErr ''find existing transaction'' (liftW (qTxFindByType (vpEnv p) (trID t) TxTypeTransfer))) (\<lambda>txs.
     case txs of
       tx # _ \<Rightarrow>
         if textString (trTxHash t) = '''' \<or> textString (trTxHash t) \<noteq> ttTxHash tx
         then replaceTxHash (vpEnv p) (ttTxHash tx) else ret ()
     | [] \<Rightarrow> sendNew p t))"

section \<open>After sending\<close>

definition evm_waitingForTheFirstConfirmation :: "'e evm_params \<Rightarrow> ('e evm_fsm) act" where
  "evm_waitingForTheFirstConfirmation p =
     bnd theTransfer (\<lambda>t.
     (let hash = textString (trTxHash t) in
     bnd (tryE (liftE (enTransactionByHash (evNode (vpEvm p)) (elHexHash (evLib (vpEvm p)) hash)))) (\<lambda>res.
     case res of
       Inl e \<Rightarrow>
         bnd (olderThan p t (5 * minute)) (\<lambda>old.
         if strContains (strToLower (errStr e)) ''not found'' \<and> old
         then fail (newErrFailedTransfer (Wrapf (''transaction '' @ hash @ '' not found in the blockchain: '') e))
         else fail e)
     | Inr isPending \<Rightarrow>
         if isPending then
           bnd (olderThan p t (3600 * second)) (\<lambda>old.
           fail (noConsoleError (jobSnooze (vpEnv p) (if old then 30 * second else second))))
         else
           bnd (ensureTxInBlockchain p hash) (\<lambda>_.
           evm_setTransferStatus p TransferStatusUnconfirmed))))"

definition evm_waitingConfirmations :: "'e evm_params \<Rightarrow> ('e evm_fsm) act" where
  "evm_waitingConfirmations p =
     bnd theTransfer (\<lambda>t.
     checkTransactionConfirmations p (textString (trTxHash t)) (getMinConfirmations (evmChain p)))"

definition evm_sendSuccessEvent :: "'e evm_params \<Rightarrow> ('e evm_fsm) act" where
  "evm_sendSuccessEvent p = evm_setTransferStatus p TransferStatusCompleted"

section \<open>The machine\<close>

definition evmStages :: "stage list" where
  "evmStages =
     [\<lparr>sgName = evm_stageBeforeSending, sgSteps =
         [newStep evm_stepValidateRequest, newStep evm_stepSendBaseAssetForBurn, newStep evm_stepWaitingSendBaseAsset]\<rparr>,
      \<lparr>sgName = evm_stageSending, sgSteps = [newStep evm_stepSending]\<rparr>,
      \<lparr>sgName = evm_stageAfterSending, sgSteps =
         [newStep evm_stepWaitingForTheFirstConfirmation, newStep evm_stepWaitingConfirmations,
          newStep evm_stepSendSuccessEvent]\<rparr>]"

definition evmFuncs :: "'e evm_params \<Rightarrow> ('e evm_fsm) act list list" where
  "evmFuncs p =
     [[evm_validateRequest p, sendBaseAssetForBurn p, waitingSendBurnBaseAssetConfirmations p],
      [sending p],
      [evm_waitingForTheFirstConfirmation p, evm_waitingConfirmations p, evm_sendSuccessEvent p]]"

definition evm_onFailure :: "'e evm_params \<Rightarrow> goerr \<Rightarrow> ('e evm_fsm) act" where
  "evm_onFailure p err =
     (if errIs err ErrFailedTransfer then inTx (vpEnv p) (evm_sendFailureEvent p True err)
      else
     bnd currentStage (\<lambda>sg.
     bnd currentStep (\<lambda>st.
     case (sg, st) of
       (Some sg, Some st) \<Rightarrow>
         if sgName sg \<noteq> '''' \<and> spName st \<noteq> '''' \<and>
            (case exitOnFailedSteps (sgName sg) of Some steps \<Rightarrow> spName st \<in> set steps | None \<Rightarrow> False)
         then inTx (vpEnv p) (evm_sendFailureEvent p True err) else ret ()
     | _ \<Rightarrow> ret ())))"

definition evmStepBefore :: "'e evm_params \<Rightarrow> nat \<Rightarrow> nat \<Rightarrow> ('e evm_fsm) act option" where
  "evmStepBefore p i j =
     (if (i, j) = (0, 1) then Some (createTransferStepWh p evm_stepSendBaseAssetForBurn)
      else if (i, j) = (2, 0) then Some (createTransferStepWh p evm_stepWaitingForTheFirstConfirmation)
      else if (i, j) = (2, 1) then Some (createTransferStepWh p evm_stepWaitingConfirmations)
      else None)"

definition evmHooks :: "'e evm_params \<Rightarrow> ('e evm_fsm) hooks" where
  "evmHooks p =
     \<lparr>hBefore = None, hAfter = Some (saveSnapshot (vpEnv p)), hOnFailure = Some (evm_onFailure p),
      hBeforeAll = Some (\<lambda>_ _. saveSnapshot (vpEnv p)), hAfterAll = Some (\<lambda>_ _. saveSnapshot (vpEnv p)),
      hStageBefore = (\<lambda>_. None), hStageAfter = (\<lambda>_. None),
      hFunc = (\<lambda>i j. if i < length (evmFuncs p) \<and> j < length (evmFuncs p ! i) then Some (evmFuncs p ! i ! j) else None),
      hStepBefore = evmStepBefore p, hStepAfter = (\<lambda>_ _. None),
      hStopped = (\<lambda>s. envStopped (vpEnv p) (wdExt (fsWorld s))),
      hCtxErr = (\<lambda>s. case envCtx (vpEnv p) (wdExt (fsWorld s)) of
                        Some e \<Rightarrow> e | None \<Rightarrow> ErrCtx ''context canceled''),
      hNow = (\<lambda>s. envNow (vpEnv p) (wdExt (fsWorld s))),
      hSleep = (\<lambda>d s. s\<lparr>fsWorld := (fsWorld s)\<lparr>wdExt := envSleep (vpEnv p) d (wdExt (fsWorld s))\<rparr>\<rparr>)\<rparr>"

definition evm_newFSM :: "'e evm_params \<Rightarrow> transfer \<Rightarrow> 'e world \<Rightarrow> 'e evm_fsm" where
  "evm_newFSM p t w =
     setSnapshot (trSnapshot t)
       \<lparr>wName = blockchainString (evmChain p) @ '' fsm'', wState = newWorkflowState, wStages = evmStages, wPrevStep = None,
        wSkipError = False, fsTransfer = Some t, fsWorld = w, efSent = []\<rparr>"

definition evm_runFSM :: "'e evm_params \<Rightarrow> ('e evm_fsm) run_end \<Rightarrow> transfer \<Rightarrow> 'e world \<Rightarrow>
    (unit outcome \<times> 'e evm_fsm) option" where
  "evm_runFSM p sched t w = runWorkflow (evmHooks p) sched (evm_newFSM p t w)"

end
