(* ===== verification/FsmEvmFacts.thy ===== *)
theory FsmEvmFacts
  imports FsmEvm WorkflowCount
begin

text \<open>
  The library about the machine of the EVM chains: which functions leave a view of its state alone,
  how often a step submits a transaction, and the machine as an instance of the engine's interfaces.
\<close>

section \<open>Views of the state\<close>

lemma keeps_evm_chain:
  assumes "offWorld v"
  shows "keeps v (updateSystemTransactionStatus p tx st)" "keeps v (olderThan p t d)"
    "keeps v (ensureTxInBlockchain p h)" "keeps v (checkTransactionConfirmations p h n)"
proof -
  show u: "keeps v (updateSystemTransactionStatus p tx st)" for tx st
    unfolding updateSystemTransactionStatus_def by (intro keeps_world assms)
  show o': "keeps v (olderThan p t d)" for t d
    unfolding olderThan_def by (intro keeps_world assms)
  show "keeps v (ensureTxInBlockchain p h)"
    unfolding ensureTxInBlockchain_def by (intro keeps_world u o' assms)
  show "keeps v (checkTransactionConfirmations p h n)"
    unfolding checkTransactionConfirmations_def by (intro keeps_world u assms)
qed

lemma keeps_evm_balance:
  assumes "offWorld v"
  shows "keeps v (evm_getAssetDecimals p a)" "keeps v (getBalance p ad a)" "keeps v (getWalletCreds p i sq)"
  unfolding getBalance_def getBalanceFromNode_def evm_getAssetDecimals_def getWalletCreds_def Let_def
  by (intro keeps_world assms)+

lemma keeps_evm_status:
  assumes "offWorld v"
  shows "keeps v (evm_setTransferStatus p st)" "keeps v (createTransferStepWh p n)"
  unfolding evm_setTransferStatus_def createTransferStepWh_def
  by (intro keeps_world assms)+

lemma keeps_evm_type:
  assumes "offWorld v"
  shows "keeps v prepareTransferTransactionTypeByStep" "keeps v (initPendingSystemTransaction p h)"
  unfolding initPendingSystemTransaction_def prepareTransferTransactionTypeByStep_def
  by (intro keeps_world assms)+

lemmas keeps_evm = keeps_world keeps_evm_chain keeps_evm_balance keeps_evm_status keeps_evm_type

lemma keeps_evm_send:
  assumes "offWorld v" and "\<And>s x. v (s\<lparr>efSent := efSent s @ [(k, x)]\<rparr>) = v s"
  shows "keeps v (sendBaseAsset p k c to' a e)" "keeps v (sendERC20 p k c ct to' a d e)"
  unfolding sendBaseAsset_def sendERC20_def Let_def
  by (intro keeps_evm keeps_inTx keeps_modS assms offWorldD [OF assms(1)])+

lemma keeps_jump:
  assumes "\<And>s x. v (s\<lparr>wState := x\<rparr>) = v s"
  shows "keeps v jumpToSending"
  unfolding jumpToSending_def setNextStep_def setNextStage_def by (intro keeps_modS) (simp add: assms)

lemma keeps_evm_snapshot: "offWorld v \<Longrightarrow> keeps v (saveSnapshot env)"
  unfolding saveSnapshot_def by (intro keeps_world)

lemma keeps_evm_burn:
  assumes "offWorld v" and "\<And>s x. v (s\<lparr>wState := x\<rparr>) = v s"
    and "\<And>s x. v (s\<lparr>efSent := efSent s @ [(TxTypeSendBurnBaseAsset, x)]\<rparr>) = v s"
  shows "keeps v (sendBaseAssetForBurn p)"
  unfolding sendBaseAssetForBurn_def sendBurn_def topUpHotWallet_def Let_def
  by (intro keeps_evm keeps_evm_send keeps_jump assms)

lemma keeps_evm_sending:
  assumes "offWorld v" and "\<And>s x. v (s\<lparr>fsTransfer := x\<rparr>) = v s"
    and "\<And>s x. v (s\<lparr>efSent := efSent s @ [(TxTypeTransfer, x)]\<rparr>) = v s"
  shows "keeps v (sending p)"
  unfolding sending_def sendNew_def Let_def
  by (intro keeps_evm keeps_evm_send keeps_replaceTxHash assms offWorldD [OF assms(1)])

lemma keeps_evm_rest:
  assumes "offWorld v" and "\<And>s x. v (s\<lparr>wState := x\<rparr>) = v s"
  shows "keeps v (evm_validateRequest p)" "keeps v (waitingSendBurnBaseAssetConfirmations p)"
    "keeps v (evm_waitingForTheFirstConfirmation p)" "keeps v (evm_waitingConfirmations p)"
    "keeps v (evm_sendSuccessEvent p)"
  unfolding evm_validateRequest_def waitingSendBurnBaseAssetConfirmations_def evm_waitingForTheFirstConfirmation_def
    evm_waitingConfirmations_def evm_sendSuccessEvent_def Let_def
  by (intro keeps_evm keeps_jump assms)+

section \<open>How often a step submits\<close>

definition sentFor :: "tx_type \<Rightarrow> 'e evm_fsm \<Rightarrow> nat" where
  "sentFor k s = length (filter (\<lambda>x. fst x = k) (efSent s))"

lemma sentFor_off [simp]: "offWorld (sentFor k)"
  by (simp add: offWorld_def sentFor_def)

lemma sentFor_upd [simp]:
  "sentFor k (s\<lparr>wState := x\<rparr>) = sentFor k s" "sentFor k (s\<lparr>fsTransfer := y\<rparr>) = sentFor k s"
  "sentFor k (s\<lparr>wStages := z\<rparr>) = sentFor k s" "sentFor k (s\<lparr>wPrevStep := q\<rparr>) = sentFor k s"
  "sentFor k (s\<lparr>efSent := efSent s @ [(k', m)]\<rparr>) = sentFor k s + (if k' = k then 1 else 0)"
  by (simp_all add: sentFor_def)

lemma adds_record: "adds (sentFor k) 1 (modS (\<lambda>s. s\<lparr>efSent := efSent s @ [(k', m)]\<rparr>))"
  by (simp add: adds_def modS_def)

lemma adds_send:
  "adds (sentFor k) 1 (sendBaseAsset p k' c to' a e)" "adds (sentFor k) 1 (sendERC20 p k' c ct to' a d e)"
proof -
  have t: "adds (sentFor k) 1 (inTx (vpEnv p)
       (bnd (wrapErr ''create system transaction'' (initPendingSystemTransaction p h)) (\<lambda>_.
        bnd (modS (\<lambda>s. s\<lparr>efSent := efSent s @ [(k', x)]\<rparr>)) (\<lambda>_.
        wrapErr ''send transaction'' (liftE sn)))))" for h x sn
    by (intro adds_inTx adds_rest adds_first [OF adds_record] keeps_evm sentFor_off)
  show "adds (sentFor k) 1 (sendBaseAsset p k' c to' a e)"
    unfolding sendBaseAsset_def Let_def
    by ((rule adds_rest, (intro keeps_evm sentFor_off; fail)[1])+, rule adds_first, rule t, rule keeps_ret)
  have u: "adds (sentFor k) 1 (inTx (vpEnv p)
       (bnd (modS (\<lambda>s. s\<lparr>efSent := efSent s @ [(k', x)]\<rparr>)) (\<lambda>_.
        bnd (wrapErr ''create transfer tx'' (liftE sn)) (\<lambda>hash.
        bnd (wrapErr ''create system transaction'' (initPendingSystemTransaction p hash)) (\<lambda>_.
        ret hash)))))" for x sn
    by (intro adds_inTx adds_first [OF adds_record] keeps_evm sentFor_off)
  show "adds (sentFor k) 1 (sendERC20 p k' c ct to' a d e)"
    unfolding sendERC20_def Let_def
    by ((rule adds_rest, (intro keeps_evm sentFor_off; fail)[1])+, rule adds_first, rule u, rule keeps_ret)
qed

lemma adds_burn: "adds (sentFor k) 1 (sendBaseAssetForBurn p)"
proof -
  have j: "keeps (sentFor k) jumpToSending" by (rule keeps_jump) simp
  have "adds (sentFor k) 1 (sendBurn p t)" for t
    unfolding sendBurn_def topUpHotWallet_def Let_def
    by ((rule adds_rest, (intro keeps_evm sentFor_off; fail)[1] | rule adds_if, rule adds_keeps [OF j])+,
        rule adds_first, rule adds_wrapErr, rule adds_send, intro keeps_evm sentFor_off)
  then show ?thesis
    unfolding sendBaseAssetForBurn_def
    by (intro adds_rest adds_if adds_keeps [OF j] keeps_evm sentFor_off) (auto intro!: adds_keeps keeps_evm)
qed

lemma adds_sending: "adds (sentFor k) 1 (sending p)"
proof -
  have r: "keeps (sentFor k) (replaceTxHash env h)" for env h
    by (rule keeps_replaceTxHash) (simp_all add: offWorldD)
  have "adds (sentFor k) 1 (sendNew p t)" for t
    unfolding sendNew_def Let_def
    by ((rule adds_rest, (intro keeps_evm sentFor_off; fail)[1])+, rule adds_first, intro adds_if adds_wrapErr adds_send,
        intro keeps_evm r sentFor_off)
  then show ?thesis
    unfolding sending_def
    by (intro adds_rest keeps_evm sentFor_off) (auto split: list.split intro!: adds_keeps keeps_evm r)
qed

section \<open>The machine and the engine\<close>

lemma evmHooks_func:
  "hFunc (evmHooks p) i j = Some f \<Longrightarrow>
     (i, j, f) \<in> {(0, 0, evm_validateRequest p), (0, 1, sendBaseAssetForBurn p),
       (0, 2, waitingSendBurnBaseAssetConfirmations p), (1, 0, sending p),
       (2, 0, evm_waitingForTheFirstConfirmation p), (2, 1, evm_waitingConfirmations p), (2, 2, evm_sendSuccessEvent p)}"
  by (auto simp: evmHooks_def evmFuncs_def less_Suc_eq numeral_3_eq_3 numeral_2_eq_2 nth_Cons' split: if_splits)

lemma evmHooks_none:
  "hStepBefore (evmHooks p) i j = evmStepBefore p i j" "hStepAfter (evmHooks p) i j = None"
  "hStageBefore (evmHooks p) i = None" "hStageAfter (evmHooks p) i = None"
  "hBefore (evmHooks p) = None" "hBeforeAll (evmHooks p) = Some (\<lambda>_ _. saveSnapshot (vpEnv p))"
  "hAfter (evmHooks p) = Some (saveSnapshot (vpEnv p))"
  "hAfterAll (evmHooks p) = Some (\<lambda>_ _. saveSnapshot (vpEnv p))"
  "hSleep (evmHooks p) d s = s\<lparr>fsWorld := (fsWorld s)\<lparr>wdExt := envSleep (vpEnv p) d (wdExt (fsWorld s))\<rparr>\<rparr>"
  by (simp_all add: evmHooks_def)

lemma keeps_stepBefore: "offWorld v \<Longrightarrow> evmStepBefore p i j = Some f \<Longrightarrow> keeps v f"
  by (auto simp: evmStepBefore_def keeps_evm_status split: if_split_asm)

lemma frame_off: "offWorld frame"
  by (simp add: offWorld_def)

lemma frame_state: "frame (s\<lparr>wState := x\<rparr>) = frame s" "frame (s\<lparr>efSent := y\<rparr>) = frame s"
  by (rule frame_cong; simp)+

lemma evmFuncs_frame: "hFunc (evmHooks p) i j = Some f \<Longrightarrow> keeps frame f"
  using keeps_evm_rest [where p = p, OF frame_off frame_state(1)]
    keeps_evm_burn [where p = p, OF frame_off frame_state(1) frame_state(2)]
    keeps_evm_sending [where p = p, OF frame_off frame_fsTransfer frame_state(2)]
  by (auto dest: evmHooks_func)

interpretation evm: framed_hooks "evmHooks p" for p
proof
  fix i j f
  show "hFunc (evmHooks p) i j = Some f \<Longrightarrow> keeps frame f" by (rule evmFuncs_frame)
  show "hStepBefore (evmHooks p) i j = Some f \<Longrightarrow> keeps frame f"
    unfolding evmHooks_none by (rule keeps_stepBefore [OF frame_off])
qed (auto simp: evmHooks_none intro: keeps_intros)

text \<open>
  Of the two steps that submit, \<open>(0, 1)\<close> submits the transfer of the gas and \<open>(1, 0)\<close> the transfer
  itself; no other function raises either counter.
\<close>

definition purpose :: "nat \<Rightarrow> nat \<Rightarrow> tx_type" where
  "purpose i j = (if (i, j) = (0, 1) then TxTypeSendBurnBaseAsset else TxTypeTransfer)"

lemma evm_counted:
  assumes "(i0, j0) \<in> {(0, 1), (1, 0)}"
  shows "counted_hooks (evmHooks p) (sentFor (purpose i0 j0)) i0 j0"
proof
  let ?v = "sentFor (purpose i0 j0)"
  fix w :: "'a evm_fsm" and i j f x
  have s: "keeps ?v (saveSnapshot (vpEnv p))" by (rule keeps_evm_snapshot) simp
  show "hFunc (evmHooks p) i j = Some f \<Longrightarrow> (i, j) \<noteq> (i0, j0) \<Longrightarrow> keeps ?v f"
    using keeps_evm_rest [where v = ?v and p = p] keeps_evm_burn [where v = ?v and p = p]
      keeps_evm_sending [where v = ?v and p = p] assms
    by (auto simp: purpose_def dest!: evmHooks_func)
  show "?v (snd (f w)) \<le> ?v w + 1" if "hFunc (evmHooks p) i0 j0 = Some f"
  proof -
    from evmHooks_func [OF that] assms have "f = sendBaseAssetForBurn p \<or> f = sending p" by auto
    then show ?thesis by (elim disjE ssubst) (rule adds_snd, rule adds_burn adds_sending)+
  qed
  show "hStepBefore (evmHooks p) i j = Some f \<Longrightarrow> keeps ?v f"
    unfolding evmHooks_none by (rule keeps_stepBefore) simp
  fix g
  show "hBeforeAll (evmHooks p) = Some g \<Longrightarrow> keeps ?v (g i j)" "hAfterAll (evmHooks p) = Some g \<Longrightarrow> keeps ?v (g i j)"
    "hAfter (evmHooks p) = Some f \<Longrightarrow> keeps ?v f"
    unfolding evmHooks_none option.inject by (erule subst, rule s)+
qed (simp_all add: evmHooks_none offWorldD)

interpretation evm_burn: counted_hooks "evmHooks p" "sentFor TxTypeSendBurnBaseAsset" 0 1 for p :: "'e evm_params"
  using evm_counted [of 0 1, where p = p] by (simp add: purpose_def)

interpretation evm_sent: counted_hooks "evmHooks p" "sentFor TxTypeTransfer" 1 0 for p :: "'e evm_params"
  using evm_counted [of 1 0, where p = p] by (simp add: purpose_def)

end
