(* ===== verification/EvmRun.thy ===== *)
theory EvmRun
  imports FsmEvmFacts
begin

text \<open>
  The properties of the machine of the EVM chains: how often a run submits, what is recorded of a
  submission, how much a transfer of a whole balance can spend, when gas is bought for a token, and
  what the machine leaves behind when it fails.
\<close>

section \<open>Whole runs\<close>

lemma evm_stages: "wStages (evm_newFSM p t w) = fold restoreState (StepsStates (trSnapshot t)) evmStages"
  by (simp add: evm_newFSM_def setSnapshot_def)

lemma evm_fresh: "freshStages evmStages"
  by (simp add: freshStages_def evmStages_def newStep_def evm_names)

lemmas evm_init = fresh_init [OF evm_stages evm_fresh]
  and evm_retries = fresh_retries [OF evm_stages evm_fresh]
  and evm_bounded = fresh_bounded [OF evm_stages evm_fresh]

lemma keeps_evm_onFailure:
  assumes "offWorld v" and "\<And>s x y. v (s\<lparr>wState := x, wSkipError := y\<rparr>) = v s"
  shows "keeps v (evm_onFailure p e)"
proof -
  have f: "keeps v (evm_sendFailureEvent p tx e)" for tx
    unfolding evm_sendFailureEvent_def by (intro keeps_world keeps_modS assms)
  have t: "keeps v (inTx (vpEnv p) (evm_sendFailureEvent p True e))"
    by (rule keeps_inTx [OF offWorldD [OF assms(1)] f])
  show ?thesis
    unfolding evm_onFailure_def by (intro keeps_world t assms)
qed

lemma evm_runFinish_keeps:
  assumes "offWorld v" and "\<And>s x y. v (s\<lparr>wState := x, wSkipError := y\<rparr>) = v s"
  shows "v (snd (runFinish (evmHooks p) r s)) = v s"
proof -
  have "v s' = v s" if "evm_onFailure p e s = (r', s')" for e r' s'
    by (rule keepsD [OF keeps_evm_onFailure [OF assms] that])
  then show ?thesis
    by (auto simp: runFinish_def evmHooks_def split: outcome.splits prod.splits)
qed

text \<open>
  C16. Whatever the snapshot of the transfer, the database and the node do, a run of the machine ends,
  and it submits at most one transfer of gas and at most one transfer of the asset.
\<close>

theorem evm_run_submits_once:
  "\<exists>r s'. evm_runFSM p Ended t w = Some (r, s') \<and> sentFor TxTypeSendBurnBaseAsset s' \<le> 1 \<and> sentFor TxTypeTransfer s' \<le> 1"
proof -
  let ?m = "evm_newFSM p t w"
  let ?w0 = "?m\<lparr>wStages := map initStage (wStages ?m)\<rparr>"
  obtain r1 s1 where e: "execute (evmHooks p) ?m = Some (r1, s1)"
    and b: "sentFor TxTypeSendBurnBaseAsset s1 \<le> sentFor TxTypeSendBurnBaseAsset ?m + evm_burn.allow ?w0"
    using evm_burn.execute_allow [OF evm_init evm_bounded, of p p t w] by (metis prod.collapse)
  have s: "sentFor TxTypeTransfer s1 \<le> sentFor TxTypeTransfer ?m + evm_sent.allow ?w0"
    using evm_sent.execute_allow [OF evm_init evm_bounded, of p p t w] e by auto
  have "sentFor k ?m = 0" for k by (simp add: evm_newFSM_def setSnapshot_def sentFor_def)
  moreover have "evm_burn.allow ?w0 \<le> nat 1" by (rule evm_burn.allow_le [OF evm_retries])
  moreover have "evm_sent.allow ?w0 \<le> nat 1" by (rule evm_sent.allow_le [OF evm_retries])
  moreover have "sentFor k (snd (runFinish (evmHooks p) r s1)) = sentFor k s1" for k r s1
    by (rule evm_runFinish_keeps [OF sentFor_off]) (simp add: sentFor_def)
  ultimately show ?thesis using e b s
    by (cases "runFinish (evmHooks p) r1 s1") (simp add: evm_runFSM_def runWorkflow_def, metis le_trans snd_conv)
qed

section \<open>Recorded transactions\<close>

lemma initPending_tx:
  assumes "initPendingSystemTransaction p h s = (Val u, s')" and "wdTx (fsWorld s) = Some f" and "fsTransfer s = Some t"
  shows "\<exists>ty stepName now i e. s' = s\<lparr>fsWorld := (fsWorld s)\<lparr>wdExt := e, wdTx := Some ((\<lambda>d. d\<lparr>dbTransferTransactions :=
    dbTransferTransactions d @ [newTransferTx i (trID t) h ty TxStatusPending stepName now]\<rparr>) \<circ> f)\<rparr>\<rparr>"
proof -
  have k: "keeps (\<lambda>s. s) (prepareTransferTransactionTypeByStep :: ('a evm_fsm, tx_type) op)"
    unfolding prepareTransferTransactionTypeByStep_def by (intro keeps_intros)
  have n: "keeps (\<lambda>s. s) (currentStepName :: ('a evm_fsm, string) op)" by (intro keeps_intros)
  obtain ty s1 t' stepName s2 where a: "prepareTransferTransactionTypeByStep s = (Val ty, s1)" and t': "fsTransfer s1 = Some t'"
    and b: "currentStepName s1 = (Val stepName, s2)"
    and c': "liftW (qTxCreate (vpEnv p) True (trID t') h ty TxStatusPending stepName) s2 = (Val u, s')"
    using assms(1) unfolding initPendingSystemTransaction_def bnd_Val wrapErr_Val theTransfer_Val by blast
  have s: "s1 = s" "s2 = s" using keepsD [OF k a] keepsD [OF n b] by simp_all
  have c: "liftW (qTxCreate (vpEnv p) True (trID t) h ty TxStatusPending stepName) s2 = (Val u, s')"
    using c' t' assms(3) by (simp add: s)
  from c obtain w' where w: "qTxCreate (vpEnv p) True (trID t) h ty TxStatusPending stepName (fsWorld s) = (Val u, w')"
    and s': "s' = s\<lparr>fsWorld := w'\<rparr>"
    unfolding liftW_iff s by blast
  from dbExec_tx [OF w [unfolded qTxCreate_def Let_def] assms(2)] s' show ?thesis by blast
qed

text \<open>The call of \<open>sendBaseAsset\<close> that returns a transaction.\<close>

lemma sendBaseAsset_Val:
  assumes "sendBaseAsset p k c to' a est s = (Val (h, sd), s')" and "fsTransfer s = Some t"
  shows "\<exists>x ty stepName now i chain nonce. efSent s' = efSent s @ [(k, SentBase x)] \<and> h = stHash x \<and> fsTransfer s' = fsTransfer s \<and>
    wdDb (fsWorld s') = (wdDb (fsWorld s))\<lparr>dbTransferTransactions := dbTransferTransactions (wdDb (fsWorld s)) @
      [newTransferTx i (trID t) h ty TxStatusPending stepName now]\<rparr> \<and>
    elSignTx (evLib (vpEvm p)) \<lparr>etChainID = chain, etNonce = nonce, etGasFeeCap = decBigInt (frMaxFeePerGas (erEstimate est)),
      etGasTipCap = decBigInt (erGasTipCap est), etGas = gasLimitByBlockchain (evmChain p),
      etTo = elHexAddress (evLib (vpEvm p)) to',
      etValue = decBigInt (unitValue (vpEnv p) (newUnit a EtherUnitEther) EtherUnitWei)\<rparr> chain (snd c) = Inr x \<and> a > 0"
proof -
  obtain chain nonce x eb s2 ec ed where
    sign: "elSignTx (evLib (vpEvm p)) \<lparr>etChainID = chain, etNonce = nonce, etGasFeeCap = decBigInt (frMaxFeePerGas (erEstimate est)),
      etGasTipCap = decBigInt (erGasTipCap est), etGas = gasLimitByBlockchain (evmChain p),
      etTo = elHexAddress (evLib (vpEvm p)) to',
      etValue = decBigInt (unitValue (vpEnv p) (newUnit a EtherUnitEther) EtherUnitWei)\<rparr> chain (snd c) = Inr x"
    and pos: "a > 0" and h: "h = stHash x"
    and ini: "initPendingSystemTransaction p (stHash x) (s\<lparr>fsWorld := (fsWorld s)\<lparr>wdExt := eb, wdTx := Some id\<rparr>\<rparr>) = (Val (), s2)"
    and s': "s' = s2\<lparr>efSent := efSent s2 @ [(k, SentBase x)], fsWorld := (fsWorld s2)\<lparr>wdDb := dbView True ((fsWorld s2)\<lparr>wdExt := ec\<rparr>),
      wdTx := None, wdExt := ed\<rparr>\<rparr>"
    using assms(1) unfolding sendBaseAsset_def Let_def
    by (auto simp: bnd_Val wrapErr_Val guardE_Val ofSum_Val ret_Val modS_Val fsm_Val)
  from initPending_tx [OF ini, of id t] assms(2) obtain ty stepName now i e where
    "s2 = s\<lparr>fsWorld := (fsWorld s)\<lparr>wdExt := e, wdTx := Some ((\<lambda>d. d\<lparr>dbTransferTransactions :=
    dbTransferTransactions d @ [newTransferTx i (trID t) (stHash x) ty TxStatusPending stepName now]\<rparr>) \<circ> id)\<rparr>\<rparr>"
    by auto
  with s' h sign pos show ?thesis
    by (intro exI conjI) (auto simp: dbView_def)
qed

section \<open>A transfer of a whole balance\<close>

text \<open>The documented behaviour of \<open>types.SignTx\<close>: the signed transaction carries the given fields.\<close>

definition signsAsGiven :: "evm_lib \<Rightarrow> bool" where
  "signsAsGiven lib \<longleftrightarrow> (\<forall>tx c k x. elSignTx lib tx c k = Inr x \<longrightarrow> stTx x = tx)"

text \<open>What a transaction costs its sender at most, in Wei.\<close>

definition maxCost :: "evm_tx \<Rightarrow> int" where
  "maxCost tx = etValue tx + etGasFeeCap tx * uint (etGas tx)"

lemma trunc_le: "0 \<le> d \<Longrightarrow> of_int (decBigInt d) \<le> d"
  by (simp add: decBigInt_def)

lemma etherOf_near:
  assumes "divRoundOk (vpEnv p)"
  obtains n :: int where "etherOf p x = of_int n / 10 ^ 18" and "x \<le> of_int n + 1 / 2"
proof (rule divRound_near [OF assms, of "10 ^ 18" x 18])
  fix n :: int
  assume n: "envDivRound (vpEnv p) x (10 ^ 18) (int 18) = of_int n / 10 ^ 18" "\<bar>of_int n - x / 10 ^ 18 * 10 ^ 18\<bar> \<le> 1 / 2"
  have "of_int n - x \<le> 1 / 2" "- (of_int n - x) \<le> 1 / 2" using n(2) unfolding abs_le_iff by simp_all
  then show ?thesis by (intro that [of n]) (use n(1) in \<open>simp_all add: etherOf_def\<close>)
qed simp

text \<open>The arithmetic of a whole transfer: balance \<open>b\<close>, gas \<open>g\<close>, limit \<open>l\<close>, price \<open>m\<close>.\<close>

lemma whole_cost:
  assumes "divRoundOk (vpEnv p)" and "0 \<le> m" and "of_int l \<le> g" and "0 \<le> l" and a: "0 < b - etherOf p (m * g)"
  shows "of_int (decBigInt ((b - etherOf p (m * g)) * 10 ^ 18) + decBigInt m * l) \<le> b * 10 ^ 18"
proof -
  obtain n :: int where n: "etherOf p (m * g) = of_int n / 10 ^ 18" and near: "m * g \<le> of_int n + 1 / 2"
    by (rule etherOf_near [OF assms(1)])
  have "of_int (decBigInt m * l) \<le> m * g"
    using trunc_le [OF assms(2)] assms(2-4) by (simp add: mult_mono)
  with near have "decBigInt m * l \<le> n" by linarith
  then have "of_int (decBigInt m * l) \<le> (of_int n :: rat)" by (simp only: of_int_le_iff)
  moreover have "(b - etherOf p (m * g)) * 10 ^ 18 = b * 10 ^ 18 - of_int n" by (simp add: n left_diff_distrib)
  moreover have "of_int (decBigInt ((b - etherOf p (m * g)) * 10 ^ 18)) \<le> (b - etherOf p (m * g)) * 10 ^ 18"
    using a by (intro trunc_le mult_nonneg_nonneg) simp_all
  ultimately show ?thesis by simp
qed

lemma sendNew_whole:
  assumes "sendNew p t s = (Val (), s')" and "fsTransfer s = Some t" and "trWholeAmount t" and "trAssetIdentifier t = evmAsset p"
  obtains bal s1 est x1 x2 decimals creds s2 s3 sq h sd where
    "getBalance p (getFromAddress t) (evmAsset p) s = (Val bal, s1)"
    and "estimateTransfer (vpEnv p) (vpEvm p) (getFromAddress t) (getToAddress t) (evmAsset p) bal decimals x1 = (Val est, x2)"
    and "0 < bal - etherOf p (erTotalFeeAmount est)"
    and "sendBaseAsset p TxTypeTransfer creds (getToAddress t) (bal - etherOf p (erTotalFeeAmount est)) est s2 = (Val (h, sd), s3)"
    and "fsTransfer s2 = fsTransfer s" and "efSent s2 = efSent s" and "efSent s' = efSent s3"
proof -
  let ?a = "trAssetIdentifier t"
  obtain bal s1 decimals s2 est s3 sq s4 creds s5 h sd s6 s7 where
    b: "getBalance p (getFromAddress t) ?a s = (Val bal, s1)"
    and d: "evm_getAssetDecimals p ?a s1 = (Val decimals, s2)"
    and e: "liftE (estimateTransfer (vpEnv p) (vpEvm p) (getFromAddress t) (getToAddress t) ?a bal decimals) s2 = (Val est, s3)"
    and pos: "0 < bal - etherOf p (erTotalFeeAmount est)"
    and q: "liftW (getSequenceByWalletType (vpEnv p) (trWalletFromType t) (trOwnerID t) (evmChain p) (getFromAddress t)) s3 = (Val sq, s4)"
    and c: "getWalletCreds p (trOwnerID t) (word_of_int sq) s4 = (Val creds, s5)"
    and x: "sendBaseAsset p TxTypeTransfer creds (getToAddress t) (bal - etherOf p (erTotalFeeAmount est)) est s5 = (Val (h, sd), s6)"
    and sd: "liftW (transfersSetStateData (vpEnv p) False (trID t) [''send_asset'' \<mapsto> VObj sd]) s6 = (Val (), s7)"
    and r: "replaceTxHash (vpEnv p) h s7 = (Val (), s')"
    using assms(1) unfolding sendNew_def Let_def
    by (auto simp: assms(3,4) bnd_Val wrapErr_Val guardE_Val ret_Val split: prod.split_asm)
  let ?v = "\<lambda>s. (fsTransfer s, efSent s)"
  have o': "offWorld ?v" by (simp add: offWorld_def)
  have "?v s1 = ?v s" by (rule keepsD [OF keeps_evm_balance(2) [OF o'] b])
  moreover have "?v s2 = ?v s1" by (rule keepsD [OF keeps_evm_balance(1) [OF o'] d])
  moreover have "?v s3 = ?v s2" by (rule keepsD [OF keeps_off(2) [OF o'] e])
  moreover have "?v s4 = ?v s3" by (rule keepsD [OF keeps_off(1) [OF o'] q])
  moreover have "?v s5 = ?v s4" by (rule keepsD [OF keeps_evm_balance(3) [OF o'] c])
  moreover have "?v s7 = ?v s6" by (rule keepsD [OF keeps_off(1) [OF o'] sd])
  moreover have "keeps efSent (replaceTxHash (vpEnv p) h)" by (rule keeps_replaceTxHash) simp_all
  then have "efSent s' = efSent s7" using r by (rule keepsD)
  moreover obtain x' where "estimateTransfer (vpEnv p) (vpEvm p) (getFromAddress t) (getToAddress t) ?a bal decimals
      (wdExt (fsWorld s2)) = (Val est, x')"
    using e by (auto simp: liftE_iff)
  ultimately show ?thesis
    by (intro that [OF b [unfolded assms(4)] _ pos x, of decimals "wdExt (fsWorld s2)" x']) (simp_all add: assms(4))
qed

text \<open>
  C15. A transfer of the whole balance in the chain's own asset submits one transaction, and what it can
  cost at most (the value and the limit of gas times the maximal price) is never more than the
  balance that was read, whatever the gas costs and however the fee is rounded.
\<close>

theorem whole_transfer_within_balance:
  assumes "sendNew p t s = (Val (), s')" and "fsTransfer s = Some t"
    and "trWholeAmount t" and "trAssetIdentifier t = evmAsset p"
    and "divRoundOk (vpEnv p)" and "pricesOk (vpEvm p)" and "signsAsGiven (evLib (vpEvm p))"
  shows "\<exists>bal s1 x. getBalance p (getFromAddress t) (evmAsset p) s = (Val bal, s1) \<and>
    efSent s' = efSent s @ [(TxTypeTransfer, SentBase x)] \<and> of_int (maxCost (stTx x)) \<le> bal * 10 ^ 18"
proof (rule sendNew_whole [OF assms(1-4)])
  fix bal s1 est x1 x2 decimals creds s2 s3 h sd
  assume b: "getBalance p (getFromAddress t) (evmAsset p) s = (Val bal, s1)"
    and e: "estimateTransfer (vpEnv p) (vpEvm p) (getFromAddress t) (getToAddress t) (evmAsset p) bal decimals x1 = (Val est, x2)"
    and pos: "0 < bal - etherOf p (erTotalFeeAmount est)"
    and x: "sendBaseAsset p TxTypeTransfer creds (getToAddress t) (bal - etherOf p (erTotalFeeAmount est)) est s2 = (Val (h, sd), s3)"
    and k: "fsTransfer s2 = fsTransfer s" "efSent s2 = efSent s" "efSent s' = efSent s3"
  let ?m = "frMaxFeePerGas (erEstimate est)" and ?l = "uint (gasLimitByBlockchain (evmChain p))"
  obtain x3 where fee: "estimateFee (vpEnv p) (vpEvm p) x1 = (Val (erEstimate est), x3)"
    and tot: "erTotalFeeAmount est = ?m * erEstimateGasAmount est" and gas: "of_int ?l \<le> erEstimateGasAmount est"
    using estimateTransfer_parts [OF e] by (auto simp: evmAsset_def evmChain_def simp del: of_int_uint)
  obtain y chain nonce where y: "efSent s3 = efSent s2 @ [(TxTypeTransfer, SentBase y)]"
    and sg: "elSignTx (evLib (vpEvm p)) \<lparr>etChainID = chain, etNonce = nonce, etGasFeeCap = decBigInt ?m,
      etGasTipCap = decBigInt (erGasTipCap est), etGas = gasLimitByBlockchain (evmChain p),
      etTo = elHexAddress (evLib (vpEvm p)) (getToAddress t),
      etValue = decBigInt (unitValue (vpEnv p) (newUnit (bal - etherOf p (erTotalFeeAmount est)) EtherUnitEther) EtherUnitWei)\<rparr>
        chain (snd creds) = Inr y"
    using sendBaseAsset_Val [OF x, of t] k assms(2) by auto
  have "maxCost (stTx y) = decBigInt ((bal - etherOf p (?m * erEstimateGasAmount est)) * 10 ^ 18) + decBigInt ?m * ?l"
    using assms(7) sg by (auto simp: signsAsGiven_def maxCost_def tot)
  moreover have "of_int (decBigInt ((bal - etherOf p (?m * erEstimateGasAmount est)) * 10 ^ 18) + decBigInt ?m * ?l) \<le> bal * 10 ^ 18"
    by (rule whole_cost [OF assms(5) estimateFee_nonneg [OF fee assms(6)] gas]) (use pos tot in simp_all)
  ultimately show ?thesis using b k y by (intro exI [of _ bal] exI [of _ s1] exI [of _ y]) simp
qed

section \<open>Failures\<close>

lemma keeps_held_modS: "(\<And>s. fsWorld (f s) = fsWorld s) \<Longrightarrow> keeps (\<lambda>s. held (fsWorld s)) (modS f)"
  by (rule keeps_modS) simp

lemma held_failureEvent: "keeps (\<lambda>s. held (fsWorld s)) (evm_sendFailureEvent p True e)"
  unfolding evm_sendFailureEvent_def
  by (intro keeps_intros keeps_liftW_world keeps_held_modS held_eventParams held_batch held_transfers) simp

text \<open>What the failure event of a machine writes, through the open transaction.\<close>

definition failureRecorded :: "uuid \<Rightarrow> goerr \<Rightarrow> db \<Rightarrow> bool" where
  "failureRecorded tid e d \<longleftrightarrow> storedStatus tid d = Some TransferStatusFailed \<and>
     (\<exists>h\<in>set (dbWebhooks d). whStatus h = WebhookStatusNew \<and> spStatus (whPayload h) = TransferStatusFailed \<and>
        spErrorMessage (whPayload h) = errStr e)"

lemma evm_failureEvent_ok:
  fixes p :: "'e evm_params"
  assumes "evm_sendFailureEvent p True e s = (Val u, s')" and "fsTransfer s = Some t"
    and "dbView True (fsWorld s) = wdDb (fsWorld s)"
  shows "failureRecorded (trID t) e (dbView True (fsWorld s'))"
proof -
  let ?ev = "\<lambda>t nm. \<lparr>evIsSystem = False, evTransferID = trID t, evOwnerID = trOwnerID t,
                evStatus = TransferStatusFailed, evStep = nm, evErrorMessage = errStr e\<rparr>"
  obtain nm t2 ps sh and s0 s1 s2 s20 s3 s4 :: "'e evm_fsm" where
    nm: "currentStepName s = (Val nm, s0)" and t2: "fsTransfer s0 = Some t2"
    and e: "eventTransferStatusCreateParams (vpEnv p) (?ev t2 nm) (fsWorld s0) = (Val ps, fsWorld s1)"
    and s2: "fsWorld s2 = fsWorld s1" and g: "getSnapshot s2 = (Val sh, s20)"
    and sn: "transfersSetWorkflowSnapshot (vpEnv p) True (trID t2) sh (fsWorld s20) = (Val (), fsWorld s3)"
    and h: "webhooksBatchCreate (vpEnv p) True [ps] (fsWorld s3) = (Val (), fsWorld s4)"
    and st: "transfersSetStatus (vpEnv p) True (trID t2) TransferStatusFailed (fsWorld s4) = (Val (), fsWorld s')"
  proof -
    from assms(1) obtain nm s0 t2 ps s1 u1 s2 sh s20 u2 s3 u3 s4 where
      a: "currentStepName s = (Val nm, s0)" "fsTransfer s0 = Some t2"
      "liftW (eventTransferStatusCreateParams (vpEnv p) (?ev t2 nm)) s0 = (Val ps, s1)"
      "modS (\<lambda>s. s\<lparr>wState := setWfError None ((wState s)\<lparr>IsFailed := True\<rparr>), wSkipError := True\<rparr>) s1 = (Val u1, s2)"
      "getSnapshot s2 = (Val sh, s20)"
      "liftW (transfersSetWorkflowSnapshot (vpEnv p) True (trID t2) sh) s20 = (Val u2, s3)"
      "liftW (webhooksBatchCreate (vpEnv p) True [ps]) s3 = (Val u3, s4)"
      "liftW (transfersSetStatus (vpEnv p) True (trID t2) TransferStatusFailed) s4 = (Val u, s')"
      unfolding evm_sendFailureEvent_def bnd_Val wrapErr_Val theTransfer_Val by blast
    have "fsWorld s2 = fsWorld s1" using a(4) by (simp add: modS_Val)
    with a show ?thesis by (intro that [of nm s0 t2 ps s1 s2 sh s20 s3 s4]) (auto simp: liftW_iff)
  qed
  have "s0 = s" by (rule keepsD [of "\<lambda>s. s", OF keeps_currentStepName nm])
  moreover have "s20 = s2" by (rule keepsD [of "\<lambda>x. x", OF keeps_getSnapshot g])
  ultimately have eq: "t2 = t" "s0 = s" "fsWorld s20 = fsWorld s1" using t2 s2 assms(2) by simp_all
  from eventParams_Val [OF e [unfolded eq]] obtain row own txs where
    row: "transferRow (trID t) (wdDb (fsWorld s)) = Inr row" and ps: "ps = announced (?ev t nm) row txs own" by auto
  have "keeps (\<lambda>w. (wdDb w, wdTx w)) (eventTransferStatusCreateParams (vpEnv p) (?ev t nm))"
    unfolding eventTransferStatusCreateParams_def transfersGetByID_def noRowsToNotFound_def qTransferGetByID_def
      qTxGetByTransfer_def qOwnerGetByID_def by (intro keeps_intros keeps_dbRead) simp_all
  from keepsD [OF this e [unfolded eq]] have "dbView True (fsWorld s1) = dbView True (fsWorld s)"
    by (simp add: dbView_def split: option.split)
  with transfersSetWorkflowSnapshot_view [OF sn [unfolded eq], of row] row assms(3) obtain row' where
    row': "transferRow (trID t) (dbView True (fsWorld s3)) = Inr row'" by auto
  from webhooksBatchCreate_view [OF h] obtain now where
    d4: "dbView True (fsWorld s4) = (dbView True (fsWorld s3))\<lparr>dbWebhooks := insertWebhook now ps (dbWebhooks (dbView True (fsWorld s3)))\<rparr>" by blast
  have "transferRow (trID t) (dbView True (fsWorld s4)) = Inr row'" using row' d4 by (simp add: transferRow_def)
  from transfersSetStatus_view [OF st [unfolded eq] this] d4 insertWebhook_in [of now ps "dbWebhooks (dbView True (fsWorld s3))"]
  show ?thesis by (auto simp: failureRecorded_def ps announced_def)
qed


text \<open>
  C19. The failure of a transfer is recorded as a whole: after the failure hook either the tables are what
  they were, or the transfer has the failed status and its webhook with the error's text is queued.
  A fatal error that the hook returns from without an error has been recorded.
\<close>

theorem evm_failure_is_atomic:
  assumes "evm_onFailure p e s = (r, s')" and "fsTransfer s = Some t" and "wdTx (fsWorld s) = None"
  shows "wdTx (fsWorld s') = None \<and>
    (wdDb (fsWorld s') = wdDb (fsWorld s) \<or> failureRecorded (trID t) e (wdDb (fsWorld s'))) \<and>
    (errIs e ErrFailedTransfer \<and> r = Val () \<longrightarrow> failureRecorded (trID t) e (wdDb (fsWorld s')))"
proof -
  have a: "wdTx (fsWorld s') = None \<and> (wdDb (fsWorld s') = wdDb (fsWorld s) \<and> (\<forall>x. r \<noteq> Val x) \<or>
      failureRecorded (trID t) e (wdDb (fsWorld s')))" if "inTx (vpEnv p) (evm_sendFailureEvent p True e) s = (r, s')"
    using inTx_atomic [OF that held_failureEvent assms(3)]
    by (auto dest!: evm_failureEvent_ok [where t = t] simp: assms(2) dbView_def)
  obtain q1 q2 where c: "currentStage s = (q1, s)" "currentStep s = (q2, s)"
    using keepsD [of "\<lambda>x. x", OF keeps_currentStage] keepsD [of "\<lambda>x. x", OF keeps_currentStep] by (metis surj_pair)
  consider "inTx (vpEnv p) (evm_sendFailureEvent p True e) s = (r, s')"
    | "\<not> errIs e ErrFailedTransfer" "s' = s"
    using assms(1) unfolding evm_onFailure_def bnd_def c
    by (cases q1; cases q2) (auto simp: ret_def c split: if_split_asm option.split_asm)
  then show ?thesis using a assms(3) by cases auto
qed

section \<open>A recorded transfer\<close>

lemma replaceTxHash_Val:
  assumes "replaceTxHash env h s = (Val u, s')" and "fsTransfer s = Some t"
  obtains t' where "fsTransfer s' = Some t'" and "trTxHash t' = Some h" and "trID t' = trID t"
proof -
  obtain t' w' where a: "transfersSetTxHash env False (trID t) h (fsWorld s) = (Val (t', None), w')"
    and s': "fsTransfer s' = t'"
    using assms unfolding replaceTxHash_def bnd_Val theTransfer_Val
    by (auto simp: liftW_iff op_Val split: option.split_asm)
  from transfersSetTxHash_Val [OF a] obtain x where x: "t' = Some x" "qTransferSetTxHash env False (trID t) h (fsWorld s) = (Val x, w')"
    by blast
  from qTransferSetTxHash_ok [OF x(2)] show ?thesis using that [of x] s' x(1) by simp
qed

text \<open>The recorded transactions of a transfer that move its asset.\<close>

definition recordedTransfers :: "uuid \<Rightarrow> db \<Rightarrow> transfer_tx list" where
  "recordedTransfers tid d = filter (\<lambda>x. ttTransferID x = tid \<and> ttTxType x = TxTypeTransfer) (dbTransferTransactions d)"

text \<open>
  C17. Once a transaction of the transfer is recorded, the step of sending never submits another one: it
  only makes the transfer carry the hash of the recorded transaction.
\<close>

theorem recorded_transfer_is_not_resent:
  assumes "fsTransfer s = Some t" and "recordedTransfers (trID t) (wdDb (fsWorld s)) = x # xs"
  shows "efSent (snd (sending p s)) = efSent s \<and>
    (fst (sending p s) = Val () \<longrightarrow>
       (\<exists>t'. fsTransfer (snd (sending p s)) = Some t' \<and> textString (trTxHash t') = ttTxHash x))"
proof (cases "qTxFindByType (vpEnv p) (trID t) TxTypeTransfer (fsWorld s)")
  case (Pair q w')
  show ?thesis
  proof (cases q)
    case (Val txs)
    with Pair have "qTxFindByType (vpEnv p) (trID t) TxTypeTransfer (fsWorld s) = (Val txs, w')" by simp
    from dbRead_Val [OF this [unfolded qTxFindByType_def]] assms(2) have txs: "txs = x # xs"
      by (simp add: dbView_outside recordedTransfers_def)
    let ?s = "s\<lparr>fsWorld := w'\<rparr>"
    let ?m = "if textString (trTxHash t) = '''' \<or> textString (trTxHash t) \<noteq> ttTxHash x
      then replaceTxHash (vpEnv p) (ttTxHash x) else ret ()"
    have run: "sending p s = ?m ?s"
      using Pair Val txs assms(1) by (simp add: sending_def bnd_def theTransfer_def wrapErr_def liftW_def)
    have "keeps efSent ?m" by (intro keeps_intros keeps_replaceTxHash) simp_all
    from keeps_snd [OF this] have e: "efSent (snd (?m ?s)) = efSent ?s" .
    have h: "\<exists>t'. fsTransfer s' = Some t' \<and> textString (trTxHash t') = ttTxHash x" if "?m ?s = (Val (), s')" for s'
      using that assms(1) by (auto simp: textString_def ret_def elim!: replaceTxHash_Val [where t = t] split: if_split_asm)
    obtain q' s' where r: "?m ?s = (q', s')" by (rule prod.exhaust)
    show ?thesis using e h [of s'] unfolding run r by simp
  qed (use Pair assms(1) in \<open>simp_all add: sending_def bnd_def theTransfer_def wrapErr_def liftW_def\<close>)
qed


section \<open>The limit of the fee\<close>

text \<open>
  A transfer from a hot wallet for which the check estimates the fee passes it only if the price of
  gas, in GWei, is at most its limit: the one of the transfer or else the one of the configuration.
\<close>

theorem evm_fee_limit_respected:
  assumes "evm_validateRequest p s = (Val (), s')" and "fsTransfer s = Some t" and "trWalletFromType t = WalletTypeHot"
    and "trFee t \<noteq> None \<or> vpMaxGasFee p > 0"
  shows "\<exists>amount decimals est x x'. estimateTransfer (vpEnv p) (vpEvm p) (getFromAddress t) (getToAddress t)
      (trAssetIdentifier t) amount decimals x = (Val est, x') \<and>
    unitValue (vpEnv p) (newUnit (erTotalGasPrice est) EtherUnitWei) EtherUnitGWei
      \<le> (case trFeeMax t of Some m \<Rightarrow> m | None \<Rightarrow> vpMaxGasFee p)"
proof -
  have h: "trWalletFromType t = WalletTypeHot \<and> (trFee t \<noteq> None \<or> vpMaxGasFee p > 0)" using assms(3,4) by simp
  show ?thesis
    using assms(1) unfolding evm_validateRequest_def Let_def bnd_Val theTransfer_Val assms(2) option.inject
    by (elim exE conjE) (hypsubst, simp only: h if_P simp_thms bnd_Val wrapErr_Val guardE_Val liftE_iff not_less, blast)
qed

text \<open>
  A transfer that names no fee is not held to the limit that it names itself: without a limit in the
  configuration the check answers the same whatever the node says of the price of gas.
\<close>

theorem own_fee_limit_ignored:
  assumes "fsTransfer s = Some t" and "trFee t = None" and "\<not> vpMaxGasFee p > 0"
  shows "evm_validateRequest (p\<lparr>vpEvm := (vpEvm p)\<lparr>evNode := node\<rparr>\<rparr>) s = evm_validateRequest p s"
proof -
  let ?p = "p\<lparr>vpEvm := (vpEvm p)\<lparr>evNode := node\<rparr>\<rparr>"
  have eq: "evmChain ?p = evmChain p" "vpEnv ?p = vpEnv p" "vpUseCacheForWallets ?p = vpUseCacheForWallets p" "vpMaxGasFee ?p = vpMaxGasFee p"
    by (simp_all add: evmChain_def)
  have st: "evm_setTransferStatus ?p = evm_setTransferStatus p"
    by (intro ext) (simp add: evm_setTransferStatus_def)
  have t: "bnd theTransfer f s = f t s" for f :: "transfer \<Rightarrow> ('a evm_fsm) act"
    using assms(1) by (simp add: theTransfer_def bnd_def)
  show ?thesis
    unfolding evm_validateRequest_def Let_def t eq st using assms(2,3) by simp
qed

section \<open>Gas for a token\<close>

lemma keeps_sent_jump: "jumpToSending s = (r, s') \<Longrightarrow> efSent s' = efSent s"
  by (rule keepsD [OF keeps_jump]) simp_all

lemma topUp_sends:
  fixes p :: "'e evm_params"
  assumes "topUpHotWallet p t pw proc hot amount est s = (Val (), s')" and "fsTransfer s = Some t"
  shows "efSent s' = efSent s \<or>
    (\<exists>fee est2 x e e'. fee = etherOf p (erTotalFeeAmount est * (1007 / 1000)) \<and> hot < fee \<and>
       estimateTransfer (vpEnv p) (vpEvm p) (wlAddress pw) (getFromAddress t) (evmAsset p) (fee - hot) 18 e = (Val est2, e') \<and>
       fee - hot \<le> proc - etherOf p (erTotalFeeAmount est2) \<and>
       efSent s' = efSent s @ [(TxTypeSendBurnBaseAsset, SentBase x)] \<and>
       (signsAsGiven (evLib (vpEvm p)) \<longrightarrow> etValue (stTx x) = \<lfloor>(fee - hot) * 10 ^ 18\<rfloor> \<and>
          etTo (stTx x) = elHexAddress (evLib (vpEvm p)) (getFromAddress t)))"
proof -
  let ?fee = "etherOf p (erTotalFeeAmount est * (1007 / 1000))"
  consider "jumpToSending s = (Val (), s')" | "hot < ?fee" "\<not> ?fee < hot"
    using assms(1) by (auto simp: topUpHotWallet_def Let_def split: if_split_asm)
  then show ?thesis
  proof cases
    case 1
    then show ?thesis using keeps_sent_jump by blast
  next
    case 2
    from assms(1) 2 obtain est2 s1 creds s2 h sd s3 where
      a: "liftE (estimateTransfer (vpEnv p) (vpEvm p) (wlAddress pw) (getFromAddress t) (evmAsset p) (?fee - hot) 18) s = (Val est2, s1)"
      and le: "\<not> proc < ?fee - hot" "\<not> proc - etherOf p (erTotalFeeAmount est2) < ?fee - hot"
      and c: "getWalletCreds p (trOwnerID t) (word_of_int (pwSequence pw)) s1 = (Val creds, s2)"
      and x: "sendBaseAsset p TxTypeSendBurnBaseAsset creds (getFromAddress t) (?fee - hot) est s2 = (Val (h, sd), s3)"
      and d: "ignoreErr (wrapErr ''set state data'' (liftW (transfersSetStateData (vpEnv p) False (trID t)
       [SendBurnBaseAsset \<mapsto> burnStateData p t (wlAddress pw) ?fee (?fee - hot) (hot - ?fee) hot amount proc
          (etherOf p (erTotalFeeAmount est2)) sd]))) s3 = (Val (), s')"
      by (auto simp: topUpHotWallet_def Let_def bnd_Val wrapErr_Val guardE_Val split: prod.split_asm)
    let ?v = "\<lambda>s :: 'e evm_fsm. (fsTransfer s, efSent s)"
    have o': "offWorld ?v" by (simp add: offWorld_def)
    have "?v s1 = ?v s" by (rule keepsD [OF keeps_off(2) [OF o'] a])
    moreover have "?v s2 = ?v s1" by (rule keepsD [OF keeps_evm_balance(3) [OF o'] c])
    moreover have "keeps ?v (ignoreErr (wrapErr n (liftW m)))" for n and m :: "('e world, unit) op" by (intro keeps_world o')
    then have "?v s' = ?v s3" using d by (rule keepsD)
    ultimately have k: "fsTransfer s2 = Some t" "efSent s2 = efSent s" "efSent s' = efSent s3" using assms(2) by simp_all
    obtain y chain nonce where y: "efSent s3 = efSent s2 @ [(TxTypeSendBurnBaseAsset, SentBase y)]"
      and sg: "elSignTx (evLib (vpEvm p)) \<lparr>etChainID = chain, etNonce = nonce, etGasFeeCap = decBigInt (frMaxFeePerGas (erEstimate est)),
        etGasTipCap = decBigInt (erGasTipCap est), etGas = gasLimitByBlockchain (evmChain p),
        etTo = elHexAddress (evLib (vpEvm p)) (getFromAddress t),
        etValue = decBigInt (unitValue (vpEnv p) (newUnit (?fee - hot) EtherUnitEther) EtherUnitWei)\<rparr> chain (snd creds) = Inr y"
      using sendBaseAsset_Val [OF x k(1)] by auto
    have "0 \<le> (?fee - hot) * 10 ^ 18" using 2(1) by simp
    then have "decBigInt ((?fee - hot) * 10 ^ 18) = \<lfloor>(?fee - hot) * 10 ^ 18\<rfloor>" by (simp add: decBigInt_def)
    with sg have "signsAsGiven (evLib (vpEvm p)) \<longrightarrow> etValue (stTx y) = \<lfloor>(?fee - hot) * 10 ^ 18\<rfloor> \<and>
        etTo (stTx y) = elHexAddress (evLib (vpEvm p)) (getFromAddress t)"
      by (auto simp: signsAsGiven_def)
    moreover obtain e e' where "estimateTransfer (vpEnv p) (vpEvm p) (wlAddress pw) (getFromAddress t) (evmAsset p) (?fee - hot) 18 e = (Val est2, e')"
      using a by (auto simp: liftE_iff)
    ultimately show ?thesis using y k 2(1) le
      by (intro disjI2 exI [of _ ?fee] exI [of _ est2] exI [of _ y] exI [of _ e] exI [of _ e']) simp
  qed
qed

text \<open>
  C18. Gas is bought for a token only when the hot wallet cannot pay for the transfer, 0.7 percent added
  to the estimate; then the transaction tops the wallet up to that fee, and the processing wallet
  has the amount even after the cost of this transaction.
\<close>

theorem gas_is_bought_when_missing:
  fixes p :: "'e evm_params"
  assumes "sendBurn p t s = (Val (), s')" and "fsTransfer s = Some t"
  shows "efSent s' = efSent s \<or>
    (\<exists>pw proc hot amount decimals est est2 fee x s1 s2 s3 e1 e2 e3 e4.
       getBalance p (wlAddress (pw :: processing_wallet)) (evmAsset p) s1 = (Val proc, s2) \<and>
       getBalance p (getFromAddress t) (evmAsset p) s2 = (Val hot, s3) \<and>
       estimateTransfer (vpEnv p) (vpEvm p) (getFromAddress t) (getToAddress t) (trAssetIdentifier t) amount decimals e1 = (Val est, e2) \<and>
       fee = etherOf p (erTotalFeeAmount est * (1007 / 1000)) \<and> hot < fee \<and>
       estimateTransfer (vpEnv p) (vpEvm p) (wlAddress pw) (getFromAddress t) (evmAsset p) (fee - hot) 18 e3 = (Val est2, e4) \<and>
       fee - hot \<le> proc - etherOf p (erTotalFeeAmount est2) \<and>
       efSent s' = efSent s @ [(TxTypeSendBurnBaseAsset, SentBase x)] \<and>
       (signsAsGiven (evLib (vpEvm p)) \<longrightarrow> etValue (stTx x) = \<lfloor>(fee - hot) * 10 ^ 18\<rfloor> \<and>
          etTo (stTx x) = elHexAddress (evLib (vpEvm p)) (getFromAddress t)))"
proof -
  let ?a = "evmAsset p" and ?v = "\<lambda>s :: 'e evm_fsm. (fsTransfer s, efSent s)"
  obtain pw s1 proc s2 hot s3 amount s4 decimals s5 est s6 where
    a: "liftW (processingGetByBlockchain (vpEnv p) (trOwnerID t) (evmChain p)) s = (Val pw, s1)"
    and b: "getBalance p (wlAddress pw) ?a s1 = (Val proc, s2)" "getBalance p (getFromAddress t) ?a s2 = (Val hot, s3)"
    and c: "(if trWholeAmount t then wrapErr ''get balance'' (getBalance p (getFromAddress t) (trAssetIdentifier t))
          else ret (nullDecimal (trAmount t))) s3 = (Val amount, s4)"
    and d: "evm_getAssetDecimals p (trAssetIdentifier t) s4 = (Val decimals, s5)"
    and e: "liftE (estimateTransfer (vpEnv p) (vpEvm p) (getFromAddress t) (getToAddress t) (trAssetIdentifier t) amount decimals) s5 = (Val est, s6)"
    and rest: "topUpHotWallet p t pw proc hot amount est s6 = (Val (), s')"
    using assms(1) unfolding sendBurn_def Let_def bnd_Val wrapErr_Val by blast
  have o': "offWorld ?v" by (simp add: offWorld_def)
  have "?v s1 = ?v s" by (rule keepsD [OF keeps_off(1) [OF o'] a])
  moreover have "?v s2 = ?v s1" "?v s3 = ?v s2" by (rule keepsD [OF keeps_evm_balance(2) [OF o']], rule b)+
  moreover have "keeps ?v (if trWholeAmount t then wrapErr ''get balance'' (getBalance p (getFromAddress t) (trAssetIdentifier t))
      else ret (nullDecimal (trAmount t)))" by (intro keeps_evm o')
  then have "?v s4 = ?v s3" using c by (rule keepsD)
  moreover have "?v s5 = ?v s4" by (rule keepsD [OF keeps_evm_balance(1) [OF o'] d])
  moreover have "?v s6 = ?v s5" by (rule keepsD [OF keeps_off(2) [OF o'] e])
  ultimately have k: "fsTransfer s6 = Some t" "efSent s6 = efSent s" using assms(2) by simp_all
  obtain e1 e2 where e: "estimateTransfer (vpEnv p) (vpEvm p) (getFromAddress t) (getToAddress t) (trAssetIdentifier t) amount decimals e1 = (Val est, e2)"
    using e by (auto simp: liftE_iff)
  show ?thesis using topUp_sends [OF rest k(1)] b e unfolding k(2) by blast
qed

section \<open>The properties at sample transfers\<close>

definition evmParams :: "unit evm_params" where
  "evmParams = \<lparr>vpEnv = evmEnv, vpEvm = evmDemo, vpMaxGasFee = 20, vpSeedEncryption = False, vpUseCacheForWallets = False\<rparr>"

text \<open>A transfer of a whole balance from the processing wallet and one of a token from a hot wallet.\<close>

definition evmWhole :: transfer where
  "evmWhole = zeroTransfer\<lparr>trID := ''transfer-1'', trStatus := TransferStatusNew, trOwnerID := ''owner-1'',
     trBlockchain := BlockchainTypeEthereum, trFromAddresses := [''proc-1''], trToAddresses := [''to-1''],
     trWalletFromType := WalletTypeProcessing, trAssetIdentifier := ''eth'', trWholeAmount := True\<rparr>"

definition evmToken :: transfer where
  "evmToken = zeroTransfer\<lparr>trID := ''transfer-1'', trStatus := TransferStatusNew, trOwnerID := ''owner-1'',
     trBlockchain := BlockchainTypeEthereum, trFromAddresses := [''hot-1''], trToAddresses := [''proc-1''],
     trWalletFromType := WalletTypeHot, trAssetIdentifier := ''0xusdt'', trAmount := Some 5, trFee := Some 1, trFeeMax := Some 15\<rparr>"

definition evmDb :: "transfer \<Rightarrow> transfer_tx list \<Rightarrow> db" where
  "evmDb t txs = \<lparr>dbTransfers = [t],
     dbOwners = [\<lparr>owID = ''owner-1'', owClientID = ''client-1'', owMnemonic = ''words'', owPassPhrase = None\<rparr>],
     dbHotWallets = [],
     dbProcessingWallets = [\<lparr>wlBlockchain = BlockchainTypeEthereum, wlAddress = ''proc-1'', wlOwnerID = ''owner-1'', pwSequence = 4\<rparr>],
     dbColdWallets = [], dbTransferTransactions = txs, dbWebhooks = []\<rparr>"

definition evmWorld :: "transfer \<Rightarrow> transfer_tx list \<Rightarrow> unit world" where
  "evmWorld t txs = \<lparr>wdDb = evmDb t txs, wdTx = None, wdOwnerCache = Map.empty, wdHotCache = Map.empty,
     wdProcessingCache = Map.empty, wdColdCache = Map.empty, wdExt = ()\<rparr>"

text \<open>The machine while the step of an index is processed.\<close>

definition evmAt :: "transfer \<Rightarrow> transfer_tx list \<Rightarrow> string \<Rightarrow> unit evm_fsm" where
  "evmAt t txs name =
     \<lparr>wName = ''ethereum fsm'', wState = newWorkflowState,
      wStages = map (\<lambda>sg. sg\<lparr>sgSteps := map (\<lambda>st. if spName st = name
        then st\<lparr>spState := Some (newStepState\<lparr>Status := StatusProcessing\<rparr>)\<rparr> else st) (sgSteps sg)\<rparr>) (map initStage evmStages),
      wPrevStep = None, wSkipError = False, fsTransfer = Some t, fsWorld = evmWorld t txs, efSent = []\<rparr>"

lemma evm_at [simp]: "fsTransfer (evmAt t txs n) = Some t" "fsWorld (evmAt t txs n) = evmWorld t txs" "efSent (evmAt t txs n) = []"
  "wState (evmAt t txs n) = newWorkflowState"
  by (simp_all add: evmAt_def)

lemma evm_world [simp]: "wdExt (evmWorld t txs) = ()" "wdTx (evmWorld t txs) = None" "wdDb (evmWorld t txs) = evmDb t txs"
  by (simp_all add: evmWorld_def)

lemma evm_params [simp]: "vpEnv evmParams = evmEnv" "vpEvm evmParams = evmDemo" "evmChain evmParams = BlockchainTypeEthereum"
  "evmAsset evmParams = ''eth''" "vpMaxGasFee evmParams = 20" "vpSeedEncryption evmParams = False" "vpUseCacheForWallets evmParams = False"
  by (simp_all add: evmParams_def evmChain_def evmAsset_def evmDemo_def)

text \<open>The step that submits a transaction of a type.\<close>

definition evmStepOf :: "tx_type \<Rightarrow> string" where
  "evmStepOf ty = (if ty = TxTypeSendBurnBaseAsset then evm_stepSendBaseAssetForBurn else evm_stepSending)"

lemma evm_step:
  assumes "wStages s = wStages (evmAt t txs (evmStepOf ty))"
  shows "currentStep s = (Val (Some (newStep (evmStepOf ty)\<lparr>spTimeout := second, spMaxRetries := 1, spRetryPolicy := Some RunWithLinear,
    spState := Some (newStepState\<lparr>Status := StatusProcessing\<rparr>)\<rparr>)), s)"
  using assms
  by (cases "ty = TxTypeSendBurnBaseAsset")
    (simp_all add: evmStepOf_def currentStep_def currentStage_def bnd_def ret_def scanPanics_def allSteps_def evmAt_def evmStages_def
      newStep_def initStage_def initStep_def setDefaultValues_def Let_def newStepState_def stageValid_def evm_names)

lemma evm_rounds: "divRoundOk (vpEnv evmParams)" "pricesOk (vpEvm evmParams)" "signsAsGiven (evLib (vpEvm evmParams))"
  by (simp_all add: evmEnv_rounds pricesOk_def signsAsGiven_def) (simp_all add: evmDemo_def evmNode_def evmLib_def)

text \<open>The queries and the services at the sample.\<close>

lemma evm_faultless: "envFault evmEnv = (\<lambda>_ x. (NoFault, x))" "envNow evmEnv = (\<lambda>_. 7)"
  by (simp_all add: evmEnv_def)

lemma evm_balance: "getBalance evmParams a x s = (Val (if a = ''hot-1'' then 0 else 1), s)" for s :: "unit evm_fsm"
  by (simp add: getBalance_def catchErr_def liftE_def liftW_def liftExt_def evmEnv_def)

lemma evm_decimals: "evm_getAssetDecimals evmParams x s = (Val 18, s)" for s :: "unit evm_fsm"
  by (simp add: evm_getAssetDecimals_def liftE_def liftW_def liftExt_def evmEnv_def)

lemma evm_estimate: "liftE (estimateTransfer evmEnv evmDemo from to' asset amount decimals) s =
    (Val (demoEstimate (if asset = ''eth'' then 21000 else 20000)), s)" for s :: "unit evm_fsm"
proof -
  have "demo_estimate' = demo_estimate'" for demo_estimate' :: nat by simp
  show ?thesis by (simp add: liftE_def liftW_def liftExt_def demo_estimate)
qed

lemma evm_cost: "etherOf evmParams (erTotalFeeAmount (demoEstimate 21000)) = 250320000000000 / 10 ^ 18"
  by (simp add: etherOf_def demoEstimate_def evmEnv_def demoRound_def)

definition evmOwner :: owner where
  "evmOwner = \<lparr>owID = ''owner-1'', owClientID = ''client-1'', owMnemonic = ''words'', owPassPhrase = None\<rparr>"

lemma evm_owner: "liftW (ownersGetByID evmEnv ''owner-1'') (s\<lparr>fsWorld := evmWorld t txs\<rparr>) =
    (Val evmOwner, s\<lparr>fsWorld := (evmWorld t txs)\<lparr>wdOwnerCache := [''owner-1'' \<mapsto> evmOwner]\<rparr>\<rparr>)" for s :: "unit evm_fsm"
  by (simp add: liftW_def ownersGetByID_def noRowsToNotFound_def op_defs ofSum_def qOwnerGetByID_def dbRead_def evmEnv_def
      evmWorld_def evmDb_def dbView_outside oneRow_def nilUuid_def evmOwner_def)

lemma evm_keys: "walletPubKeyHash evmLib m p sq = Inr (''0xab'', derivationPath sq)"
  by (simp add: walletPubKeyHash_def) (simp add: evmLib_def demo_lower)

lemma evm_creds: "getWalletCreds evmParams ''owner-1'' sq (s\<lparr>fsWorld := evmWorld t txs\<rparr>) = (Val (''0xab'', derivationPath sq),
    s\<lparr>fsWorld := (evmWorld t txs)\<lparr>wdOwnerCache := [''owner-1'' \<mapsto> evmOwner]\<rparr>\<rparr>)" for s :: "unit evm_fsm"
proof -
  have "evLib evmDemo = evmLib" by (simp add: evmDemo_def)
  then show ?thesis by (simp add: getWalletCreds_def bnd_def wrapErr_def evm_owner evm_keys ret_def ofSum_def)
qed

lemma evm_sequence: "liftW (getSequenceByWalletType evmEnv WalletTypeProcessing ''owner-1'' BlockchainTypeEthereum ''proc-1'')
    (s\<lparr>fsWorld := evmWorld t txs\<rparr>) = (Val 4, s\<lparr>fsWorld := evmWorld t txs\<rparr>)" for s :: "unit evm_fsm"
  by (simp add: liftW_def getSequenceByWalletType_def processingGetByOwnerID_def noRowsToNotFound_def op_defs ofSum_def
      qProcessingGetByOwnerID_def dbRead_def evmEnv_def evmWorld_def evmDb_def dbView_outside oneRow_def nilUuid_def walletIs_def)

lemma evm_at_world: "evmAt t txs n = (evmAt t txs n)\<lparr>fsWorld := evmWorld t txs\<rparr>"
  by (simp add: evmAt_def)

text \<open>The node at the sample and the recording of a transaction.\<close>

lemma evm_node: "liftE (enChainID (evNode evmDemo)) s = (Val 1, s)" "liftE (enPendingNonceAt (evNode evmDemo) a) s = (Val 3, s)"
  "liftE (enSendTransaction (evNode evmDemo) x) s = (Val (), s)" for s :: "unit evm_fsm"
  by (simp_all add: liftE_def liftW_def liftExt_def evmDemo_def evmNode_def)

lemma evm_lib: "elSignTx (evLib evmDemo) tx c k = Inr \<lparr>stTx = tx, stHash = ''0xhash''\<rparr>" "elHexAddress (evLib evmDemo) a = a"
  by (simp_all add: evmDemo_def evmLib_def)

definition evmPending :: "tx_type \<Rightarrow> transfer_tx" where
  "evmPending ty = newTransferTx ''new-id'' ''transfer-1'' ''0xhash'' ty TxStatusPending (evmStepOf ty) 7"

lemma evm_ext [simp]: "w\<lparr>wdExt := x\<rparr> = w" for w :: "unit world"
  by (cases w) simp

lemma evm_pending:
  assumes "wStages s = wStages (evmAt t txs (evmStepOf ty))" and "fsTransfer s = Some t" and "trID t = ''transfer-1''"
    and "wdTx (fsWorld s) = Some f" and "ty \<in> {TxTypeSendBurnBaseAsset, TxTypeTransfer}"
  shows "initPendingSystemTransaction evmParams ''0xhash'' s = (Val (), s\<lparr>fsWorld := (fsWorld s)\<lparr>wdTx := Some
    ((\<lambda>d. d\<lparr>dbTransferTransactions := dbTransferTransactions d @ [evmPending ty]\<rparr>) \<circ> f)\<rparr>\<rparr>)"
proof -
  have n: "spName (newStep x) = x" for x
    by (simp add: newStep_def)
  have ty: "prepareTransferTransactionTypeByStep s = (Val ty, s)"
    using assms(5) by (auto simp: prepareTransferTransactionTypeByStep_def bnd_def evm_step [OF assms(1)] n ret_def evmStepOf_def)
      (simp_all add: evm_names)
  have nm: "currentStepName s = (Val (evmStepOf ty), s)"
    by (simp add: currentStepName_def bnd_def evm_step [OF assms(1)] n ret_def)
  show ?thesis
    using assms(2-4)
    by (simp add: initPendingSystemTransaction_def ty nm bnd_def wrapErr_def theTransfer_def liftW_def qTxCreate_def dbExec_def
        dbQuery_def dbApply_def Let_def evmPending_def)
      (simp add: evmEnv_def dbApply_def ofSum_def op_defs)
qed

definition evmSigned :: "string \<Rightarrow> int \<Rightarrow> signed_tx" where
  "evmSigned to' v = \<lparr>stTx = \<lparr>etChainID = 1, etNonce = 3, etGasFeeCap = 11920000000, etGasTipCap = 1000000000, etGas = 21000,
     etTo = to', etValue = v\<rparr>, stHash = ''0xhash''\<rparr>"

lemma evm_sendBase:
  fixes s :: "unit evm_fsm"
  assumes "wStages s = wStages (evmAt t txs (evmStepOf ty))" and "fsTransfer s = Some t" and "trID t = ''transfer-1''"
    and "wdTx (fsWorld s) = None" and "to' \<noteq> ''''" and "0 < a" and "ty \<in> {TxTypeSendBurnBaseAsset, TxTypeTransfer}"
  shows "\<exists>sd. sendBaseAsset evmParams ty c to' a (demoEstimate g) s = (Val (''0xhash'', sd),
    s\<lparr>efSent := efSent s @ [(ty, SentBase (evmSigned to' (decBigInt (a * 10 ^ 18))))],
      fsWorld := (fsWorld s)\<lparr>wdDb := (wdDb (fsWorld s))\<lparr>dbTransferTransactions := dbTransferTransactions (wdDb (fsWorld s)) @
        [evmPending ty]\<rparr>\<rparr>\<rparr>)"
  using assms
  by (simp add: sendBaseAsset_def Let_def bnd_def guardE_def ret_def evm_node evm_lib wrapErr_def ofSum_def inTx_def
     liftW_def txBegin_def txCommit_def evm_faultless modS_def evm_pending [where t = t and txs = txs and ty = ty])
    (simp add: demoEstimate_def demoFee_def decBigInt_def evmSigned_def dbView_def)

text \<open>What the sample writes to the row of its transfer.\<close>

lemma evm_stateData:
  fixes s :: "unit evm_fsm"
  assumes "trID t = ''transfer-1''" and "dbTransfers (wdDb (fsWorld s)) = [t]"
  shows "liftW (transfersSetStateData evmEnv False ''transfer-1'' sd) s =
    (Val (), s\<lparr>fsWorld := (fsWorld s)\<lparr>wdDb := (wdDb (fsWorld s))\<lparr>dbTransfers :=
       [t\<lparr>trStateData := trStateData t ++ sd, trUpdatedAt := Some 7\<rparr>]\<rparr>\<rparr>\<rparr>)"
  using assms
  by (simp add: liftW_def transfersSetStateData_def transfersGetStateData_def op_defs qTransferGetStateData_def dbRead_def
      qTransferSetStateData_def dbExec_def dbQuery_def evm_faultless nilUuid_def transferRow_def oneRow_def dbView_outside
      ofSum_def dbApply_def updTransfer_def Let_def split: option.split)

lemma evm_hash:
  fixes s :: "unit evm_fsm"
  assumes "fsTransfer s = Some t" and "trID t = ''transfer-1''" and "dbTransfers (wdDb (fsWorld s)) = [t']" and "trID t' = ''transfer-1''"
    and "h \<noteq> ''''" and "wdTx (fsWorld s) = None"
  shows "\<exists>s'. replaceTxHash evmEnv h s = (Val (), s')"
  using assms
  by (simp add: replaceTxHash_def op_defs theTransfer_def liftW_def transfersSetTxHash_def qTransferSetTxHash_def dbQuery_def
      evm_faultless nilUuid_def Let_def dbApply_def updTransfer_def dbView_outside transferRow_def oneRow_def ofSum_def)

lemma evm_db [simp]: "dbTransfers (evmDb t txs) = [t]" "dbTransferTransactions (evmDb t txs) = txs"
  by (simp_all add: evmDb_def)

lemma evm_whole_send:
  defines "s \<equiv> evmAt evmWhole [] (evmStepOf TxTypeTransfer)"
  shows "\<exists>s'. sendNew evmParams evmWhole s = (Val (), s') \<and> fsTransfer s = Some evmWhole"
proof -
  let ?s1 = "s\<lparr>fsWorld := (evmWorld evmWhole [])\<lparr>wdOwnerCache := [''owner-1'' \<mapsto> evmOwner]\<rparr>\<rparr>"
  let ?a = "1 - 250320000000000 / 10 ^ 18 :: rat"
  have t: "trWholeAmount evmWhole" "trAssetIdentifier evmWhole = ''eth''" "getFromAddress evmWhole = ''proc-1''"
    "getToAddress evmWhole = ''to-1''" "trWalletFromType evmWhole = WalletTypeProcessing" "trOwnerID evmWhole = ''owner-1''"
    "trID evmWhole = ''transfer-1''"
    by (simp_all add: evmWhole_def getFromAddress_def getToAddress_def)
  have s: "s = s\<lparr>fsWorld := evmWorld evmWhole []\<rparr>" by (simp add: s_def evmAt_def)
  have "\<exists>sd. sendBaseAsset evmParams TxTypeTransfer (''0xab'', derivationPath 4) ''to-1'' ?a (demoEstimate 21000) ?s1 =
    (Val (''0xhash'', sd), ?s1\<lparr>efSent := efSent ?s1 @ [(TxTypeTransfer, SentBase (evmSigned ''to-1'' (decBigInt (?a * 10 ^ 18))))],
      fsWorld := (fsWorld ?s1)\<lparr>wdDb := (wdDb (fsWorld ?s1))\<lparr>dbTransferTransactions := dbTransferTransactions (wdDb (fsWorld ?s1)) @
        [evmPending TxTypeTransfer]\<rparr>\<rparr>\<rparr>)"
    by (rule evm_sendBase [where t = evmWhole and txs = "[]"]) (simp_all add: t s_def)
  then obtain sd where x: "sendBaseAsset evmParams TxTypeTransfer (''0xab'', derivationPath 4) ''to-1'' ?a (demoEstimate 21000) ?s1 =
    (Val (''0xhash'', sd), ?s1\<lparr>efSent := efSent ?s1 @ [(TxTypeTransfer, SentBase (evmSigned ''to-1'' (decBigInt (?a * 10 ^ 18))))],
      fsWorld := (fsWorld ?s1)\<lparr>wdDb := (wdDb (fsWorld ?s1))\<lparr>dbTransferTransactions := dbTransferTransactions (wdDb (fsWorld ?s1)) @
        [evmPending TxTypeTransfer]\<rparr>\<rparr>\<rparr>)" ..
  have ft: "fsTransfer s = Some evmWhole" by (simp add: s_def)
  have q: "liftW (getSequenceByWalletType evmEnv WalletTypeProcessing ''owner-1'' BlockchainTypeEthereum ''proc-1'') s = (Val 4, s)"
    using evm_sequence [where s = s and t = evmWhole and txs = "[]"] s by simp
  have c: "getWalletCreds evmParams ''owner-1'' 4 s = (Val (''0xab'', derivationPath 4), ?s1)"
    using evm_creds [where s = s and sq = 4 and t = evmWhole and txs = "[]"] s by simp
  show ?thesis
    using x q c ft
    by (simp add: sendNew_def Let_def t bnd_def wrapErr_def evm_balance evm_decimals evm_estimate evm_cost guardE_def ret_def
      evm_stateData [where t = evmWhole]) (rule evm_hash, auto simp: t)
qed

theorem whole_transfer_within_balance_witness:
  "\<exists>s' x. sendNew evmParams evmWhole (evmAt evmWhole [] (evmStepOf TxTypeTransfer)) = (Val (), s') \<and>
     efSent s' = [(TxTypeTransfer, SentBase x)] \<and> maxCost (stTx x) \<le> 10 ^ 18"
proof -
  obtain s' where s': "sendNew evmParams evmWhole (evmAt evmWhole [] (evmStepOf TxTypeTransfer)) = (Val (), s')"
    using evm_whole_send by blast
  have "trWholeAmount evmWhole" "trAssetIdentifier evmWhole = evmAsset evmParams" "getFromAddress evmWhole = ''proc-1''"
    by (simp_all add: evmWhole_def getFromAddress_def)
  from whole_transfer_within_balance [OF s' _ this(1,2) evm_rounds] this(3) obtain x where
    "efSent s' = [(TxTypeTransfer, SentBase x)]" "of_int (maxCost (stTx x)) \<le> (10 ^ 18 :: rat)"
    by (auto simp: evm_balance)
  moreover have "(of_int (maxCost (stTx x)) :: rat) \<le> of_int (10 ^ 18)" using calculation(2) by simp
  then have "maxCost (stTx x) \<le> 10 ^ 18" by (simp only: of_int_le_iff)
  ultimately show ?thesis using s' by blast
qed

theorem recorded_transfer_is_not_resent_witness:
  "efSent (snd (sending evmParams (evmAt evmWhole [evmPending TxTypeTransfer] (evmStepOf TxTypeTransfer)))) = []"
  using recorded_transfer_is_not_resent [of "evmAt evmWhole [evmPending TxTypeTransfer] (evmStepOf TxTypeTransfer)" evmWhole
      "evmPending TxTypeTransfer" "[]" evmParams]
  by (simp add: recordedTransfers_def evmPending_def newTransferTx_def evmWhole_def)

theorem own_fee_limit_ignored_witness:
  "evm_validateRequest (evmParams\<lparr>vpMaxGasFee := 0, vpEvm := (vpEvm evmParams)\<lparr>evNode := (evNode evmDemo)\<lparr>enSuggestGasPrice :=
      (\<lambda>x. (Val (10 ^ 30), x))\<rparr>\<rparr>\<rparr>) (evmAt (evmToken\<lparr>trFee := None\<rparr>) [] evm_stepValidateRequest) =
   evm_validateRequest (evmParams\<lparr>vpMaxGasFee := 0\<rparr>) (evmAt (evmToken\<lparr>trFee := None\<rparr>) [] evm_stepValidateRequest)"
  using own_fee_limit_ignored [of "evmAt (evmToken\<lparr>trFee := None\<rparr>) [] evm_stepValidateRequest" "evmToken\<lparr>trFee := None\<rparr>"
      "evmParams\<lparr>vpMaxGasFee := 0\<rparr>" "(evNode evmDemo)\<lparr>enSuggestGasPrice := (\<lambda>x. (Val (10 ^ 30), x))\<rparr>"]
  by simp

theorem evm_failure_is_atomic_witness:
  "\<exists>r s'. evm_onFailure evmParams ErrFailedTransfer (evmAt evmWhole [] (evmStepOf TxTypeTransfer)) = (r, s') \<and>
     (wdDb (fsWorld s') = evmDb evmWhole [] \<or> failureRecorded ''transfer-1'' ErrFailedTransfer (wdDb (fsWorld s')))"
proof -
  obtain r s' where f: "evm_onFailure evmParams ErrFailedTransfer (evmAt evmWhole [] (evmStepOf TxTypeTransfer)) = (r, s')" by (rule prod.exhaust)
  from evm_failure_is_atomic [OF f] have "wdDb (fsWorld s') = evmDb evmWhole [] \<or>
      failureRecorded (trID evmWhole) ErrFailedTransfer (wdDb (fsWorld s'))" by simp
  then show ?thesis using f by (simp add: evmWhole_def)
qed

text \<open>A token moves from a hot wallet without gas: the check passes and the wallet is topped up.\<close>

lemma evm_token [simp]: "getFromAddress evmToken = ''hot-1''" "getToAddress evmToken = ''proc-1''" "trAssetIdentifier evmToken = ''0xusdt''"
  "trWholeAmount evmToken = False" "trOwnerID evmToken = ''owner-1''" "trID evmToken = ''transfer-1''" "trWalletFromType evmToken = WalletTypeHot"
  "trFee evmToken = Some 1" "trFeeMax evmToken = Some 15" "trFromAddresses evmToken = [''hot-1'']" "trToAddresses evmToken = [''proc-1'']"
  "trBlockchain evmToken = BlockchainTypeEthereum"
  by (simp_all add: evmToken_def zeroTransfer_def getFromAddress_def getToAddress_def)

lemma evm_wallet: "liftW (processingGetByBlockchain evmEnv ''owner-1'' BlockchainTypeEthereum) (s\<lparr>fsWorld := evmWorld t txs\<rparr>) =
    (Val \<lparr>wlBlockchain = BlockchainTypeEthereum, wlAddress = ''proc-1'', wlOwnerID = ''owner-1'', pwSequence = 4\<rparr>,
     s\<lparr>fsWorld := evmWorld t txs\<rparr>)" for s :: "unit evm_fsm"
  by (simp add: liftW_def processingGetByBlockchain_def noRowsToNotFound_def op_defs ofSum_def
      qProcessingGetByBlockchain_def dbRead_def evmEnv_def evmWorld_def evmDb_def dbView_outside oneRow_def nilUuid_def)

definition evmFound :: check_wallet_result where
  "evmFound = \<lparr>cwWalletType = WalletTypeProcessing, cwOwnerID = ''owner-1'', cwExternalWalletID = None, cwIsActivated = None\<rparr>"

lemma evm_check: "liftW (checkWallet evmEnv False BlockchainTypeEthereum ''proc-1'') (s\<lparr>fsWorld := evmWorld t txs\<rparr>) =
    (Val evmFound, s\<lparr>fsWorld := evmWorld t txs\<rparr>)" for s :: "unit evm_fsm"
  by (simp add: liftW_def checkWallet_def checkWalletInDatabase_def lookupOrNext_def hotGetByBlockchainAndAddress_def
      processingGetByBlockchainAndAddress_def noRowsToNotFound_def qHotGetByAddress_def qProcessingGetByAddress_def
      dbRead_def op_defs ofSum_def evmEnv_def evmWorld_def evmDb_def
      dbView_outside oneRow_def walletIs_def errNoRows_def storeErrNotFound_def plainResult_def evmFound_def)

lemma evm_status:
  assumes "trID t = ''transfer-1''" and "trOwnerID t = ''owner-1''"
  shows "\<exists>s'. evm_setTransferStatus evmParams TransferStatusProcessing ((evmAt t [] (evmStepOf ty))\<lparr>fsWorld := evmWorld t []\<rparr>) = (Val (), s')"
  using assms
  by (simp add: evm_setTransferStatus_def op_defs theTransfer_def currentStepName_def evm_step [where t = t and txs = "[]" and ty = ty])
    (simp add: eventTransferStatusCreateParams_def op_defs liftW_def transfersGetByID_def noRowsToNotFound_def qTransferGetByID_def dbRead_def
      evmWorld_def evmDb_def evmEnv_def nilUuid_def dbView_outside transferRow_def
      oneRow_def ofSum_def qTxGetByTransfer_def qOwnerGetByID_def webhooksBatchCreate_def
      checkWebhookParams_def qWebhookCreate_def dbExec_def dbQuery_def dbApply_def Let_def insertWebhook_def transfersSetStatus_def
      qTransferSetStatus_def)

lemma evm_token_fee: "etherOf evmParams (erTotalFeeAmount (demoEstimate 20000) * 1007 / 1000) = 240068800000000 / 10 ^ 18"
  by (simp add: etherOf_def demoEstimate_def evmEnv_def demoRound_def)

lemma evm_burn_send:
  defines "s \<equiv> evmAt evmToken [] (evmStepOf TxTypeSendBurnBaseAsset)"
  shows "\<exists>s'. sendBurn evmParams evmToken s = (Val (), s') \<and> efSent s' \<noteq> []"
proof -
  let ?s1 = "s\<lparr>fsWorld := (evmWorld evmToken [])\<lparr>wdOwnerCache := [''owner-1'' \<mapsto> evmOwner]\<rparr>\<rparr>"
  let ?a = "240068800000000 / 10 ^ 18 :: rat"
  have s: "s = s\<lparr>fsWorld := evmWorld evmToken []\<rparr>" by (simp add: s_def evmAt_def)
  have "\<exists>sd. sendBaseAsset evmParams TxTypeSendBurnBaseAsset (''0xab'', derivationPath 4) ''hot-1'' ?a (demoEstimate 20000) ?s1 =
    (Val (''0xhash'', sd), ?s1\<lparr>efSent := efSent ?s1 @ [(TxTypeSendBurnBaseAsset, SentBase (evmSigned ''hot-1'' (decBigInt (?a * 10 ^ 18))))],
      fsWorld := (fsWorld ?s1)\<lparr>wdDb := (wdDb (fsWorld ?s1))\<lparr>dbTransferTransactions := dbTransferTransactions (wdDb (fsWorld ?s1)) @
        [evmPending TxTypeSendBurnBaseAsset]\<rparr>\<rparr>\<rparr>)"
    by (rule evm_sendBase [where t = evmToken and txs = "[]"]) (simp_all add: s_def)
  then obtain sd where x: "sendBaseAsset evmParams TxTypeSendBurnBaseAsset (''0xab'', derivationPath 4) ''hot-1'' ?a (demoEstimate 20000) ?s1 =
    (Val (''0xhash'', sd), ?s1\<lparr>efSent := efSent ?s1 @ [(TxTypeSendBurnBaseAsset, SentBase (evmSigned ''hot-1'' (decBigInt (?a * 10 ^ 18))))],
      fsWorld := (fsWorld ?s1)\<lparr>wdDb := (wdDb (fsWorld ?s1))\<lparr>dbTransferTransactions := dbTransferTransactions (wdDb (fsWorld ?s1)) @
        [evmPending TxTypeSendBurnBaseAsset]\<rparr>\<rparr>\<rparr>)" ..
  have w: "liftW (processingGetByBlockchain evmEnv ''owner-1'' BlockchainTypeEthereum) s =
      (Val \<lparr>wlBlockchain = BlockchainTypeEthereum, wlAddress = ''proc-1'', wlOwnerID = ''owner-1'', pwSequence = 4\<rparr>, s)"
    using evm_wallet [where s = s and t = evmToken and txs = "[]"] s by simp
  have c: "getWalletCreds evmParams ''owner-1'' 4 s = (Val (''0xab'', derivationPath 4), ?s1)"
    using evm_creds [where s = s and sq = 4 and t = evmToken and txs = "[]"] s by simp
  show ?thesis
    using x w c
    by (simp add: sendBurn_def topUpHotWallet_def Let_def bnd_def wrapErr_def evm_balance evm_decimals evm_estimate evm_cost evm_token_fee
      guardE_def ret_def ignoreErr_def catchErr_def nullDecimal_def evm_stateData [where t = evmToken])
qed

theorem gas_is_bought_when_missing_witness:
  "\<exists>s' x. sendBurn evmParams evmToken (evmAt evmToken [] (evmStepOf TxTypeSendBurnBaseAsset)) = (Val (), s') \<and>
     efSent s' = [(TxTypeSendBurnBaseAsset, SentBase x)]"
proof -
  obtain s' where s': "sendBurn evmParams evmToken (evmAt evmToken [] (evmStepOf TxTypeSendBurnBaseAsset)) = (Val (), s')" "efSent s' \<noteq> []"
    using evm_burn_send by blast
  from gas_is_bought_when_missing [OF s'(1)] s' show ?thesis by auto
qed

theorem evm_fee_limit_respected_witness:
  "\<exists>s'. evm_validateRequest evmParams (evmAt evmToken [] (evmStepOf TxTypeTransfer)) = (Val (), s') \<and>
     unitValue evmEnv (newUnit 11920000000 EtherUnitWei) EtherUnitGWei \<le> 15"
proof -
  let ?s = "evmAt evmToken [] (evmStepOf TxTypeTransfer)"
  have s: "?s = ?s\<lparr>fsWorld := evmWorld evmToken []\<rparr>" by (simp add: evmAt_def)
  have c: "liftW (checkWallet evmEnv False BlockchainTypeEthereum ''proc-1'') ?s = (Val evmFound, ?s)"
    using evm_check [where s = ?s and t = evmToken and txs = "[]"] s by simp
  have f: "cwWalletType evmFound = WalletTypeProcessing" "cwOwnerID evmFound = ''owner-1''" by (simp_all add: evmFound_def)
  have g: "envDivRound evmEnv (erTotalGasPrice (demoEstimate g)) 1000000000 9 = 1192 / 100" for g
    by (simp add: demoEstimate_def evmEnv_def demoRound_def)
  obtain s' where "evm_setTransferStatus evmParams TransferStatusProcessing ?s = (Val (), s')"
    using evm_status [of evmToken TxTypeTransfer] s by auto
  then have v: "evm_validateRequest evmParams ?s = (Val (), s')"
    by (simp add: evm_validateRequest_def Let_def bnd_def theTransfer_def guardE_def ret_def c f wrapErr_def
        evm_decimals evm_estimate g)
  from evm_fee_limit_respected [OF v, of evmToken] have "unitValue evmEnv (newUnit 11920000000 EtherUnitWei) EtherUnitGWei \<le> 15"
    by (auto simp: demo_estimate demoEstimate_def)
  with v show ?thesis by blast
qed

end
