(* ===== verification/ServicesProps.thy ===== *)
theory ServicesProps
  imports UtxoSend
begin

text \<open>
  The properties of the parts around the state machines: the waiting time for confirmations
  (internal/constants), the statuses of the RPC interface (internal/models), the queue of webhooks, the
  state data of a transfer and the cache of wallets (internal/services).
\<close>

section \<open>Confirmations\<close>

lemma min_release_bounds:
  "getMinConfirmations b \<in> {1, 12, 19, 20}"
  "releaseBlockTime b = Some r \<Longrightarrow> uint r \<le> 12000000000"
  by (auto simp: getMinConfirmations_def minConfirmations_def releaseBlockTime_def second_def millisecond_def split: if_split_asm)

lemma sint_small: "0 \<le> k \<Longrightarrow> k < 2 ^ 63 \<Longrightarrow> sint (word_of_int k :: 64 word) = k"
  by (simp add: sint_sbintrunc' signed_take_bit_int_eq_self)

text \<open>
  The waiting time for confirmations, for a confirmation count below \<open>2 ^ 63\<close>: nothing as soon as the
  minimum of the chain is reached, and until then the missing confirmations times the block time of
  the chain plus two seconds, or ten seconds for each where no block time is known. It never wraps.
\<close>

theorem wait_until_confirmed:
  assumes "uint n < 2 ^ 63"
  shows "sint (confirmationsTimeout b n) =
    (if n < getMinConfirmations b then
       (let left = uint (getMinConfirmations b) - uint n in
        case releaseBlockTime b of
          Some r \<Rightarrow> uint r * left + 2000000000
        | None \<Rightarrow> left * 10000000000)
     else 0)"
proof -
  let ?m = "getMinConfirmations b"
  have m: "uint ?m \<in> {1, 12, 19, 20}" using min_release_bounds(1) [of b] by auto
  show ?thesis
  proof (cases "n < ?m")
    case True
    then have lt: "uint n < uint ?m" by (simp add: word_less_def)
    have "uint ?m \<le> 20" using m by auto
    with lt have k: "0 < uint ?m - uint n" "uint ?m - uint n \<le> 20" using uint_ge_0 [of n] by linarith+
    have left: "?m - n = word_of_int (uint ?m - uint n)" by (simp add: of_int_uint)
    have s: "sint (?m - n) = uint ?m - uint n" unfolding left by (rule sint_small) (use k in auto)
    show ?thesis
    proof (cases "releaseBlockTime b")
      case None
      have "(?m - n) * 10 * second = word_of_int ((uint ?m - uint n) * 10000000000)"
        unfolding left by (simp add: second_def)
      moreover have "sint (word_of_int ((uint ?m - uint n) * 10000000000) :: 64 word) = (uint ?m - uint n) * 10000000000"
        by (rule sint_small) (use k in auto)
      ultimately show ?thesis using True s k None by (simp add: confirmationsTimeout_def Let_def)
    next
      case (Some r)
      have r: "uint r \<le> 12000000000" using min_release_bounds(2) [OF Some] .
      have "r * (?m - n) + second * 2 = word_of_int (uint r * (uint ?m - uint n) + 2000000000)"
        unfolding left by (simp add: second_def of_int_uint)
      moreover have "sint (word_of_int (uint r * (uint ?m - uint n) + 2000000000) :: 64 word) = uint r * (uint ?m - uint n) + 2000000000"
      proof (rule sint_small)
        have "uint r * (uint ?m - uint n) \<le> 12000000000 * 20"
          by (rule mult_mono) (use r k in auto)
        then show "uint r * (uint ?m - uint n) + 2000000000 < 2 ^ 63" by simp
      qed (use k in simp)
      ultimately show ?thesis using True s k Some by (simp add: confirmationsTimeout_def Let_def)
    qed
  next
    case False
    then have le: "uint ?m \<le> uint n" by (simp add: word_less_def)
    have "sint (?m - n) = uint ?m - uint n"
    proof -
      have "?m - n = word_of_int (uint ?m - uint n)" by (simp add: of_int_uint)
      moreover have "sint (word_of_int (uint ?m - uint n) :: 64 word) = uint ?m - uint n"
        by (rule sint_word_of_int) (use assms le m in auto)
      ultimately show ?thesis by (simp only:)
    qed
    with False le show ?thesis by (simp add: confirmationsTimeout_def Let_def)
  qed
qed

theorem wait_until_confirmed_witness:
  "sint (confirmationsTimeout BlockchainTypeEthereum 10) = 26000000000"
  using wait_until_confirmed [of 10 BlockchainTypeEthereum]
  by (simp add: getMinConfirmations_def minConfirmations_def releaseBlockTime_def second_def)

text \<open>
  Of the eight statuses of a transfer seven are distinguished by the conversion for the RPC interface;
  \<open>pending\<close> is not and becomes the unspecified status, as an unknown status does.
\<close>

theorem rpc_status_loses_pending:
  "(\<forall>s. convertTransferStatusToPb s = STATUS_UNSPECIFIED \<longleftrightarrow> s = TransferStatusPending \<or> \<not> transferStatusValid s) \<and>
   (\<forall>s s'. convertTransferStatusToPb s = convertTransferStatusToPb s' \<and> convertTransferStatusToPb s \<noteq> STATUS_UNSPECIFIED \<longrightarrow> s = s')"
proof (intro conjI allI impI)
  fix s s'
  show "convertTransferStatusToPb s = STATUS_UNSPECIFIED \<longleftrightarrow> s = TransferStatusPending \<or> \<not> transferStatusValid s"
    by (cases s) simp_all
  show "s = s'" if "convertTransferStatusToPb s = convertTransferStatusToPb s' \<and> convertTransferStatusToPb s \<noteq> STATUS_UNSPECIFIED"
    using that by (cases s; cases s') simp_all
qed

theorem rpc_status_loses_pending_witness:
  "convertTransferStatusToPb TransferStatusPending = STATUS_UNSPECIFIED"
  using rpc_status_loses_pending by simp

section \<open>Webhooks\<close>

definition whKey :: "webhook \<Rightarrow> status_payload \<times> uuid" where
  "whKey h = (whPayload h, whClientID h)"

lemma insertWebhook_keys:
  "map whKey (insertWebhook now p hs) =
     (if (wpPayload p, wpClientID p) \<in> set (map whKey hs) then map whKey hs else map whKey hs @ [(wpPayload p, wpClientID p)])"
proof -
  have "(\<exists>h\<in>set hs. whPayload h = wpPayload p \<and> whClientID h = wpClientID p) \<longleftrightarrow> (wpPayload p, wpClientID p) \<in> set (map whKey hs)"
    by (simp add: whKey_def image_iff) metis
  then show ?thesis by (auto simp: insertWebhook_def whKey_def)
qed

text \<open>
  The queue of webhooks holds no payload twice for a client, whatever batch is created, and every
  webhook of the batch is in it.
\<close>

theorem webhook_queue_has_no_duplicates:
  assumes "distinct (map whKey hs)"
  shows "distinct (map whKey (fold (insertWebhook now) ps hs)) \<and>
    set (map whKey (fold (insertWebhook now) ps hs)) = set (map whKey hs) \<union> set (map (\<lambda>p. (wpPayload p, wpClientID p)) ps)"
  using assms
proof (induction ps arbitrary: hs)
  case (Cons p ps)
  have "distinct (map whKey (insertWebhook now p hs))"
    using Cons.prems unfolding insertWebhook_keys by auto
  moreover have "set (map whKey (insertWebhook now p hs)) = insert (wpPayload p, wpClientID p) (set (map whKey hs))"
    unfolding insertWebhook_keys by auto
  ultimately show ?case using Cons.IH [of "insertWebhook now p hs"] by auto
qed simp

definition demoHook :: webhook_params where
  "demoHook = \<lparr>wpKind = WebhookKindTransferStatus, wpStatus = WebhookStatusNew,
     wpPayload = \<lparr>spKind = WebhookKindTransferStatus, spIsSystem = False, spRequestID = ''r'', spStatus = TransferStatusNew,
       spStep = '''', spSystemTransactions = [], spErrorMessage = ''''\<rparr>, wpClientID = ''client-1''\<rparr>"

theorem webhook_queue_has_no_duplicates_witness:
  "distinct (map whKey (fold (insertWebhook 5) [demoHook, demoHook] [])) \<and> length (fold (insertWebhook 5) [demoHook, demoHook] []) = 1"
  using webhook_queue_has_no_duplicates [of "[]" 5 "[demoHook, demoHook]"]
  by (simp add: insertWebhook_def demoHook_def)

section \<open>State data\<close>

definition storedStateData :: "uuid \<Rightarrow> db \<Rightarrow> (string \<rightharpoonup> any_val) option" where
  "storedStateData tid d = (case transferRow tid d of Inr t \<Rightarrow> Some (trStateData t) | Inl _ \<Rightarrow> None)"

text \<open>
  \<open>SetStateData\<close> merges: the given keys get their new values and every other key of the stored data
  keeps its value.
\<close>

theorem state_data_is_merged:
  assumes "transfersSetStateData env False tid sd w = (Val u, w')"
  shows "\<exists>old. storedStateData tid (wdDb w) = Some old \<and> storedStateData tid (wdDb w') = Some (old ++ sd)"
proof -
  obtain old w1 where g: "qTransferGetStateData env tid w = (Val old, w1)"
    and s: "qTransferSetStateData env False tid (old ++ sd) w1 = (Val u, w')"
    using assms by (auto simp: transfersSetStateData_def transfersGetStateData_def op_Val)
  from dbRead_Val [OF g [unfolded qTransferGetStateData_def]] obtain row where
    row: "transferRow tid (wdDb w) = Inr row" "old = trStateData row" and d1: "wdDb w1 = wdDb w"
    by (cases "transferRow tid (wdDb w)") (auto simp: dbView_outside)
  from dbExec_Val [OF s [unfolded qTransferSetStateData_def]] obtain now where
    "wdDb w' = updTransfer tid (\<lambda>t. t\<lparr>trStateData := old ++ sd\<rparr>) now (wdDb w1)" by blast
  then show ?thesis using row d1 by (simp add: storedStateData_def transferRow_updTransfer)
qed


theorem state_data_is_merged_witness:
  "\<exists>w' :: unit world. storedStateData ''transfer-1'' (wdDb w') = Some (Map.empty ++ [''to'' \<mapsto> VStr ''x''])"
proof -
  have "\<exists>w'. transfersSetStateData (demoEnv []) False ''transfer-1'' [''to'' \<mapsto> VStr ''x''] demoWorld = (Val (), w')"
    by (simp add: transfersSetStateData_def transfersGetStateData_def qTransferGetStateData_def qTransferSetStateData_def
        dbRead_def dbExec_def dbQuery_def op_defs ofSum_def demo_defs nilUuid_def dbView_outside transferRow_def oneRow_def Let_def)
  then obtain w' where "transfersSetStateData (demoEnv []) False ''transfer-1'' [''to'' \<mapsto> VStr ''x''] demoWorld = (Val (), w')"
    by blast
  from state_data_is_merged [OF this] obtain old where
    "storedStateData ''transfer-1'' (wdDb demoWorld) = Some old"
    "storedStateData ''transfer-1'' (wdDb w') = Some (old ++ [''to'' \<mapsto> VStr ''x''])" by blast
  moreover have "storedStateData ''transfer-1'' (wdDb demoWorld) = Some Map.empty"
    by (simp add: storedStateData_def transferRow_def oneRow_def demo_defs)
  ultimately show ?thesis by auto
qed

section \<open>The cache of wallets\<close>

lemma cacherKey_inj:
  "blockchainValid b \<Longrightarrow> blockchainValid b' \<Longrightarrow> cacherKey b a = cacherKey b' a' \<longleftrightarrow> b = b' \<and> a = a'"
  by (cases b; cases b') (simp_all add: cacherKey_def)

lemma fold_store:
  "fold (\<lambda>w m. m(f w \<mapsto> w)) rows m0 k =
     (case filter (\<lambda>w. f w = k) rows of [] \<Rightarrow> m0 k | x # xs \<Rightarrow> Some (last (x # xs)))"
  by (induction rows arbitrary: m0) (auto split: list.split)

lemma filter_unique:
  "distinct (map f xs) \<Longrightarrow> filter (\<lambda>x. f x = k) xs = [] \<or> (\<exists>x. filter (\<lambda>x. f x = k) xs = [x])"
proof (induction xs)
  case (Cons x xs)
  then show ?case by (cases "f x = k") (auto simp: filter_empty_conv image_iff)
qed simp

lemma reloadCache_lookup:
  assumes "distinct (map (\<lambda>w. cacherKey (wlBlockchain w) (wlAddress w)) rows)"
  shows "reloadCache rows m0 k =
    (case filter (\<lambda>w. cacherKey (wlBlockchain w) (wlAddress w) = k) rows of [] \<Rightarrow> None | x # _ \<Rightarrow> Some x)"
proof -
  let ?f = "\<lambda>w. cacherKey (wlBlockchain w) (wlAddress w)"
  have "k \<in> set (map ?f rows) \<longleftrightarrow> filter (\<lambda>w. ?f w = k) rows \<noteq> []" by (auto simp: filter_empty_conv)
  with filter_unique [OF assms, of k] show ?thesis
    unfolding reloadCache_def Let_def restrict_map_def fold_store by (auto split: list.split)
qed


text \<open>A process whose queries do not fail, and tables with one row for each address of a chain.\<close>

definition noFaults :: "'e env \<Rightarrow> bool" where
  "noFaults env \<longleftrightarrow> (\<forall>nm x. fst (envFault env nm x) = NoFault)"

definition oneRowEach :: "('a wallet_scheme) list \<Rightarrow> bool" where
  "oneRowEach rows \<longleftrightarrow> distinct (map (\<lambda>w. (wlBlockchain w, wlAddress w)) rows) \<and> (\<forall>w\<in>set rows. blockchainValid (wlBlockchain w))"

lemma dbRead_noFaults:
  assumes "noFaults env"
  shows "\<exists>x. dbRead env False nm f w = (case f (wdDb w) of Inl e \<Rightarrow> Err e | Inr y \<Rightarrow> Val y, w\<lparr>wdExt := x\<rparr>)"
proof -
  obtain x where "envFault env nm (wdExt w) = (NoFault, x)"
    using assms by (metis noFaults_def prod.collapse)
  then show ?thesis
    by (intro exI [of _ x]) (simp add: dbRead_def dbView_outside ofSum_def op_defs split: sum.split)
qed

lemma lookups_noFaults:
  fixes env :: "'e env"
  assumes "noFaults env" and "blockchainValid b" and "a \<noteq> ''''"
  shows "\<exists>x. hotGetByBlockchainAndAddress env b a w =
      (case filter (walletIs b a) (dbHotWallets (wdDb w)) of [] \<Rightarrow> Err storeErrNotFound | h # _ \<Rightarrow> Val h, w\<lparr>wdExt := x\<rparr>)"
    "\<exists>x. processingGetByBlockchainAndAddress env b a w =
      (case filter (walletIs b a) (dbProcessingWallets (wdDb w)) of [] \<Rightarrow> Err storeErrNotFound | h # _ \<Rightarrow> Val h, w\<lparr>wdExt := x\<rparr>)"
    "\<exists>x. coldGetByBlockchainAndAddress env b a w =
      (case filter (walletIs b a) (dbColdWallets (wdDb w)) of [] \<Rightarrow> Err storeErrNotFound | h # _ \<Rightarrow> Val h, w\<lparr>wdExt := x\<rparr>)"
proof -
  obtain x where x: "qHotGetByAddress env b a w = (case oneRow (filter (walletIs b a) (dbHotWallets (wdDb w))) of Inl e \<Rightarrow> Err e | Inr y \<Rightarrow> Val y, w\<lparr>wdExt := x\<rparr>)"
    using dbRead_noFaults [OF assms(1)] unfolding qHotGetByAddress_def by blast
  show "\<exists>x. hotGetByBlockchainAndAddress env b a w =
      (case filter (walletIs b a) (dbHotWallets (wdDb w)) of [] \<Rightarrow> Err storeErrNotFound | h # _ \<Rightarrow> Val h, w\<lparr>wdExt := x\<rparr>)"
    using assms(2,3) x by (auto simp: hotGetByBlockchainAndAddress_def noRowsToNotFound_def op_defs oneRow_def errNoRows_def split: list.split)
  obtain x where x: "qProcessingGetByAddress env b a w = (case oneRow (filter (walletIs b a) (dbProcessingWallets (wdDb w))) of Inl e \<Rightarrow> Err e | Inr y \<Rightarrow> Val y, w\<lparr>wdExt := x\<rparr>)"
    using dbRead_noFaults [OF assms(1)] unfolding qProcessingGetByAddress_def by blast
  show "\<exists>x. processingGetByBlockchainAndAddress env b a w =
      (case filter (walletIs b a) (dbProcessingWallets (wdDb w)) of [] \<Rightarrow> Err storeErrNotFound | h # _ \<Rightarrow> Val h, w\<lparr>wdExt := x\<rparr>)"
    using assms(2,3) x by (auto simp: processingGetByBlockchainAndAddress_def noRowsToNotFound_def op_defs oneRow_def errNoRows_def split: list.split)
  obtain x where x: "qColdGetByAddress env b a w = (case oneRow (filter (walletIs b a) (dbColdWallets (wdDb w))) of Inl e \<Rightarrow> Err e | Inr y \<Rightarrow> Val y, w\<lparr>wdExt := x\<rparr>)"
    using dbRead_noFaults [OF assms(1)] unfolding qColdGetByAddress_def by blast
  show "\<exists>x. coldGetByBlockchainAndAddress env b a w =
      (case filter (walletIs b a) (dbColdWallets (wdDb w)) of [] \<Rightarrow> Err storeErrNotFound | h # _ \<Rightarrow> Val h, w\<lparr>wdExt := x\<rparr>)"
    using assms(2,3) x by (auto simp: coldGetByBlockchainAndAddress_def noRowsToNotFound_def op_defs oneRow_def errNoRows_def split: list.split)
qed

text \<open>The wallet an address belongs to, read off the three tables: hot before processing before cold.\<close>

definition walletOf :: "db \<Rightarrow> blockchain_type \<Rightarrow> string \<Rightarrow> check_wallet_result option" where
  "walletOf d b a =
     (case filter (walletIs b a) (dbHotWallets d) of
        h # _ \<Rightarrow> Some (hotResult h)
      | [] \<Rightarrow> (case filter (walletIs b a) (dbProcessingWallets d) of
          h # _ \<Rightarrow> Some (plainResult WalletTypeProcessing h)
        | [] \<Rightarrow> (case filter (walletIs b a) (dbColdWallets d) of
            h # _ \<Rightarrow> Some (plainResult WalletTypeCold h) | [] \<Rightarrow> None)))"

lemma database_walletOf:
  fixes env :: "'e env"
  assumes "noFaults env" and "blockchainValid b" and "a \<noteq> ''''"
  shows "fst (checkWalletInDatabase env b a w) =
    (case walletOf (wdDb w) b a of
       Some r \<Rightarrow> Val r | None \<Rightarrow> Err (Wrapf ''check wallet in database: '' errAddressNotFound))"
proof -
  obtain x where h: "hotGetByBlockchainAndAddress env b a w =
      (case filter (walletIs b a) (dbHotWallets (wdDb w)) of [] \<Rightarrow> Err storeErrNotFound | h # _ \<Rightarrow> Val h, w\<lparr>wdExt := x\<rparr>)"
    using lookups_noFaults(1) [OF assms] by blast
  obtain y where p: "processingGetByBlockchainAndAddress env b a (w\<lparr>wdExt := x\<rparr>) =
      (case filter (walletIs b a) (dbProcessingWallets (wdDb w)) of [] \<Rightarrow> Err storeErrNotFound | h # _ \<Rightarrow> Val h, w\<lparr>wdExt := y\<rparr>)"
    using lookups_noFaults(2) [OF assms, of "w\<lparr>wdExt := x\<rparr>"] by auto
  obtain z where c: "coldGetByBlockchainAndAddress env b a (w\<lparr>wdExt := y\<rparr>) =
      (case filter (walletIs b a) (dbColdWallets (wdDb w)) of [] \<Rightarrow> Err storeErrNotFound | h # _ \<Rightarrow> Val h, w\<lparr>wdExt := z\<rparr>)"
    using lookups_noFaults(3) [OF assms, of "w\<lparr>wdExt := y\<rparr>"] by auto
  show ?thesis
    using h p c by (auto simp: checkWalletInDatabase_def lookupOrNext_def op_defs walletOf_def storeErrNotFound_def split: list.splits)
qed

lemma oneRowEach_keys:
  assumes "oneRowEach rows"
  shows "distinct (map (\<lambda>w. cacherKey (wlBlockchain w) (wlAddress w)) rows)"
    "blockchainValid b \<Longrightarrow> filter (\<lambda>w. cacherKey (wlBlockchain w) (wlAddress w) = cacherKey b a) rows = filter (walletIs b a) rows"
proof -
  show "distinct (map (\<lambda>w. cacherKey (wlBlockchain w) (wlAddress w)) rows)"
    using assms unfolding oneRowEach_def distinct_map inj_on_def by (auto simp: cacherKey_inj)
  show "blockchainValid b \<Longrightarrow> filter (\<lambda>w. cacherKey (wlBlockchain w) (wlAddress w) = cacherKey b a) rows = filter (walletIs b a) rows"
    using assms by (intro filter_cong) (auto simp: oneRowEach_def cacherKey_inj walletIs_def)
qed

lemma dbRead_only:
  "dbRead env False nm f w = (Val x, w') \<Longrightarrow> f (wdDb w) = Inr x \<and> (\<exists>e. w' = w\<lparr>wdExt := e\<rparr>)"
  by (auto simp: dbRead_def ofSum_def op_defs dbView_outside split: prod.split_asm db_fault.split_asm sum.split_asm)

lemma bothRun_Val: "bothRun m n s = (Val u, s') \<longleftrightarrow> (\<exists>u1 s1. m s = (Val u1, s1) \<and> n s1 = (Val u, s'))"
  by (cases "m s"; cases "fst (m s)") (auto simp: bothRun_def split: prod.split outcome.split)

lemma cacherHandler_ok:
  assumes "cacherHandler env False w = (Val u, w1)"
  shows "wdDb w1 = wdDb w \<and> wdHotCache w1 = reloadCache (dbHotWallets (wdDb w)) (wdHotCache w) \<and>
    wdProcessingCache w1 = reloadCache (dbProcessingWallets (wdDb w)) (wdProcessingCache w) \<and>
    wdColdCache w1 = reloadCache (dbColdWallets (wdDb w)) (wdColdCache w)"
proof -
  from assms obtain h p c wa wb wc wd we where
    h: "qHotFind env w = (Val h, wa)" and wb: "wb = wa\<lparr>wdHotCache := reloadCache h (wdHotCache wa)\<rparr>" and
    p: "qProcessingFind env wb = (Val p, wc)" and wd: "wd = wc\<lparr>wdProcessingCache := reloadCache p (wdProcessingCache wc)\<rparr>" and
    c: "qColdFind env wd = (Val c, we)" and w1: "w1 = we\<lparr>wdColdCache := reloadCache c (wdColdCache we)\<rparr>"
    unfolding cacherHandler_def if_False bothRun_Val bnd_Val wrapErr_Val modS_Val by blast
  from dbRead_only [OF h [unfolded qHotFind_def]] obtain x where 1: "h = dbHotWallets (wdDb w)" "wa = w\<lparr>wdExt := x\<rparr>" by auto
  from dbRead_only [OF p [unfolded qProcessingFind_def]] obtain y where 2: "p = dbProcessingWallets (wdDb wb)" "wc = wb\<lparr>wdExt := y\<rparr>" by auto
  from dbRead_only [OF c [unfolded qColdFind_def]] obtain z where 3: "c = dbColdWallets (wdDb wd)" "we = wd\<lparr>wdExt := z\<rparr>" by auto
  show ?thesis by (simp add: w1 wd wb 1 2 3)
qed

text \<open>
  C39. The cache implements the database: after a load of the wallets the lookup in the cache finds the
  wallet that the lookup in the database finds, and none when that finds none, for every address of
  every chain, as long as no query fails and a table has one row for an address.
\<close>

theorem cached_lookup_refines_database:
  fixes env :: "'e env"
  assumes "cacherHandler env False w = (Val u, w1)" and "noFaults env"
    and "oneRowEach (dbHotWallets (wdDb w))" "oneRowEach (dbProcessingWallets (wdDb w))" "oneRowEach (dbColdWallets (wdDb w))"
    and "blockchainValid b" and "a \<noteq> ''''"
  shows "(\<exists>w2. checkWalletInDatabase env b a w1 = (Val r, w2)) \<longleftrightarrow> checkWalletInCache b a w1 = (Val r, w1)"
proof -
  note c = cacherHandler_ok [OF assms(1)]
  have "fst (checkWalletInCache b a w1) =
    (case walletOf (wdDb w1) b a of Some r \<Rightarrow> Val r | None \<Rightarrow> Err (Wrapf ''check wallet in cache: '' errAddressNotFound))"
    using c assms(6) oneRowEach_keys [OF assms(3)] oneRowEach_keys [OF assms(4)] oneRowEach_keys [OF assms(5)]
    by (auto simp: checkWalletInCache_def reloadCache_lookup walletOf_def op_defs split: list.split)
  moreover have "snd (checkWalletInCache b a w1) = w1"
    by (simp add: checkWalletInCache_def op_defs split: option.split)
  moreover note database_walletOf [OF assms(2,6,7), of w1]
  ultimately show ?thesis
    by (cases "checkWalletInDatabase env b a w1"; cases "checkWalletInCache b a w1")
      (auto split: option.splits)
qed

theorem cached_lookup_refines_database_witness:
  "\<exists>w1. cacherHandler (demoEnv []) False demoWorld = (Val (), w1) \<and>
     checkWalletInCache BlockchainTypeBitcoin ''from-1'' w1 = (Val (plainResult WalletTypeProcessing (hd (dbProcessingWallets demoDb))), w1)"
proof -
  have "\<exists>w1. cacherHandler (demoEnv []) False demoWorld = (Val (), w1)"
    by (simp add: cacherHandler_def bothRun_def qHotFind_def qProcessingFind_def qColdFind_def dbRead_def op_defs ofSum_def
        demo_defs dbView_outside)
  then obtain w1 where w1: "cacherHandler (demoEnv []) False demoWorld = (Val (), w1)" by blast
  have nf: "noFaults (demoEnv [])" by (simp add: noFaults_def demoEnv_def)
  have d: "wdDb w1 = demoDb" using cacherHandler_ok [OF w1] by (simp add: demoWorld_def)
  have "fst (checkWalletInDatabase (demoEnv []) BlockchainTypeBitcoin ''from-1'' w1) =
      Val (plainResult WalletTypeProcessing (hd (dbProcessingWallets demoDb)))"
    unfolding database_walletOf [OF nf, of BlockchainTypeBitcoin "''from-1''", simplified]
    by (simp add: d walletOf_def demoDb_def walletIs_def)
  then obtain w2 where "checkWalletInDatabase (demoEnv []) BlockchainTypeBitcoin ''from-1'' w1 =
      (Val (plainResult WalletTypeProcessing (hd (dbProcessingWallets demoDb))), w2)"
    by (metis prod.collapse)
  with cached_lookup_refines_database [OF w1 nf, of BlockchainTypeBitcoin "''from-1''"] w1 show ?thesis
    by (auto simp: oneRowEach_def demo_defs)
qed

end
