(* ===== verification/TronRes.thy ===== *)
theory TronRes
  imports EvmFee Retry "HOL-Library.Signed_Division"
begin

text \<open>
  \<open>pkg/walletsdk/tron\<close>: the conversions between TRX, energy and bandwidth (converter.go, chainparams.go),
  the resources of an account and the estimates of what a transfer needs (resources.go, activate.go),
  the reclaim of delegated resources (reclaim.go), signatures and wallets (transactions.go, wallet.go).
  The client of the node and the libraries of Tron are the functions of the records \<open>tron_node\<close> and
  \<open>tron_lib\<close>; byte strings are strings and an \<open>int64\<close> is a word of 64 bits.
\<close>

section \<open>The node and the libraries\<close>

datatype resource_code = ResourceCode_BANDWIDTH | ResourceCode_ENERGY | OtherResourceCode int

datatype tron_contract =
    DelegateResourceContract string string "64 word" resource_code
  | UnDelegateResourceContract string string "64 word" resource_code
  | AccountCreateContract string string
  | OtherContract string

record tron_raw =
  rwRefBlockBytes :: string
  rwRefBlockHash :: string
  rwExpiration :: "64 word"
  rwTimestamp :: "64 word"
  rwFeeLimit :: "64 word"
  rwContract :: "tron_contract list"

text \<open>\<open>core.Transaction\<close>; the pointer to the raw data may be nil.\<close>

record tron_tx =
  tnRawData :: "tron_raw option"
  tnRet :: "string list"
  tnSignature :: "string list"

record tron_return =
  rtResult :: bool
  rtCode :: int
  rtMessage :: string

text \<open>\<open>api.TransactionExtention\<close>.\<close>

record tx_ext =
  teTransaction :: "tron_tx option"
  teTxid :: string
  teEnergyUsed :: "64 word"
  teResult :: "tron_return option"

record account_resources =
  arEnergyLimit :: "64 word"
  arEnergyUsed :: "64 word"
  arNetLimit :: "64 word"
  arNetUsed :: "64 word"
  arFreeNetLimit :: "64 word"
  arFreeNetUsed :: "64 word"
  arTotalEnergyWeight :: "64 word"
  arTotalNetWeight :: "64 word"
  arTotalNetLimit :: "64 word"

record tron_account =
  taAddress :: string
  taFrozenV2 :: "(resource_code \<times> 64 word) list"

record delegated =
  dgFrozenBalanceForBandwidth :: "64 word"
  dgFrozenBalanceForEnergy :: "64 word"
  dgExpireTimeForBandwidth :: "64 word"
  dgExpireTimeForEnergy :: "64 word"
  dgTo :: string

record frozen_resource =
  frType :: resource_code
  frAmount :: "64 word"
  frExpire :: "64 word"
  frDelegateTo :: string

record tron_lib =
  tlDecodeCheck :: "string \<Rightarrow> goerr + string"
  tlBase58ToAddress :: "string \<Rightarrow> goerr + string"
  tlAddressString :: "string \<Rightarrow> string"
  tlAddressHex :: "string \<Rightarrow> string"
  tlFromHex :: "string \<Rightarrow> goerr + string"
  tlAnyNew :: "tron_contract \<Rightarrow> goerr option"
  tlMarshal :: "tron_raw option \<Rightarrow> goerr + string"
  tlSha256 :: "string \<Rightarrow> string"
  tlSign :: "string \<Rightarrow> string \<Rightarrow> goerr + string"
  tlSizeTx :: "tron_tx \<Rightarrow> int"
  tlSizeExt :: "tx_ext \<Rightarrow> int"
  tlUpdateHash :: "tx_ext \<Rightarrow> goerr + tx_ext"
  tlValidateTronAddress :: "string \<Rightarrow> bool"
  tlDerive :: "string \<Rightarrow> string \<Rightarrow> string \<Rightarrow> goerr + string"
  tlToECDSA :: "string \<Rightarrow> string option"
  tlPubkeyToAddress :: "string \<Rightarrow> string"
  tlEncodeKey :: "string \<Rightarrow> string"
  tlEncodePub :: "string \<Rightarrow> string"

record 'e tron_node =
  nodeGetChainParameters :: "('e, (string \<times> 64 word) list) op"
  nodeGetAccount :: "string \<Rightarrow> ('e, tron_account) op"
  nodeGetAccountResource :: "string \<Rightarrow> ('e, account_resources) op"
  nodeClientGetAccount :: "string \<Rightarrow> ('e, tron_account) op"
  nodeClientGetAccountResource :: "string \<Rightarrow> ('e, account_resources) op"
  nodeGetDelegatedIndex :: "string \<Rightarrow> ('e, string list) op"
  nodeGetDelegated :: "string \<Rightarrow> string \<Rightarrow> ('e, delegated list) op"
  nodeTransfer :: "string \<Rightarrow> string \<Rightarrow> 64 word \<Rightarrow> ('e, tx_ext) op"
  nodeTRC20Send :: "string \<Rightarrow> string \<Rightarrow> string \<Rightarrow> int \<Rightarrow> 64 word \<Rightarrow> ('e, tx_ext) op"
  nodeTriggerConstantContract :: "string \<Rightarrow> string \<Rightarrow> string \<Rightarrow> string \<Rightarrow> ('e, tx_ext) op"
  nodeTriggerContract :: "bool \<Rightarrow> string \<Rightarrow> string \<Rightarrow> string \<Rightarrow> ('e, tx_ext) op"
  nodeCreateAccount :: "string \<Rightarrow> string \<Rightarrow> ('e, tx_ext) op"
  nodeCreateAccount2 :: "string \<Rightarrow> string \<Rightarrow> ('e, tx_ext) op"
  nodeDelegateResource :: "string \<Rightarrow> string \<Rightarrow> resource_code \<Rightarrow> 64 word \<Rightarrow> ('e, tx_ext) op"
  nodeUnDelegateResource :: "string \<Rightarrow> string \<Rightarrow> resource_code \<Rightarrow> 64 word \<Rightarrow> ('e, tx_ext) op"
  nodeBroadcast :: "tron_tx \<Rightarrow> 'e act"
  nodeGenerateKey :: "('e, string) op"

text \<open>A \<open>Tron\<close> instance with the two fields of its configuration that are read after the start.\<close>

record 'e tron =
  trnEnv :: "'e env"
  trnLib :: tron_lib
  trnNode :: "'e tron_node"
  trnActivationContractAddress :: string
  trnUseBurnTRXActivation :: bool

definition TrxAssetIdentifier :: string where "TrxAssetIdentifier = ''trx''"
definition BlackHoleAddress :: string where "BlackHoleAddress = ''T9yD14Nj9j7xAB4dbGeiX9h8unkKHxuWwb''"
definition ActivatorActivateMethodSignature :: string where "ActivatorActivateMethodSignature = ''1c5a9d9c''"

text \<open>A member of a pointer: a panic for nil.\<close>

definition deref :: "'a option \<Rightarrow> ('s, 'a) op" where
  "deref x = (case x of None \<Rightarrow> panic ''nil pointer dereference'' | Some y \<Rightarrow> ret y)"

text \<open>\<open>decimal.NewFromInt\<close>, and \<open>Div\<close>, which panics for a zero divisor.\<close>

definition newFromInt :: "64 word \<Rightarrow> rat" where
  "newFromInt i = of_int (sint i)"

definition decDiv :: "'e env \<Rightarrow> rat \<Rightarrow> rat \<Rightarrow> ('s, rat) op" where
  "decDiv env a b = (if b = 0 then panic ''decimal division by 0'' else ret (envDecimalDiv env a b))"

section \<open>Conversions\<close>

definition trxToSUN :: "rat \<Rightarrow> rat" where
  "trxToSUN value = value * 1000000"

definition trxToEnergy :: "'e env \<Rightarrow> rat \<Rightarrow> 64 word \<Rightarrow> ('s, rat) op" where
  "trxToEnergy env value energyFee =
     bnd (decDiv env value (newFromInt energyFee)) (\<lambda>q. ret (q * 1000000))"

definition trxToBandwidth :: "rat \<Rightarrow> 64 word \<Rightarrow> rat" where
  "trxToBandwidth value transactionFee = value * newFromInt transactionFee"

definition energyToTRX :: "'e env \<Rightarrow> rat \<Rightarrow> 64 word \<Rightarrow> rat" where
  "energyToTRX env value energyFee = envDecimalDiv env (value * newFromInt energyFee) 1000000"

definition bandwidthToTRX :: "'e env \<Rightarrow> rat \<Rightarrow> 64 word \<Rightarrow> ('s, rat) op" where
  "bandwidthToTRX env value transactionFee = decDiv env value (newFromInt transactionFee)"

record chain_params =
  cpEnergyFee :: "64 word"
  cpTransactionFee :: "64 word"
  cpTotalEnergyCurrentLimit :: "64 word"
  cpFreeNetLimit :: "64 word"
  cpCreateNewAccountFeeInSystemContract :: "64 word"
  cpCreateAccountFee :: "64 word"

definition setChainParam :: "string \<times> 64 word \<Rightarrow> chain_params \<Rightarrow> chain_params" where
  "setChainParam kv res =
     (case kv of (key, val) \<Rightarrow>
      if key = ''getEnergyFee'' then res\<lparr>cpEnergyFee := val\<rparr>
      else if key = ''getTransactionFee'' then res\<lparr>cpTransactionFee := val\<rparr>
      else if key = ''getTotalEnergyCurrentLimit'' then res\<lparr>cpTotalEnergyCurrentLimit := val\<rparr>
      else if key = ''getFreeNetLimit'' then res\<lparr>cpFreeNetLimit := val\<rparr>
      else if key = ''getCreateAccountFee'' then res\<lparr>cpCreateAccountFee := val\<rparr>
      else if key = ''getCreateNewAccountFeeInSystemContract''
      then res\<lparr>cpCreateNewAccountFeeInSystemContract := val\<rparr>
      else res)"

definition chainParams :: "'e tron \<Rightarrow> ('e, chain_params) op" where
  "chainParams t =
     bnd (nodeGetChainParameters (trnNode t)) (\<lambda>items.
     ret (fold setChainParam items
       \<lparr>cpEnergyFee = 0, cpTransactionFee = 0, cpTotalEnergyCurrentLimit = 0, cpFreeNetLimit = 0,
        cpCreateNewAccountFeeInSystemContract = 0, cpCreateAccountFee = 0\<rparr>))"

definition chainParam :: "'e tron \<Rightarrow> string \<Rightarrow> ('e, string \<times> 64 word) op" where
  "chainParam t paramKey =
     bnd (nodeGetChainParameters (trnNode t)) (\<lambda>items.
     case filter (\<lambda>item. fst item = paramKey) items of
       item # _ \<Rightarrow> ret item
     | [] \<Rightarrow> fail (ErrText ''chain parameter not found''))"

text \<open>The weights and limits are those of the whole network; a stake is in SUN.\<close>

definition convertStackedTRXToEnergy :: "'e env \<Rightarrow> 64 word \<Rightarrow> 64 word \<Rightarrow> 64 word \<Rightarrow> ('s, rat) op" where
  "convertStackedTRXToEnergy env totalEnergyCurrentLimit totalEnergyWeight stackedTrx =
     bnd (decDiv env (newFromInt stackedTrx) 1000000) (\<lambda>q.
     bnd (decDiv env q (newFromInt totalEnergyWeight)) (\<lambda>r.
     ret (r * newFromInt totalEnergyCurrentLimit)))"

definition convertEnergyToStackedTRX :: "'e env \<Rightarrow> 64 word \<Rightarrow> 64 word \<Rightarrow> rat \<Rightarrow> ('s, rat) op" where
  "convertEnergyToStackedTRX env totalEnergyCurrentLimit totalEnergyWeight energy =
     bnd (decDiv env energy (newFromInt totalEnergyCurrentLimit)) (\<lambda>q.
     ret (q * newFromInt totalEnergyWeight * 1000000))"

definition convertStackedTRXToBandwidth :: "'e env \<Rightarrow> 64 word \<Rightarrow> 64 word \<Rightarrow> 64 word \<Rightarrow> ('s, rat) op" where
  "convertStackedTRXToBandwidth env totalNetWeight totalNetLimit stackedTrx =
     bnd (decDiv env (newFromInt stackedTrx) 1000000) (\<lambda>q.
     bnd (decDiv env q (newFromInt totalNetWeight)) (\<lambda>r.
     ret (r * newFromInt totalNetLimit)))"

definition convertBandwidthToStackedTRX :: "'e env \<Rightarrow> 64 word \<Rightarrow> 64 word \<Rightarrow> rat \<Rightarrow> ('s, rat) op" where
  "convertBandwidthToStackedTRX env totalNetWeight totalNetLimit bandwidth =
     bnd (decDiv env bandwidth (newFromInt totalNetLimit)) (\<lambda>q.
     ret (q * newFromInt totalNetWeight * 1000000))"

section \<open>The resources of an account\<close>

text \<open>\<open>int64\<close> arithmetic, then a decimal.\<close>

definition availableEnergy :: "account_resources \<Rightarrow> rat" where
  "availableEnergy res = newFromInt (arEnergyLimit res - arEnergyUsed res)"

definition availableBandwidth :: "account_resources \<Rightarrow> rat" where
  "availableBandwidth res =
     newFromInt (arNetLimit res + arFreeNetLimit res - arNetUsed res - arFreeNetUsed res)"

definition availableBandwidthWithoutFree :: "account_resources \<Rightarrow> rat" where
  "availableBandwidthWithoutFree res = newFromInt (arNetLimit res - arNetUsed res)"

definition totalEnergyLimit :: "account_resources \<Rightarrow> rat" where
  "totalEnergyLimit res = newFromInt (arEnergyLimit res)"

definition totalBandwidthLimit :: "account_resources \<Rightarrow> rat" where
  "totalBandwidthLimit res = newFromInt (arNetLimit res + arFreeNetLimit res)"

record tron_resources =
  rsEnergy :: rat
  rsBandwidth :: rat
  rsTotalEnergy :: rat
  rsTotalBandwidth :: rat

definition noResources :: tron_resources where
  "noResources = \<lparr>rsEnergy = 0, rsBandwidth = 0, rsTotalEnergy = 0, rsTotalBandwidth = 0\<rparr>"

text \<open>The loop over the stakes of an account: the energy and the bandwidth they stand for.\<close>

fun stackedSums :: "'e env \<Rightarrow> chain_params \<Rightarrow> account_resources \<Rightarrow> rat \<Rightarrow> rat \<Rightarrow> (resource_code \<times> 64 word) list \<Rightarrow>
    ('s, rat \<times> rat) op" where
  "stackedSums env cp res energy bandwidth [] = ret (energy, bandwidth)"
| "stackedSums env cp res energy bandwidth ((type, amount) # items) =
     bnd (if type = ResourceCode_BANDWIDTH
          then bnd (convertStackedTRXToBandwidth env (arTotalNetWeight res) (arTotalNetLimit res) amount) (\<lambda>b.
               ret (bandwidth + b))
          else ret bandwidth) (\<lambda>bandwidth'.
     bnd (if type = ResourceCode_ENERGY
          then bnd (convertStackedTRXToEnergy env (cpTotalEnergyCurrentLimit cp) (arTotalEnergyWeight res) amount) (\<lambda>e.
               ret (energy + e))
          else ret energy) (\<lambda>energy'.
     stackedSums env cp res energy' bandwidth' items))"

definition availableForDelegateResources :: "'e tron \<Rightarrow> string \<Rightarrow> ('e, tron_resources) op" where
  "availableForDelegateResources t addr =
     bnd (chainParams t) (\<lambda>cp.
     bnd (nodeGetAccount (trnNode t) addr) (\<lambda>account.
     bnd (nodeGetAccountResource (trnNode t) addr) (\<lambda>res.
     bnd (stackedSums (trnEnv t) cp res 0 0 (taFrozenV2 account)) (\<lambda>(stackedEnergy, stackedBandwidth).
     ret \<lparr>rsEnergy = (if stackedEnergy < availableEnergy res then stackedEnergy else availableEnergy res),
          rsBandwidth = (if stackedBandwidth < availableBandwidthWithoutFree res then stackedBandwidth
                         else availableBandwidthWithoutFree res),
          rsTotalEnergy = totalEnergyLimit res, rsTotalBandwidth = totalBandwidthLimit res\<rparr>))))"

definition totalAvailableResources :: "'e tron \<Rightarrow> string \<Rightarrow> ('e, tron_resources) op" where
  "totalAvailableResources t addr =
     bnd (nodeGetAccountResource (trnNode t) addr) (\<lambda>res.
     ret \<lparr>rsEnergy = availableEnergy res, rsBandwidth = availableBandwidth res,
          rsTotalEnergy = totalEnergyLimit res, rsTotalBandwidth = totalBandwidthLimit res\<rparr>)"

definition getMaxOperationsCount :: "64 word \<Rightarrow> 64 word \<Rightarrow> 32 word" where
  "getMaxOperationsCount energy bandwidth =
     (let transferEnergyCost = 80000 :: int; transferBandwidthCost = 345 :: int; resourceBandwidthCost = 290 :: int;
          bandwidthOperations = sint bandwidth sdiv (transferBandwidthCost + resourceBandwidthCost * 2);
          energyOperations = sint energy sdiv transferEnergyCost;
          capacity = (if energyOperations < bandwidthOperations then energyOperations else bandwidthOperations)
      in if capacity < 0 then 0 else word_of_int capacity)"

section \<open>What a transfer needs\<close>

definition ResourceCoefficient :: rat where "ResourceCoefficient = 1007 / 1000"

record activation_resources =
  acEnergy :: rat
  acBandwidth :: rat
  acTrx :: rat

record transfer_resources =
  trfEnergy :: rat
  trfBandwidth :: rat
  trfTrx :: rat

text \<open>
  A call inside \<open>retry.Do\<close> whose result the caller keeps in a variable. The policy is bounded, so that
  the attempts end.
\<close>

definition retryCall :: "('s \<times> 'a option) retry \<Rightarrow> ('s, 'a) op \<Rightarrow> ('s, 'a) op" where
  "retryCall r m s =
     (case retryDo r (Some (\<lambda>(y, v). case m y of
          (Val a, y') \<Rightarrow> (Val (), (y', Some a))
        | (Err e, y') \<Rightarrow> (Err e, (y', None))
        | (Panic q, y') \<Rightarrow> (Panic q, (y', None)))) (s, None) of
        None \<Rightarrow> (Panic ''the attempts do not end'', s)
      | Some (Val _, (y, v)) \<Rightarrow> deref v y
      | Some (Err e, (y, v)) \<Rightarrow> (Err e, y)
      | Some (Panic q, (y, v)) \<Rightarrow> (Panic q, y))"

definition nodeRetry :: "'e env \<Rightarrow> ('e \<times> 'a option) retry" where
  "nodeRetry env = newRetry (\<lambda>d (y, v). (envSleep env d y, v))
     [withMaxAttempts 3, withContext (\<lambda>(y, v). envCtx env y \<noteq> None)]"

text \<open>Only a reset connection is worth another attempt.\<close>

definition resetOnly :: "string \<Rightarrow> ('s, 'a) op \<Rightarrow> ('s, 'a) op" where
  "resetOnly msg m = catchErr m (\<lambda>e.
     if strContains (errStr e) ''reset by peer'' then fail e else fail (Wrapf (msg @ '': '') ErrExit))"

text \<open>\<open>fillFakeTX\<close>: the transaction with the signature of a fresh key.\<close>

definition fillFakeTX :: "'e tron \<Rightarrow> tron_tx option \<Rightarrow> ('e, tron_tx) op" where
  "fillFakeTX t txo =
     bnd (deref txo) (\<lambda>tx.
     bnd (ofSum (tlMarshal (trnLib t) (tnRawData tx))) (\<lambda>rawData.
     bnd (nodeGenerateKey (trnNode t)) (\<lambda>pk.
     bnd (ofSum (tlSign (trnLib t) (tlSha256 (trnLib t) rawData) pk)) (\<lambda>signature.
     ret (tx\<lparr>tnRet := [], tnSignature := tnSignature tx @ [signature]\<rparr>)))))"

definition estimateBandwidth :: "'e tron \<Rightarrow> tron_tx option \<Rightarrow> ('e, rat) op" where
  "estimateBandwidth t txo =
     bnd (fillFakeTX t txo) (\<lambda>tx.
     ret (of_int (tlSizeTx (trnLib t) tx) + 64))"

definition transferArgs :: "string \<Rightarrow> int \<Rightarrow> string" where
  "transferArgs toAddress amount =
     (let q = [CHR 34] in
      ''[{'' @ q @ ''address'' @ q @ '':'' @ q @ toAddress @ q @ ''},{'' @ q @ ''uint256'' @ q @ '':'' @ q @ showInt amount @ q @ ''}]'')"

definition estimateTransferResources :: "'e tron \<Rightarrow> string \<Rightarrow> string \<Rightarrow> string \<Rightarrow> rat \<Rightarrow> int \<Rightarrow> ('e, transfer_resources) op" where
  "estimateTransferResources t fromAddress toAddress contractAddress amount0 decimals =
     (let env = trnEnv t; node = trnNode t; amount = amount0 * assetUnit decimals in
     bnd (guardE (fromAddress \<noteq> '''') (ErrText ''from address is required'')) (\<lambda>_.
     bnd (guardE (toAddress \<noteq> '''') (ErrText ''to address is required'')) (\<lambda>_.
     bnd (guardE (contractAddress \<noteq> '''') (ErrText ''contract address is required'')) (\<lambda>_.
     bnd (guardE (amount0 > 0) (ErrText ''amount must be greater than 0'')) (\<lambda>_.
     bnd (if contractAddress = TrxAssetIdentifier
          then wrapErr ''transfer'' (retryCall (nodeRetry env)
            (resetOnly ''transfer'' (nodeTransfer node fromAddress toAddress (intPart amount))))
          else wrapErr ''cannot make tron transaction'' (retryCall (nodeRetry env)
            (resetOnly ''cannot make tron transaction''
               (nodeTRC20Send node fromAddress toAddress contractAddress (decBigInt amount) 100000000)))) (\<lambda>data.
     bnd (estimateBandwidth t (teTransaction data)) (\<lambda>bandwidth.
     bnd (chainParams t) (\<lambda>cp.
     if contractAddress = TrxAssetIdentifier then
       bnd (bandwidthToTRX env bandwidth (cpTransactionFee cp)) (\<lambda>trx.
       ret \<lparr>trfEnergy = 0, trfBandwidth = bandwidth, trfTrx = trx\<rparr>)
     else
       bnd (wrapErr ''cannot make tron transaction'' (retryCall (nodeRetry env)
            (resetOnly ''cannot trigger contract'' (nodeTriggerConstantContract node fromAddress contractAddress
               ''transfer(address,uint256)'' (transferArgs toAddress (decBigInt amount)))))) (\<lambda>data2.
       (let energy = newFromInt (teEnergyUsed data2) in
       bnd (bandwidthToTRX env bandwidth (cpTransactionFee cp)) (\<lambda>trx.
       ret \<lparr>trfEnergy = energy, trfBandwidth = bandwidth, trfTrx = energyToTRX env energy (cpEnergyFee cp) + trx\<rparr>)))))))))))"

text \<open>\<open>time.Now().UnixNano() / int64(time.Millisecond)\<close>.\<close>

definition nowMillis :: "'e tron \<Rightarrow> ('e, 64 word) op" where
  "nowMillis t = getS (\<lambda>x. word_of_int (envNow (trnEnv t) x sdiv 1000000))"

definition fakeTransaction :: "'e tron \<Rightarrow> tron_contract \<Rightarrow> ('e, tron_tx) op" where
  "fakeTransaction t contract =
     bnd (case tlAnyNew (trnLib t) contract of Some e \<Rightarrow> fail e | None \<Rightarrow> ret ()) (\<lambda>_.
     bnd (nowMillis t) (\<lambda>millis.
     ret \<lparr>tnRawData = Some \<lparr>rwRefBlockBytes = [CHR 0x01, CHR 0x01], rwRefBlockHash = replicate 8 (CHR 0x01),
            rwExpiration = millis, rwTimestamp = millis, rwFeeLimit = 0, rwContract = [contract]\<rparr>,
          tnRet = [], tnSignature = []\<rparr>))"

definition createFakeResourceTransaction :: "'e tron \<Rightarrow> string \<Rightarrow> string \<Rightarrow> 64 word \<Rightarrow> resource_code \<Rightarrow> bool \<Rightarrow> ('e, tron_tx) op" where
  "createFakeResourceTransaction t fromAddress toAddress amount resourceType reclaim =
     bnd (ofSum (tlDecodeCheck (trnLib t) fromAddress)) (\<lambda>from.
     bnd (ofSum (tlDecodeCheck (trnLib t) toAddress)) (\<lambda>to'.
     fakeTransaction t (if \<not> reclaim then DelegateResourceContract from to' amount resourceType
                        else UnDelegateResourceContract from to' amount resourceType)))"

definition createFakeCreateAccountTransaction :: "'e tron \<Rightarrow> string \<Rightarrow> string \<Rightarrow> ('e, tron_tx) op" where
  "createFakeCreateAccountTransaction t fromAddress toAddress =
     bnd (ofSum (tlDecodeCheck (trnLib t) fromAddress)) (\<lambda>from.
     bnd (ofSum (tlDecodeCheck (trnLib t) toAddress)) (\<lambda>to'.
     fakeTransaction t (AccountCreateContract from to')))"

definition checkIsWalletActivated :: "'e tron \<Rightarrow> string \<Rightarrow> ('e, bool) op" where
  "checkIsWalletActivated t address =
     catchErr (bnd (nodeGetAccount (trnNode t) address) (\<lambda>_. ret True))
       (\<lambda>e. if strContains (strToLower (errStr e)) ''account not found'' then ret False else fail e)"

section \<open>Activation of a wallet\<close>

definition createUnsignedActivationTransaction :: "'e tron \<Rightarrow> string \<Rightarrow> string \<Rightarrow> bool \<Rightarrow> ('e, tx_ext) op" where
  "createUnsignedActivationTransaction t caller receiver constant =
     (let lib = trnLib t in
     bnd (wrapErr ''decode caller address'' (ofSum (tlBase58ToAddress lib caller))) (\<lambda>callerAddress.
     bnd (wrapErr ''decode target address'' (ofSum (tlBase58ToAddress lib receiver))) (\<lambda>targetAddress.
     bnd (wrapErr ''decode contract address'' (ofSum (tlBase58ToAddress lib (trnActivationContractAddress t)))) (\<lambda>contractAddress.
     (let h = tlAddressHex lib targetAddress in
     bnd (if length h < 4 \<or> length h > 68 then panic ''slice bounds out of range'' else ret ()) (\<lambda>_.
     bnd (wrapErr ''decode request data'' (ofSum (tlFromHex lib
            (ActivatorActivateMethodSignature @ drop (length h - 4) (replicate 64 (CHR ''0'')) @ drop 4 h)))) (\<lambda>dataBytes.
     bnd (wrapErr ''trigger smart contract non-constant method [activate]''
            (nodeTriggerContract (trnNode t) constant callerAddress contractAddress dataBytes)) (\<lambda>tx0.
     bnd (case teTransaction tx0 of
            None \<Rightarrow> ret tx0
          | Some tr \<Rightarrow>
              bnd (deref (tnRawData tr)) (\<lambda>raw.
              wrapErr ''update tx hash'' (ofSum (tlUpdateHash lib
                (tx0\<lparr>teTransaction := Some (tr\<lparr>tnRawData := Some (raw\<lparr>rwFeeLimit := 30000000\<rparr>)\<rparr>)\<rparr>))))) (\<lambda>tx.
     bnd (deref (teResult tx)) (\<lambda>res.
     bnd (guardE (rtCode res = 0) (ErrText (''failed tx: '' @ rtMessage res))) (\<lambda>_.
     ret tx)))))))))))"

definition estimateExternalContractActivation :: "'e tron \<Rightarrow> string \<Rightarrow> string \<Rightarrow> ('e, activation_resources) op" where
  "estimateExternalContractActivation t caller receiver =
     bnd (wrapErr ''activation call'' (createUnsignedActivationTransaction t caller receiver True)) (\<lambda>tx.
     bnd (wrapErr ''estimate bandwidth failed'' (estimateBandwidth t (teTransaction tx))) (\<lambda>bandwidth.
     ret \<lparr>acEnergy = newFromInt (teEnergyUsed tx), acBandwidth = bandwidth, acTrx = 0\<rparr>))"

text \<open>The getters of the generated types answer for a nil pointer with zero values.\<close>

definition estimateSystemContractActivation :: "'e tron \<Rightarrow> string \<Rightarrow> string \<Rightarrow> ('e, activation_resources) op" where
  "estimateSystemContractActivation t caller receiver =
     (let env = trnEnv t; lib = trnLib t in
     bnd (chainParams t) (\<lambda>cp.
     (let fee = envDecimalDiv env (newFromInt (cpCreateNewAccountFeeInSystemContract cp)) 1000000 in
     bnd (wrapErr ''decode caller address'' (ofSum (tlBase58ToAddress lib caller))) (\<lambda>callerAddress.
     bnd (wrapErr ''decode target address'' (ofSum (tlBase58ToAddress lib receiver))) (\<lambda>targetAddress.
     bnd (wrapErr ''create account'' (nodeCreateAccount2 (trnNode t) callerAddress targetAddress)) (\<lambda>tx.
     bnd (guardE (tlSizeExt lib tx \<noteq> 0) (ErrText ''bad transaction'')) (\<lambda>_.
     (let code = (case teResult tx of None \<Rightarrow> 0 | Some r \<Rightarrow> rtCode r);
          msg = (case teResult tx of None \<Rightarrow> '''' | Some r \<Rightarrow> rtMessage r) in
     if code \<noteq> 0 then
       (if strContains msg ''Account has existed'' then ret \<lparr>acEnergy = 0, acBandwidth = 0, acTrx = 0\<rparr>
        else if strContains msg ''Contract validate error : Validate CreateAccountActuator error, insufficient fee''
        then fail (Wrapfs '''' (ErrExt ''rpccode'' ''not enough balance'')
               ('' on processing wallet for activate hot wallet. required: '' @ envDecimalString env fee @ '' TRX''))
        else fail (ErrText msg))
     else
       bnd (estimateBandwidth t (teTransaction tx)) (\<lambda>bandwidth.
       bnd (bandwidthToTRX env bandwidth (cpTransactionFee cp)) (\<lambda>trx.
       ret \<lparr>acEnergy = 0, acBandwidth = bandwidth, acTrx = trx + fee\<rparr>))))))))))"

definition estimateActivationFee :: "'e tron \<Rightarrow> string \<Rightarrow> string \<Rightarrow> ('e, activation_resources) op" where
  "estimateActivationFee t fromAddress toAddress =
     bnd (wrapErr ''check wallet activation'' (checkIsWalletActivated t toAddress)) (\<lambda>isActivated.
     if isActivated then ret \<lparr>acEnergy = 0, acBandwidth = 0, acTrx = 0\<rparr>
     else
     bnd (wrapErr ''get chain params'' (chainParams t)) (\<lambda>cp.
     bnd (availableForDelegateResources t fromAddress) (\<lambda>res.
     bnd (wrapErr ''fake create account tx'' (createFakeCreateAccountTransaction t fromAddress toAddress)) (\<lambda>fakeTx.
     bnd (wrapErr ''estimate fake create account bandwidth'' (estimateBandwidth t (Some fakeTx))) (\<lambda>bandwidth.
     (let fee = newFromInt (cpCreateNewAccountFeeInSystemContract cp);
          burn = rsBandwidth res < bandwidth;
          trx = (if burn then fee + newFromInt (cpCreateAccountFee cp) else fee)
      in ret \<lparr>acEnergy = 0, acBandwidth = (if burn then 0 else bandwidth),
              acTrx = envDecimalDiv (trnEnv t) trx 1000000\<rparr>))))))"

section \<open>Delegation\<close>

record delegate_request =
  dqProcessingAddress :: string
  dqHotWalletAddress :: string
  dqProcessingResources :: tron_resources
  dqHotResources :: tron_resources
  dqEstimate :: transfer_resources

record delegate_response =
  dpNeedToDelegate :: tron_resources
  dpNeedBandwidth :: rat

definition withCoefficient :: "rat \<Rightarrow> rat" where
  "withCoefficient x = decCeil (x * ResourceCoefficient)"

definition errNotEnoughResources :: "'e env \<Rightarrow> string \<Rightarrow> rat \<Rightarrow> rat \<Rightarrow> goerr" where
  "errNotEnoughResources env what required available =
     Wrapfs '''' (ErrExt ''rpccode'' ''not enough resources'')
       ('' '' @ what @ '' for transfer. required: '' @ envDecimalString env required @ '', available: '' @ envDecimalString env available)"

text \<open>The transactions that delegate and later reclaim an amount of SUN, and the bandwidth of a list of transactions.\<close>

definition fakePair :: "'e tron \<Rightarrow> string \<Rightarrow> string \<Rightarrow> string \<Rightarrow> 64 word \<Rightarrow> resource_code \<Rightarrow> ('e, tron_tx list) op" where
  "fakePair t what from to' sun resourceType =
     bnd (wrapErr (''fake delegate '' @ what @ '' tx'') (createFakeResourceTransaction t from to' sun resourceType False)) (\<lambda>d.
     bnd (wrapErr (''fake reclaim '' @ what @ '' tx'') (createFakeResourceTransaction t from to' sun resourceType True)) (\<lambda>r.
     ret [d, r]))"

fun addBandwidths :: "'e tron \<Rightarrow> rat \<Rightarrow> tron_tx list \<Rightarrow> ('e, rat) op" where
  "addBandwidths t acc [] = ret acc"
| "addBandwidths t acc (tx # txs) =
     bnd (wrapErr ''estimate bandwidth'' (estimateBandwidth t (Some tx))) (\<lambda>b. addBandwidths t (acc + b) txs)"

text \<open>What the hot wallet lacks: the part of the energy it does not have, and the whole bandwidth if it has less.\<close>

definition lackingResources :: "tron_resources \<Rightarrow> rat \<Rightarrow> rat \<Rightarrow> tron_resources" where
  "lackingResources hot energy bandwidth =
     noResources\<lparr>rsEnergy := (if rsEnergy hot < energy then energy - rsEnergy hot else 0),
                 rsBandwidth := (if rsBandwidth hot < bandwidth then bandwidth else 0)\<rparr>"

definition estimateTransferWithDelegateResources :: "'e tron \<Rightarrow> delegate_request \<Rightarrow> ('e, delegate_response) op" where
  "estimateTransferWithDelegateResources t req =
     (let env = trnEnv t; processing = dqProcessingAddress req; hot = dqHotWalletAddress req;
          processingRes = dqProcessingResources req; hotRes = dqHotResources req; est = dqEstimate req;
          totalEnergy = rsEnergy processingRes + rsEnergy hotRes;
          totalBandwidth = (if rsBandwidth hotRes \<ge> trfBandwidth est
            then rsBandwidth processingRes + rsBandwidth hotRes else rsBandwidth processingRes);
          energy = withCoefficient (trfEnergy est); bandwidth = withCoefficient (trfBandwidth est);
          need = lackingResources hotRes energy bandwidth in
     bnd (guardE (processing \<noteq> '''') (ErrText ''processing address is required'')) (\<lambda>_.
     bnd (guardE (hot \<noteq> '''') (ErrText ''hot wallet address is required'')) (\<lambda>_.
     bnd (guardE (\<not> energy > totalEnergy) (errNotEnoughResources env ''energy'' energy totalEnergy)) (\<lambda>_.
     bnd (guardE (\<not> bandwidth > totalBandwidth) (errNotEnoughResources env ''bandwidth'' bandwidth totalBandwidth)) (\<lambda>_.
     bnd (wrapErr ''chain params'' (chainParams t)) (\<lambda>cp.
     bnd (if rsEnergy need > 0
          then fakePair t ''energy'' processing hot
                 (intPart (trxToSUN (energyToTRX env (rsEnergy need) (cpEnergyFee cp)))) ResourceCode_ENERGY
          else ret []) (\<lambda>energyTxs.
     bnd (wrapErr ''check is wallet activated'' (checkIsWalletActivated t hot)) (\<lambda>isActivated.
     bnd (if \<not> isActivated \<and> trnUseBurnTRXActivation t
          then bnd (wrapErr ''estimate system wallet activation'' (estimateSystemContractActivation t processing hot)) (\<lambda>a.
               ret (rsBandwidth need + acBandwidth a))
          else ret (rsBandwidth need)) (\<lambda>bandwidth1.
     (let free = \<not> isActivated \<and> rsBandwidth need > 0 \<and> rsBandwidth need < newFromInt (cpFreeNetLimit cp);
          bandwidth2 = (if free then bandwidth1 - rsBandwidth need else bandwidth1);
          need2 = (if free then need\<lparr>rsBandwidth := 0\<rparr> else need) in
     bnd (if rsBandwidth need2 > 0
          then bnd (bandwidthToTRX env (rsBandwidth need2) (cpTransactionFee cp)) (\<lambda>trx.
               fakePair t ''bandwidth'' processing hot (intPart (trxToSUN trx)) ResourceCode_BANDWIDTH)
          else ret []) (\<lambda>bandwidthTxs.
     bnd (addBandwidths t bandwidth2 (energyTxs @ bandwidthTxs)) (\<lambda>needBandwidth.
     ret \<lparr>dpNeedToDelegate = need2, dpNeedBandwidth = needBandwidth\<rparr>))))))))))))"

record system_resources =
  syEnergyDelegation :: rat
  syEnergyReclaim :: rat
  syBandwidthDelegation :: rat
  syBandwidthReclaim :: rat

record external_response =
  epNeedResourcesToTransfer :: tron_resources
  epNeedSystemResources :: system_resources
  epNeedResourcesToActivate :: activation_resources
  epNeedToActivate :: bool

definition fakeBandwidths :: "'e tron \<Rightarrow> string \<Rightarrow> string \<Rightarrow> 64 word \<Rightarrow> resource_code \<Rightarrow> ('e, rat \<times> rat) op" where
  "fakeBandwidths t what to' sun resourceType =
     bnd (wrapErr (''fake delegate '' @ what @ '' tx'')
            (createFakeResourceTransaction t BlackHoleAddress to' sun resourceType False)) (\<lambda>d.
     bnd (wrapErr ''estimate bandwidth'' (estimateBandwidth t (Some d))) (\<lambda>b.
     bnd (wrapErr (''fake reclaim '' @ what @ '' tx'')
            (createFakeResourceTransaction t BlackHoleAddress to' sun resourceType True)) (\<lambda>r.
     bnd (wrapErr ''estimate bandwidth'' (estimateBandwidth t (Some r))) (\<lambda>c.
     ret (b, c)))))"

definition estimateTransferWithExternalDelegateResources ::
    "'e tron \<Rightarrow> string \<Rightarrow> tron_resources \<Rightarrow> transfer_resources \<Rightarrow> ('e, external_response) op" where
  "estimateTransferWithExternalDelegateResources t hot hotRes est =
     (let env = trnEnv t;
          need = lackingResources hotRes (withCoefficient (trfEnergy est)) (withCoefficient (trfBandwidth est)) in
     bnd (guardE (hot \<noteq> '''') (ErrText ''hot wallet address is required'')) (\<lambda>_.
     bnd (wrapErr ''chain params'' (chainParams t)) (\<lambda>cp.
     bnd (if rsEnergy need > 0
          then fakeBandwidths t ''energy'' hot (intPart (trxToSUN (energyToTRX env (rsEnergy need) (cpEnergyFee cp)))) ResourceCode_ENERGY
          else ret (0, 0)) (\<lambda>(energyDelegation, energyReclaim).
     bnd (wrapErr ''check is wallet activated'' (checkIsWalletActivated t hot)) (\<lambda>isActivated.
     (let activate = \<not> isActivated \<and> rsBandwidth need > 0 \<and> rsBandwidth need < newFromInt (cpFreeNetLimit cp);
          need2 = (if activate then need\<lparr>rsBandwidth := 0\<rparr> else need) in
     bnd (if activate
          then wrapErr ''estimate activation call'' (estimateExternalContractActivation t BlackHoleAddress hot)
          else ret \<lparr>acEnergy = 0, acBandwidth = 0, acTrx = 0\<rparr>) (\<lambda>activation.
     bnd (if rsBandwidth need2 > 0
          then bnd (bandwidthToTRX env (rsBandwidth need2) (cpTransactionFee cp)) (\<lambda>trx.
               fakeBandwidths t ''bandwidth'' hot (intPart (trxToSUN trx)) ResourceCode_BANDWIDTH)
          else ret (0, 0)) (\<lambda>(bandwidthDelegation, bandwidthReclaim).
     ret \<lparr>epNeedResourcesToTransfer = need2,
          epNeedSystemResources = \<lparr>syEnergyDelegation = energyDelegation, syEnergyReclaim = energyReclaim,
            syBandwidthDelegation = bandwidthDelegation, syBandwidthReclaim = bandwidthReclaim\<rparr>,
          epNeedResourcesToActivate = activation, epNeedToActivate = activate\<rparr>))))))))"

section \<open>Stakes and delegations of an account\<close>

text \<open>The loop over the receivers of an account's delegations, with what is done for each delegation.\<close>

fun forDelegations :: "'e tron \<Rightarrow> string \<Rightarrow> ('b \<Rightarrow> delegated \<Rightarrow> ('e, 'b) op) \<Rightarrow> 'b \<Rightarrow> string list \<Rightarrow> ('e, 'b) op" where
  "forDelegations t from f acc [] = ret acc"
| "forDelegations t from f acc (addrTo # addrs) =
     bnd (nodeGetDelegated (trnNode t) from addrTo) (\<lambda>ds.
     bnd (fold (\<lambda>d m. bnd m (\<lambda>a. f a d)) ds (ret acc)) (\<lambda>acc'.
     forDelegations t from f acc' addrs))"

definition delegatedFrozen :: "tron_lib \<Rightarrow> delegated \<Rightarrow> frozen_resource list" where
  "delegatedFrozen lib d =
     (if 0 <s dgFrozenBalanceForBandwidth d
      then [\<lparr>frType = ResourceCode_BANDWIDTH, frAmount = dgFrozenBalanceForBandwidth d,
             frExpire = dgExpireTimeForBandwidth d, frDelegateTo = tlAddressString lib (dgTo d)\<rparr>] else []) @
     (if 0 <s dgFrozenBalanceForEnergy d
      then [\<lparr>frType = ResourceCode_ENERGY, frAmount = dgFrozenBalanceForEnergy d,
             frExpire = dgExpireTimeForEnergy d, frDelegateTo = tlAddressString lib (dgTo d)\<rparr>] else [])"

definition stakedResources :: "'e tron \<Rightarrow> string \<Rightarrow> ('e, account_resources \<times> frozen_resource list) op" where
  "stakedResources t addr =
     bnd (ofSum (tlDecodeCheck (trnLib t) addr)) (\<lambda>addrBytes.
     bnd (nodeClientGetAccount (trnNode t) addrBytes) (\<lambda>acc.
     bnd (guardE (taAddress acc = addrBytes) (ErrText ''account not found'')) (\<lambda>_.
     bnd (wrapErr ''account resource'' (nodeClientGetAccountResource (trnNode t) addrBytes)) (\<lambda>resource.
     bnd (nodeGetDelegatedIndex (trnNode t) addrBytes) (\<lambda>toAccounts.
     bnd (forDelegations t addrBytes (\<lambda>frozen d. ret (frozen @ delegatedFrozen (trnLib t) d))
            (map (\<lambda>(ty, amount). \<lparr>frType = ty, frAmount = amount, frExpire = 0, frDelegateTo = ''''\<rparr>) (taFrozenV2 acc))
            toAccounts) (\<lambda>frozen.
     ret (resource, frozen)))))))"

text \<open>The running totals of \<open>AccountResourceInfo\<close>: energy and bandwidth with the TRX they stand for, and all TRX.\<close>

record resource_totals =
  ttlEnergy :: rat
  ttlEnergyTrx :: rat
  ttlBandwidth :: rat
  ttlBandwidthTrx :: rat
  ttlTrx :: rat

definition noTotals :: resource_totals where
  "noTotals = \<lparr>ttlEnergy = 0, ttlEnergyTrx = 0, ttlBandwidth = 0, ttlBandwidthTrx = 0, ttlTrx = 0\<rparr>"

definition countBandwidth :: "'e env \<Rightarrow> account_resources \<Rightarrow> 64 word \<Rightarrow> resource_totals \<Rightarrow> ('s, resource_totals) op" where
  "countBandwidth env res amount a =
     bnd (convertStackedTRXToBandwidth env (arTotalNetWeight res) (arTotalNetLimit res) amount) (\<lambda>b.
     bnd (convertBandwidthToStackedTRX env (arTotalNetWeight res) (arTotalNetLimit res) (ttlBandwidth a + b)) (\<lambda>trx.
     ret (a\<lparr>ttlBandwidth := ttlBandwidth a + b, ttlBandwidthTrx := ttlBandwidthTrx a + trx,
            ttlTrx := ttlTrx a + (ttlBandwidthTrx a + trx)\<rparr>)))"

definition countEnergy :: "'e env \<Rightarrow> chain_params \<Rightarrow> account_resources \<Rightarrow> 64 word \<Rightarrow> resource_totals \<Rightarrow> ('s, resource_totals) op" where
  "countEnergy env cp res amount a =
     bnd (convertStackedTRXToEnergy env (cpTotalEnergyCurrentLimit cp) (arTotalEnergyWeight res) amount) (\<lambda>e.
     bnd (convertEnergyToStackedTRX env (cpTotalEnergyCurrentLimit cp) (arTotalEnergyWeight res) (ttlEnergy a + e)) (\<lambda>trx.
     ret (a\<lparr>ttlEnergy := ttlEnergy a + e, ttlEnergyTrx := ttlEnergyTrx a + trx,
            ttlTrx := ttlTrx a + (ttlEnergyTrx a + trx)\<rparr>)))"

definition countDelegated :: "'e env \<Rightarrow> chain_params \<Rightarrow> account_resources \<Rightarrow> resource_totals \<Rightarrow> delegated \<Rightarrow> ('s, resource_totals) op" where
  "countDelegated env cp res a d =
     bnd (if 0 <s dgFrozenBalanceForBandwidth d then countBandwidth env res (dgFrozenBalanceForBandwidth d) a else ret a) (\<lambda>a'.
     if 0 <s dgFrozenBalanceForEnergy d then countEnergy env cp res (dgFrozenBalanceForEnergy d) a' else ret a')"

fun countStaked :: "'e env \<Rightarrow> chain_params \<Rightarrow> account_resources \<Rightarrow> resource_totals \<Rightarrow> (resource_code \<times> 64 word) list \<Rightarrow> ('s, resource_totals) op" where
  "countStaked env cp res a [] = ret a"
| "countStaked env cp res a ((type, amount) # items) =
     bnd (if type = ResourceCode_BANDWIDTH then countBandwidth env res amount a
          else if type = ResourceCode_ENERGY then countEnergy env cp res amount a else ret a) (\<lambda>a'.
     countStaked env cp res a' items)"

record account_info =
  aiEnergyAvailableForUse :: rat
  aiBandwidthAvailableForUse :: rat
  aiTotalEnergy :: rat
  aiTotalBandwidth :: rat
  aiTotalStackedTRX :: rat
  aiStackedEnergyTRX :: rat
  aiStackedBandwidthTRX :: rat
  aiStackedEnergy :: rat
  aiStackedBandwidth :: rat
  aiTotalUsedEnergy :: rat
  aiTotalUsedBandwidth :: rat
  aiTotalAvailableEnergy :: rat
  aiTotalAvailableBandwidth :: rat

definition accountResourceInfo :: "'e tron \<Rightarrow> string \<Rightarrow> ('e, account_info) op" where
  "accountResourceInfo t addr =
     (let env = trnEnv t; sun = (\<lambda>x. envDivRound env x 1000000 6) in
     bnd (ofSum (tlDecodeCheck (trnLib t) addr)) (\<lambda>addrBytes.
     bnd (chainParams t) (\<lambda>cp.
     bnd (nodeGetAccount (trnNode t) addr) (\<lambda>acc.
     bnd (nodeGetAccountResource (trnNode t) addr) (\<lambda>res.
     bnd (nodeGetDelegatedIndex (trnNode t) addrBytes) (\<lambda>toAccounts.
     bnd (forDelegations t addrBytes (countDelegated env cp res) noTotals toAccounts) (\<lambda>dg.
     bnd (countStaked env cp res noTotals (taFrozenV2 acc)) (\<lambda>sk.
     ret \<lparr>aiEnergyAvailableForUse = (if ttlEnergy sk < availableEnergy res then ttlEnergy sk else availableEnergy res),
          aiBandwidthAvailableForUse =
            (if ttlBandwidth sk < availableBandwidth res then ttlBandwidth sk else availableBandwidth res),
          aiTotalEnergy = totalEnergyLimit res, aiTotalBandwidth = totalBandwidthLimit res,
          aiTotalStackedTRX = sun (ttlTrx sk + ttlTrx dg),
          aiStackedEnergyTRX = sun (ttlEnergyTrx sk + ttlEnergyTrx dg),
          aiStackedBandwidthTRX = sun (ttlBandwidthTrx sk + ttlBandwidthTrx dg),
          aiStackedEnergy = ttlEnergy sk + ttlEnergy dg, aiStackedBandwidth = ttlBandwidth sk + ttlBandwidth dg,
          aiTotalUsedEnergy = totalEnergyLimit res - availableEnergy res,
          aiTotalUsedBandwidth = totalBandwidthLimit res - availableBandwidth res,
          aiTotalAvailableEnergy = availableEnergy res, aiTotalAvailableBandwidth = availableBandwidth res\<rparr>))))))))"

section \<open>Signatures and wallets\<close>

definition signTransaction :: "'e tron \<Rightarrow> tron_tx option \<Rightarrow> string \<Rightarrow> ('s, tron_tx) op" where
  "signTransaction t txo privateKey =
     (case txo of
        None \<Rightarrow> fail (ErrText ''empty tron tx'')
      | Some tx \<Rightarrow>
     bnd (ofSum (tlMarshal (trnLib t) (tnRawData tx))) (\<lambda>rawData.
     bnd (ofSum (tlSign (trnLib t) (tlSha256 (trnLib t) rawData) privateKey)) (\<lambda>signature.
     ret (tx\<lparr>tnSignature := tnSignature tx @ [signature]\<rparr>))))"

definition tronDerivationPath :: "32 word \<Rightarrow> string" where
  "tronDerivationPath sq = ''44'' @ [CHR 39] @ ''/195'' @ [CHR 39] @ ''/0'' @ [CHR 39] @ ''/0/'' @ showNat (unat sq)"

text \<open>The address and the private key, which determines the public key.\<close>

definition tron_walletPubKeyHash :: "tron_lib \<Rightarrow> string \<Rightarrow> string \<Rightarrow> 32 word \<Rightarrow> goerr + string \<times> string" where
  "tron_walletPubKeyHash lib mnemonic pass sq =
     (case tlDerive lib mnemonic pass (tronDerivationPath sq) of
        Inl e \<Rightarrow> Inl (Wrapf ''failed to derive private key: '' e)
      | Inr secret \<Rightarrow>
     (case tlToECDSA lib secret of
        None \<Rightarrow> Inl (ErrText ''failed to generate ECDSA from secret'')
      | Some key \<Rightarrow> Inr (tlPubkeyToAddress lib key, key)))"

definition tron_addressWallet :: "tron_lib \<Rightarrow> string \<Rightarrow> string \<Rightarrow> 32 word \<Rightarrow> goerr + string" where
  "tron_addressWallet lib mnemonic pass sq =
     (case tron_walletPubKeyHash lib mnemonic pass sq of
        Inl e \<Rightarrow> Inl e | Inr (address, _) \<Rightarrow> Inr address)"

definition tron_addressSecret :: "tron_lib \<Rightarrow> string \<Rightarrow> string \<Rightarrow> string \<Rightarrow> 32 word \<Rightarrow> goerr + string" where
  "tron_addressSecret lib address mnemonic pass sq =
     (case tron_walletPubKeyHash lib mnemonic pass sq of
        Inl e \<Rightarrow> Inl e
      | Inr (wAddress, key) \<Rightarrow>
          if address \<noteq> wAddress then Inl (ErrText ''generate private key address'') else Inr (tlEncodeKey lib key))"

definition tron_addressPublic :: "tron_lib \<Rightarrow> string \<Rightarrow> string \<Rightarrow> string \<Rightarrow> 32 word \<Rightarrow> goerr + string" where
  "tron_addressPublic lib address mnemonic pass sq =
     (case tron_walletPubKeyHash lib mnemonic pass sq of
        Inl e \<Rightarrow> Inl e
      | Inr (wAddress, key) \<Rightarrow>
          if address \<noteq> wAddress then Inl (ErrText ''generate private key address'') else Inr (tlEncodePub lib key))"

definition tron_walletFromPrivateKeyBytes :: "tron_lib \<Rightarrow> string \<Rightarrow> string \<times> string option" where
  "tron_walletFromPrivateKeyBytes lib privateKey =
     (case tlToECDSA lib privateKey of None \<Rightarrow> ('''', None) | Some key \<Rightarrow> (tlPubkeyToAddress lib key, Some key))"

definition tron_validateAddress :: "tron_lib \<Rightarrow> string \<Rightarrow> bool" where
  "tron_validateAddress lib address = (case tlBase58ToAddress lib address of Inl _ \<Rightarrow> False | Inr _ \<Rightarrow> True)"

section \<open>Reclaim by hand\<close>

record reclaim_params =
  rpFromAddress :: string
  rpFromSequence :: "32 word"
  rpMnemonic :: string
  rpPassPhrase :: string
  rpToAddress :: string
  rpResourceType :: resource_code

definition validateReclaim :: "tron_lib \<Rightarrow> reclaim_params \<Rightarrow> goerr option" where
  "validateReclaim lib p =
     (if rpFromAddress p = '''' \<or> \<not> tlValidateTronAddress lib (rpFromAddress p)
      then Some (ErrText ''from address is not valid'')
      else if rpToAddress p = '''' \<or> \<not> tlValidateTronAddress lib (rpToAddress p)
      then Some (ErrText ''to address is not valid'')
      else if rpMnemonic p = '''' then Some (ErrText ''mnemonic is not valid'')
      else if rpResourceType p \<noteq> ResourceCode_BANDWIDTH \<and> rpResourceType p \<noteq> ResourceCode_ENERGY
      then Some (ErrText ''resource type is not valid'')
      else None)"

text \<open>
  The loop over the delegations: one transaction for each that goes to the address and has the type;
  the last one is returned. \<open>Broadcast\<close> receives a pointer that is not nil after the signature.
\<close>

fun reclaimLoop :: "'e tron \<Rightarrow> reclaim_params \<Rightarrow> string \<Rightarrow> tx_ext option \<Rightarrow> frozen_resource list \<Rightarrow> ('e, tx_ext option) op" where
  "reclaimLoop t p priv acc [] = ret acc"
| "reclaimLoop t p priv acc (fr # frs) =
     (if frDelegateTo fr \<noteq> rpToAddress p \<or> frType fr \<noteq> rpResourceType p \<or> \<not> 0 <s frAmount fr
      then reclaimLoop t p priv acc frs
      else
      bnd (wrapErr ''undelegate resource'' (nodeUnDelegateResource (trnNode t) (rpFromAddress p) (rpToAddress p)
             (rpResourceType p) (frAmount fr))) (\<lambda>tx.
      bnd (deref (teResult tx)) (\<lambda>res.
      bnd (guardE (rtResult res) (ErrText (''create reclaim tx error: '' @ rtMessage res))) (\<lambda>_.
      bnd (wrapErr ''sign transaction'' (signTransaction t (teTransaction tx) priv)) (\<lambda>signed.
      bnd (wrapErr ''broadcast transaction'' (nodeBroadcast (trnNode t) signed)) (\<lambda>_.
      reclaimLoop t p priv (Some (tx\<lparr>teTransaction := Some signed\<rparr>)) frs))))))"

definition tron_reclaimResource :: "'e tron \<Rightarrow> reclaim_params \<Rightarrow> ('e, tx_ext) op" where
  "tron_reclaimResource t p =
     bnd (case validateReclaim (trnLib t) p of Some e \<Rightarrow> fail (Wrapf ''validate params: '' e) | None \<Rightarrow> ret ()) (\<lambda>_.
     bnd (wrapErr ''get staked resources'' (stakedResources t (rpFromAddress p))) (\<lambda>(_, frozen).
     bnd (ofSum (tron_walletPubKeyHash (trnLib t) (rpMnemonic p) (rpPassPhrase p) (rpFromSequence p))) (\<lambda>(address, priv).
     bnd (guardE (address = rpFromAddress p)
            (ErrText (''address '' @ address @ '' is not valid, expected '' @ rpFromAddress p))) (\<lambda>_.
     bnd (reclaimLoop t p priv None frozen) (\<lambda>tx.
     case tx of
       None \<Rightarrow> fail (ErrText (''no frozen resources found for address '' @ rpToAddress p))
     | Some tx \<Rightarrow> ret tx)))))"

end
