(* ===== verification/FsmTron.thy ===== *)
theory FsmTron
  imports Fsm TronRes
begin

text \<open>
  \<open>internal/fsm/fsmtron\<close>: the machine that moves TRX or a token of an address on the Tron chain. The
  address may have to be activated first, and to receive TRX to burn, or energy and bandwidth delegated
  by the processing wallet of its owner or bought from an outside service. The machine has a fourth
  stage that runs after a failure only: it reclaims what was delegated and reports the failure. The
  definitions follow the files of the package: constants, errors and types, the helpers, the stages
  before, of and after sending and of compensation, and the construction of the machine.

  Goroutines of an \<open>errgroup\<close> are run one after the other, each to its end; the error of the first
  one that failed is reported.
\<close>

section \<open>Constants, errors and state\<close>

definition systemMinConfirmationsCount :: "64 word" where "systemMinConfirmationsCount = 3"

definition tron_stageBeforeSending :: string where "tron_stageBeforeSending = ''before_sending''"
definition tron_stageSending :: string where "tron_stageSending = ''sending''"
definition tron_stageAfterSending :: string where "tron_stageAfterSending = ''after_sending''"
definition tron_stageCompensate :: string where "tron_stageCompensate = ''compensate''"

definition tron_stepValidateRequest :: string where "tron_stepValidateRequest = ''validate_request''"
definition tron_stepCheckActivateWallet :: string where "tron_stepCheckActivateWallet = ''check_activate_wallet''"
definition tron_stepBeforeActivationKind :: string where
  "tron_stepBeforeActivationKind = ''before_activation_check_transfer_kind''"
definition tron_stepActiveWalletResources :: string where "tron_stepActiveWalletResources = ''activate_wallet_resources''"
definition tron_stepWaitingResourcesActivate :: string where
  "tron_stepWaitingResourcesActivate = ''waiting_resources_activate_wallet_confirmations''"
definition tron_stepWaitingExternalActivate :: string where
  "tron_stepWaitingExternalActivate = ''waiting_external_activate_confirmations''"
definition tron_stepActivateWalletBurnTRX :: string where "tron_stepActivateWalletBurnTRX = ''activate_wallet_burn_trx''"
definition tron_stepActivateWallet :: string where "tron_stepActivateWallet = ''activate_wallet''"
definition tron_stepWaitingActivate :: string where "tron_stepWaitingActivate = ''waiting_activate_confirmations''"
definition tron_stepBeforeSendingKind :: string where
  "tron_stepBeforeSendingKind = ''before_sending_check_transfer_kind''"
definition tron_stepSendTRXForBurn :: string where "tron_stepSendTRXForBurn = ''send_trx_for_burn''"
definition tron_stepWaitingSendTRX :: string where "tron_stepWaitingSendTRX = ''waiting_send_trx_for_burn_confirmations''"
definition tron_stepDelegateResources :: string where "tron_stepDelegateResources = ''delegate_resources''"
definition tron_stepWaitingDelegate :: string where "tron_stepWaitingDelegate = ''waiting_delegate_confirmations''"
definition tron_stepWaitingExternalDelegate :: string where
  "tron_stepWaitingExternalDelegate = ''waiting_external_delegate_confirmations''"
definition tron_stepSending :: string where "tron_stepSending = ''sending''"
definition tron_stepFirstConfirmation :: string where "tron_stepFirstConfirmation = ''waiting_for_the_first_confirmation''"
definition tron_stepWaitingConfirmations :: string where "tron_stepWaitingConfirmations = ''waiting_confirmations''"
definition tron_stepAfterSendingKind :: string where
  "tron_stepAfterSendingKind = ''after_sending_check_transfer_kind''"
definition tron_stepReclaimResources :: string where "tron_stepReclaimResources = ''reclaim_resources''"
definition tron_stepWaitingReclaim :: string where "tron_stepWaitingReclaim = ''waiting_reclaim_resources_confirmations''"
definition tron_stepSendSuccessEvent :: string where "tron_stepSendSuccessEvent = ''send_success_event''"
definition tron_stepDetermine :: string where "tron_stepDetermine = ''determine_compensation_flow''"
definition tron_stepReclaimOnError :: string where "tron_stepReclaimOnError = ''reclaim_on_error''"
definition tron_stepWaitingReclaimOnError :: string where
  "tron_stepWaitingReclaimOnError = ''waiting_reclaim_on_error_confirmation''"
definition tron_stepSendFailureEvent :: string where "tron_stepSendFailureEvent = ''send_failure_event''"

lemmas tron_names = tron_stageBeforeSending_def tron_stageSending_def tron_stageAfterSending_def tron_stageCompensate_def
  tron_stepValidateRequest_def tron_stepCheckActivateWallet_def tron_stepBeforeActivationKind_def
  tron_stepActiveWalletResources_def tron_stepWaitingResourcesActivate_def tron_stepWaitingExternalActivate_def
  tron_stepActivateWalletBurnTRX_def tron_stepActivateWallet_def tron_stepWaitingActivate_def tron_stepBeforeSendingKind_def
  tron_stepSendTRXForBurn_def tron_stepWaitingSendTRX_def tron_stepDelegateResources_def tron_stepWaitingDelegate_def
  tron_stepWaitingExternalDelegate_def tron_stepSending_def tron_stepFirstConfirmation_def tron_stepWaitingConfirmations_def
  tron_stepAfterSendingKind_def tron_stepReclaimResources_def tron_stepWaitingReclaim_def tron_stepSendSuccessEvent_def
  tron_stepDetermine_def tron_stepReclaimOnError_def tron_stepWaitingReclaimOnError_def tron_stepSendFailureEvent_def

definition tron_exitOnFailedSteps :: "string \<rightharpoonup> string list" where
  "tron_exitOnFailedSteps =
     [tron_stageBeforeSending \<mapsto> [tron_stepValidateRequest, tron_stepCheckActivateWallet, tron_stepActivateWallet,
        tron_stepActiveWalletResources, tron_stepActivateWalletBurnTRX, tron_stepBeforeSendingKind,
        tron_stepSendTRXForBurn, tron_stepDelegateResources],
      tron_stageSending \<mapsto> [tron_stepSending],
      tron_stageAfterSending \<mapsto> [tron_stepAfterSendingKind, tron_stepReclaimResources]]"

definition ActivationOrderID :: string where "ActivationOrderID = ''activation_order_id''"
definition BandwidthOrderID :: string where "BandwidthOrderID = ''bandwidth_delegation_order_id''"
definition EnergyOrderID :: string where "EnergyOrderID = ''energy_delegation_order_id''"
definition DelegateFromAddress :: string where "DelegateFromAddress = ''delegate_from''"
definition ReclaimFromAddress :: string where "ReclaimFromAddress = ''reclaim_from''"

definition resourcesToDelegate :: "resource_code list" where
  "resourcesToDelegate = [ResourceCode_ENERGY, ResourceCode_BANDWIDTH]"

text \<open>\<open>resourceType.String()\<close> in lower case, as the keys use it.\<close>

fun resourceName :: "resource_code \<Rightarrow> string" where
  "resourceName ResourceCode_BANDWIDTH = ''bandwidth''"
| "resourceName ResourceCode_ENERGY = ''energy''"
| "resourceName (OtherResourceCode n) = showInt n"

definition getDelegateResourceKey :: "resource_code \<Rightarrow> string" where
  "getDelegateResourceKey ty = ''delegate_'' @ resourceName ty"

definition getReclaimResourceKey :: "resource_code \<Rightarrow> string" where
  "getReclaimResourceKey ty = ''reclaim_'' @ resourceName ty"

text \<open>The orders of the resource manager.\<close>

datatype order_status =
    ORDER_STATUS_PENDING | ORDER_STATUS_IN_PROGRESS | ORDER_STATUS_COMPLETED | ORDER_STATUS_FULFILLED
  | ORDER_STATUS_FAILED | OtherOrderStatus string

datatype order_type =
    ORDER_TYPE_TRON_ENERGY_DELEGATION | ORDER_TYPE_TRON_BANDWIDTH_DELEGATION | ORDER_TYPE_TRON_ADDRESS_ACTIVATION
  | OtherOrderType string

record tron_order =
  odOrderID :: string
  odStatus :: order_status
  odType :: order_type

text \<open>
  The instance of Tron with its environment, the two settings, the client of the resource manager, and
  what two libraries say of an error: whether its code is \<open>CodeNotFound\<close> and whether it is a timeout.
\<close>

record 'e tron_params =
  tpTron :: "'e tron"
  tpUseBurnTRXActivation :: bool
  tpSeedEncryption :: bool
  tpUseCacheForWallets :: bool
  tpGetOrder :: "string \<Rightarrow> ('e, tron_order) op"
  tpCodeNotFound :: "goerr \<Rightarrow> bool"
  tpTimeout :: "goerr \<Rightarrow> bool"

abbreviation tpEnv :: "'e tron_params \<Rightarrow> 'e env" where "tpEnv p \<equiv> trnEnv (tpTron p)"
abbreviation tpNode :: "'e tron_params \<Rightarrow> 'e tron_node" where "tpNode p \<equiv> trnNode (tpTron p)"

text \<open>
  The state of the machine. \<open>tfLocal\<close> is the map that a step fills concurrently and stores when it
  returns. \<open>tfSent\<close> records the calls of \<open>Broadcast\<close> with the arguments of the transaction and its
  purpose; the code does not read it.
\<close>

datatype tron_call =
    CallActivate string string
  | CallTransfer string string "64 word"
  | CallTRC20 string string string int "64 word"
  | CallDelegate string string resource_code "64 word"
  | CallUnDelegate string string resource_code "64 word"

record 'e tron_fsm = "'e fsm" +
  tfLocal :: "string \<rightharpoonup> any_val"
  tfSent :: "(tx_type \<times> tron_call) list"

text \<open>\<open>newErrorFailedTransfer(err, s.wf.CurrentStep().Name, s.wf.CurrentStage().Name)\<close>.\<close>

definition newErrorFailedTransfer :: "goerr \<Rightarrow> string \<Rightarrow> string \<Rightarrow> goerr" where
  "newErrorFailedTransfer err stepName stageName = FailedTransferError stageName stepName (errStr err) err"

definition failTransfer :: "goerr \<Rightarrow> ('z workflow_scheme, 'a) op" where
  "failTransfer err =
     bnd currentStep (\<lambda>sto.
     bnd (deref sto) (\<lambda>st.
     bnd currentStage (\<lambda>sgo.
     bnd (deref sgo) (\<lambda>sg.
     fail (newErrorFailedTransfer err (spName st) (sgName sg))))))"

text \<open>The JSON text of the error, and what \<open>json.Unmarshal\<close> reads back into the struct.\<close>

definition failedTransferJSON :: "string \<Rightarrow> string \<Rightarrow> string \<Rightarrow> any_val" where
  "failedTransferJSON stageName stepName msg =
     VObj (filter (\<lambda>(k, v). v \<noteq> VStr '''')
       [(''failed_stage_name'', VStr stageName), (''failed_step_name'', VStr stepName), (''msg'', VStr msg)])"

definition isFailedTransferJSON :: "any_val \<Rightarrow> bool" where
  "isFailedTransferJSON v =
     (case v of
        VNil \<Rightarrow> True
      | VObj obj \<Rightarrow> (\<forall>k \<in> set [''failed_stage_name'', ''failed_step_name'', ''msg''].
          case strOfVal (map_of obj k) of Inl _ \<Rightarrow> False | Inr _ \<Rightarrow> True)
      | _ \<Rightarrow> False)"

section \<open>Helpers\<close>

definition getTransferKind :: "string \<Rightarrow> goerr + tron_kind" where
  "getTransferKind kind =
     (if kind = '''' then Inl (ErrText ''transfer kind is empty'')
      else if kind = tronKindString TronTransferKindBurnTRX then Inr TronTransferKindBurnTRX
      else if kind = tronKindString TronTransferKindResources then Inr TronTransferKindResources
      else if kind = tronKindString TronTransferKindCloudDelegate then Inr TronTransferKindCloudDelegate
      else Inl (ErrText (''invalid transfer kind: '' @ kind)))"

definition tron_setTransferStatus :: "'e tron_params \<Rightarrow> transfer_status \<Rightarrow> ('e tron_fsm) act" where
  "tron_setTransferStatus p status =
     bnd currentStepName (\<lambda>stepName.
     bnd theTransfer (\<lambda>t.
     bnd (wrapErr ''get event transfer status create params''
            (liftW (eventTransferStatusCreateParams (tpEnv p)
               \<lparr>evIsSystem = False, evTransferID = trID t, evOwnerID = trOwnerID t, evStatus = status,
                evStep = stepName, evErrorMessage = ''''\<rparr>))) (\<lambda>params.
     bnd (wrapErr ''create failed event'' (liftW (webhooksBatchCreate (tpEnv p) False [params]))) (\<lambda>_.
     wrapErr (''set transfer status '' @ transferStatusString status)
       (liftW (transfersSetStatus (tpEnv p) False (trID t) status))))))"

definition tron_createTransferStepWh :: "'e tron_params \<Rightarrow> string \<Rightarrow> ('e tron_fsm) act" where
  "tron_createTransferStepWh p stepName =
     bnd theTransfer (\<lambda>t.
     bnd (wrapErr ''get event transfer status create params''
            (liftW (eventTransferStatusCreateParams (tpEnv p)
               \<lparr>evIsSystem = False, evTransferID = trID t, evOwnerID = trOwnerID t, evStatus = trStatus t,
                evStep = stepName, evErrorMessage = ''''\<rparr>))) (\<lambda>params.
     wrapErr ''create failed event'' (liftW (webhooksBatchCreate (tpEnv p) False [params]))))"

definition tron_updateSystemTransactionStatus :: "'e tron_params \<Rightarrow> etx \<Rightarrow> tx_status \<Rightarrow> ('e tron_fsm) act" where
  "tron_updateSystemTransactionStatus p tx status =
     (let parse = (\<lambda>msg x. wrapErr msg (ofSum (envDecimalParse (tpEnv p) x))) in
      case etxTron tx of
        None \<Rightarrow> fail (ErrText ''invalid transaction: missing TRON data'')
      | Some d \<Rightarrow>
     bnd (guardE (etxHash tx \<noteq> '''') (ErrText ''invalid transaction: empty hash'')) (\<lambda>_.
     bnd (parse ''failed to parse energy usage'' (tdEnergyUsage d)) (\<lambda>energy.
     bnd (parse ''failed to parse bandwidth usage'' (tdNetUsage d)) (\<lambda>bandwidth.
     bnd (parse ''failed to parse burnt TRX for bandwidth'' (tdNetFee d)) (\<lambda>netFee.
     bnd (parse ''failed to parse burnt TRX for energy'' (tdEnergyFee d)) (\<lambda>energyFee.
     bnd (if etxAssetIdentifier tx = TrxAssetIdentifier then parse ''failed to parse amount'' (etxAmount tx) else ret 0) (\<lambda>amount.
     bnd theTransfer (\<lambda>t.
     liftW (qTxUpdateExpense (tpEnv p) False (trID t) (etxHash tx) bandwidth energy amount
       (envDecimalDiv (tpEnv p) (netFee + energyFee) 1000000) status)))))))))"

definition transactionInfo :: "'e tron_params \<Rightarrow> string \<Rightarrow> ('e tron_fsm, etx) op" where
  "transactionInfo p hash =
     catchErr (liftE (envGetTransactionInfo (tpEnv p) BlockchainTypeTron hash))
       (\<lambda>e. if strContains (errStr e) ''not found'' then fail (noConsoleError (jobSnooze (tpEnv p) second))
             else fail (Wrapf ''get transaction info: '' e))"

definition tron_checkTransactionConfirmations :: "'e tron_params \<Rightarrow> transfer_tx \<Rightarrow> 64 word \<Rightarrow> ('e tron_fsm) act" where
  "tron_checkTransactionConfirmations p ttx required =
     bnd (transactionInfo p (ttTxHash ttx)) (\<lambda>tx.
     (let update = (\<lambda>st. wrapErr ''update system transaction expenses'' (tron_updateSystemTransactionStatus p tx st)) in
     if etxStatus tx \<noteq> ''success'' then
       bnd (update TxStatusFailed) (\<lambda>_.
       failTransfer (ErrText (''transaction status is not success: '' @ etxStatus tx)))
     else if etxConfirmations tx < required then
       bnd (update TxStatusUnconfirmed) (\<lambda>_.
       fail (noConsoleError (jobSnooze (tpEnv p)
         (confirmationsTimeoutWithRequired BlockchainTypeTron required (etxConfirmations tx)))))
     else update TxStatusConfirmed))"

definition tron_ensureTxInBlockchain :: "'e tron_params \<Rightarrow> transfer_tx \<Rightarrow> ('e tron_fsm) act" where
  "tron_ensureTxInBlockchain p ttx =
     bnd (transactionInfo p (ttTxHash ttx)) (\<lambda>tx.
     (let update = (\<lambda>st. catchErr (tron_updateSystemTransactionStatus p tx st) failTransfer) in
     if etxStatus tx \<noteq> ''success'' then
       bnd (update TxStatusFailed) (\<lambda>_.
       failTransfer (ErrText (''transaction status is not success: '' @ etxStatus tx)))
     else if etxConfirmations tx < 1 then
       fail (noConsoleError (jobSnooze (tpEnv p)
         (confirmationsTimeoutWithRequired BlockchainTypeTron 1 (etxConfirmations tx))))
     else update TxStatusUnconfirmed))"

definition tron_getBalance :: "'e tron_params \<Rightarrow> string \<Rightarrow> string \<Rightarrow> ('e tron_fsm, rat) op" where
  "tron_getBalance p address asset = liftE (envAddressBalance (tpEnv p) address asset BlockchainTypeTron)"

definition tron_getAssetDecimals :: "'e tron_params \<Rightarrow> string \<Rightarrow> ('e tron_fsm, int) op" where
  "tron_getAssetDecimals p asset = liftE (envAssetDecimals (tpEnv p) BlockchainTypeTron asset)"

definition tron_getWalletCreds :: "'e tron_params \<Rightarrow> uuid \<Rightarrow> 32 word \<Rightarrow> ('e tron_fsm, string \<times> string) op" where
  "tron_getWalletCreds p ownerID sq =
     bnd (wrapErr ''get owner'' (liftW (ownersGetByID (tpEnv p) ownerID))) (\<lambda>own.
     bnd (if tpSeedEncryption p
          then wrapErr ''decrypt mnemonic'' (ofSum (envDecrypt (tpEnv p) (owMnemonic own) (owID own)))
          else ret (owMnemonic own)) (\<lambda>mnemonic.
     ofSum (tron_walletPubKeyHash (trnLib (tpTron p)) mnemonic (textString (owPassPhrase own)) sq)))"

definition tron_prepareTransferTransactionTypeByStep :: "('z workflow_scheme, tx_type) op" where
  "tron_prepareTransferTransactionTypeByStep =
     bnd currentStep (\<lambda>sto.
     bnd (deref sto) (\<lambda>st.
     (let n = spName st in
      if n \<in> set [tron_stepActivateWallet, tron_stepActiveWalletResources, tron_stepActivateWalletBurnTRX]
      then ret TxTypeAccountActivation
      else if n = tron_stepSendTRXForBurn then ret TxTypeSendBurnBaseAsset
      else if n = tron_stepDelegateResources then ret TxTypeDelegateResources
      else if n \<in> set [tron_stepReclaimResources, tron_stepReclaimOnError, tron_stepWaitingReclaim, tron_stepFirstConfirmation]
      then ret TxTypeReclaimResources
      else if n = tron_stepSending then ret TxTypeTransfer
      else fail (ErrText (''cant resolve transfer transaction type by step: '' @ n)))))"

definition tron_initPendingSystemTransaction :: "'e tron_params \<Rightarrow> tx_ext \<Rightarrow> ('e tron_fsm) act" where
  "tron_initPendingSystemTransaction p tx =
     bnd (wrapErr ''prepare transfer transaction type'' tron_prepareTransferTransactionTypeByStep) (\<lambda>ty.
     bnd theTransfer (\<lambda>t.
     bnd currentStepName (\<lambda>stepName.
     wrapErr ''create transfer transaction''
       (liftW (qTxCreate (tpEnv p) True (trID t) (teTxid tx) ty TxStatusPending stepName)))))"

section \<open>Transactions of the machine\<close>

text \<open>
  The part that all transactions share: the node's refusal, the signature, and the insert of the row with
  the broadcast in one transaction of the database. \<open>teTxid\<close> is the hexadecimal text of the identifier.
\<close>

definition acceptAndSign :: "'e tron_params \<Rightarrow> string \<Rightarrow> tx_ext \<Rightarrow> string \<Rightarrow> ('e tron_fsm, tron_tx) op" where
  "acceptAndSign p what tx key =
     bnd (deref (teResult tx)) (\<lambda>res.
     bnd (guardE (rtResult res) (ErrText (''create '' @ what @ '' tx error: '' @ rtMessage res))) (\<lambda>_.
     wrapErr ''sign transaction'' (signTransaction (tpTron p) (teTransaction tx) key)))"

definition recordAndBroadcast :: "'e tron_params \<Rightarrow> string \<Rightarrow> bool \<Rightarrow> tx_type \<Rightarrow> tron_call \<Rightarrow> tx_ext \<Rightarrow> tron_tx \<Rightarrow> ('e tron_fsm) act" where
  "recordAndBroadcast p storeMsg wraps what call tx stx =
     inTx (tpEnv p)
       (bnd (wrapErr storeMsg (tron_initPendingSystemTransaction p tx)) (\<lambda>_.
        bnd (modS (\<lambda>s. s\<lparr>tfSent := tfSent s @ [(what, call)]\<rparr>)) (\<lambda>_.
        if wraps then wrapErr ''broadcast transaction'' (liftE (nodeBroadcast (tpNode p) stx))
        else liftE (nodeBroadcast (tpNode p) stx))))"

definition systemActivation :: "'e tron_params \<Rightarrow> string \<times> string \<Rightarrow> string \<Rightarrow> ('e tron_fsm, tx_ext) op" where
  "systemActivation p creds toAddress =
     bnd (guardE (toAddress \<noteq> '''') (ErrText ''to address is not valid'')) (\<lambda>_.
     bnd (wrapErr ''create account'' (liftE (nodeCreateAccount (tpNode p) (fst creds) toAddress))) (\<lambda>tx.
     bnd (acceptAndSign p ''system activation'' tx (snd creds)) (\<lambda>stx.
     bnd (wrapErr ''begin transaction'' (recordAndBroadcast p ''store system transaction info'' True TxTypeAccountActivation
            (CallActivate (fst creds) toAddress) tx stx)) (\<lambda>_.
     ret tx))))"

text \<open>\<open>what\<close> only labels the call in the record of calls; the code has no such argument.\<close>

definition sendTRX :: "'e tron_params \<Rightarrow> tx_type \<Rightarrow> string \<times> string \<Rightarrow> string \<Rightarrow> rat \<Rightarrow> ('e tron_fsm, tx_ext) op" where
  "sendTRX p what creds toAddress amount0 =
     (let amount = amount0 * 1000000 in
     bnd (guardE (toAddress \<noteq> '''') (ErrText ''to address is not valid'')) (\<lambda>_.
     bnd (guardE (amount > 0) (ErrText (''amount must be greater than 0: '' @ envDecimalString (tpEnv p) amount))) (\<lambda>_.
     bnd (wrapErr ''transfer'' (liftE (nodeTransfer (tpNode p) (fst creds) toAddress (intPart amount)))) (\<lambda>tx.
     bnd (acceptAndSign p ''send trx'' tx (snd creds)) (\<lambda>stx.
     bnd theTransfer (\<lambda>t.
     bnd (wrapErr ''set state data'' (liftW (transfersSetStateData (tpEnv p) False (trID t) [''amount'' \<mapsto> VDec amount]))) (\<lambda>_.
     bnd (wrapErr ''broadcast transaction'' (recordAndBroadcast p ''store transaction info'' False what
            (CallTransfer (fst creds) toAddress (intPart amount)) tx stx)) (\<lambda>_.
     ret tx))))))))"

definition sendTrc20 :: "'e tron_params \<Rightarrow> tx_type \<Rightarrow> string \<times> string \<Rightarrow> string \<Rightarrow> string \<Rightarrow> rat \<Rightarrow> int \<Rightarrow> 64 word \<Rightarrow> ('e tron_fsm, tx_ext) op" where
  "sendTrc20 p what creds contract toAddress amount0 decimals feeLimit =
     (let amount = amount0 * assetUnit decimals in
     bnd (guardE (\<not> (contract = TrxAssetIdentifier \<or> contract = '''')) (ErrText ''contract address is not valid'')) (\<lambda>_.
     bnd (guardE (toAddress \<noteq> '''') (ErrText ''to address is not valid'')) (\<lambda>_.
     bnd (guardE (\<not> amount \<le> 0) (ErrText ''amount must be greater than 0'')) (\<lambda>_.
     bnd (guardE (\<not> feeLimit \<le>s 0) (ErrText ''fee limit must be greater than 0'')) (\<lambda>_.
     bnd (wrapErr ''cannot make tron transaction''
            (liftE (nodeTRC20Send (tpNode p) (fst creds) toAddress contract (decBigInt amount) feeLimit))) (\<lambda>tx.
     bnd (acceptAndSign p ''send trc20'' tx (snd creds)) (\<lambda>stx.
     bnd theTransfer (\<lambda>t.
     bnd (wrapErr ''set state data'' (liftW (transfersSetStateData (tpEnv p) False (trID t)
            [''contract_address'' \<mapsto> VStr contract, ''amount'' \<mapsto> VDec amount, ''fee_limit'' \<mapsto> VInt (sint feeLimit),
             ''decimals'' \<mapsto> VInt decimals]))) (\<lambda>_.
     bnd (wrapErr ''broadcast transaction'' (recordAndBroadcast p ''store system transaction info'' False what
            (CallTRC20 (fst creds) toAddress contract (decBigInt amount) feeLimit) tx stx)) (\<lambda>_.
     ret tx))))))))))"

record delegate_state_data =
  dsTxHash :: string
  dsFromAddress :: string
  dsToAddress :: string
  dsAmount :: rat
  dsCoeff :: rat
  dsAmountWithCoeff :: rat
  dsAmountInTrx :: "64 word"

definition delegateDataVal :: "delegate_state_data \<Rightarrow> any_val" where
  "delegateDataVal d = VObj
     [(''tx_hash'', VStr (dsTxHash d)), (''from_address'', VStr (dsFromAddress d)), (''to_address'', VStr (dsToAddress d)),
      (''amount'', VDec (dsAmount d)), (''coeff'', VDec (dsCoeff d)), (''amount_with_coeff'', VDec (dsAmountWithCoeff d)),
      (''amount_in_trx'', VInt (sint (dsAmountInTrx d)))]"

definition delegateBalance :: "'e tron_params \<Rightarrow> chain_params \<Rightarrow> account_resources \<Rightarrow> resource_code \<Rightarrow> rat \<Rightarrow> ('s, 64 word) op" where
  "delegateBalance p cp res ty amount =
     (if ty = ResourceCode_ENERGY then
        bnd (convertEnergyToStackedTRX (tpEnv p) (cpTotalEnergyCurrentLimit cp) (arTotalEnergyWeight res) amount) (\<lambda>x.
        ret (intPart (decCeil x)))
      else if ty = ResourceCode_BANDWIDTH then
        bnd (convertBandwidthToStackedTRX (tpEnv p) (arTotalNetWeight res) (arTotalNetLimit res) amount) (\<lambda>x.
        ret (intPart (decCeil x)))
      else fail (ErrText (''unsupported resource type: '' @ resourceName ty)))"

definition tron_delegateResource :: "'e tron_params \<Rightarrow> string \<times> string \<Rightarrow> string \<Rightarrow> rat \<Rightarrow> resource_code \<Rightarrow>
    ('e tron_fsm, tx_ext \<times> delegate_state_data) op" where
  "tron_delegateResource p creds toAddress amount ty =
     bnd (guardE (toAddress \<noteq> '''') (ErrText ''to address is not valid'')) (\<lambda>_.
     bnd (guardE (amount > 0) (ErrText ''amount must be greater than 0'')) (\<lambda>_.
     bnd (wrapErr ''get chain params'' (liftE (chainParams (tpTron p)))) (\<lambda>cp.
     bnd (wrapErr ''get account resources'' (liftE (nodeGetAccountResource (tpNode p) (fst creds)))) (\<lambda>res.
     bnd (delegateBalance p cp res ty amount) (\<lambda>balance.
     bnd (wrapErr ''delegate resource'' (liftE (nodeDelegateResource (tpNode p) (fst creds) toAddress ty balance))) (\<lambda>tx.
     bnd (acceptAndSign p ''delegate'' tx (snd creds)) (\<lambda>stx.
     bnd (wrapErr ''broadcast transaction'' (recordAndBroadcast p ''store system transaction info'' False TxTypeDelegateResources
            (CallDelegate (fst creds) toAddress ty balance) tx stx)) (\<lambda>_.
     ret (tx, \<lparr>dsTxHash = teTxid tx, dsFromAddress = fst creds, dsToAddress = toAddress, dsAmount = amount,
               dsCoeff = ResourceCoefficient, dsAmountWithCoeff = 0, dsAmountInTrx = balance\<rparr>)))))))))"

record reclaim_state_data =
  rdTxHash :: string
  rdFromAddress :: string
  rdToAddress :: string
  rdAmount :: "64 word"

definition reclaimDataVal :: "reclaim_state_data \<Rightarrow> any_val" where
  "reclaimDataVal d = VObj
     [(''tx_hash'', VStr (rdTxHash d)), (''from_address'', VStr (rdFromAddress d)), (''to_address'', VStr (rdToAddress d)),
      (''amount'', VInt (sint (rdAmount d)))]"

definition reclaimResource :: "'e tron_params \<Rightarrow> string \<times> string \<Rightarrow> string \<Rightarrow> 64 word \<Rightarrow> resource_code \<Rightarrow>
    ('e tron_fsm, tx_ext \<times> reclaim_state_data) op" where
  "reclaimResource p creds toAddress amount ty =
     bnd (guardE (toAddress \<noteq> '''') (ErrText ''to address is not valid'')) (\<lambda>_.
     bnd (guardE (\<not> amount \<le>s 0) (ErrText ''amount must be greater than 0'')) (\<lambda>_.
     bnd (liftE (nodeUnDelegateResource (tpNode p) (fst creds) toAddress ty amount)) (\<lambda>tx.
     bnd (acceptAndSign p ''reclaim'' tx (snd creds)) (\<lambda>stx.
     bnd (wrapErr ''broadcast transaction'' (recordAndBroadcast p ''store system transaction info'' False TxTypeReclaimResources
            (CallUnDelegate (fst creds) toAddress ty amount) tx stx)) (\<lambda>_.
     ret (tx, \<lparr>rdTxHash = teTxid tx, rdFromAddress = fst creds, rdToAddress = toAddress, rdAmount = amount\<rparr>))))))"

section \<open>Orders of the resource manager\<close>

definition networkErrors :: "goerr list" where
  "networkErrors = map (ErrExt ''net'')
     [''use of closed network connection'', ''connection reset by peer'', ''connection refused'',
      ''software caused connection abort'', ''connection timed out'', ''no route to host'', ''network is unreachable'',
      ''broken pipe'']"

definition isNetworkError :: "(goerr \<Rightarrow> bool) \<Rightarrow> goerr \<Rightarrow> bool" where
  "isNetworkError timeout err \<longleftrightarrow>
     (\<exists>t \<in> set networkErrors. errIs err t) \<or> timeout err \<or> strContains (errStr err) ''EOF''"

definition fsmRetry :: "'e env \<Rightarrow> ('e tron_fsm \<times> 'a option) retry_option list \<Rightarrow> ('e tron_fsm \<times> 'a option) retry" where
  "fsmRetry env opts = newRetry (\<lambda>d (s, v).
     (s\<lparr>fsWorld := (fsWorld s)\<lparr>wdExt := envSleep env d (wdExt (fsWorld s))\<rparr>\<rparr>, v)) opts"

definition checkExternalOrderStatus :: "'e tron_params \<Rightarrow> string \<Rightarrow> ('e tron_fsm) act" where
  "checkExternalOrderStatus p orderID =
     bnd (tryE (retryCall (fsmRetry (tpEnv p) [withMaxAttempts 2, withPolicy PolicyLinear])
            (catchErr (liftE (tpGetOrder p orderID))
               (\<lambda>e. if \<not> isNetworkError (tpTimeout p) e then fail ErrExit else fail e)))) (\<lambda>res.
     case res of
       Inl err \<Rightarrow>
         if tpCodeNotFound p err then fail (ErrText (''order '' @ orderID @ '' not found''))
         else failTransfer (Wrapf ''get order by id: '' err)
     | Inr order \<Rightarrow>
         (case odStatus order of
            ORDER_STATUS_PENDING \<Rightarrow> fail (noConsoleError (jobSnooze (tpEnv p) second))
          | ORDER_STATUS_IN_PROGRESS \<Rightarrow> fail (noConsoleError (jobSnooze (tpEnv p) second))
          | ORDER_STATUS_COMPLETED \<Rightarrow>
              if odType order \<in> set [ORDER_TYPE_TRON_ENERGY_DELEGATION, ORDER_TYPE_TRON_BANDWIDTH_DELEGATION]
              then fail (ErrText (''order '' @ orderID @ '' appears to be completed before transfer''))
              else ret ()
          | ORDER_STATUS_FULFILLED \<Rightarrow> ret ()
          | ORDER_STATUS_FAILED \<Rightarrow> failTransfer (ErrText (''order id '' @ orderID @ '' failed''))
          | OtherOrderStatus st \<Rightarrow>
              failTransfer (ErrText (''order '' @ odOrderID order @ '' unsupported order status: '' @ st))))"

section \<open>Goroutines and deferred calls\<close>

fun groupRun :: "('s act) list \<Rightarrow> 's act" where
  "groupRun [] = ret ()"
| "groupRun (m # ms) = bothRun m (groupRun ms)"

definition deferred :: "'s act \<Rightarrow> ('s, 'a) op \<Rightarrow> ('s, 'a) op" where
  "deferred d m s =
     (case m s of (r, s1) \<Rightarrow> (case d s1 of (Panic q, s2) \<Rightarrow> (Panic q, s2) | (_, s2) \<Rightarrow> (r, s2)))"

text \<open>The map of the step is stored when it is not empty; an error is only logged.\<close>

definition storeLocal :: "'e tron_params \<Rightarrow> ('e tron_fsm) act" where
  "storeLocal p =
     bnd (getS tfLocal) (\<lambda>local.
     if local = Map.empty then ret ()
     else bnd theTransfer (\<lambda>t.
       ignoreErr (liftW (transfersSetStateData (tpEnv p) False (trID t) local))))"

definition putLocal :: "string \<Rightarrow> any_val \<Rightarrow> ('e tron_fsm) act" where
  "putLocal k v = modS (\<lambda>s. s\<lparr>tfLocal := (tfLocal s)(k \<mapsto> v)\<rparr>)"

definition jumpTo :: "string \<Rightarrow> ('z workflow_scheme) act" where
  "jumpTo stepName = modS (setNextStep stepName)"

definition tron_jumpToSending :: "('z workflow_scheme) act" where
  "tron_jumpToSending = modS (\<lambda>s. setNextStep tron_stepSending (setNextStage tron_stageSending s))"

text \<open>The transaction of a type that the transfer has, if there is exactly one.\<close>

definition findByType :: "'e tron_params \<Rightarrow> tx_type \<Rightarrow> ('e tron_fsm, transfer_tx list) op" where
  "findByType p ty = bnd theTransfer (\<lambda>t. liftW (qTxFindByType (tpEnv p) (trID t) ty))"

definition activateHot :: "'e tron_params \<Rightarrow> transfer \<Rightarrow> string \<Rightarrow> ('e tron_fsm) act" where
  "activateHot p t a = liftW (hotActivateWallet (tpEnv p) False (trOwnerID t) BlockchainTypeTron a)"

section \<open>Before sending\<close>

definition tron_validateRequest :: "'e tron_params \<Rightarrow> ('e tron_fsm) act" where
  "tron_validateRequest p =
     bnd theTransfer (\<lambda>t.
     bnd (guardE (length (trFromAddresses t) = 1) (ErrText ''required one from address'')) (\<lambda>_.
     bnd (guardE (length (trToAddresses t) = 1) (ErrText ''required one to address'')) (\<lambda>_.
     bnd (guardE (trAssetIdentifier t \<noteq> '''') (ErrText ''asset identifier is empty'')) (\<lambda>_.
     bnd (ofSum (getTransferKind (textString (trKind t)))) (\<lambda>_.
     bnd (if trWalletFromType t = WalletTypeHot then
       bnd (wrapErr ''check wallet'' (liftW (checkWallet (tpEnv p) (tpUseCacheForWallets p) BlockchainTypeTron (getToAddress t)))) (\<lambda>r.
       bnd (guardE (cwWalletType r \<in> {WalletTypeCold, WalletTypeProcessing})
              (ErrText (''invalid wallet type '' @ walletTypeString (cwWalletType r)))) (\<lambda>_.
       guardE (cwOwnerID r = trOwnerID t) (ErrText (''invalid wallet owner '' @ cwOwnerID r))))
       else ret ()) (\<lambda>_.
     tron_setTransferStatus p TransferStatusProcessing))))))"

definition checkActivateWallet :: "'e tron_params \<Rightarrow> ('e tron_fsm) act" where
  "checkActivateWallet p =
     bnd theTransfer (\<lambda>t.
     if trAssetIdentifier t = TrxAssetIdentifier then jumpTo tron_stepBeforeSendingKind
     else case trWalletFromType t of
       WalletTypeHot \<Rightarrow>
         bnd (wrapErr ''get hot wallet'' (liftW (hotGet (tpEnv p) (trOwnerID t) BlockchainTypeTron (getFromAddress t)))) (\<lambda>hw.
         if hwIsActivated hw then jumpTo tron_stepBeforeSendingKind
         else
         bnd (wrapErr ''check is wallet activated'' (liftE (checkIsWalletActivated (tpTron p) (wlAddress hw)))) (\<lambda>isActivated.
         if isActivated then
           bnd (activateHot p t (wlAddress hw)) (\<lambda>_. jumpTo tron_stepBeforeSendingKind)
         else jumpTo tron_stepBeforeActivationKind))
     | WalletTypeProcessing \<Rightarrow>
         bnd (case trFromAddresses t of [] \<Rightarrow> panic ''index out of range'' | a # _ \<Rightarrow> ret a) (\<lambda>a.
         bnd (wrapErr ''get processing wallet'' (liftW (processingGet (tpEnv p) BlockchainTypeTron a))) (\<lambda>pw.
         bnd (wrapErr ''check is processing wallet activated'' (liftE (checkIsWalletActivated (tpTron p) (wlAddress pw)))) (\<lambda>isActivated.
         if isActivated then jumpTo tron_stepBeforeSendingKind else jumpTo tron_stepBeforeActivationKind)))
     | WalletTypeCold \<Rightarrow> fail (ErrText ''cold wallet activation is not supported in tron fsm'')
     | _ \<Rightarrow> jumpTo tron_stepBeforeActivationKind)"

definition beforeActivationCheckTransferKind :: "'e tron_params \<Rightarrow> ('e tron_fsm) act" where
  "beforeActivationCheckTransferKind p =
     bnd theTransfer (\<lambda>t.
     bnd (ofSum (getTransferKind (textString (trKind t)))) (\<lambda>kind.
     case kind of
       TronTransferKindBurnTRX \<Rightarrow>
         bnd (guardE (trWalletFromType t = WalletTypeHot)
                (ErrText ''activation for burn trx transfer is only supported for hot wallets'')) (\<lambda>_.
         if tpUseBurnTRXActivation p then jumpTo tron_stepActivateWalletBurnTRX else jumpTo tron_stepActiveWalletResources)
     | TronTransferKindResources \<Rightarrow>
         bnd (guardE (trWalletFromType t = WalletTypeHot)
                (ErrText ''activation for resources transfer is only supported for hot wallets'')) (\<lambda>_.
         if tpUseBurnTRXActivation p then jumpTo tron_stepActivateWalletBurnTRX else jumpTo tron_stepActiveWalletResources)
     | TronTransferKindCloudDelegate \<Rightarrow> jumpTo tron_stepWaitingExternalActivate))"

definition activateWalletResources :: "'e tron_params \<Rightarrow> ('e tron_fsm) act" where
  "activateWalletResources p =
     bnd theTransfer (\<lambda>t.
     bnd (wrapErr ''get processing wallet'' (liftW (processingGetByBlockchain (tpEnv p) (trOwnerID t) BlockchainTypeTron))) (\<lambda>pw.
     bnd (wrapErr ''estimate activation call''
            (liftE (estimateExternalContractActivation (tpTron p) (wlAddress pw) (getFromAddress t)))) (\<lambda>est.
     (let energy = withCoefficient (acEnergy est); bandwidth = withCoefficient (acBandwidth est) in
     bnd (modS (updState 0 3 (setArgs [''activation_estimate'' \<mapsto>
            VObj [(''energy'', VDec energy), (''bandwidth'', VDec bandwidth), (''trx'', VDec (acTrx est))]]))) (\<lambda>_.
     bnd (wrapErr ''get total available resources'' (liftE (totalAvailableResources (tpTron p) (wlAddress pw)))) (\<lambda>res.
     bnd (modS (updState 0 3 (setArgs [''processing_resources'' \<mapsto>
            VObj [(''Energy'', VDec (rsEnergy res)), (''Bandwidth'', VDec (rsBandwidth res))]]))) (\<lambda>_.
     bnd (guardE (\<not> rsBandwidth res < bandwidth) (ErrText ''not enough bandwidth for activation call'')) (\<lambda>_.
     bnd (guardE (\<not> rsEnergy res < energy) (ErrText ''not enough energy for activation call'')) (\<lambda>_.
     bnd (wrapErr ''create unsigned activation transaction''
            (liftE (createUnsignedActivationTransaction (tpTron p) (wlAddress pw) (getFromAddress t) False))) (\<lambda>tx.
     bnd (wrapErr ''get wallet creds'' (tron_getWalletCreds p (trOwnerID t) (word_of_int (pwSequence pw)))) (\<lambda>creds.
     bnd (wrapErr ''sign activation transaction'' (signTransaction (tpTron p) (teTransaction tx) (snd creds))) (\<lambda>stx.
     recordAndBroadcast p ''store system transaction info'' True TxTypeAccountActivation
       (CallActivate (wlAddress pw) (getFromAddress t)) tx stx))))))))))))"

definition waitingResourcesActivateWalletConfirmations :: "'e tron_params \<Rightarrow> ('e tron_fsm) act" where
  "waitingResourcesActivateWalletConfirmations p =
     bnd theTransfer (\<lambda>t.
     bnd (wrapErr ''find transaction'' (findByType p TxTypeAccountActivation)) (\<lambda>txs.
     case txs of
       [tx] \<Rightarrow>
         bnd (tron_checkTransactionConfirmations p tx systemMinConfirmationsCount) (\<lambda>_.
         bnd (activateHot p t (getFromAddress t)) (\<lambda>_.
         jumpTo tron_stepBeforeSendingKind))
     | _ \<Rightarrow> fail (ErrText (''expected exectly 1 transaction, got '' @ showNat (length txs) @ ''; [transfer_id: '' @ trID t @ '']''))))"

definition waitingExternalActivateWalletConfirmations :: "'e tron_params \<Rightarrow> ('e tron_fsm) act" where
  "waitingExternalActivateWalletConfirmations p =
     bnd theTransfer (\<lambda>t.
     bnd (wrapErr ''get state data'' (liftW (qTransferGetStateData (tpEnv p) (trID t)))) (\<lambda>sd.
     bnd (wrapErr ''get by path'' (ofSum (getStringByPath sd ActivationOrderID))) (\<lambda>orderID.
     bnd (checkExternalOrderStatus p (textString orderID)) (\<lambda>_.
     bnd (activateHot p t (getFromAddress t)) (\<lambda>_.
     jumpTo tron_stepBeforeSendingKind)))))"

definition activateWalletBurnTRX :: "'e tron_params \<Rightarrow> ('e tron_fsm) act" where
  "activateWalletBurnTRX p =
     bnd theTransfer (\<lambda>t.
     bnd (wrapErr ''get processing wallet'' (liftW (processingGetByBlockchain (tpEnv p) (trOwnerID t) BlockchainTypeTron))) (\<lambda>pw.
     bnd (wrapErr ''get balance'' (tron_getBalance p (wlAddress pw) TrxAssetIdentifier)) (\<lambda>balance.
     bnd (wrapErr ''estimate system activation transaction''
            (liftE (estimateActivationFee (tpTron p) (wlAddress pw) (getFromAddress t)))) (\<lambda>fee.
     if acTrx fee = 0 then modS (updState 0 6 (setStateNextStep tron_stepBeforeSendingKind))
     else
     bnd (guardE (\<not> balance \<le> acTrx fee)
            (ErrText (''processing wallet balance is less than '' @ envDecimalString (tpEnv p) (acTrx fee) @ '' trx''))) (\<lambda>_.
     bnd (wrapErr ''get wallet creds'' (tron_getWalletCreds p (trOwnerID t) (word_of_int (pwSequence pw)))) (\<lambda>creds.
     bnd (wrapErr ''system activation'' (systemActivation p creds (getFromAddress t))) (\<lambda>_.
     ret ())))))))"

definition waitingActivateWalletConfirmations :: "'e tron_params \<Rightarrow> ('e tron_fsm) act" where
  "waitingActivateWalletConfirmations p =
     bnd theTransfer (\<lambda>t.
     bnd (wrapErr ''find activation transaction'' (findByType p TxTypeAccountActivation)) (\<lambda>txs.
     case txs of
       [tx] \<Rightarrow>
         bnd (tron_checkTransactionConfirmations p tx systemMinConfirmationsCount) (\<lambda>_.
         activateHot p t (getFromAddress t))
     | _ \<Rightarrow> fail (ErrText (''expected 1 activation transaction per tranfser, got '' @ showNat (length txs)))))"

definition beforeSendingCheckTransferKind :: "'e tron_params \<Rightarrow> ('e tron_fsm) act" where
  "beforeSendingCheckTransferKind p =
     bnd theTransfer (\<lambda>t.
     bnd (ofSum (getTransferKind (textString (trKind t)))) (\<lambda>kind.
     case kind of
       TronTransferKindBurnTRX \<Rightarrow> jumpTo tron_stepSendTRXForBurn
     | TronTransferKindResources \<Rightarrow> jumpTo tron_stepDelegateResources
     | TronTransferKindCloudDelegate \<Rightarrow> jumpTo tron_stepWaitingExternalDelegate))"

text \<open>The amount of a transfer: the request's, or the balance.\<close>

definition transferAmount :: "'e tron_params \<Rightarrow> transfer \<Rightarrow> ('e tron_fsm, rat) op" where
  "transferAmount p t =
     (if trWholeAmount t then wrapErr ''get balance'' (tron_getBalance p (getFromAddress t) (trAssetIdentifier t))
      else ret (nullDecimal (trAmount t)))"

definition estimateOf :: "'e tron_params \<Rightarrow> transfer \<Rightarrow> ('e tron_fsm, transfer_resources) op" where
  "estimateOf p t =
     bnd (wrapErr ''get asset decimals'' (tron_getAssetDecimals p (trAssetIdentifier t))) (\<lambda>decimals.
     bnd (transferAmount p t) (\<lambda>amount.
     wrapErr ''estimate transfer resources'' (liftE (estimateTransferResources (tpTron p)
       (getFromAddress t) (getToAddress t) (trAssetIdentifier t) amount decimals))))"

definition sendTRXForBurn :: "'e tron_params \<Rightarrow> ('e tron_fsm) act" where
  "sendTRXForBurn p =
     bnd theTransfer (\<lambda>t.
     if trWalletFromType t = WalletTypeProcessing then tron_jumpToSending
     else if trWalletFromType t \<noteq> WalletTypeHot
     then fail (ErrText (''unsupported wallet type: '' @ walletTypeString (trWalletFromType t)))
     else if trAssetIdentifier t = TrxAssetIdentifier then tron_jumpToSending
     else
     bnd (wrapErr ''get processing wallet'' (liftW (processingGetByBlockchain (tpEnv p) (trOwnerID t) BlockchainTypeTron))) (\<lambda>pw.
     bnd (estimateOf p t) (\<lambda>est.
     bnd (wrapErr ''get balance'' (tron_getBalance p (wlAddress pw) TrxAssetIdentifier)) (\<lambda>balance.
     bnd (wrapErr ''gte chain params'' (liftE (chainParams (tpTron p)))) (\<lambda>cp.
     bnd (wrapErr ''get total available resources'' (liftE (totalAvailableResources (tpTron p) (getFromAddress t)))) (\<lambda>res.
     bnd (if rsBandwidth res \<ge> trfBandwidth est
          then bnd (bandwidthToTRX (tpEnv p) (trfBandwidth est) (cpTransactionFee cp)) (\<lambda>trx. ret (trfTrx est - trx))
          else ret (trfTrx est)) (\<lambda>amount.
     bnd (guardE (\<not> balance < amount)
            (ErrText (''not enough trx on processing wallet: '' @ envDecimalString (tpEnv p) amount))) (\<lambda>_.
     bnd (wrapErr ''get wallet creds'' (tron_getWalletCreds p (trOwnerID t) (word_of_int (pwSequence pw)))) (\<lambda>creds.
     bnd (wrapErr ''send trx'' (sendTRX p TxTypeSendBurnBaseAsset creds (getFromAddress t) amount)) (\<lambda>_.
     ret ()))))))))))"

definition waitingSendBurnTrxConfirmations :: "'e tron_params \<Rightarrow> ('e tron_fsm) act" where
  "waitingSendBurnTrxConfirmations p =
     bnd (wrapErr ''find burn txs'' (findByType p TxTypeSendBurnBaseAsset)) (\<lambda>txs.
     case txs of
       [tx] \<Rightarrow> bnd (tron_checkTransactionConfirmations p tx systemMinConfirmationsCount) (\<lambda>_. tron_jumpToSending)
     | _ \<Rightarrow> fail (ErrText (''expected exectly one tx, got: '' @ showNat (length txs))))"

definition resourcesVal :: "tron_resources \<Rightarrow> any_val" where
  "resourcesVal r = VObj
     [(''energy'', VDec (rsEnergy r)), (''bandwidth'', VDec (rsBandwidth r)),
      (''total_energy'', VDec (rsTotalEnergy r)), (''total_bandwidth'', VDec (rsTotalBandwidth r))]"

definition estimateResourcesVal :: "transfer_resources \<Rightarrow> any_val" where
  "estimateResourcesVal r = VObj
     [(''energy'', VDec (trfEnergy r)), (''bandwidth'', VDec (trfBandwidth r)), (''trx'', VDec (trfTrx r))]"

text \<open>The goroutine for one kind of resource.\<close>

definition delegateOne :: "'e tron_params \<Rightarrow> transfer \<Rightarrow> processing_wallet \<Rightarrow> string \<times> string \<Rightarrow> tron_resources \<Rightarrow>
    resource_code \<Rightarrow> ('e tron_fsm) act" where
  "delegateOne p t pw creds need ty =
     (let amount = (if ty = ResourceCode_ENERGY then rsEnergy need
                    else if ty = ResourceCode_BANDWIDTH then rsBandwidth need else 0) in
      if \<not> amount > 0 then ret ()
      else
      bnd (wrapErr (''delegate '' @ resourceName ty @ '' resource'')
             (tron_delegateResource p creds (getFromAddress t) amount ty)) (\<lambda>(tx, data).
      bnd (putLocal (getDelegateResourceKey ty) (delegateDataVal data)) (\<lambda>_.
      bnd (modS (updState 0 11 (setArg (''delegate_'' @ resourceName ty @ ''_tx_hash'') (VStr (teTxid tx))))) (\<lambda>_.
      modS (updState 0 11 (setArg DelegateFromAddress (VStr (wlAddress pw))))))))"

text \<open>The part of \<open>delegateResources\<close> after the estimate, with its deferred function.\<close>

definition delegateAll :: "'e tron_params \<Rightarrow> transfer \<Rightarrow> processing_wallet \<Rightarrow> string \<times> string \<Rightarrow> tron_resources \<Rightarrow>
    tron_resources \<Rightarrow> transfer_resources \<Rightarrow> tron_resources \<Rightarrow> ('e tron_fsm) act" where
  "delegateAll p t pw creds processingRes hotRes est need =
     bnd (modS (\<lambda>s. s\<lparr>tfLocal :=
       [''proecssing_wallet_available_resources'' \<mapsto> resourcesVal processingRes,
        ''hot_wallet_available_resources'' \<mapsto> resourcesVal hotRes,
        ''estimated_resources_fsm_stage_before'' \<mapsto> estimateResourcesVal est]\<rparr>)) (\<lambda>_.
     deferred (storeLocal p)
       (catchErr (groupRun (map (delegateOne p t pw creds need) resourcesToDelegate)) failTransfer))"

definition delegateResources :: "'e tron_params \<Rightarrow> ('e tron_fsm) act" where
  "delegateResources p =
     (let ds = envDecimalString (tpEnv p) in
     bnd theTransfer (\<lambda>t.
     bnd (wrapErr ''get processing wallet'' (liftW (processingGetByBlockchain (tpEnv p) (trOwnerID t) BlockchainTypeTron))) (\<lambda>pw.
     bnd (estimateOf p t) (\<lambda>est.
     bnd (wrapErr ''get processing wallet available resources''
            (liftE (availableForDelegateResources (tpTron p) (wlAddress pw)))) (\<lambda>processingRes.
     if trWalletFromType t = WalletTypeProcessing then
       bnd (guardE (\<not> rsBandwidth processingRes < trfBandwidth est)
              (ErrText (''not enough bandwidth for transfer on processing wallet. required: '' @ ds (trfBandwidth est) @
                 '', available: '' @ ds (rsBandwidth processingRes)))) (\<lambda>_.
       bnd (guardE (\<not> rsEnergy processingRes < trfEnergy est)
              (ErrText (''not enough energy for transfer on processing wallet. required: '' @ ds (trfEnergy est) @
                 '', available: '' @ ds (rsEnergy processingRes)))) (\<lambda>_.
       tron_jumpToSending))
     else
     bnd (wrapErr ''get hot wallet available resources'' (liftE (totalAvailableResources (tpTron p) (getFromAddress t)))) (\<lambda>hotRes.
     bnd (wrapErr ''estimate transfer with delegate resources''
            (liftE (estimateTransferWithDelegateResources (tpTron p)
               \<lparr>dqProcessingAddress = wlAddress pw, dqHotWalletAddress = getFromAddress t,
                dqProcessingResources = processingRes, dqHotResources = hotRes, dqEstimate = est\<rparr>))) (\<lambda>res.
     bnd (guardE (\<not> (dpNeedBandwidth res > 0 \<and> rsBandwidth processingRes < dpNeedBandwidth res))
            (ErrText (''not enough bandwidth for transfer on processing wallet. required: '' @ ds (dpNeedBandwidth res) @
               '', available: '' @ ds (rsBandwidth processingRes)))) (\<lambda>_.
     bnd (wrapErr ''get wallet creds'' (tron_getWalletCreds p (trOwnerID t) (word_of_int (pwSequence pw)))) (\<lambda>creds.
     delegateAll p t pw creds processingRes hotRes est (dpNeedToDelegate res))))))))))"

definition waitingDelegateConfirmations :: "'e tron_params \<Rightarrow> ('e tron_fsm) act" where
  "waitingDelegateConfirmations p =
     bnd (wrapErr ''find delegate transactions'' (findByType p TxTypeDelegateResources)) (\<lambda>txs.
     bnd (groupRun (map (\<lambda>tx. tron_checkTransactionConfirmations p tx systemMinConfirmationsCount) txs)) (\<lambda>_.
     tron_jumpToSending))"

fun delegationOrders :: "(string \<rightharpoonup> any_val) \<Rightarrow> resource_code list \<Rightarrow> goerr + string list" where
  "delegationOrders sd [] = Inr []"
| "delegationOrders sd (ty # tys) =
     (case getStringByPath sd (if ty = ResourceCode_BANDWIDTH then BandwidthOrderID else EnergyOrderID) of
        Inl e \<Rightarrow> Inl (Wrapf ''get by path: '' e)
      | Inr orderID \<Rightarrow>
          (case delegationOrders sd tys of
             Inl e \<Rightarrow> Inl e
           | Inr orders \<Rightarrow> Inr (if textString orderID \<noteq> '''' then textString orderID # orders else orders)))"

definition waitingExternalDelegateResources :: "'e tron_params \<Rightarrow> ('e tron_fsm) act" where
  "waitingExternalDelegateResources p =
     bnd theTransfer (\<lambda>t.
     bnd (wrapErr ''get state data'' (liftW (transfersGetStateData (tpEnv p) (trID t)))) (\<lambda>sd.
     bnd (ofSum (delegationOrders sd resourcesToDelegate)) (\<lambda>orders.
     groupRun (map (checkExternalOrderStatus p) orders))))"

section \<open>The stage of sending\<close>

definition sendingAmount :: "'e tron_params \<Rightarrow> transfer \<Rightarrow> rat \<Rightarrow> ('e tron_fsm, rat) op" where
  "sendingAmount p t balance =
     (let from = getFromAddress t; to' = getToAddress t in
      if \<not> trWholeAmount t then ret (nullDecimal (trAmount t))
      else if trAssetIdentifier t \<noteq> TrxAssetIdentifier then ret balance
      else
      bnd (wrapErr ''sub activation fee from amount'' (liftE (estimateActivationFee (tpTron p) from to'))) (\<lambda>fee.
      (let amount = balance - acTrx fee in
       if trWalletFromType t = WalletTypeHot \<and> textString (trKind t) = tronKindString TronTransferKindBurnTRX then
         bnd (wrapErr ''get total available resources'' (liftE (totalAvailableResources (tpTron p) from))) (\<lambda>res.
         bnd (wrapErr ''estimate resources''
                (liftE (estimateTransferResources (tpTron p) from to' TrxAssetIdentifier amount 6))) (\<lambda>est.
         ret (if rsBandwidth res < trfBandwidth est then amount - trfTrx est else amount)))
       else ret amount)))"

definition tron_sending :: "'e tron_params \<Rightarrow> ('e tron_fsm) act" where
  "tron_sending p =
     (let ds = envDecimalString (tpEnv p) in
     bnd theTransfer (\<lambda>t.
     bnd (wrapErr ''get balance'' (tron_getBalance p (getFromAddress t) (trAssetIdentifier t))) (\<lambda>balance.
     bnd (sendingAmount p t balance) (\<lambda>amount.
     bnd (guardE (\<not> amount > balance)
            (ErrText (''transfer amount is greater than balance: '' @ ds amount @ '' > '' @ ds balance))) (\<lambda>_.
     bnd (guardE (amount > 0) (ErrText (''transfer amount is less than or equal to zero: '' @ ds amount))) (\<lambda>_.
     bnd (wrapErr ''get sequence by wallet type'' (liftW (getSequenceByWalletType (tpEnv p) (trWalletFromType t)
            (trOwnerID t) BlockchainTypeTron (getFromAddress t)))) (\<lambda>sq.
     bnd (wrapErr ''get wallet creds'' (tron_getWalletCreds p (trOwnerID t) (word_of_int sq))) (\<lambda>creds.
     bnd (if trAssetIdentifier t = TrxAssetIdentifier
          then wrapErr ''send trx'' (sendTRX p TxTypeTransfer creds (getToAddress t) amount)
          else
          bnd (wrapErr ''get asset info'' (tron_getAssetDecimals p (trAssetIdentifier t))) (\<lambda>decimals.
          wrapErr ''send trc20'' (sendTrc20 p TxTypeTransfer creds (trAssetIdentifier t) (getToAddress t) amount decimals 30000000))) (\<lambda>tx.
     replaceTxHash (tpEnv p) (teTxid tx))))))))))"

section \<open>After sending\<close>

definition tron_waitingForTheFirstConfirmation :: "'e tron_params \<Rightarrow> ('e tron_fsm) act" where
  "tron_waitingForTheFirstConfirmation p =
     bnd (findByType p TxTypeTransfer) (\<lambda>txs.
     case txs of
       [tx] \<Rightarrow> bnd (tron_ensureTxInBlockchain p tx) (\<lambda>_. tron_setTransferStatus p TransferStatusUnconfirmed)
     | _ \<Rightarrow> fail (ErrText ''expected 1 transaction''))"

text \<open>The check refuses several transactions only; without one, the read of the first is a panic.\<close>

definition tron_waitingConfirmations :: "'e tron_params \<Rightarrow> ('e tron_fsm) act" where
  "tron_waitingConfirmations p =
     bnd (findByType p TxTypeTransfer) (\<lambda>txs.
     bnd (guardE (length txs \<le> 1) (ErrText ''expected only one main transaction'')) (\<lambda>_.
     case txs of
       [] \<Rightarrow> panic ''index out of range''
     | tx # _ \<Rightarrow> tron_checkTransactionConfirmations p tx (getMinConfirmations BlockchainTypeTron)))"

definition afterSendingCheckTransferKind :: "'e tron_params \<Rightarrow> ('e tron_fsm) act" where
  "afterSendingCheckTransferKind p =
     bnd theTransfer (\<lambda>t.
     if trWalletFromType t = WalletTypeProcessing then jumpTo tron_stepSendSuccessEvent
     else
     bnd (ofSum (getTransferKind (textString (trKind t)))) (\<lambda>kind.
     case kind of
       TronTransferKindBurnTRX \<Rightarrow> jumpTo tron_stepSendSuccessEvent
     | TronTransferKindResources \<Rightarrow> jumpTo tron_stepReclaimResources
     | TronTransferKindCloudDelegate \<Rightarrow> jumpTo tron_stepSendSuccessEvent))"

text \<open>\<open>utils.JSONToStruct[delegateStateData]\<close>, of which the two addresses are used.\<close>

definition delegateDataOfVal :: "'e env \<Rightarrow> any_val \<Rightarrow> goerr + string \<times> string" where
  "delegateDataOfVal env v =
     (case v of
        VNil \<Rightarrow> Inr ('''', '''')
      | VObj obj \<Rightarrow>
          (case (strOfVal (map_of obj ''tx_hash''), strOfVal (map_of obj ''from_address''),
                 strOfVal (map_of obj ''to_address''),
                 decFields env obj [''amount'', ''coeff'', ''amount_with_coeff'', ''amount_in_trx'']) of
             (Inr _, Inr from, Inr to', Inr _) \<Rightarrow> Inr (from, to')
           | _ \<Rightarrow> Inl (ErrText ''cannot unmarshal into delegateStateData''))
      | _ \<Rightarrow> Inl (ErrText ''cannot unmarshal into delegateStateData''))"

text \<open>One attempt of a reclaim, repeated while the account has not enough resources.\<close>

definition reclaimAttempts :: "'e tron_params \<Rightarrow> string \<times> string \<Rightarrow> string \<Rightarrow> 64 word \<Rightarrow> resource_code \<Rightarrow>
    ('e tron_fsm, tx_ext \<times> reclaim_state_data) op" where
  "reclaimAttempts p creds to' amount ty =
     retryCall (fsmRetry (tpEnv p)
         [withContext (\<lambda>(s, v). envCtx (tpEnv p) (wdExt (fsWorld s)) \<noteq> None), withMaxAttempts 5, withDelay (second * 3)])
       (catchErr (reclaimResource p creds to' amount ty)
          (\<lambda>e. if \<not> strContains (errStr e) ''account resource insufficient'' then fail (Wrap2 e ErrExit) else fail e))"

definition reclaimFrozen :: "'e tron_params \<Rightarrow> nat \<Rightarrow> nat \<Rightarrow> processing_wallet \<Rightarrow> string \<times> string \<Rightarrow> string \<Rightarrow> resource_code \<Rightarrow>
    frozen_resource \<Rightarrow> ('e tron_fsm) act" where
  "reclaimFrozen p i j pw creds to' ty fr =
     (if frDelegateTo fr \<noteq> to' \<or> frType fr \<noteq> ty \<or> frAmount fr = 0 then ret ()
      else
      bnd (wrapErr ''reclaim resource'' (reclaimAttempts p creds to' (frAmount fr) ty)) (\<lambda>(tx, data).
      bnd (putLocal (getReclaimResourceKey ty) (reclaimDataVal data)) (\<lambda>_.
      bnd (modS (updState i j (setArg (''reclaim_'' @ resourceName ty @ ''_tx_hash'') (VStr (teTxid tx))))) (\<lambda>_.
      modS (updState i j (setArg ReclaimFromAddress (VStr (wlAddress pw))))))))"

text \<open>The goroutine for one kind of resource, for the step \<open>(i, j)\<close>.\<close>

definition reclaimOne :: "'e tron_params \<Rightarrow> nat \<Rightarrow> nat \<Rightarrow> transfer \<Rightarrow> frozen_resource list \<Rightarrow> resource_code \<Rightarrow> ('e tron_fsm) act" where
  "reclaimOne p i j t frozen ty =
     (case trStateData t (getDelegateResourceKey ty) of
        None \<Rightarrow> ret ()
      | Some v \<Rightarrow>
     bnd (ofSum (delegateDataOfVal (tpEnv p) v)) (\<lambda>(from, to').
     bnd (wrapErr ''get processing wallet'' (liftW (processingGetByOwnerID (tpEnv p) (trOwnerID t) BlockchainTypeTron from))) (\<lambda>pw.
     bnd (wrapErr ''get wallet creds'' (tron_getWalletCreds p (trOwnerID t) (word_of_int (pwSequence pw)))) (\<lambda>creds.
     forEach frozen (reclaimFrozen p i j pw creds to' ty)))))"

definition reclaimAll :: "'e tron_params \<Rightarrow> nat \<Rightarrow> nat \<Rightarrow> string \<Rightarrow> ('e tron_fsm) act" where
  "reclaimAll p i j processingAddress =
     bnd (wrapErr ''get staked resources'' (liftE (stakedResources (tpTron p) processingAddress))) (\<lambda>(_, frozen).
     bnd (modS (\<lambda>s. s\<lparr>tfLocal := Map.empty\<rparr>)) (\<lambda>_.
     deferred (storeLocal p)
       (bnd theTransfer (\<lambda>t. groupRun (map (reclaimOne p i j t frozen) resourcesToDelegate)))))"

text \<open>\<open>workflow.GetArg[string](wf.GetSnapshot(), stepDelegateResources, DelegateFromAddress)\<close>.\<close>

definition delegatedFrom :: "('z workflow_scheme, goerr + string) op" where
  "delegatedFrom = bnd getSnapshot (\<lambda>sh. ret (getArgString sh tron_stepDelegateResources DelegateFromAddress))"

definition reclaimResources :: "'e tron_params \<Rightarrow> ('e tron_fsm) act" where
  "reclaimResources p =
     bnd theTransfer (\<lambda>t.
     if trWalletFromType t \<noteq> WalletTypeHot then jumpTo tron_stepSendSuccessEvent
     else
     bnd delegatedFrom (\<lambda>res.
     case res of
       Inl e \<Rightarrow> if errIs e ErrNotFound then jumpTo tron_stepSendSuccessEvent else fail e
     | Inr processingAddress \<Rightarrow> reclaimAll p 2 3 processingAddress))"

definition waitingReclaimResourcesConfirmations :: "'e tron_params \<Rightarrow> ('e tron_fsm) act" where
  "waitingReclaimResourcesConfirmations p =
     bnd (wrapErr ''find reclaim txs'' (findByType p TxTypeReclaimResources)) (\<lambda>txs.
     groupRun (map (\<lambda>tx. tron_checkTransactionConfirmations p tx systemMinConfirmationsCount) txs))"

definition tron_sendSuccessEvent :: "'e tron_params \<Rightarrow> ('e tron_fsm) act" where
  "tron_sendSuccessEvent p =
     bnd (tron_setTransferStatus p TransferStatusCompleted) (\<lambda>_. fail ErrExitWorkflow)"

section \<open>Compensation\<close>

definition determineCompensationFlow :: "'e tron_params \<Rightarrow> ('e tron_fsm) act" where
  "determineCompensationFlow p =
     bnd (getS (\<lambda>s. CustomError (wState s))) (\<lambda>customError.
     case customError of
       None \<Rightarrow> jumpTo tron_stepSendFailureEvent
     | Some v \<Rightarrow>
         if \<not> isFailedTransferJSON v then jumpTo tron_stepSendFailureEvent
         else bnd theTransfer (\<lambda>t.
           if textString (trKind t) = tronKindString TronTransferKindResources then jumpTo tron_stepReclaimOnError
           else jumpTo tron_stepSendFailureEvent))"

definition reclaimOnError :: "'e tron_params \<Rightarrow> ('e tron_fsm) act" where
  "reclaimOnError p =
     bnd delegatedFrom (\<lambda>res.
     case res of
       Inl e \<Rightarrow> if errIs e ErrNotFound then ret () else fail e
     | Inr processingAddress \<Rightarrow> reclaimAll p 3 1 processingAddress)"

definition tron_sendFailureEvent :: "'e tron_params \<Rightarrow> ('e tron_fsm) act" where
  "tron_sendFailureEvent p =
     bnd theTransfer (\<lambda>t.
     bnd (getS (\<lambda>s. WfError (wState s))) (\<lambda>msg.
     bnd (wrapErr ''get event transfer status create params''
            (liftW (eventTransferStatusCreateParams (tpEnv p)
               \<lparr>evIsSystem = False, evTransferID = trID t, evOwnerID = trOwnerID t,
                evStatus = TransferStatusFailed, evStep = '''', evErrorMessage = msg\<rparr>))) (\<lambda>params.
     bnd (modS (\<lambda>s. s\<lparr>wState := setWfError None ((wState s)\<lparr>IsFailed := True\<rparr>), wSkipError := True\<rparr>)) (\<lambda>_.
     bnd getSnapshot (\<lambda>sh.
     bnd (wrapErr ''set workflow snapshot''
            (liftW (transfersSetWorkflowSnapshot (tpEnv p) False (trID t) sh))) (\<lambda>_.
     bnd (wrapErr ''create failed event'' (liftW (webhooksBatchCreate (tpEnv p) False [params]))) (\<lambda>_.
     wrapErr (''set transfer status '' @ transferStatusString TransferStatusFailed)
       (liftW (transfersSetStatus (tpEnv p) False (trID t) TransferStatusFailed)))))))))"

section \<open>The machine\<close>

definition tronStages :: "stage list" where
  "tronStages =
     [\<lparr>sgName = tron_stageBeforeSending, sgSteps = map newStep
         [tron_stepValidateRequest, tron_stepCheckActivateWallet, tron_stepBeforeActivationKind,
          tron_stepActiveWalletResources, tron_stepWaitingResourcesActivate, tron_stepWaitingExternalActivate,
          tron_stepActivateWalletBurnTRX, tron_stepWaitingActivate, tron_stepBeforeSendingKind, tron_stepSendTRXForBurn,
          tron_stepWaitingSendTRX, tron_stepDelegateResources, tron_stepWaitingDelegate, tron_stepWaitingExternalDelegate]\<rparr>,
      \<lparr>sgName = tron_stageSending, sgSteps = map newStep [tron_stepSending]\<rparr>,
      \<lparr>sgName = tron_stageAfterSending, sgSteps = map newStep
         [tron_stepFirstConfirmation, tron_stepWaitingConfirmations, tron_stepAfterSendingKind, tron_stepReclaimResources,
          tron_stepWaitingReclaim, tron_stepSendSuccessEvent]\<rparr>,
      \<lparr>sgName = tron_stageCompensate, sgSteps = map newStep
         [tron_stepDetermine, tron_stepReclaimOnError, tron_stepWaitingReclaimOnError, tron_stepSendFailureEvent]\<rparr>]"

definition tronFuncs :: "'e tron_params \<Rightarrow> ('e tron_fsm) act list list" where
  "tronFuncs p =
     [[tron_validateRequest p, checkActivateWallet p, beforeActivationCheckTransferKind p, activateWalletResources p,
       waitingResourcesActivateWalletConfirmations p, waitingExternalActivateWalletConfirmations p,
       activateWalletBurnTRX p, waitingActivateWalletConfirmations p, beforeSendingCheckTransferKind p, sendTRXForBurn p,
       waitingSendBurnTrxConfirmations p, delegateResources p, waitingDelegateConfirmations p,
       waitingExternalDelegateResources p],
      [tron_sending p],
      [tron_waitingForTheFirstConfirmation p, tron_waitingConfirmations p, afterSendingCheckTransferKind p,
       reclaimResources p, waitingReclaimResourcesConfirmations p, tron_sendSuccessEvent p],
      [determineCompensationFlow p, reclaimOnError p, waitingReclaimResourcesConfirmations p, tron_sendFailureEvent p]]"

text \<open>The steps whose start is announced by a webhook.\<close>

definition tronStepBefore :: "'e tron_params \<Rightarrow> nat \<Rightarrow> nat \<Rightarrow> ('e tron_fsm) act option" where
  "tronStepBefore p i j =
     (if (i, j) \<in> set [(0, 3), (0, 6), (0, 11), (2, 0), (2, 1), (2, 4)]
      then Some (tron_createTransferStepWh p (spName (sgSteps (tronStages ! i) ! j))) else None)"

text \<open>
  The next run starts with the compensation. The snapshot is stored at once, and an error of that is
  only logged.
\<close>

definition startCompensation :: "'e tron_params \<Rightarrow> any_val option \<Rightarrow> ('e tron_fsm) act" where
  "startCompensation p customError =
     bnd (modS (\<lambda>s. setNextStep tron_stepDetermine (setNextStage tron_stageCompensate
            (case customError of None \<Rightarrow> s | Some v \<Rightarrow> s\<lparr>wState := (wState s)\<lparr>CustomError := Some v\<rparr>\<rparr>)))) (\<lambda>_.
     bnd theTransfer (\<lambda>t.
     bnd getSnapshot (\<lambda>sh.
     ignoreErr (liftW (transfersSetWorkflowSnapshot (tpEnv p) False (trID t) sh)))))"

definition tron_onFailure :: "'e tron_params \<Rightarrow> goerr \<Rightarrow> ('e tron_fsm) act" where
  "tron_onFailure p err =
     bnd (modS (\<lambda>s. s\<lparr>wState := setWfError (Some err) (wState s)\<rparr>)) (\<lambda>_.
     case errAsFailed err of
       Some (stageName, stepName, msg, _) \<Rightarrow> startCompensation p (Some (failedTransferJSON stageName stepName msg))
     | None \<Rightarrow>
     bnd currentStage (\<lambda>sg.
     bnd currentStep (\<lambda>st.
     case (sg, st) of
       (Some sg, Some st) \<Rightarrow>
         if sgName sg \<noteq> '''' \<and> spName st \<noteq> '''' \<and>
            (case tron_exitOnFailedSteps (sgName sg) of Some steps \<Rightarrow> spName st \<in> set steps | None \<Rightarrow> False)
         then startCompensation p None else fail err
     | _ \<Rightarrow> fail err)))"

definition tronHooks :: "'e tron_params \<Rightarrow> ('e tron_fsm) hooks" where
  "tronHooks p =
     \<lparr>hBefore = None, hAfter = Some (saveSnapshot (tpEnv p)), hOnFailure = Some (tron_onFailure p),
      hBeforeAll = Some (\<lambda>_ _. saveSnapshot (tpEnv p)), hAfterAll = Some (\<lambda>_ _. saveSnapshot (tpEnv p)),
      hStageBefore = (\<lambda>_. None), hStageAfter = (\<lambda>_. None),
      hFunc = (\<lambda>i j. if i < length (tronFuncs p) \<and> j < length (tronFuncs p ! i) then Some (tronFuncs p ! i ! j) else None),
      hStepBefore = tronStepBefore p, hStepAfter = (\<lambda>_ _. None),
      hStopped = (\<lambda>s. envStopped (tpEnv p) (wdExt (fsWorld s))),
      hCtxErr = (\<lambda>s. case envCtx (tpEnv p) (wdExt (fsWorld s)) of
                        Some e \<Rightarrow> e | None \<Rightarrow> ErrCtx ''context canceled''),
      hNow = (\<lambda>s. envNow (tpEnv p) (wdExt (fsWorld s))),
      hSleep = (\<lambda>d s. s\<lparr>fsWorld := (fsWorld s)\<lparr>wdExt := envSleep (tpEnv p) d (wdExt (fsWorld s))\<rparr>\<rparr>)\<rparr>"

definition tron_newFSM :: "'e tron_params \<Rightarrow> transfer \<Rightarrow> 'e world \<Rightarrow> 'e tron_fsm" where
  "tron_newFSM p t w =
     setSnapshot (trSnapshot t)
       \<lparr>wName = ''Tron FSM'', wState = newWorkflowState, wStages = tronStages, wPrevStep = None,
        wSkipError = False, fsTransfer = Some t, fsWorld = w, tfLocal = Map.empty, tfSent = []\<rparr>"

definition tron_runFSM :: "'e tron_params \<Rightarrow> ('e tron_fsm) run_end \<Rightarrow> transfer \<Rightarrow> 'e world \<Rightarrow>
    (unit outcome \<times> 'e tron_fsm) option" where
  "tron_runFSM p sched t w = runWorkflow (tronHooks p) sched (tron_newFSM p t w)"

end
