(* ===== verification/FsmTronFacts.thy ===== *)
theory FsmTronFacts
  imports FsmTron WorkflowCount
begin

text \<open>
  The library about the machine of Tron: which functions leave a view of its state alone, that a run
  submits the transfer at most once, and the machine as an instance of the engine's interfaces.
\<close>

section \<open>Attempts, goroutines and deferred calls\<close>

lemma retryDo_respects:
  assumes "retryDo r (Some fn) s = Some (q, s')" and "boundedPolicy (rtPolicy r)"
    and "\<And>s. R s s" and "\<And>s1 s2 s3. R s1 s2 \<Longrightarrow> R s2 s3 \<Longrightarrow> R s1 s3"
    and "\<And>s. R s (snd (fn s))" and "rtOnFailed r = None" and "rtOnSuccess r = None" and "\<And>d s. R s (rtSleep r d s)"
  shows "R s s'"
proof -
  have h: "R s (runHook (rtOnFailed r) s)" for s using assms(3,6) by (simp add: runHook_def)
  have "R s (snd (linearLoop r fn 1 s))" 
    by (rule lin.loop_respects [where R = R], rule assms(3), rule assms(4), assumption+, rule assms(5), rule h, rule assms(8))
  moreover have "R s (snd (backoffLoop r fn 1 s))" 
    by (rule expo.loop_respects [where R = R], rule assms(3), rule assms(4), assumption+, rule assms(5), rule h, rule assms(8))
  ultimately show ?thesis using assms(1,2,7)
    by (auto simp: retryDo_def linearRetry_def backoffRetry_def boundedPolicy_def runHook_def
        split: if_split_asm prod.split_asm outcome.split_asm)
qed

lemma keeps_deref [keeps_intros]: "keeps v (deref x)"
  by (rule keepsI) (simp add: deref_def op_defs split: option.split)

lemma retryCall_respects:
  fixes m :: "('s, 'a) op"
  assumes "boundedPolicy (rtPolicy r)" and "rtOnFailed r = None" and "rtOnSuccess r = None"
    and "\<And>s. R s s" and "\<And>s1 s2 s3. R s1 s2 \<Longrightarrow> R s2 s3 \<Longrightarrow> R s1 s3"
    and "\<And>d y x. R y (fst (rtSleep r d (y, x)))" and "\<And>s. R s (snd (m s))"
  shows "R s (snd (retryCall r m s))"
proof -
  let ?fn = "\<lambda>(y, v). case m y of (Val a, y') \<Rightarrow> (Val (), (y', Some a))
        | (Err e, y') \<Rightarrow> (Err e, (y', None)) | (Panic q, y') \<Rightarrow> (Panic q, (y', None))"
  let ?R = "\<lambda>(a :: 's \<times> 'a option) (b :: 's \<times> 'a option). R (fst a) (fst b)"
  have m: "R s s1" if "m s = (q, s1)" for s q s1 using assms(7) [of s] that by simp
  have f: "?R z (snd (?fn z))" for z by (cases z) (auto dest: m split: prod.split outcome.split)
  have k: "R s y" if "retryDo r (Some ?fn) (s, None) = Some (q, (y, x))" for q y x
  proof -
    have "?R (s, None) (y, x)"
    proof (rule retryDo_respects [where R = ?R, OF that assms(1)])
      show "?R z (rtSleep r d z)" for d z using assms(6) by (cases z) simp
    qed (use assms(2-5) f in blast)+
    then show ?thesis by simp
  qed
  have "snd (deref x y) = y" for x :: "'a option" and y :: 's by (simp add: deref_def op_defs split: option.split)
  then show ?thesis using assms(4) by (auto simp: retryCall_def dest: k split: option.split prod.split outcome.split)
qed

lemma keeps_retryCall:
  assumes "boundedPolicy (rtPolicy r)" and "rtOnFailed r = None" and "rtOnSuccess r = None"
    and "\<And>d y x. v (fst (rtSleep r d (y, x))) = v y" and "keeps v m"
  shows "keeps v (retryCall r m)"
proof (rule keepsI)
  fix s
  have "v s = v (snd (retryCall r m s))"
    by (rule retryCall_respects [OF assms(1-3), where R = "\<lambda>a b. v a = v b"]) (simp_all add: assms(4) keeps_snd [OF assms(5)])
  then show "v (snd (retryCall r m s)) = v s" ..
qed

lemma keeps_fsmRetry:
  assumes "offWorld v" and "keeps v m"
    and "opts = [withMaxAttempts n, withPolicy PolicyLinear] \<or> opts = [withContext c, withMaxAttempts n, withDelay d]"
  shows "keeps v (retryCall (fsmRetry env opts) m)"
  by (rule keeps_retryCall [OF _ _ _ _ assms(2)])
    (use assms(1,3) in \<open>auto simp: fsmRetry_def newRetry_def retry_option_defs boundedPolicy_def offWorldD\<close>)

lemma keeps_bothRun:
  assumes "keeps v m" and "keeps v n"
  shows "keeps v (bothRun m n)"
  by (rule keepsI) (auto simp: bothRun_def keeps_snd [OF assms(2)] dest!: keepsD [OF assms(1)] dest: keepsD [OF assms(2)]
      split: prod.split outcome.split)

lemma keeps_groupRun: "(\<And>m. m \<in> set ms \<Longrightarrow> keeps v m) \<Longrightarrow> keeps v (groupRun ms)"
  by (induction ms) (simp_all add: keeps_intros keeps_bothRun)

lemma keeps_deferred:
  assumes "keeps v d" and "keeps v m"
  shows "keeps v (deferred d m)"
  by (rule keepsI) (auto simp: deferred_def dest!: keepsD [OF assms(1)] keepsD [OF assms(2)] split: prod.split outcome.split)

section \<open>Views of the machine\<close>

definition offSteps :: "('e tron_fsm \<Rightarrow> 'b) \<Rightarrow> bool" where
  "offSteps v \<longleftrightarrow> (\<forall>s i j f. (\<forall>ss. Status (f ss) = Status ss) \<longrightarrow> v (updState i j f s) = v s) \<and>
     (\<forall>s x. v (s\<lparr>wState := x\<rparr>) = v s) \<and> (\<forall>s x. v (s\<lparr>tfLocal := x\<rparr>) = v s)"

lemma keeps_args:
  assumes "offSteps v"
  shows "keeps v (modS (updState i j (setArg k x)))" "keeps v (modS (updState i j (setArgs y)))"
    "keeps v (modS (updState i j (setStateNextStep n)))"
  using assms
  by (auto simp: offSteps_def setArg_def setArgs_def setStateNextStep_def intro!: keeps_modS)

lemma keeps_jumps:
  assumes "offSteps v"
  shows "keeps v (jumpTo n)" "keeps v tron_jumpToSending" "keeps v (putLocal k x)"
    "keeps v (modS (\<lambda>s. s\<lparr>tfLocal := y\<rparr>))"
  unfolding jumpTo_def tron_jumpToSending_def putLocal_def setNextStep_def setNextStage_def
  using assms by (auto simp: offSteps_def intro!: keeps_modS)

lemma keeps_failTransfer [keeps_intros]: "keeps v (failTransfer e)"
  unfolding failTransfer_def by (intro keeps_intros)

lemma keeps_transactionType [keeps_intros]: "keeps v tron_prepareTransferTransactionTypeByStep"
  unfolding tron_prepareTransferTransactionTypeByStep_def Let_def by (intro keeps_intros)

lemmas keeps_here = keeps_intros keeps_off

lemma keeps_tron_helpers:
  assumes "offWorld v"
  shows "keeps v (tron_setTransferStatus p st)" "keeps v (tron_createTransferStepWh p n)"
    "keeps v (tron_updateSystemTransactionStatus p tx ts)" "keeps v (transactionInfo p h)"
    "keeps v (tron_getBalance p a asset)" "keeps v (tron_getAssetDecimals p asset)" "keeps v (tron_getWalletCreds p ow sq)"
    "keeps v (tron_initPendingSystemTransaction p ex)" "keeps v (findByType p ty)" "keeps v (activateHot p t a)"
    "keeps v (storeLocal p)" "keeps v (signTransaction tr x key)"
  unfolding tron_setTransferStatus_def tron_createTransferStepWh_def tron_updateSystemTransactionStatus_def
    transactionInfo_def tron_getBalance_def tron_getAssetDecimals_def tron_getWalletCreds_def Let_def
    tron_initPendingSystemTransaction_def findByType_def activateHot_def storeLocal_def signTransaction_def
  by (intro keeps_here assms)+

lemma keeps_tron_chain:
  assumes "offWorld v"
  shows "keeps v (tron_checkTransactionConfirmations p tx n)" "keeps v (tron_ensureTxInBlockchain p tx)"
    "keeps v (acceptAndSign p what ex key)" "keeps v (transferAmount p t)" "keeps v (estimateOf p t)"
    "keeps v (sendingAmount p t bal)" "keeps v (delegateBalance p cp res ty am)" "keeps v delegatedFrom"
    "keeps v (checkExternalOrderStatus p oid)"
proof -
  show a: "keeps v (transferAmount p t)" unfolding transferAmount_def by (intro keeps_here keeps_tron_helpers assms)
  show "keeps v (tron_checkTransactionConfirmations p tx n)" "keeps v (tron_ensureTxInBlockchain p tx)"
    "keeps v (acceptAndSign p what ex key)" "keeps v (sendingAmount p t bal)" "keeps v delegatedFrom"
    unfolding tron_checkTransactionConfirmations_def tron_ensureTxInBlockchain_def acceptAndSign_def Let_def
      sendingAmount_def delegatedFrom_def
    by (intro keeps_here keeps_tron_helpers assms)+
  show "keeps v (estimateOf p t)" unfolding estimateOf_def by (intro keeps_here keeps_tron_helpers a assms)
  show "keeps v (delegateBalance p cp res ty am)"
    unfolding delegateBalance_def decDiv_def convertEnergyToStackedTRX_def convertBandwidthToStackedTRX_def Let_def
    by (intro keeps_here assms)
  show "keeps v (checkExternalOrderStatus p oid)"
    unfolding checkExternalOrderStatus_def
    by (intro keeps_bnd keeps_tryE keeps_fsmRetry assms keeps_catchErr keeps_if keeps_fail keeps_off disjI1 refl)
      (auto intro!: keeps_here split: sum.split order_status.split)
qed

lemmas keeps_tron = keeps_here keeps_tron_helpers keeps_tron_chain

text \<open>What submits a transaction changes the record of calls.\<close>

lemma keeps_record:
  assumes "offWorld v" and "\<And>s x. v (s\<lparr>tfSent := tfSent s @ [(k, x)]\<rparr>) = v s"
  shows "keeps v (recordAndBroadcast p msg b k c ex stx)"
  unfolding recordAndBroadcast_def
  by (intro keeps_inTx keeps_tron keeps_modS assms offWorldD [OF assms(1)])

lemma keeps_transactions:
  assumes "offWorld v"
  shows "(\<And>s x. v (s\<lparr>tfSent := tfSent s @ [(TxTypeAccountActivation, x)]\<rparr>) = v s) \<Longrightarrow> keeps v (systemActivation p creds a)"
    and "(\<And>s x. v (s\<lparr>tfSent := tfSent s @ [(k, x)]\<rparr>) = v s) \<Longrightarrow> keeps v (sendTRX p k creds a am)"
    and "(\<And>s x. v (s\<lparr>tfSent := tfSent s @ [(k, x)]\<rparr>) = v s) \<Longrightarrow> keeps v (sendTrc20 p k creds ct a am d fl)"
    and "(\<And>s x. v (s\<lparr>tfSent := tfSent s @ [(TxTypeDelegateResources, x)]\<rparr>) = v s) \<Longrightarrow> keeps v (tron_delegateResource p creds a am ty)"
    and "(\<And>s x. v (s\<lparr>tfSent := tfSent s @ [(TxTypeReclaimResources, x)]\<rparr>) = v s) \<Longrightarrow> keeps v (reclaimResource p creds a w ty)"
  unfolding systemActivation_def sendTRX_def sendTrc20_def tron_delegateResource_def reclaimResource_def Let_def
  by (intro keeps_tron keeps_record assms; assumption)+

section \<open>Views of the steps\<close>

text \<open>A view that only the transfer itself can change among the submitted transactions.\<close>

definition offSystem :: "('e tron_fsm \<Rightarrow> 'b) \<Rightarrow> bool" where
  "offSystem v \<longleftrightarrow> offWorld v \<and> offSteps v \<and>
     (\<forall>s k x. k \<noteq> TxTypeTransfer \<longrightarrow> v (s\<lparr>tfSent := tfSent s @ [(k, x)]\<rparr>) = v s)"

lemma offSystemD:
  assumes "offSystem v"
  shows "offWorld v" "offSteps v" "k \<noteq> TxTypeTransfer \<Longrightarrow> v (s\<lparr>tfSent := tfSent s @ [(k, x)]\<rparr>) = v s"
  using assms by (simp_all add: offSystem_def)

lemma keeps_activations:
  assumes "offSystem v"
  shows "keeps v (activateWalletResources p)" "keeps v (activateWalletBurnTRX p)" "keeps v (sendTRXForBurn p)"
  unfolding activateWalletResources_def activateWalletBurnTRX_def sendTRXForBurn_def Let_def
  by (intro keeps_tron keeps_transactions keeps_record keeps_args keeps_jumps offSystemD [OF assms];
      auto simp: bandwidthToTRX_def decDiv_def intro!: keeps_tron offSystemD [OF assms])+

lemma keeps_delegation:
  assumes "offSystem v"
  shows "keeps v (delegateOne p t pw creds need ty)" "keeps v (delegateResources p)"
proof -
  show d: "keeps v (delegateOne p t pw creds need ty)" for t pw creds need ty
    unfolding delegateOne_def Let_def
    by (intro keeps_tron keeps_transactions keeps_args keeps_jumps offSystemD [OF assms]; simp)
  have "keeps v (delegateAll p t pw creds r1 r2 est need)" for t pw creds r1 r2 est need
    unfolding delegateAll_def
    by (intro keeps_tron keeps_deferred keeps_groupRun keeps_jumps offSystemD [OF assms]) (auto intro: d)
  then show "keeps v (delegateResources p)"
    unfolding delegateResources_def Let_def
    by (intro keeps_tron keeps_jumps offSystemD [OF assms]; assumption?)
qed

lemma keeps_reclaim:
  assumes "offSystem v"
  shows "keeps v (reclaimAttempts p creds a am ty)" "keeps v (reclaimFrozen p i j pw creds a ty fr)"
    "keeps v (reclaimOne p i j t frozen ty)" "keeps v (reclaimAll p i j pa)"
    "keeps v (reclaimResources p)" "keeps v (reclaimOnError p)"
proof -
  show r: "keeps v (reclaimAttempts p creds a am ty)" for creds a am ty
    unfolding reclaimAttempts_def
    by (intro keeps_fsmRetry keeps_tron keeps_transactions offSystemD [OF assms] disjI2; simp)
  show f: "keeps v (reclaimFrozen p i j pw creds a ty fr)" for i j pw creds a ty fr
    unfolding reclaimFrozen_def by (intro keeps_tron keeps_args keeps_jumps r offSystemD [OF assms])
  show o': "keeps v (reclaimOne p i j t frozen ty)" for i j t frozen ty
    unfolding reclaimOne_def by (intro keeps_tron f offSystemD [OF assms])
  show l: "keeps v (reclaimAll p i j pa)" for i j pa
    unfolding reclaimAll_def
    by (intro keeps_tron keeps_deferred keeps_groupRun keeps_jumps offSystemD [OF assms]) (auto intro: o')
  show "keeps v (reclaimResources p)" "keeps v (reclaimOnError p)"
    unfolding reclaimResources_def reclaimOnError_def by (intro keeps_tron keeps_jumps l offSystemD [OF assms])+
qed

lemma keeps_tron_sending:
  assumes "offWorld v" and "\<And>s x. v (s\<lparr>tfSent := tfSent s @ [(TxTypeTransfer, x)]\<rparr>) = v s"
    and "\<And>s x. v (s\<lparr>fsTransfer := x\<rparr>) = v s"
  shows "keeps v (tron_sending p)"
  unfolding tron_sending_def Let_def
  by (intro keeps_tron keeps_transactions keeps_replaceTxHash assms offWorldD [OF assms(1)])

lemma keeps_tron_rest:
  assumes "offWorld v" and "offSteps v"
  shows "keeps v (tron_validateRequest p)" "keeps v (checkActivateWallet p)" "keeps v (beforeActivationCheckTransferKind p)"
    "keeps v (waitingResourcesActivateWalletConfirmations p)" "keeps v (waitingExternalActivateWalletConfirmations p)"
    "keeps v (waitingActivateWalletConfirmations p)" "keeps v (beforeSendingCheckTransferKind p)"
    "keeps v (waitingSendBurnTrxConfirmations p)" "keeps v (waitingDelegateConfirmations p)"
    "keeps v (waitingExternalDelegateResources p)" "keeps v (tron_waitingForTheFirstConfirmation p)"
    "keeps v (tron_waitingConfirmations p)" "keeps v (afterSendingCheckTransferKind p)"
    "keeps v (waitingReclaimResourcesConfirmations p)" "keeps v (tron_sendSuccessEvent p)"
    "keeps v (determineCompensationFlow p)"
  unfolding tron_validateRequest_def checkActivateWallet_def beforeActivationCheckTransferKind_def
    waitingResourcesActivateWalletConfirmations_def waitingExternalActivateWalletConfirmations_def
    waitingActivateWalletConfirmations_def beforeSendingCheckTransferKind_def waitingSendBurnTrxConfirmations_def
    waitingDelegateConfirmations_def waitingExternalDelegateResources_def tron_waitingForTheFirstConfirmation_def
    tron_waitingConfirmations_def afterSendingCheckTransferKind_def waitingReclaimResourcesConfirmations_def
    tron_sendSuccessEvent_def determineCompensationFlow_def
  by ((intro keeps_tron keeps_groupRun keeps_jumps assms;
      auto intro!: keeps_tron keeps_jumps assms split: tron_kind.split wallet_type.split list.split)+)

lemma keeps_tron_failureEvent:
  assumes "offWorld v" and "\<And>s x y. v (s\<lparr>wState := x, wSkipError := y\<rparr>) = v s"
  shows "keeps v (tron_sendFailureEvent p)"
  unfolding tron_sendFailureEvent_def by (intro keeps_tron keeps_modS assms)

lemma keeps_tron_snapshot: "offWorld v \<Longrightarrow> keeps v (saveSnapshot env)"
  unfolding saveSnapshot_def by (intro keeps_tron)

section \<open>How often the transfer is submitted\<close>

definition tron_sentFor :: "tx_type \<Rightarrow> 'e tron_fsm \<Rightarrow> nat" where
  "tron_sentFor k s = length (filter (\<lambda>x. fst x = k) (tfSent s))"

lemma tron_sentFor_upd [simp]:
  "tron_sentFor k (s\<lparr>wState := x\<rparr>) = tron_sentFor k s" "tron_sentFor k (s\<lparr>fsTransfer := y\<rparr>) = tron_sentFor k s"
  "tron_sentFor k (s\<lparr>wStages := z\<rparr>) = tron_sentFor k s" "tron_sentFor k (s\<lparr>wPrevStep := q\<rparr>) = tron_sentFor k s"
  "tron_sentFor k (s\<lparr>fsWorld := d\<rparr>) = tron_sentFor k s" "tron_sentFor k (s\<lparr>tfLocal := l\<rparr>) = tron_sentFor k s"
  "tron_sentFor k (s\<lparr>wState := x, wSkipError := b\<rparr>) = tron_sentFor k s"
  "tron_sentFor k (s\<lparr>tfSent := tfSent s @ [(k', m)]\<rparr>) = tron_sentFor k s + (if k' = k then 1 else 0)"
  by (simp_all add: tron_sentFor_def)

lemma tfSent_updState [simp]: "tfSent (updState i j f s) = tfSent s"
  by (simp add: updState_def updStep_def split: option.split)

lemma tron_sentFor_updState [simp]: "tron_sentFor k (updState i j f s) = tron_sentFor k s"
  by (simp add: tron_sentFor_def)

lemma tron_sentFor_off [simp]: "offWorld (tron_sentFor k)" "offSystem (tron_sentFor TxTypeTransfer)"
  by (simp_all add: offSystem_def offSteps_def offWorld_def)

lemma adds_transactions:
  "adds (tron_sentFor k) 1 (sendTRX p k' creds a am)" "adds (tron_sentFor k) 1 (sendTrc20 p k' creds ct a am d fl)"
proof -
  have r: "adds (tron_sentFor k) 1 (recordAndBroadcast p msg b k' c ex stx)" for msg b c ex stx
    unfolding recordAndBroadcast_def
    by (intro adds_inTx adds_rest adds_first keeps_tron tron_sentFor_off) (simp add: adds_def modS_def)
  show "adds (tron_sentFor k) 1 (sendTRX p k' creds a am)" "adds (tron_sentFor k) 1 (sendTrc20 p k' creds ct a am d fl)"
    unfolding sendTRX_def sendTrc20_def Let_def
    by ((rule adds_rest, (intro keeps_tron tron_sentFor_off; fail)[1])+, rule adds_first, intro adds_wrapErr r,
        rule keeps_ret)+
qed

lemma adds_tron_sending: "adds (tron_sentFor k) 1 (tron_sending p)"
proof -
  have r: "keeps (tron_sentFor k) (replaceTxHash env h)" for env h
    by (rule keeps_replaceTxHash) simp_all
  show ?thesis
    unfolding tron_sending_def Let_def
    by ((rule adds_rest, (intro keeps_tron tron_sentFor_off; fail)[1])+, rule adds_first,
        intro adds_if adds_wrapErr adds_rest adds_transactions keeps_tron tron_sentFor_off, rule r)
qed

section \<open>The machine and the engine\<close>

lemma tronHooks_func:
  "hFunc (tronHooks p) i j = Some f \<Longrightarrow>
     (i, j, f) \<in> {(0, 0, tron_validateRequest p), (0, 1, checkActivateWallet p), (0, 2, beforeActivationCheckTransferKind p),
       (0, 3, activateWalletResources p), (0, 4, waitingResourcesActivateWalletConfirmations p),
       (0, 5, waitingExternalActivateWalletConfirmations p), (0, 6, activateWalletBurnTRX p),
       (0, 7, waitingActivateWalletConfirmations p), (0, 8, beforeSendingCheckTransferKind p), (0, 9, sendTRXForBurn p),
       (0, 10, waitingSendBurnTrxConfirmations p), (0, 11, delegateResources p), (0, 12, waitingDelegateConfirmations p),
       (0, 13, waitingExternalDelegateResources p), (1, 0, tron_sending p),
       (2, 0, tron_waitingForTheFirstConfirmation p), (2, 1, tron_waitingConfirmations p),
       (2, 2, afterSendingCheckTransferKind p), (2, 3, reclaimResources p), (2, 4, waitingReclaimResourcesConfirmations p),
       (2, 5, tron_sendSuccessEvent p), (3, 0, determineCompensationFlow p), (3, 1, reclaimOnError p),
       (3, 2, waitingReclaimResourcesConfirmations p), (3, 3, tron_sendFailureEvent p)}"
  by (auto simp: tronHooks_def tronFuncs_def less_Suc_eq numeral_eq_Suc nth_Cons' split: if_splits)

lemma tronHooks_none:
  "hStepBefore (tronHooks p) i j = tronStepBefore p i j" "hStepAfter (tronHooks p) i j = None"
  "hStageBefore (tronHooks p) i = None" "hStageAfter (tronHooks p) i = None"
  "hBefore (tronHooks p) = None" "hBeforeAll (tronHooks p) = Some (\<lambda>_ _. saveSnapshot (tpEnv p))"
  "hAfter (tronHooks p) = Some (saveSnapshot (tpEnv p))"
  "hAfterAll (tronHooks p) = Some (\<lambda>_ _. saveSnapshot (tpEnv p))"
  "hSleep (tronHooks p) d s = s\<lparr>fsWorld := (fsWorld s)\<lparr>wdExt := envSleep (tpEnv p) d (wdExt (fsWorld s))\<rparr>\<rparr>"
  by (simp_all add: tronHooks_def)

lemma keeps_tronStepBefore: "offWorld v \<Longrightarrow> tronStepBefore p i j = Some f \<Longrightarrow> keeps v f"
  by (auto simp: tronStepBefore_def keeps_tron_helpers split: if_split_asm)

lemma tron_func_keeps:
  assumes "offSystem v" and "\<And>s x y. v (s\<lparr>wState := x, wSkipError := y\<rparr>) = v s"
    and "hFunc (tronHooks p) i j = Some f" and "(i, j) \<noteq> (1, 0)"
  shows "keeps v f"
  using tronHooks_func [OF assms(3)] assms(4) keeps_activations [OF assms(1), of p] keeps_delegation [OF assms(1), of p]
    keeps_reclaim [OF assms(1), of p] keeps_tron_rest [OF offSystemD(1,2) [OF assms(1)], of p]
    keeps_tron_failureEvent [OF offSystemD(1) [OF assms(1)] assms(2), of p]
  by auto

lemma tron_frame: "offSystem frame"
  by (simp add: offSystem_def offSteps_def offWorld_def frame_updState) (auto intro!: frame_cong)

lemma tronFuncs_frame: "hFunc (tronHooks p) i j = Some f \<Longrightarrow> keeps frame f"
proof (cases "(i, j) = (1, 0)")
  case True
  assume "hFunc (tronHooks p) i j = Some f"
  with True have "f = tron_sending p" using tronHooks_func [of p i j f] by auto
  moreover have "keeps frame (tron_sending p)"
    by (rule keeps_tron_sending [OF offSystemD(1) [OF tron_frame]]) (auto intro!: frame_cong)
  ultimately show ?thesis by simp
next
  case False
  assume f: "hFunc (tronHooks p) i j = Some f"
  show ?thesis by (rule tron_func_keeps [OF tron_frame _ f False]) (auto intro!: frame_cong)
qed

interpretation tron: framed_hooks "tronHooks p" for p
proof
  fix i j f
  show "hFunc (tronHooks p) i j = Some f \<Longrightarrow> keeps frame f" by (rule tronFuncs_frame)
  show "hStepBefore (tronHooks p) i j = Some f \<Longrightarrow> keeps frame f"
    unfolding tronHooks_none by (rule keeps_tronStepBefore [OF offSystemD(1) [OF tron_frame]])
qed (auto simp: tronHooks_none intro: keeps_intros)

lemma tron_counted:
  assumes "offSystem v" and "\<And>s x. v (s\<lparr>wStages := x\<rparr>) = v s" and "\<And>s x. v (s\<lparr>wPrevStep := x\<rparr>) = v s"
    and "\<And>s x y. v (s\<lparr>wState := x, wSkipError := y\<rparr>) = v s" and "\<And>w. v (snd (tron_sending p w)) \<le> v w + 1"
  shows "counted_hooks (tronHooks p) v 1 0"
proof
  fix w :: "'a tron_fsm" and i j f
  have o': "offWorld v" and st: "\<And>s x. v (s\<lparr>wState := x\<rparr>) = v s"
    using assms(1) by (simp_all add: offSystem_def offSteps_def)
  have s: "keeps v (saveSnapshot (tpEnv p))" by (rule keeps_tron_snapshot [OF o'])
  show "hFunc (tronHooks p) i j = Some f \<Longrightarrow> (i, j) \<noteq> (1, 0) \<Longrightarrow> keeps v f"
    by (rule tron_func_keeps [where p = p and i = i and j = j, OF assms(1,4)])
  show "v (snd (f w)) \<le> v w + 1" if "hFunc (tronHooks p) 1 0 = Some f"
    using tronHooks_func [OF that] assms(5) by auto
  show "hStepBefore (tronHooks p) i j = Some f \<Longrightarrow> keeps v f"
    unfolding tronHooks_none by (rule keeps_tronStepBefore [OF o'])
  fix g
  show "hBeforeAll (tronHooks p) = Some g \<Longrightarrow> keeps v (g i j)" "hAfterAll (tronHooks p) = Some g \<Longrightarrow> keeps v (g i j)"
    "hAfter (tronHooks p) = Some f \<Longrightarrow> keeps v f"
    unfolding tronHooks_none option.inject by (erule subst, rule s)+
  show "v (w\<lparr>wStages := x\<rparr>) = v w" "v (w\<lparr>wState := y\<rparr>) = v w" "v (w\<lparr>wPrevStep := q\<rparr>) = v w"
    "v (hSleep (tronHooks p) d w) = v w" for x y q d
    by (simp_all add: assms(2,3) st tronHooks_none offWorldD [OF o'])
qed (simp_all add: tronHooks_none)

interpretation tron_sent: counted_hooks "tronHooks p" "tron_sentFor TxTypeTransfer" 1 0 for p :: "'e tron_params"
proof (rule tron_counted)
  show "tron_sentFor TxTypeTransfer (snd (tron_sending p w)) \<le> tron_sentFor TxTypeTransfer w + 1" for w
    by (rule adds_snd [OF adds_tron_sending])
qed simp_all

end
