(* ===== verification/TronCalls.thy ===== *)
theory TronCalls
  imports FsmTronFacts
begin

text \<open>
  What the steps of the machine of Tron submit: the calls of \<open>Broadcast\<close> that an operation adds to the
  record, the purpose that each step gives them, the amounts, and the operations that refuse to submit.
\<close>

section \<open>The calls that an operation adds\<close>

definition emits :: "(tx_type \<times> tron_call \<Rightarrow> bool) \<Rightarrow> ('e tron_fsm, 'a) op \<Rightarrow> bool" where
  "emits P m \<longleftrightarrow> (\<forall>s. \<exists>cs. tfSent (snd (m s)) = tfSent s @ cs \<and> (\<forall>c\<in>set cs. P c))"

lemma emitsD: "emits P m \<Longrightarrow> m s = (r, s') \<Longrightarrow> \<exists>cs. tfSent s' = tfSent s @ cs \<and> (\<forall>c\<in>set cs. P c)"
  unfolding emits_def by (metis snd_conv)

lemma emits_keeps: "keeps tfSent m \<Longrightarrow> emits P m"
  by (simp add: emits_def keeps_def exI [of _ "[]"])

lemma emits_weaken: "emits P m \<Longrightarrow> (\<And>c. P c \<Longrightarrow> Q c) \<Longrightarrow> emits Q m"
  unfolding emits_def by metis

lemma emits_chain:
  assumes "tfSent s1 = tfSent s @ cs1" and "\<forall>c\<in>set cs1. P c" and "tfSent s2 = tfSent s1 @ cs2" and "\<forall>c\<in>set cs2. P c"
  shows "\<exists>cs. tfSent s2 = tfSent s @ cs \<and> (\<forall>c\<in>set cs. P c)"
  using assms by (intro exI [of _ "cs1 @ cs2"]) auto

lemma emits_bnd:
  assumes "emits P m" and "\<And>x. emits P (f x)"
  shows "emits P (bnd m f)"
  unfolding emits_def
proof
  fix s
  obtain r s1 where m: "m s = (r, s1)" by (rule prod.exhaust)
  from emitsD [OF assms(1) m] obtain cs1 where c1: "tfSent s1 = tfSent s @ cs1" "\<forall>c\<in>set cs1. P c" by blast
  show "\<exists>cs. tfSent (snd (bnd m f s)) = tfSent s @ cs \<and> (\<forall>c\<in>set cs. P c)"
  proof (cases r)
    case (Val x)
    obtain r2 s2 where f: "f x s1 = (r2, s2)" by (rule prod.exhaust)
    from emitsD [OF assms(2) f] obtain cs2 where "tfSent s2 = tfSent s1 @ cs2" "\<forall>c\<in>set cs2. P c" by blast
    from emits_chain [OF c1 this] m Val f show ?thesis by (simp add: bnd_def)
  qed (use m c1 in \<open>auto simp: bnd_def\<close>)
qed

lemma emits_catchErr:
  assumes "emits P m" and "\<And>e. emits P (h e)"
  shows "emits P (catchErr m h)"
  unfolding emits_def
proof
  fix s
  obtain r s1 where m: "m s = (r, s1)" by (rule prod.exhaust)
  from emitsD [OF assms(1) m] obtain cs1 where c1: "tfSent s1 = tfSent s @ cs1" "\<forall>c\<in>set cs1. P c" by blast
  show "\<exists>cs. tfSent (snd (catchErr m h s)) = tfSent s @ cs \<and> (\<forall>c\<in>set cs. P c)"
  proof (cases r)
    case (Err e)
    obtain r2 s2 where f: "h e s1 = (r2, s2)" by (rule prod.exhaust)
    from emitsD [OF assms(2) f] obtain cs2 where "tfSent s2 = tfSent s1 @ cs2" "\<forall>c\<in>set cs2. P c" by blast
    from emits_chain [OF c1 this] m Err f show ?thesis by (simp add: catchErr_def)
  qed (use m c1 in \<open>auto simp: catchErr_def\<close>)
qed

lemma emits_wrapErr:
  assumes "emits P m"
  shows "emits P (wrapErr t m)"
  unfolding emits_def
proof
  fix s
  obtain r s1 where m: "m s = (r, s1)" by (rule prod.exhaust)
  from emitsD [OF assms m] m show "\<exists>cs. tfSent (snd (wrapErr t m s)) = tfSent s @ cs \<and> (\<forall>c\<in>set cs. P c)"
    by (cases r) (auto simp: wrapErr_def)
qed

lemma emits_if: "(b \<Longrightarrow> emits P m) \<Longrightarrow> (\<not> b \<Longrightarrow> emits P n) \<Longrightarrow> emits P (if b then m else n)"
  by simp

lemma emits_prod: "(\<And>a b. emits P (f a b)) \<Longrightarrow> emits P (case x of (a, b) \<Rightarrow> f a b)"
  by (cases x) simp

lemma emits_forEach: "(\<And>x. x \<in> set xs \<Longrightarrow> emits P (f x)) \<Longrightarrow> emits P (forEach xs f)"
proof (induction xs)
  case (Cons x xs)
  then show ?case by (auto intro: emits_bnd)
qed (simp add: emits_keeps keeps_intros)

lemma emits_groupRun: "(\<And>m. m \<in> set ms \<Longrightarrow> emits P m) \<Longrightarrow> emits P (groupRun ms)"
proof (induction ms)
  case (Cons m ms)
  then have g: "emits P m" "emits P (groupRun ms)" by simp_all
  show ?case
    unfolding emits_def
  proof
    fix s
    obtain r s1 where m: "m s = (r, s1)" by (rule prod.exhaust)
    obtain r2 s2 where f: "groupRun ms s1 = (r2, s2)" by (rule prod.exhaust)
    from emitsD [OF g(1) m] obtain cs1 where c1: "tfSent s1 = tfSent s @ cs1" "\<forall>c\<in>set cs1. P c" by blast
    from emitsD [OF g(2) f] obtain cs2 where "tfSent s2 = tfSent s1 @ cs2" "\<forall>c\<in>set cs2. P c" by blast
    from emits_chain [OF c1 this] m f c1
    show "\<exists>cs. tfSent (snd (groupRun (m # ms) s)) = tfSent s @ cs \<and> (\<forall>c\<in>set cs. P c)"
      by (cases r; cases r2) (auto simp: bothRun_def)
  qed
qed (simp add: emits_keeps keeps_intros)

lemma emits_deferred:
  assumes "keeps tfSent d" and "emits P m"
  shows "emits P (deferred d m)"
  unfolding emits_def
proof
  fix s
  obtain r s1 where m: "m s = (r, s1)" by (rule prod.exhaust)
  obtain r2 s2 where d: "d s1 = (r2, s2)" by (rule prod.exhaust)
  from keepsD [OF assms(1) d] emitsD [OF assms(2) m] m d
  show "\<exists>cs. tfSent (snd (deferred d m s)) = tfSent s @ cs \<and> (\<forall>c\<in>set cs. P c)"
    by (cases r2) (auto simp: deferred_def)
qed

lemma sent_off: "offWorld tfSent"
  by (simp add: offWorld_def)

lemma emits_inTx:
  fixes m :: "('e tron_fsm, 'a) op"
  assumes "emits P m"
  shows "emits P (inTx env m)"
  unfolding emits_def
proof
  fix s :: "'e tron_fsm"
  obtain r1 s1 where b: "liftW (txBegin env) s = (r1, s1)" by (rule prod.exhaust)
  obtain r2 s2 where m: "m s1 = (r2, s2)" by (rule prod.exhaust)
  obtain r3 s3 where c: "liftW (txCommit env) s2 = (r3, s3)" by (rule prod.exhaust)
  have "tfSent s1 = tfSent s" "tfSent s3 = tfSent s2"
    by (rule keepsD [OF keeps_off(1) [OF sent_off] b], rule keepsD [OF keeps_off(1) [OF sent_off] c])
  with emitsD [OF assms m] b m c show "\<exists>cs. tfSent (snd (inTx env m s)) = tfSent s @ cs \<and> (\<forall>c\<in>set cs. P c)"
    by (cases r1; cases r2; cases r3) (auto simp: inTx_def bnd_def ret_def)
qed

lemma emits_record: "P c \<Longrightarrow> emits P (modS (\<lambda>s. s\<lparr>tfSent := tfSent s @ [c]\<rparr>))"
  by (auto simp: emits_def modS_def)

lemma emits_fsmRetry:
  fixes m :: "('e tron_fsm, 'a) op"
  assumes "emits P m"
    and "opts = [withMaxAttempts n, withPolicy PolicyLinear] \<or> opts = [withContext c, withMaxAttempts n, withDelay d]"
  shows "emits P (retryCall (fsmRetry env opts) m)"
proof -
  let ?R = "\<lambda>s s' :: 'e tron_fsm. \<exists>cs. tfSent s' = tfSent s @ cs \<and> (\<forall>c\<in>set cs. P c)"
  have "?R s (snd (retryCall (fsmRetry env opts) m s))" for s
  proof (rule retryCall_respects [where R = ?R])
    show "?R s (snd (m s))" for s using assms(1) by (simp add: emits_def)
  qed (use assms(2) in \<open>auto simp: fsmRetry_def newRetry_def retry_option_defs boundedPolicy_def\<close>)
  then show ?thesis by (simp add: emits_def)
qed

section \<open>What the steps submit\<close>

lemma sent_steps: "offSteps tfSent"
  by (simp add: offSteps_def)

lemmas quiet = keeps_tron keeps_jumps [OF sent_steps] keeps_args [OF sent_steps] sent_off

lemma emits_recordAndBroadcast: "P (k, c) \<Longrightarrow> emits P (recordAndBroadcast p msg b k c ex stx)"
  unfolding recordAndBroadcast_def
  by (intro emits_inTx emits_bnd emits_record emits_if emits_wrapErr emits_keeps quiet)

lemma emits_transactions:
  "(\<And>a b. P (TxTypeAccountActivation, CallActivate a b)) \<Longrightarrow> emits P (systemActivation p creds to')"
  "(\<And>n. P (k, CallTransfer (fst creds) to' n)) \<Longrightarrow> emits P (sendTRX p k creds to' am)"
  "(\<And>n. P (k, CallTRC20 (fst creds) to' ct n fl)) \<Longrightarrow> emits P (sendTrc20 p k creds ct to' am d fl)"
  "(\<And>n. P (TxTypeDelegateResources, CallDelegate (fst creds) to' ty n)) \<Longrightarrow> emits P (tron_delegateResource p creds to' am ty)"
  "P (TxTypeReclaimResources, CallUnDelegate (fst creds) to' ty w) \<Longrightarrow> emits P (reclaimResource p creds to' w ty)"
  unfolding systemActivation_def sendTRX_def sendTrc20_def tron_delegateResource_def reclaimResource_def Let_def
  by ((intro emits_bnd emits_wrapErr emits_recordAndBroadcast; (assumption | rule emits_keeps, intro quiet)?)+; fail)+

lemma emits_reclaimAttempts:
  "P (TxTypeReclaimResources, CallUnDelegate (fst creds) to' ty w) \<Longrightarrow> emits P (reclaimAttempts p creds to' w ty)"
  unfolding reclaimAttempts_def
  by (intro emits_fsmRetry emits_catchErr emits_transactions disjI2; (assumption | simp; fail | rule emits_keeps, intro quiet)?)

lemma emits_reclaimFrozen:
  assumes "\<And>a. P (TxTypeReclaimResources, CallUnDelegate a to' ty (frAmount fr)) \<or> frDelegateTo fr \<noteq> to' \<or> frType fr \<noteq> ty \<or> frAmount fr = 0"
  shows "emits P (reclaimFrozen p i j pw creds to' ty fr)"
  unfolding reclaimFrozen_def
  by (intro emits_if emits_bnd emits_prod emits_wrapErr emits_reclaimAttempts; (use assms in blast | rule emits_keeps, intro quiet)?)

text \<open>What a reclaim may submit for a transfer, given what the processing wallet has delegated.\<close>

definition reclaimAllowed :: "'e env \<Rightarrow> (string \<rightharpoonup> any_val) \<Rightarrow> frozen_resource list \<Rightarrow> tx_type \<times> tron_call \<Rightarrow> bool" where
  "reclaimAllowed env sd frozen c \<longleftrightarrow> (\<exists>src to' src' ty v fr. c = (TxTypeReclaimResources, CallUnDelegate src to' ty (frAmount fr)) \<and>
     sd (getDelegateResourceKey ty) = Some v \<and> delegateDataOfVal env v = Inr (src', to') \<and>
     fr \<in> set frozen \<and> frDelegateTo fr = to' \<and> frType fr = ty \<and> frAmount fr \<noteq> 0)"

lemma emits_sum: "(\<And>x. r = Inr x \<Longrightarrow> emits P (f x)) \<Longrightarrow> emits P (bnd (ofSum r) f)"
  by (cases r) (simp_all add: ofSum_def op_defs emits_def)

lemma emits_reclaimOne: "emits (reclaimAllowed (tpEnv p) (trStateData t) frozen) (reclaimOne p i j t frozen ty)"
proof (cases "trStateData t (getDelegateResourceKey ty)")
  case (Some v)
  let ?P = "reclaimAllowed (tpEnv p) (trStateData t) frozen"
  have f: "emits ?P (reclaimFrozen p i j pw creds to' ty fr)"
    if "delegateDataOfVal (tpEnv p) v = Inr (src, to')" and "fr \<in> set frozen" for src to' pw creds fr
    by (rule emits_reclaimFrozen) (use that Some in \<open>auto simp: reclaimAllowed_def\<close>)
  have "emits ?P (forEach frozen (reclaimFrozen p i j pw creds to' ty))"
    if "delegateDataOfVal (tpEnv p) v = Inr (src, to')" for src to' pw creds
    by (rule emits_forEach) (rule f [OF that])
  then have "emits ?P (case x of (src, to') \<Rightarrow>
     bnd (wrapErr ''get processing wallet'' (liftW (processingGetByOwnerID (tpEnv p) (trOwnerID t) BlockchainTypeTron src))) (\<lambda>pw.
     bnd (wrapErr ''get wallet creds'' (tron_getWalletCreds p (trOwnerID t) (word_of_int (pwSequence pw)))) (\<lambda>creds.
     forEach frozen (reclaimFrozen p i j pw creds to' ty))))" if "delegateDataOfVal (tpEnv p) v = Inr x" for x
    using that by (cases x) (auto intro!: emits_bnd [OF emits_keeps] quiet)
  then show ?thesis
    unfolding reclaimOne_def Some option.case by (rule emits_sum)
qed (simp add: reclaimOne_def emits_keeps quiet)

text \<open>
  C29. A reclaim takes back only what was delegated for the transfer: every call of
  \<open>UnDelegateResource\<close> that is submitted names a target that the transfer's data record as the target of
  a delegation of that kind, and the whole amount of a delegation to it that the node lists.
\<close>

theorem reclaims_what_was_delegated:
  assumes "reclaimAll p i j processingAddress s = (r, s')"
  shows "\<exists>cs. tfSent s' = tfSent s @ cs \<and> (cs = [] \<or>
    (\<exists>t res frozen x x'. fsTransfer s = Some t \<and> stakedResources (tpTron p) processingAddress x = (Val (res, frozen), x') \<and>
       (\<forall>c\<in>set cs. reclaimAllowed (tpEnv p) (trStateData t) frozen c)))"
proof -
  let ?st = "wrapErr ''get staked resources'' (liftE (stakedResources (tpTron p) processingAddress)) :: ('a tron_fsm, _) op"
  let ?rest = "\<lambda>frozen. bnd (modS (\<lambda>s. s\<lparr>tfLocal := Map.empty\<rparr>)) (\<lambda>_. deferred (storeLocal p)
       (bnd theTransfer (\<lambda>t. groupRun (map (reclaimOne p i j t frozen) resourcesToDelegate))))"
  obtain q s1 where st: "?st s = (q, s1)" by (rule prod.exhaust)
  have k: "tfSent s1 = tfSent s" "fsTransfer s1 = fsTransfer s"
    by (rule keepsD [of _ ?st, OF _ st], intro keeps_tron, simp add: offWorld_def)+
  show ?thesis
  proof (cases q)
    case (Val v)
    obtain res frozen where v: "v = (res, frozen)" by (cases v)
    have x: "\<exists>x x'. stakedResources (tpTron p) processingAddress x = (Val (res, frozen), x')"
      using st Val v by (auto simp: wrapErr_Val liftE_iff)
    have run: "?rest frozen s1 = (r, s')" using assms st Val v by (simp add: reclaimAll_def bnd_def)
    show ?thesis
    proof (cases "fsTransfer s")
      case None
      then have "tfSent s' = tfSent s1"
        using run k
        by (auto simp: bnd_def modS_def deferred_def theTransfer_def split: prod.split_asm outcome.split_asm
            dest!: keepsD [OF keeps_tron_helpers(11) [OF sent_off]])
      with k show ?thesis by simp
    next
      case (Some t)
      let ?P = "reclaimAllowed (tpEnv p) (trStateData t) frozen"
      let ?g = "\<lambda>t. groupRun (map (reclaimOne p i j t frozen) resourcesToDelegate)"
      have g: "emits ?P (?g t)" by (rule emits_groupRun) (auto intro: emits_reclaimOne)
      have "?rest frozen s1 = deferred (storeLocal p) (?g t) (s1\<lparr>tfLocal := Map.empty\<rparr>)"
        using k Some by (simp add: bnd_def modS_def deferred_def theTransfer_def)
      then have d: "deferred (storeLocal p) (?g t) (s1\<lparr>tfLocal := Map.empty\<rparr>) = (r, s')" using run by simp
      have "emits ?P (deferred (storeLocal p) (?g t))" by (intro emits_deferred g quiet)
      from emitsD [OF this d] obtain cs where cs: "tfSent s' = tfSent s @ cs" "\<forall>c\<in>set cs. ?P c" using k by auto
      show ?thesis by (intro exI [of _ cs] conjI disjI2 cs(1)) (use Some x cs(2) in blast)
    qed
  qed (use assms st k in \<open>auto simp: reclaimAll_def bnd_def\<close>)
qed


text \<open>The calls that the step \<open>(i, j)\<close> may submit, with the type that its transactions have.\<close>

definition stepCall :: "nat \<Rightarrow> nat \<Rightarrow> tx_type \<times> tron_call \<Rightarrow> bool" where
  "stepCall i j c =
     (case c of
        (k, CallActivate _ _) \<Rightarrow> k = TxTypeAccountActivation \<and> (i, j) \<in> {(0, 3), (0, 6)}
      | (k, CallTransfer _ _ _) \<Rightarrow> (k = TxTypeSendBurnBaseAsset \<and> (i, j) = (0, 9)) \<or> (k = TxTypeTransfer \<and> (i, j) = (1, 0))
      | (k, CallTRC20 _ _ _ _ _) \<Rightarrow> k = TxTypeTransfer \<and> (i, j) = (1, 0)
      | (k, CallDelegate _ _ _ _) \<Rightarrow> k = TxTypeDelegateResources \<and> (i, j) = (0, 11)
      | (k, CallUnDelegate _ _ _ _) \<Rightarrow> k = TxTypeReclaimResources \<and> (i, j) \<in> {(2, 3), (3, 1)})"

lemma emits_steps:
  "emits (stepCall 0 3) (activateWalletResources p)" "emits (stepCall 0 6) (activateWalletBurnTRX p)"
  "emits (stepCall 0 9) (sendTRXForBurn p)" "emits (stepCall 0 11) (delegateResources p)" "emits (stepCall 1 0) (tron_sending p)"
proof -
  show "emits (stepCall 0 3) (activateWalletResources p)"
    unfolding activateWalletResources_def Let_def
    by (intro emits_bnd emits_wrapErr emits_recordAndBroadcast; (simp add: stepCall_def; fail | rule emits_keeps, intro quiet)?)
  show "emits (stepCall 0 6) (activateWalletBurnTRX p)"
    unfolding activateWalletBurnTRX_def Let_def
    by (intro emits_bnd emits_if emits_wrapErr emits_transactions; (simp add: stepCall_def; fail | rule emits_keeps, intro quiet)?)
  have b: "keeps tfSent (bandwidthToTRX (tpEnv p) x y)" for x y
    unfolding bandwidthToTRX_def decDiv_def Let_def by (intro quiet)
  have j: "keeps tfSent (tron_jumpToSending :: ('a tron_fsm) act)" by (rule keeps_jumps [OF sent_steps])
  show "emits (stepCall 0 9) (sendTRXForBurn p)"
    unfolding sendTRXForBurn_def Let_def
    by (intro emits_bnd emits_if emits_wrapErr emits_transactions;
      (simp add: stepCall_def emits_keeps [OF j]; fail | rule emits_keeps, intro quiet b)?)
  have d: "emits (stepCall 0 11) (delegateOne p t pw creds need ty)" for t pw creds need ty
    unfolding delegateOne_def Let_def
    by (intro emits_bnd emits_if emits_wrapErr emits_prod emits_transactions; (simp add: stepCall_def; fail | rule emits_keeps, intro quiet)?)
  have a: "emits (stepCall 0 11) (delegateAll p t pw creds r1 r2 est need)" for t pw creds r1 r2 est need
    unfolding delegateAll_def
    by (intro emits_bnd emits_deferred emits_catchErr emits_groupRun; (rule emits_keeps, intro quiet; fail | intro quiet; fail | auto intro: d)?)
  show "emits (stepCall 0 11) (delegateResources p)"
    unfolding delegateResources_def Let_def
    by (intro emits_bnd emits_if; (rule a | rule emits_keeps, intro quiet)?)
  have r: "keeps tfSent (replaceTxHash env h)" for env h by (rule keeps_replaceTxHash) simp_all
  show "emits (stepCall 1 0) (tron_sending p)"
    unfolding tron_sending_def Let_def
    by (intro emits_bnd emits_if emits_wrapErr emits_transactions; (simp add: stepCall_def; fail | rule emits_keeps, intro quiet r)?)
qed


lemma emits_reclaims: "emits (\<lambda>c. \<exists>a b ty n. c = (TxTypeReclaimResources, CallUnDelegate a b ty n)) (reclaimAll p i j pa)"
proof -
  have o': "emits (\<lambda>c. \<exists>a b ty n. c = (TxTypeReclaimResources, CallUnDelegate a b ty n)) (reclaimOne p i j t frozen ty)" for t frozen ty
    by (rule emits_weaken [OF emits_reclaimOne]) (auto simp: reclaimAllowed_def)
  show ?thesis
    unfolding reclaimAll_def
    by (intro emits_bnd emits_prod emits_deferred emits_groupRun; (rule emits_keeps, intro quiet; fail | intro quiet; fail | auto intro: o')?)
qed

lemma emits_case_sum: "(\<And>x. emits P (f x)) \<Longrightarrow> (\<And>x. emits P (g x)) \<Longrightarrow> emits P (case r of Inl x \<Rightarrow> f x | Inr x \<Rightarrow> g x)"
  by (cases r) simp_all

text \<open>
  C24. A step submits transactions of its own kind only: an activation in the two steps that activate, the
  TRX to burn, the delegations, the transfer and the reclaims in theirs, and nothing in any other step;
  and for each of them the type that is recorded when the step is the current one is the type of the call.
\<close>

theorem tron_steps_submit_their_kind:
  assumes "hFunc (tronHooks p) i j = Some f" and "f s = (r, s')"
  shows "\<exists>cs. tfSent s' = tfSent s @ cs \<and> (\<forall>c\<in>set cs. stepCall i j c \<and>
    (\<forall>w st. currentStep w = (Val (Some st), w) \<and> spName st = spName (sgSteps (tronStages ! i) ! j) \<longrightarrow>
       tron_prepareTransferTransactionTypeByStep w = (Val (fst c), w)))"
proof -
  have r: "emits (stepCall a b) (reclaimAll p i' j' pa)" if "(a, b) \<in> {(2, 3), (3, 1)}" for a b i' j' pa
    by (rule emits_weaken [OF emits_reclaims]) (use that in \<open>auto simp: stepCall_def\<close>)
  have jump: "keeps tfSent (jumpTo n :: ('a tron_fsm) act)" for n by (rule keeps_jumps [OF sent_steps])
  have "emits (stepCall 2 3) (reclaimResources p)"
    unfolding reclaimResources_def
    by (intro emits_bnd emits_if emits_case_sum; (rule r, simp; fail | rule emits_keeps, intro jump quiet)?)
  moreover have "emits (stepCall 3 1) (reclaimOnError p)"
    unfolding reclaimOnError_def
    by (intro emits_bnd emits_if emits_case_sum; (rule r, simp; fail | rule emits_keeps, intro jump quiet)?)
  moreover have "keeps tfSent (tron_sendFailureEvent p)" by (rule keeps_tron_failureEvent [OF sent_off]) simp
  ultimately have "emits (stepCall i j) f"
    using tronHooks_func [OF assms(1)] emits_steps [of p] keeps_tron_rest [OF sent_off sent_steps, of p]
    by (auto intro: emits_keeps)
  from emitsD [OF this assms(2)] obtain cs where cs: "tfSent s' = tfSent s @ cs" "\<forall>c\<in>set cs. stepCall i j c" by blast
  have "tron_prepareTransferTransactionTypeByStep w = (Val (fst c), w)"
    if "stepCall i j c" and "currentStep w = (Val (Some st), w)" and "spName st = spName (sgSteps (tronStages ! i) ! j)"
    for c st and w :: "'b workflow_scheme"
    using that
    by (auto simp: stepCall_def tron_prepareTransferTransactionTypeByStep_def op_defs deref_def tronStages_def newStep_def tron_names
        split: prod.split_asm tron_call.split_asm)
  with cs show ?thesis by (intro exI [of _ cs] conjI) auto
qed

section \<open>What is sent\<close>

text \<open>Operations that neither submit nor replace the transfer.\<close>

definition same :: "'e tron_fsm \<Rightarrow> 'e tron_fsm \<Rightarrow> bool" where
  "same s s' \<longleftrightarrow> tfSent s' = tfSent s \<and> fsTransfer s' = fsTransfer s"

lemma same_keeps: "keeps (\<lambda>s. (tfSent s, fsTransfer s)) m \<Longrightarrow> m s = (r, s') \<Longrightarrow> same s s'"
  unfolding same_def by (drule keepsD) auto

lemma same_off: "offWorld (\<lambda>s. (tfSent s, fsTransfer s))"
  by (simp add: offWorld_def)

lemmas same_ops =
  same_keeps [OF keeps_off(1) [OF same_off]] same_keeps [OF keeps_off(2) [OF same_off]]
  same_keeps [OF keeps_tron_helpers(5) [OF same_off]] same_keeps [OF keeps_tron_helpers(6) [OF same_off]]
  same_keeps [OF keeps_tron_helpers(7) [OF same_off]] same_keeps [OF keeps_tron_helpers(8) [OF same_off]]
  same_keeps [OF keeps_tron_chain(3) [OF same_off]] same_keeps [OF keeps_tron_chain(6) [OF same_off]]

lemma recordAndBroadcast_Val:
  assumes "recordAndBroadcast p msg b k c ex stx s = (Val u, s')"
  shows "tfSent s' = tfSent s @ [(k, c)] \<and> fsTransfer s' = fsTransfer s"
  using assms unfolding recordAndBroadcast_def
  by (auto simp: inTx_Val bnd_Val modS_Val wrapErr_Val split: if_split_asm dest!: same_ops) (auto simp: same_def)

lemma sendTRX_Val:
  assumes "sendTRX p k creds to' amount s = (Val ex, s')"
  shows "0 < amount \<and> tfSent s' = tfSent s @ [(k, CallTransfer (fst creds) to' (intPart (amount * 1000000)))] \<and> fsTransfer s' = fsTransfer s"
  using assms unfolding sendTRX_def Let_def
  by (auto simp: bnd_Val guardE_Val theTransfer_Val ret_Val wrapErr_Val zero_less_mult_iff dest!: same_ops recordAndBroadcast_Val)
    (auto simp: same_def)

lemma sendTrc20_Val:
  assumes "sendTrc20 p k creds ct to' amount d fl s = (Val ex, s')"
  shows "0 < amount * assetUnit d \<and> tfSent s' = tfSent s @ [(k, CallTRC20 (fst creds) to' ct (decBigInt (amount * assetUnit d)) fl)] \<and>
    fsTransfer s' = fsTransfer s"
  using assms unfolding sendTrc20_def Let_def
  by (auto simp: bnd_Val guardE_Val theTransfer_Val ret_Val wrapErr_Val not_le dest!: same_ops recordAndBroadcast_Val)
    (auto simp: same_def)

lemma same_hash: "replaceTxHash env h s = (r, s') \<Longrightarrow> tfSent s' = tfSent s"
  by (rule keepsD [OF keeps_replaceTxHash]) simp_all


section \<open>Operations that refuse\<close>

text \<open>From the states with the view \<open>c\<close>, the operation never succeeds and leaves the view alone.\<close>

definition refuses :: "('s \<Rightarrow> 'b) \<Rightarrow> 'b \<Rightarrow> ('s, 'a) op \<Rightarrow> bool" where
  "refuses v c m \<longleftrightarrow> (\<forall>s. v s = c \<longrightarrow> v (snd (m s)) = c \<and> (\<forall>x. fst (m s) \<noteq> Val x))"

lemma refuses_first:
  assumes "refuses v c m"
  shows "refuses v c (bnd m f)"
  unfolding refuses_def
proof (intro allI impI)
  fix s assume "v s = c"
  with assms have "v (snd (m s)) = c \<and> (\<forall>x. fst (m s) \<noteq> Val x)" by (simp add: refuses_def)
  then show "v (snd (bnd m f s)) = c \<and> (\<forall>x. fst (bnd m f s) \<noteq> Val x)"
    by (cases "m s"; cases "fst (m s)") (simp_all add: bnd_def)
qed

lemma refuses_rest:
  assumes "keeps v m" and "\<And>x. refuses v c (f x)"
  shows "refuses v c (bnd m f)"
  unfolding refuses_def
proof (intro allI impI)
  fix s assume s: "v s = c"
  obtain r s1 where m: "m s = (r, s1)" by (rule prod.exhaust)
  have "v s1 = c" using keepsD [OF assms(1) m] s by simp
  with m assms(2) show "v (snd (bnd m f s)) = c \<and> (\<forall>x. fst (bnd m f s) \<noteq> Val x)"
    by (cases r) (simp_all add: bnd_def refuses_def)
qed

lemma refuses_wrapErr: "refuses v c m \<Longrightarrow> refuses v c (wrapErr t m)"
  unfolding refuses_def
proof (intro allI impI)
  fix s assume "\<forall>s. v s = c \<longrightarrow> v (snd (m s)) = c \<and> (\<forall>x. fst (m s) \<noteq> Val x)" and "v s = c"
  then have "v (snd (m s)) = c \<and> (\<forall>x. fst (m s) \<noteq> Val x)" by simp
  then show "v (snd (wrapErr t m s)) = c \<and> (\<forall>x. fst (wrapErr t m s) \<noteq> Val x)"
    by (cases "m s"; cases "fst (m s)") (simp_all add: wrapErr_def)
qed

lemma refuses_if: "refuses v c m \<Longrightarrow> refuses v c n \<Longrightarrow> refuses v c (if b then m else n)"
  by simp

lemma refuses_inTx:
  fixes v :: "('e, 'z) fsm_scheme \<Rightarrow> 'b" and m :: "(('e, 'z) fsm_scheme, 'a) op"
  assumes "offWorld v" and "refuses v c m"
  shows "refuses v c (inTx env m)"
  unfolding refuses_def
proof (intro allI impI)
  fix s :: "('e, 'z) fsm_scheme" assume s: "v s = c"
  obtain r1 s1 where b: "liftW (txBegin env) s = (r1, s1)" by (rule prod.exhaust)
  have v1: "v s1 = c" using keepsD [OF keeps_off(1) [OF assms(1)] b] s by simp
  then have "v (snd (m s1)) = c \<and> (\<forall>x. fst (m s1) \<noteq> Val x)" using assms(2) by (simp add: refuses_def)
  then show "v (snd (inTx env m s)) = c \<and> (\<forall>x. fst (inTx env m s) \<noteq> Val x)"
    using b v1 by (cases r1; cases "m s1"; cases "fst (m s1)") (simp_all add: inTx_def bnd_def offWorldD [OF assms(1)])
qed

text \<open>The type of a transaction depends on the stages only.\<close>

lemma currentStage_stages: "wStages w = wStages s \<Longrightarrow> currentStage w = (fst (currentStage s), w)"
  by (simp add: currentStage_def allSteps_def split: list.split)

lemma currentStep_stages:
  assumes "wStages w = wStages s"
  shows "currentStep w = (fst (currentStep s), w)"
proof -
  define r where "r = fst (currentStage s)"
  have e: "currentStage w = (r, w)" "currentStage s = (r, s)"
    using currentStage_stages [OF assms] currentStage_stages [of s s, OF refl] by (simp_all add: r_def)
  show ?thesis
    unfolding currentStep_def bnd_def e
    by (cases r) (simp_all add: panic_def ret_def split: option.split list.split)
qed

lemma prepare_stages:
  assumes "wStages w = wStages s"
  shows "tron_prepareTransferTransactionTypeByStep w = (fst (tron_prepareTransferTransactionTypeByStep s), w)"
proof -
  define r where "r = fst (currentStep s)"
  have e: "currentStep w = (r, w)" "currentStep s = (r, s)"
    using currentStep_stages [OF assms] currentStep_stages [of s s, OF refl] by (simp_all add: r_def)
  show ?thesis
    unfolding tron_prepareTransferTransactionTypeByStep_def bnd_def e
    by (cases r) (simp_all add: deref_def op_defs Let_def split: option.split)
qed

definition stagesSent :: "'e tron_fsm \<Rightarrow> stage list \<times> (tx_type \<times> tron_call) list" where
  "stagesSent s = (wStages s, tfSent s)"

lemma stagesSent_off: "offWorld stagesSent"
  by (simp add: offWorld_def stagesSent_def)

lemma refuses_prepare:
  fixes s :: "'a tron_fsm"
  assumes "\<forall>ty. fst (tron_prepareTransferTransactionTypeByStep s) \<noteq> Val ty"
  shows "refuses stagesSent (stagesSent s) (tron_prepareTransferTransactionTypeByStep :: ('b tron_fsm, tx_type) op)"
  unfolding refuses_def
proof (intro allI impI conjI)
  fix w :: "'b tron_fsm" assume "stagesSent w = stagesSent s"
  then have "tron_prepareTransferTransactionTypeByStep w = (fst (tron_prepareTransferTransactionTypeByStep s), w)"
    "stagesSent w = stagesSent s" using prepare_stages [of w s] by (simp_all add: stagesSent_def)
  with assms show "stagesSent (snd (tron_prepareTransferTransactionTypeByStep w)) = stagesSent s"
    "\<And>ty. fst (tron_prepareTransferTransactionTypeByStep w) \<noteq> Val ty" by simp_all
qed

lemma sending_refused:
  assumes "\<forall>ty. fst (tron_prepareTransferTransactionTypeByStep s) \<noteq> Val ty"
  shows "refuses stagesSent (stagesSent s) (tron_sending p)"
proof -
  let ?R = "\<lambda>m. refuses stagesSent (stagesSent s) m"
  have i: "?R (tron_initPendingSystemTransaction p ex)" for ex
    unfolding tron_initPendingSystemTransaction_def by (intro refuses_first refuses_wrapErr refuses_prepare assms)
  have r: "?R (recordAndBroadcast p msg b k c ex stx)" for msg b k c ex stx
    unfolding recordAndBroadcast_def by (intro refuses_inTx stagesSent_off refuses_first refuses_wrapErr i)
  have x: "?R (sendTRX p k creds to' am)" for k creds to' am
    unfolding sendTRX_def Let_def
    apply (rule refuses_rest, (intro keeps_tron stagesSent_off; fail)[1])+
    by (rule refuses_first, rule refuses_wrapErr, rule r)
  have y: "?R (sendTrc20 p k creds ct to' am d fl)" for k creds ct to' am d fl
    unfolding sendTrc20_def Let_def
    by ((rule refuses_rest, (intro keeps_tron stagesSent_off; fail)[1])+, rule refuses_first, rule refuses_wrapErr, rule r)
  show ?thesis
    unfolding tron_sending_def Let_def
    by ((rule refuses_rest, (intro keeps_tron stagesSent_off; fail)[1])+, rule refuses_first, rule refuses_if,
      rule refuses_wrapErr, rule x, rule refuses_rest, intro keeps_tron stagesSent_off, rule refuses_wrapErr, rule y)
qed

end
