(* ===== verification/TronResFacts.thy ===== *)
theory TronResFacts
  imports TronRes
begin

text \<open>
  What the conversions and estimates of \<open>pkg/walletsdk/tron\<close> guarantee: rounding and units, the number
  of transfers that resources carry, the count of stakes, and that a delegation covers its transfer.
\<close>

section \<open>Units\<close>

text \<open>
  \<open>Decimal.Div\<close> is documented as a division rounded to \<open>DivisionPrecision\<close>, which is 16, decimals.
\<close>

definition decimalDivOk :: "'e env \<Rightarrow> bool" where
  "decimalDivOk env \<longleftrightarrow> divRoundOk env \<and> (\<forall>x y. y \<noteq> 0 \<longrightarrow> envDecimalDiv env x y = envDivRound env x y 16)"

lemma sint_1000: "sint (1000 :: 64 word) = 1000"
  by simp

lemma abs_scaled: "\<bar>a * c\<bar> \<le> b \<Longrightarrow> 0 < c \<Longrightarrow> \<bar>a\<bar> \<le> b / c" for a b c :: rat
  by (simp add: abs_mult pos_le_divide_eq)

lemma decimalDiv_near:
  assumes "decimalDivOk env" and "0 < y"
  shows "\<bar>envDecimalDiv env x y - x / y\<bar> \<le> 1 / (2 * 10 ^ 16)"
proof -
  obtain n :: int where n: "envDivRound env x y (int 16) = of_int n / 10 ^ 16"
    and near: "\<bar>of_int n - x / y * 10 ^ 16\<bar> \<le> 1 / 2"
    using divRound_near [of env y x 16] assms unfolding decimalDivOk_def by blast
  have "envDecimalDiv env x y = of_int n / 10 ^ 16" using assms n by (simp add: decimalDivOk_def)
  then have "(envDecimalDiv env x y - x / y) * 10 ^ 16 = of_int n - x / y * 10 ^ 16" by (simp add: left_diff_distrib)
  then have "\<bar>(envDecimalDiv env x y - x / y) * 10 ^ 16\<bar> \<le> 1 / 2" using near by (simp only:)
  then have "\<bar>envDecimalDiv env x y - x / y\<bar> \<le> 1 / 2 / 10 ^ 16" by (rule abs_scaled) simp
  then show ?thesis by simp
qed

text \<open>
  Energy converted to TRX and back is the same energy, up to the 16 decimals to which divisions are
  rounded: the difference is at most \<open>10 ^ -10\<close> units of energy for every price of energy from 1 SUN on.
\<close>

theorem energy_roundtrip:
  fixes s :: 's
  assumes "decimalDivOk env" and "1 \<le> sint fee"
  shows "\<exists>e'. trxToEnergy env (energyToTRX env e fee) fee s = (Val e', s) \<and> \<bar>e' - e\<bar> \<le> 1 / 10 ^ 10"
proof -
  let ?f = "newFromInt fee" and ?d = "envDecimalDiv env" and ?h = "1 / (2 * 10 ^ 16) :: rat"
  have f: "1 \<le> ?f" using assms(2) by (simp add: newFromInt_def del: of_int_sint)
  let ?x = "?d (e * ?f) 1000000"
  have 1: "\<bar>?x - e * ?f / 1000000\<bar> \<le> ?h" by (rule decimalDiv_near [OF assms(1)]) simp
  have 2: "\<bar>?d ?x ?f - ?x / ?f\<bar> \<le> ?h" by (rule decimalDiv_near [OF assms(1)]) (use f in simp)
  have "?x / ?f - e / 1000000 = (?x - e * ?f / 1000000) / ?f" using f by (simp add: diff_divide_distrib)
  then have "\<bar>?x / ?f - e / 1000000\<bar> = \<bar>?x - e * ?f / 1000000\<bar> / ?f" using f by (simp add: abs_divide)
  also have "\<dots> \<le> \<bar>?x - e * ?f / 1000000\<bar> / 1" using f by (intro divide_left_mono) simp_all
  finally have "\<bar>?x / ?f - e / 1000000\<bar> \<le> ?h" using 1 by simp
  with 2 have "\<bar>?d ?x ?f - e / 1000000\<bar> \<le> 1 / 10 ^ 16" by linarith
  then have "\<bar>(?d ?x ?f * 1000000 - e) * (1 / 1000000)\<bar> \<le> 1 / 10 ^ 16" by (simp only: left_diff_distrib mult.assoc)
  then have "\<bar>?d ?x ?f * 1000000 - e\<bar> \<le> 1 / 10 ^ 16 / (1 / 1000000)" by (rule abs_scaled) simp
  then have "\<bar>?d ?x ?f * 1000000 - e\<bar> \<le> 1 / 10 ^ 10" by simp
  moreover have "trxToEnergy env (energyToTRX env e fee) fee s = (Val (?d ?x ?f * 1000000), s)"
    using f by (simp add: trxToEnergy_def energyToTRX_def decDiv_def op_defs)
  ultimately show ?thesis by blast
qed


text \<open>
  The price of bandwidth in TRX divides by the fee where the price of energy multiplies with it: it is
  the number of bytes times the fee in SUN for one fee only, 1000 SUN.
\<close>

theorem bandwidth_price_fits_one_fee:
  fixes s :: 's
  assumes "\<forall>x y. y \<noteq> 0 \<longrightarrow> envDecimalDiv env x y = x / y" and "0 < sint fee" and "0 < b"
  shows "\<exists>x. bandwidthToTRX env b fee s = (Val x, s) \<and> (x = b * newFromInt fee / 1000000 \<longleftrightarrow> fee = 1000)"
proof -
  let ?f = "newFromInt fee"
  have f: "0 < ?f" using assms(2) by (simp add: newFromInt_def del: of_int_sint)
  have "b / ?f = b * ?f / 1000000 \<longleftrightarrow> ?f * ?f = 1000 * 1000" using f assms(3) by (auto simp: field_simps)
  also have "\<dots> \<longleftrightarrow> ?f = 1000" using f by (metis abs_of_pos abs_mult_self_eq abs_mult mult_pos_pos square_eq_iff zero_less_numeral less_asym neg_0_less_iff_less)
  also have "\<dots> \<longleftrightarrow> sint fee = 1000" unfolding newFromInt_def by (metis of_int_eq_iff of_int_numeral)
  also have "\<dots> \<longleftrightarrow> fee = 1000"
    by (metis sint_1000 signed_word_eqI)
  finally show ?thesis using f assms(1) by (simp add: bandwidthToTRX_def decDiv_def op_defs)
qed

section \<open>Capacity\<close>

lemma sdiv_bounds:
  fixes a c :: int
  assumes "0 < c"
  shows "0 \<le> a \<Longrightarrow> a sdiv c = a div c" "a < 0 \<Longrightarrow> a sdiv c \<le> 0"
  using assms by (auto simp: signed_divide_int_def sgn_if pos_imp_zdiv_nonneg_iff)

text \<open>
  The number of transfers that the resources of a wallet carry is never too high, for any value of the
  two \<open>int64\<close> counters, negative ones included and also where the conversion to 32 bits cuts the number
  off; below that limit one more transfer would exceed the energy or the bandwidth.
\<close>

theorem operations_within_resources:
  fixes energy bandwidth :: "64 word"
  defines "n \<equiv> uint (getMaxOperationsCount energy bandwidth)"
  shows "n * 80000 \<le> max 0 (sint energy) \<and> n * 925 \<le> max 0 (sint bandwidth) \<and>
    (sint energy < 80000 * 2 ^ 32 \<longrightarrow> sint energy < (n + 1) * 80000 \<or> sint bandwidth < (n + 1) * 925)"
proof -
  let ?e = "sint energy" and ?b = "sint bandwidth"
  let ?c = "min (?e sdiv 80000) (?b sdiv 925)"
  have n: "n = (if ?c < 0 then 0 else ?c mod 2 ^ 32)"
    by (auto simp: n_def getMaxOperationsCount_def Let_def uint_word_of_int min_def)
  show ?thesis
  proof (cases "0 \<le> ?e \<and> 0 \<le> ?b")
    case True
    then have c: "?c = min (?e div 80000) (?b div 925)" "0 \<le> ?c" by (simp_all add: sdiv_bounds pos_imp_zdiv_nonneg_iff)
    then have m: "n = ?c mod 2 ^ 32" unfolding n by (simp only: not_less [symmetric] if_False)
    then have "n \<le> ?c" "0 \<le> n" using zmod_le_nonneg_dividend [OF c(2), of "2 ^ 32"] by simp_all
    moreover have "n = ?c" if "?e < 80000 * 2 ^ 32"
    proof -
      have "?c < 2 ^ 32" using that c(1) by linarith
      with c(2) show ?thesis unfolding m by (rule mod_pos_pos_trivial)
    qed
    ultimately show ?thesis using True c by (simp add: max_def) linarith
  next
    case False
    then have "?c \<le> 0" using sdiv_bounds(2) [of 80000 ?e] sdiv_bounds(2) [of 925 ?b] by (auto simp: min_def)
    then have "n = 0" by (auto simp: n le_less)
    then show ?thesis using False by (auto simp: max_def)
  qed
qed


section \<open>Stakes\<close>

text \<open>
  \<open>AccountResourceInfo\<close> counts stakes more than once: every stake adds the TRX of the running total
  instead of its own, so two stakes of \<open>a\<close> and \<open>b\<close> SUN for energy are reported as \<open>2 a + b\<close>, and as
  \<open>3 a + b\<close> in the total of all TRX, while the energy itself is right.
\<close>

theorem stakes_are_counted_repeatedly:
  fixes s :: 's
  assumes "\<forall>x y. y \<noteq> 0 \<longrightarrow> envDecimalDiv env x y = x / y"
    and "cpTotalEnergyCurrentLimit cp \<noteq> 0" and "arTotalEnergyWeight res \<noteq> 0"
  shows "\<exists>r. countStaked env cp res noTotals [(ResourceCode_ENERGY, a), (ResourceCode_ENERGY, b)] s = (Val r, s) \<and>
    ttlEnergy r = (newFromInt a + newFromInt b) / 1000000 / newFromInt (arTotalEnergyWeight res) * newFromInt (cpTotalEnergyCurrentLimit cp) \<and>
    ttlEnergyTrx r = 2 * newFromInt a + newFromInt b \<and> ttlTrx r = 3 * newFromInt a + newFromInt b"
proof -
  have nz: "newFromInt w \<noteq> 0" if "w \<noteq> 0" for w
    using that signed_word_eqI [of w 0] by (auto simp: newFromInt_def simp del: of_int_sint)
  show ?thesis
    using assms nz [OF assms(2)] nz [OF assms(3)]
    by (simp add: countEnergy_def convertStackedTRXToEnergy_def convertEnergyToStackedTRX_def decDiv_def noTotals_def
        bnd_def ret_def) (simp add: field_simps)
qed

section \<open>Delegation\<close>

text \<open>The size that \<open>proto.Size\<close> reports is not negative.\<close>

definition sizesOk :: "tron_lib \<Rightarrow> bool" where
  "sizesOk lib \<longleftrightarrow> (\<forall>tx. 0 \<le> tlSizeTx lib tx)"

lemma estimateBandwidth_ge: "estimateBandwidth t tx x = (Val b, x') \<Longrightarrow> sizesOk (trnLib t) \<Longrightarrow> 64 \<le> b"
  by (auto simp: estimateBandwidth_def op_Val sizesOk_def)

lemma addBandwidths_ge: "addBandwidths t acc txs x = (Val b, x') \<Longrightarrow> sizesOk (trnLib t) \<Longrightarrow> acc + 64 * of_nat (length txs) \<le> b"
proof (induction t acc txs arbitrary: x rule: addBandwidths.induct)
  case (2 t acc tx txs)
  then obtain c x1 where "estimateBandwidth t (Some tx) x = (Val c, x1)" and "addBandwidths t (acc + c) txs x1 = (Val b, x')"
    by (auto simp: op_Val)
  with 2 have "64 \<le> c" "acc + c + 64 * of_nat (length txs) \<le> b" by (auto dest: estimateBandwidth_ge)
  then show ?case by simp
qed (simp add: op_Val)

lemma systemActivation_nonneg:
  "estimateSystemContractActivation t a b x = (Val r, x') \<Longrightarrow> sizesOk (trnLib t) \<Longrightarrow> 0 \<le> acBandwidth r"
  by (auto simp: estimateSystemContractActivation_def Let_def op_Val split: if_split_asm dest!: estimateBandwidth_ge)

lemma delegateEstimate_parts:
  assumes "estimateTransferWithDelegateResources t req x = (Val r, x')" and "sizesOk (trnLib t)"
  defines "energy \<equiv> withCoefficient (trfEnergy (dqEstimate req))"
    and "bandwidth \<equiv> withCoefficient (trfBandwidth (dqEstimate req))"
  shows "energy \<le> rsEnergy (dqProcessingResources req) + rsEnergy (dqHotResources req)"
    and "rsEnergy (dpNeedToDelegate r) = max 0 (energy - rsEnergy (dqHotResources req))"
    and "rsBandwidth (dpNeedToDelegate r) \<in> {0, bandwidth}"
    and "rsBandwidth (dpNeedToDelegate r) = 0 \<Longrightarrow> bandwidth \<le> rsBandwidth (dqHotResources req) \<or> bandwidth \<le> 0 \<or>
      (\<exists>y y' z z' cp. checkIsWalletActivated t (dqHotWalletAddress req) y = (Val False, y') \<and>
         chainParams t z = (Val cp, z') \<and> bandwidth < newFromInt (cpFreeNetLimit cp))"
    and "rsBandwidth (dpNeedToDelegate r) \<le> dpNeedBandwidth r"
proof -
  let ?p = "dqProcessingResources req" and ?h = "dqHotResources req" and ?hot = "dqHotWalletAddress req"
  let ?need = "lackingResources ?h energy bandwidth"
  let ?free = "\<lambda>act cp. \<not> act \<and> rsBandwidth ?need > 0 \<and> rsBandwidth ?need < newFromInt (cpFreeNetLimit cp)"
  from assms(1) obtain cp x0 x1 etxs x2 x3 act b1 x4 btxs x5 x6 where
    e: "energy \<le> rsEnergy ?p + rsEnergy ?h" and cp: "chainParams t x0 = (Val cp, x1)"
    and act: "checkIsWalletActivated t ?hot x2 = (Val act, x3)"
    and b1: "(if \<not> act \<and> trnUseBurnTRXActivation t
          then bnd (wrapErr ''estimate system wallet activation'' (estimateSystemContractActivation t (dqProcessingAddress req) ?hot)) (\<lambda>a.
               ret (rsBandwidth ?need + acBandwidth a))
          else ret (rsBandwidth ?need)) x3 = (Val b1, x4)"
    and add: "addBandwidths t (if ?free act cp then b1 - rsBandwidth ?need else b1) (etxs @ btxs) x5 = (Val (dpNeedBandwidth r), x6)"
    and r: "dpNeedToDelegate r = (if ?free act cp then ?need\<lparr>rsBandwidth := 0\<rparr> else ?need)"
    unfolding estimateTransferWithDelegateResources_def Let_def energy_def bandwidth_def bnd_Val wrapErr_Val guardE_Val not_less ret_Val
    by (elim exE conjE) (fastforce simp only: delegate_response.simps)
  show "energy \<le> rsEnergy ?p + rsEnergy ?h" by (rule e)
  show "rsEnergy (dpNeedToDelegate r) = max 0 (energy - rsEnergy ?h)"
    by (simp add: r lackingResources_def max_def)
  show "rsBandwidth (dpNeedToDelegate r) \<in> {0, bandwidth}"
    by (simp add: r lackingResources_def noResources_def)
  show "bandwidth \<le> rsBandwidth ?h \<or> bandwidth \<le> 0 \<or> (\<exists>y y' z z' cp. checkIsWalletActivated t ?hot y = (Val False, y') \<and>
         chainParams t z = (Val cp, z') \<and> bandwidth < newFromInt (cpFreeNetLimit cp))"
    if "rsBandwidth (dpNeedToDelegate r) = 0"
    using that cp act by (auto simp: r lackingResources_def split: if_split_asm)
  have "rsBandwidth ?need \<le> b1" using b1 assms(2)
    by (auto simp: op_Val split: if_split_asm dest!: systemActivation_nonneg)
  moreover have "(if ?free act cp then b1 - rsBandwidth ?need else b1) \<le> dpNeedBandwidth r"
    using addBandwidths_ge [OF add assms(2)] by (auto split: if_split_asm)
  ultimately show "rsBandwidth (dpNeedToDelegate r) \<le> dpNeedBandwidth r"
    by (auto simp: r split: if_split_asm)
qed

text \<open>
  C31. What the estimate delegates is enough and can be paid: with it the hot wallet has the energy of the
  transfer with the safety coefficient, and the bandwidth too unless the wallet is not activated and
  gets it for free; the energy is never more than the processing wallet has, and the bandwidth never more
  than what the estimate tells the caller to check.
\<close>

theorem delegation_covers_transfer:
  assumes "estimateTransferWithDelegateResources t req x = (Val r, x')" and "sizesOk (trnLib t)"
    and "0 \<le> rsEnergy (dqProcessingResources req)"
  shows "withCoefficient (trfEnergy (dqEstimate req)) \<le> rsEnergy (dqHotResources req) + rsEnergy (dpNeedToDelegate r) \<and>
    rsEnergy (dpNeedToDelegate r) \<le> rsEnergy (dqProcessingResources req) \<and>
    rsBandwidth (dpNeedToDelegate r) \<le> dpNeedBandwidth r \<and>
    (withCoefficient (trfBandwidth (dqEstimate req)) \<le> max 0 (max (rsBandwidth (dqHotResources req)) (rsBandwidth (dpNeedToDelegate r))) \<or>
     (\<exists>y y' z z' cp. checkIsWalletActivated t (dqHotWalletAddress req) y = (Val False, y') \<and>
        chainParams t z = (Val cp, z') \<and> withCoefficient (trfBandwidth (dqEstimate req)) < newFromInt (cpFreeNetLimit cp)))"
proof -
  note p = delegateEstimate_parts [OF assms(1,2)]
  show ?thesis
  proof (intro conjI)
    show "withCoefficient (trfEnergy (dqEstimate req)) \<le> rsEnergy (dqHotResources req) + rsEnergy (dpNeedToDelegate r)"
      "rsEnergy (dpNeedToDelegate r) \<le> rsEnergy (dqProcessingResources req)" using p(1,2) assms(3) by simp_all
    show "rsBandwidth (dpNeedToDelegate r) \<le> dpNeedBandwidth r" by (rule p(5))
  qed (use p(3,4) in \<open>auto simp: le_max_iff_disj\<close>)
qed

section \<open>A sample\<close>

definition trxEnv :: "unit env" where
  "trxEnv = evmEnv\<lparr>envDecimalDiv := (\<lambda>a b. demoRound a b 16)\<rparr>"

definition trxLib :: tron_lib where
  "trxLib =
     \<lparr>tlDecodeCheck = Inr, tlBase58ToAddress = Inr, tlAddressString = (\<lambda>a. a), tlAddressHex = (\<lambda>a. replicate 44 (CHR ''0'')),
      tlFromHex = Inr, tlAnyNew = (\<lambda>_. None), tlMarshal = (\<lambda>_. Inr ''raw''), tlSha256 = (\<lambda>s. s),
      tlSign = (\<lambda>_ _. Inr ''sig''), tlSizeTx = (\<lambda>_. 200), tlSizeExt = (\<lambda>_. 300), tlUpdateHash = Inr,
      tlValidateTronAddress = (\<lambda>_. True), tlDerive = (\<lambda>m p path. Inr path), tlToECDSA = Some,
      tlPubkeyToAddress = (\<lambda>k. ''proc-1''), tlEncodeKey = (\<lambda>k. k), tlEncodePub = (\<lambda>k. k)\<rparr>"

definition trxExt :: "string \<Rightarrow> tx_ext" where
  "trxExt txid = \<lparr>teTransaction = Some \<lparr>tnRawData = None, tnRet = [], tnSignature = []\<rparr>, teTxid = txid,
     teEnergyUsed = 1000, teResult = Some \<lparr>rtResult = True, rtCode = 0, rtMessage = ''''\<rparr>\<rparr>"

definition trxAccount :: account_resources where
  "trxAccount = \<lparr>arEnergyLimit = 100000, arEnergyUsed = 0, arNetLimit = 5000, arNetUsed = 0, arFreeNetLimit = 600, arFreeNetUsed = 600,
     arTotalEnergyWeight = 10, arTotalNetWeight = 10, arTotalNetLimit = 1000\<rparr>"

definition trxNode :: "unit tron_node" where
  "trxNode =
     \<lparr>nodeGetChainParameters = (\<lambda>x. (Val [(''getEnergyFee'', 420), (''getTransactionFee'', 1000),
         (''getTotalEnergyCurrentLimit'', 1000), (''getFreeNetLimit'', 600)], x)),
      nodeGetAccount = (\<lambda>a x. (Val \<lparr>taAddress = a, taFrozenV2 = [(ResourceCode_ENERGY, 1000000000), (ResourceCode_BANDWIDTH, 50000000)]\<rparr>, x)),
      nodeGetAccountResource = (\<lambda>a x. (Val (if a = ''hot-1'' then trxAccount\<lparr>arEnergyLimit := 0, arNetLimit := 0\<rparr> else trxAccount), x)),
      nodeClientGetAccount = (\<lambda>a x. (Val \<lparr>taAddress = a, taFrozenV2 = []\<rparr>, x)),
      nodeClientGetAccountResource = (\<lambda>a x. (Val trxAccount, x)),
      nodeGetDelegatedIndex = (\<lambda>a x. (Val [''hot-1''], x)),
      nodeGetDelegated = (\<lambda>a b x. (Val [\<lparr>dgFrozenBalanceForBandwidth = 0, dgFrozenBalanceForEnergy = 700, dgExpireTimeForBandwidth = 0,
         dgExpireTimeForEnergy = 0, dgTo = b\<rparr>], x)),
      nodeTransfer = (\<lambda>_ _ _ x. (Val (trxExt ''aa''), x)), nodeTRC20Send = (\<lambda>_ _ _ _ _ x. (Val (trxExt ''bb''), x)),
      nodeTriggerConstantContract = (\<lambda>_ _ _ _ x. (Val (trxExt ''cc''), x)), nodeTriggerContract = (\<lambda>_ _ _ _ x. (Val (trxExt ''dd''), x)),
      nodeCreateAccount = (\<lambda>_ _ x. (Val (trxExt ''ee''), x)), nodeCreateAccount2 = (\<lambda>_ _ x. (Val (trxExt ''ff''), x)),
      nodeDelegateResource = (\<lambda>_ _ _ _ x. (Val (trxExt ''ab''), x)), nodeUnDelegateResource = (\<lambda>_ _ _ _ x. (Val (trxExt ''ac''), x)),
      nodeBroadcast = (\<lambda>_ x. (Val (), x)), nodeGenerateKey = (\<lambda>x. (Val ''key'', x))\<rparr>"

definition trxDemo :: "unit tron" where
  "trxDemo = \<lparr>trnEnv = trxEnv, trnLib = trxLib, trnNode = trxNode, trnActivationContractAddress = ''contract'',
     trnUseBurnTRXActivation = False\<rparr>"

lemmas trx_sample = trxDemo_def trxNode_def trxLib_def

lemma trxEnv_div: "decimalDivOk trxEnv"
proof -
  have "divRoundOk trxEnv" using evmEnv_rounds by (simp add: divRoundOk_def trxEnv_def)
  then show ?thesis by (simp add: decimalDivOk_def trxEnv_def evmEnv_def)
qed

definition trxRequest :: delegate_request where
  "trxRequest = \<lparr>dqProcessingAddress = ''proc-1'', dqHotWalletAddress = ''hot-1'',
     dqProcessingResources = noResources\<lparr>rsEnergy := 100000, rsBandwidth := 5000\<rparr>, dqHotResources = noResources,
     dqEstimate = \<lparr>trfEnergy = 1000, trfBandwidth = 264, trfTrx = 1\<rparr>\<rparr>"

definition trxResponse :: delegate_response where
  "trxResponse = \<lparr>dpNeedToDelegate = noResources\<lparr>rsEnergy := 1007, rsBandwidth := 266\<rparr>, dpNeedBandwidth = 1322\<rparr>"

lemma demo_bandwidth: "estimateBandwidth trxDemo (Some tx) () = (Val 264, ())"
  by (simp add: estimateBandwidth_def fillFakeTX_def deref_def op_defs ofSum_def) (simp add: trx_sample op_defs)

definition trxFake :: "string \<Rightarrow> string \<Rightarrow> 64 word \<Rightarrow> resource_code \<Rightarrow> bool \<Rightarrow> tron_tx" where
  "trxFake from to' n ty reclaim =
     \<lparr>tnRawData = Some \<lparr>rwRefBlockBytes = [CHR 0x01, CHR 0x01], rwRefBlockHash = replicate 8 (CHR 0x01),
        rwExpiration = 0, rwTimestamp = 0, rwFeeLimit = 0,
        rwContract = [if reclaim then UnDelegateResourceContract from to' n ty else DelegateResourceContract from to' n ty]\<rparr>,
      tnRet = [], tnSignature = []\<rparr>"

lemma demo_fake: "createFakeResourceTransaction trxDemo f to' n ty r () = (Val (trxFake f to' n ty r), ())"
  by (simp add: createFakeResourceTransaction_def fakeTransaction_def nowMillis_def op_defs ofSum_def trxFake_def)
    (simp add: trx_sample trxEnv_def evmEnv_def signed_divide_int_def op_defs)

lemma demo_add: "addBandwidths trxDemo acc txs () = (Val (acc + 264 * of_nat (length txs)), ())"
  by (induction txs arbitrary: acc) (simp_all add: op_defs demo_bandwidth algebra_simps)

lemma demo_chain: "chainParams trxDemo () = (Val \<lparr>cpEnergyFee = 420, cpTransactionFee = 1000, cpTotalEnergyCurrentLimit = 1000,
    cpFreeNetLimit = 600, cpCreateNewAccountFeeInSystemContract = 0, cpCreateAccountFee = 0\<rparr>, ())"
  by (simp add: chainParams_def trx_sample setChainParam_def op_defs)

lemma demo_active: "checkIsWalletActivated trxDemo a () = (Val True, ())"
  by (simp add: checkIsWalletActivated_def trx_sample op_defs)

lemma demo_coefficient: "withCoefficient 1000 = 1007" "withCoefficient 264 = 266"
  by (simp_all add: withCoefficient_def ResourceCoefficient_def decCeil_def ceiling_eq_iff)

lemma demo_delegate: "estimateTransferWithDelegateResources trxDemo trxRequest () = (Val trxResponse, ())"
  unfolding estimateTransferWithDelegateResources_def trxRequest_def
  by (simp add: demo_coefficient lackingResources_def noResources_def demo_chain demo_active demo_fake fakePair_def demo_add
      op_defs decDiv_def bandwidthToTRX_def newFromInt_def trxResponse_def Let_def del: addBandwidths.simps)


theorem delegation_covers_transfer_witness:
  "withCoefficient (trfEnergy (dqEstimate trxRequest)) \<le> rsEnergy (dqHotResources trxRequest) + rsEnergy (dpNeedToDelegate trxResponse)"
  using delegation_covers_transfer [OF demo_delegate]
  by (simp add: sizesOk_def trx_sample trxRequest_def)

theorem energy_roundtrip_witness:
  "\<exists>e'. trxToEnergy trxEnv (energyToTRX trxEnv (65000 / 7) 420) 420 () = (Val e', ()) \<and> \<bar>e' - 65000 / 7\<bar> \<le> 1 / 10 ^ 10"
  by (rule energy_roundtrip [OF trxEnv_div]) simp

theorem bandwidth_price_fits_one_fee_witness:
  "\<exists>x. bandwidthToTRX evmEnv 300 420 () = (Val x, ()) \<and> x \<noteq> 300 * newFromInt 420 / 1000000"
  using bandwidth_price_fits_one_fee [of evmEnv 420 300 "()"] by (simp add: evmEnv_def)

theorem stakes_are_counted_repeatedly_witness:
  "\<exists>r. countStaked evmEnv \<lparr>cpEnergyFee = 420, cpTransactionFee = 1000, cpTotalEnergyCurrentLimit = 1000, cpFreeNetLimit = 600,
       cpCreateNewAccountFeeInSystemContract = 0, cpCreateAccountFee = 0\<rparr> trxAccount noTotals
     [(ResourceCode_ENERGY, 5), (ResourceCode_ENERGY, 7)] () = (Val r, ()) \<and> ttlEnergyTrx r = 17 \<and> ttlTrx r = 22"
  using stakes_are_counted_repeatedly [of evmEnv "\<lparr>cpEnergyFee = 420, cpTransactionFee = 1000, cpTotalEnergyCurrentLimit = 1000,
    cpFreeNetLimit = 600, cpCreateNewAccountFeeInSystemContract = 0, cpCreateAccountFee = 0\<rparr>" trxAccount 5 7 "()"]
  by (simp add: evmEnv_def trxAccount_def newFromInt_def) metis

theorem operations_within_resources_witness:
  "uint (getMaxOperationsCount 1600000 9250) = 10"
  using operations_within_resources [of 1600000 9250] by simp linarith

end
