(* ===== verification/TronRun.thy ===== *)
theory TronRun
  imports TronCalls EvmRun TronResFacts
begin

text \<open>
  The properties of the machine of Tron: how often a run submits the transfer, what its steps submit,
  and how the compensation after a failure goes on.
\<close>

section \<open>Whole runs\<close>

lemma tron_stages: "wStages (tron_newFSM p t w) = fold restoreState (StepsStates (trSnapshot t)) tronStages"
  by (simp add: tron_newFSM_def setSnapshot_def)

lemma tron_fresh: "freshStages tronStages"
  by (simp add: freshStages_def tronStages_def newStep_def tron_names)

lemmas tron_init = fresh_init [OF tron_stages tron_fresh]
  and tron_retries = fresh_retries [OF tron_stages tron_fresh]
  and tron_bounded = fresh_bounded [OF tron_stages tron_fresh]

lemma keeps_tron_onFailure:
  assumes "offSystem v"
  shows "keeps v (tron_onFailure p e)"
  unfolding tron_onFailure_def startCompensation_def setNextStep_def setNextStage_def
  using assms
  by (intro keeps_tron keeps_modS offSystemD [OF assms]) (auto simp: offSystem_def offSteps_def split: option.split)

lemma tron_runFinish_keeps: "offSystem v \<Longrightarrow> v (snd (runFinish (tronHooks p) r s)) = v s"
proof -
  assume v: "offSystem v"
  have "v s' = v s" if "tron_onFailure p e s = (r', s')" for e r' s'
    by (rule keepsD [OF keeps_tron_onFailure [OF v] that])
  then show ?thesis
    by (auto simp: runFinish_def tronHooks_def split: outcome.splits prod.splits)
qed

text \<open>
  C22. Whatever the snapshot of the transfer, the database and the node do, a run of the machine of Tron
  ends, and it submits the transfer at most once.
\<close>

theorem tron_run_submits_once:
  "\<exists>r s'. tron_runFSM p Ended t w = Some (r, s') \<and> tron_sentFor TxTypeTransfer s' \<le> 1"
proof -
  let ?m = "tron_newFSM p t w"
  let ?w0 = "?m\<lparr>wStages := map initStage (wStages ?m)\<rparr>"
  obtain r1 s1 where e: "execute (tronHooks p) ?m = Some (r1, s1)"
    and b: "tron_sentFor TxTypeTransfer s1 \<le> tron_sentFor TxTypeTransfer ?m + tron_sent.allow ?w0"
    using tron_sent.execute_allow [OF tron_init tron_bounded, of p p t w] by (metis prod.collapse)
  have "tron_sentFor k ?m = 0" for k by (simp add: tron_newFSM_def setSnapshot_def tron_sentFor_def)
  moreover have "tron_sent.allow ?w0 \<le> nat 1" by (rule tron_sent.allow_le [OF tron_retries])
  moreover have "tron_sentFor TxTypeTransfer (snd (runFinish (tronHooks p) r s1)) = tron_sentFor TxTypeTransfer s1" for r
    by (rule tron_runFinish_keeps) simp
  ultimately show ?thesis using e b
    by (cases "runFinish (tronHooks p) r1 s1") (simp add: tron_runFSM_def runWorkflow_def, metis le_trans snd_conv)
qed

text \<open>The stages as the run starts with them: those of the machine, with the restored states.\<close>

lemma tron_stage:
  assumes "i < 4"
  shows "\<exists>sg. stageAt ((tron_newFSM p t w)\<lparr>wStages := map initStage (wStages (tron_newFSM p t w))\<rparr>) i = Some sg \<and>
    sgName sg = sgName (tronStages ! i) \<and> length (sgSteps sg) = length (sgSteps (tronStages ! i))"
  using assms
  by (auto simp: stageAt_def tron_stages fold_restoreState initStage_def less_Suc_eq numeral_eq_Suc tronStages_def)

lemma tron_length: "length (wStages (tron_newFSM p t w)) = 4"
  by (simp add: tron_stages fold_restoreState tronStages_def)

lemma tron_finish:
  assumes "execute (tronHooks p) (tron_newFSM p t w) = Some (r1, s1)"
  shows "\<exists>r s'. tron_runFSM p Ended t w = Some (r, s') \<and> tron_sentFor k s' = tron_sentFor k s1"
proof -
  have "tron_sentFor k (snd (runFinish (tronHooks p) r1 s1)) = tron_sentFor k s1"
  proof -
    have "offWorld (tron_sentFor k)" by simp
    have "tfSent (snd (runFinish (tronHooks p) r1 s1)) = tfSent s1"
    proof -
      have "keeps tfSent (tron_onFailure p e)" for e
        unfolding tron_onFailure_def startCompensation_def setNextStep_def setNextStage_def
        by (intro keeps_tron keeps_modS) (auto simp: offWorld_def split: option.split)
      then have "tfSent s' = tfSent s" if "tron_onFailure p e s = (r', s')" for e s r' s'
        using that by (rule keepsD)
      then show ?thesis
        by (auto simp: runFinish_def tronHooks_def split: outcome.splits prod.splits)
    qed
    then show ?thesis by (simp add: tron_sentFor_def)
  qed
  with assms show ?thesis
    by (cases "runFinish (tronHooks p) r1 s1") (simp add: tron_runFSM_def runWorkflow_def)
qed

text \<open>The rest of a run from the stages on.\<close>

lemma tron_execute:
  fixes p :: "'e tron_params"
  assumes "\<not> checkStatus (tron_newFSM p t w)"
  defines "w0 \<equiv> (tron_newFSM p t w)\<lparr>wStages := map initStage (wStages (tron_newFSM p t w))\<rparr>"
  assumes "runStages (tronHooks p) [0..<4] w0 = Some (e, w2)"
  shows "\<exists>r1 s1. execute (tronHooks p) (tron_newFSM p t w) = Some (r1, s1) \<and> tfSent s1 = tfSent w2"
proof -
  have "keeps tfSent (saveSnapshot (tpEnv p))" by (rule keeps_tron_snapshot) (simp add: offWorld_def)
  then have "tfSent s2 = tfSent s" if "saveSnapshot (tpEnv p) s = (r, s2)" for s s2 r
    using that by (rule keepsD)
  then show ?thesis
    using assms(1,3) unfolding execute_def tron_init w0_def
    by (auto simp: tron_length checkStatus_def tronHooks_none runOpt_def ret_def Let_def
        split: stages_end.split prod.split outcome.split)
qed

text \<open>
  C25. A run that starts with the compensation never submits the transfer: the stages before are passed by.
\<close>

theorem tron_compensation_never_sends:
  assumes "NextStage (WorkflowState (trSnapshot t)) = tron_stageCompensate"
  shows "\<exists>r s'. tron_runFSM p Ended t w = Some (r, s') \<and> tron_sentFor TxTypeTransfer s' = 0"
proof -
  let ?m = "tron_newFSM p t w" and ?h = "tronHooks p"
  let ?w0 = "?m\<lparr>wStages := map initStage (wStages ?m)\<rparr>"
  have z: "tron_sentFor TxTypeTransfer ?w0 = 0" by (simp add: tron_newFSM_def setSnapshot_def tron_sentFor_def)
  have n: "wState ?w0 = WorkflowState (trSnapshot t)" by (simp add: tron_newFSM_def setSnapshot_def)
  obtain y where y: "runStages ?h [3] ?w0 = Some y" and vy: "tron_sentFor TxTypeTransfer (snd y) \<le> tron_sentFor TxTypeTransfer ?w0"
    using tron_sent.runStages_allow [OF tron_bounded, of "[3]" p p t w] by auto
  show ?thesis
  proof (cases "checkStatus ?w0")
    case True
    then have "execute ?h ?m = Some (Val (), ?w0)" unfolding execute_def tron_init by simp
    from tron_finish [OF this, of TxTypeTransfer] z show ?thesis by simp
  next
    case False
    have "\<exists>y. runStages ?h [0..<4] ?w0 = Some y \<and> tron_sentFor TxTypeTransfer (snd y) = 0"
    proof (cases "hStopped ?h ?w0")
      case True
      with z show ?thesis by (simp add: upt_conv_Cons)
    next
      case nostop: False
      have "\<forall>i\<in>set [0, 1, 2]. \<exists>sg. stageAt ?w0 i = Some sg \<and> NextStage (wState ?w0) \<noteq> sgName sg"
        using tron_stage [of 0 p t w] tron_stage [of 1 p t w] tron_stage [of 2 p t w] assms n
        by (auto simp: tronStages_def tron_names)
      then have "runStages ?h ([0, 1, 2] @ [3]) ?w0 = runStages ?h [3] ?w0"
        by (rule runStages_others [OF _ _ False nostop]) (simp add: n assms tron_stageCompensate_def)
      moreover have "[0..<4] = [0, 1, 2] @ [3 :: nat]" by (simp add: upt_conv_Cons)
      ultimately show ?thesis using y vy z by (simp del: runStages.simps)
    qed
    then obtain e w2 where r: "runStages ?h [0..<4] ?w0 = Some (e, w2)" "tron_sentFor TxTypeTransfer w2 = 0" by auto
    have c: "\<not> checkStatus ?m" using False by (simp add: checkStatus_def)
    obtain r1 s1 where "execute ?h ?m = Some (r1, s1)" "tfSent s1 = tfSent w2"
      using tron_execute [OF c r(1)] by blast
    with tron_finish [OF this(1), of TxTypeTransfer] r(2) show ?thesis by (simp add: tron_sentFor_def)
  qed
qed

text \<open>The state in which a run starts the step of sending, before the hooks of the step.\<close>

definition sendingStart :: "'e tron_params \<Rightarrow> transfer \<Rightarrow> 'e world \<Rightarrow> 'e tron_fsm" where
  "sendingStart p t w =
     (let m = tron_newFSM p t w; w0 = m\<lparr>wStages := map initStage (wStages m)\<rparr> in
      stepEnter 1 0 (updState 1 0 (setStartTime (envNow (tpEnv p) (wdExt w))) w0))"

lemma tron_sendingStep:
  "\<exists>ss. stepAt ((tron_newFSM p t w)\<lparr>wStages := map initStage (wStages (tron_newFSM p t w))\<rparr>) 1 0 =
     Some \<lparr>spName = tron_stepSending, spTimeout = second, spMaxRetries = 1, spRetryPolicy = Some RunWithLinear,
           spFinish = False, spState = Some ss\<rparr>"
  by (simp add: stepAt_def stageAt_def tron_stages fold_restoreState initStage_def initStep_def setDefaultValues_def
      tronStages_def newStep_def Let_def)

lemma once_linear:
  "runPolicy h RunWithLinear st fn s = Some (case fn s of (Val u, s1) \<Rightarrow> (Val (), s1) | (Err e, s1) \<Rightarrow> (Err e, s1) | (Panic q, s1) \<Rightarrow> (Panic q, s1))"
  if "spMaxRetries st = 1"
  unfolding runPolicy_def
  by (simp add: that runWithLinear.simps [of _ 1] split: prod.split outcome.split)

lemma handleStep_sending:
  assumes "stepAt w 1 0 = Some st" and "spRetryPolicy st = Some RunWithLinear" and "spMaxRetries st = 1" and "spFinish st = False"
    and "statusAt w 1 0 = Some StatusFailed" and "NextStep (wState w) = ''''" and "\<not> checkStatus w"
    and "saveSnapshot (tpEnv p) (stepEnter 1 0 (updState 1 0 (setStartTime (hNow (tronHooks p) w)) w)) = (Val (), s1)"
    and "tron_sending p s1 = (r1, s2)"
  shows "\<exists>res w'. handleStep (tronHooks p) 1 0 w = Some (res, w') \<and> tfSent w' = tfSent s2"
proof -
  have f: "hFunc (tronHooks p) 1 0 = Some (tron_sending p)" by (simp add: tronHooks_def tronFuncs_def)
  have b: "tronStepBefore p 1 0 = None" by (simp add: tronStepBefore_def)
  have "keeps tfSent (saveSnapshot (tpEnv p))" by (rule keeps_tron_snapshot) (simp add: offWorld_def)
  then have k: "tfSent s4 = tfSent s3" if "saveSnapshot (tpEnv p) s3 = (r, s4)" for s3 s4 r
    using that by (rule keepsD)
  have "\<exists>res w'. stepBody (tronHooks p) 1 0 st (sgName (wStages w ! 1)) (updState 1 0 (setStartTime (hNow (tronHooks p) w)) w) = Some (res, w')
    \<and> tfSent w' = tfSent s2"
    using assms(2-4,8,9) once_linear [OF assms(3), of "tronHooks p" "tron_sending p" s1]
    by (cases r1) (auto simp: stepBody_def f b tronHooks_none runOpt_def bnd_def ret_def simp del: One_nat_def
      split: outcome.split prod.split dest!: k)
  then obtain res w' where body: "stepBody (tronHooks p) 1 0 st (sgName (wStages w ! 1)) (updState 1 0 (setStartTime (hNow (tronHooks p) w)) w) = Some (res, w')"
    and w': "tfSent w' = tfSent s2" by blast
  have "tfSent (stepFinish (tronHooks p) 1 0 res w') = tfSent s2"
    using w' by (simp add: stepFinish_def Let_def split: outcome.split)
  with body w' assms(1,5-7) show ?thesis
    unfolding handleStep_def
    by (cases res) (auto simp: Let_def statusAt_def split: option.splits)
qed

text \<open>Whether nothing was submitted yet, as a counter.\<close>

abbreviation unsent :: "'e tron_fsm \<Rightarrow> nat" where
  "unsent s \<equiv> (if tron_sentFor TxTypeTransfer s = 0 then 1 else 0)"

interpretation tron_unsent: counted_hooks "tronHooks p" unsent 1 0 for p :: "'e tron_params"
  by (rule tron_counted) (simp_all add: offSystem_def offSteps_def offWorld_def)


end
