(* ===== verification/TronStuck.thy ===== *)
theory TronStuck
  imports TronRun
begin

text \<open>
  The failures of the machine of Tron: how they start the compensation, why one that waits is not taken up
  again, and the orders of resources whose failure is one of them.
\<close>

section \<open>The current step during the compensation\<close>

definition stepNames :: "stage list \<Rightarrow> (string \<times> string list) list" where
  "stepNames sgs = map (\<lambda>sg. (sgName sg, map spName (sgSteps sg))) sgs"

lemma stepNames_shape: "shape w = shape w' \<Longrightarrow> stepNames (wStages w) = stepNames (wStages w')"
proof -
  have "stepNames (shape v) = stepNames (wStages v)" for v :: "'z workflow_scheme"
    by (simp add: shape_def stepNames_def bareStep_def o_def)
  moreover assume "shape w = shape w'"
  ultimately show ?thesis by metis
qed

lemma tron_stepNames:
  "stepNames (wStages ((tron_newFSM p t w)\<lparr>wStages := map initStage (wStages (tron_newFSM p t w))\<rparr>)) = stepNames tronStages"
  by (simp add: stepNames_def tron_stages fold_restoreState initStage_def initStep_def setDefaultValues_def Let_def o_def)

text \<open>A machine whose compensation waits for the confirmation of its reclaims.\<close>

definition waitsForReclaim :: "'a workflow_scheme \<Rightarrow> bool" where
  "waitsForReclaim m \<longleftrightarrow> statusAt m 3 2 = Some StatusFailed \<and> (\<exists>s. statusAt m 3 3 = Some s \<and> \<not> validStatus s)"

lemma statusAt_Some:
  "statusAt m i j = Some s \<longleftrightarrow> i < length (wStages m) \<and> j < length (sgSteps (wStages m ! i)) \<and>
     (\<exists>ss. spState (sgSteps (wStages m ! i) ! j) = Some ss \<and> Status ss = s)"
  by (auto simp: statusAt_def stepAt_def stageAt_def split: option.splits)

lemma current_compensation:
  assumes "stepNames (wStages m) = stepNames tronStages" and "k < 4" and "statusAt m 3 k = Some x" and "validStatus x"
    and "\<forall>j<4. k < j \<longrightarrow> (\<exists>s. statusAt m 3 j = Some s \<and> \<not> validStatus s)"
  shows "\<exists>sg st. currentStage m = (Val (Some sg), m) \<and> sgName sg = tron_stageCompensate \<and>
    currentStep m = (Val (Some st), m) \<and> spName st = spName (sgSteps (tronStages ! 3) ! k)"
proof -
  have len: "length (wStages m) = 4" using arg_cong [OF assms(1), of length] by (simp add: stepNames_def tronStages_def)
  then obtain g0 g1 g2 g3 where g: "wStages m = [g0, g1, g2, g3]" by (auto simp: length_Suc_conv numeral_eq_Suc)
  have n3: "map spName (sgSteps g3) = map spName (sgSteps (tronStages ! 3))" and nm: "sgName g3 = tron_stageCompensate"
    using assms(1) by (simp_all add: g stepNames_def tronStages_def)
  have l3: "length (sgSteps g3) = 4" using arg_cong [OF n3, of length] by (simp add: tronStages_def)
  let ?xs = "sgSteps g3" and ?bad = "\<lambda>st. \<exists>ss. spState st = Some ss \<and> \<not> validStatus (Status ss)"
  let ?good = "\<lambda>st. \<exists>ss. spState st = Some ss \<and> validStatus (Status ss)"
  obtain ss where ss: "spState (?xs ! k) = Some ss" "validStatus (Status ss)"
    using assms(3,4) unfolding statusAt_Some by (auto simp: g)
  have bad: "?bad (?xs ! j)" if "k < j" "j < 4" for j
    using assms(5) that unfolding statusAt_Some by (auto simp: g)
  have sp: "?xs = take k ?xs @ ?xs ! k # drop (Suc k) ?xs" using assms(2) l3 by (simp add: id_take_nth_drop)
  have later: "\<forall>st\<in>set (drop (Suc k) ?xs). ?bad st"
    using bad l3 by (auto simp: in_set_conv_nth)
  have rv: "rev ?xs = rev (drop (Suc k) ?xs) @ ?xs ! k # rev (take k ?xs)" by (subst sp) simp
  have dw: "dropWhile ?bad (rev ?xs @ ys) = ?xs ! k # rev (take k ?xs) @ ys" for ys
    unfolding rv append_assoc append_Cons by (subst dropWhile_append2) (use later ss in auto)
  have fl: "filter ?good (rev ?xs) = ?xs ! k # filter ?good (rev (take k ?xs))"
  proof -
    have "filter ?good (rev (drop (Suc k) ?xs)) = []" using later by (auto simp: filter_empty_conv)
    then show ?thesis unfolding rv using ss by simp
  qed
  have "stageValid g3" unfolding stageValid_def using ss assms(2) l3 by (auto intro!: bexI [OF _ nth_mem])
  then have cs: "currentStage m = (Val (Some g3), m)"
    using dw [of "rev (sgSteps g0 @ sgSteps g1 @ sgSteps g2)"] ss
    by (simp add: currentStage_def scanPanics_def allSteps_def g)
  have "length (sgSteps (tronStages ! 3)) = 4" by (simp add: tronStages_def)
  then have "spName (?xs ! k) = spName (sgSteps (tronStages ! 3) ! k)"
    using arg_cong [OF n3, of "\<lambda>ns. ns ! k"] assms(2) l3 by (simp del: nth_Cons_numeral)
  then show ?thesis
    using cs nm dw [of "[]"] fl ss by (simp add: currentStep_def bnd_def scanPanics_def ret_def)
qed

lemma current_reclaim:
  assumes "stepNames (wStages m) = stepNames tronStages" and "waitsForReclaim m"
  shows "\<exists>sg st. currentStage m = (Val (Some sg), m) \<and> sgName sg = tron_stageCompensate \<and>
    currentStep m = (Val (Some st), m) \<and> spName st = tron_stepWaitingReclaimOnError"
proof -
  have "\<forall>j<4. 2 < j \<longrightarrow> (\<exists>s. statusAt m 3 j = Some s \<and> \<not> validStatus s)"
    using assms(2) by (auto simp: waitsForReclaim_def less_Suc_eq numeral_eq_Suc)
  with current_compensation [OF assms(1), of 2 StatusFailed] assms(2) show ?thesis
    by (simp add: waitsForReclaim_def tronStages_def newStep_def)
qed

lemma refused_prepare:
  assumes "stepNames (wStages m) = stepNames tronStages" and "waitsForReclaim m"
  shows "fst (tron_prepareTransferTransactionTypeByStep m) \<noteq> Val ty"
proof -
  obtain st where "currentStep m = (Val (Some st), m)" "spName st = tron_stepWaitingReclaimOnError"
    using current_reclaim [OF assms] by blast
  then show ?thesis
    unfolding tron_prepareTransferTransactionTypeByStep_def bnd_def by (simp add: deref_def op_defs Let_def tron_names)
qed

text \<open>What a step that refuses leaves alone of the workflow's own fields and of the record.\<close>

definition fixedPart :: "'e tron_fsm \<Rightarrow> workflow_state \<times> bool \<times> (tx_type \<times> tron_call) list" where
  "fixedPart s = (wState s, wSkipError s, tfSent s)"

lemma fixedPart_off: "offWorld fixedPart"
  by (simp add: offWorld_def fixedPart_def)

lemma wSkip_updState [simp]: "wSkipError (updState i j f w) = wSkipError w"
  by (simp add: updState_def)

lemma fixedPart_upd [simp]:
  "fixedPart (updState i j f s) = fixedPart s" "fixedPart (s\<lparr>wStages := x\<rparr>) = fixedPart s" "fixedPart (s\<lparr>wPrevStep := y\<rparr>) = fixedPart s"
  by (simp_all add: fixedPart_def)

lemma fixedPart_enter [simp]: "fixedPart (stepEnter i j s) = fixedPart s"
  by (simp add: stepEnter_def Let_def split: option.split prod.split)

lemma fixedPart_snapshot: "saveSnapshot env s = (r, s') \<Longrightarrow> fixedPart s' = fixedPart s"
  by (rule keepsD [OF keeps_tron_snapshot [OF fixedPart_off]])

text \<open>The step of sending, refused.\<close>

lemma refused_attempt:
  assumes "stepNames (wStages s) = stepNames tronStages" and "waitsForReclaim s" and "tron_sending p s = (r, s')"
  shows "fixedPart s' = fixedPart s" and "r \<noteq> Val u"
proof -
  have "stagesSent s' = stagesSent s \<and> (\<forall>x. r \<noteq> Val x)"
    using sending_refused [of s p] refused_prepare [OF assms(1,2)] assms(3) unfolding refuses_def by fastforce
  moreover have "keeps (\<lambda>s. wSkipError s) (tron_sending p)" "keeps (\<lambda>s. wState s) (tron_sending p)"
    by (rule keeps_tron_sending; simp add: offWorld_def)+
  then have "wSkipError s' = wSkipError s" "wState s' = wState s" using assms(3) by (auto dest: keepsD)
  ultimately show "fixedPart s' = fixedPart s" and "r \<noteq> Val u" by (simp_all add: fixedPart_def stagesSent_def)
qed

lemma waits_enter:
  fixes w :: "'e tron_fsm"
  assumes "waitsForReclaim w"
  shows "waitsForReclaim (stepEnter 1 0 (updState 1 0 f w))"
proof -
  have "statusAt (stepEnter 1 0 (updState 1 0 f w)) 3 j = statusAt w 3 j" for j
    by (simp add: tron.stepEnter_effect(2) statusAt_updState_other)
  with assms show ?thesis by (simp add: waitsForReclaim_def)
qed

lemma waits_frame: "frame w = frame w' \<Longrightarrow> waitsForReclaim w = waitsForReclaim w'"
  unfolding waitsForReclaim_def using statusAt_frame [of w w'] by simp

lemma refused_body:
  assumes "stepBody (tronHooks p) 1 0 st nm (updState 1 0 f w) = Some (res, w1)"
    and "stepNames (wStages w) = stepNames tronStages" and "waitsForReclaim w" and "spMaxRetries st = 1"
    and "spRetryPolicy st = Some RunWithLinear"
  shows "fixedPart w1 = fixedPart w" and "res \<noteq> Val u"
proof -
  let ?e = "stepEnter 1 0 (updState 1 0 f w)"
  obtain r1 s1 where s1: "saveSnapshot (tpEnv p) ?e = (r1, s1)" by (rule prod.exhaust)
  obtain r2 s2 where s2: "tron_sending p s1 = (r2, s2)" by (rule prod.exhaust)
  obtain r3 s3 where s3: "saveSnapshot (tpEnv p) s2 = (r3, s3)" by (rule prod.exhaust)
  have v1: "fixedPart s1 = fixedPart w" using fixedPart_snapshot [OF s1] by simp
  have f1: "frame s1 = frame ?e" by (rule keepsD [OF keeps_frame_saveSnapshot s1])
  have "stepNames (wStages s1) = stepNames tronStages"
    using stepNames_shape [of s1 w] shape_of_frame [OF f1] assms(2) by (simp add: tron.stepEnter_effect(1))
  moreover have "waitsForReclaim s1" using waits_frame [OF f1] waits_enter [OF assms(3)] by simp
  ultimately have v2: "fixedPart s2 = fixedPart s1" and nv: "r2 \<noteq> Val u" for u using refused_attempt [OF _ _ s2] by blast+
  have v3: "fixedPart s3 = fixedPart s2" by (rule fixedPart_snapshot [OF s3])
  have f: "hFunc (tronHooks p) 1 0 = Some (tron_sending p)" by (simp add: tronHooks_def tronFuncs_def)
  have b: "tronStepBefore p 1 0 = None" by (simp add: tronStepBefore_def)
  have body: "stepBody (tronHooks p) 1 0 st nm (updState 1 0 f w) =
     (case r1 of Err e \<Rightarrow> Some (Err e, s1) | Panic q \<Rightarrow> Some (Panic q, s1) | Val _ \<Rightarrow>
     (case r2 of Panic q \<Rightarrow> Some (Panic q, s2) | Val x \<Rightarrow> None | Err e \<Rightarrow>
     (case r3 of Err e' \<Rightarrow> Some (Err e', s3) | Panic q \<Rightarrow> Some (Panic q, s3)
        | Val _ \<Rightarrow> Some (Err (Wrapf (''stage ['' @ nm @ ''] failed on step ['' @ spName st @ '']: '') e), s3))))"
    using s2 s3 nv once_linear [OF assms(4), of "tronHooks p" "tron_sending p" s1]
    by (cases r1; cases r2; cases r3)
      (simp_all add: stepBody_def f b tronHooks_none runOpt_def bnd_def ret_def s1 Let_def assms(5) del: One_nat_def)
  show "fixedPart w1 = fixedPart w" and "res \<noteq> Val u"
    using assms(1) v1 v2 v3 nv unfolding body by (auto split: outcome.split_asm)
qed

text \<open>
  A compensation that has been entered and waits: nothing is requested, the step of sending has failed,
  the waiting step has failed with its pause, and the failure has not been reported.
\<close>

definition stuckCompensation :: "'a workflow_scheme \<Rightarrow> bool" where
  "stuckCompensation m \<longleftrightarrow> NextStage (wState m) = '''' \<and> NextStep (wState m) = '''' \<and> \<not> checkStatus m \<and>
     (\<forall>j<14. \<exists>s. statusAt m 0 j = Some s \<and> settled s) \<and> statusAt m 1 0 = Some StatusFailed \<and>
     statusAt m 3 2 = Some StatusFailed \<and> (\<forall>s. statusAt m 3 3 = Some s \<longrightarrow> \<not> validStatus s)"

text \<open>The machine as the engine initialises it, and a result that is no signal between the engine and its machine.\<close>

definition started :: "'e tron_params \<Rightarrow> transfer \<Rightarrow> 'e world \<Rightarrow> 'e tron_fsm" where
  "started p t w = (tron_newFSM p t w)\<lparr>wStages := map initStage (wStages (tron_newFSM p t w))\<rparr>"

definition ordinary :: "unit outcome \<Rightarrow> bool" where
  "ordinary res \<longleftrightarrow> (case res of
      Val _ \<Rightarrow> True | Panic _ \<Rightarrow> False
    | Err e \<Rightarrow> errAsFailed e = None \<and> \<not> errIs e ErrSkipStep \<and> \<not> errIs e ErrBreakStages \<and> \<not> errIs e ErrExitWorkflow \<and> \<not> errIs e ErrSkipStage)"

lemma started_waits:
  assumes "stuckCompensation (tron_newFSM p t w)"
  shows "waitsForReclaim (started p t w)"
proof -
  have "statusAt (started p t w) 3 2 = Some StatusFailed"
    unfolding started_def by (rule initWorkflow_status [OF tron_init]) (use assms in \<open>simp add: stuckCompensation_def\<close>)
  moreover have "\<exists>s. statusAt (started p t w) 3 3 = Some s \<and> \<not> validStatus s"
  proof (cases "statusAt (tron_newFSM p t w) 3 3")
    case None
    then show ?thesis
      by (auto simp: started_def statusAt_def stepAt_def stageAt_def initStage_def initStep_state newStepState_def
          tron_stages fold_restoreState tronStages_def newStep_def)
  next
    case (Some s)
    then have "statusAt (started p t w) 3 3 = Some s" unfolding started_def by (rule initWorkflow_status [OF tron_init])
    with Some assms show ?thesis by (simp add: stuckCompensation_def)
  qed
  ultimately show ?thesis by (simp add: waitsForReclaim_def)
qed

lemma refused_step:
  assumes "handleStep (tronHooks p) 1 0 w = Some (res, w1)" and "ordinary res"
    and "stepAt w 1 0 = Some st" and "spMaxRetries st = 1" and "spRetryPolicy st = Some RunWithLinear"
    and "stepNames (wStages w) = stepNames tronStages" and "waitsForReclaim w"
    and "statusAt w 1 0 = Some StatusFailed" and "NextStep (wState w) = ''''" and "\<not> checkStatus w"
  shows "fixedPart w1 = fixedPart w" and "\<exists>e. res = Err e" and "statusAt w1 1 0 = Some StatusFailed"
proof -
  obtain ss where ss: "spState st = Some ss" "Status ss = StatusFailed"
    using assms(3,8) by (auto simp: statusAt_def)
  obtain r4 w4 where b: "stepBody (tronHooks p) 1 0 st (sgName (wStages w ! 1)) (updState 1 0 (setStartTime (hNow (tronHooks p) w)) w) = Some (r4, w4)"
    and res: "res = r4" "w1 = stepFinish (tronHooks p) 1 0 r4 w4"
    using assms(1,2,3,9,10) ss unfolding handleStep_def
    by (auto simp: Let_def ordinary_def split: option.split_asm outcome.split_asm prod.split_asm)
  note body = refused_body [OF b assms(6,7,4,5)]
  have fin: "fixedPart (stepFinish (tronHooks p) 1 0 r4 w4) = fixedPart w4"
    by (simp add: stepFinish_def Let_def split: outcome.split)
  show "fixedPart w1 = fixedPart w" using fin body(1) res by simp
  show e: "\<exists>e. res = Err e" using body(2) res assms(2) by (cases r4) (auto simp: ordinary_def)
  show "statusAt w1 1 0 = Some StatusFailed"
    using tron.handleStep_due [OF assms(1,3) ss(1)] ss assms(2,9,10) e by (auto simp: settled_def ordinary_def)
qed

lemma stuck_keeps:
  fixes w w' :: "'e tron_fsm"
  assumes "frame w' = frame w" and "fixedPart w' = fixedPart w"
  shows "stuckCompensation w' = stuckCompensation w" "waitsForReclaim w' = waitsForReclaim w" "stepNames (wStages w') = stepNames (wStages w)"
  using statusAt_frame [OF assms(1)] waits_frame [OF assms(1)] stepNames_shape [OF shape_of_frame [OF assms(1)]] assms(2)
  by (simp_all add: stuckCompensation_def fixedPart_def checkStatus_def)

text \<open>The failure handler does nothing for an ordinary error while the compensation waits.\<close>

lemma stuck_failure:
  fixes s :: "'e tron_fsm"
  assumes "stepNames (wStages s) = stepNames tronStages" and "waitsForReclaim s" and "errAsFailed e = None"
  shows "tron_onFailure p e s = (Err e, s\<lparr>wState := setWfError (Some e) (wState s)\<rparr>)"
proof -
  let ?s = "s\<lparr>wState := setWfError (Some e) (wState s)\<rparr>"
  have w: "waitsForReclaim ?s" using waits_frame [of ?s s] assms(2) by (simp add: frame_state)
  obtain sg st where c: "currentStage ?s = (Val (Some sg), ?s)" "sgName sg = tron_stageCompensate" "currentStep ?s = (Val (Some st), ?s)"
    using current_reclaim [OF _ w] assms(1) by auto
  have x: "tron_exitOnFailedSteps tron_stageCompensate = None" by (simp add: tron_exitOnFailedSteps_def tron_names)
  show ?thesis
    unfolding tron_onFailure_def bnd_def modS_def by (simp add: assms(3) c x fail_def)
qed

text \<open>
  C26. A compensation that has to wait for its reclaims is not taken up again: as long as sending failed, every
  further run repeats the step of sending instead, which cannot even record a transaction because
  the current step is one of the compensation; the run fails, submits nothing, and leaves the machine in
  the same situation, so that the failure of the transfer is never reported.
\<close>

theorem compensation_never_ends:
  assumes "stuckCompensation (tron_newFSM p t w)" and "\<forall>x. \<not> envStopped (tpEnv p) x"
    and "\<forall>res w1. handleStep (tronHooks p) 1 0 (started p t w) = Some (res, w1) \<longrightarrow> ordinary res"
  shows "\<exists>r s'. tron_runFSM p Ended t w = Some (r, s') \<and> (\<forall>u. r \<noteq> Val u) \<and> tfSent s' = [] \<and> stuckCompensation s'"
proof -
  let ?m = "tron_newFSM p t w" and ?h = "tronHooks p"
  define w0 where "w0 = started p t w"
  note w0' = w0_def [unfolded started_def]
  have st0: "statusAt w0 i j = Some x" if "statusAt ?m i j = Some x" for i j x
    unfolding w0' by (rule initWorkflow_status [OF tron_init that])
  have ws: "wState w0 = wState ?m" by (simp add: w0')
  have n: "NextStage (wState w0) = ''''" "NextStep (wState w0) = ''''" and c: "\<not> checkStatus w0"
    using assms(1) ws by (simp_all add: stuckCompensation_def checkStatus_def)
  have ns: "\<not> hStopped ?h x" for x using assms(2) by (simp add: tronHooks_def)
  have nm: "stepNames (wStages w0) = stepNames tronStages" unfolding w0' by (rule tron_stepNames)
  have wt: "waitsForReclaim w0" unfolding w0_def by (rule started_waits [OF assms(1)])
  have failed: "statusAt w0 1 0 = Some StatusFailed" using st0 assms(1) by (simp add: stuckCompensation_def)
  have done0: "\<exists>s. statusAt w0 0 j = Some s \<and> settled s" if "j < 14" for j
    using assms(1) that st0 unfolding stuckCompensation_def by blast
  obtain sg0 where sg0: "stageAt w0 0 = Some sg0" "length (sgSteps sg0) = 14"
    using tron_stage [of 0 p t w] by (auto simp: w0' tronStages_def)
  have h0: "handleStage ?h 0 w0 = Some (Val (), w0)"
    by (rule handleStage_over [OF sg0(1)]) (use sg0 done0 n c ns in \<open>auto simp: tronHooks_none\<close>)
  obtain sg1 where sg1: "stageAt w0 1 = Some sg1" "length (sgSteps sg1) = 1"
    using tron_stage [of 1 p t w] by (auto simp: w0' tronStages_def)
  obtain st where st: "stepAt w0 1 0 = Some st" "spRetryPolicy st = Some RunWithLinear" "spMaxRetries st = 1"
    using tron_sendingStep [of p t w] by (auto simp: w0')
  obtain res w1 where hs: "handleStep ?h 1 0 w0 = Some (res, w1)"
    using tron_sent.handleStep_allow [of w0 p 1 0] tron_bounded [of p t w] by (auto simp: w0')
  have ord: "ordinary res" using assms(3) hs by (simp add: w0_def)
  note refused = refused_step [OF hs ord st(1,3,2) nm wt failed n(2) c]
  then obtain e where e: "res = Err e" by blast
  have ee: "errAsFailed e = None" "\<not> errIs e ErrSkipStep" "\<not> errIs e ErrBreakStages" "\<not> errIs e ErrExitWorkflow" "\<not> errIs e ErrSkipStage"
    using ord e by (simp_all add: ordinary_def)
  have "sgSteps sg1 \<noteq> []" using sg1(2) by auto
  then have h1: "handleStage ?h 1 w0 = Some (Err e, w1)"
    using hs sg1 n c ns e ee by (auto simp: handleStage_def Let_def tronHooks_none runOpt_def ret_def)
  have "[0..<4] = [0, 1, 2, 3 :: nat]" by (simp add: upt_conv_Cons)
  then have run: "runStages ?h [0..<4] w0 = Some (Broke (Some e), w1)"
    using h0 h1 ns ee by (simp add: runStages.simps(2) [of _ 0] runStages.simps(2) [of _ "Suc 0"] del: runStages.simps)
  obtain r4 w4 where sv: "saveSnapshot (tpEnv p) w1 = (r4, w4)" by (rule prod.exhaust)
  define r5 :: "unit outcome" where "r5 = (case r4 of Panic q \<Rightarrow> Panic q | _ \<Rightarrow> Err e)"
  have ex: "execute ?h ?m = Some (r5, w4)"
    using run sv c unfolding execute_def tron_init w0' r5_def
    by (auto simp: tron_length checkStatus_def tronHooks_none runOpt_def ret_def Let_def errOutcome_def split: outcome.split)
  have "stuckCompensation w1"
  proof -
    have "statusAt w1 i j = statusAt w0 i j" if "(i, j) \<noteq> (1, 0)" for i j by (rule tron.handleStep_effect(2) [OF hs that])
    then show ?thesis
      using refused(1,3) done0 n c wt by (auto simp: stuckCompensation_def fixedPart_def waitsForReclaim_def checkStatus_def)
  qed
  moreover have w1: "waitsForReclaim w1" "stepNames (wStages w1) = stepNames tronStages"
    using tron.handleStep_effect(2) [OF hs] wt stepNames_shape [OF tron.handleStep_effect(1) [OF hs]] nm
    by (simp_all add: waitsForReclaim_def)
  moreover have k: "frame w4 = frame w1" "fixedPart w4 = fixedPart w1"
    by (rule keepsD [OF keeps_frame_saveSnapshot sv], rule fixedPart_snapshot [OF sv])
  ultimately have w4: "stuckCompensation w4" "waitsForReclaim w4" "stepNames (wStages w4) = stepNames tronStages"
    using stuck_keeps [OF k] by simp_all
  have sent: "tfSent w4 = []" "\<not> wSkipError w4"
    using refused(1) k(2) by (simp_all add: fixedPart_def w0' tron_newFSM_def setSnapshot_def)
  have f: "tron_onFailure p e w4 = (Err e, w4\<lparr>wState := setWfError (Some e) (wState w4)\<rparr>)"
    by (rule stuck_failure [OF w4(3,2) ee(1)])
  have "stuckCompensation (w4\<lparr>wState := setWfError (Some e) (wState w4)\<rparr>)"
    using w4(1) by (simp add: stuckCompensation_def checkStatus_def setWfError_def)
  moreover have "tron_runFSM p Ended t w = Some (runFinish ?h r5 w4)"
    unfolding tron_runFSM_def runWorkflow_def by (simp add: ex)
  ultimately show ?thesis
    using w4(1) sent f by (cases r4) (auto simp: r5_def runFinish_def tronHooks_def)
qed

section \<open>Orders of resources\<close>

lemma retryCall_Val:
  assumes "retryCall r m s = (Val a, s')" and "boundedPolicy (rtPolicy r)" and "rtOnSuccess r = None"
  shows "\<exists>s0. m s0 = (Val a, s')"
proof -
  let ?fn = "\<lambda>(y, v). case m y of (Val a, y') \<Rightarrow> (Val (), (y', Some a))
        | (Err e, y') \<Rightarrow> (Err e, (y', None)) | (Panic q, y') \<Rightarrow> (Panic q, (y', None))"
  from assms(1) obtain y v where d: "retryDo r (Some ?fn) (s, None) = Some (Val (), (y, v))" and v: "deref v y = (Val a, s')"
    by (auto simp: retryCall_def split: option.split_asm prod.split_asm outcome.split_asm)
  have y: "v = Some a" "y = s'" using v by (auto simp: deref_def op_defs split: option.split_asm)
  have "\<exists>z. ?fn z = (Val (), (y, v))"
    using d assms(2,3) lin.nil_result [of r ?fn 1 "(s, None)"] expo.nil_result [of r ?fn 1 "(s, None)"]
    by (auto simp: retryDo_def linearRetry_def backoffRetry_def boundedPolicy_def runHook_def
        split: if_split_asm prod.split_asm outcome.split_asm)
  then obtain y0 v0 where "?fn (y0, v0) = (Val (), (y, v))" by auto
  with y show ?thesis by (cases "m y0"; cases "fst (m y0)") auto
qed

text \<open>The resource manager has delivered an order.\<close>

definition orderDelivered :: "'e tron_params \<Rightarrow> string \<Rightarrow> bool" where
  "orderDelivered p orderID \<longleftrightarrow> (\<exists>x order x'. tpGetOrder p orderID x = (Val order, x') \<and>
     (odStatus order = ORDER_STATUS_FULFILLED \<or> odStatus order = ORDER_STATUS_COMPLETED \<and>
        odType order \<noteq> ORDER_TYPE_TRON_ENERGY_DELEGATION \<and> odType order \<noteq> ORDER_TYPE_TRON_BANDWIDTH_DELEGATION))"

lemma fsmRetry_linear:
  "boundedPolicy (rtPolicy (fsmRetry env [withMaxAttempts n, withPolicy PolicyLinear]))"
  "rtOnSuccess (fsmRetry env [withMaxAttempts n, withPolicy PolicyLinear]) = None"
  by (simp_all add: fsmRetry_def newRetry_def retry_option_defs boundedPolicy_def)

lemma failTransfer_not_Val: "failTransfer e s \<noteq> (Val u, s')"
  by (simp add: failTransfer_def bnd_Val fail_def)

lemma externalOrder_Val:
  assumes "checkExternalOrderStatus p orderID s = (Val (), s')"
  shows "orderDelivered p orderID"
proof -
  let ?m = "catchErr (liftE (tpGetOrder p orderID)) (\<lambda>e. if \<not> isNetworkError (tpTimeout p) e then fail ErrExit else fail e)"
  from assms obtain order s1 where r: "retryCall (fsmRetry (tpEnv p) [withMaxAttempts 2, withPolicy PolicyLinear]) ?m s = (Val order, s1)"
    and ok: "odStatus order = ORDER_STATUS_FULFILLED \<or> odStatus order = ORDER_STATUS_COMPLETED \<and>
        odType order \<noteq> ORDER_TYPE_TRON_ENERGY_DELEGATION \<and> odType order \<noteq> ORDER_TYPE_TRON_BANDWIDTH_DELEGATION"
    unfolding checkExternalOrderStatus_def bnd_Val tryE_Val
    by (auto simp: failTransfer_not_Val fail_def split: order_status.split_asm if_split_asm)
  obtain s0 where "?m s0 = (Val order, s1)" using retryCall_Val [OF r fsmRetry_linear] by blast
  then obtain x x' where "tpGetOrder p orderID x = (Val order, x')"
    by (auto simp: catchErr_def liftE_def liftExt_def liftW_def fail_def split: prod.split_asm outcome.split_asm if_split_asm)
  with ok show ?thesis by (auto simp: orderDelivered_def)
qed

lemma groupRun_Val: "groupRun ms s = (Val (), s') \<Longrightarrow> m \<in> set ms \<Longrightarrow> \<exists>s1 s2. m s1 = (Val (), s2)"
proof (induction ms arbitrary: s)
  case (Cons n ms)
  from Cons.prems(1) obtain s1 where n: "n s = (Val (), s1)" and r: "groupRun ms s1 = (Val (), s')"
    by (auto simp: bothRun_def split: prod.split_asm outcome.split_asm)
  show ?case using Cons.prems(2) Cons.IH [OF r] n by auto
qed simp


section \<open>Failures\<close>

lemma failedTransferJSON_read: "isFailedTransferJSON (failedTransferJSON sg st msg)"
  by (simp add: isFailedTransferJSON_def failedTransferJSON_def strOfVal_def)

lemma startCompensation_state:
  assumes "startCompensation p c s = (r, s')"
  shows "NextStage (wState s') = tron_stageCompensate \<and> NextStep (wState s') = tron_stepDetermine \<and>
    WfError (wState s') = WfError (wState s) \<and> (\<forall>e'. r \<noteq> Err e') \<and> (\<forall>v. c = Some v \<longrightarrow> CustomError (wState s') = Some v)"
proof -
  let ?s1 = "setNextStep tron_stepDetermine (setNextStage tron_stageCompensate
            (case c of None \<Rightarrow> s | Some v \<Rightarrow> s\<lparr>wState := (wState s)\<lparr>CustomError := Some v\<rparr>\<rparr>))"
  let ?rest = "bnd theTransfer (\<lambda>t. bnd getSnapshot (\<lambda>sh.
     ignoreErr (liftW (transfersSetWorkflowSnapshot (tpEnv p) False (trID t) sh)))) :: ('a tron_fsm) act"
  have run: "?rest ?s1 = (r, s')" using assms by (simp add: startCompensation_def bnd_def modS_def)
  have "keeps wState ?rest" by (intro keeps_tron) (simp add: offWorld_def)
  then have k: "wState s' = wState ?s1" using run by (rule keepsD)
  have "r \<noteq> Err e'" for e'
    using run by (auto simp: bnd_def theTransfer_def getSnapshot_def stepStates_def getS_def ignoreErr_def catchErr_def ret_def
      split: option.split_asm outcome.split_asm prod.split_asm if_split_asm)
  with k show ?thesis by (simp add: setNextStep_def setNextStage_def split: option.split)
qed


end
