(* ===== verification/TronProps.thy ===== *)
theory TronProps
  imports TronStuck
begin

text \<open>
  The properties of the machine of Tron at concrete transfers: sample snapshots, a sample world, and what
  the operations do there.
\<close>

section \<open>The properties at sample transfers\<close>

definition trxParams :: "unit tron_params" where
  "trxParams = \<lparr>tpTron = trxDemo, tpUseBurnTRXActivation = False, tpSeedEncryption = False, tpUseCacheForWallets = False,
     tpGetOrder = (\<lambda>oid x. (Val \<lparr>odOrderID = oid, odStatus = ORDER_STATUS_FULFILLED, odType = ORDER_TYPE_TRON_ENERGY_DELEGATION\<rparr>, x)),
     tpCodeNotFound = (\<lambda>_. False), tpTimeout = (\<lambda>_. False)\<rparr>"

lemma trx_params [simp]: "tpTron trxParams = trxDemo" "trnEnv trxDemo = trxEnv" "trnNode trxDemo = trxNode" "trnLib trxDemo = trxLib"
  by (simp_all add: trxParams_def trxDemo_def)

text \<open>The snapshot of a machine whose sending failed, with the states of compensation steps.\<close>

definition stateOf :: "string \<Rightarrow> string \<Rightarrow> step_status \<Rightarrow> step_state" where
  "stateOf sg st x = newStepState\<lparr>CurrentStage := sg, CurrentStep := st, Status := x\<rparr>"

definition failedSnapshot :: "(string \<times> step_status) list \<Rightarrow> snapshot" where
  "failedSnapshot sts = \<lparr>StepsStates =
      map (\<lambda>st. stateOf tron_stageBeforeSending (spName st) StatusCompleted) (sgSteps (tronStages ! 0)) @
      stateOf tron_stageSending tron_stepSending StatusFailed #
      map (\<lambda>(st, x). stateOf tron_stageCompensate st x) sts,
     WorkflowState = newWorkflowState\<rparr>"

definition trxTransfer :: "rat \<Rightarrow> snapshot \<Rightarrow> transfer" where
  "trxTransfer amount sh = zeroTransfer\<lparr>trID := ''transfer-1'', trStatus := TransferStatusProcessing, trOwnerID := ''owner-1'',
     trBlockchain := BlockchainTypeTron, trFromAddresses := [''proc-1''], trToAddresses := [''to-1''],
     trWalletFromType := WalletTypeProcessing, trAssetIdentifier := TrxAssetIdentifier, trKind := Some ''burntrx'',
     trAmount := Some amount, trSnapshot := sh\<rparr>"

definition trxWorld :: "transfer \<Rightarrow> unit world" where
  "trxWorld t = \<lparr>wdDb = \<lparr>dbTransfers = [t], dbOwners = [evmOwner], dbHotWallets = [],
     dbProcessingWallets = [\<lparr>wlBlockchain = BlockchainTypeTron, wlAddress = ''proc-1'', wlOwnerID = ''owner-1'', pwSequence = 4\<rparr>],
     dbColdWallets = [], dbTransferTransactions = [], dbWebhooks = []\<rparr>,
     wdTx = None, wdOwnerCache = Map.empty, wdHotCache = Map.empty, wdProcessingCache = Map.empty, wdColdCache = Map.empty, wdExt = ()\<rparr>"

lemma trx_transfer [simp]:
  "trID (trxTransfer a sh) = ''transfer-1''" "getFromAddress (trxTransfer a sh) = ''proc-1''" "getToAddress (trxTransfer a sh) = ''to-1''"
  "trOwnerID (trxTransfer a sh) = ''owner-1''" "trWalletFromType (trxTransfer a sh) = WalletTypeProcessing"
  "trAssetIdentifier (trxTransfer a sh) = TrxAssetIdentifier" "trWholeAmount (trxTransfer a sh) = False"
  "trAmount (trxTransfer a sh) = Some a" "trSnapshot (trxTransfer a sh) = sh"
  by (simp_all add: trxTransfer_def getFromAddress_def getToAddress_def zeroTransfer_def)

lemma trx_faultless: "envFault trxEnv = (\<lambda>_ x. (NoFault, x))" "envNow trxEnv = (\<lambda>_. 7)" "envStopped trxEnv = (\<lambda>_. False)"
  by (simp_all add: trxEnv_def evmEnv_def)

text \<open>A snapshot is stored.\<close>

lemma snapshot_present:
  assumes "\<forall>st\<in>set (allSteps s). spState st \<noteq> None"
  shows "\<exists>sh. getSnapshot s = (Val sh, s)"
  using assms by (auto simp: getSnapshot_def bnd_def stepStates_def getS_def)

lemma trx_save:
  fixes s :: "unit tron_fsm"
  assumes "\<forall>st\<in>set (allSteps s). spState st \<noteq> None" and "fsTransfer s = Some (trxTransfer a sh)" and "fsWorld s = trxWorld t" and "trID t = ''transfer-1''"
  shows "\<exists>sh'. saveSnapshot trxEnv s = (Val (), s\<lparr>fsWorld := trxWorld (t\<lparr>trSnapshot := sh', trUpdatedAt := Some 7\<rparr>)\<rparr>)"
proof -
  obtain sh' where "getSnapshot s = (Val sh', s)" using snapshot_present [OF assms(1)] by blast
  then show ?thesis
    using assms(2-4)
    by (intro exI [of _ sh']) (simp add: saveSnapshot_def op_defs theTransfer_def liftW_def transfersSetWorkflowSnapshot_def qTransferSetSnapshot_def
        dbExec_def dbQuery_def trx_faultless nilUuid_def Let_def dbApply_def updTransfer_def dbView_outside transferRow_def oneRow_def
        ofSum_def trxWorld_def)
qed


text \<open>The step of sending at the sample: the amount is at most the balance, which is 1.\<close>

definition cachedWorld :: "transfer \<Rightarrow> unit world" where
  "cachedWorld t = (trxWorld t)\<lparr>wdOwnerCache := [''owner-1'' \<mapsto> evmOwner]\<rparr>"

lemma trx_balance: "tron_getBalance trxParams ''proc-1'' x s = (Val 1, s)" for s :: "unit tron_fsm"
  by (simp add: tron_getBalance_def liftE_def liftW_def liftExt_def) (simp add: trxEnv_def evmEnv_def)

lemma trx_sequence:
  "fsWorld s = trxWorld t \<Longrightarrow> liftW (getSequenceByWalletType trxEnv WalletTypeProcessing ''owner-1'' BlockchainTypeTron ''proc-1'') s = (Val 4, s)"
  for s :: "unit tron_fsm"
  by (simp add: liftW_def getSequenceByWalletType_def processingGetByOwnerID_def noRowsToNotFound_def op_defs ofSum_def
      qProcessingGetByOwnerID_def dbRead_def trx_faultless trxWorld_def dbView_outside oneRow_def nilUuid_def walletIs_def)

lemma trx_creds:
  "fsWorld s = trxWorld t \<Longrightarrow> tron_getWalletCreds trxParams ''owner-1'' 4 s = (Val (''proc-1'', tronDerivationPath 4), s\<lparr>fsWorld := cachedWorld t\<rparr>)"
  for s :: "unit tron_fsm"
proof -
  assume w: "fsWorld s = trxWorld t"
  have e: "tpSeedEncryption trxParams = False" by (simp add: trxParams_def)
  have o': "liftW (ownersGetByID trxEnv ''owner-1'') s = (Val evmOwner, s\<lparr>fsWorld := cachedWorld t\<rparr>)"
    using w by (simp add: liftW_def ownersGetByID_def noRowsToNotFound_def op_defs ofSum_def qOwnerGetByID_def dbRead_def
      trx_faultless trxWorld_def cachedWorld_def dbView_outside oneRow_def nilUuid_def evmOwner_def)
  have k: "tron_walletPubKeyHash trxLib m pw 4 = Inr (''proc-1'', tronDerivationPath 4)" for m pw
    by (simp add: tron_walletPubKeyHash_def) (simp add: trxLib_def)
  show ?thesis by (simp add: tron_getWalletCreds_def op_defs o' e k ofSum_def)
qed


lemma trx_tx:
  "liftE (nodeTransfer trxNode f to' n) s = (Val (trxExt ''aa''), s)" "liftE (nodeBroadcast trxNode y) s = (Val (), s)"
  "acceptAndSign trxParams what (trxExt h) key s = (Val \<lparr>tnRawData = None, tnRet = [], tnSignature = [''sig'']\<rparr>, s)"
  for s :: "unit tron_fsm"
proof -
  show "acceptAndSign trxParams what (trxExt h) key s = (Val \<lparr>tnRawData = None, tnRet = [], tnSignature = [''sig'']\<rparr>, s)"
    by (simp add: acceptAndSign_def deref_def signTransaction_def trxExt_def op_defs ofSum_def) (simp add: trxLib_def op_defs)
qed (simp_all add: liftE_def liftW_def liftExt_def trxNode_def)

lemma trx_stateData:
  "fsWorld s = cachedWorld t \<Longrightarrow> trID t = ''transfer-1'' \<Longrightarrow> liftW (transfersSetStateData trxEnv False ''transfer-1'' sd) s =
    (Val (), s\<lparr>fsWorld := cachedWorld (t\<lparr>trStateData := trStateData t ++ sd, trUpdatedAt := Some 7\<rparr>)\<rparr>)" for s :: "unit tron_fsm"
  by (simp add: liftW_def transfersSetStateData_def transfersGetStateData_def op_defs qTransferGetStateData_def dbRead_def
      qTransferSetStateData_def dbExec_def dbQuery_def trx_faultless nilUuid_def transferRow_def oneRow_def dbView_outside
      ofSum_def dbApply_def updTransfer_def Let_def cachedWorld_def trxWorld_def split: option.split)

lemma trx_record:
  fixes s :: "unit tron_fsm"
  assumes "fsWorld s = cachedWorld t" and "fsTransfer s = Some (trxTransfer a sh)" and "currentStep s = (Val (Some st), s)"
    and "tron_prepareTransferTransactionTypeByStep s = (Val ty, s)"
  shows "recordAndBroadcast trxParams msg False k c (trxExt ''aa'') stx s = (Val (), s\<lparr>tfSent := tfSent s @ [(k, c)],
    fsWorld := (cachedWorld t)\<lparr>wdDb := (wdDb (cachedWorld t))\<lparr>dbTransferTransactions :=
      [newTransferTx ''new-id'' ''transfer-1'' ''aa'' ty TxStatusPending (spName st) 7]\<rparr>\<rparr>\<rparr>)"
proof -
  have p: "tron_prepareTransferTransactionTypeByStep (s\<lparr>fsWorld := w\<rparr>) = (Val ty, s\<lparr>fsWorld := w\<rparr>)" for w
    using prepare_stages [of "s\<lparr>fsWorld := w\<rparr>" s] assms(4) by simp
  have n: "currentStepName (s\<lparr>fsWorld := w\<rparr>) = (Val (spName st), s\<lparr>fsWorld := w\<rparr>)" for w
    using currentStep_stages [of "s\<lparr>fsWorld := w\<rparr>" s] assms(3) by (simp add: currentStepName_def bnd_def ret_def)
  show ?thesis
    using assms(1,2)
    by (simp add: recordAndBroadcast_def inTx_def tron_initPendingSystemTransaction_def op_defs p n theTransfer_def liftW_def txBegin_def
        txCommit_def trx_faultless qTxCreate_def dbExec_def dbQuery_def dbApply_def ofSum_def Let_def trx_tx dbView_def
        cachedWorld_def trxWorld_def trxExt_def)
      (simp add: trxEnv_def evmEnv_def)
qed

lemma trx_hash:
  fixes s :: "unit tron_fsm"
  assumes "fsTransfer s = Some (trxTransfer a sh)" and "dbTransfers (wdDb (fsWorld s)) = [t']" and "trID t' = ''transfer-1''"
    and "wdTx (fsWorld s) = None"
  shows "\<exists>s'. replaceTxHash trxEnv ''aa'' s = (Val (), s') \<and> tfSent s' = tfSent s"
  using assms
  by (simp add: replaceTxHash_def op_defs theTransfer_def liftW_def transfersSetTxHash_def qTransferSetTxHash_def dbQuery_def
      trx_faultless nilUuid_def Let_def dbApply_def updTransfer_def dbView_outside transferRow_def oneRow_def ofSum_def)

lemma trx_sends:
  fixes s :: "unit tron_fsm"
  assumes "fsWorld s = trxWorld t" and "trID t = ''transfer-1''" and "fsTransfer s = Some (trxTransfer (1 / 2) sh)"
    and "currentStep s = (Val (Some st), s)" and "tron_prepareTransferTransactionTypeByStep s = (Val ty, s)"
  shows "\<exists>s'. tron_sending trxParams s = (Val (), s') \<and>
    tfSent s' = tfSent s @ [(TxTypeTransfer, CallTransfer ''proc-1'' ''to-1'' (intPart 500000))]"
proof -
  let ?c = "CallTransfer ''proc-1'' ''to-1'' (intPart 500000)"
  let ?t = "t\<lparr>trStateData := (trStateData t)(''amount'' \<mapsto> VDec 500000), trUpdatedAt := Some 7\<rparr>"
  let ?s1 = "s\<lparr>fsWorld := cachedWorld t\<rparr>" and ?s2 = "s\<lparr>fsWorld := cachedWorld ?t\<rparr>"
  have st: "currentStep ?s2 = (Val (Some st), ?s2)" "tron_prepareTransferTransactionTypeByStep ?s2 = (Val ty, ?s2)"
    using currentStep_stages [of ?s2 s] prepare_stages [of ?s2 s] assms(4,5) by simp_all
  have sd: "liftW (transfersSetStateData trxEnv False ''transfer-1'' [''amount'' \<mapsto> VDec 500000]) ?s1 = (Val (), ?s2)"
    using trx_stateData [of ?s1 t] assms(2) by simp
  obtain s3 where rb: "recordAndBroadcast trxParams ''store transaction info'' False TxTypeTransfer ?c (trxExt ''aa'')
      \<lparr>tnRawData = None, tnRet = [], tnSignature = [''sig'']\<rparr> ?s2 = (Val (), s3)"
    and s3: "tfSent s3 = tfSent s @ [(TxTypeTransfer, ?c)]" "fsTransfer s3 = fsTransfer s"
      "dbTransfers (wdDb (fsWorld s3)) = [?t]" "wdTx (fsWorld s3) = None"
    using trx_record [of ?s2 ?t "1 / 2" sh st ty, OF _ _ st] assms(3) by (auto simp: cachedWorld_def trxWorld_def)
  obtain s4 where h: "replaceTxHash trxEnv ''aa'' s3 = (Val (), s4)" "tfSent s4 = tfSent s3"
    using trx_hash [of s3 "1 / 2" sh ?t] s3 assms(2,3) by auto
  have "sendTRX trxParams TxTypeTransfer (''proc-1'', tronDerivationPath 4) ''to-1'' (1 / 2) ?s1 = (Val (trxExt ''aa''), s3)"
    using assms(3) by (simp add: sendTRX_def Let_def bnd_def guardE_def ret_def wrapErr_def trx_tx theTransfer_def sd rb)
  with h s3(1) show ?thesis
    using assms(3) trx_sequence [OF assms(1)] trx_creds [OF assms(1)]
    by (simp add: tron_sending_def Let_def bnd_def theTransfer_def wrapErr_def trx_balance sendingAmount_def ret_def guardE_def trxExt_def nullDecimal_def)
qed

text \<open>An amount above the balance is refused.\<close>

lemma trx_too_much:
  "fsTransfer s = Some (trxTransfer 5 sh) \<Longrightarrow> \<exists>m. tron_sending trxParams s = (Err (ErrText m), s)" for s :: "unit tron_fsm"
  by (simp add: tron_sending_def Let_def bnd_def theTransfer_def wrapErr_def trx_balance sendingAmount_def ret_def guardE_def fail_def nullDecimal_def)

text \<open>The two snapshots: the reclaim has failed, or it waits for its confirmations.\<close>

definition reclaimFailed :: snapshot where
  "reclaimFailed = failedSnapshot [(tron_stepDetermine, StatusCompleted), (tron_stepReclaimOnError, StatusFailed)]"

definition reclaimWaits :: snapshot where
  "reclaimWaits = failedSnapshot [(tron_stepDetermine, StatusCompleted), (tron_stepReclaimOnError, StatusCompleted),
     (tron_stepWaitingReclaimOnError, StatusFailed)]"

definition statuses :: "stage list \<Rightarrow> step_status option list list" where
  "statuses = map (\<lambda>sg. map (\<lambda>st. map_option Status (spState st)) (sgSteps sg))"

lemma statusAt_statuses:
  "statusAt m i j = (if i < length (statuses (wStages m)) \<and> j < length (statuses (wStages m) ! i) then statuses (wStages m) ! i ! j else None)"
  by (simp add: statuses_def statusAt_def stepAt_def stageAt_def)

lemma sample_statuses:
  "statuses (fold restoreState (StepsStates reclaimFailed) tronStages) =
     [replicate 14 (Some StatusCompleted), [Some StatusFailed], replicate 6 None, [Some StatusCompleted, Some StatusFailed, None, None]]"
  "statuses (fold restoreState (StepsStates reclaimWaits) tronStages) =
     [replicate 14 (Some StatusCompleted), [Some StatusFailed], replicate 6 None, [Some StatusCompleted, Some StatusCompleted, Some StatusFailed, None]]"
  by code_simp+

lemma statusAt_initStage:
  "statusAt (m\<lparr>wStages := map initStage (wStages m)\<rparr>) i j =
     (case stepAt m i j of None \<Rightarrow> None | Some st \<Rightarrow> Some (case spState st of None \<Rightarrow> OtherStatus '''' | Some ss \<Rightarrow> Status ss))"
  by (auto simp: statusAt_def stepAt_def stageAt_def initStage_def initStep_state newStepState_def split: option.split)

lemma sample_stages:
  "statuses (wStages (tron_newFSM p (trxTransfer a reclaimFailed) w)) =
     [replicate 14 (Some StatusCompleted), [Some StatusFailed], replicate 6 None, [Some StatusCompleted, Some StatusFailed, None, None]]"
  "statuses (wStages (tron_newFSM p (trxTransfer a reclaimWaits) w)) =
     [replicate 14 (Some StatusCompleted), [Some StatusFailed], replicate 6 None, [Some StatusCompleted, Some StatusCompleted, Some StatusFailed, None]]"
  unfolding tron_stages trx_transfer sample_statuses by (rule refl)+

lemma sample_step:
  "j < 14 \<Longrightarrow> statusAt (tron_newFSM p (trxTransfer a reclaimFailed) w) 0 j = Some StatusCompleted"
  "statusAt (tron_newFSM p (trxTransfer a reclaimFailed) w) (Suc 0) 0 = Some StatusFailed"
  "statusAt (tron_newFSM p (trxTransfer a reclaimFailed) w) 3 (Suc 0) = Some StatusFailed"
  "statusAt (tron_newFSM p (trxTransfer a reclaimFailed) w) 3 2 = None"
  "j < 14 \<Longrightarrow> statusAt (tron_newFSM p (trxTransfer a reclaimWaits) w) 0 j = Some StatusCompleted"
  "statusAt (tron_newFSM p (trxTransfer a reclaimWaits) w) (Suc 0) 0 = Some StatusFailed"
  "statusAt (tron_newFSM p (trxTransfer a reclaimWaits) w) 3 2 = Some StatusFailed"
  "statusAt (tron_newFSM p (trxTransfer a reclaimWaits) w) 3 3 = None"
  by (simp_all add: statusAt_statuses sample_stages nth_append del: One_nat_def)

lemma sample_state:
  "wState (tron_newFSM p (trxTransfer a reclaimFailed) w) = newWorkflowState"
  "wState (tron_newFSM p (trxTransfer a reclaimWaits) w) = newWorkflowState"
  by (simp_all add: tron_newFSM_def setSnapshot_def reclaimFailed_def reclaimWaits_def failedSnapshot_def)

text \<open>The states of the steps are all there once the machine is initialised.\<close>

definition present :: "'a workflow_scheme \<Rightarrow> bool" where
  "present w \<longleftrightarrow> (\<forall>st\<in>set (allSteps w). spState st \<noteq> None)"

lemma present_shape: "shape w = shape w' \<Longrightarrow> present w = present w'"
proof -
  have "present v \<longleftrightarrow> (\<forall>sg\<in>set (shape v). \<forall>st\<in>set (sgSteps sg). spState st \<noteq> None)" for v :: "'z workflow_scheme"
    by (auto simp: present_def allSteps_def shape_def bareStep_def)
  moreover assume "shape w = shape w'"
  ultimately show ?thesis by metis
qed

lemma upd_fields:
  "fsTransfer (updState i j g s) = fsTransfer s" "fsWorld (updState i j g s) = fsWorld s" "tfSent (updState i j h t) = tfSent t"
  by (simp_all add: updState_def updStep_def split: option.split)

lemma enter_fields:
  fixes s :: "'e tron_fsm"
  shows "fsTransfer (stepEnter i j (updState i j f s)) = fsTransfer s" "fsWorld (stepEnter i j (updState i j f s)) = fsWorld s"
    "tfSent (stepEnter i j (updState i j f s)) = tfSent s"
  by (simp_all add: stepEnter_def Let_def upd_fields split: option.split prod.split)

lemma sample_start:
  fixes a :: rat
  assumes "sh \<in> {reclaimFailed, reclaimWaits}"
  defines "t \<equiv> trxTransfer a sh"
  defines "s \<equiv> sendingStart trxParams t (trxWorld t)"
  shows "stepNames (wStages s) = stepNames tronStages" and "statusAt s 3 j = statusAt (started trxParams t (trxWorld t)) 3 j"
    and "fsTransfer s = Some t" and "fsWorld s = trxWorld t" and "tfSent s = []" and "present s"
proof -
  let ?w0 = "started trxParams t (trxWorld t)"
  have s: "s = stepEnter 1 0 (updState 1 0 (setStartTime 7) ?w0)"
    by (simp add: s_def sendingStart_def started_def Let_def trx_faultless)
  have sh: "shape s = shape ?w0" by (simp add: s tron.stepEnter_effect(1))
  show "stepNames (wStages s) = stepNames tronStages"
    using stepNames_shape [OF sh] tron_stepNames [of trxParams t "trxWorld t"] by (simp add: started_def)
  show "statusAt s 3 j = statusAt ?w0 3 j"
    by (simp add: s tron.stepEnter_effect(2) statusAt_updState_other)
  show "fsTransfer s = Some t" "fsWorld s = trxWorld t" "tfSent s = []"
    unfolding s enter_fields by (simp_all add: started_def tron_newFSM_def setSnapshot_def)
  have "present ?w0" by (auto simp: present_def allSteps_def started_def initStage_def initStep_state)
  then show "present s" using present_shape [OF sh] by simp
qed

lemma sample_started:
  "statusAt (started p (trxTransfer a reclaimFailed) w) 3 (Suc 0) = Some StatusFailed"
  "\<exists>s. statusAt (started p (trxTransfer a reclaimFailed) w) 3 2 = Some s \<and> \<not> validStatus s"
  "\<exists>s. statusAt (started p (trxTransfer a reclaimFailed) w) 3 3 = Some s \<and> \<not> validStatus s"
proof -
  let ?m = "tron_newFSM p (trxTransfer a reclaimFailed) w"
  show "statusAt (started p (trxTransfer a reclaimFailed) w) 3 (Suc 0) = Some StatusFailed"
    unfolding started_def by (rule initWorkflow_status [OF tron_init sample_step(3)])
  have "\<exists>st. stepAt ?m 3 j = Some st \<and> spState st = None" if "j \<in> {2, 3}" for j
  proof -
    have l: "length (statuses (wStages ?m)) = 4" "length (statuses (wStages ?m) ! 3) = 4" "statuses (wStages ?m) ! 3 ! j = None"
      using that by (auto simp: sample_stages)
    then have "3 < length (wStages ?m)" "j < length (sgSteps (wStages ?m ! 3))" using that by (auto simp: statuses_def)
    with l(3) show ?thesis by (simp add: statuses_def stepAt_def stageAt_def)
  qed
  then have "\<exists>s. statusAt (started p (trxTransfer a reclaimFailed) w) 3 j = Some s \<and> \<not> validStatus s" if "j \<in> {2, 3}" for j
    using that by (fastforce simp: started_def statusAt_initStage)
  then show "\<exists>s. statusAt (started p (trxTransfer a reclaimFailed) w) 3 2 = Some s \<and> \<not> validStatus s"
    "\<exists>s. statusAt (started p (trxTransfer a reclaimFailed) w) 3 3 = Some s \<and> \<not> validStatus s" by auto
qed

lemma sample_fields:
  "WorkflowState reclaimFailed = newWorkflowState" "WorkflowState reclaimWaits = newWorkflowState"
  "NextStage newWorkflowState = ''''" "NextStep newWorkflowState = ''''"
  "\<not> IsSuspended newWorkflowState" "\<not> IsCompleted newWorkflowState" "\<not> IsFailed newWorkflowState"
  by (simp_all add: reclaimFailed_def reclaimWaits_def failedSnapshot_def newWorkflowState_def)

lemma sample_current:
  "\<exists>st. currentStep (sendingStart trxParams (trxTransfer (1 / 2) reclaimFailed) (trxWorld (trxTransfer (1 / 2) reclaimFailed))) =
     (Val (Some st), sendingStart trxParams (trxTransfer (1 / 2) reclaimFailed) (trxWorld (trxTransfer (1 / 2) reclaimFailed))) \<and>
     spName st = tron_stepReclaimOnError"
proof -
  let ?t = "trxTransfer (1 / 2) reclaimFailed"
  let ?s = "sendingStart trxParams ?t (trxWorld ?t)"
  note start = sample_start [of reclaimFailed "1 / 2"]
  have n: "spName (sgSteps (tronStages ! 3) ! 1) = tron_stepReclaimOnError" by (simp add: tronStages_def newStep_def)
  have "\<forall>j<4. 1 < j \<longrightarrow> (\<exists>s. statusAt ?s 3 j = Some s \<and> \<not> validStatus s)"
    using sample_started(2,3) start(2) by (auto simp: less_Suc_eq numeral_eq_Suc)
  then show ?thesis
    using current_compensation [OF start(1), of 1 StatusFailed] start(2) sample_started(1) n by fastforce
qed


lemma handleStep_failed:
  assumes "stepAt w 1 0 = Some st" and "spRetryPolicy st = Some RunWithLinear" and "spMaxRetries st = 1"
    and "statusAt w 1 0 = Some StatusFailed" and "NextStep (wState w) = ''''" and "\<not> checkStatus w"
    and "saveSnapshot (tpEnv p) (stepEnter 1 0 (updState 1 0 (setStartTime (hNow (tronHooks p) w)) w)) = (Val (), s1)"
    and "tron_sending p s1 = (Err e, s2)" and "saveSnapshot (tpEnv p) s2 = (Val (), s3)"
  shows "\<exists>msg w'. handleStep (tronHooks p) 1 0 w = Some (Err (Wrapf msg e), w')"
proof -
  have f: "hFunc (tronHooks p) 1 0 = Some (tron_sending p)" by (simp add: tronHooks_def tronFuncs_def)
  have b: "tronStepBefore p 1 0 = None" by (simp add: tronStepBefore_def)
  have "\<exists>msg w'. stepBody (tronHooks p) 1 0 st (sgName (wStages w ! 1)) (updState 1 0 (setStartTime (hNow (tronHooks p) w)) w) =
      Some (Err (Wrapf msg e), w')"
    using assms(2,3,7-9) once_linear [OF assms(3), of "tronHooks p" "tron_sending p" s1]
    by (auto simp: stepBody_def f b tronHooks_none runOpt_def bnd_def ret_def simp del: One_nat_def)
  with assms(1,4-6) show ?thesis
    unfolding handleStep_def by (auto simp: Let_def statusAt_def split: option.splits)
qed

lemma started_sending:
  "\<exists>st. stepAt (started p t w) 1 0 = Some st \<and> spRetryPolicy st = Some RunWithLinear \<and> spMaxRetries st = 1 \<and> spFinish st = False"
  unfolding started_def using tron_sendingStep [of p t w] by auto

lemma compensation_never_ends_witness:
  "\<exists>r s'. tron_runFSM trxParams Ended (trxTransfer 5 reclaimWaits) (trxWorld (trxTransfer 5 reclaimWaits)) = Some (r, s') \<and>
    (\<forall>u. r \<noteq> Val u) \<and> tfSent s' = [] \<and> stuckCompensation s'"
proof (rule compensation_never_ends)
  let ?t = "trxTransfer 5 reclaimWaits"
  let ?w = "trxWorld ?t"
  have "\<forall>j<14. \<exists>s. statusAt (tron_newFSM trxParams ?t ?w) 0 j = Some s \<and> settled s"
    by (simp add: sample_step settled_def)
  then show "stuckCompensation (tron_newFSM trxParams ?t ?w)"
    by (simp add: stuckCompensation_def sample_step sample_state sample_fields checkStatus_def)
  show "\<forall>x. \<not> envStopped (tpEnv trxParams) x" by (simp add: trx_faultless)
  let ?v = "started trxParams ?t ?w"
  obtain st where st: "stepAt ?v 1 0 = Some st" "spRetryPolicy st = Some RunWithLinear" "spMaxRetries st = 1" "spFinish st = False"
    using started_sending by blast
  have f: "statusAt ?v 1 0 = Some StatusFailed"
    unfolding started_def by (rule initWorkflow_status [OF tron_init]) (simp add: sample_step)
  have n: "NextStep (wState ?v) = ''''" "\<not> checkStatus ?v"
    by (simp_all add: started_def sample_state sample_fields checkStatus_def)
  note start = sample_start [of reclaimWaits 5]
  let ?s = "sendingStart trxParams ?t ?w"
  obtain sh where sv: "saveSnapshot trxEnv ?s = (Val (), ?s\<lparr>fsWorld := trxWorld (?t\<lparr>trSnapshot := sh, trUpdatedAt := Some 7\<rparr>)\<rparr>)"
    using trx_save [of ?s 5 reclaimWaits ?t] start by (auto simp: present_def)
  let ?s1 = "?s\<lparr>fsWorld := trxWorld (?t\<lparr>trSnapshot := sh, trUpdatedAt := Some 7\<rparr>)\<rparr>"
  obtain m where m: "tron_sending trxParams ?s1 = (Err (ErrText m), ?s1)"
    using trx_too_much [of ?s1 reclaimWaits] start(3) by auto
  show "\<forall>res w1. handleStep (tronHooks trxParams) 1 0 ?v = Some (res, w1) \<longrightarrow> ordinary res"
  proof -
    have "hNow (tronHooks trxParams) ?v = 7" by (simp add: tronHooks_def trx_faultless)
    then have "saveSnapshot (tpEnv trxParams) (stepEnter 1 0 (updState 1 0 (setStartTime (hNow (tronHooks trxParams) ?v)) ?v)) = (Val (), ?s1)"
      using sv by (simp add: sendingStart_def started_def trx_faultless Let_def)
    moreover obtain s3 where "saveSnapshot (tpEnv trxParams) ?s1 = (Val (), s3)"
      using trx_save [of ?s1 5 reclaimWaits "?t\<lparr>trSnapshot := sh, trUpdatedAt := Some 7\<rparr>"] start(3,6)
      by (auto simp: present_def allSteps_def)
    ultimately obtain msg w' where "handleStep (tronHooks trxParams) 1 0 ?v = Some (Err (Wrapf msg (ErrText m)), w')"
      using handleStep_failed [OF st(1-3) f n] m by blast
    then show ?thesis by (simp add: ordinary_def)
  qed
qed

lemma sample_sends:
  "\<exists>s'. tron_sending trxParams (sendingStart trxParams (trxTransfer (1 / 2) reclaimFailed) (trxWorld (trxTransfer (1 / 2) reclaimFailed))) = (Val (), s')"
proof -
  let ?t = "trxTransfer (1 / 2) reclaimFailed"
  let ?s = "sendingStart trxParams ?t (trxWorld ?t)"
  note start = sample_start [of reclaimFailed "1 / 2"]
  obtain st where st: "currentStep ?s = (Val (Some st), ?s)" "spName st = tron_stepReclaimOnError"
    using sample_current by blast
  then have "tron_prepareTransferTransactionTypeByStep ?s = (Val TxTypeReclaimResources, ?s)"
    unfolding tron_prepareTransferTransactionTypeByStep_def bnd_def by (simp add: deref_def op_defs Let_def tron_names)
  from trx_sends [where t = ?t and sh = reclaimFailed, OF _ _ _ st(1) this] start show ?thesis by auto
qed


lemma tron_steps_submit_their_kind_witness:
  "let t = trxTransfer (1 / 2) reclaimFailed; s = sendingStart trxParams t (trxWorld t) in
    \<exists>s' cs. tron_sending trxParams s = (Val (), s') \<and> tfSent s' = tfSent s @ cs \<and> (\<forall>c\<in>set cs. stepCall 1 0 c)"
proof -
  let ?t = "trxTransfer (1 / 2) reclaimFailed"
  obtain s' where s': "tron_sending trxParams (sendingStart trxParams ?t (trxWorld ?t)) = (Val (), s')" using sample_sends by blast
  have "hFunc (tronHooks trxParams) 1 0 = Some (tron_sending trxParams)" by (simp add: tronHooks_def tronFuncs_def)
  from tron_steps_submit_their_kind [OF this s'] s' show ?thesis unfolding Let_def by blast
qed

lemma tron_compensation_never_sends_witness:
  "let t = trxTransfer 1 (reclaimWaits\<lparr>WorkflowState := newWorkflowState\<lparr>NextStage := tron_stageCompensate\<rparr>\<rparr>) in
    \<exists>r s'. tron_runFSM trxParams Ended t (trxWorld t) = Some (r, s') \<and> tron_sentFor TxTypeTransfer s' = 0"
  unfolding Let_def by (rule tron_compensation_never_sends) simp


text \<open>A transfer with an order of energy, and the data of a delegation for a reclaim.\<close>

definition orderTransfer :: transfer where
  "orderTransfer = (trxTransfer 1 reclaimWaits)\<lparr>trStateData := [EnergyOrderID \<mapsto> VStr ''order-1'',
     getDelegateResourceKey ResourceCode_ENERGY \<mapsto> VObj [(''from_address'', VStr ''proc-1''), (''to_address'', VStr ''hot-1'')]]\<rparr>"

lemma order_waits:
  "waitingExternalDelegateResources trxParams (tron_newFSM trxParams orderTransfer (trxWorld orderTransfer)) =
     (Val (), tron_newFSM trxParams orderTransfer (trxWorld orderTransfer))"
proof -
  have call: "retryCall (fsmRetry trxEnv [withMaxAttempts 2, withPolicy PolicyLinear]) (\<lambda>s. (Val x, s)) s = (Val x, s)"
    for x :: tron_order and s :: "unit tron_fsm"
    by (simp add: retryCall_def fsmRetry_def newRetry_def retry_option_defs retryDo_def linearRetry_def linearLoop.simps deref_def op_defs runHook_def)
  have m: "catchErr (liftE (tpGetOrder trxParams oid)) h =
      (\<lambda>s :: unit tron_fsm. (Val \<lparr>odOrderID = oid, odStatus = ORDER_STATUS_FULFILLED, odType = ORDER_TYPE_TRON_ENERGY_DELEGATION\<rparr>, s))"
    for oid h
    by (rule ext, simp add: catchErr_def liftE_def liftW_def liftExt_def, simp add: trxParams_def)
  have "retryCall (fsmRetry trxEnv [withMaxAttempts 2, withPolicy PolicyLinear]) (catchErr (liftE (tpGetOrder trxParams oid)) h) s =
      (Val \<lparr>odOrderID = oid, odStatus = ORDER_STATUS_FULFILLED, odType = ORDER_TYPE_TRON_ENERGY_DELEGATION\<rparr>, s)"
    for oid h and s :: "unit tron_fsm"
    unfolding m by (rule call)
  then have chk: "checkExternalOrderStatus trxParams oid s = (Val (), s)" for oid s
    by (simp add: checkExternalOrderStatus_def tryE_def catchErr_def bnd_def ret_def)
  let ?s = "tron_newFSM trxParams orderTransfer (trxWorld orderTransfer)"
  have s: "fsTransfer ?s = Some orderTransfer" "fsWorld ?s = trxWorld orderTransfer"
    by (simp_all add: tron_newFSM_def setSnapshot_def)
  have r: "fsTransfer ?s = Some orderTransfer"
    "liftW (transfersGetStateData (tpEnv trxParams) (trID orderTransfer)) ?s = (Val (trStateData orderTransfer), ?s)"
    using s by (simp_all add: liftW_def transfersGetStateData_def op_defs qTransferGetStateData_def dbRead_def trx_faultless nilUuid_def
      transferRow_def oneRow_def dbView_outside trxWorld_def orderTransfer_def trxTransfer_def zeroTransfer_def ofSum_def split: option.split)
  have d: "delegationOrders (trStateData orderTransfer) resourcesToDelegate = Inr [''order-1'']"
    by (simp add: resourcesToDelegate_def orderTransfer_def getStringByPath_def strOfVal_def EnergyOrderID_def BandwidthOrderID_def
      getDelegateResourceKey_def textString_def)
  show ?thesis
    using r d chk by (simp add: waitingExternalDelegateResources_def op_defs theTransfer_def ofSum_def bothRun_def)
qed


lemma reclaims_what_was_delegated_witness:
  "\<exists>r s' cs. reclaimAll trxParams 3 1 ''proc-1'' (tron_newFSM trxParams orderTransfer (trxWorld orderTransfer)) = (r, s') \<and> tfSent s' = cs \<and>
    (cs = [] \<or> (\<exists>res frozen x x'. stakedResources trxDemo ''proc-1'' x = (Val (res, frozen), x') \<and>
       (\<forall>c\<in>set cs. reclaimAllowed trxEnv (trStateData orderTransfer) frozen c)))"
proof -
  obtain r s' where x: "reclaimAll trxParams 3 1 ''proc-1'' (tron_newFSM trxParams orderTransfer (trxWorld orderTransfer)) = (r, s')"
    by (rule prod.exhaust)
  from reclaims_what_was_delegated [OF x] x show ?thesis by (auto simp: tron_newFSM_def setSnapshot_def)
qed

end
