(* ===== verification/Create.thy ===== *)
theory Create
  imports FsmEvm FsmTron
begin

text \<open>
  The creation of a transfer: \<open>internal/services/transfers\<close> (\<open>create.go\<close>, \<open>validate.go\<close>,
  \<open>btclike.go\<close>, \<open>eth.go\<close>, \<open>tron.go\<close>), the queries of \<open>repo_transfers\<close> that it runs,
  \<open>pkg/avalidator\<close> and the codes of \<open>rpccode\<close>. The fields of the request that the code fills in while
  it works, the state data and the types of the wallets, are results and arguments here. The condition
  variable that lets one call in at a time is the subject of the theory CreateLock.
\<close>

section \<open>Codes of the RPC interface\<close>

datatype rpc_code =
    RPCCodeNotEnoughResources | RPCCodeAddressIsTaken | RPCCodeMaxFeeExceeded | RPCCodeServiceUnavailable
  | RPCCodeNotEnoughBalance | RPCCodeBlockchainIsDisabled | RPCCodeAddressEmptyBalance

definition rpcErr :: "string \<Rightarrow> goerr" where "rpcErr text = ErrExt ''rpccode'' text"

fun getErrorByCode :: "rpc_code \<Rightarrow> goerr" where
  "getErrorByCode RPCCodeNotEnoughResources = rpcErr ''not enough resources''"
| "getErrorByCode RPCCodeAddressIsTaken = rpcErr ''the address is occupied by another transaction''"
| "getErrorByCode RPCCodeMaxFeeExceeded = rpcErr ''max fee value exceeded''"
| "getErrorByCode RPCCodeBlockchainIsDisabled = rpcErr ''blockchain is disabled''"
| "getErrorByCode RPCCodeAddressEmptyBalance = rpcErr ''address empty balance''"
| "getErrorByCode RPCCodeNotEnoughBalance = rpcErr ''not enough balance''"
| "getErrorByCode RPCCodeServiceUnavailable = rpcErr ''service unavailable''"

definition RPCCodes :: "rpc_code list" where
  "RPCCodes = [RPCCodeNotEnoughResources, RPCCodeAddressIsTaken, RPCCodeMaxFeeExceeded, RPCCodeBlockchainIsDisabled,
     RPCCodeAddressEmptyBalance, RPCCodeNotEnoughBalance, RPCCodeServiceUnavailable]"

text \<open>The codes that \<open>IsRPCError\<close> can find; the map is ranged over in any order.\<close>

definition rpcCodesOf :: "goerr \<Rightarrow> rpc_code list" where
  "rpcCodesOf err = filter (\<lambda>c. errIs err (getErrorByCode c)) RPCCodes"

text \<open>\<open>fmt.Errorf("%w for transfer. required: %s, available: %s", \<dots>)\<close>.\<close>

definition requiredAvailable :: "'e env \<Rightarrow> rpc_code \<Rightarrow> rat \<Rightarrow> rat \<Rightarrow> goerr" where
  "requiredAvailable env c required available = Wrapfs '''' (getErrorByCode c)
     ('' for transfer. required: '' @ envDecimalString env required @ '', available: '' @ envDecimalString env available)"

section \<open>Addresses\<close>

text \<open>
  The functions of the libraries that decode an address: a coin with unspent outputs has its networks,
  and an address is valid on the first that decodes it.
\<close>

record address_lib =
  alBitcoin :: "(string \<Rightarrow> bool) list"
  alLitecoin :: "(string \<Rightarrow> bool) list"
  alBitcoinCash :: "(string \<Rightarrow> bool) list"
  alDogecoin :: "(string \<Rightarrow> bool) list"
  alIsHexAddress :: "string \<Rightarrow> bool"
  alBase58 :: "string \<Rightarrow> bool"

definition validOnSome :: "(string \<Rightarrow> bool) list \<Rightarrow> string \<Rightarrow> bool" where
  "validOnSome nets addr = (\<exists>net\<in>set nets. net addr)"

definition validateAddressByBlockchain :: "address_lib \<Rightarrow> string \<Rightarrow> string \<Rightarrow> bool" where
  "validateAddressByBlockchain lib addr blockchain =
     (if blockchain = ''bitcoin'' then validOnSome (alBitcoin lib) addr
      else if blockchain = ''litecoin'' then validOnSome (alLitecoin lib) addr
      else if blockchain = ''dogecoin'' then validOnSome (alDogecoin lib) addr
      else if blockchain \<in> set [''ethereum'', ''bsc'', ''polygon'', ''arbitrum''] then alIsHexAddress lib addr
      else if blockchain = ''tron'' then alBase58 lib addr
      else if blockchain = ''bitcoincash'' then validOnSome (alBitcoinCash lib) addr
      else False)"

fun validateAddressesByBlockchain :: "address_lib \<Rightarrow> string list \<Rightarrow> string \<Rightarrow> goerr option" where
  "validateAddressesByBlockchain lib [] blockchain = None"
| "validateAddressesByBlockchain lib (addr # addrs) blockchain =
     (if \<not> validateAddressByBlockchain lib addr blockchain then Some (ErrText (''invalid address: '' @ addr))
      else validateAddressesByBlockchain lib addrs blockchain)"

section \<open>The service and the request\<close>

text \<open>
  The settings, the instances of the chains, and the clients of the resource manager.
  \<open>csRows\<close> is the choice of PostgreSQL which rows a limit without an order lets pass.
\<close>

record order_request =
  orType :: order_type
  orAddress :: string
  orDuration :: "duration option"
  orAmount :: "64 word option"

record 'e create_service =
  csEnv :: "'e env"
  csTransfersEnabled :: bool
  csChainEnabled :: "blockchain_type \<Rightarrow> bool"
  csResourceManagerEnabled :: bool
  csUseCacheForWallets :: bool
  csDelegationDuration :: duration
  csAddresses :: address_lib
  csEvm :: "blockchain_type \<Rightarrow> 'e evm"
  csMaxGasFee :: "blockchain_type \<Rightarrow> rat"
  csTron :: "'e tron"
  csRows :: "nat \<Rightarrow> transfer list \<Rightarrow> transfer list"
  csServing :: "string \<Rightarrow> ('e, bool) op"
  csBatchCreateOrder :: "order_request list \<Rightarrow> ('e, tron_order list) op"
  csResourceExhausted :: "goerr \<Rightarrow> bool"
  csTimeout :: "goerr \<Rightarrow> bool"

record create_request =
  rqOwnerID :: uuid
  rqRequestID :: string
  rqBlockchain :: blockchain_type
  rqFromAddresses :: "string list"
  rqToAddresses :: "string list"
  rqAssetIdentifier :: string
  rqKind :: "string option"
  rqWholeAmount :: bool
  rqAmount :: "rat option"
  rqFee :: "rat option"
  rqFeeMax :: "rat option"

section \<open>Validation of the request\<close>

text \<open>\<open>lo.FindDuplicates\<close> and the text of a list of strings.\<close>

definition findDuplicates :: "string list \<Rightarrow> string list" where
  "findDuplicates xs = remdups (filter (\<lambda>x. 1 < length (filter ((=) x) xs)) xs)"

fun joinWords :: "string list \<Rightarrow> string" where
  "joinWords [] = ''''"
| "joinWords [x] = x"
| "joinWords (x # xs) = x @ '' '' @ joinWords xs"

text \<open>The first error of a list of checks.\<close>

fun firstError :: "goerr option list \<Rightarrow> goerr option" where
  "firstError [] = None"
| "firstError (None # es) = firstError es"
| "firstError (Some e # es) = Some e"

definition check :: "bool \<Rightarrow> string \<Rightarrow> goerr option" where
  "check ok msg = (if ok then None else Some (ErrText msg))"

definition validateBitcoin :: "create_request \<Rightarrow> goerr option" where
  "validateBitcoin r = firstError
     [check (rqKind r = None) ''kind is not supported for the bitcoin blockchain'',
      check (rqAssetIdentifier r = ''btc'') ''asset identifier must be btc for the bitcoin blockchain'']"

definition validateLitecoin :: "create_request \<Rightarrow> goerr option" where
  "validateLitecoin r = firstError
     [check (rqKind r = None) ''kind is not supported for the litecoin blockchain'',
      check (rqAssetIdentifier r = ''ltc'') ''asset identifier must be btc for the litecoin blockchain'']"

definition validateTron :: "bool \<Rightarrow> create_request \<Rightarrow> goerr option" where
  "validateTron resourceManagerEnabled r = firstError
     [check (textString (rqKind r) \<noteq> '''') ''kind is required for the tron transfers'',
      (if textString (rqKind r) = tronKindString TronTransferKindCloudDelegate \<and> \<not> resourceManagerEnabled
       then Some (Wrapf ''resource manager is disabled '' (getErrorByCode RPCCodeServiceUnavailable)) else None),
      check (tronKindValid (textString (rqKind r)))
        (''invalid transfer kind '' @ textString (rqKind r) @ ''. available [burntrx] and [resources] kinds'')]"

definition validateEVM :: "create_request \<Rightarrow> goerr option" where
  "validateEVM r = check (rqKind r = None)
     (''kind is not supported for the '' @ blockchainString (rqBlockchain r) @ '' blockchain'')"

definition positiveIfSet :: "rat option \<Rightarrow> bool" where
  "positiveIfSet d = (case d of None \<Rightarrow> True | Some x \<Rightarrow> x > 0)"

definition validateCreate :: "'e create_service \<Rightarrow> create_request \<Rightarrow> goerr option" where
  "validateCreate p r =
     (let b = rqBlockchain r; bs = blockchainString b; lib = csAddresses p in firstError
     [check (rqOwnerID r \<noteq> nilUuid) ''owner id is required'',
      check (rqRequestID r \<noteq> '''') ''request id is required'',
      check (blockchainValid b) (''invalid blockchain type: '' @ bs),
      (if isBitcoinLike b then check (1 \<le> length (rqFromAddresses r)) ''from address is required''
       else check (length (rqFromAddresses r) = 1) ''only one from address is supported''),
      check (length (rqToAddresses r) = 1) ''only one to address is supported'',
      check (\<forall>to'\<in>set (rqToAddresses r). to' \<notin> set (rqFromAddresses r)) ''from and to addresses could be different'',
      check (findDuplicates (rqFromAddresses r) = [])
        (''from addresses must be unique, duplicates: ['' @ joinWords (findDuplicates (rqFromAddresses r)) @ '']''),
      check (findDuplicates (rqToAddresses r) = [])
        (''to addresses must be unique, duplicates: ['' @ joinWords (findDuplicates (rqToAddresses r)) @ '']''),
      validateAddressesByBlockchain lib (rqFromAddresses r @ rqToAddresses r) bs,
      check (rqAssetIdentifier r \<noteq> '''') ''asset identifier is required'',
      check (\<not> (length (rqAssetIdentifier r) > 5 \<and> \<not> validateAddressByBlockchain lib (rqAssetIdentifier r) bs))
        (''invalid asset identifier: '' @ rqAssetIdentifier r),
      check (\<not> (rqWholeAmount r \<and> rqAmount r \<noteq> None)) ''whole amount and amount cannot be set at the same time'',
      check (rqWholeAmount r \<or> rqAmount r \<noteq> None) ''amount is required'',
      check (positiveIfSet (rqAmount r)) ''amount must be greater than 0'',
      check (positiveIfSet (rqFee r)) ''fee must be greater than 0'',
      check (positiveIfSet (rqFeeMax r)) ''max fee must be greater than 0'',
      (if b = BlockchainTypeBitcoin then validateBitcoin r
       else if b = BlockchainTypeLitecoin then validateLitecoin r
       else if b = BlockchainTypeTron then validateTron (csResourceManagerEnabled p) r
       else if isEVM b then validateEVM r
       else None)])"

section \<open>Queries\<close>

record find_params =
  fpOwnerID :: "uuid option"
  fpStatusesIn :: "transfer_status list"
  fpStatusesNotIn :: "transfer_status list"
  fpFromAddress :: "string option"
  fpToAddress :: "string option"
  fpBlockchain :: "blockchain_type option"
  fpLimit :: "int option"

definition noFindParams :: find_params where
  "noFindParams = \<lparr>fpOwnerID = None, fpStatusesIn = [], fpStatusesNotIn = [], fpFromAddress = None, fpToAddress = None,
     fpBlockchain = None, fpLimit = None\<rparr>"

text \<open>The common table expression: it has the limit, but not the addresses.\<close>

definition findCTE :: "(nat \<Rightarrow> transfer list \<Rightarrow> transfer list) \<Rightarrow> find_params \<Rightarrow> transfer list \<Rightarrow> transfer list" where
  "findCTE limited ps ts =
     (let rows = filter (\<lambda>t. (fpStatusesIn ps = [] \<or> trStatus t \<in> set (fpStatusesIn ps)) \<and>
            (fpStatusesNotIn ps = [] \<or> trStatus t \<notin> set (fpStatusesNotIn ps)) \<and>
            (fpOwnerID ps = None \<or> fpOwnerID ps = Some (trOwnerID t)) \<and>
            (fpBlockchain ps = None \<or> fpBlockchain ps = Some (trBlockchain t))) ts
      in case fpLimit ps of
           Some n \<Rightarrow> if n > 0 then limited (nat n) rows else rows
         | None \<Rightarrow> rows)"

definition createdAt :: "transfer \<Rightarrow> int" where
  "createdAt t = (case trCreatedAt t of None \<Rightarrow> 0 | Some x \<Rightarrow> x)"

definition findTransfers :: "(nat \<Rightarrow> transfer list \<Rightarrow> transfer list) \<Rightarrow> find_params \<Rightarrow> transfer list \<Rightarrow> transfer list" where
  "findTransfers limited ps ts =
     sort_key (\<lambda>t. - createdAt t)
       (filter (\<lambda>t. (textString (fpFromAddress ps) = '''' \<or> textString (fpFromAddress ps) \<in> set (trFromAddresses t)) \<and>
            (textString (fpToAddress ps) = '''' \<or> textString (fpToAddress ps) \<in> set (trToAddresses t)))
         (findCTE limited ps ts))"

definition qTransferFind :: "'e create_service \<Rightarrow> find_params \<Rightarrow> ('e world, transfer list) op" where
  "qTransferFind p ps =
     dbRead (csEnv p) False ''transfers.Find'' (\<lambda>d. Inr (findTransfers (csRows p) ps (dbTransfers d)))"

text \<open>\<open>state_data->'a'->'b'\<close>, and the sum of such a member over the rows.\<close>

definition dataPath :: "(string \<rightharpoonup> any_val) \<Rightarrow> string list \<Rightarrow> any_val option" where
  "dataPath sd path =
     (case path of [] \<Rightarrow> None | k # ks \<Rightarrow> (case sd k of None \<Rightarrow> None | Some v \<Rightarrow> lookupPath v ks))"

fun sumPath :: "'e env \<Rightarrow> string list \<Rightarrow> transfer list \<Rightarrow> goerr + rat" where
  "sumPath env path [] = Inr 0"
| "sumPath env path (t # ts) =
     (case decOfVal env (dataPath (trStateData t) path) of
        Inl e \<Rightarrow> Inl e
      | Inr x \<Rightarrow> (case sumPath env path ts of Inl e \<Rightarrow> Inl e | Inr y \<Rightarrow> Inr (x + y)))"

fun sumPaths :: "'e env \<Rightarrow> string list list \<Rightarrow> transfer list \<Rightarrow> goerr + rat list" where
  "sumPaths env [] ts = Inr []"
| "sumPaths env (path # paths) ts =
     (case sumPath env path ts of
        Inl e \<Rightarrow> Inl e
      | Inr x \<Rightarrow> (case sumPaths env paths ts of Inl e \<Rightarrow> Inl e | Inr xs \<Rightarrow> Inr (x # xs)))"

definition activeTron :: "tron_kind \<Rightarrow> string list list \<Rightarrow> db \<Rightarrow> transfer list" where
  "activeTron kind paths d = filter (\<lambda>t. trBlockchain t = BlockchainTypeTron \<and> trKind t = Some (tronKindString kind) \<and>
     trStatus t \<in> {TransferStatusNew, TransferStatusProcessing, TransferStatusUnconfirmed} \<and>
     (\<forall>path\<in>set paths. dataPath (trStateData t) path \<noteq> None)) (dbTransfers d)"

definition resourcesPaths :: "string list list" where
  "resourcesPaths =
     [[''estimated_resources'', ''need_to_delegate'', ''energy''],
      [''estimated_resources'', ''need_bandwidth_from_processing_wallet''],
      [''estimated_activation'', ''energy''], [''estimated_activation'', ''bandwidth'']]"

definition burnPaths :: "string list list" where
  "burnPaths =
     [[''estimated_resources'', ''trx''], [''estimated_activation'', ''energy''],
      [''estimated_activation'', ''bandwidth''], [''estimated_activation'', ''trx'']]"

record active_resources =
  arEnergy :: rat
  arBandwidth :: rat
  arActivationEnergy :: rat
  arActivationBandwidth :: rat

record active_burn =
  abTrx :: rat
  abActivationEnergy :: rat
  abActivationBandwidth :: rat
  abActivationTrx :: rat

definition getActiveTronTransfersResources :: "'e env \<Rightarrow> ('e world, active_resources) op" where
  "getActiveTronTransfersResources env =
     dbRead env False ''transfers.GetActiveTronTransfersResources'' (\<lambda>d.
       map_sum id (\<lambda>xs. \<lparr>arEnergy = xs ! 0, arBandwidth = xs ! 1, arActivationEnergy = xs ! 2, arActivationBandwidth = xs ! 3\<rparr>)
         (sumPaths env resourcesPaths (activeTron TronTransferKindResources resourcesPaths d)))"

definition getActiveTronTransfersBurn :: "'e env \<Rightarrow> ('e world, active_burn) op" where
  "getActiveTronTransfersBurn env =
     dbRead env False ''transfers.GetActiveTronTransfersBurn'' (\<lambda>d.
       map_sum id (\<lambda>xs. \<lparr>abTrx = xs ! 0, abActivationEnergy = xs ! 1, abActivationBandwidth = xs ! 2, abActivationTrx = xs ! 3\<rparr>)
         (sumPaths env burnPaths (activeTron TronTransferKindBurnTRX burnPaths d)))"

text \<open>
  \<open>insert into transfers \<dots> returning\<close>. The table has the unique key of client, owner and request; the
  snapshot of the parameters is the zero value.
\<close>

definition uniqueViolation :: goerr where
  "uniqueViolation = ErrPg ''duplicate key value violates unique constraint'' ''''"

definition storeErrAlreadyExists :: goerr where "storeErrAlreadyExists = ErrExt ''storecmn'' ''already exists''"

definition sameRequest :: "transfer \<Rightarrow> transfer \<Rightarrow> bool" where
  "sameRequest t t' \<longleftrightarrow> trClientID t = trClientID t' \<and> trOwnerID t = trOwnerID t' \<and> trRequestID t = trRequestID t'"

definition newTransfer :: "uuid \<Rightarrow> int \<Rightarrow> transfer \<Rightarrow> transfer" where
  "newTransfer i now t = t\<lparr>trID := i, trTxHash := None, trCreatedAt := Some now, trUpdatedAt := None,
     trSnapshot := \<lparr>StepsStates = [], WorkflowState = newWorkflowState\<rparr>\<rparr>"

definition qTransferCreate :: "'e env \<Rightarrow> transfer \<Rightarrow> ('e world, transfer) op" where
  "qTransferCreate env t w =
     (let i = envNewID env (wdExt w) in
      if \<exists>t'\<in>set (dbTransfers (dbView False w)). trID t' = i \<or> sameRequest t t'
      then dbRead env False ''transfers.Create'' (\<lambda>_. Inl uniqueViolation) w
      else dbQuery env False ''transfers.Create'' (\<lambda>now d. d\<lparr>dbTransfers := dbTransfers d @ [newTransfer i now t]\<rparr>)
             (transferRow i) w)"

section \<open>Coins with unspent outputs\<close>

definition chainEnabled :: "'e create_service \<Rightarrow> create_request \<Rightarrow> 's act" where
  "chainEnabled p r = guardE (csChainEnabled p (rqBlockchain r)) (getErrorByCode RPCCodeBlockchainIsDisabled)"

text \<open>\<open>balance.LessThanOrEqual(req.Amount.Decimal)\<close>, and an empty balance for the whole amount.\<close>

definition checkBalance :: "'e create_service \<Rightarrow> create_request \<Rightarrow> rat \<Rightarrow> 's act" where
  "checkBalance p r balance =
     bnd (guardE (\<not> (\<not> rqWholeAmount r \<and> balance \<le> nullDecimal (rqAmount r)))
            (requiredAvailable (csEnv p) RPCCodeAddressEmptyBalance (nullDecimal (rqAmount r)) balance)) (\<lambda>_.
     guardE (\<not> (rqWholeAmount r \<and> \<not> balance > 0))
       (Wrapfs '''' (getErrorByCode RPCCodeAddressEmptyBalance) '' for transfer with whole amount, available: 0''))"

text \<open>The goroutine for one address.\<close>

definition checkCoinAddress :: "'e create_service \<Rightarrow> create_request \<Rightarrow> string \<Rightarrow> 'e world act" where
  "checkCoinAddress p r addr =
     bnd (wrapErr ''get balance'' (liftExt (envAddressBalance (csEnv p) addr (rqAssetIdentifier r) (rqBlockchain r)))) (\<lambda>balance.
     bnd (checkBalance p r balance) (\<lambda>_.
     bnd (wrapErr ''find transfers'' (qTransferFind p (noFindParams\<lparr>fpStatusesIn := [TransferStatusProcessing],
            fpFromAddress := Some addr, fpBlockchain := Some (rqBlockchain r), fpLimit := Some 1\<rparr>))) (\<lambda>transfers.
     guardE (transfers = []) (Wrapf (addr @ '': '') (getErrorByCode RPCCodeAddressIsTaken)))))"

definition processBTCLike :: "'e create_service \<Rightarrow> create_request \<Rightarrow> 'e world act" where
  "processBTCLike p r =
     bnd (if isBitcoinLike (rqBlockchain r) then chainEnabled p r
          else fail (ErrText (''unsupported blockchain: '' @ blockchainString (rqBlockchain r)))) (\<lambda>_.
     bnd (guardE (rqWholeAmount r) (ErrText ''only whole amount is supported for bitcoin transfers'')) (\<lambda>_.
     bnd (guardE (\<not> (\<not> rqWholeAmount r \<and> length (rqFromAddresses r) \<noteq> 1))
            (ErrText ''only one from address is supported for transfer with amount'')) (\<lambda>_.
     wrapErr ''check balances on from addresses'' (groupRun (map (checkCoinAddress p r) (rqFromAddresses r))))))"

section \<open>Chains of the EVM\<close>

text \<open>\<open>req.FromAddresses[0]\<close> and \<open>req.ToAddresses[0]\<close>; the request was validated.\<close>

definition requestFrom :: "create_request \<Rightarrow> string" where "requestFrom r = hd (rqFromAddresses r)"
definition requestTo :: "create_request \<Rightarrow> string" where "requestTo r = hd (rqToAddresses r)"

definition addressBalance :: "'e create_service \<Rightarrow> create_request \<Rightarrow> string \<Rightarrow> string \<Rightarrow> ('e world, rat) op" where
  "addressBalance p r addr asset = liftExt (envAddressBalance (csEnv p) addr asset (rqBlockchain r))"

definition addressNotTaken :: "'e create_service \<Rightarrow> create_request \<Rightarrow> 'e world act" where
  "addressNotTaken p r =
     bnd (wrapErr ''find transfers'' (qTransferFind p (noFindParams\<lparr>
            fpStatusesNotIn := [TransferStatusCompleted, TransferStatusFailed],
            fpFromAddress := Some (requestFrom r), fpBlockchain := Some (rqBlockchain r)\<rparr>))) (\<lambda>transfers.
     guardE (transfers = []) (getErrorByCode RPCCodeAddressIsTaken))"

definition toEther :: "'e create_service \<Rightarrow> rat \<Rightarrow> rat" where
  "toEther p wei = unitValue (csEnv p) (newUnit wei EtherUnitWei) EtherUnitEther"

definition requestAmount :: "create_request \<Rightarrow> rat \<Rightarrow> rat" where
  "requestAmount r balance = (if rqWholeAmount r then balance else nullDecimal (rqAmount r))"

definition checkMaxFee :: "'e create_service \<Rightarrow> create_request \<Rightarrow> wallet_type \<Rightarrow> rat \<Rightarrow> int \<Rightarrow> 'e world act" where
  "checkMaxFee p r wft balance decimals =
     (let b = rqBlockchain r; ds = envDecimalString (csEnv p) in
      if wft = WalletTypeHot \<and> (rqFeeMax r \<noteq> None \<or> csMaxGasFee p b > 0) then
        bnd (wrapErr ''estimate transfer'' (liftExt (estimateTransfer (csEnv p) (csEvm p b) (requestFrom r) (requestTo r)
               (rqAssetIdentifier r) (requestAmount r balance) decimals))) (\<lambda>est.
        (let feeMax = (case rqFeeMax r of Some x \<Rightarrow> x | None \<Rightarrow> csMaxGasFee p b);
             gwei = unitValue (csEnv p) (newUnit (erTotalGasPrice est) EtherUnitWei) EtherUnitGWei in
         guardE (\<not> gwei > feeMax)
           (Wrapfs '''' (getErrorByCode RPCCodeMaxFeeExceeded)
              ('': estimated gas price is exceeded: '' @ ds gwei @ '' > '' @ ds feeMax))))
      else ret ())"

definition notEnoughFee :: "create_request \<Rightarrow> string \<Rightarrow> goerr" where
  "notEnoughFee r rest = Wrapfs '''' (getErrorByCode RPCCodeNotEnoughBalance)
     ('' '' @ getAssetIdentifier (rqBlockchain r) @ '' on processing wallet: fee '' @ rest)"

definition checkTokenFee :: "'e create_service \<Rightarrow> create_request \<Rightarrow> wallet_type \<Rightarrow> rat \<Rightarrow> int \<Rightarrow> ('e world, string \<rightharpoonup> any_val) op" where
  "checkTokenFee p r wft balance decimals =
     (let b = rqBlockchain r; asset = getAssetIdentifier b; ds = envDecimalString (csEnv p);
          estim = estimateTransfer (csEnv p) (csEvm p b) in
      if wft = WalletTypeHot \<and> rqAssetIdentifier r \<noteq> asset then
        bnd (wrapErr ''get processing wallet'' (processingGetByBlockchain (csEnv p) (rqOwnerID r) b)) (\<lambda>pw.
        bnd (wrapErr ''get processing wallet balance'' (addressBalance p r (wlAddress pw) asset)) (\<lambda>procBalance.
        bnd (wrapErr ''get balance'' (addressBalance p r (requestFrom r) asset)) (\<lambda>hotBalance.
        bnd (wrapErr ''estimate transfer resources'' (liftExt (estim (requestFrom r) (requestTo r) (rqAssetIdentifier r)
               (requestAmount r balance) decimals))) (\<lambda>est.
        (let fee = toEther p (erTotalFeeAmount est * (1007 / 1000)); need = fee - hotBalance;
             sd = [''handler_estimated_resources'' \<mapsto> estimateVal est, ''need_fee_amount'' \<mapsto> VDec fee] in
         if hotBalance < fee then
           bnd (guardE (\<not> procBalance < need) (notEnoughFee r (ds need @ '' / balance '' @ ds procBalance))) (\<lambda>_.
           bnd (wrapErr (''estimate '' @ asset @ '' transfer resources'')
                  (liftExt (estim (wlAddress pw) (requestFrom r) asset need 18))) (\<lambda>est2.
           (let cost = toEther p (erTotalFeeAmount est2) in
           bnd (guardE (\<not> procBalance - cost < need)
                  (notEnoughFee r (ds need @ '' / transfer cost '' @ ds cost @ '' / balance '' @ ds procBalance))) (\<lambda>_.
           ret (sd(''need_fee_amount'' \<mapsto> VDec need))))))
         else ret sd)))))
      else ret Map.empty)"

definition processEVM :: "'e create_service \<Rightarrow> create_request \<Rightarrow> wallet_type \<Rightarrow> ('e world, string \<rightharpoonup> any_val) op" where
  "processEVM p r wft =
     bnd (if isEVM (rqBlockchain r) then chainEnabled p r
          else fail (ErrText (''unsupported blockchain type: '' @ blockchainString (rqBlockchain r)))) (\<lambda>_.
     bnd (wrapErr (''get wallet ['' @ requestFrom r @ ''] balance'')
            (addressBalance p r (requestFrom r) (rqAssetIdentifier r))) (\<lambda>balance.
     bnd (checkBalance p r balance) (\<lambda>_.
     bnd (addressNotTaken p r) (\<lambda>_.
     bnd (wrapErr ''get asset decimals'' (liftExt (envAssetDecimals (csEnv p) (rqBlockchain r) (rqAssetIdentifier r)))) (\<lambda>decimals.
     bnd (checkMaxFee p r wft balance decimals) (\<lambda>_.
     checkTokenFee p r wft balance decimals))))))"

section \<open>Tron\<close>

definition activationVal :: "activation_resources \<Rightarrow> any_val" where
  "activationVal a = VObj
     [(''energy'', VDec (acEnergy a)), (''bandwidth'', VDec (acBandwidth a)), (''trx'', VDec (acTrx a))]"

definition delegateResponseVal :: "delegate_response \<Rightarrow> any_val" where
  "delegateResponseVal r = VObj
     [(''need_to_delegate'', resourcesVal (dpNeedToDelegate r)),
      (''need_bandwidth_from_processing_wallet'', VDec (dpNeedBandwidth r))]"

definition activeResourcesVal :: "active_resources \<Rightarrow> any_val" where
  "activeResourcesVal a = VObj
     [(''energy'', VDec (arEnergy a)), (''bandwidth'', VDec (arBandwidth a)),
      (''activation_energy'', VDec (arActivationEnergy a)), (''activation_bandwidth'', VDec (arActivationBandwidth a))]"

definition externalResponseVal :: "external_response \<Rightarrow> any_val" where
  "externalResponseVal r = VObj
     [(''need_resources_to_transfer'', resourcesVal (epNeedResourcesToTransfer r)),
      (''need_system_resources'', VObj
         [(''need_for_energy_delegation'', VDec (syEnergyDelegation (epNeedSystemResources r))),
          (''need_for_energy_reclaim'', VDec (syEnergyReclaim (epNeedSystemResources r))),
          (''need_for_bandwidth_delegation'', VDec (syBandwidthDelegation (epNeedSystemResources r))),
          (''need_for_bandwidth_reclaim'', VDec (syBandwidthReclaim (epNeedSystemResources r)))]),
      (''need_resources_to_activate'', activationVal (epNeedResourcesToActivate r)),
      (''need_to_activate'', VBool (epNeedToActivate r))]"

definition noActivation :: activation_resources where
  "noActivation = \<lparr>acEnergy = 0, acBandwidth = 0, acTrx = 0\<rparr>"

text \<open>A refusal for the lack of resources, with what is required and the rest of the message.\<close>

definition lacks :: "string \<Rightarrow> string \<Rightarrow> goerr" where
  "lacks prefix rest = Wrapfs prefix (getErrorByCode RPCCodeNotEnoughResources) rest"

text \<open>
  Whether the processing wallet can pay for a wallet that has to be activated, with TRX that are burned. The
  first refusal also prints the struct of the sums, which is left out of its text here.
\<close>

definition processBurnTRX :: "'e create_service \<Rightarrow> create_request \<Rightarrow> transfer_resources \<Rightarrow> ('e world, string \<rightharpoonup> any_val) op" where
  "processBurnTRX p r est =
     (let t = csTron p; ds = envDecimalString (csEnv p) in
     bnd (wrapErr ''get processing wallet'' (processingGetByBlockchain (csEnv p) (rqOwnerID r) (rqBlockchain r))) (\<lambda>pw.
     bnd (wrapErr ''get processing wallet balance'' (addressBalance p r (wlAddress pw) TrxAssetIdentifier)) (\<lambda>balance.
     bnd (wrapErr ''check wallet activation'' (liftExt (checkIsWalletActivated t (requestFrom r)))) (\<lambda>activated.
     if activated then ret [''estimated_resources'' \<mapsto> estimateResourcesVal est]
     else
     bnd (if trnUseBurnTRXActivation t then
            bnd (wrapErr ''estimate system activation transaction''
                   (liftExt (estimateSystemContractActivation t (wlAddress pw) (requestFrom r)))) (\<lambda>activation.
            bnd (wrapErr ''get active tron transfers burn'' (getActiveTronTransfersBurn (csEnv p))) (\<lambda>burn.
            bnd (guardE (\<not> balance - (abActivationTrx burn + abTrx burn) < trfTrx est + acTrx activation)
                   (Wrapfs ''processing wallet '' (getErrorByCode RPCCodeAddressEmptyBalance)
                      ('' for transfer. required: '' @ ds (trfTrx est + acTrx activation) @ '' TRX, available: '' @ ds balance @ '' TRX''))) (\<lambda>_.
            ret activation)))
          else
            bnd (wrapErr ''get processing wallet available resources'' (liftExt (accountResourceInfo t (wlAddress pw)))) (\<lambda>info.
            bnd (wrapErr ''get active tron transfers'' (getActiveTronTransfersResources (csEnv p))) (\<lambda>active.
            bnd (wrapErr ''get active tron transfers burn'' (getActiveTronTransfersBurn (csEnv p))) (\<lambda>burn.
            bnd (wrapErr ''estimate activation call''
                   (liftExt (estimateExternalContractActivation t (wlAddress pw) (requestFrom r)))) (\<lambda>activation.
            bnd (guardE (\<not> balance - (abActivationTrx burn + abTrx burn) < trfTrx est)
                   (Wrapfs ''processing wallet '' (getErrorByCode RPCCodeAddressEmptyBalance)
                      ('' for transfer. required: '' @ ds (trfTrx est) @ '' TRX, available: '' @ ds balance @ '' TRX''))) (\<lambda>_.
            bnd (guardE (\<not> aiTotalAvailableEnergy info - (arEnergy active + arActivationEnergy active + abActivationEnergy burn) < acEnergy activation)
                   (lacks ''check active tron transfers with external contract activation. processing wallet ''
                      ('' energy for activation on processing wallet. required: '' @ ds (acEnergy activation) @
                          '', active transfers: '' @ ds (arEnergy active) @ '' energy, active activations: '' @
                          ds (arActivationEnergy active + abActivationEnergy burn) @ '' energy''))) (\<lambda>_.
            bnd (guardE (\<not> aiTotalAvailableBandwidth info - (arBandwidth active + arActivationBandwidth active + abActivationBandwidth burn) < acBandwidth activation)
                   (lacks ''check active tron transfers with external contract activation. processing wallet ''
                      ('' bandwidth for activation on processing wallet. required: '' @ ds (acBandwidth activation) @
                          '', active transfers: '' @ ds (arBandwidth active) @ '' bandwidth, active activations: '' @
                          ds (arActivationBandwidth active + abActivationBandwidth burn) @ '' bandwidth''))) (\<lambda>_.
            ret activation)))))))) (\<lambda>activation.
     ret [''estimated_resources'' \<mapsto> estimateResourcesVal est, ''estimated_activation'' \<mapsto> activationVal activation])))))"

text \<open>The activation of the hot wallet, when it is needed, on top of the resources of the transfers in work.\<close>

definition checkActivation :: "'e create_service \<Rightarrow> create_request \<Rightarrow> processing_wallet \<Rightarrow> transfer_resources \<Rightarrow> active_resources \<Rightarrow>
    ('e world, activation_resources) op" where
  "checkActivation p r pw est active =
     (let t = csTron p; ds = envDecimalString (csEnv p) in
     bnd (wrapErr ''check wallet activation'' (liftExt (checkIsWalletActivated t (requestFrom r)))) (\<lambda>activated.
     if activated then ret noActivation
     else
     bnd (wrapErr ''get processing wallet available resources'' (liftExt (accountResourceInfo t (wlAddress pw)))) (\<lambda>info.
     if trnUseBurnTRXActivation t then
       bnd (wrapErr ''estimate system activation transaction''
              (liftExt (estimateSystemContractActivation t (wlAddress pw) (requestFrom r)))) (\<lambda>activation.
       bnd (guardE (\<not> aiTotalAvailableBandwidth info - (arBandwidth active + arActivationBandwidth active) < trfBandwidth est + acBandwidth activation)
              (lacks ''processing wallet '' ('' bandwidth for transfer with activation on processing wallet. required: '' @
                 ds (trfBandwidth est + acBandwidth activation) @ '', available: '' @ ds (aiTotalAvailableBandwidth info)))) (\<lambda>_.
       ret activation))
     else
       bnd (wrapErr ''estimate activation call''
              (liftExt (estimateExternalContractActivation t (wlAddress pw) (requestFrom r)))) (\<lambda>activation.
       bnd (guardE (\<not> aiTotalAvailableEnergy info - (arEnergy active + arActivationEnergy active) < trfEnergy est + acEnergy activation)
              (lacks ''check active tron transfers with system contract activation. processing wallet ''
                 ('' energy for transfer with activation on processing wallet. required: '' @ ds (trfEnergy est + acEnergy activation) @
                    '', active transfers: '' @ ds (arEnergy active) @ '' energy, active activations: '' @
                    ds (arActivationEnergy active) @ '' energy''))) (\<lambda>_.
       bnd (guardE (\<not> aiTotalAvailableBandwidth info - (arBandwidth active + arActivationBandwidth active) < trfBandwidth est + acBandwidth activation)
              (lacks ''check active tron transfers with activation. processing wallet ''
                 ('' bandwidth for transfer with activation on processing wallet. required: '' @ ds (trfBandwidth est + acBandwidth activation) @
                    '', active transfers: '' @ ds (arBandwidth active) @ '' bandwidth, active activations: '' @
                    ds (arActivationBandwidth active) @ '' bandwidth''))) (\<lambda>_.
       ret activation))))))"

definition processResources :: "'e create_service \<Rightarrow> create_request \<Rightarrow> transfer_resources \<Rightarrow> ('e world, string \<rightharpoonup> any_val) op" where
  "processResources p r est =
     (let t = csTron p; ds = envDecimalString (csEnv p) in
     bnd (wrapErr ''get processing wallet'' (processingGetByBlockchain (csEnv p) (rqOwnerID r) (rqBlockchain r))) (\<lambda>pw.
     bnd (wrapErr ''get processing wallet available resources'' (liftExt (availableForDelegateResources t (wlAddress pw)))) (\<lambda>procRes.
     bnd (wrapErr ''get hot wallet available resources'' (liftExt (totalAvailableResources t (requestFrom r)))) (\<lambda>hotRes.
     bnd (wrapErr ''estimate transfer with delegate resources'' (liftExt (estimateTransferWithDelegateResources t
            \<lparr>dqProcessingAddress = wlAddress pw, dqHotWalletAddress = requestFrom r, dqProcessingResources = procRes,
             dqHotResources = hotRes, dqEstimate = est\<rparr>))) (\<lambda>res.
     bnd (guardE (\<not> (dpNeedBandwidth res > 0 \<and> rsBandwidth procRes < dpNeedBandwidth res))
            (lacks ''processing wallet '' ('' bandwidth for transfer on processing wallet. required: '' @
               ds (dpNeedBandwidth res) @ '', available: '' @ ds (rsBandwidth procRes)))) (\<lambda>_.
     bnd (wrapErr ''get active tron transfers'' (getActiveTronTransfersResources (csEnv p))) (\<lambda>active.
     bnd (guardE (\<not> rsEnergy procRes - arEnergy active < rsEnergy (dpNeedToDelegate res))
            (lacks ''check active tron transfers. processing wallet ''
               ('' energy for transfer on processing wallet. required: '' @ ds (rsEnergy (dpNeedToDelegate res)) @ '', available: '' @
                ds (rsEnergy procRes) @ '' / active transfers energy: '' @ ds (arEnergy active)))) (\<lambda>_.
     bnd (guardE (\<not> rsBandwidth procRes - arBandwidth active < dpNeedBandwidth res)
            (lacks ''check active tron transfers. processing wallet ''
               ('' bandwidth for transfer on processing wallet. required: '' @ ds (dpNeedBandwidth res) @ '', available: '' @
                ds (rsBandwidth procRes) @ '' / active transfers bandwidth: '' @ ds (arBandwidth active)))) (\<lambda>_.
     bnd (checkActivation p r pw est active) (\<lambda>activation.
     ret [''estimated_resources'' \<mapsto> delegateResponseVal res, ''estimated_activation'' \<mapsto> activationVal activation,
          ''active_tron_transfers'' \<mapsto> activeResourcesVal active]))))))))))"

text \<open>
  The health of one service of the resource manager: the call is repeated for network errors only, and
  every error is replaced by the code of an unavailable service.
\<close>

definition serviceHealth :: "'e create_service \<Rightarrow> string \<Rightarrow> string \<Rightarrow> 'e world act" where
  "serviceHealth p service what =
     bnd (catchErr (liftExt (retryCall (newRetry (\<lambda>d (y, v). (envSleep (csEnv p) d y, v)) [withMaxAttempts 2, withPolicy PolicyLinear])
            (catchErr (csServing p service) (\<lambda>e. if \<not> isNetworkError (csTimeout p) e then fail ErrExit else fail e))))
            (\<lambda>_. fail (Wrapf ''resource manager health '' (getErrorByCode RPCCodeServiceUnavailable)))) (\<lambda>serving.
     guardE serving (Wrapf (''resource manager '' @ what @ '' is not serving: '') (getErrorByCode RPCCodeServiceUnavailable)))"

text \<open>The orders for what the wallet lacks.\<close>

definition externalOrders :: "duration \<Rightarrow> string \<Rightarrow> external_response \<Rightarrow> order_request list" where
  "externalOrders delegation addr res =
     (let need = epNeedResourcesToTransfer res in
      (if epNeedToActivate res
       then [\<lparr>orType = ORDER_TYPE_TRON_ADDRESS_ACTIVATION, orAddress = addr, orDuration = None, orAmount = None\<rparr>] else []) @
      (if rsBandwidth need \<noteq> 0
       then [\<lparr>orType = ORDER_TYPE_TRON_BANDWIDTH_DELEGATION, orAddress = addr, orDuration = Some delegation,
              orAmount = Some (intPart (rsBandwidth need))\<rparr>] else []) @
      (if rsEnergy need \<noteq> 0
       then [\<lparr>orType = ORDER_TYPE_TRON_ENERGY_DELEGATION, orAddress = addr, orDuration = Some delegation,
              orAmount = Some (intPart (rsEnergy need))\<rparr>] else []))"

definition storeOrderID :: "tron_order \<Rightarrow> (string \<rightharpoonup> any_val) \<Rightarrow> (string \<rightharpoonup> any_val)" where
  "storeOrderID order sd =
     (case odType order of
        ORDER_TYPE_TRON_ADDRESS_ACTIVATION \<Rightarrow> sd(ActivationOrderID \<mapsto> VStr (odOrderID order))
      | ORDER_TYPE_TRON_BANDWIDTH_DELEGATION \<Rightarrow> sd(BandwidthOrderID \<mapsto> VStr (odOrderID order))
      | ORDER_TYPE_TRON_ENERGY_DELEGATION \<Rightarrow> sd(EnergyOrderID \<mapsto> VStr (odOrderID order))
      | OtherOrderType s \<Rightarrow> sd)"

definition processCloudDelegate :: "'e create_service \<Rightarrow> create_request \<Rightarrow> transfer_resources \<Rightarrow> ('e world, string \<rightharpoonup> any_val) op" where
  "processCloudDelegate p r est =
     (let t = csTron p in
     bnd (wrapErr ''check resource manager health'' (groupRun
            [serviceHealth p ''activator'' ''activator'', serviceHealth p ''tron'' ''tron node''])) (\<lambda>_.
     bnd (wrapErr ''get hot wallet available resources'' (liftExt (totalAvailableResources t (requestFrom r)))) (\<lambda>hotRes.
     bnd (wrapErr ''estimate transfer with external delegate resources''
            (liftExt (estimateTransferWithExternalDelegateResources t (requestFrom r) hotRes est))) (\<lambda>res.
     (let sd = [''estimated_resources'' \<mapsto> externalResponseVal res];
          orders = externalOrders (csDelegationDuration p) (requestFrom r) res in
      if orders = [] then ret sd
      else
      bnd (catchErr (liftExt (csBatchCreateOrder p orders)) (\<lambda>e.
             if csResourceExhausted p e
             then fail (Wrapf ''create orders for transfer: '' (getErrorByCode RPCCodeNotEnoughResources)) else fail e)) (\<lambda>created.
      ret (fold storeOrderID created sd)))))))"

text \<open>The kinds of a transfer from a processing wallet; its data are kept by two of them and replaced by the third.\<close>

definition processTronProcessingWallets :: "'e create_service \<Rightarrow> create_request \<Rightarrow> ('e world, string \<rightharpoonup> any_val) op" where
  "processTronProcessingWallets p r =
     (let t = csTron p; env = csEnv p; ds = envDecimalString env; kind = textString (rqKind r); asset = rqAssetIdentifier r in
     bnd (wrapErr ''get processing wallet balance'' (addressBalance p r (requestFrom r) asset)) (\<lambda>balance.
     bnd (guardE (balance > 0) (Wrapfs '''' (getErrorByCode RPCCodeAddressEmptyBalance)
            ('' for transfer. available: '' @ ds balance))) (\<lambda>_.
     (let amount = requestAmount r balance in
     bnd (guardE (\<not> amount > balance) (requiredAvailable env RPCCodeNotEnoughBalance (nullDecimal (rqAmount r)) balance)) (\<lambda>_.
     bnd (liftExt (envAssetDecimals env BlockchainTypeTron asset)) (\<lambda>decimals.
     bnd (wrapErr ''estimate transfer resources''
            (liftExt (estimateTransferResources t (requestFrom r) (requestTo r) asset amount decimals))) (\<lambda>est.
     (let sd = [''handler_current_balance'' \<mapsto> VDec balance, ''handler_estimated_resources'' \<mapsto> estimateResourcesVal est,
                ''handler_transfer_amount'' \<mapsto> VDec amount] in
      if kind = tronKindString TronTransferKindBurnTRX then
        bnd (wrapErr ''get processing wallet balance'' (addressBalance p r (requestFrom r) TrxAssetIdentifier)) (\<lambda>trx.
        bnd (guardE (trx > 0) (Wrapfs '''' (getErrorByCode RPCCodeAddressEmptyBalance)
               ('' for transfer. available: '' @ ds trx))) (\<lambda>_.
        (let required = (if asset \<noteq> TrxAssetIdentifier then trfTrx est else amount + trfTrx est) in
        bnd (guardE (\<not> trx < required) (requiredAvailable env RPCCodeNotEnoughBalance required trx)) (\<lambda>_.
        ret (sd(''handler_current_balance_trx'' \<mapsto> VDec trx))))))
      else if kind = tronKindString TronTransferKindResources then
        bnd (wrapErr ''get processing wallet available resources'' (liftExt (totalAvailableResources t (requestFrom r)))) (\<lambda>res.
        bnd (guardE (\<not> rsEnergy res < trfEnergy est) (lacks ''processing wallet ''
               ('' energy for transfer on processing wallet. required: '' @ ds (trfEnergy est) @ '', available: '' @ ds (rsEnergy res)))) (\<lambda>_.
        bnd (guardE (\<not> rsBandwidth res < trfBandwidth est) (lacks ''processing wallet ''
               ('' bandwidth for transfer on processing wallet. required: '' @ ds (trfBandwidth est) @ '', available: '' @ ds (rsBandwidth res)))) (\<lambda>_.
        ret (sd(''handler_available_resources'' \<mapsto> resourcesVal res)))))
      else if kind = tronKindString TronTransferKindCloudDelegate then processCloudDelegate p r est
      else fail (ErrText (''unavailable transfer kind: '' @ kind @ '' for processing withdrawal''))))))))))"

definition processTronHotWallets :: "'e create_service \<Rightarrow> create_request \<Rightarrow> ('e world, string \<rightharpoonup> any_val) op" where
  "processTronHotWallets p r =
     (let t = csTron p; env = csEnv p; ds = envDecimalString env; kind = textString (rqKind r); asset = rqAssetIdentifier r in
     bnd (wrapErr ''get hot wallet balance'' (addressBalance p r (requestFrom r) asset)) (\<lambda>balance.
     bnd (guardE (balance > 0) (Wrapfs ''hot wallet '' (getErrorByCode RPCCodeAddressEmptyBalance)
            ('' for transfer. available: '' @ ds balance))) (\<lambda>_.
     bnd (if rqWholeAmount r \<and> asset = TrxAssetIdentifier then
            bnd (wrapErr ''sub activation fee from amount'' (liftExt (estimateActivationFee t (requestFrom r) (requestTo r)))) (\<lambda>fee.
            ret (balance - acTrx fee))
          else ret (requestAmount r balance)) (\<lambda>amount.
     bnd (guardE (\<not> amount > balance) (requiredAvailable env RPCCodeNotEnoughBalance (nullDecimal (rqAmount r)) balance)) (\<lambda>_.
     bnd (liftExt (envAssetDecimals env BlockchainTypeTron asset)) (\<lambda>decimals.
     bnd (wrapErr ''estimate transfer resources''
            (liftExt (estimateTransferResources t (requestFrom r) (requestTo r) asset amount decimals))) (\<lambda>est.
     if kind = tronKindString TronTransferKindBurnTRX then processBurnTRX p r est
     else if kind = tronKindString TronTransferKindResources then processResources p r est
     else if kind = tronKindString TronTransferKindCloudDelegate then processCloudDelegate p r est
     else ret [''estimated_resources'' \<mapsto> estimateResourcesVal est])))))))"

definition processTron :: "'e create_service \<Rightarrow> create_request \<Rightarrow> wallet_type \<Rightarrow> ('e world, string \<rightharpoonup> any_val) op" where
  "processTron p r wft =
     bnd (chainEnabled p r) (\<lambda>_.
     bnd (addressNotTaken p r) (\<lambda>_.
     case wft of
       WalletTypeProcessing \<Rightarrow> wrapErr ''handle processing wallet'' (processTronProcessingWallets p r)
     | WalletTypeHot \<Rightarrow> wrapErr ''handle hot wallet'' (processTronHotWallets p r)
     | _ \<Rightarrow> fail (ErrText (''unavailable wallet from type: '' @ walletTypeString wft))))"

section \<open>Creation\<close>

text \<open>The loops over the addresses; the type of the first wallet has to be the type of all.\<close>

fun checkWallets :: "'e create_service \<Rightarrow> create_request \<Rightarrow> string \<Rightarrow> wallet_type option \<Rightarrow> string list \<Rightarrow> ('e world, wallet_type option) op" where
  "checkWallets p r what wt [] = ret wt"
| "checkWallets p r what wt (addr # addrs) =
     bnd (wrapErr (''check wallet '' @ what @ '' for blockchain '' @ blockchainString (rqBlockchain r) @ '' and address '' @ addr)
            (checkWallet (csEnv p) (csUseCacheForWallets p) (rqBlockchain r) addr)) (\<lambda>res.
     bnd (guardE (cwOwnerID res = rqOwnerID r) (ErrText (''invalid wallet owner '' @ rqOwnerID r))) (\<lambda>_.
     bnd (guardE (wt = None \<or> wt = Some (cwWalletType res)) (ErrText (''different wallet types in '' @ what @ '' addresses''))) (\<lambda>_.
     checkWallets p r what (Some (cwWalletType res)) addrs)))"

definition noWalletType :: wallet_type where "noWalletType = OtherWalletType ''''"

definition walletTypeOf :: "wallet_type option \<Rightarrow> wallet_type" where
  "walletTypeOf wt = (case wt of None \<Rightarrow> noWalletType | Some w \<Rightarrow> w)"

text \<open>The types of the wallets on both sides; the targets of a processing wallet are not looked up.\<close>

definition requestWallets :: "'e create_service \<Rightarrow> create_request \<Rightarrow> ('e world, wallet_type \<times> wallet_type) op" where
  "requestWallets p r =
     bnd (checkWallets p r ''from'' None (rqFromAddresses r)) (\<lambda>wf.
     (let wft = walletTypeOf wf in
     bnd (if wft = WalletTypeProcessing then ret None else checkWallets p r ''to'' None (rqToAddresses r)) (\<lambda>wt.
     (let wtt = walletTypeOf wt in
     bnd (guardE (walletTypeValid wft) (ErrText (''invalid wallet from type '' @ walletTypeString wft))) (\<lambda>_.
     bnd (guardE (wft \<in> set [WalletTypeHot, WalletTypeProcessing])
            (ErrText (''invalid wallet from type for transfer ('' @ walletTypeString wft @ '')''))) (\<lambda>_.
     bnd (guardE (wft = WalletTypeProcessing \<or> walletTypeValid wtt) (ErrText (''invalid wallet to type '' @ walletTypeString wtt))) (\<lambda>_.
     bnd (guardE (\<not> (wft = WalletTypeHot \<and> wtt \<notin> set [WalletTypeCold, WalletTypeProcessing]))
            (ErrText (''invalid wallet to type '' @ walletTypeString wtt))) (\<lambda>_.
     ret (wft, wtt)))))))))"

definition processChain :: "'e create_service \<Rightarrow> create_request \<Rightarrow> wallet_type \<Rightarrow> ('e world, string \<rightharpoonup> any_val) op" where
  "processChain p r wft =
     (let b = rqBlockchain r in
      if isBitcoinLike b
      then wrapErr (''process '' @ blockchainString b) (bnd (processBTCLike p r) (\<lambda>_. ret Map.empty))
      else if b = BlockchainTypeTron then wrapErr ''process tron'' (processTron p r wft)
      else if isEVM b then wrapErr ''process evm'' (processEVM p r wft)
      else ret Map.empty)"

text \<open>\<open>createParams\<close>: the row that is to be inserted.\<close>

definition createParams :: "create_request \<Rightarrow> owner \<Rightarrow> wallet_type \<times> wallet_type \<Rightarrow> (string \<rightharpoonup> any_val) \<Rightarrow> transfer" where
  "createParams r own wts sd =
     zeroTransfer\<lparr>trStatus := TransferStatusNew, trOwnerID := owID own,
       trClientID := owClientID own, trRequestID := rqRequestID r, trBlockchain := rqBlockchain r,
       trFromAddresses := rqFromAddresses r, trToAddresses := rqToAddresses r, trWalletFromType := fst wts,
       trKind := (case rqKind r of Some k \<Rightarrow> if k \<noteq> '''' then Some k else None | None \<Rightarrow> None),
       trAssetIdentifier := rqAssetIdentifier r, trWholeAmount := rqWholeAmount r, trAmount := rqAmount r,
       trFee := rqFee r, trFeeMax := rqFeeMax r,
       trStateData := sd(''wallet_to_type'' \<mapsto> VStr (walletTypeString (snd wts)))\<rparr>"

text \<open>The part of \<open>Create\<close> that holds the lock: what is checked, and the insertion.\<close>

definition prepareCreate :: "'e create_service \<Rightarrow> create_request \<Rightarrow> ('e world, transfer) op" where
  "prepareCreate p r =
     bnd (wrapErr ''get owner'' (qOwnerGetByID (csEnv p) (rqOwnerID r))) (\<lambda>own.
     bnd (requestWallets p r) (\<lambda>wts.
     bnd (processChain p r (fst wts)) (\<lambda>sd.
     ret (createParams r own wts sd))))"

definition insertTransfer :: "'e create_service \<Rightarrow> transfer \<Rightarrow> ('e world, transfer) op" where
  "insertTransfer p t =
     catchErr (qTransferCreate (csEnv p) t)
       (\<lambda>e. if strContains (errStr e) ''unique'' then fail storeErrAlreadyExists else fail e)"

definition createLocked :: "'e create_service \<Rightarrow> create_request \<Rightarrow> ('e world, transfer) op" where
  "createLocked p r = bnd (prepareCreate p r) (insertTransfer p)"

text \<open>The whole of it: \<open>acceptRequest\<close> is the part before the lock.\<close>

definition acceptRequest :: "'e create_service \<Rightarrow> create_request \<Rightarrow> 's act" where
  "acceptRequest p r =
     bnd (guardE (csTransfersEnabled p) (ErrText ''transfers service is disabled'')) (\<lambda>_.
     case validateCreate p r of Some e \<Rightarrow> fail (Wrapf ''invalid request: '' e) | None \<Rightarrow> ret ())"

definition createTransfer :: "'e create_service \<Rightarrow> create_request \<Rightarrow> ('e world, transfer) op" where
  "createTransfer p r = bnd (acceptRequest p r) (\<lambda>_. createLocked p r)"

end
