(* ===== verification/CreateFacts.thy ===== *)
theory CreateFacts
  imports Create ServicesFacts FsmTronFacts
begin

text \<open>
  The library about the creation of a transfer: what the checks leave alone, what an accepted request
  satisfies, and what the prepared row and the insertion are.
\<close>

section \<open>The checks do not write\<close>

lemma keeps_liftExt: "(\<And>w x. v (w\<lparr>wdExt := x\<rparr>) = v w) \<Longrightarrow> keeps v (liftExt m)"
  by (rule keepsI) (simp add: liftExt_def split: prod.split)

lemma keeps_query [keeps_intros]:
  "keeps wdDb (dbRead env tx nm f)" "keeps wdDb (liftExt m)"
  by (intro keeps_dbRead keeps_liftExt; simp)+

lemma keeps_checkWallet [keeps_intros]: "keeps wdDb (checkWallet env c b a)"
proof -
  have c: "keeps wdDb (checkWalletInCache b a)"
    by (rule keepsI) (simp add: checkWalletInCache_def op_defs split: option.split)
  have l: "keeps wdDb m \<Longrightarrow> keeps wdDb n \<Longrightarrow> keeps wdDb (lookupOrNext msg m f n)" for msg f m n
    by (rule keepsI) (auto simp: lookupOrNext_def op_defs keeps_snd dest: keepsD split: prod.split outcome.split)
  have "keeps wdDb (checkWalletInDatabase env b a)"
    unfolding checkWalletInDatabase_def by (intro keeps_intros keeps_wallet_lookups l)
  moreover have "keeps wdDb (\<lambda>w. if envCacheReady env (wdExt w) then checkWalletInCache b a w
     else (case envCtx env (wdExt w) of Some e \<Rightarrow> fail e w | None \<Rightarrow> panic ''blocked until the cache is ready'' w))"
    by (rule keepsI) (auto simp: keeps_snd [OF c] op_defs split: option.split)
  ultimately show ?thesis unfolding checkWallet_def by (intro keeps_intros)
qed

lemma keeps_checkWallets: "keeps wdDb (checkWallets p r what wt as)"
  by (induction p r what wt as rule: checkWallets.induct) (auto intro!: keeps_intros)

lemma keeps_requestWallets: "keeps wdDb (requestWallets p r)"
  unfolding requestWallets_def Let_def by (intro keeps_intros keeps_checkWallets)

lemma keeps_create_queries [keeps_intros]:
  "keeps wdDb (qTransferFind p ps)" "keeps wdDb (addressBalance p r a asset)"
  "keeps wdDb (getActiveTronTransfersResources env)" "keeps wdDb (getActiveTronTransfersBurn env)"
  "keeps wdDb (processingGetByBlockchain env oid b)" "keeps wdDb (qOwnerGetByID env oid)"
  unfolding qTransferFind_def addressBalance_def getActiveTronTransfersResources_def getActiveTronTransfersBurn_def
    processingGetByBlockchain_def noRowsToNotFound_def qProcessingGetByBlockchain_def qOwnerGetByID_def
  by (intro keeps_intros)+

lemma keeps_process:
  "keeps wdDb (processBTCLike p r)" "keeps wdDb (processEVM p r wft)"
  unfolding processBTCLike_def processEVM_def checkCoinAddress_def checkBalance_def chainEnabled_def addressNotTaken_def
    checkMaxFee_def checkTokenFee_def Let_def
  by (intro keeps_intros keeps_groupRun; auto intro!: keeps_intros)+

lemma keeps_processTron: "keeps wdDb (processTron p r wft)"
proof -
  have h: "keeps wdDb (serviceHealth p s what)" for s what
    unfolding serviceHealth_def by (intro keeps_intros)
  have c: "keeps wdDb (processCloudDelegate p r est)" for est
    unfolding processCloudDelegate_def Let_def by (intro keeps_intros keeps_groupRun; auto intro: h)
  have b: "keeps wdDb (processBurnTRX p r est)" for est
    unfolding processBurnTRX_def Let_def by (intro keeps_intros)
  have a: "keeps wdDb (checkActivation p r pw est ac)" for pw est ac
    unfolding checkActivation_def Let_def by (intro keeps_intros)
  have d: "keeps wdDb (processResources p r est)" for est
    unfolding processResources_def Let_def by (intro keeps_intros a)
  have "keeps wdDb (processTronHotWallets p r)" "keeps wdDb (processTronProcessingWallets p r)"
    unfolding processTronHotWallets_def processTronProcessingWallets_def Let_def by (intro keeps_intros b c d)+
  then show ?thesis
    unfolding processTron_def addressNotTaken_def chainEnabled_def by (cases wft) (auto intro!: keeps_intros)
qed

lemma keeps_processChain: "keeps wdDb (processChain p r wft)"
  unfolding processChain_def Let_def by (intro keeps_intros keeps_process keeps_processTron)

section \<open>An accepted request\<close>

lemma firstError_None: "firstError es = None \<longleftrightarrow> (\<forall>e\<in>set es. e = None)"
  by (induction es rule: firstError.induct) auto

lemma check_None [simp]: "check ok msg = None \<longleftrightarrow> ok"
  by (simp add: check_def)

lemma validateAddresses_None:
  "validateAddressesByBlockchain lib addrs b = None \<longleftrightarrow> (\<forall>a\<in>set addrs. validateAddressByBlockchain lib a b)"
  by (induction addrs) auto

lemma accepted_request:
  assumes "validateCreate p r = None"
  shows "rqOwnerID r \<noteq> nilUuid" "rqRequestID r \<noteq> ''''" "blockchainValid (rqBlockchain r)"
    "rqFromAddresses r \<noteq> []" "\<not> isBitcoinLike (rqBlockchain r) \<Longrightarrow> \<exists>a. rqFromAddresses r = [a]"
    "\<exists>a. rqToAddresses r = [a] \<and> a \<notin> set (rqFromAddresses r)"
    "\<And>a. a \<in> set (rqFromAddresses r @ rqToAddresses r) \<Longrightarrow> validateAddressByBlockchain (csAddresses p) a (blockchainString (rqBlockchain r))"
    "rqWholeAmount r \<longleftrightarrow> rqAmount r = None" "positiveIfSet (rqAmount r)"
  using assms unfolding validateCreate_def Let_def firstError_None
  by (auto simp: validateAddresses_None length_Suc_conv split: if_split_asm)

section \<open>Wallets of a request\<close>

definition ownWallet :: "db \<Rightarrow> create_request \<Rightarrow> string \<Rightarrow> wallet_type \<Rightarrow> bool" where
  "ownWallet d r a wt \<longleftrightarrow>
     (\<exists>res. knownWallet d (rqBlockchain r) a res \<and> cwOwnerID res = rqOwnerID r \<and> cwWalletType res = wt)"

lemma checkWallets_Val:
  assumes "checkWallets p r what wt addrs w = (Val wt', w')" and "\<not> csUseCacheForWallets p"
  shows "(\<forall>a\<in>set addrs. \<exists>t. wt' = Some t \<and> ownWallet (wdDb w) r a t) \<and> (wt \<noteq> None \<or> addrs = [] \<longrightarrow> wt' = wt)"
  using assms(1)
proof (induction addrs arbitrary: wt w)
  case (Cons a addrs)
  from Cons.prems obtain res w1 where a: "checkWallet (csEnv p) False (rqBlockchain r) a w = (Val res, w1)"
      "cwOwnerID res = rqOwnerID r" "wt = None \<or> wt = Some (cwWalletType res)"
    and rest: "checkWallets p r what (Some (cwWalletType res)) addrs w1 = (Val wt', w')"
    using assms(2) by (auto simp: bnd_Val wrapErr_Val guardE_Val)
  have "wdDb w1 = wdDb w" using keepsD [OF keeps_checkWallet a(1)] .
  with Cons.IH [OF rest] a checkWallet_db [OF a(1)] show ?case by (auto simp: ownWallet_def)
qed (simp add: ret_Val)

lemma requestWallets_Val:
  assumes "requestWallets p r w = (Val (wft, wtt), w')" and "\<not> csUseCacheForWallets p"
  shows "(\<forall>a\<in>set (rqFromAddresses r). ownWallet (wdDb w) r a wft) \<and> wft \<in> {WalletTypeHot, WalletTypeProcessing} \<and>
    (wft = WalletTypeHot \<longrightarrow> wtt \<in> {WalletTypeCold, WalletTypeProcessing} \<and> (\<forall>a\<in>set (rqToAddresses r). ownWallet (wdDb w) r a wtt))"
proof -
  from assms(1) obtain wf w1 wt where 1: "checkWallets p r ''from'' None (rqFromAddresses r) w = (Val wf, w1)"
    and 2: "wft \<noteq> WalletTypeProcessing \<Longrightarrow> checkWallets p r ''to'' None (rqToAddresses r) w1 = (Val wt, w')"
    and 3: "wft = walletTypeOf wf" "wtt = walletTypeOf wt" "wft \<in> {WalletTypeHot, WalletTypeProcessing}"
      "wft = WalletTypeHot \<Longrightarrow> wtt \<in> {WalletTypeCold, WalletTypeProcessing}"
    unfolding requestWallets_def Let_def by (auto simp: bnd_Val guardE_Val ret_Val split: if_split_asm)
  have "wdDb w1 = wdDb w" using keepsD [OF keeps_checkWallets 1] .
  with 3 checkWallets_Val [OF 1 assms(2)] checkWallets_Val [OF 2 assms(2)]
  show ?thesis by (force simp: walletTypeOf_def)
qed

section \<open>The prepared row and its insertion\<close>

lemma prepareCreate_Val:
  assumes "prepareCreate p r w = (Val t, w')"
  shows "wdDb w' = wdDb w \<and> (\<exists>own wts sd w1 w2.
    oneRow (filter (\<lambda>o'. owID o' = rqOwnerID r) (dbOwners (wdDb w))) = Inr own \<and> wdDb w1 = wdDb w \<and>
    requestWallets p r w1 = (Val wts, w2) \<and> wdDb w2 = wdDb w \<and> processChain p r (fst wts) w2 = (Val sd, w') \<and>
    t = createParams r own wts sd)"
proof -
  from assms obtain own w1 wts w2 sd where 1: "qOwnerGetByID (csEnv p) (rqOwnerID r) w = (Val own, w1)"
    and 2: "requestWallets p r w1 = (Val wts, w2)" and 3: "processChain p r (fst wts) w2 = (Val sd, w')"
    and t: "t = createParams r own wts sd"
    unfolding prepareCreate_def by (auto simp: bnd_Val wrapErr_Val ret_Val)
  note k = keepsD [OF keeps_create_queries(6) 1] keepsD [OF keeps_requestWallets 2] keepsD [OF keeps_processChain 3]
  with 1 2 3 t show ?thesis
    using dbRead_Val [OF 1 [unfolded qOwnerGetByID_def]] by (fastforce simp: dbView_outside)
qed

lemma keeps_prepare: "keeps wdDb (prepareCreate p r)"
  unfolding prepareCreate_def by (intro keeps_intros keeps_requestWallets keeps_processChain)

text \<open>What an insertion does to the tables, however it ends.\<close>

definition addTransfer :: "transfer \<Rightarrow> db \<Rightarrow> db" where
  "addTransfer t d = d\<lparr>dbTransfers := dbTransfers d @ [t]\<rparr>"

lemma newTransfer_fields [simp]:
  "trID (newTransfer i now t) = i" "trStatus (newTransfer i now t) = trStatus t"
  "trOwnerID (newTransfer i now t) = trOwnerID t" "trClientID (newTransfer i now t) = trClientID t"
  "trRequestID (newTransfer i now t) = trRequestID t" "trBlockchain (newTransfer i now t) = trBlockchain t"
  "trFromAddresses (newTransfer i now t) = trFromAddresses t" "trToAddresses (newTransfer i now t) = trToAddresses t"
  "trWalletFromType (newTransfer i now t) = trWalletFromType t" "trKind (newTransfer i now t) = trKind t"
  "trStateData (newTransfer i now t) = trStateData t"
  by (simp_all add: newTransfer_def)

lemma insertTransfer_cases:
  obtains (refused) e x where "insertTransfer p t w = (Err e, w\<lparr>wdExt := x\<rparr>)"
  | (added) i now res w' where "insertTransfer p t w = (res, w')" "wdDb w' = addTransfer (newTransfer i now t) (wdDb w)"
      "\<forall>t'\<in>set (dbTransfers (wdDb w)). trID t' \<noteq> i \<and> \<not> sameRequest t t'"
      "res = Val (newTransfer i now t) \<or> (\<exists>e. res = Err e \<and> (\<exists>x y e'. envFault (csEnv p) ''transfers.Create'' x = (FaultAfter e', y)))"
proof -
  let ?i = "envNewID (csEnv p) (wdExt w)" and ?d = "wdDb w"
  obtain f x where f: "envFault (csEnv p) ''transfers.Create'' (wdExt w) = (f, x)" by fastforce
  show thesis
  proof (cases "(\<exists>t'\<in>set (dbTransfers ?d). trID t' = ?i \<or> sameRequest t t') \<or> (\<exists>e. f = FaultBefore e)")
    case True
    then have "\<exists>e. insertTransfer p t w = (Err e, w\<lparr>wdExt := x\<rparr>)"
      by (auto simp: insertTransfer_def qTransferCreate_def dbRead_def dbQuery_def dbView_outside op_defs ofSum_def f Let_def
          split: db_fault.split)
    then show ?thesis using refused by blast
  next
    case False
    let ?n = "newTransfer ?i (envNow (csEnv p) (wdExt w)) t"
    have row: "transferRow ?i (addTransfer ?n ?d) = Inr ?n"
      using False by (auto simp: transferRow_def oneRow_def addTransfer_def filter_empty_conv split: list.split)
    have "\<exists>res w'. insertTransfer p t w = (res, w') \<and> wdDb w' = addTransfer ?n ?d \<and>
      (res = Val ?n \<or> (\<exists>e e'. res = Err e \<and> f = FaultAfter e'))"
      using False row
      by (cases f) (auto simp: insertTransfer_def qTransferCreate_def dbQuery_def dbView_outside op_defs ofSum_def f Let_def addTransfer_def
          dbView_apply [unfolded addTransfer_def])
    then obtain res w' where *: "insertTransfer p t w = (res, w')" "wdDb w' = addTransfer ?n ?d"
      "res = Val ?n \<or> (\<exists>e e'. res = Err e \<and> f = FaultAfter e')" by blast
    show ?thesis by (rule added [OF *(1,2)]) (use False *(3) f in auto)
  qed
qed

end
