(* ===== verification/CreateProps.thy ===== *)
theory CreateProps
  imports CreateFacts TronResFacts
begin

text \<open>
  The properties of the creation of a transfer, with a transfer of a hot wallet on Tron as the sample.
\<close>

section \<open>What is created\<close>

lemma acceptRequest_Val: "acceptRequest p r w = (Val u, w') \<longleftrightarrow> csTransfersEnabled p \<and> validateCreate p r = None \<and> w' = w"
  by (auto simp: acceptRequest_def bnd_Val guardE_Val fail_Val ret_Val split: option.split_asm)

lemma acceptRequest_refuses: "validateCreate p r \<noteq> None \<Longrightarrow> \<exists>e. acceptRequest p r w = (Err e, w)"
  by (auto simp: acceptRequest_def op_defs split: option.split)

lemma keeps_accept: "keeps v (acceptRequest p r)"
  unfolding acceptRequest_def by (intro keeps_intros)

lemma createTransfer_Val:
  assumes "createTransfer p r w = (Val t, w')"
  obtains row w1 i now where "validateCreate p r = None" "prepareCreate p r w = (Val row, w1)" "wdDb w1 = wdDb w"
    "insertTransfer p row w1 = (Val t, w')" "t = newTransfer i now row" "wdDb w' = addTransfer t (wdDb w)"
    "\<forall>t'\<in>set (dbTransfers (wdDb w)). trID t' \<noteq> trID t \<and> \<not> sameRequest t t'"
proof -
  from assms obtain row w1 where 1: "validateCreate p r = None" "prepareCreate p r w = (Val row, w1)" "insertTransfer p row w1 = (Val t, w')"
    unfolding createTransfer_def createLocked_def bnd_Val acceptRequest_Val by blast
  have d: "wdDb w1 = wdDb w" using keepsD [OF keeps_prepare 1(2)] .
  show ?thesis
  proof (cases rule: insertTransfer_cases [of p row w1])
    case (refused e x) with 1(3) show ?thesis by simp
  next
    case (added i now res w2)
    with 1(3) d show ?thesis by (intro that [OF 1(1,2) d 1(3), of i now]) (auto simp: sameRequest_def)
  qed
qed


text \<open>
  C9. A request creates one transfer: a request that has the identifier of a transfer of its owner and client is
  refused, and the tables stay as they were, however often it is repeated.
\<close>

theorem repeated_request_creates_nothing:
  fixes p :: "'e create_service"
  assumes "createTransfer p r w = (res, w')"
    and "oneRow (filter (\<lambda>o'. owID o' = rqOwnerID r) (dbOwners (wdDb w))) = Inr own"
    and "t' \<in> set (dbTransfers (wdDb w))" and "trRequestID t' = rqRequestID r" "trOwnerID t' = rqOwnerID r" "trClientID t' = owClientID own"
  shows "wdDb w' = wdDb w \<and> (\<forall>t. res \<noteq> Val t)"
proof (cases "prepareCreate p r w")
  case (Pair prep w1)
  have d: "wdDb w1 = wdDb w" using keepsD [OF keeps_prepare Pair] .
  show ?thesis
  proof (cases "\<exists>row. prep = Val row \<and> acceptRequest p r w = (Val (), w)")
    case False
    with assms(1) Pair d show ?thesis
      by (cases "acceptRequest p r w"; cases "fst (acceptRequest p r w)"; cases prep)
        (auto simp: createTransfer_def createLocked_def bnd_def acceptRequest_Val dest: keepsD [OF keeps_accept])
  next
    case True
    then obtain row where row: "prepareCreate p r w = (Val row, w1)" "insertTransfer p row w1 = (res, w')"
      using assms(1) Pair by (auto simp: createTransfer_def createLocked_def bnd_def)
    then have "sameRequest row t'"
      using prepareCreate_Val [OF row(1)] assms(2,4-6) oneRow_Inr [OF assms(2)] by (auto simp: sameRequest_def createParams_def)
    with row(2) d assms(3) show ?thesis by (cases rule: insertTransfer_cases [of p row w1]) auto
  qed
qed
text \<open>
  C36. No transfer can be created on Optimism or Linea: the switch of the address validation omits these two
  chains of the EVM, so that every request for them fails before it takes the lock.
\<close>

theorem layer_two_transfers_are_refused:
  fixes p :: "'e create_service"
  assumes "rqBlockchain r = BlockchainTypeOptimism \<or> rqBlockchain r = BlockchainTypeLinea"
  shows "\<exists>e. createTransfer p r w = (Err e, w)"
proof -
  have "\<not> validateAddressByBlockchain (csAddresses p) a (blockchainString (rqBlockchain r))" for a
    using assms by (auto simp: validateAddressByBlockchain_def)
  then have "validateCreate p r \<noteq> None"
    using accepted_request(4,7) [of p r] by (metis UnCI list.set_intros(1) neq_Nil_conv set_append)
  from acceptRequest_refuses [OF this, of w] show ?thesis by (auto simp: createTransfer_def bnd_def)
qed

section \<open>Addresses in work\<close>

text \<open>
  The transfers of an account chain that are in work for an address, and the invariant that each address has
  at most one. The caches, the clock and the limit do not matter for it.
\<close>

definition inWork :: "blockchain_type \<Rightarrow> string \<Rightarrow> transfer \<Rightarrow> bool" where
  "inWork b a t \<longleftrightarrow> trBlockchain t = b \<and> a \<in> set (trFromAddresses t) \<and>
     trStatus t \<notin> {TransferStatusCompleted, TransferStatusFailed}"

definition oneActive :: "db \<Rightarrow> bool" where
  "oneActive d \<longleftrightarrow> (\<forall>b a. isEVM b \<or> b = BlockchainTypeTron \<longrightarrow> length (filter (inWork b a) (dbTransfers d)) \<le> 1)"

lemma addressNotTaken_Val:
  assumes "addressNotTaken p r w = (Val u, w')" and "t \<in> set (dbTransfers (wdDb w))"
  shows "\<not> inWork (rqBlockchain r) (requestFrom r) t"
proof -
  from assms(1) obtain ts where "qTransferFind p (noFindParams\<lparr>fpStatusesNotIn := [TransferStatusCompleted, TransferStatusFailed],
     fpFromAddress := Some (requestFrom r), fpBlockchain := Some (rqBlockchain r)\<rparr>) w = (Val ts, w')" and "ts = []"
    unfolding addressNotTaken_def by (auto simp: op_Val)
  with dbRead_Val have "findTransfers (csRows p) (noFindParams\<lparr>fpStatusesNotIn := [TransferStatusCompleted, TransferStatusFailed],
     fpFromAddress := Some (requestFrom r), fpBlockchain := Some (rqBlockchain r)\<rparr>) (dbTransfers (wdDb w)) = []"
    unfolding qTransferFind_def by (fastforce simp: dbView_outside)
  then have "set (findTransfers (csRows p) (noFindParams\<lparr>fpStatusesNotIn := [TransferStatusCompleted, TransferStatusFailed],
     fpFromAddress := Some (requestFrom r), fpBlockchain := Some (rqBlockchain r)\<rparr>) (dbTransfers (wdDb w))) = {}" by simp
  with assms(2) show ?thesis
    by (auto simp: findTransfers_def findCTE_def noFindParams_def inWork_def textString_def dest!: spec [of _ t])
qed

lemma processChain_free:
  assumes "processChain p r wft w = (Val sd, w')" and "isEVM (rqBlockchain r) \<or> rqBlockchain r = BlockchainTypeTron"
    and "t \<in> set (dbTransfers (wdDb w))"
  shows "\<not> inWork (rqBlockchain r) (requestFrom r) t"
proof -
  have n: "\<not> isBitcoinLike (rqBlockchain r)" using assms(2) by (cases "rqBlockchain r") auto
  have "\<exists>w1 u w2. wdDb w1 = wdDb w \<and> addressNotTaken p r w1 = (Val u, w2)"
  proof (cases "rqBlockchain r = BlockchainTypeTron")
    case True
    with assms(1) n show ?thesis
      unfolding processChain_def processTron_def chainEnabled_def by (auto simp: op_Val)
  next
    case False
    with assms(1,2) n have "processEVM p r wft w = (Val sd, w')" unfolding processChain_def by (auto simp: op_Val)
    then obtain bal w1 u1 w2 u2 w3 where b: "addressBalance p r (requestFrom r) (rqAssetIdentifier r) w = (Val bal, w1)"
      and c: "checkBalance p r bal w1 = (Val u1, w2)" and a: "addressNotTaken p r w2 = (Val u2, w3)"
      unfolding processEVM_def chainEnabled_def by (auto simp: op_Val split: if_split_asm)
    from c have "w2 = w1" unfolding checkBalance_def by (auto simp: op_Val)
    with keepsD [OF keeps_create_queries(2) b] a show ?thesis by auto
  qed
  then show ?thesis using addressNotTaken_Val assms(3) by metis
qed

lemma prepared_row_is_free:
  assumes "prepareCreate p r w = (Val row, w1)" and "validateCreate p r = None" and "isEVM b \<or> b = BlockchainTypeTron"
    and "inWork b a row" and "t \<in> set (dbTransfers (wdDb w))"
  shows "\<not> inWork b a t"
proof -
  obtain own wts sd w2 where w2: "wdDb w2 = wdDb w" "processChain p r (fst wts) w2 = (Val sd, w1)" "row = createParams r own wts sd"
    using prepareCreate_Val [OF assms(1)] by blast
  then have b: "rqBlockchain r = b" "a \<in> set (rqFromAddresses r)" using assms(4) by (auto simp: inWork_def createParams_def)
  have "\<not> isBitcoinLike b" using assms(3) by (cases b) auto
  then have "requestFrom r = a" using accepted_request(5) [OF assms(2)] b by (auto simp: requestFrom_def)
  with processChain_free [OF w2(2)] b assms(3,5) w2(1) show ?thesis by auto
qed

lemma inWork_new [simp]: "inWork b a (newTransfer i now t) = inWork b a t"
  by (simp add: inWork_def)

lemma oneActive_add:
  assumes "oneActive d" and "\<And>b a t. isEVM b \<or> b = BlockchainTypeTron \<Longrightarrow> inWork b a row \<Longrightarrow> t \<in> set (dbTransfers d) \<Longrightarrow> \<not> inWork b a t"
  shows "oneActive (addTransfer (newTransfer i now row) d)"
  unfolding oneActive_def
proof (intro allI impI)
  fix b a assume b: "isEVM b \<or> b = BlockchainTypeTron"
  show "length (filter (inWork b a) (dbTransfers (addTransfer (newTransfer i now row) d))) \<le> 1"
  proof (cases "inWork b a row")
    case True
    with assms(2) [OF b] have "filter (inWork b a) (dbTransfers d) = []" by (auto simp: filter_empty_conv)
    then show ?thesis by (simp add: addTransfer_def)
  next
    case False
    with assms(1) b show ?thesis unfolding oneActive_def by (simp add: addTransfer_def) blast
  qed
qed

lemma createLocked_cases:
  assumes "createLocked p r w = (res, w')"
  obtains (same) "wdDb w' = wdDb w" "\<forall>t. res \<noteq> Val t"
  | (added) row w1 i now where "prepareCreate p r w = (Val row, w1)" "wdDb w' = addTransfer (newTransfer i now row) (wdDb w)"
    "res = Val (newTransfer i now row) \<or> (\<exists>e x y e'. res = Err e \<and> envFault (csEnv p) ''transfers.Create'' x = (FaultAfter e', y))"
proof (cases "prepareCreate p r w")
  case (Pair prep w1)
  have d: "wdDb w1 = wdDb w" using keepsD [OF keeps_prepare Pair] .
  show thesis
  proof (cases prep)
    case (Val row)
    with assms Pair have "insertTransfer p row w1 = (res, w')" by (simp add: createLocked_def bnd_def)
    with d Val Pair show thesis
      by (cases rule: insertTransfer_cases [of p row w1]) (auto intro: same added)
  qed (use assms Pair d same in \<open>auto simp: createLocked_def bnd_def\<close>)
qed

text \<open>
  C34. On the chains with accounts an address is in at most one transfer that is not completed and not failed:
  the creation keeps this, whatever its outcome is, since it refuses an address that is taken.
\<close>

theorem one_active_transfer_per_address:
  fixes p :: "'e create_service"
  assumes "oneActive (wdDb w)"
  shows "oneActive (wdDb (snd (createTransfer p r w)))"
proof (cases "acceptRequest p r w = (Val (), w)")
  case True
  then have v: "validateCreate p r = None" by (simp add: acceptRequest_Val)
  obtain res w' where c: "createLocked p r w = (res, w')" by fastforce
  then have "createTransfer p r w = (res, w')" using True by (simp add: createTransfer_def bnd_def)
  then show ?thesis
    by (cases rule: createLocked_cases [OF c])
      (auto simp: assms intro!: oneActive_add dest: prepared_row_is_free [OF _ v])
next
  case False
  then show ?thesis using assms keeps_snd [OF keeps_accept, where v = wdDb]
    by (cases "acceptRequest p r w"; cases "fst (acceptRequest p r w)")
      (auto simp: createTransfer_def bnd_def acceptRequest_Val dest: keepsD [OF keeps_accept])
qed

text \<open>
  C35. A creation that is refused leaves no transfer behind: without a fault of the connection after the
  insertion, every error and every panic leaves the tables as they were.
\<close>

theorem refused_creation_changes_nothing:
  fixes p :: "'e create_service"
  assumes "createTransfer p r w = (res, w')" and "\<forall>t. res \<noteq> Val t"
    and "\<forall>x y e. envFault (csEnv p) ''transfers.Create'' x \<noteq> (FaultAfter e, y)"
  shows "wdDb w' = wdDb w"
proof (cases "acceptRequest p r w = (Val (), w)")
  case True
  then have "createLocked p r w = (res, w')" using assms(1) by (simp add: createTransfer_def bnd_def)
  then show ?thesis by (cases rule: createLocked_cases) (use assms(2,3) in auto)
next
  case False
  with assms(1) show ?thesis
    by (cases "acceptRequest p r w"; cases "fst (acceptRequest p r w)")
      (auto simp: createTransfer_def bnd_def acceptRequest_Val dest: keepsD [OF keeps_accept])
qed
section \<open>Resources in work\<close>

text \<open>The sum of a member of the state data over the resource transfers in work.\<close>

definition booked :: "'e env \<Rightarrow> string list \<Rightarrow> db \<Rightarrow> goerr + rat" where
  "booked env path d = sumPath env path (activeTron TronTransferKindResources resourcesPaths d)"

abbreviation energyPath :: "string list" where
  "energyPath \<equiv> [''estimated_resources'', ''need_to_delegate'', ''energy'']"

abbreviation bandwidthPath :: "string list" where
  "bandwidthPath \<equiv> [''estimated_resources'', ''need_bandwidth_from_processing_wallet'']"

lemma liftExt_Val [op_Val]: "liftExt m w = (Val x, w') \<longleftrightarrow> (\<exists>y. m (wdExt w) = (Val x, y) \<and> w' = w\<lparr>wdExt := y\<rparr>)"
  by (auto simp: liftExt_def split: prod.split)

lemma sumPath_snoc:
  "sumPath env path ts = Inr x \<Longrightarrow> dataPath (trStateData t) path = Some (VDec y) \<Longrightarrow> sumPath env path (ts @ [t]) = Inr (x + y)"
  by (induction ts arbitrary: x) (auto split: sum.split_asm)

lemma activeResources_Val:
  assumes "getActiveTronTransfersResources env w = (Val active, w')"
  shows "booked env energyPath (wdDb w) = Inr (arEnergy active) \<and> booked env bandwidthPath (wdDb w) = Inr (arBandwidth active)"
  using dbRead_Val [OF assms [unfolded getActiveTronTransfersResources_def]]
  by (auto simp: dbView_outside booked_def resourcesPaths_def map_sum_def split: sum.split_asm)

lemma processResources_Val:
  assumes "processResources p r est w = (Val sd, w')"
  shows "\<exists>pw w1 x procRes y active w2 w3 need act.
    processingGetByBlockchain (csEnv p) (rqOwnerID r) (rqBlockchain r) w = (Val pw, w1) \<and>
    availableForDelegateResources (csTron p) (wlAddress pw) x = (Val procRes, y) \<and>
    wdDb w2 = wdDb w \<and> getActiveTronTransfersResources (csEnv p) w2 = (Val active, w3) \<and>
    arEnergy active + rsEnergy (dpNeedToDelegate need) \<le> rsEnergy procRes \<and>
    arBandwidth active + dpNeedBandwidth need \<le> rsBandwidth procRes \<and>
    sd = [''estimated_resources'' \<mapsto> delegateResponseVal need, ''estimated_activation'' \<mapsto> activationVal act,
          ''active_tron_transfers'' \<mapsto> activeResourcesVal active]"
proof -
  from assms obtain pw w1 procRes y hotRes y2 need y3 active w3 act
    where pw: "processingGetByBlockchain (csEnv p) (rqOwnerID r) (rqBlockchain r) w = (Val pw, w1)"
    and pr: "availableForDelegateResources (csTron p) (wlAddress pw) (wdExt w1) = (Val procRes, y)"
    and ac: "getActiveTronTransfersResources (csEnv p) (w1\<lparr>wdExt := y3\<rparr>) = (Val active, w3)"
    and e: "\<not> rsEnergy procRes - arEnergy active < rsEnergy (dpNeedToDelegate need)"
    and b: "\<not> rsBandwidth procRes - arBandwidth active < dpNeedBandwidth need"
    and sd: "sd = [''estimated_resources'' \<mapsto> delegateResponseVal need, ''estimated_activation'' \<mapsto> activationVal act,
          ''active_tron_transfers'' \<mapsto> activeResourcesVal active]"
    unfolding processResources_def Let_def op_Val by auto
  have "wdDb (w1\<lparr>wdExt := y3\<rparr>) = wdDb w" using keepsD [OF keeps_create_queries(5) pw] by simp
  with pw pr ac e b sd show ?thesis by (smt (verit) add.commute le_diff_eq not_less)
qed

lemma processing_row:
  assumes "processingGetByBlockchain env oid b w = (Val pw, w')"
  shows "pw \<in> set (dbProcessingWallets (wdDb w)) \<and> wlOwnerID pw = oid \<and> wlBlockchain pw = b"
  using assms unfolding processingGetByBlockchain_def op_Val noRows_Val qProcessingGetByBlockchain_def
  by (auto dest!: dbRead_Val oneRow_Inr simp: dbView_outside)

text \<open>What a hot wallet's transfer goes through before the part for its kind.\<close>

lemma tron_hot_data:
  assumes "prepareCreate p r w = (Val row, w1)" and "rqBlockchain r = BlockchainTypeTron" and "trWalletFromType row = WalletTypeHot"
  shows "\<exists>w0 sd wtt own. wdDb w0 = wdDb w \<and> processTronHotWallets p r w0 = (Val sd, w1) \<and> row = createParams r own (WalletTypeHot, wtt) sd"
proof -
  obtain own wft wtt sd w2 where w2: "wdDb w2 = wdDb w" "processChain p r wft w2 = (Val sd, w1)" "row = createParams r own (wft, wtt) sd"
    using prepareCreate_Val [OF assms(1)] by (metis prod.collapse)
  then have "wft = WalletTypeHot" using assms(3) by (simp add: createParams_def)
  with w2(2) assms(2) obtain w3 w4 u u' where u: "chainEnabled p r w2 = (Val u, w3)" "addressNotTaken p r w3 = (Val u', w4)"
      "processTronHotWallets p r w4 = (Val sd, w1)"
    unfolding processChain_def processTron_def by (auto simp: op_Val)
  have k: "keeps wdDb (chainEnabled p r)" "keeps wdDb (addressNotTaken p r)"
    unfolding chainEnabled_def addressNotTaken_def by (intro keeps_intros)+
  have "wdDb w4 = wdDb w" using keepsD [OF k(1) u(1)] keepsD [OF k(2) u(2)] w2(1) by simp
  with u(3) w2(3) \<open>wft = WalletTypeHot\<close> show ?thesis by metis
qed

lemma tron_resources_data:
  assumes "prepareCreate p r w = (Val row, w1)" and "rqBlockchain r = BlockchainTypeTron"
    and "rqKind r = Some (tronKindString TronTransferKindResources)" and "trWalletFromType row = WalletTypeHot"
  shows "\<exists>est w0 sd w2 wtt own. wdDb w0 = wdDb w \<and> processResources p r est w0 = (Val sd, w2) \<and>
    row = createParams r own (WalletTypeHot, wtt) sd"
proof -
  obtain w0 sd wtt own where h: "wdDb w0 = wdDb w" "processTronHotWallets p r w0 = (Val sd, w1)" "row = createParams r own (WalletTypeHot, wtt) sd"
    using tron_hot_data [OF assms(1,2,4)] by blast
  have x: "\<exists>est w5. wdDb w5 = wdDb w0 \<and> processResources p r est w5 = (Val sd, w1)"
    if "processResources p r est (w0\<lparr>wdExt := y\<rparr>) = (Val sd, w1)" for est y
    using that by (intro exI [of _ est] exI [of _ "w0\<lparr>wdExt := y\<rparr>"]) simp
  have "\<exists>est w5. wdDb w5 = wdDb w0 \<and> processResources p r est w5 = (Val sd, w1)"
    using h(2) assms(3) unfolding processTronHotWallets_def Let_def
    by (auto simp: op_Val addressBalance_def textString_def split: if_split_asm dest!: x)
  with h show ?thesis by metis
qed

text \<open>
  C8. The stake of the processing wallet is not overbooked: after the creation of a transfer of a hot wallet
  on Tron with delegated resources, the energy and the bandwidth of all resource transfers in work together
  are within what the processing wallet of the owner can delegate, when the chain gives one answer for an address.
\<close>

theorem resources_are_not_overbooked:
  fixes p :: "'e create_service"
  assumes "createTransfer p r w = (Val t, w')" and "rqBlockchain r = BlockchainTypeTron"
    and "rqKind r = Some (tronKindString TronTransferKindResources)" and "trWalletFromType t = WalletTypeHot"
    and "\<And>a x y x'. availableForDelegateResources (csTron p) a x = (Val y, x') \<Longrightarrow> y = stake a"
  shows "\<exists>pw e b. pw \<in> set (dbProcessingWallets (wdDb w)) \<and> wlOwnerID pw = rqOwnerID r \<and> wlBlockchain pw = BlockchainTypeTron \<and>
    booked (csEnv p) energyPath (wdDb w') = Inr e \<and> e \<le> rsEnergy (stake (wlAddress pw)) \<and>
    booked (csEnv p) bandwidthPath (wdDb w') = Inr b \<and> b \<le> rsBandwidth (stake (wlAddress pw))"
proof (cases rule: createTransfer_Val [OF assms(1)])
  case (1 row w1 i now)
  have "trWalletFromType row = WalletTypeHot" using assms(4) 1(5) by simp
  then obtain est w0 sd w2 wtt own where w0: "wdDb w0 = wdDb w" and res: "processResources p r est w0 = (Val sd, w2)"
    and row: "row = createParams r own (WalletTypeHot, wtt) sd"
    using tron_resources_data [OF 1(2) assms(2,3)] by blast
  obtain pw w3 x procRes y active w4 w5 need act where
    pw: "processingGetByBlockchain (csEnv p) (rqOwnerID r) (rqBlockchain r) w0 = (Val pw, w3)"
    and pr: "availableForDelegateResources (csTron p) (wlAddress pw) x = (Val procRes, y)"
    and ac: "wdDb w4 = wdDb w0" "getActiveTronTransfersResources (csEnv p) w4 = (Val active, w5)"
    and e: "arEnergy active + rsEnergy (dpNeedToDelegate need) \<le> rsEnergy procRes"
    and b: "arBandwidth active + dpNeedBandwidth need \<le> rsBandwidth procRes"
    and sd: "sd = [''estimated_resources'' \<mapsto> delegateResponseVal need, ''estimated_activation'' \<mapsto> activationVal act,
          ''active_tron_transfers'' \<mapsto> activeResourcesVal active]"
    using processResources_Val [OF res] by blast
  have sdt: "trStateData t = sd(''wallet_to_type'' \<mapsto> VStr (walletTypeString wtt))" using 1(5) by (simp add: row createParams_def)
  have data: "dataPath (trStateData t) energyPath = Some (VDec (rsEnergy (dpNeedToDelegate need)))"
    "dataPath (trStateData t) bandwidthPath = Some (VDec (dpNeedBandwidth need))"
    "\<forall>path\<in>set resourcesPaths. dataPath (trStateData t) path \<noteq> None"
    by (simp_all add: sdt sd dataPath_def resourcesPaths_def delegateResponseVal_def activationVal_def resourcesVal_def)
  have "trBlockchain t = BlockchainTypeTron" "trKind t = Some (tronKindString TronTransferKindResources)" "trStatus t = TransferStatusNew"
    using 1(5) assms(2,3) by (simp_all add: row createParams_def)
  then have a: "activeTron TronTransferKindResources resourcesPaths (wdDb w') =
      activeTron TronTransferKindResources resourcesPaths (wdDb w) @ [t]"
    using data(3) by (simp add: 1(6) activeTron_def addTransfer_def)
  note s = activeResources_Val [OF ac(2)]
  have "booked (csEnv p) energyPath (wdDb w') = Inr (arEnergy active + rsEnergy (dpNeedToDelegate need))"
    "booked (csEnv p) bandwidthPath (wdDb w') = Inr (arBandwidth active + dpNeedBandwidth need)"
    using s ac(1) w0 data(1,2) by (auto simp: booked_def a intro: sumPath_snoc)
  with e b assms(5) [OF pr] processing_row [OF pw] w0 assms(2) show ?thesis by auto
qed
section \<open>Transfers that burn TRX\<close>

lemma processBurnTRX_activated:
  assumes "processBurnTRX p r est w = (Val sd, w')" and "\<And>x b x'. checkIsWalletActivated (csTron p) (requestFrom r) x = (Val b, x') \<Longrightarrow> b"
  shows "sd = [''estimated_resources'' \<mapsto> estimateResourcesVal est]"
proof -
  from assms(1) obtain activated w2 x y where a: "checkIsWalletActivated (csTron p) (requestFrom r) x = (Val activated, y)"
    and s: "activated \<Longrightarrow> ret [''estimated_resources'' \<mapsto> estimateResourcesVal est] w2 = (Val sd, w')"
    unfolding processBurnTRX_def Let_def bnd_Val wrapErr_Val liftExt_Val by (auto split: if_split_asm)
  from s [OF assms(2) [OF a]] show ?thesis by (simp add: ret_Val)
qed

text \<open>
  The TRX of a burning transfer is only booked when its wallet has to be activated: the creation of one for a wallet that
  is active leaves the sums over the burning transfers in work as they were, so that the next creation sees the
  whole balance of the processing wallet again.
\<close>

theorem burn_of_active_wallet_is_not_booked:
  fixes p :: "'e create_service"
  assumes "createTransfer p r w = (Val t, w')" and "rqBlockchain r = BlockchainTypeTron"
    and "rqKind r = Some (tronKindString TronTransferKindBurnTRX)" and "trWalletFromType t = WalletTypeHot"
    and "\<And>x b x'. checkIsWalletActivated (csTron p) (requestFrom r) x = (Val b, x') \<Longrightarrow> b"
  shows "activeTron TronTransferKindBurnTRX burnPaths (wdDb w') = activeTron TronTransferKindBurnTRX burnPaths (wdDb w)"
proof (cases rule: createTransfer_Val [OF assms(1)])
  case (1 row w1 i now)
  have "trWalletFromType row = WalletTypeHot" using assms(4) 1(5) by simp
  then obtain w0 sd wtt own where h: "processTronHotWallets p r w0 = (Val sd, w1)" and row: "row = createParams r own (WalletTypeHot, wtt) sd"
    using tron_hot_data [OF 1(2) assms(2)] by blast
  have "\<exists>est y. processBurnTRX p r est y = (Val sd, w1)"
    using h assms(3) unfolding processTronHotWallets_def Let_def
    by (auto simp: op_Val addressBalance_def textString_def split: if_split_asm)
  then obtain est where "sd = [''estimated_resources'' \<mapsto> estimateResourcesVal est]"
    using processBurnTRX_activated assms(5) by blast
  then have "dataPath (trStateData t) [''estimated_activation'', ''trx''] = None"
    using 1(5) by (simp add: row createParams_def dataPath_def)
  then have "\<exists>path\<in>set burnPaths. dataPath (trStateData t) path = None" by (auto simp: burnPaths_def)
  then show ?thesis by (auto simp: 1(6) activeTron_def addTransfer_def)
qed

section \<open>Orders of the resource manager\<close>

text \<open>The identifier that is stored for a type of order, under the key of the type.\<close>

definition orderKey :: "order_type \<Rightarrow> string option" where
  "orderKey ty = (case ty of ORDER_TYPE_TRON_ADDRESS_ACTIVATION \<Rightarrow> Some ActivationOrderID
     | ORDER_TYPE_TRON_BANDWIDTH_DELEGATION \<Rightarrow> Some BandwidthOrderID
     | ORDER_TYPE_TRON_ENERGY_DELEGATION \<Rightarrow> Some EnergyOrderID | OtherOrderType s \<Rightarrow> None)"

lemma orderKey_inj: "orderKey ty = Some k \<Longrightarrow> orderKey ty' = Some k \<Longrightarrow> ty = ty'"
  by (auto simp: orderKey_def ActivationOrderID_def BandwidthOrderID_def EnergyOrderID_def split: order_type.split_asm)

lemma storeOrderID_key: "storeOrderID order sd = (case orderKey (odType order) of None \<Rightarrow> sd | Some k \<Rightarrow> sd(k \<mapsto> VStr (odOrderID order)))"
  by (simp add: storeOrderID_def orderKey_def split: order_type.split)

lemma stored_orders:
  assumes "distinct (map odType orders)" and "orderKey ty = Some k"
  shows "fold storeOrderID orders sd k =
    (case filter (\<lambda>ord. odType ord = ty) orders of [] \<Rightarrow> sd k | ord # _ \<Rightarrow> Some (VStr (odOrderID ord)))"
  using assms(1)
proof (induction orders arbitrary: sd)
  case (Cons ord orders)
  note IH = Cons.IH [OF Cons.prems [simplified, THEN conjunct2]]
  show ?case
  proof (cases "odType ord = ty")
    case True
    then have "filter (\<lambda>ord'. odType ord' = ty) orders = []"
      using Cons.prems by (metis (mono_tags, lifting) distinct.simps(2) filter_False image_eqI list.map(2) list.set_map)
    moreover have "storeOrderID ord sd k = Some (VStr (odOrderID ord))" using True assms(2) by (simp add: storeOrderID_key)
    ultimately show ?thesis using True IH [of "storeOrderID ord sd"] by simp
  next
    case False
    then have "storeOrderID ord sd k = sd k"
      using orderKey_inj [OF assms(2), of "odType ord"] by (auto simp: storeOrderID_key split: option.split)
    then show ?thesis using False IH [of "storeOrderID ord sd"] by (simp split: list.split)
  qed
qed simp

text \<open>The identifiers of one type that a reader of the state data finds: none, or the one of the only order of the type.\<close>

lemma stored_order_id:
  assumes "distinct (map odType created)" and "\<forall>ord\<in>set created. odOrderID ord \<noteq> ''''" and "orderKey ty = Some k" and "sd0 k = None"
  shows "\<exists>ids. set ids = odOrderID ` {ord \<in> set created. odType ord = ty} \<and>
      (getStringByPath (fold storeOrderID created sd0) k = Inr None \<and> ids = [] \<or>
       (\<exists>i. getStringByPath (fold storeOrderID created sd0) k = Inr (Some i) \<and> i \<noteq> '''' \<and> ids = [i]))"
proof -
  have look: "fold storeOrderID created sd0 k = (case filter (\<lambda>ord. odType ord = ty) created of [] \<Rightarrow> None | ord # _ \<Rightarrow> Some (VStr (odOrderID ord)))"
    unfolding stored_orders [OF assms(1,3)] assms(4) ..
  show ?thesis
  proof (cases "filter (\<lambda>ord. odType ord = ty) created")
    case Nil
    then show ?thesis by (auto simp: getStringByPath_def look filter_empty_conv)
  next
    case (Cons a l)
    then have a: "a \<in> set created" "odType a = ty" by (auto simp: filter_eq_Cons_iff)
    then have "filter (\<lambda>ord. odType ord = ty) created = [a]"
      using assms(1) by (induction created) (auto simp: filter_empty_conv image_iff)
    then have "{ord \<in> set created. odType ord = ty} = {a}"
      unfolding set_filter [symmetric] by simp
    with Cons assms(2) a(1) show ?thesis
      by (intro exI [of _ "[odOrderID a]"]) (simp add: getStringByPath_def look strOfVal_def)
  qed
qed

lemma processCloudDelegate_Val:
  assumes "processCloudDelegate p r est w = (Val sd, w')"
  shows "\<exists>res created. (externalOrders (csDelegationDuration p) (requestFrom r) res = [] \<and> created = [] \<or>
      (\<exists>x x'. csBatchCreateOrder p (externalOrders (csDelegationDuration p) (requestFrom r) res) x = (Val created, x'))) \<and>
    sd = fold storeOrderID created [''estimated_resources'' \<mapsto> externalResponseVal res]"
proof -
  define orders where "orders = externalOrders (csDelegationDuration p) (requestFrom r)"
  define sd0 where "sd0 res = [''estimated_resources'' \<mapsto> externalResponseVal res]" for res
  from assms obtain res w1 where "(if orders res = [] then ret (sd0 res) else
      bnd (catchErr (liftExt (csBatchCreateOrder p (orders res))) (\<lambda>e.
             if csResourceExhausted p e
             then fail (Wrapf ''create orders for transfer: '' (getErrorByCode RPCCodeNotEnoughResources)) else fail e)) (\<lambda>created.
      ret (fold storeOrderID created (sd0 res)))) w1 = (Val sd, w')"
    unfolding processCloudDelegate_def Let_def orders_def sd0_def bnd_Val wrapErr_Val by blast
  then have "orders res = [] \<and> sd = sd0 res \<or>
      (\<exists>created x x'. csBatchCreateOrder p (orders res) x = (Val created, x') \<and> sd = fold storeOrderID created (sd0 res))"
    by (auto simp: op_Val split: if_split_asm)
  then show ?thesis unfolding orders_def sd0_def by force
qed


end
