(* ===== verification/CreateSample.thy ===== *)
theory CreateSample
  imports CreateProps
begin

text \<open>
  The properties of the creation of a transfer at a sample: a hot wallet of Tron, whose transfer is created
  with delegated resources or by burning TRX while another resource transfer is in work.
\<close>

section \<open>A sample creation\<close>

definition createEnv :: "unit env" where
  "createEnv = trxEnv\<lparr>envAddressBalance := (\<lambda>_ _ _ x. (Val 100, x)), envAssetDecimals := (\<lambda>_ _ x. (Val 6, x))\<rparr>"

definition orderName :: "order_type \<Rightarrow> string" where
  "orderName ty = (case ty of ORDER_TYPE_TRON_ENERGY_DELEGATION \<Rightarrow> ''energy-1'' | ORDER_TYPE_TRON_BANDWIDTH_DELEGATION \<Rightarrow> ''bandwidth-1''
     | _ \<Rightarrow> ''activation-1'')"

definition createDemo :: "unit create_service" where
  "createDemo =
     \<lparr>csEnv = createEnv, csTransfersEnabled = True, csChainEnabled = (\<lambda>_. True), csResourceManagerEnabled = True,
      csUseCacheForWallets = False, csDelegationDuration = 60 * second,
      csAddresses = \<lparr>alBitcoin = [\<lambda>_. True], alLitecoin = [\<lambda>_. True], alBitcoinCash = [\<lambda>_. True], alDogecoin = [\<lambda>_. True],
        alIsHexAddress = (\<lambda>_. True), alBase58 = (\<lambda>_. True)\<rparr>,
      csEvm = (\<lambda>_. evmDemo), csMaxGasFee = (\<lambda>_. 0), csTron = trxDemo, csRows = take,
      csServing = (\<lambda>_ x. (Val True, x)),
      csBatchCreateOrder = (\<lambda>os x. (Val (map (\<lambda>q. \<lparr>odOrderID = orderName (orType q), odStatus = ORDER_STATUS_PENDING, odType = orType q\<rparr>) os), x)),
      csResourceExhausted = (\<lambda>_. False), csTimeout = (\<lambda>_. False)\<rparr>"

definition createDemoRequest :: "string \<Rightarrow> string \<Rightarrow> create_request" where
  "createDemoRequest kind req =
     \<lparr>rqOwnerID = ''owner-1'', rqRequestID = req, rqBlockchain = BlockchainTypeTron, rqFromAddresses = [''hot-1''],
      rqToAddresses = [''cold-1''], rqAssetIdentifier = ''usdt'', rqKind = Some kind, rqWholeAmount = False,
      rqAmount = Some 50, rqFee = None, rqFeeMax = None\<rparr>"

text \<open>A resource transfer of another hot wallet is in work.\<close>

definition bookedTransfer :: transfer where
  "bookedTransfer = zeroTransfer\<lparr>trID := ''transfer-0'', trStatus := TransferStatusProcessing, trOwnerID := ''owner-1'',
     trClientID := ''client-1'', trRequestID := ''req-0'', trBlockchain := BlockchainTypeTron,
     trFromAddresses := [''hot-2''], trToAddresses := [''cold-1''], trWalletFromType := WalletTypeHot, trKind := Some ''resources'',
     trStateData := [''estimated_resources'' \<mapsto> delegateResponseVal trxResponse, ''estimated_activation'' \<mapsto> activationVal noActivation]\<rparr>"

definition createWorld :: "unit world" where
  "createWorld = \<lparr>wdDb = \<lparr>dbTransfers = [bookedTransfer],
     dbOwners = [\<lparr>owID = ''owner-1'', owClientID = ''client-1'', owMnemonic = ''words'', owPassPhrase = None\<rparr>],
     dbHotWallets = [\<lparr>wlBlockchain = BlockchainTypeTron, wlAddress = ''hot-1'', wlOwnerID = ''owner-1'', hwExternalID = ''user'',
        hwSequence = 3, hwIsActivated = True, hwIsDirty = False\<rparr>],
     dbProcessingWallets = [\<lparr>wlBlockchain = BlockchainTypeTron, wlAddress = ''proc-1'', wlOwnerID = ''owner-1'', pwSequence = 4\<rparr>],
     dbColdWallets = [\<lparr>wlBlockchain = BlockchainTypeTron, wlAddress = ''cold-1'', wlOwnerID = ''owner-1''\<rparr>],
     dbTransferTransactions = [], dbWebhooks = []\<rparr>,
     wdTx = None, wdOwnerCache = Map.empty, wdHotCache = Map.empty, wdProcessingCache = Map.empty, wdColdCache = Map.empty, wdExt = ()\<rparr>"

lemma create_fields [simp]:
  "csEnv createDemo = createEnv" "csTron createDemo = trxDemo" "csUseCacheForWallets createDemo = False"
  "envFault createEnv = (\<lambda>_ x. (NoFault, x))" "rqBlockchain (createDemoRequest k q) = BlockchainTypeTron"
  "rqKind (createDemoRequest k q) = Some k" "rqOwnerID (createDemoRequest k q) = ''owner-1''"
  "requestFrom (createDemoRequest k q) = ''hot-1''" "requestTo (createDemoRequest k q) = ''cold-1''"
  "rqFromAddresses (createDemoRequest k q) = [''hot-1'']" "rqToAddresses (createDemoRequest k q) = [''cold-1'']"
  "rqAssetIdentifier (createDemoRequest k q) = ''usdt''" "rqRequestID (createDemoRequest k q) = q"
  "requestAmount (createDemoRequest k q) b = 50" "rqWholeAmount (createDemoRequest k q) = False"
  by (simp_all add: createDemo_def createEnv_def trxEnv_def evmEnv_def createDemoRequest_def requestFrom_def requestTo_def
      requestAmount_def nullDecimal_def)

lemma demo_accepted:
  assumes "k = ''resources'' \<or> k = ''burntrx''"
  shows "acceptRequest createDemo (createDemoRequest k ''req-1'') s = (Val (), s)"
  using assms unfolding acceptRequest_Val
  by (auto simp: validateCreate_def Let_def createDemo_def createDemoRequest_def firstError_None nilUuid_def findDuplicates_def
     validateAddresses_None validateAddressByBlockchain_def positiveIfSet_def validateTron_def textString_def tronKindValid_def)

lemma demo_lookup:
  "checkWallet createEnv False BlockchainTypeTron ''hot-1'' createWorld = (Val (hotResult (hd (dbHotWallets (wdDb createWorld)))), createWorld)"
  "checkWallet createEnv False BlockchainTypeTron ''cold-1'' createWorld =
     (Val (plainResult WalletTypeCold (hd (dbColdWallets (wdDb createWorld)))), createWorld)"
  by (simp_all add: checkWallet_def checkWalletInDatabase_def lookupOrNext_def hotGetByBlockchainAndAddress_def
      processingGetByBlockchainAndAddress_def coldGetByBlockchainAndAddress_def noRowsToNotFound_def qHotGetByAddress_def
      qProcessingGetByAddress_def qColdGetByAddress_def dbRead_def op_defs ofSum_def dbView_outside createWorld_def walletIs_def oneRow_def
      errNoRows_def storeErrNotFound_def)

lemma demo_wallets: "requestWallets createDemo (createDemoRequest k q) createWorld = (Val (WalletTypeHot, WalletTypeCold), createWorld)"
proof -
  let ?h = "hotResult (hd (dbHotWallets (wdDb createWorld)))" and ?c = "plainResult WalletTypeCold (hd (dbColdWallets (wdDb createWorld)))"
  have "cwOwnerID ?h = ''owner-1''" "cwWalletType ?h = WalletTypeHot" "cwOwnerID ?c = ''owner-1''" "cwWalletType ?c = WalletTypeCold"
    by (simp_all add: createWorld_def hotResult_def plainResult_def)
  then show ?thesis by (simp add: requestWallets_def op_defs demo_lookup walletTypeOf_def)
qed

lemma demo_owner: "qOwnerGetByID createEnv ''owner-1'' createWorld = (Val (hd (dbOwners (wdDb createWorld))), createWorld)"
  by (simp add: qOwnerGetByID_def dbRead_def ofSum_def op_defs dbView_outside createWorld_def oneRow_def)

lemma demo_call: "retryCall (nodeRetry trxEnv) (resetOnly msg (\<lambda>x. (Val y, x))) () = (Val y, ())"
  by (simp add: retryCall_def nodeRetry_def newRetry_def retry_option_defs retryDo_def linearRetry_def linearLoop.simps backoffRetry_def
     backoffLoop.simps resetOnly_def deref_def op_defs runHook_def trxEnv_def evmEnv_def)

definition sampleEstimate :: transfer_resources where
  "sampleEstimate = \<lparr>trfEnergy = 1000, trfBandwidth = 264, trfTrx = 684 / 1000\<rparr>"

lemma demo_hot_estimate: "estimateTransferResources trxDemo ''hot-1'' ''cold-1'' ''usdt'' 50 6 () =
    (Val sampleEstimate, ())"
proof -
  have n: "nodeTRC20Send (trnNode trxDemo) f t' c a l = (\<lambda>x. (Val (trxExt ''bb''), x))"
    "nodeTriggerConstantContract (trnNode trxDemo) f c g h = (\<lambda>x. (Val (trxExt ''cc''), x))"
    "trnEnv trxDemo = trxEnv" for f t' c a l g h by (simp_all add: trx_sample)
  have x: "teTransaction (trxExt m) = Some \<lparr>tnRawData = None, tnRet = [], tnSignature = []\<rparr>" "teEnergyUsed (trxExt m) = 1000" for m
    by (simp_all add: trxExt_def)
  show ?thesis
    by (simp add: estimateTransferResources_def TrxAssetIdentifier_def op_defs n x demo_call demo_bandwidth demo_chain Let_def
        bandwidthToTRX_def decDiv_def newFromInt_def energyToTRX_def) (simp add: trxEnv_def demoRound_def sampleEstimate_def)
qed

lemma demo_stake: "availableForDelegateResources trxDemo ''proc-1'' () =
   (Val \<lparr>rsEnergy = 100000, rsBandwidth = 5000, rsTotalEnergy = 100000, rsTotalBandwidth = 5600\<rparr>, ())"
proof -
  have "trnEnv trxDemo = trxEnv" "nodeGetAccount (trnNode trxDemo) a = (\<lambda>x. (Val \<lparr>taAddress = a, taFrozenV2 = [(ResourceCode_ENERGY, 1000000000), (ResourceCode_BANDWIDTH, 50000000)]\<rparr>, x))"
    "nodeGetAccountResource (trnNode trxDemo) ''proc-1'' = (\<lambda>x. (Val trxAccount, x))" for a by (simp_all add: trx_sample)
  then show ?thesis
    by (simp add: availableForDelegateResources_def op_defs demo_chain convertStackedTRXToEnergy_def convertStackedTRXToBandwidth_def
        decDiv_def newFromInt_def availableEnergy_def availableBandwidthWithoutFree_def totalEnergyLimit_def totalBandwidthLimit_def
        trxAccount_def trxEnv_def demoRound_def)
qed

lemma demo_hot: "totalAvailableResources trxDemo ''hot-1'' () = (Val (noResources\<lparr>rsTotalBandwidth := 600\<rparr>), ())"
  by (simp add: totalAvailableResources_def trx_sample op_defs availableEnergy_def availableBandwidth_def newFromInt_def totalEnergyLimit_def
      totalBandwidthLimit_def trxAccount_def noResources_def)

lemma demo_need: "estimateTransferWithDelegateResources trxDemo
    \<lparr>dqProcessingAddress = ''proc-1'', dqHotWalletAddress = ''hot-1'',
     dqProcessingResources = \<lparr>rsEnergy = 100000, rsBandwidth = 5000, rsTotalEnergy = 100000, rsTotalBandwidth = 5600\<rparr>,
     dqHotResources = noResources\<lparr>rsTotalBandwidth := 600\<rparr>, dqEstimate = \<lparr>trfEnergy = 1000, trfBandwidth = 264, trfTrx = trx\<rparr>\<rparr> () = (Val trxResponse, ())"
  unfolding estimateTransferWithDelegateResources_def
  by (simp add: demo_coefficient lackingResources_def noResources_def demo_chain demo_active demo_fake fakePair_def demo_add
      op_defs decDiv_def bandwidthToTRX_def newFromInt_def trxResponse_def Let_def del: addBandwidths.simps)

lemma demo_processing: "processingGetByBlockchain createEnv ''owner-1'' BlockchainTypeTron createWorld =
    (Val (hd (dbProcessingWallets (wdDb createWorld))), createWorld)"
  by (simp add: processingGetByBlockchain_def noRowsToNotFound_def qProcessingGetByBlockchain_def dbRead_def op_defs ofSum_def
      dbView_outside createWorld_def oneRow_def nilUuid_def)

lemma demo_sums: "getActiveTronTransfersResources createEnv createWorld =
    (Val \<lparr>arEnergy = 1007, arBandwidth = 1322, arActivationEnergy = 0, arActivationBandwidth = 0\<rparr>, createWorld)"
  by (simp add: getActiveTronTransfersResources_def dbRead_def op_defs ofSum_def dbView_outside createWorld_def activeTron_def
      resourcesPaths_def bookedTransfer_def zeroTransfer_def dataPath_def delegateResponseVal_def activationVal_def resourcesVal_def
      trxResponse_def noResources_def noActivation_def map_sum_def)

lemma demo_free: "addressNotTaken createDemo (createDemoRequest k q) createWorld = (Val (), createWorld)"
  by (simp add: addressNotTaken_def qTransferFind_def dbRead_def op_defs ofSum_def dbView_outside createWorld_def findTransfers_def
      findCTE_def noFindParams_def textString_def bookedTransfer_def zeroTransfer_def)

lemma demo_lift: "liftExt m createWorld = (fst (m ()), createWorld)"
  by (cases "m ()") (simp add: liftExt_def createWorld_def)

definition createData :: "string \<Rightarrow> string \<rightharpoonup> any_val" where
  "createData k = (if k = ''burntrx''
     then [''estimated_resources'' \<mapsto> estimateResourcesVal sampleEstimate]
     else [''estimated_resources'' \<mapsto> delegateResponseVal trxResponse, ''estimated_activation'' \<mapsto> activationVal noActivation,
       ''active_tron_transfers'' \<mapsto> activeResourcesVal \<lparr>arEnergy = 1007, arBandwidth = 1322, arActivationEnergy = 0, arActivationBandwidth = 0\<rparr>])"

lemma demo_balance: "addressBalance createDemo (createDemoRequest k q) a x createWorld = (Val 100, createWorld)"
  by (simp add: addressBalance_def demo_lift) (simp add: createEnv_def)

lemma demo_processResources:
  "processResources createDemo (createDemoRequest k q) sampleEstimate createWorld =
     (Val (createData ''resources''), createWorld)"
proof -
  have a: "wlAddress (hd (dbProcessingWallets (wdDb createWorld))) = ''proc-1''" by (simp add: createWorld_def)
  have n: "dpNeedBandwidth trxResponse = 1322" "rsEnergy (dpNeedToDelegate trxResponse) = 1007" by (simp_all add: trxResponse_def noResources_def)
  show ?thesis
    by (simp add: processResources_def checkActivation_def op_defs Let_def demo_processing a n demo_sums demo_lift demo_stake
        demo_hot demo_need [of "684 / 1000", folded sampleEstimate_def] demo_active createData_def)
qed

lemma demo_processBurnTRX:
  "processBurnTRX createDemo (createDemoRequest k q) sampleEstimate createWorld =
     (Val (createData ''burntrx''), createWorld)"
  by (simp add: processBurnTRX_def op_defs Let_def demo_processing demo_balance demo_lift demo_active createData_def)

lemma demo_chain_data:
  assumes "k = ''resources'' \<or> k = ''burntrx''"
  shows "processChain createDemo (createDemoRequest k q) WalletTypeHot createWorld = (Val (createData k), createWorld)"
proof -
  have b: "fst (envAssetDecimals createEnv BlockchainTypeTron ''usdt'' ()) = Val 6" by (simp add: createEnv_def)
  have c: "chainEnabled createDemo (createDemoRequest k q) createWorld = (Val (), createWorld)"
    by (simp add: chainEnabled_def op_defs) (simp add: createDemo_def)
  have h: "processTronHotWallets createDemo (createDemoRequest k q) createWorld =
      (if k = ''burntrx'' then processBurnTRX createDemo (createDemoRequest k q) sampleEstimate createWorld
       else processResources createDemo (createDemoRequest k q) sampleEstimate createWorld)"
    using assms
    by (elim disjE) (simp_all add: processTronHotWallets_def op_defs Let_def b demo_balance demo_lift demo_hot_estimate textString_def)
  have "processTronHotWallets createDemo (createDemoRequest k q) createWorld = (Val (createData k), createWorld)"
    using assms unfolding h demo_processResources demo_processBurnTRX by auto
  then show ?thesis
    by (simp add: processChain_def processTron_def op_defs Let_def demo_free c)
qed

definition createRow :: "string \<Rightarrow> string \<Rightarrow> transfer" where
  "createRow k q = createParams (createDemoRequest k q) (hd (dbOwners (wdDb createWorld))) (WalletTypeHot, WalletTypeCold) (createData k)"

lemma demo_prepared:
  assumes "k = ''resources'' \<or> k = ''burntrx''"
  shows "prepareCreate createDemo (createDemoRequest k q) createWorld = (Val (createRow k q), createWorld)"
  by (simp add: prepareCreate_def op_defs demo_owner demo_wallets demo_chain_data [OF assms] createRow_def)

lemma demo_create:
  assumes "k = ''resources'' \<or> k = ''burntrx''"
  shows "createTransfer createDemo (createDemoRequest k ''req-1'') createWorld =
    (Val (newTransfer ''new-id'' 7 (createRow k ''req-1'')),
     createWorld\<lparr>wdDb := addTransfer (newTransfer ''new-id'' 7 (createRow k ''req-1'')) (wdDb createWorld)\<rparr>)"
proof -
  let ?n = "newTransfer ''new-id'' 7 (createRow k ''req-1'')"
  have t: "wdTx createWorld = None" "envNewID createEnv x = ''new-id''" "envNow createEnv x = 7" for x
    by (simp_all add: createWorld_def createEnv_def trxEnv_def evmEnv_def)
  have d: "dbTransfers (wdDb createWorld) = [bookedTransfer]" by (simp add: createWorld_def)
  have n: "trID bookedTransfer = ''transfer-0''" "\<not> sameRequest (createRow k ''req-1'') bookedTransfer"
    by (simp_all add: bookedTransfer_def sameRequest_def createRow_def createParams_def)
  have w: "createWorld\<lparr>wdExt := ()\<rparr> = createWorld" by (simp add: createWorld_def)
  have "insertTransfer createDemo (createRow k ''req-1'') createWorld = (Val ?n, createWorld\<lparr>wdDb := addTransfer ?n (wdDb createWorld)\<rparr>)"
    by (simp add: insertTransfer_def qTransferCreate_def Let_def dbView_outside d n dbQuery_def dbApply_def t op_defs w
        transferRow_def addTransfer_def oneRow_def ofSum_def)
  then show ?thesis by (simp add: createTransfer_def createLocked_def bnd_def demo_accepted [OF assms] demo_prepared [OF assms])
qed

section \<open>The properties at the sample\<close>

definition createdTransfer :: "string \<Rightarrow> transfer" where
  "createdTransfer k = newTransfer ''new-id'' 7 (createRow k ''req-1'')"

definition createdWorld :: "string \<Rightarrow> unit world" where
  "createdWorld k = createWorld\<lparr>wdDb := addTransfer (createdTransfer k) (wdDb createWorld)\<rparr>"

lemma demo_created:
  assumes "k = ''resources'' \<or> k = ''burntrx''"
  shows "createTransfer createDemo (createDemoRequest k ''req-1'') createWorld = (Val (createdTransfer k), createdWorld k)"
  by (simp add: demo_create [OF assms] createdTransfer_def createdWorld_def)

lemma demo_type: "trWalletFromType (createdTransfer k) = WalletTypeHot"
  by (simp add: createdTransfer_def createRow_def createParams_def)


theorem repeated_request_creates_nothing_witness:
  "wdDb (snd (createTransfer createDemo (createDemoRequest ''resources'' ''req-0'') createWorld)) = wdDb createWorld"
proof -
  obtain res w' where "createTransfer createDemo (createDemoRequest ''resources'' ''req-0'') createWorld = (res, w')" by fastforce
  from repeated_request_creates_nothing [OF this, of "hd (dbOwners (wdDb createWorld))" bookedTransfer] this
  show ?thesis by (simp add: createWorld_def oneRow_def bookedTransfer_def)
qed

theorem layer_two_transfers_are_refused_witness:
  "\<exists>e. createTransfer createDemo ((createDemoRequest ''resources'' ''req-1'')\<lparr>rqBlockchain := BlockchainTypeLinea\<rparr>) createWorld = (Err e, createWorld)"
  by (rule layer_two_transfers_are_refused) simp

lemma demo_one: "oneActive (wdDb createWorld)"
  by (simp add: oneActive_def createWorld_def)

theorem one_active_transfer_per_address_witness: "oneActive (wdDb (createdWorld ''resources''))"
  using one_active_transfer_per_address [OF demo_one, of createDemo "createDemoRequest ''resources'' ''req-1''"] by (simp add: demo_created)

theorem refused_creation_changes_nothing_witness:
  "\<exists>e. createTransfer createDemo ((createDemoRequest ''resources'' ''req-1'')\<lparr>rqOwnerID := nilUuid\<rparr>) createWorld = (Err e, createWorld) \<and>
     wdDb (snd (createTransfer createDemo ((createDemoRequest ''resources'' ''req-1'')\<lparr>rqOwnerID := nilUuid\<rparr>) createWorld)) = wdDb createWorld"
proof -
  have "validateCreate createDemo ((createDemoRequest ''resources'' ''req-1'')\<lparr>rqOwnerID := nilUuid\<rparr>) \<noteq> None"
    using accepted_request(1) [of createDemo] by force
  from acceptRequest_refuses [OF this, of createWorld]
  obtain e where e: "createTransfer createDemo ((createDemoRequest ''resources'' ''req-1'')\<lparr>rqOwnerID := nilUuid\<rparr>) createWorld = (Err e, createWorld)"
    by (auto simp: createTransfer_def bnd_def)
  then show ?thesis using refused_creation_changes_nothing [OF e] by simp
qed

theorem resources_are_not_overbooked_witness:
  "\<exists>e b. booked createEnv energyPath (wdDb (createdWorld ''resources'')) = Inr e \<and> e \<le> 100000 \<and>
     booked createEnv bandwidthPath (wdDb (createdWorld ''resources'')) = Inr b \<and> b \<le> 5000"
proof -
  have "y = (case fst (availableForDelegateResources trxDemo a ()) of Val z \<Rightarrow> z | _ \<Rightarrow> noResources)"
    if "availableForDelegateResources (csTron createDemo) a x = (Val y, x')" for a x y x' using that by simp
  from resources_are_not_overbooked [OF demo_created [OF disjI1 [OF refl]] _ _ demo_type, OF _ _ this] show ?thesis
    by (auto simp: createWorld_def demo_stake)
qed

lemma demo_health: "serviceHealth createDemo srv what createWorld = (Val (), createWorld)"
proof -
  have "csServing createDemo srv = (\<lambda>x. (Val True, x))" by (simp add: createDemo_def)
  then have "retryCall (newRetry (\<lambda>d (y, v). (envSleep createEnv d y, v)) [withMaxAttempts 2, withPolicy PolicyLinear])
      (catchErr (csServing createDemo srv) h) () = (Val True, ())" for h
    by (simp add: retryCall_def newRetry_def retry_option_defs retryDo_def linearRetry_def linearLoop.simps deref_def op_defs runHook_def)
  then show ?thesis by (simp add: serviceHealth_def op_defs demo_lift)
qed

lemma demo_external:
  "\<exists>res. estimateTransferWithExternalDelegateResources trxDemo ''hot-1'' (noResources\<lparr>rsTotalBandwidth := 600\<rparr>)
     \<lparr>trfEnergy = 1000, trfBandwidth = 264, trfTrx = 1\<rparr> () = (Val res, ()) \<and>
     epNeedResourcesToTransfer res = noResources\<lparr>rsEnergy := 1007, rsBandwidth := 266\<rparr> \<and> \<not> epNeedToActivate res"
  by (simp add: estimateTransferWithExternalDelegateResources_def demo_coefficient lackingResources_def noResources_def demo_chain demo_active
      demo_fake fakeBandwidths_def demo_bandwidth op_defs decDiv_def bandwidthToTRX_def newFromInt_def Let_def)


theorem burn_of_active_wallet_is_not_booked_witness:
  "activeTron TronTransferKindBurnTRX burnPaths (wdDb (createdWorld ''burntrx'')) = []"
proof -
  have "b" if "checkIsWalletActivated (csTron createDemo) (requestFrom (createDemoRequest ''burntrx'' ''req-1'')) x = (Val b, x')" for x b x'
    using that demo_active by simp
  from burn_of_active_wallet_is_not_booked [OF demo_created [OF disjI2 [OF refl]] _ _ demo_type, OF _ _ this]
  show ?thesis by (simp add: createWorld_def activeTron_def bookedTransfer_def)
qed

end
