(* ===== verification/CreateLock.thy ===== *)
theory CreateLock
  imports CreateSample
begin

text \<open>
  Concurrent calls of \<open>Create\<close>: the flag \<open>isLocked\<close> under the mutex of the condition variable \<open>locker\<close> lets
  one call at a time go from the checks to the insertion, while the workers go on with the transfers. A call is
  one sequence of steps; the steps of different calls and of the workers interleave in any order.
\<close>

section \<open>The steps\<close>

text \<open>
  A call that \<open>Waiting\<close> is runnable before the flag, one that is \<open>Asleep\<close> is inside \<open>Wait\<close>. The three
  phases that follow hold the flag.
\<close>

datatype call_phase =
    Outside | Waiting | Asleep | Checking | Prepared transfer | Leaving "transfer outcome" | Returned "transfer outcome"

record 'e creators =
  clWorld :: "'e world"
  clLocked :: bool
  clPhase :: "nat \<Rightarrow> call_phase"

fun holding :: "call_phase \<Rightarrow> bool" where
  "holding Checking = True"
| "holding (Prepared row) = True"
| "holding (Leaving res) = True"
| "holding ph = False"

fun afterPrepare :: "transfer outcome \<Rightarrow> call_phase" where
  "afterPrepare (Val row) = Prepared row"
| "afterPrepare (Err e) = Leaving (Err e)"
| "afterPrepare (Panic q) = Leaving (Panic q)"

fun afterAccept :: "unit outcome \<Rightarrow> call_phase" where
  "afterAccept (Val u) = Waiting"
| "afterAccept (Err e) = Returned (Err e)"
| "afterAccept (Panic q) = Returned (Panic q)"

text \<open>What the rest of the program does to the transfers: it moves them on, and does not start a finished one again.\<close>

definition worksOn :: "transfer \<Rightarrow> transfer \<Rightarrow> bool" where
  "worksOn t t' \<longleftrightarrow> trBlockchain t' = trBlockchain t \<and> trFromAddresses t' = trFromAddresses t \<and>
     (trStatus t \<in> {TransferStatusCompleted, TransferStatusFailed} \<longrightarrow> trStatus t' \<in> {TransferStatusCompleted, TransferStatusFailed})"

inductive create_step :: "'e create_service \<Rightarrow> (nat \<Rightarrow> create_request) \<Rightarrow> 'e creators \<Rightarrow> nat option \<Rightarrow> 'e creators \<Rightarrow> bool"
  for p :: "'e create_service" and rq :: "nat \<Rightarrow> create_request" where
  accept: "clPhase s i = Outside \<Longrightarrow> acceptRequest p (rq i) (clWorld s) = (res, w') \<Longrightarrow>
     create_step p rq s (Some i) (s\<lparr>clPhase := (clPhase s)(i := afterAccept res)\<rparr>)"
| enter: "clPhase s i = Waiting \<Longrightarrow> \<not> clLocked s \<Longrightarrow>
     create_step p rq s (Some i) (s\<lparr>clLocked := True, clPhase := (clPhase s)(i := Checking)\<rparr>)"
| wait: "clPhase s i = Waiting \<Longrightarrow> clLocked s \<Longrightarrow>
     create_step p rq s (Some i) (s\<lparr>clPhase := (clPhase s)(i := Asleep)\<rparr>)"
| prepare: "clPhase s i = Checking \<Longrightarrow> prepareCreate p (rq i) (clWorld s) = (res, w') \<Longrightarrow>
     create_step p rq s (Some i) (s\<lparr>clWorld := w', clPhase := (clPhase s)(i := afterPrepare res)\<rparr>)"
| insert: "clPhase s i = Prepared row \<Longrightarrow> insertTransfer p row (clWorld s) = (res, w') \<Longrightarrow>
     create_step p rq s (Some i) (s\<lparr>clWorld := w', clPhase := (clPhase s)(i := Leaving res)\<rparr>)"
| leave: "clPhase s i = Leaving res \<Longrightarrow> \<forall>j. clPhase s j \<noteq> Asleep \<Longrightarrow>
     create_step p rq s (Some i) (s\<lparr>clLocked := False, clPhase := (clPhase s)(i := Returned res)\<rparr>)"
| signal: "clPhase s i = Leaving res \<Longrightarrow> clPhase s j = Asleep \<Longrightarrow>
     create_step p rq s (Some i) (s\<lparr>clLocked := False, clPhase := (clPhase s)(i := Returned res, j := Waiting)\<rparr>)"
| works: "list_all2 worksOn (dbTransfers (wdDb (clWorld s))) (dbTransfers (wdDb w')) \<Longrightarrow>
     create_step p rq s None (s\<lparr>clWorld := w'\<rparr>)"

inductive creations :: "'e create_service \<Rightarrow> (nat \<Rightarrow> create_request) \<Rightarrow> 'e creators \<Rightarrow> bool"
  for p :: "'e create_service" and rq :: "nat \<Rightarrow> create_request" where
  start: "oneActive (wdDb (clWorld s)) \<Longrightarrow> \<not> clLocked s \<Longrightarrow> \<forall>i. clPhase s i = Outside \<Longrightarrow> creations p rq s"
| run: "creations p rq s \<Longrightarrow> create_step p rq s who s' \<Longrightarrow> creations p rq s'"

section \<open>The flag\<close>

text \<open>The flag is set exactly while one call holds it, and a sleeping call will be woken: one that can run is there.\<close>

definition flagOk :: "bool \<Rightarrow> (nat \<Rightarrow> call_phase) \<Rightarrow> bool" where
  "flagOk l ph \<longleftrightarrow> (if l then \<exists>i. \<forall>j. holding (ph j) \<longleftrightarrow> j = i
     else (\<forall>j. \<not> holding (ph j)) \<and> ((\<exists>i. ph i = Asleep) \<longrightarrow> (\<exists>i. ph i = Waiting)))"

lemma holding_afterPrepare [simp]: "holding (afterPrepare res)"
  by (cases res) simp_all

lemma afterAccept_holding [simp]: "\<not> holding (afterAccept res)"
  by (cases res) simp_all

lemma afterAccept_awake [simp]: "afterAccept res \<noteq> Asleep"
  by (cases res) simp_all

text \<open>A phase changes in place, the flag is taken, or it is given back.\<close>

lemma flagOk_change:
  "flagOk l ph \<Longrightarrow> holding x = holding (ph i) \<Longrightarrow> l \<or> x \<noteq> Asleep \<and> ph i \<noteq> Waiting \<Longrightarrow> flagOk l (ph(i := x))"
  unfolding flagOk_def by (auto split: if_split_asm)

lemma flagOk_take: "flagOk False ph \<Longrightarrow> holding x \<Longrightarrow> flagOk True (ph(i := x))"
  by (auto simp: flagOk_def)

lemma flagOk_holder: "flagOk l ph \<Longrightarrow> holding (ph i) \<Longrightarrow> l \<and> (\<forall>j. holding (ph j) \<longleftrightarrow> j = i)"
  by (auto simp: flagOk_def split: if_split_asm)

lemma flagOk_give:
  assumes "flagOk l ph" and "holding (ph i)"
  shows "\<forall>j. ph j \<noteq> Asleep \<Longrightarrow> flagOk False (ph(i := Returned res))"
    and "ph j = Asleep \<Longrightarrow> flagOk False (ph(i := Returned res, j := Waiting))"
  using flagOk_holder [OF assms] by (auto simp: flagOk_def)

lemma flagOk_step:
  assumes "create_step p rq s who s'" and f: "flagOk (clLocked s) (clPhase s)"
  shows "flagOk (clLocked s') (clPhase s')"
  using assms(1)
proof (cases rule: create_step.cases)
  case (accept i res w') then show ?thesis using flagOk_change [OF f, of "afterAccept res" i] by simp
next
  case (enter i) then show ?thesis using flagOk_take [of "clPhase s" Checking i] f by simp
next
  case (wait i) then show ?thesis using flagOk_change [OF f, of Asleep i] by simp
next
  case (prepare i res w')
  then show ?thesis using flagOk_change [OF f, of "afterPrepare res" i] flagOk_holder [OF f, of i] by simp
next
  case (insert i row res w')
  then show ?thesis using flagOk_change [OF f, of "Leaving res" i] flagOk_holder [OF f, of i] by simp
qed (use f flagOk_give [OF f] in auto)

lemma flagOk_creations: "creations p rq s \<Longrightarrow> flagOk (clLocked s) (clPhase s)"
proof (induction rule: creations.induct)
  case (start s) then show ?case by (simp add: flagOk_def)
qed (rule flagOk_step)

section \<open>One transfer for an address\<close>

text \<open>A prepared row stays free: only the call that holds the flag inserts, and the workers free addresses.\<close>

definition preparedFree :: "'e creators \<Rightarrow> bool" where
  "preparedFree s \<longleftrightarrow> (\<forall>i row b a. clPhase s i = Prepared row \<and> (isEVM b \<or> b = BlockchainTypeTron) \<and> inWork b a row \<longrightarrow>
     (\<forall>t\<in>set (dbTransfers (wdDb (clWorld s))). \<not> inWork b a t))"

lemma worksOn_inWork: "worksOn t t' \<Longrightarrow> inWork b a t' \<Longrightarrow> inWork b a t"
  by (auto simp: worksOn_def inWork_def)

lemma works_free:
  assumes "list_all2 worksOn ts ts'" and "\<forall>t\<in>set ts. \<not> inWork b a t"
  shows "\<forall>t\<in>set ts'. \<not> inWork b a t"
  using assms by (induction rule: list_all2_induct) (auto dest: worksOn_inWork)

lemma works_oneActive:
  assumes "list_all2 worksOn (dbTransfers d) (dbTransfers d')" and "oneActive d"
  shows "oneActive d'"
proof -
  have "length (filter (inWork b a) ts') \<le> length (filter (inWork b a) ts)" if "list_all2 worksOn ts ts'" for b a ts ts'
    using that by (induction rule: list_all2_induct) (auto dest: worksOn_inWork)
  note len = this [OF assms(1)]
  show ?thesis
    unfolding oneActive_def using assms(2) [unfolded oneActive_def] by (intro allI impI) (rule order_trans [OF len], blast)
qed

text \<open>The phases of a call that was accepted and is not yet past its checks.\<close>

fun pending :: "call_phase \<Rightarrow> bool" where
  "pending Waiting = True"
| "pending Asleep = True"
| "pending Checking = True"
| "pending ph = False"

definition accepted :: "'e create_service \<Rightarrow> (nat \<Rightarrow> create_request) \<Rightarrow> 'e creators \<Rightarrow> bool" where
  "accepted p rq s \<longleftrightarrow> (\<forall>i. pending (clPhase s i) \<longrightarrow> validateCreate p (rq i) = None)"

lemma after_cases [simp]:
  "afterPrepare res = Prepared row \<longleftrightarrow> res = Val row" "\<not> pending (afterPrepare res)"
  "afterAccept res' \<noteq> Prepared row" "pending (afterAccept res') \<longleftrightarrow> res' = Val ()"
  by (cases res; cases res'; simp)+

lemma accepted_step:
  assumes "create_step p rq s who s'" and "accepted p rq s"
  shows "accepted p rq s'"
  using assms
  by (cases rule: create_step.cases) (auto simp: accepted_def dest: acceptRequest_Val [THEN iffD1])

text \<open>Together: what holds of the tables and the prepared rows in every state.\<close>

definition safe :: "'e creators \<Rightarrow> bool" where
  "safe s \<longleftrightarrow> oneActive (wdDb (clWorld s)) \<and> preparedFree s"

lemma safe_shrink:
  assumes "safe s" and "clWorld s' = clWorld s" and "\<And>j row. clPhase s' j = Prepared row \<Longrightarrow> clPhase s j = Prepared row"
  shows "safe s'"
  using assms(1) unfolding safe_def preparedFree_def assms(2) by (blast dest: assms(3))

lemma safe_step:
  assumes "create_step p rq s who s'" and "safe s" and "accepted p rq s" and "flagOk (clLocked s) (clPhase s)"
  shows "safe s'"
  using assms(1)
proof (cases rule: create_step.cases)
  case (prepare i res w')
  have d: "wdDb w' = wdDb (clWorld s)" using keepsD [OF keeps_prepare prepare(4)] .
  have "validateCreate p (rq i) = None" using assms(3) prepare(3) by (simp add: accepted_def)
  with prepared_row_is_free [where p = p and r = "rq i" and w = "clWorld s" and ?w1.0 = w'] assms(2) show ?thesis
    using prepare(4) by (auto simp: safe_def preparedFree_def prepare(2) d)
next
  case (insert i row res w')
  have own: "clPhase s j \<noteq> Prepared row'" if "j \<noteq> i" for j row'
    using flagOk_holder [OF assms(4), of i] insert(3) that by (metis holding.simps(2))
  have free: "\<And>b a t. isEVM b \<or> b = BlockchainTypeTron \<Longrightarrow> inWork b a row \<Longrightarrow> t \<in> set (dbTransfers (wdDb (clWorld s))) \<Longrightarrow> \<not> inWork b a t"
    using assms(2) insert(3) by (auto simp: safe_def preparedFree_def)
  have "oneActive (wdDb w')"
    using insert(4) assms(2) oneActive_add [OF _ free]
    by (cases rule: insertTransfer_cases [of p row "clWorld s"]) (auto simp: safe_def)
  then show ?thesis using own by (auto simp: safe_def preparedFree_def insert(2))
next
  case (works w')
  have "oneActive (wdDb w')" using works_oneActive [OF works(3)] assms(2) by (simp add: safe_def)
  moreover have "preparedFree s'"
    unfolding preparedFree_def
  proof (intro allI impI)
    fix i row b a
    assume "clPhase s' i = Prepared row \<and> (isEVM b \<or> b = BlockchainTypeTron) \<and> inWork b a row"
    then have "\<forall>t\<in>set (dbTransfers (wdDb (clWorld s))). \<not> inWork b a t"
      using assms(2) unfolding safe_def preparedFree_def works(2) by simp blast
    then show "\<forall>t\<in>set (dbTransfers (wdDb (clWorld s'))). \<not> inWork b a t"
      using works_free [OF works(3)] by (simp add: works(2))
  qed
  ultimately show ?thesis by (simp add: safe_def works(2))
qed (rule safe_shrink [OF assms(2)]; simp split: if_split_asm)+

lemma creations_safe: "creations p rq s \<Longrightarrow> safe s \<and> accepted p rq s"
proof (induction rule: creations.induct)
  case (start s) then show ?case by (simp add: safe_def preparedFree_def accepted_def)
next
  case (run s who s')
  then show ?case using safe_step accepted_step flagOk_creations by blast
qed

text \<open>
  C6. However the calls of \<open>Create\<close> and the work on the transfers interleave, an address of a chain with accounts
  is in at most one transfer that is in work: the flag keeps the check of one call and its insertion together.
\<close>

theorem concurrent_creations_keep_one_transfer:
  fixes p :: "'e create_service"
  assumes "creations p rq s"
  shows "oneActive (wdDb (clWorld s))"
  using creations_safe [OF assms] by (simp add: safe_def)


section \<open>Two calls at the sample\<close>

text \<open>Two requests for the same hot wallet: the second sleeps while the first creates its transfer, and is woken.\<close>

definition twoCreators :: "unit world \<Rightarrow> bool \<Rightarrow> call_phase \<Rightarrow> call_phase \<Rightarrow> unit creators" where
  "twoCreators w l ph0 ph1 = \<lparr>clWorld = w, clLocked = l, clPhase = (\<lambda>_. Outside)(0 := ph0, 1 := ph1)\<rparr>"

lemma twoCreators_upd [simp]:
  "clWorld (twoCreators w l a b) = w" "clLocked (twoCreators w l a b) = l" "clPhase (twoCreators w l a b) 0 = a" "clPhase (twoCreators w l a b) (Suc 0) = b"
  "(twoCreators w l a b)\<lparr>clPhase := (clPhase (twoCreators w l a b))(0 := x)\<rparr> = twoCreators w l x b"
  "(twoCreators w l a b)\<lparr>clPhase := (clPhase (twoCreators w l a b))(Suc 0 := x)\<rparr> = twoCreators w l a x"
  "(twoCreators w l a b)\<lparr>clLocked := l', clPhase := (clPhase (twoCreators w l a b))(0 := x)\<rparr> = twoCreators w l' x b"
  "(twoCreators w l a b)\<lparr>clWorld := w', clPhase := (clPhase (twoCreators w l a b))(0 := x)\<rparr> = twoCreators w' l x b"
  "(twoCreators w l a b)\<lparr>clLocked := l', clPhase := (clPhase (twoCreators w l a b))(0 := x, Suc 0 := y)\<rparr> = twoCreators w l' x y"
  by (simp_all add: twoCreators_def fun_upd_twist)

definition creatorsEnd :: "unit creators" where
  "creatorsEnd = twoCreators (createdWorld ''resources'') False (Returned (Val (createdTransfer ''resources''))) Waiting"

lemma demo_inserted: "insertTransfer createDemo (createRow ''resources'' ''req-1'') createWorld = (Val (createdTransfer ''resources''), (createdWorld ''resources''))"
  using demo_created [OF disjI1 [OF refl]] by (simp add: createTransfer_def createLocked_def bnd_def demo_accepted demo_prepared)

lemma demo_creations: "creations createDemo (\<lambda>_. createDemoRequest ''resources'' ''req-1'') creatorsEnd"
proof -
  let ?rq = "\<lambda>_ :: nat. createDemoRequest ''resources'' ''req-1''" and ?w = createWorld and ?row = "createRow ''resources'' ''req-1''" and ?c = createDemo
  have "creations ?c ?rq (twoCreators ?w False Outside Outside)" by (rule start) (auto simp: demo_one twoCreators_def)
  moreover have "create_step ?c ?rq (twoCreators ?w False Outside Outside) (Some 0) (twoCreators ?w False Waiting Outside)"
    using create_step.accept [of "twoCreators ?w False Outside Outside" 0 ?c ?rq "Val ()" ?w] by (simp add: demo_accepted)
  moreover have "create_step ?c ?rq (twoCreators ?w False Waiting Outside) (Some 1) (twoCreators ?w False Waiting Waiting)"
    using create_step.accept [of "twoCreators ?w False Waiting Outside" 1 ?c ?rq "Val ()" ?w] by (simp add: demo_accepted)
  moreover have "create_step ?c ?rq (twoCreators ?w False Waiting Waiting) (Some 0) (twoCreators ?w True Checking Waiting)"
    using create_step.enter [of "twoCreators ?w False Waiting Waiting" 0 ?c ?rq] by simp
  moreover have "create_step ?c ?rq (twoCreators ?w True Checking Waiting) (Some 1) (twoCreators ?w True Checking Asleep)"
    using create_step.wait [of "twoCreators ?w True Checking Waiting" 1 ?c ?rq] by simp
  moreover have "create_step ?c ?rq (twoCreators ?w True Checking Asleep) (Some 0) (twoCreators ?w True (Prepared ?row) Asleep)"
    using create_step.prepare [of "twoCreators ?w True Checking Asleep" 0 ?c ?rq "Val ?row" ?w] by (simp add: demo_prepared)
  moreover have "create_step ?c ?rq (twoCreators ?w True (Prepared ?row) Asleep) (Some 0) (twoCreators (createdWorld ''resources'') True (Leaving (Val (createdTransfer ''resources''))) Asleep)"
    using create_step.insert [of "twoCreators ?w True (Prepared ?row) Asleep" 0 ?row ?c "Val (createdTransfer ''resources'')" "createdWorld ''resources''" ?rq] by (simp add: demo_inserted)
  moreover have "create_step ?c ?rq (twoCreators (createdWorld ''resources'') True (Leaving (Val (createdTransfer ''resources''))) Asleep) (Some 0) creatorsEnd"
    using create_step.signal [of "twoCreators (createdWorld ''resources'') True (Leaving (Val (createdTransfer ''resources''))) Asleep" 0 _ 1 ?c ?rq] by (simp add: creatorsEnd_def)
  ultimately show ?thesis by (meson creations.run)
qed

theorem concurrent_creations_keep_one_transfer_witness: "oneActive (wdDb (clWorld creatorsEnd))"
  by (rule concurrent_creations_keep_one_transfer [OF demo_creations])


end
