(* ===== verification/Proxy.thy ===== *)
theory Proxy
  imports FsmTronFacts
begin

text \<open>
  \<open>internal/eproxy\<close>: the service that asks the explorer proxy about addresses, assets, blocks,
  incidents and transactions. The generated clients of the proxy are the fields of the record
  \<open>proxy\<close>, each an operation on the outside world \<open>'e\<close>; what they answer is the message that the
  getters of the generated code read. The time limit of a request is the client's matter.
\<close>

section \<open>Messages\<close>

datatype pb_blockchain =
    BLOCKCHAIN_UNSPECIFIED | BLOCKCHAIN_TRON | BLOCKCHAIN_ETHEREUM | BLOCKCHAIN_BINANCE_SMART_CHAIN
  | BLOCKCHAIN_POLYGON | BLOCKCHAIN_ARBITRUM | BLOCKCHAIN_OPTIMISM | BLOCKCHAIN_LINEA
  | BLOCKCHAIN_BITCOIN | BLOCKCHAIN_LITECOIN | BLOCKCHAIN_BITCOINCASH | BLOCKCHAIN_DOGECOIN

fun convertBlockchain :: "blockchain_type \<Rightarrow> pb_blockchain" where
  "convertBlockchain BlockchainTypeTron = BLOCKCHAIN_TRON"
| "convertBlockchain BlockchainTypeEthereum = BLOCKCHAIN_ETHEREUM"
| "convertBlockchain BlockchainTypeBinanceSmartChain = BLOCKCHAIN_BINANCE_SMART_CHAIN"
| "convertBlockchain BlockchainTypePolygon = BLOCKCHAIN_POLYGON"
| "convertBlockchain BlockchainTypeArbitrum = BLOCKCHAIN_ARBITRUM"
| "convertBlockchain BlockchainTypeOptimism = BLOCKCHAIN_OPTIMISM"
| "convertBlockchain BlockchainTypeLinea = BLOCKCHAIN_LINEA"
| "convertBlockchain BlockchainTypeBitcoin = BLOCKCHAIN_BITCOIN"
| "convertBlockchain BlockchainTypeLitecoin = BLOCKCHAIN_LITECOIN"
| "convertBlockchain BlockchainTypeBitcoinCash = BLOCKCHAIN_BITCOINCASH"
| "convertBlockchain BlockchainTypeDogecoin = BLOCKCHAIN_DOGECOIN"
| "convertBlockchain (OtherBlockchain b) = BLOCKCHAIN_UNSPECIFIED"

datatype event_type = EVENT_TYPE_TRANSFER | OtherEventType nat
datatype event_status = EVENT_STATUS_SUCCESS | OtherEventStatus nat
datatype incident_type = INCIDENT_TYPE_ROLLBACK | OtherIncidentType nat

text \<open>An optional member of a message is a pointer in the code; its getter gives \<open>""\<close> for nil.\<close>

record chain_event =
  ceType :: "event_type option"
  ceStatus :: "event_status option"
  ceAddressFrom :: "string option"
  ceAddressTo :: "string option"
  ceValue :: "string option"
  ceAssetIdentifier :: "string option"
  ceBlockchainUniqKey :: "string option"

record chain_tx =
  ctHash :: string
  ctConfirmations :: "64 word"
  ctStatus :: string
  ctFee :: string
  ctAddressFrom :: "string option"
  ctCreatedAt :: "int option"
  ctEvents :: "chain_event list"

record block_header =
  bhHash :: string
  bhPrevHash :: string

record incident =
  inType :: incident_type
  inRevertToBlockHeight :: "64 word"

record asset_info =
  aiID :: string
  aiAmount :: string

record asset =
  asID :: string
  asAmount :: rat

text \<open>
  The clients. \<open>pxFind\<close> gives the items of one page and \<open>NextPageExists\<close>; \<open>None\<close> stands for a nil
  message, transaction or number of decimals.
\<close>

record 'e proxy =
  pxSleep :: "duration \<Rightarrow> 'e \<Rightarrow> 'e"
  pxCtx :: "'e \<Rightarrow> goerr option"
  pxDecimalParse :: "string \<Rightarrow> goerr + rat"
  pxInfo :: "string \<Rightarrow> pb_blockchain \<Rightarrow> ('e, asset_info list) op"
  pxBalance :: "string \<Rightarrow> string \<Rightarrow> pb_blockchain \<Rightarrow> ('e, string) op"
  pxAssetInfo :: "pb_blockchain \<Rightarrow> string \<Rightarrow> ('e, int option) op"
  pxLastBlockHeight :: "pb_blockchain \<Rightarrow> ('e, 64 word) op"
  pxGetBlock :: "pb_blockchain \<Rightarrow> 64 word \<Rightarrow> ('e, block_header) op"
  pxIncidents :: "pb_blockchain \<Rightarrow> 32 word \<Rightarrow> 32 word \<Rightarrow> ('e, incident list) op"
  pxFind :: "64 word option \<Rightarrow> string option \<Rightarrow> pb_blockchain \<Rightarrow> 32 word \<Rightarrow> 32 word \<Rightarrow> ('e, chain_tx list \<times> bool) op"
  pxGetInfo :: "pb_blockchain \<Rightarrow> string \<Rightarrow> ('e, chain_tx option option) op"
  pxUTXO :: "string \<Rightarrow> pb_blockchain \<Rightarrow> ('e, utxo_item list option) op"

section \<open>Errors and attempts\<close>

definition errConnectionResetByPeer :: string where
  "errConnectionResetByPeer = ''connection reset by peer''"

definition errHashIsRequired :: goerr where "errHashIsRequired = ErrExt ''eproxy'' ''hash is required''"
definition errAssetIdentifierRequired :: goerr where
  "errAssetIdentifierRequired = ErrExt ''eproxy'' ''asset identifier is required''"
definition errAddressRequired :: goerr where "errAddressRequired = ErrExt ''eproxy'' ''address is required''"

text \<open>
  The function given to \<open>retry.Do\<close> at each of the five places: any error but a reset connection is
  joined with \<open>retry.ErrExit\<close>.
\<close>

definition exitUnlessReset :: "('s, 'a) op \<Rightarrow> ('s, 'a) op" where
  "exitUnlessReset m = catchErr m (\<lambda>e.
     if \<not> strContains (errStr e) errConnectionResetByPeer then fail (Wrap2 e ErrExit) else fail e)"

definition proxyRetry :: "'e proxy \<Rightarrow> ('e \<times> 'a option) retry" where
  "proxyRetry px = newRetry (\<lambda>d (y, v). (pxSleep px d y, v)) []"

definition proxyCall :: "'e proxy \<Rightarrow> ('e, 'a) op \<Rightarrow> ('e, 'a) op" where
  "proxyCall px m = retryCall (proxyRetry px) (exitUnlessReset m)"

section \<open>Addresses and assets\<close>

fun parseAssets :: "'e proxy \<Rightarrow> asset_info list \<Rightarrow> asset list \<Rightarrow> goerr + asset list" where
  "parseAssets px [] acc = Inr acc"
| "parseAssets px (i # infos) acc =
     (case pxDecimalParse px (aiAmount i) of
        Inl e \<Rightarrow> Inl e
      | Inr amount \<Rightarrow> parseAssets px infos (acc @ [\<lparr>asID = aiID i, asAmount = amount\<rparr>]))"

definition addressBalances :: "'e proxy \<Rightarrow> string \<Rightarrow> blockchain_type \<Rightarrow> ('e, asset list) op" where
  "addressBalances px address b =
     bnd (proxyCall px (pxInfo px address (convertBlockchain b))) (\<lambda>infos.
     ofSum (parseAssets px infos []))"

definition proxyAddressBalance :: "'e proxy \<Rightarrow> string \<Rightarrow> string \<Rightarrow> blockchain_type \<Rightarrow> ('e, rat) op" where
  "proxyAddressBalance px address assetIdentifier b =
     bnd (guardE (address \<noteq> '''') errAddressRequired) (\<lambda>_.
     bnd (guardE (assetIdentifier \<noteq> '''') errAssetIdentifierRequired) (\<lambda>_.
     bnd (guardE (blockchainValid b) (ErrText (''invalid blockchain type: '' @ blockchainString b))) (\<lambda>_.
     bnd (proxyCall px (pxBalance px address assetIdentifier (convertBlockchain b))) (\<lambda>amount.
     ofSum (pxDecimalParse px amount)))))"

definition proxyAssetDecimals :: "'e proxy \<Rightarrow> blockchain_type \<Rightarrow> string \<Rightarrow> ('e, int) op" where
  "proxyAssetDecimals px b assetIdentifier =
     bnd (guardE (assetIdentifier \<noteq> '''') errAssetIdentifierRequired) (\<lambda>_.
     bnd (guardE (blockchainValid b) (ErrText (''invalid blockchain type: '' @ blockchainString b))) (\<lambda>_.
     bnd (wrapErr ''get asset info'' (proxyCall px (pxAssetInfo px (convertBlockchain b) assetIdentifier))) (\<lambda>decimals.
     case decimals of
       None \<Rightarrow> fail (ErrText (''decimals is nil for asset '' @ assetIdentifier))
     | Some d \<Rightarrow> ret d)))"

definition getUTXO :: "'e proxy \<Rightarrow> blockchain_type \<Rightarrow> string \<Rightarrow> ('e, utxo_item list) op" where
  "getUTXO px b address =
     bnd (guardE (address \<noteq> '''') errAddressRequired) (\<lambda>_.
     bnd (proxyCall px (pxUTXO px address (convertBlockchain b))) (\<lambda>msg.
     case msg of
       None \<Rightarrow> fail (ErrText ''empty response'')
     | Some items \<Rightarrow> ret items))"

section \<open>Blocks and incidents\<close>

definition lastBlockNumber :: "'e proxy \<Rightarrow> blockchain_type \<Rightarrow> ('e, 64 word) op" where
  "lastBlockNumber px b = pxLastBlockHeight px (convertBlockchain b)"

definition getIncidents :: "'e proxy \<Rightarrow> blockchain_type \<Rightarrow> 32 word \<Rightarrow> ('e, incident list) op" where
  "getIncidents px b limit = wrapErr ''get incidents'' (pxIncidents px (convertBlockchain b) 1 limit)"

definition getRollbackStartingBlock :: "'e proxy \<Rightarrow> blockchain_type \<Rightarrow> ('e, 64 word) op" where
  "getRollbackStartingBlock px b =
     bnd (wrapErr ''get last incident for rollback recovery'' (getIncidents px b 1)) (\<lambda>incidents.
     case incidents of
       [] \<Rightarrow> fail (ErrText (''no incidents found for blockchain '' @ blockchainString b))
     | i # _ \<Rightarrow>
         bnd (guardE (inType i = INCIDENT_TYPE_ROLLBACK)
                (ErrText (''last incident is not a rollback incident for blockchain '' @ blockchainString b))) (\<lambda>_.
         ret (inRevertToBlockHeight i)))"

section \<open>Transactions\<close>

text \<open>
  The loop over the pages, \<open>None\<close> if it never ends. The number of a page is a \<open>uint32\<close>.
\<close>

partial_function (option) findPages ::
  "'e proxy \<Rightarrow> 64 word option \<Rightarrow> string option \<Rightarrow> blockchain_type \<Rightarrow> 32 word \<Rightarrow> chain_tx list \<Rightarrow> 'e \<Rightarrow>
     (chain_tx list outcome \<times> 'e) option" where
  "findPages px height hash b page found y =
     (case pxCtx px y of
        Some e \<Rightarrow> Some (Err e, y)
      | None \<Rightarrow>
          (case pxFind px height hash (convertBlockchain b) page 1000 y of
             (Err e, y1) \<Rightarrow> Some (Err (Wrapf (''error fetching page '' @ showInt (uint page) @ '': '') e), y1)
           | (Panic q, y1) \<Rightarrow> Some (Panic q, y1)
           | (Val (items, nextPage), y1) \<Rightarrow>
               if items = [] then Some (Val found, y1)
               else if \<not> nextPage then Some (Val (found @ items), y1)
               else findPages px height hash b (page + 1) (found @ items) y1))"

text \<open>A function of the code as an operation; one that never returns keeps its caller waiting.\<close>

definition orBlocked :: "('s \<Rightarrow> ('a outcome \<times> 's) option) \<Rightarrow> ('s, 'a) op" where
  "orBlocked m s = (case m s of Some r \<Rightarrow> r | None \<Rightarrow> (Panic ''blocked'', s))"

definition findTransactions :: "'e proxy \<Rightarrow> blockchain_type \<Rightarrow> 64 word option \<Rightarrow> string option \<Rightarrow> ('e, chain_tx list) op" where
  "findTransactions px b height hash = orBlocked (findPages px height hash b 1 [])"

definition getTransactionInfo :: "'e proxy \<Rightarrow> blockchain_type \<Rightarrow> string \<Rightarrow> ('e, chain_tx) op" where
  "getTransactionInfo px b hash =
     bnd (guardE (hash \<noteq> '''') errHashIsRequired) (\<lambda>_.
     bnd (guardE (blockchainValid b) (ErrText (''invalid blockchain type: '' @ blockchainString b))) (\<lambda>_.
     bnd (proxyCall px (pxGetInfo px (convertBlockchain b) hash)) (\<lambda>msg.
     case msg of
       None \<Rightarrow> fail (ErrText (''response message is nil for hash '' @ hash))
     | Some None \<Rightarrow> fail (ErrText (''transaction info is nil for hash '' @ hash))
     | Some (Some tx) \<Rightarrow> ret tx)))"

end
