(* ===== verification/Jobs.thy ===== *)
theory Jobs
  imports Proxy
begin

text \<open>
  What the scanners of \<open>internal/escanner\<close> and \<open>internal/tscanner\<close> and the workers of
  \<open>internal/taskmanager\<close> share: the tables of processed blocks, of webhooks about transactions and of
  jobs beside the tables of \<open>Store\<close>, the transactions of the database over all of them, the jobs with
  their arguments, the queries of \<open>sql/postgres/queries/processed_blocks\<close>, and the services
  \<open>internal/services/processedblocks\<close> and \<open>internal/services/webhooks\<close> as far as they work on events
  of the chain.

  The queue itself is a library: a job is a request that was inserted through a transaction, and what
  the queue makes of the requests is its own matter.
\<close>

section \<open>Rows\<close>

datatype webhook_event_status =
    WebhookEventStatusWaitingConfirmations | WebhookEventStatusInMempool
  | WebhookEventStatusCompleted | WebhookEventStatusFailed | OtherWebhookEventStatus string

fun webhookEventStatusString :: "webhook_event_status \<Rightarrow> string" where
  "webhookEventStatusString WebhookEventStatusWaitingConfirmations = ''waiting_confirmations''"
| "webhookEventStatusString WebhookEventStatusInMempool = ''in_mempool''"
| "webhookEventStatusString WebhookEventStatusCompleted = ''completed''"
| "webhookEventStatusString WebhookEventStatusFailed = ''failed''"
| "webhookEventStatusString (OtherWebhookEventStatus s) = s"

fun webhookKindValid :: "webhook_kind \<Rightarrow> bool" where
  "webhookKindValid (OtherWebhookKind k) = False"
| "webhookKindValid k = True"

text \<open>
  The payload of a webhook about an event of the chain. As for the status events, the fields stand for
  the JSON text; the kind of an event keeps its text apart from that of a status event. The time is
  \<open>None\<close> for the zero time.
\<close>

record event_payload =
  epKind :: webhook_kind
  epIsSystem :: bool
  epBlockchain :: blockchain_type
  epHash :: string
  epNetworkCreatedAt :: "int option"
  epFromAddress :: string
  epToAddress :: string
  epAmount :: string
  epContractAddress :: string
  epStatus :: webhook_event_status
  epFee :: string
  epConfirmations :: "64 word"
  epWalletType :: wallet_type
  epTxUniqKey :: string
  epExternalWalletID :: string
  epRequestID :: string

record event_params =
  npKind :: webhook_kind
  npStatus :: webhook_status
  npPayload :: event_payload
  npClientID :: uuid

record event_webhook =
  ewKind :: webhook_kind
  ewStatus :: webhook_status
  ewAttempts :: int
  ewPayload :: event_payload
  ewClientID :: uuid
  ewResponse :: "string option"
  ewCreatedAt :: int
  ewSentAt :: "int option"
  ewUpdatedAt :: "int option"

record processed_block =
  pbBlockchain :: blockchain_type
  pbNumber :: int
  pbHash :: "string option"

text \<open>\<open>WebhookWaitingConfirmationsArgs\<close> and \<open>TransferWorkflowArgs\<close>.\<close>

record confirmations_args =
  waBlockchain :: blockchain_type
  waHash :: string
  waAddress :: string
  waEventBlockchainUniqKey :: string
  waWebhookKind :: webhook_kind
  waWalletType :: wallet_type
  waOwnerID :: uuid
  waExternalWalletID :: "string option"
  waIsSystem :: bool

datatype job_args = TransferWorkflowArgs uuid | WebhookWaitingConfirmationsArgs confirmations_args

text \<open>A request for the queue: its arguments, whether they are unique, and its time, \<open>None\<close> for now.\<close>

record job =
  jbArgs :: job_args
  jbUnique :: bool
  jbScheduledAt :: "int option"

record tables =
  tbBlocks :: "processed_block list"
  tbEvents :: "event_webhook list"
  tbJobs :: "job list"

section \<open>The state\<close>

text \<open>
  The process with the tables of this theory; \<open>apTx\<close> is what the open transaction does to them, beside
  \<open>wdTx\<close> for the tables of the world.
\<close>

record 'e app =
  apWorld :: "'e world"
  apTables :: tables
  apTx :: "(tables \<Rightarrow> tables) option"

definition liftA :: "('e world, 'a) op \<Rightarrow> (('e, 'z) app_scheme, 'a) op" where
  "liftA m s = (case m (apWorld s) of (r, w) \<Rightarrow> (r, s\<lparr>apWorld := w\<rparr>))"

definition liftAE :: "('e, 'a) op \<Rightarrow> (('e, 'z) app_scheme, 'a) op" where
  "liftAE m = liftA (liftExt m)"

definition tbView :: "bool \<Rightarrow> ('e, 'z) app_scheme \<Rightarrow> tables" where
  "tbView tx s = (case apTx s of Some f \<Rightarrow> if tx then f (apTables s) else apTables s | None \<Rightarrow> apTables s)"

definition tbApply :: "bool \<Rightarrow> (tables \<Rightarrow> tables) \<Rightarrow> ('e, 'z) app_scheme \<Rightarrow> ('e, 'z) app_scheme" where
  "tbApply tx g s =
     (case apTx s of
        Some f \<Rightarrow> if tx then s\<lparr>apTx := Some (g \<circ> f)\<rparr> else s\<lparr>apTables := g (apTables s)\<rparr>
      | None \<Rightarrow> s\<lparr>apTables := g (apTables s)\<rparr>)"

definition appExt :: "('e, 'z) app_scheme \<Rightarrow> 'e \<Rightarrow> ('e, 'z) app_scheme" where
  "appExt s x = s\<lparr>apWorld := (apWorld s)\<lparr>wdExt := x\<rparr>\<rparr>"

text \<open>
  A statement with an effect \<open>g\<close> that the tables can refuse, and a query.
\<close>

definition tbExec :: "'e env \<Rightarrow> bool \<Rightarrow> string \<Rightarrow> (tables \<Rightarrow> goerr option) \<Rightarrow> (int \<Rightarrow> tables \<Rightarrow> tables) \<Rightarrow>
    (('e, 'z) app_scheme) act" where
  "tbExec env tx name refused g s =
     (case envFault env name (wdExt (apWorld s)) of
        (FaultBefore e, x) \<Rightarrow> (Err e, appExt s x)
      | (fault, x) \<Rightarrow>
          (case refused (tbView tx s) of
             Some e \<Rightarrow> (Err e, appExt s x)
           | None \<Rightarrow>
               (let s' = tbApply tx (g (envNow env (wdExt (apWorld s)))) (appExt s x)
                in case fault of FaultAfter e \<Rightarrow> (Err e, s') | _ \<Rightarrow> (Val (), s'))))"

definition tbRead :: "'e env \<Rightarrow> bool \<Rightarrow> string \<Rightarrow> (tables \<Rightarrow> goerr + 'a) \<Rightarrow> (('e, 'z) app_scheme, 'a) op" where
  "tbRead env tx name f s =
     (case envFault env name (wdExt (apWorld s)) of
        (NoFault, x) \<Rightarrow> ofSum (f (tbView tx s)) (appExt s x)
      | (FaultBefore e, x) \<Rightarrow> (Err e, appExt s x)
      | (FaultAfter e, x) \<Rightarrow> (Err e, appExt s x))"

text \<open>\<open>pgx.BeginTxFunc\<close> over all the tables.\<close>

definition appBegin :: "'e env \<Rightarrow> (('e, 'z) app_scheme) act" where
  "appBegin env = bnd (liftA (txBegin env)) (\<lambda>_. modS (\<lambda>s. s\<lparr>apTx := Some id\<rparr>))"

definition appRollback :: "('e, 'z) app_scheme \<Rightarrow> ('e, 'z) app_scheme" where
  "appRollback s = s\<lparr>apWorld := txRollback (apWorld s), apTx := None\<rparr>"

definition appDone :: "('e, 'z) app_scheme \<Rightarrow> ('e, 'z) app_scheme" where
  "appDone s = s\<lparr>apWorld := (apWorld s)\<lparr>wdDb := dbView True (apWorld s), wdTx := None\<rparr>,
     apTables := tbView True s, apTx := None\<rparr>"

definition appCommit :: "'e env \<Rightarrow> (('e, 'z) app_scheme) act" where
  "appCommit env s =
     (case envFault env ''commit'' (wdExt (apWorld s)) of
        (NoFault, x) \<Rightarrow> (Val (), appExt (appDone s) x)
      | (FaultBefore e, x) \<Rightarrow> (Err e, appExt (appRollback s) x)
      | (FaultAfter e, x) \<Rightarrow> (Err e, appExt (appDone s) x))"

definition inAppTx :: "'e env \<Rightarrow> (('e, 'z) app_scheme, 'a) op \<Rightarrow> (('e, 'z) app_scheme, 'a) op" where
  "inAppTx env body =
     bnd (appBegin env) (\<lambda>_ s1.
     case body s1 of
       (Val r, s2) \<Rightarrow> bnd (appCommit env) (\<lambda>_. ret r) s2
     | (Err e, s2) \<Rightarrow> (Err e, appRollback s2)
     | (Panic q, s2) \<Rightarrow> (Panic q, appRollback s2))"

section \<open>Jobs\<close>

text \<open>\<open>tm.Client().InsertTx(ctx, dbTx, args, opts)\<close>.\<close>

definition insertJob :: "'e env \<Rightarrow> job \<Rightarrow> (('e, 'z) app_scheme) act" where
  "insertJob env j =
     tbExec env True ''river.InsertTx'' (\<lambda>_. None) (\<lambda>now t. t\<lparr>tbJobs := tbJobs t @ [j]\<rparr>)"

section \<open>Processed blocks\<close>

definition errBlockchainEmpty :: goerr where "errBlockchainEmpty = ErrText ''blockchain is empty''"
definition errNumberLessOrEqualToZero :: goerr where
  "errNumberLessOrEqualToZero = ErrText ''number is less than or equal to 0''"

definition qBlockCreate :: "'e env \<Rightarrow> bool \<Rightarrow> blockchain_type \<Rightarrow> int \<Rightarrow> string \<Rightarrow> (('e, 'z) app_scheme) act" where
  "qBlockCreate env tx b number hash =
     tbExec env tx ''processed_blocks.Create''
       (\<lambda>t. if \<exists>r \<in> set (tbBlocks t). pbBlockchain r = b
             then Some (ErrPg ''duplicate key value violates unique constraint'' '''') else None)
       (\<lambda>now t. t\<lparr>tbBlocks := tbBlocks t @ [\<lparr>pbBlockchain = b, pbNumber = number, pbHash = Some hash\<rparr>]\<rparr>)"

definition qBlockUpdateWithHash :: "'e env \<Rightarrow> bool \<Rightarrow> blockchain_type \<Rightarrow> int \<Rightarrow> string \<Rightarrow> (('e, 'z) app_scheme) act" where
  "qBlockUpdateWithHash env tx b number hash =
     tbExec env tx ''processed_blocks.UpdateNumberWithHash'' (\<lambda>_. None)
       (\<lambda>now t. t\<lparr>tbBlocks := map (\<lambda>r. if pbBlockchain r = b then r\<lparr>pbNumber := number, pbHash := Some hash\<rparr> else r)
                  (tbBlocks t)\<rparr>)"

definition qBlockUpdateNumber :: "'e env \<Rightarrow> bool \<Rightarrow> blockchain_type \<Rightarrow> int \<Rightarrow> (('e, 'z) app_scheme) act" where
  "qBlockUpdateNumber env tx b number =
     tbExec env tx ''processed_blocks.UpdateNumber'' (\<lambda>_. None)
       (\<lambda>now t. t\<lparr>tbBlocks := map (\<lambda>r. if pbBlockchain r = b then r\<lparr>pbNumber := number\<rparr> else r) (tbBlocks t)\<rparr>)"

definition qBlockLast :: "'e env \<Rightarrow> string \<Rightarrow> blockchain_type \<Rightarrow> (('e, 'z) app_scheme, processed_block) op" where
  "qBlockLast env name b = tbRead env False name (\<lambda>t. oneRow (filter (\<lambda>r. pbBlockchain r = b) (tbBlocks t)))"

definition blocksCreate :: "'e env \<Rightarrow> bool \<Rightarrow> blockchain_type \<Rightarrow> int \<Rightarrow> string \<Rightarrow> (('e, 'z) app_scheme) act" where
  "blocksCreate env tx b number hash =
     bnd (guardE (blockchainString b \<noteq> '''') errBlockchainEmpty) (\<lambda>_.
     bnd (guardE (0 < number) errNumberLessOrEqualToZero) (\<lambda>_.
     qBlockCreate env tx b number hash))"

definition blocksUpdateNumber :: "'e env \<Rightarrow> bool \<Rightarrow> blockchain_type \<Rightarrow> int \<Rightarrow> (('e, 'z) app_scheme) act" where
  "blocksUpdateNumber env tx b number =
     bnd (guardE (blockchainString b \<noteq> '''') errBlockchainEmpty) (\<lambda>_.
     bnd (guardE (0 < number) errNumberLessOrEqualToZero) (\<lambda>_.
     qBlockUpdateNumber env tx b number))"

definition blocksUpdateNumberWithHash :: "'e env \<Rightarrow> bool \<Rightarrow> blockchain_type \<Rightarrow> int \<Rightarrow> string \<Rightarrow> (('e, 'z) app_scheme) act" where
  "blocksUpdateNumberWithHash env tx b number hash =
     bnd (guardE (blockchainString b \<noteq> '''') errBlockchainEmpty) (\<lambda>_.
     bnd (guardE (0 < number) errNumberLessOrEqualToZero) (\<lambda>_.
     qBlockUpdateWithHash env tx b number hash))"

definition blocksLastBlockNumber :: "'e env \<Rightarrow> blockchain_type \<Rightarrow> (('e, 'z) app_scheme, int) op" where
  "blocksLastBlockNumber env b =
     bnd (guardE (blockchainString b \<noteq> '''') errBlockchainEmpty) (\<lambda>_.
     bnd (noRowsToNotFound (qBlockLast env ''processed_blocks.LastBlockNumber'' b)) (\<lambda>r. ret (pbNumber r)))"

text \<open>The times of the row are not read by its callers.\<close>

definition blocksLastBlock :: "'e env \<Rightarrow> blockchain_type \<Rightarrow> (('e, 'z) app_scheme, int \<times> string) op" where
  "blocksLastBlock env b =
     bnd (guardE (blockchainString b \<noteq> '''') errBlockchainEmpty) (\<lambda>_.
     bnd (noRowsToNotFound (qBlockLast env ''processed_blocks.LastBlock'' b)) (\<lambda>r.
     ret (pbNumber r, textString (pbHash r))))"

section \<open>Webhooks about events\<close>

record transaction_data =
  tdHash :: string
  tdConfirmations :: "64 word"
  tdStatus :: "string option"
  tdFee :: "string option"
  tdCreatedAt :: "int option"

record transaction_event_data =
  teAddressFrom :: "string option"
  teAddressTo :: "string option"
  teValue :: "string option"
  teAssetIdentify :: "string option"
  teBlockchainUniqKey :: "string option"

record event_transaction =
  etBlockchain :: blockchain_type
  etTx :: transaction_data
  etEvent :: transaction_event_data
  etWebhookKind :: webhook_kind
  etWalletType :: wallet_type
  etWebhookStatus :: webhook_event_status
  etOwnerID :: uuid
  etExternalWalletID :: "string option"
  etIsSystem :: bool

definition qTransferGetByTxHashAndOwnerID :: "'e env \<Rightarrow> string \<Rightarrow> uuid \<Rightarrow> ('e world, transfer) op" where
  "qTransferGetByTxHashAndOwnerID env hash oid =
     dbRead env False ''transfers.GetByTxHashAndOwnerID''
       (\<lambda>d. oneRow (filter (\<lambda>t. trTxHash t = Some hash \<and> trOwnerID t = oid) (dbTransfers d)))"

definition transfersGetByTxHashAndOwnerID :: "'e env \<Rightarrow> string \<Rightarrow> uuid \<Rightarrow> ('e world, transfer) op" where
  "transfersGetByTxHashAndOwnerID env hash oid =
     bnd (guardE (hash \<noteq> '''') storeErrEmptyHash) (\<lambda>_.
     bnd (guardE (oid \<noteq> nilUuid) storeErrEmptyID) (\<lambda>_.
     noRowsToNotFound (qTransferGetByTxHashAndOwnerID env hash oid)))"

text \<open>The payload before the request of a transfer is looked up.\<close>

definition eventPayload :: "event_transaction \<Rightarrow> event_payload" where
  "eventPayload d =
     \<lparr>epKind = etWebhookKind d, epIsSystem = etIsSystem d, epBlockchain = etBlockchain d,
      epHash = tdHash (etTx d), epNetworkCreatedAt = tdCreatedAt (etTx d),
      epFromAddress = textString (teAddressFrom (etEvent d)), epToAddress = textString (teAddressTo (etEvent d)),
      epAmount = textString (teValue (etEvent d)), epContractAddress = textString (teAssetIdentify (etEvent d)),
      epStatus = (if tdStatus (etTx d) = Some ''failed'' then WebhookEventStatusFailed else etWebhookStatus d),
      epFee = textString (tdFee (etTx d)), epConfirmations = tdConfirmations (etTx d),
      epWalletType = etWalletType d, epTxUniqKey = textString (teBlockchainUniqKey (etEvent d)),
      epExternalWalletID = textString (etExternalWalletID d), epRequestID = ''''\<rparr>"

definition requestIDOf :: "'e env \<Rightarrow> event_transaction \<Rightarrow> ('e world, string) op" where
  "requestIDOf env d =
     (if etWebhookKind d = WebhookKindTransfer then
        catchErr (bnd (transfersGetByTxHashAndOwnerID env (tdHash (etTx d)) (etOwnerID d)) (\<lambda>t. ret (trRequestID t)))
          (\<lambda>e. if errIs e storeErrNotFound then ret ''''
               else fail (Wrapf ''get transfer by tx hash and owner id: '' e))
      else ret '''')"

definition eventTransactionCreateParams :: "'e env \<Rightarrow> event_transaction \<Rightarrow> ('e world, event_params) op" where
  "eventTransactionCreateParams env d =
     bnd (guardE (blockchainValid (etBlockchain d))
            (ErrText (''blockchain '' @ blockchainString (etBlockchain d) @ '' is invalid''))) (\<lambda>_.
     bnd (requestIDOf env d) (\<lambda>request.
     bnd (wrapErr ''get owner'' (ownersGetByID env (etOwnerID d))) (\<lambda>own.
     ret \<lparr>npKind = etWebhookKind d, npStatus = WebhookStatusNew,
          npPayload = (eventPayload d)\<lparr>epRequestID := request\<rparr>, npClientID = owClientID own\<rparr>)))"

text \<open>\<open>BatchCreate\<close> for these parameters, with the same statement as for the status events.\<close>

definition insertEventWebhook :: "int \<Rightarrow> event_params \<Rightarrow> event_webhook list \<Rightarrow> event_webhook list" where
  "insertEventWebhook now p hs =
     (if \<exists>h \<in> set hs. ewPayload h = npPayload p \<and> ewClientID h = npClientID p
      then map (\<lambda>h. if ewPayload h = npPayload p \<and> ewClientID h = npClientID p
             then h\<lparr>ewUpdatedAt := Some now, ewStatus := WebhookStatusNew, ewAttempts := 0,
                    ewResponse := None, ewSentAt := None\<rparr> else h) hs
      else hs @ [\<lparr>ewKind = npKind p, ewStatus = npStatus p, ewAttempts = 0, ewPayload = npPayload p,
                  ewClientID = npClientID p, ewResponse = None, ewCreatedAt = now, ewSentAt = None,
                  ewUpdatedAt = None\<rparr>])"

definition qEventWebhookCreate :: "'e env \<Rightarrow> bool \<Rightarrow> event_params list \<Rightarrow> (('e, 'z) app_scheme) act" where
  "qEventWebhookCreate env tx ps =
     tbExec env tx ''webhooks.Create'' (\<lambda>_. None)
       (\<lambda>now t. t\<lparr>tbEvents := fold (insertEventWebhook now) ps (tbEvents t)\<rparr>)"

definition checkEventParams :: "event_params \<Rightarrow> 's act" where
  "checkEventParams p =
     bnd (guardE (webhookKindString (npKind p) \<noteq> '''') (ErrText ''webhook kind is required'')) (\<lambda>_.
     guardE (webhookStatusValid (npStatus p))
       (ErrText (''status '' @ webhookStatusString (npStatus p) @ '' is invalid'')))"

definition eventsBatchCreate :: "'e env \<Rightarrow> bool \<Rightarrow> event_params list \<Rightarrow> (('e, 'z) app_scheme) act" where
  "eventsBatchCreate env tx ps =
     bnd (forEach ps checkEventParams) (\<lambda>_.
     if ps = [] then ret ()
     else catchErr (qEventWebhookCreate env tx ps) (\<lambda>e.
       case errAsPg e of
         Some detail \<Rightarrow> fail (Wrapfs ''batch create webhooks error: '' e ('' / '' @ detail))
       | None \<Rightarrow> fail (Wrapf ''batch create webhooks error: '' e)))"

section \<open>Library\<close>

text \<open>A body of a transaction that writes through the transaction only.\<close>

definition heldA :: "('e, 'z) app_scheme \<Rightarrow> (bool \<times> db option) \<times> tables option" where
  "heldA s = (held (apWorld s), case apTx s of None \<Rightarrow> None | Some _ \<Rightarrow> Some (apTables s))"

lemma appExt_simps [simp]:
  "apWorld (appExt s x) = (apWorld s)\<lparr>wdExt := x\<rparr>" "apTables (appExt s x) = apTables s" "apTx (appExt s x) = apTx s"
  "app.more (appExt s x) = app.more s" "heldA (appExt s x) = heldA s"
  by (simp_all add: appExt_def heldA_def split: option.split)

lemma heldA_open: "apTx s = Some f \<Longrightarrow> wdTx (apWorld s) = Some h \<Longrightarrow> heldA s' = heldA s \<Longrightarrow>
  (\<exists>f' h'. apTx s' = Some f' \<and> wdTx (apWorld s') = Some h') \<and> apTables s' = apTables s \<and> wdDb (apWorld s') = wdDb (apWorld s)"
  by (auto simp: heldA_def held_def split: option.splits)

lemma keeps_liftA:
  assumes "\<And>s x. v (s\<lparr>apWorld := x\<rparr>) = v s"
  shows "keeps v (liftA m)"
  by (rule keepsI) (simp add: liftA_def assms split: prod.splits)

lemma heldA_liftA: "keeps held m \<Longrightarrow> keeps heldA (liftA m)"
  by (rule keepsI) (auto simp: liftA_def heldA_def dest: keepsD split: prod.splits option.split)

lemma heldA_tbExec: "keeps heldA (tbExec env True nm refused g)"
  by (rule keepsI)
    (auto simp: tbExec_def Let_def tbApply_def appExt_def heldA_def split: prod.split db_fault.split option.split)

lemma heldA_tbRead: "keeps heldA (tbRead env tx nm f)"
  by (rule keepsI) (auto simp: tbRead_def ofSum_def op_defs split: prod.split db_fault.split sum.split)

lemma liftA_Val [op_Val]: "liftA m s = (Val x, s') \<longleftrightarrow> (\<exists>w'. m (apWorld s) = (Val x, w') \<and> s' = s\<lparr>apWorld := w'\<rparr>)"
  by (auto simp: liftA_def split: prod.splits)

lemma tbExec_Val:
  assumes "tbExec env True nm refused g s = (Val u, s')" and "apTx s = Some f"
  shows "refused (f (apTables s)) = None \<and> (\<exists>now x. s' = (appExt s x)\<lparr>apTx := Some (g now \<circ> f)\<rparr>)"
  using assms
  by (auto simp: tbExec_def Let_def tbApply_def tbView_def appExt_def split: prod.split_asm db_fault.split_asm option.split_asm)

text \<open>
  All of the transaction or nothing of it; a value means all of it.
\<close>

lemma inAppTx_cases:
  assumes "inAppTx env m s = (r, s')" and "keeps heldA m"
  obtains (none) "wdDb (apWorld s') = wdDb (apWorld s)" "apTables s' = apTables s" "\<forall>x. r \<noteq> Val x"
  | (all) x e s2 where "m (s\<lparr>apWorld := (apWorld s)\<lparr>wdExt := e, wdTx := Some id\<rparr>, apTx := Some id\<rparr>) = (Val x, s2)"
      "wdDb (apWorld s') = dbView True (apWorld s2)" "apTables s' = tbView True s2"
      "r = Val x \<or> (\<exists>e y y'. r = Err e \<and> envFault env ''commit'' y = (FaultAfter e, y'))"
proof -
  obtain fl e where f: "envFault env ''begin'' (wdExt (apWorld s)) = (fl, e)" by (rule prod.exhaust)
  show thesis
  proof (cases fl)
    case NoFault
    let ?s1 = "s\<lparr>apWorld := (apWorld s)\<lparr>wdExt := e, wdTx := Some id\<rparr>, apTx := Some id\<rparr>"
    obtain q s2 where m: "m ?s1 = (q, s2)" by (rule prod.exhaust)
    have h: "apTables s2 = apTables s" "wdDb (apWorld s2) = wdDb (apWorld s)"
      using heldA_open [OF _ _ keepsD [OF assms(2) m]] by simp_all
    have b: "appBegin env s = (Val (), ?s1)"
      using f NoFault by (simp add: appBegin_def bnd_def liftA_def txBegin_def modS_def)
    show thesis
    proof (cases q)
      case (Val x)
      obtain fl2 e2 where f2: "envFault env ''commit'' (wdExt (apWorld s2)) = (fl2, e2)" by (rule prod.exhaust)
      show thesis
      proof (cases fl2)
        case (FaultBefore e3)
        with assms(1) b m Val f2 h show thesis
          by (intro none) (auto simp: inAppTx_def bnd_def appCommit_def appRollback_def txRollback_def)
      qed (use assms(1) b m Val f2 in \<open>auto intro!: all [OF m [unfolded Val]]
             simp: inAppTx_def bnd_def appCommit_def appDone_def ret_def tbView_def\<close>)
    qed (use assms(1) b m h in \<open>auto intro!: none simp: inAppTx_def bnd_def appRollback_def txRollback_def\<close>)
  qed (use assms(1) f in \<open>auto intro!: none simp: inAppTx_def bnd_def appBegin_def liftA_def txBegin_def\<close>)
qed

text \<open>What is beside the tables and the world is not touched by a transaction whose body does not touch it.\<close>

lemma keeps_inAppTx:
  assumes "\<And>s x y z. v (s\<lparr>apWorld := x, apTables := y, apTx := z\<rparr>) = v s" and "keeps v m"
  shows "keeps v (inAppTx env m)"
proof (rule keepsI)
  fix s
  have a: "v (s\<lparr>apWorld := x\<rparr>) = v s" "v (s\<lparr>apTx := z\<rparr>) = v s" "v (s\<lparr>apTables := y\<rparr>) = v s" for s x y z
    using assms(1) [where s = s and x = x and y = "apTables s" and z = "apTx s"]
      assms(1) [where s = s and x = "apWorld s" and y = "apTables s" and z = z]
      assms(1) [where s = s and x = "apWorld s" and y = y and z = "apTx s"] by simp_all
  have b: "v s1 = v s" if "appBegin env s = (r, s1)" for r s1
    using that by (auto simp: appBegin_def bnd_def liftA_def modS_def a split: prod.split_asm outcome.split_asm)
  have m: "v s2 = v s1" if "m s1 = (r, s2)" for r s1 s2 by (rule keepsD [OF assms(2) that])
  have c: "v s3 = v s2" if "appCommit env s2 = (r, s3)" for r s2 s3
    using that by (auto simp: appCommit_def appDone_def appRollback_def appExt_def a split: prod.split_asm db_fault.split_asm)
  show "v (snd (inAppTx env m s)) = v s"
    by (auto simp: inAppTx_def bnd_def ret_def a appRollback_def dest!: b m c split: prod.split outcome.split)
qed

end
