(* ===== verification/Scanner.thy ===== *)
theory Scanner
  imports Jobs CreateProps
begin

text \<open>
  \<open>internal/escanner/scanner.go\<close>: the scanner of one blockchain. Blocks are fetched from the explorer
  proxy, their transfer events are matched with the wallets of the owners, and each block is committed
  in one transaction: a webhook and a job that waits for the confirmations for every event, and the
  number and the hash of the block. A block that does not link to the one before it starts a rollback.

  The goroutines that fetch the blocks of a batch, and those for the transactions of a block, run one
  after the other in the model. Heights are integers; the overflow of an \<open>int64\<close> is not reached by a chain.
\<close>

section \<open>Addresses of Bitcoin Cash\<close>

text \<open>
  \<open>bch.DecodeAddressToCashAddr\<close> and \<open>bch.DecodeAddressToLegacyAddr\<close> over the library: a decoded address has
  a type, a hash and a text.
\<close>

datatype bch_address_type =
    LegacyAddressPubKeyHash | LegacyAddressScriptHash | AddressPubKeyHash | AddressScriptHash | OtherBchAddress string

record bch_lib =
  blDecodeAddress :: "string \<Rightarrow> goerr + bch_address_type \<times> string \<times> string"
  blNewAddressPubKeyHash :: "string \<Rightarrow> goerr + string"
  blNewAddressScriptHashFromHash :: "string \<Rightarrow> goerr + string"
  blTypeName :: "bch_address_type \<Rightarrow> string"
  blCheckEncodePubKeyHash :: "string \<Rightarrow> string"
  blCheckEncodeScriptHash :: "string \<Rightarrow> string"

definition decodeAddressToCashAddr :: "bch_lib \<Rightarrow> string \<Rightarrow> goerr + string" where
  "decodeAddressToCashAddr lib address =
     (case blDecodeAddress lib address of
        Inl e \<Rightarrow> Inl (Wrapf ''failed to decode address: '' e)
      | Inr (ty, hash, text) \<Rightarrow>
          if strPrefix ''1'' address \<or> strPrefix ''3'' address \<or> strPrefix ''2'' address then
            (case ty of
               LegacyAddressPubKeyHash \<Rightarrow> blNewAddressPubKeyHash lib hash
             | LegacyAddressScriptHash \<Rightarrow> blNewAddressScriptHashFromHash lib hash
             | _ \<Rightarrow> Inl (ErrText (''unsupported address type '' @ blTypeName lib ty)))
          else Inr text)"

definition decodeAddressToLegacyAddr :: "bch_lib \<Rightarrow> string \<Rightarrow> goerr + string" where
  "decodeAddressToLegacyAddr lib address =
     (case blDecodeAddress lib address of
        Inl e \<Rightarrow> Inl (Wrapf ''failed to decode address: '' e)
      | Inr (ty, hash, text) \<Rightarrow>
          (case ty of
             LegacyAddressPubKeyHash \<Rightarrow> Inr text
           | LegacyAddressScriptHash \<Rightarrow> Inr text
           | AddressPubKeyHash \<Rightarrow> Inr (blCheckEncodePubKeyHash lib hash)
           | AddressScriptHash \<Rightarrow> Inr (blCheckEncodeScriptHash lib hash)
           | _ \<Rightarrow> Inl (ErrText (''unsupported address type '' @ blTypeName lib ty))))"

section \<open>The scanner\<close>

text \<open>The struct \<open>scanner\<close>: its configuration, and the two heights that change.\<close>

record 'e scan_params =
  snEnv :: "'e env"
  snProxy :: "'e proxy"
  snBch :: bch_lib
  snBlockchain :: blockchain_type
  snBlocksInChunk :: int
  snActivationContract :: string
  snUseCacheForWallets :: bool

record 'e scanner = "'e app" +
  scLastNode :: int
  scLastParsed :: int

definition scSleep :: "'e scan_params \<Rightarrow> duration \<Rightarrow> (('e, 'z) app_scheme) act" where
  "scSleep p d = modS (\<lambda>s. appExt s (envSleep (snEnv p) d (wdExt (apWorld s))))"

section \<open>Events\<close>

record event_check =
  ekAddress :: string
  ekKind :: webhook_kind

text \<open>The two more checks of an address of Bitcoin Cash, in the other formats.\<close>

definition otherFormats :: "bch_lib \<Rightarrow> event_check \<Rightarrow> event_check list" where
  "otherFormats lib c =
     concat (map (\<lambda>r. case r of
         Inl e \<Rightarrow> []
       | Inr a \<Rightarrow> if a \<noteq> ekAddress c then [\<lparr>ekAddress = a, ekKind = ekKind c\<rparr>] else [])
       [decodeAddressToCashAddr lib (ekAddress c), decodeAddressToLegacyAddr lib (ekAddress c)])"

definition checksForEvent :: "'e scan_params \<Rightarrow> chain_event \<Rightarrow> event_check list" where
  "checksForEvent p ev =
     (let checks =
            (case ceAddressFrom ev of
               Some a \<Rightarrow> if a \<noteq> '''' then [\<lparr>ekAddress = a, ekKind = WebhookKindTransfer\<rparr>] else []
             | None \<Rightarrow> []) @
            (case ceAddressTo ev of
               Some a \<Rightarrow> if a \<noteq> '''' then [\<lparr>ekAddress = a, ekKind = WebhookKindDeposit\<rparr>] else []
             | None \<Rightarrow> [])
      in if snBlockchain p = BlockchainTypeBitcoinCash
         then checks @ concat (map (otherFormats (snBch p)) checks)
         else checks)"

record create_webhook =
  cwTx :: chain_tx
  cwEvent :: chain_event
  cwKind :: webhook_kind
  cwCheckResult :: check_wallet_result

text \<open>A loop that collects results and returns at the first error.\<close>

fun collectOp :: "'a list \<Rightarrow> ('a \<Rightarrow> ('s, 'b list) op) \<Rightarrow> ('s, 'b list) op" where
  "collectOp [] f = ret []"
| "collectOp (x # xs) f = bnd (f x) (\<lambda>ys. bnd (collectOp xs f) (\<lambda>zs. ret (ys @ zs)))"

definition checkAddress :: "'e scan_params \<Rightarrow> chain_tx \<Rightarrow> chain_event \<Rightarrow> event_check \<Rightarrow> (('e, 'z) app_scheme, create_webhook list) op" where
  "checkAddress p tx ev c =
     catchErr (bnd (liftA (checkWallet (snEnv p) (snUseCacheForWallets p) (snBlockchain p) (ekAddress c))) (\<lambda>res.
       ret [\<lparr>cwTx = tx, cwEvent = ev, cwKind = ekKind c, cwCheckResult = res\<rparr>]))
       (\<lambda>e. if errIs e errAddressNotFound then ret [] else fail (Wrapf ''check wallet: '' e))"

definition skipEvent :: "chain_tx \<Rightarrow> chain_event \<Rightarrow> bool" where
  "skipEvent tx ev \<longleftrightarrow>
     ceType ev \<noteq> Some EVENT_TYPE_TRANSFER \<or>
     ceStatus ev \<notin> {None, Some EVENT_STATUS_SUCCESS} \<or>
     textString (ceValue ev) = ''0'' \<and> textString (ceAddressFrom ev) \<noteq> '''' \<and>
       textString (ceAddressFrom ev) \<noteq> textString (ctAddressFrom tx)"

definition checkEvent :: "'e scan_params \<Rightarrow> chain_tx \<Rightarrow> chain_event \<Rightarrow> (('e, 'z) app_scheme, create_webhook list) op" where
  "checkEvent p tx ev =
     wrapErr ''check event'' (if skipEvent tx ev then ret [] else collectOp (checksForEvent p ev) (checkAddress p tx ev))"

section \<open>Fetching\<close>

record block_result =
  brHeight :: int
  brBlockHash :: string
  brPrevHash :: string
  brWhParams :: "create_webhook list"

definition fetchBlockData :: "'e scan_params \<Rightarrow> int \<Rightarrow> (('e, 'z) app_scheme, block_result) op" where
  "fetchBlockData p height =
     bnd (wrapErr ''find transactions''
            (liftAE (findTransactions (snProxy p) (snBlockchain p) (Some (word_of_int height)) None))) (\<lambda>txs.
     bnd (wrapErr ''get block for hash''
            (liftAE (pxGetBlock (snProxy p) (convertBlockchain (snBlockchain p)) (word_of_int height)))) (\<lambda>block.
     bnd (wrapErr ''wait for all transactions''
            (collectOp txs (\<lambda>tx. collectOp (ctEvents tx) (checkEvent p tx)))) (\<lambda>params.
     ret \<lparr>brHeight = height, brBlockHash = bhHash block, brPrevHash = bhPrevHash block, brWhParams = params\<rparr>)))"

text \<open>All the blocks of a batch are fetched, and the error of the lowest one that failed is returned.\<close>

fun fetchEach :: "'e scan_params \<Rightarrow> int list \<Rightarrow> (('e, 'z) app_scheme, (goerr + block_result) list) op" where
  "fetchEach p [] = ret []"
| "fetchEach p (h # hs) = bnd (tryE (fetchBlockData p h)) (\<lambda>r. bnd (fetchEach p hs) (\<lambda>rs. ret (r # rs)))"

fun allResults :: "(goerr + 'a) list \<Rightarrow> goerr + 'a list" where
  "allResults [] = Inr []"
| "allResults (Inl e # rs) = Inl e"
| "allResults (Inr x # rs) = (case allResults rs of Inl e \<Rightarrow> Inl e | Inr xs \<Rightarrow> Inr (x # xs))"

definition loadBlocks :: "'e scan_params \<Rightarrow> int \<Rightarrow> int \<Rightarrow> (('e, 'z) app_scheme, block_result list) op" where
  "loadBlocks p from' to' = bnd (fetchEach p [from'..to']) (\<lambda>rs. ofSum (allResults rs))"

fun validateChain :: "block_result list \<Rightarrow> string \<Rightarrow> goerr option" where
  "validateChain [] expected = None"
| "validateChain (r # rs) expected =
     (if brPrevHash r \<noteq> '''' \<and> expected \<noteq> '''' \<and> brPrevHash r \<noteq> expected
      then Some (ErrText (''block '' @ showInt (brHeight r) @ '': prevHash='' @ brPrevHash r @ '' expected='' @ expected))
      else validateChain rs (brBlockHash r))"

section \<open>Committing\<close>

definition trxAssetIdentifier :: string where "trxAssetIdentifier = ''trx''"

text \<open>\<open>strings.EqualFold\<close> on the letters of ASCII.\<close>

definition equalFold :: "string \<Rightarrow> string \<Rightarrow> bool" where
  "equalFold a b \<longleftrightarrow> strToLower a = strToLower b"

definition isTrxHotWalletDeposit :: "create_webhook \<Rightarrow> bool" where
  "isTrxHotWalletDeposit c \<longleftrightarrow>
     cwWalletType (cwCheckResult c) = WalletTypeHot \<and> cwKind c = WebhookKindDeposit \<and>
     textString (ceAssetIdentifier (cwEvent c)) \<noteq> '''' \<and>
     equalFold (textString (ceAssetIdentifier (cwEvent c))) trxAssetIdentifier \<and>
     textString (ceAddressTo (cwEvent c)) \<noteq> ''''"

definition isTrxContractActivationDeposit :: "string \<Rightarrow> create_webhook \<Rightarrow> bool" where
  "isTrxContractActivationDeposit contract c \<longleftrightarrow>
     cwWalletType (cwCheckResult c) = WalletTypeHot \<and> cwKind c = WebhookKindDeposit \<and>
     textString (ceAssetIdentifier (cwEvent c)) \<noteq> '''' \<and>
     equalFold (textString (ceAssetIdentifier (cwEvent c))) trxAssetIdentifier \<and>
     textString (ceAddressFrom (cwEvent c)) \<noteq> '''' \<and>
     equalFold (textString (ceAddressFrom (cwEvent c))) contract \<and>
     textString (ceAddressTo (cwEvent c)) \<noteq> ''''"

definition systemTxTypes :: "tx_type list" where
  "systemTxTypes = [TxTypeDelegateResources, TxTypeReclaimResources, TxTypeSendBurnBaseAsset, TxTypeAccountActivation]"

definition qFindSystemTransactions :: "'e env \<Rightarrow> bool \<Rightarrow> uuid \<Rightarrow> blockchain_type \<Rightarrow> string \<Rightarrow> ('e world, transfer_tx list) op" where
  "qFindSystemTransactions env tx oid b hash =
     dbRead env tx ''transfer_transactions.FindSystemTransactions''
       (\<lambda>d. Inr (filter (\<lambda>tt. ttTxHash tt = hash \<and> ttTxType tt \<in> set systemTxTypes \<and>
            (\<exists>t \<in> set (dbTransfers d). trID t = ttTransferID tt \<and> trOwnerID t = oid \<and> trBlockchain t = b))
          (dbTransferTransactions d)))"

text \<open>The result is \<open>whCreateParamsData.IsSystem\<close> after the call.\<close>

definition beforeCreateWhHandler :: "'e scan_params \<Rightarrow> create_webhook \<Rightarrow> (('e, 'z) app_scheme, bool) op" where
  "beforeCreateWhHandler p c =
     (if \<not> isSystemTransactionsSupported (snBlockchain p) then ret False
      else
        bnd (wrapErr ''find system transactions'' (liftA (qFindSystemTransactions (snEnv p) True
               (cwOwnerID (cwCheckResult c)) (snBlockchain p) (ctHash (cwTx c))))) (\<lambda>systemTxs.
        bnd (if snBlockchain p = BlockchainTypeTron \<and> \<not> checkActivated (cwCheckResult c) \<and>
                (isTrxContractActivationDeposit (snActivationContract p) c \<or> isTrxHotWalletDeposit c)
             then liftA (hotActivateWallet (snEnv p) True (cwOwnerID (cwCheckResult c)) (snBlockchain p)
                    (textString (ceAddressTo (cwEvent c))))
             else ret ()) (\<lambda>_.
        ret (systemTxs \<noteq> []))))"

definition createParamsData :: "'e scan_params \<Rightarrow> create_webhook \<Rightarrow> bool \<Rightarrow> event_transaction" where
  "createParamsData p c isSystem =
     (let tx = cwTx c; ev = cwEvent c in
      \<lparr>etBlockchain = snBlockchain p,
       etTx = \<lparr>tdHash = ctHash tx, tdConfirmations = ctConfirmations tx,
          tdStatus = (if ctStatus tx \<noteq> '''' then Some (ctStatus tx) else None), tdFee = Some (ctFee tx),
          tdCreatedAt = ctCreatedAt tx\<rparr>,
       etEvent = \<lparr>teAddressFrom = ceAddressFrom ev, teAddressTo = ceAddressTo ev, teValue = ceValue ev,
          teAssetIdentify = ceAssetIdentifier ev, teBlockchainUniqKey = ceBlockchainUniqKey ev\<rparr>,
       etWebhookKind = cwKind c, etWalletType = cwWalletType (cwCheckResult c),
       etWebhookStatus = WebhookEventStatusWaitingConfirmations, etOwnerID = cwOwnerID (cwCheckResult c),
       etExternalWalletID = cwExternalWalletID (cwCheckResult c), etIsSystem = isSystem\<rparr>)"

definition confirmationsJob :: "'e scan_params \<Rightarrow> create_webhook \<Rightarrow> bool \<Rightarrow> int \<Rightarrow> job" where
  "confirmationsJob p c isSystem now =
     \<lparr>jbArgs = WebhookWaitingConfirmationsArgs
        \<lparr>waBlockchain = snBlockchain p, waHash = ctHash (cwTx c),
         waAddress = (if cwKind c = WebhookKindTransfer \<and> ceAddressFrom (cwEvent c) \<noteq> None
                        then textString (ceAddressFrom (cwEvent c))
                      else if cwKind c = WebhookKindDeposit \<and> ceAddressTo (cwEvent c) \<noteq> None
                        then textString (ceAddressTo (cwEvent c))
                      else ''''),
         waEventBlockchainUniqKey = textString (ceBlockchainUniqKey (cwEvent c)), waWebhookKind = cwKind c,
         waWalletType = cwWalletType (cwCheckResult c), waOwnerID = cwOwnerID (cwCheckResult c),
         waExternalWalletID = cwExternalWalletID (cwCheckResult c), waIsSystem = isSystem\<rparr>,
      jbUnique = True,
      jbScheduledAt = Some (now + sint (confirmationsTimeout (snBlockchain p) (ctConfirmations (cwTx c))))\<rparr>"

definition createWebhook :: "'e scan_params \<Rightarrow> create_webhook \<Rightarrow> (('e, 'z) app_scheme, event_params list) op" where
  "createWebhook p c =
     bnd (wrapErr ''post create webhook handler'' (beforeCreateWhHandler p c)) (\<lambda>isSystem.
     bnd (wrapErr ''get params for webhook'' (liftA (eventTransactionCreateParams (snEnv p) (createParamsData p c isSystem)))) (\<lambda>param.
     bnd (getS (\<lambda>s. envNow (snEnv p) (wdExt (apWorld s)))) (\<lambda>now.
     bnd (wrapErr ''insert webhook job'' (insertJob (snEnv p) (confirmationsJob p c isSystem now))) (\<lambda>_.
     ret [param]))))"

definition commitBody :: "'e scan_params \<Rightarrow> block_result \<Rightarrow> bool \<Rightarrow> (('e, 'z) app_scheme) act" where
  "commitBody p r existsLastBlockDB =
     bnd (if brWhParams r \<noteq> []
          then bnd (collectOp (brWhParams r) (createWebhook p)) (eventsBatchCreate (snEnv p) True)
          else ret ()) (\<lambda>_.
     if existsLastBlockDB
     then wrapErr ''update block number'' (blocksUpdateNumberWithHash (snEnv p) True (snBlockchain p) (brHeight r) (brBlockHash r))
     else wrapErr ''create block number'' (blocksCreate (snEnv p) True (snBlockchain p) (brHeight r) (brBlockHash r)))"

definition commitBlockResult :: "'e scan_params \<Rightarrow> block_result \<Rightarrow> bool \<Rightarrow> ('e scanner) act" where
  "commitBlockResult p r existsLastBlockDB =
     bnd (inAppTx (snEnv p) (commitBody p r existsLastBlockDB)) (\<lambda>_.
     modS (\<lambda>s. s\<lparr>scLastParsed := brHeight r\<rparr>))"

text \<open>The commits of a batch: the first one of all inserts the row, and the others update it.\<close>

fun commitAll :: "'e scan_params \<Rightarrow> block_result list \<Rightarrow> bool \<Rightarrow> ('e scanner) act" where
  "commitAll p [] existsLastBlockDB = ret ()"
| "commitAll p (r # rs) existsLastBlockDB =
     bnd (wrapErr (''commit block '' @ showInt (brHeight r)) (commitBlockResult p r existsLastBlockDB)) (\<lambda>_.
     commitAll p rs True)"

section \<open>Rollback\<close>

definition handleRollback :: "'e scan_params \<Rightarrow> ('e scanner) act" where
  "handleRollback p =
     bnd (wrapErr ''get rollback starting block'' (liftAE (getRollbackStartingBlock (snProxy p) (snBlockchain p)))) (\<lambda>newStart.
     (let height = sint newStart - 1 in
     bnd (wrapErr ''get rollback block hash''
            (liftAE (pxGetBlock (snProxy p) (convertBlockchain (snBlockchain p)) (word_of_int height)))) (\<lambda>block.
     bnd (modS (\<lambda>s. s\<lparr>scLastParsed := height\<rparr>)) (\<lambda>_.
     inAppTx (snEnv p)
       (wrapErr ''update processed block after rollback''
          (blocksUpdateNumberWithHash (snEnv p) True (snBlockchain p) height (bhHash block)))))))"

section \<open>The loop over the new blocks\<close>

definition chunkOf :: "'e scan_params \<Rightarrow> int" where
  "chunkOf p = (if snBlocksInChunk p \<le> 0 then 1 else snBlocksInChunk p)"

lemma chunkOf_pos: "0 < chunkOf p"
  by (simp add: chunkOf_def)

lemma chunkOf_step: "\<not> lnBlock < start \<Longrightarrow> nat (lnBlock + 1 - (start + chunkOf p)) < nat (lnBlock + 1 - start)"
  using chunkOf_pos [of p] by simp

definition afterBatch :: "block_result list \<Rightarrow> string \<Rightarrow> string" where
  "afterBatch results hash = (if results \<noteq> [] then brBlockHash (last results) else hash)"

function runBatches :: "'e scan_params \<Rightarrow> int \<Rightarrow> int \<Rightarrow> bool \<Rightarrow> string \<Rightarrow> ('e scanner) act" where
  "runBatches p lnBlock batchStart existsLastBlockDB lastKnownHash =
     (if lnBlock < batchStart then scSleep p (100 * millisecond)
      else bnd (getS (\<lambda>s. envCtx (snEnv p) (wdExt (apWorld s)))) (\<lambda>ctx.
        if ctx \<noteq> None then ret ()
        else
          (let batchEnd = min (batchStart + chunkOf p - 1) lnBlock in
          bnd (wrapErr (''load blocks ['' @ showInt batchStart @ '', '' @ showInt batchEnd @ '']'')
                 (loadBlocks p batchStart batchEnd)) (\<lambda>results.
          if existsLastBlockDB \<and> validateChain results lastKnownHash \<noteq> None then handleRollback p
          else
            bnd (commitAll p results existsLastBlockDB) (\<lambda>_.
            runBatches p lnBlock (batchStart + chunkOf p) (existsLastBlockDB \<or> results \<noteq> [])
              (afterBatch results lastKnownHash))))))"
  by pat_completeness auto
termination
  by (relation "measure (\<lambda>(p, n, start, ex, h). nat (n + 1 - start))") (simp_all add: chunkOf_step chunkOf_pos)

declare runBatches.simps [simp del]

definition handleBlocks :: "'e scan_params \<Rightarrow> ('e scanner) act" where
  "handleBlocks p s =
     (let lpBlock = scLastParsed s; lnBlock = scLastNode s in
      if lnBlock \<le> lpBlock \<or> lnBlock = 0 then scSleep p second s
      else if lpBlock = -1 then runBatches p lnBlock lnBlock False '''' s
      else bnd (catchErr (bnd (blocksLastBlock (snEnv p) (snBlockchain p)) (\<lambda>b. ret (snd b))) (\<lambda>_. ret ''''))
             (runBatches p lnBlock (lpBlock + 1) True) s)"

section \<open>Start\<close>

text \<open>The state the scanner starts with; the two loops of \<open>start\<close> are the steps below.\<close>

definition startScanner :: "'e scan_params \<Rightarrow> ('e scanner) act" where
  "startScanner p =
     bnd (catchErr (blocksLastBlockNumber (snEnv p) (snBlockchain p))
            (\<lambda>e. if errIs e storeErrNotFound then ret (-1) else fail e)) (\<lambda>n.
     modS (\<lambda>s. s\<lparr>scLastParsed := n\<rparr>))"

text \<open>One round of the loop that asks for the last block of the node, and one of the loop that handles blocks.\<close>

definition pollNode :: "'e scan_params \<Rightarrow> ('e scanner) act" where
  "pollNode p =
     bnd (ignoreErr (bnd (wrapErr ''get last block from explorer'' (liftAE (lastBlockNumber (snProxy p) (snBlockchain p)))) (\<lambda>h.
            modS (\<lambda>s. if scLastNode s = sint h then s else s\<lparr>scLastNode := sint h\<rparr>)))) (\<lambda>_.
     scSleep p second)"

definition handleRound :: "'e scan_params \<Rightarrow> ('e scanner) act" where
  "handleRound p = catchErr (handleBlocks p) (\<lambda>_. scSleep p second)"

end
