(* ===== verification/ScannerFacts.thy ===== *)
theory ScannerFacts
  imports Scanner
begin

text \<open>
  The library about the scanner of a blockchain: what the transaction of a block does to the tables, what
  the loop over the new blocks leaves alone, and how the checks of a chain compose.
\<close>

section \<open>The transaction of a block\<close>

text \<open>What the open transaction has done to the tables beside those of hot wallets.\<close>

definition hotPart :: "'e world \<Rightarrow> (db \<Rightarrow> db) option" where
  "hotPart w = map_option (\<lambda>g d. (g d)\<lparr>dbHotWallets := []\<rparr>) (wdTx w)"

definition tbPart :: "('e, 'z) app_scheme \<Rightarrow> (tables \<Rightarrow> tables) option \<times> tables" where
  "tbPart s = (apTx s, apTables s)"

lemma keeps_tbPart_liftA [keeps_intros]: "keeps tbPart (liftA m)"
  by (rule keeps_liftA) (simp add: tbPart_def)

lemma keeps_hotPart_liftA: "keeps hotPart m \<Longrightarrow> keeps (\<lambda>s. hotPart (apWorld s)) (liftA m)"
  by (rule keepsI) (auto simp: liftA_def dest: keepsD split: prod.splits)

lemma keeps_world_tbExec: "keeps (\<lambda>s. hotPart (apWorld s)) (tbExec env True nm refused g)"
  by (rule keepsI)
    (auto simp: tbExec_def Let_def tbApply_def appExt_def hotPart_def split: prod.split db_fault.split option.split)

lemma hot_read: "keeps hotPart (dbRead env tx nm f)"
  by (rule keeps_dbRead) (simp add: hotPart_def)

lemma hot_activate: "keeps hotPart (qHotActivateWallet env True b a oid)"
  by (rule keepsI)
    (auto simp: qHotActivateWallet_def dbExec_def dbQuery_def Let_def ofSum_def op_defs dbApply_def hotPart_def comp_def
      split: prod.split db_fault.split option.split)

lemma keeps_ownersGetByID:
  assumes "\<And>w x. v (w\<lparr>wdExt := x\<rparr>) = v w" and "\<And>w x. v (w\<lparr>wdOwnerCache := x\<rparr>) = v w"
  shows "keeps v (ownersGetByID env oid)"
  unfolding ownersGetByID_def noRowsToNotFound_def qOwnerGetByID_def
  by (intro keeps_intros keeps_dbRead keeps_modS) (simp_all add: assms)

lemma keeps_eventParams:
  assumes "\<And>w x. v (w\<lparr>wdExt := x\<rparr>) = v w" and "\<And>w x. v (w\<lparr>wdOwnerCache := x\<rparr>) = v w"
  shows "keeps v (eventTransactionCreateParams env d)"
  unfolding eventTransactionCreateParams_def requestIDOf_def transfersGetByTxHashAndOwnerID_def noRowsToNotFound_def
    qTransferGetByTxHashAndOwnerID_def
  by (intro keeps_intros keeps_ownersGetByID keeps_dbRead) (simp_all add: assms)

lemma keeps_before:
  assumes "\<And>a b h. keeps v (liftA (qFindSystemTransactions (snEnv p) True a b h))"
    and "\<And>a b h. keeps v (liftA (hotActivateWallet (snEnv p) True a b h))"
  shows "keeps v (beforeCreateWhHandler p c)"
  unfolding beforeCreateWhHandler_def by (intro keeps_intros assms)

lemma held_before: "keeps heldA (beforeCreateWhHandler p c)"
  by (intro keeps_before heldA_liftA)
    (simp_all add: qFindSystemTransactions_def held_dbRead hotActivateWallet_def qHotActivateWallet_def keeps_intros held_dbExec)

lemma hot_before: "keeps (\<lambda>s. hotPart (apWorld s)) (beforeCreateWhHandler p c)"
  by (intro keeps_before keeps_hotPart_liftA)
    (simp_all add: qFindSystemTransactions_def hot_read hotActivateWallet_def keeps_intros hot_activate)

lemma keeps_collectOp [keeps_intros]: "(\<And>x. keeps v (f x)) \<Longrightarrow> keeps v (collectOp xs f)"
  by (induction xs) (auto intro: keeps_intros)

lemma held_createWebhook: "keeps heldA (createWebhook p c)"
  unfolding createWebhook_def insertJob_def
  by (intro keeps_intros held_before heldA_liftA keeps_eventParams heldA_tbExec) (simp_all add: held_def split: option.split)

lemma hot_createWebhook: "keeps (\<lambda>s. hotPart (apWorld s)) (createWebhook p c)"
  unfolding createWebhook_def insertJob_def
  by (intro keeps_intros hot_before keeps_hotPart_liftA keeps_eventParams keeps_world_tbExec) (simp_all add: hotPart_def)

lemma keeps_commitBody:
  assumes "\<And>c. keeps v (createWebhook p c)" and "\<And>nm rf g. keeps v (tbExec (snEnv p) True nm rf g)"
  shows "keeps v (commitBody p r ex)"
  unfolding commitBody_def eventsBatchCreate_def checkEventParams_def qEventWebhookCreate_def
    blocksUpdateNumberWithHash_def blocksCreate_def qBlockUpdateWithHash_def qBlockCreate_def
  by (intro keeps_intros assms)

lemma held_commitBody: "keeps heldA (commitBody p r ex)"
  by (intro keeps_commitBody held_createWebhook heldA_tbExec)

lemma hot_commitBody: "keeps (\<lambda>s. hotPart (apWorld s)) (commitBody p r ex)"
  by (intro keeps_commitBody hot_createWebhook keeps_world_tbExec)

text \<open>The job and the parameters of one event.\<close>

definition jobFor :: "'e scan_params \<Rightarrow> create_webhook \<Rightarrow> job \<Rightarrow> bool" where
  "jobFor p c j \<longleftrightarrow> (\<exists>isSystem now. j = confirmationsJob p c isSystem now)"

definition paramsFor :: "'e scan_params \<Rightarrow> create_webhook \<Rightarrow> event_params \<Rightarrow> bool" where
  "paramsFor p c q \<longleftrightarrow> npKind q = cwKind c \<and> npStatus q = WebhookStatusNew \<and>
     (\<exists>isSystem request. npPayload q = (eventPayload (createParamsData p c isSystem))\<lparr>epRequestID := request\<rparr>)"

lemma scanParams_Val: "eventTransactionCreateParams env d w = (Val q, w') \<Longrightarrow>
   npKind q = etWebhookKind d \<and> npStatus q = WebhookStatusNew \<and> (\<exists>request. npPayload q = (eventPayload d)\<lparr>epRequestID := request\<rparr>)"
  unfolding eventTransactionCreateParams_def by (auto simp: op_Val)

lemma createWebhook_Val:
  assumes "createWebhook p c s = (Val qs, s')" and "apTx s = Some f"
  shows "\<exists>q j. qs = [q] \<and> paramsFor p c q \<and> jobFor p c j \<and> apTables s' = apTables s \<and>
    apTx s' = Some ((\<lambda>t. t\<lparr>tbJobs := tbJobs t @ [j]\<rparr>) \<circ> f)"
proof -
  from assms(1) obtain sys s1 q s2 now u where b: "beforeCreateWhHandler p c s = (Val sys, s1)"
    and e: "liftA (eventTransactionCreateParams (snEnv p) (createParamsData p c sys)) s1 = (Val q, s2)"
    and j: "insertJob (snEnv p) (confirmationsJob p c sys now) s2 = (Val u, s')" and qs: "qs = [q]"
    unfolding createWebhook_def bnd_Val wrapErr_Val getS_Val ret_Val by blast
  have "keeps tbPart (beforeCreateWhHandler p c)"
    unfolding beforeCreateWhHandler_def by (intro keeps_intros)
  then have "tbPart s1 = tbPart s" using b by (rule keepsD)
  then have "tbPart s2 = tbPart s" using keepsD [OF keeps_tbPart_liftA e] by simp
  then have t: "apTx s2 = Some f" "apTables s2 = apTables s" using assms(2) by (simp_all add: tbPart_def)
  from e scanParams_Val have "paramsFor p c q"
    by (fastforce simp: liftA_Val paramsFor_def createParamsData_def Let_def)
  moreover have "jobFor p c (confirmationsJob p c sys now)" by (auto simp: jobFor_def)
  ultimately show ?thesis using tbExec_Val [OF j [unfolded insertJob_def] t(1)] t(2) qs by auto
qed

lemma createWebhooks_Val:
  assumes "collectOp cs (createWebhook p) s = (Val qs, s')" and "apTx s = Some f"
  shows "\<exists>js. list_all2 (paramsFor p) cs qs \<and> list_all2 (jobFor p) cs js \<and> apTables s' = apTables s \<and>
    apTx s' = Some ((\<lambda>t. t\<lparr>tbJobs := tbJobs t @ js\<rparr>) \<circ> f)"
  using assms
proof (induction cs arbitrary: s f qs)
  case Nil
  then show ?case by (auto simp: ret_def fun_eq_iff)
next
  case (Cons c cs)
  from Cons.prems(1) obtain q1 s1 qs2 where c: "createWebhook p c s = (Val q1, s1)"
    and r: "collectOp cs (createWebhook p) s1 = (Val qs2, s')" and qs: "qs = q1 @ qs2"
    by (auto simp: op_Val)
  from createWebhook_Val [OF c Cons.prems(2)] obtain q j where
    q: "q1 = [q]" "paramsFor p c q" "jobFor p c j" "apTables s1 = apTables s"
    and t: "apTx s1 = Some ((\<lambda>t. t\<lparr>tbJobs := tbJobs t @ [j]\<rparr>) \<circ> f)" by blast
  from Cons.IH [OF r t] obtain js where
    js: "list_all2 (paramsFor p) cs qs2" "list_all2 (jobFor p) cs js" "apTables s' = apTables s1"
      "apTx s' = Some ((\<lambda>t. t\<lparr>tbJobs := tbJobs t @ js\<rparr>) \<circ> ((\<lambda>t. t\<lparr>tbJobs := tbJobs t @ [j]\<rparr>) \<circ> f))" by blast
  then show ?case using q qs by (intro exI [of _ "j # js"]) (auto simp: fun_eq_iff)
qed

text \<open>The block that the tables hold for a chain, and the tables after a block.\<close>

definition setBlock :: "bool \<Rightarrow> blockchain_type \<Rightarrow> int \<Rightarrow> string \<Rightarrow> processed_block list \<Rightarrow> processed_block list" where
  "setBlock ex b n h rows =
     (if ex then map (\<lambda>r. if pbBlockchain r = b then r\<lparr>pbNumber := n, pbHash := Some h\<rparr> else r) rows
      else rows @ [\<lparr>pbBlockchain = b, pbNumber = n, pbHash = Some h\<rparr>])"

definition blockTables :: "'e scan_params \<Rightarrow> block_result \<Rightarrow> bool \<Rightarrow> tables \<Rightarrow> tables \<Rightarrow> bool" where
  "blockTables p r ex t t' \<longleftrightarrow>
     (\<exists>qs js now. list_all2 (paramsFor p) (brWhParams r) qs \<and> list_all2 (jobFor p) (brWhParams r) js \<and>
        t' = \<lparr>tbBlocks = setBlock ex (snBlockchain p) (brHeight r) (brBlockHash r) (tbBlocks t),
              tbEvents = fold (insertEventWebhook now) qs (tbEvents t), tbJobs = tbJobs t @ js\<rparr>) \<and>
     (ex \<or> (\<forall>x \<in> set (tbBlocks t). pbBlockchain x \<noteq> snBlockchain p)) \<and> 0 < brHeight r"

lemma forEach_checks_Val: "forEach qs checkEventParams s = (Val u, s') \<Longrightarrow> s' = s"
  by (induction qs) (auto simp: checkEventParams_def op_Val ret_def)

lemma eventsBatchCreate_Val:
  assumes "eventsBatchCreate env True qs s = (Val u, s')" and "apTx s = Some f"
  shows "\<exists>now. apTables s' = apTables s \<and>
    apTx s' = Some ((\<lambda>t. t\<lparr>tbEvents := fold (insertEventWebhook now) qs (tbEvents t)\<rparr>) \<circ> f)"
proof (cases "qs = []")
  case True
  with assms show ?thesis by (auto simp: eventsBatchCreate_def op_defs fun_eq_iff)
next
  case False
  then have "qEventWebhookCreate env True qs s = (Val u, s')"
    using assms(1) by (auto simp: eventsBatchCreate_def op_Val dest!: forEach_checks_Val)
      (auto simp: op_defs split: prod.split_asm outcome.split_asm option.split_asm)
  from tbExec_Val [OF this [unfolded qEventWebhookCreate_def] assms(2)] show ?thesis by auto
qed

lemma blockRow_Val:
  assumes "(if ex then wrapErr m1 (blocksUpdateNumberWithHash env True b n h) else wrapErr m2 (blocksCreate env True b n h)) s = (Val u, s')"
    and "apTx s = Some f"
  shows "apTables s' = apTables s \<and> apTx s' = Some ((\<lambda>t. t\<lparr>tbBlocks := setBlock ex b n h (tbBlocks t)\<rparr>) \<circ> f) \<and> 0 < n \<and>
    (ex \<or> (\<forall>x \<in> set (tbBlocks (f (apTables s))). pbBlockchain x \<noteq> b))"
proof (cases ex)
  case True
  then have n: "0 < n" and q: "qBlockUpdateWithHash env True b n h s = (Val u, s')"
    using assms(1) by (auto simp: blocksUpdateNumberWithHash_def op_Val)
  from tbExec_Val [OF q [unfolded qBlockUpdateWithHash_def] assms(2)] n True show ?thesis by (auto simp: setBlock_def)
next
  case False
  then have n: "0 < n" and q: "qBlockCreate env True b n h s = (Val u, s')"
    using assms(1) by (auto simp: blocksCreate_def op_Val)
  from tbExec_Val [OF q [unfolded qBlockCreate_def] assms(2)] n False show ?thesis
    by (auto simp: setBlock_def split: if_split_asm)
qed

lemma commitBody_Val:
  assumes "commitBody p r ex s = (Val u, s')" and "apTx s = Some id"
  shows "\<exists>f. apTx s' = Some f \<and> apTables s' = apTables s \<and> blockTables p r ex (apTables s) (f (apTables s))"
proof -
  have "\<exists>s1 now qs js. list_all2 (paramsFor p) (brWhParams r) qs \<and> list_all2 (jobFor p) (brWhParams r) js \<and>
     apTables s1 = apTables s \<and>
     apTx s1 = Some (\<lambda>t. t\<lparr>tbEvents := fold (insertEventWebhook now) qs (tbEvents t), tbJobs := tbJobs t @ js\<rparr>) \<and>
     (if ex then wrapErr ''update block number'' (blocksUpdateNumberWithHash (snEnv p) True (snBlockchain p) (brHeight r) (brBlockHash r))
      else wrapErr ''create block number'' (blocksCreate (snEnv p) True (snBlockchain p) (brHeight r) (brBlockHash r))) s1 = (Val u, s')"
  proof (cases "brWhParams r = []")
    case True
    with assms show ?thesis
      by (intro exI [of _ s] exI [of _ 0] exI [of _ "[]"]) (auto simp: commitBody_def op_Val ret_Val fun_eq_iff)
  next
    case False
    with assms(1) obtain qs s0 u1 s1 where c: "collectOp (brWhParams r) (createWebhook p) s = (Val qs, s0)"
      and e: "eventsBatchCreate (snEnv p) True qs s0 = (Val u1, s1)"
      and row: "(if ex then wrapErr ''update block number'' (blocksUpdateNumberWithHash (snEnv p) True (snBlockchain p) (brHeight r) (brBlockHash r))
        else wrapErr ''create block number'' (blocksCreate (snEnv p) True (snBlockchain p) (brHeight r) (brBlockHash r))) s1 = (Val u, s')"
      unfolding commitBody_def by (auto simp: op_Val split del: if_split)
    from createWebhooks_Val [OF c assms(2)] obtain js where js: "list_all2 (paramsFor p) (brWhParams r) qs"
      "list_all2 (jobFor p) (brWhParams r) js" "apTables s0 = apTables s" "apTx s0 = Some (\<lambda>t. t\<lparr>tbJobs := tbJobs t @ js\<rparr>)"
      by (auto simp: comp_def)
    from eventsBatchCreate_Val [OF e js(4)] obtain now where t: "apTables s1 = apTables s0"
      "apTx s1 = Some ((\<lambda>t. t\<lparr>tbEvents := fold (insertEventWebhook now) qs (tbEvents t)\<rparr>) \<circ> (\<lambda>t. t\<lparr>tbJobs := tbJobs t @ js\<rparr>))"
      by blast
    then have "apTx s1 = Some (\<lambda>t. t\<lparr>tbEvents := fold (insertEventWebhook now) qs (tbEvents t), tbJobs := tbJobs t @ js\<rparr>)"
      by (simp add: fun_eq_iff)
    with t(1) js(3) show ?thesis
      by (intro exI [of _ s1] exI [of _ now] exI [of _ qs] exI [of _ js] conjI js(1,2) row) simp_all
  qed
  then obtain s1 now qs js where js: "list_all2 (paramsFor p) (brWhParams r) qs" "list_all2 (jobFor p) (brWhParams r) js"
     and s1: "apTables s1 = apTables s"
     "apTx s1 = Some (\<lambda>t. t\<lparr>tbEvents := fold (insertEventWebhook now) qs (tbEvents t), tbJobs := tbJobs t @ js\<rparr>)"
     and row: "(if ex then wrapErr ''update block number'' (blocksUpdateNumberWithHash (snEnv p) True (snBlockchain p) (brHeight r) (brBlockHash r))
      else wrapErr ''create block number'' (blocksCreate (snEnv p) True (snBlockchain p) (brHeight r) (brBlockHash r))) s1 = (Val u, s')"
    by blast
  let ?f = "(\<lambda>t. t\<lparr>tbBlocks := setBlock ex (snBlockchain p) (brHeight r) (brBlockHash r) (tbBlocks t)\<rparr>) \<circ>
    (\<lambda>t. t\<lparr>tbEvents := fold (insertEventWebhook now) qs (tbEvents t), tbJobs := tbJobs t @ js\<rparr>)"
  have t: "?f t = \<lparr>tbBlocks = setBlock ex (snBlockchain p) (brHeight r) (brBlockHash r) (tbBlocks t),
     tbEvents = fold (insertEventWebhook now) qs (tbEvents t), tbJobs = tbJobs t @ js\<rparr>" for t
    by (cases t) simp
  from blockRow_Val [OF row s1(2)] s1(1) have
    "apTx s' = Some ?f" "apTables s' = apTables s" "0 < brHeight r"
    "ex \<or> (\<forall>x \<in> set (tbBlocks (apTables s)). pbBlockchain x \<noteq> snBlockchain p)" by simp_all
  with js t show ?thesis unfolding blockTables_def by blast
qed

text \<open>A transaction of a block has happened, or nothing has.\<close>

definition blockCommitted :: "'e scan_params \<Rightarrow> block_result \<Rightarrow> bool \<Rightarrow> ('e, 'z) app_scheme \<Rightarrow> ('e, 'z) app_scheme \<Rightarrow> bool" where
  "blockCommitted p r ex s s' \<longleftrightarrow> blockTables p r ex (apTables s) (apTables s') \<and>
     (wdDb (apWorld s'))\<lparr>dbHotWallets := []\<rparr> = (wdDb (apWorld s))\<lparr>dbHotWallets := []\<rparr>"

definition sameTables :: "('e, 'z) app_scheme \<Rightarrow> ('e, 'z) app_scheme \<Rightarrow> bool" where
  "sameTables s s' \<longleftrightarrow> apTables s' = apTables s \<and> wdDb (apWorld s') = wdDb (apWorld s)"

lemma commitTx_cases:
  assumes "inAppTx (snEnv p) (commitBody p r ex) s = (res, s')"
  obtains (none) "sameTables s s'" "\<forall>u. res \<noteq> Val u"
  | (all) "blockCommitted p r ex s s'"
      "res = Val () \<or> (\<exists>e y y'. res = Err e \<and> envFault (snEnv p) ''commit'' y = (FaultAfter e, y'))"
  using assms held_commitBody
proof (cases rule: inAppTx_cases)
  case none
  then show thesis by (intro that(1)) (simp_all add: sameTables_def)
next
  case (all x e s2)
  let ?s1 = "s\<lparr>apWorld := (apWorld s)\<lparr>wdExt := e, wdTx := Some id\<rparr>, apTx := Some id\<rparr>"
  from commitBody_Val [OF all(1)] obtain f where f: "apTx s2 = Some f" "apTables s2 = apTables s"
    "blockTables p r ex (apTables s) (f (apTables s))" by auto
  have h: "hotPart (apWorld s2) = Some (\<lambda>d. d\<lparr>dbHotWallets := []\<rparr>)"
    using keepsD [OF hot_commitBody all(1)] by (simp add: hotPart_def)
  then obtain g where g: "wdTx (apWorld s2) = Some g" "\<And>d. (g d)\<lparr>dbHotWallets := []\<rparr> = d\<lparr>dbHotWallets := []\<rparr>"
    by (auto simp: hotPart_def dest: fun_cong)
  have d: "wdDb (apWorld s2) = wdDb (apWorld s)"
    using heldA_open [OF _ _ keepsD [OF held_commitBody all(1)]] by simp
  show thesis
    by (rule that(2)) (use all(2-4) f g d in \<open>simp_all add: blockCommitted_def dbView_def tbView_def\<close>)
qed

lemma keeps_beside_commit:
  assumes "\<And>s x y z. v (s\<lparr>apWorld := x, apTables := y, apTx := z\<rparr>) = v s"
  shows "keeps v (commitBody p r ex)"
proof -
  have a: "v (s\<lparr>apWorld := x\<rparr>) = v s" "v (s\<lparr>apTx := z\<rparr>) = v s" "v (s\<lparr>apTables := y\<rparr>) = v s" for s x y z
    using assms [where s = s and x = x and y = "apTables s" and z = "apTx s"]
      assms [where s = s and x = "apWorld s" and y = "apTables s" and z = z]
      assms [where s = s and x = "apWorld s" and y = y and z = "apTx s"] by simp_all
  have t: "keeps v (tbExec env True nm rf g)" for env nm rf g
    by (rule keepsI)
      (auto simp: tbExec_def Let_def tbApply_def appExt_def a split: prod.split db_fault.split option.split)
  show ?thesis
    by (intro keeps_commitBody t)
      (unfold createWebhook_def beforeCreateWhHandler_def insertJob_def, intro keeps_intros keeps_liftA t a)
qed

section \<open>What the loop leaves alone\<close>

text \<open>All that fetching must not change.\<close>

definition store :: "'e scanner \<Rightarrow> tables \<times> db \<times> int \<times> int" where
  "store s = (apTables s, wdDb (apWorld s), scLastParsed s, scLastNode s)"

lemma keeps_store_liftA: "keeps wdDb m \<Longrightarrow> keeps store (liftA m)"
  by (rule keepsI) (auto simp: liftA_def store_def dest: keepsD split: prod.splits)

lemma keeps_store_liftAE [keeps_intros]: "keeps store (liftAE m)"
  unfolding liftAE_def by (rule keeps_store_liftA, rule keepsI) (simp add: liftExt_def split: prod.split)

lemma keeps_store_tbRead: "keeps store (tbRead env tx nm f)"
  by (rule keepsI) (auto simp: tbRead_def ofSum_def op_defs appExt_def store_def split: prod.split db_fault.split sum.split)

lemma keeps_store_sleep [keeps_intros]: "keeps store (scSleep p d)"
  unfolding scSleep_def by (rule keeps_modS) (simp add: store_def appExt_def)

lemma keeps_fetch [keeps_intros]: "keeps store (fetchBlockData p h)"
  unfolding fetchBlockData_def checkEvent_def checkAddress_def
  by (intro keeps_intros keeps_store_liftA keeps_checkWallet)

lemma keeps_fetchEach [keeps_intros]: "keeps store (fetchEach p hs)"
  by (induction hs) (auto intro: keeps_intros)

lemma keeps_loadBlocks [keeps_intros]: "keeps store (loadBlocks p a b)"
  unfolding loadBlocks_def by (intro keeps_intros)

text \<open>A batch holds the blocks of its range, each one fetched.\<close>

lemma fetchBlockData_height: "fetchBlockData p h s = (Val r, s') \<Longrightarrow> brHeight r = h"
  unfolding fetchBlockData_def by (auto simp: op_Val)

lemma fetchEach_heights:
  "fetchEach p hs s = (Val xs, s') \<Longrightarrow> allResults xs = Inr rs \<Longrightarrow> map brHeight rs = hs"
proof (induction hs arbitrary: s xs rs)
  case Nil
  then show ?case by (auto simp: ret_def)
next
  case (Cons h hs)
  then obtain x s1 ys where f: "tryE (fetchBlockData p h) s = (Val x, s1)" and e: "fetchEach p hs s1 = (Val ys, s')"
    and xs: "xs = x # ys" by (auto simp: op_Val)
  with Cons.prems(2) obtain r ws where r: "x = Inr r" "allResults ys = Inr ws" "rs = r # ws"
    by (cases x) (auto split: sum.split_asm)
  with f have "fetchBlockData p h s = (Val r, s1)" by (simp add: tryE_Val)
  with r Cons.IH [OF e r(2)] show ?case by (auto dest: fetchBlockData_height)
qed

lemma loadBlocks_heights: "loadBlocks p a b s = (Val rs, s') \<Longrightarrow> map brHeight rs = [a..b]"
  unfolding loadBlocks_def bnd_Val
  by (elim exE conjE, rename_tac xs s1, case_tac "allResults xs") (auto simp: ofSum_def fail_Val ret_Val dest: fetchEach_heights)

section \<open>Links\<close>

lemma validateChain_append:
  "validateChain (xs @ ys) h = None \<longleftrightarrow> validateChain xs h = None \<and> validateChain ys (afterBatch xs h) = None"
  by (induction xs arbitrary: h) (auto simp: afterBatch_def)

lemma afterBatch_append: "afterBatch (xs @ ys) h = afterBatch ys (afterBatch xs h)"
  by (simp add: afterBatch_def)

text \<open>The commits of a stretch of blocks, one after the other, with fetching between them.\<close>

inductive commitRun :: "'e scan_params \<Rightarrow> bool \<Rightarrow> 'e scanner \<Rightarrow> block_result list \<Rightarrow> 'e scanner \<Rightarrow> bool" for p where
  none: "store s' = store s \<Longrightarrow> commitRun p ex s [] s'"
| block: "store s1 = store s \<Longrightarrow> commitBlockResult p r ex s1 = (Val (), s2) \<Longrightarrow> commitRun p True s2 rs s' \<Longrightarrow>
     commitRun p ex s (r # rs) s'"

lemma commitRun_start: "commitRun p ex s rs s' \<Longrightarrow> store s = store s0 \<Longrightarrow> commitRun p ex s0 rs s'"
  by (erule commitRun.cases) (auto intro: commitRun.intros)

lemma commitRun_append:
  "commitRun p ex s rs s1 \<Longrightarrow> commitRun p (ex \<or> rs \<noteq> []) s1 rs' s' \<Longrightarrow> commitRun p ex s (rs @ rs') s'"
  by (induction rule: commitRun.induct) (auto intro: commitRun_start commitRun.block)

lemma commitAll_run:
  assumes "commitAll p rs ex s = (res, s')"
  obtains (all) "res = Val ()" "commitRun p ex s rs s'"
  | (stop) rs1 r rs2 s1 x where "rs = rs1 @ r # rs2" "commitRun p ex s rs1 s1"
      "commitBlockResult p r (ex \<or> rs1 \<noteq> []) s1 = (x, s')" "x \<noteq> Val ()" "res \<noteq> Val ()"
  using assms
proof (induction rs arbitrary: ex s thesis)
  case Nil
  then show ?case by (auto simp: ret_def intro: commitRun.none)
next
  case (Cons r rs)
  obtain x s1 where c: "commitBlockResult p r ex s = (x, s1)" by (rule prod.exhaust)
  show ?case
  proof (cases "x = Val ()")
    case True
    with Cons.prems(3) c have a: "commitAll p rs True s1 = (res, s')" by (simp add: bnd_def wrapErr_def)
    show ?thesis
    proof (rule Cons.IH [OF _ _ a])
      assume "res = Val ()" "commitRun p True s1 rs s'"
      with True c show ?thesis by (intro Cons.prems(1)) (auto intro: commitRun.block)
    next
      fix rs1 r' rs2 s2 y
      assume "rs = rs1 @ r' # rs2" "commitRun p True s1 rs1 s2"
        "commitBlockResult p r' (True \<or> rs1 \<noteq> []) s2 = (y, s')" "y \<noteq> Val ()" "res \<noteq> Val ()"
      with True c show ?thesis by (intro Cons.prems(2) [of "r # rs1" r' rs2 s2 y]) (auto intro: commitRun.block)
    qed
  next
    case False
    then have "s' = s1 \<and> res \<noteq> Val ()" using Cons.prems(3) c by (cases x) (auto simp: bnd_def wrapErr_def)
    with False c show ?thesis by (intro Cons.prems(2) [of "[]" r rs s x]) (auto intro: commitRun.none)
  qed
qed

text \<open>
  Each block links to the one before it, the first one to the hash \<open>h\<close>. A hash that is not known, an empty
  string, links to every block.
\<close>

definition linked :: "string \<Rightarrow> block_result list \<Rightarrow> bool" where
  "linked h rs \<longleftrightarrow> (\<forall>(known, r) \<in> set (zip (h # map brBlockHash rs) rs). brPrevHash r = known \<or> brPrevHash r = '''' \<or> known = '''')"

lemma validateChain_linked: "validateChain rs h = None \<longleftrightarrow> linked h rs"
proof (induction rs arbitrary: h)
  case (Cons r rs)
  then show ?case by (auto simp: linked_def)
qed (simp add: linked_def)

lemma linked_first [simp]: "linked h []" "linked '''' [r]"
  by (simp_all add: linked_def)

lemmas linked_append = validateChain_append [unfolded validateChain_linked]

text \<open>
  How a loop over the blocks from \<open>a\<close> on ends after the blocks \<open>rs\<close> were committed: nothing more is changed, or the
  commit of the next block fails, or the blocks that are loaded next do not link and are rolled back.
\<close>

definition scanEnd :: "'e scan_params \<Rightarrow> bool \<Rightarrow> int \<Rightarrow> string \<Rightarrow> block_result list \<Rightarrow> 'e scanner \<Rightarrow> unit outcome \<Rightarrow> 'e scanner \<Rightarrow> bool" where
  "scanEnd p ex a h rs s res s' \<longleftrightarrow>
     store s' = store s \<or>
     (\<exists>s1 r x. store s1 = store s \<and> brHeight r = a + int (length rs) \<and> commitBlockResult p r (ex \<or> rs \<noteq> []) s1 = (x, s') \<and>
        x \<noteq> Val () \<and> res \<noteq> Val ()) \<or>
     (\<exists>s0 s1 b bs. store s0 = store s \<and> loadBlocks p (a + int (length rs)) b s0 = (Val bs, s1) \<and> \<not> linked (afterBatch rs h) bs \<and>
        handleRollback p s1 = (res, s'))"

definition batchRun :: "'e scan_params \<Rightarrow> int \<Rightarrow> int \<Rightarrow> bool \<Rightarrow> string \<Rightarrow> 'e scanner \<Rightarrow> unit outcome \<Rightarrow> 'e scanner \<Rightarrow> bool" where
  "batchRun p n a ex h s res s' \<longleftrightarrow>
     (\<exists>rs s1. commitRun p ex s rs s1 \<and> map brHeight rs = [a..a + int (length rs) - 1] \<and>
        (rs = [] \<or> a + int (length rs) - 1 \<le> n) \<and> linked h rs \<and> scanEnd p ex a h rs s1 res s')"

lemma batchRun_now: "store s1 = store s \<Longrightarrow> scanEnd p ex a h [] s1 res s' \<Longrightarrow> batchRun p n a ex h s res s'"
  unfolding batchRun_def by (intro exI [of _ "[]"] exI [of _ s1]) (auto intro: commitRun.none)

lemma upto_take: "xs @ y # ys = [a..b] \<Longrightarrow> xs = [a..a + int (length xs) - 1] \<and> y = a + int (length xs) \<and> y \<le> b"
proof (induction xs arbitrary: a)
  case Nil
  then show ?case by (cases "a \<le> b") (auto simp: upto_rec1)
next
  case (Cons x xs)
  then have ab: "a \<le> b" by (cases "a \<le> b") auto
  with Cons.prems have x: "x = a" and r: "xs @ y # ys = [a + 1..b]" by (auto simp: upto_rec1)
  from Cons.IH [OF r] x show ?case by (auto simp: upto_rec1 algebra_simps)
qed

lemma batchRun_extend:
  assumes "commitRun p ex s bs s2" and hs: "map brHeight bs = [a..a + c - 1]" and c: "0 < c" "a + c - 1 \<le> n"
    and v: "linked h bs" and more: "batchRun p n (a + c) (ex \<or> bs \<noteq> []) (afterBatch bs h) s2 res s'"
  shows "batchRun p n a ex h s res s'"
proof -
  from more obtain rs s3 where q: "commitRun p (ex \<or> bs \<noteq> []) s2 rs s3" "map brHeight rs = [a + c..a + c + int (length rs) - 1]"
    "rs = [] \<or> a + c + int (length rs) - 1 \<le> n" "linked (afterBatch bs h) rs"
    "scanEnd p (ex \<or> bs \<noteq> []) (a + c) (afterBatch bs h) rs s3 res s'"
    unfolding batchRun_def by blast
  have len: "int (length bs) = c" using arg_cong [OF hs, of length] c by simp
  then have ne: "bs \<noteq> []" using c by auto
  have h2: "map brHeight (bs @ rs) = [a..a + int (length (bs @ rs)) - 1]"
  proof (cases "rs = []")
    case False
    have "[a..a + c + int (length rs) - 1] = [a..a + c - 1] @ [a + c..a + c + int (length rs) - 1]"
      by (rule upto_split1) (use False c in \<open>cases rs; simp\<close>)+
    then show ?thesis using hs q(2) len by (simp add: algebra_simps)
  qed (use hs len in simp)
  have last: "a + int (length (bs @ rs)) - 1 \<le> n" using q(3) len c by (cases "rs = []") auto
  have "commitRun p ex s (bs @ rs) s3" using commitRun_append [OF assms(1) q(1)] .
  moreover have "scanEnd p ex a h (bs @ rs) s3 res s'"
    using q(5) ne len unfolding scanEnd_def by (simp add: algebra_simps afterBatch_append)
  ultimately show ?thesis
    unfolding batchRun_def using h2 last v q(4) by (intro exI [of _ "bs @ rs"] exI [of _ s3]) (simp add: linked_append)
qed

lemma batchRun_stop:
  assumes "commitRun p ex s rs1 s3" and "map brHeight (rs1 @ r # rs2) = [a..b]" and "b \<le> n"
    and "linked h (rs1 @ r # rs2)"
    and "commitBlockResult p r (ex \<or> rs1 \<noteq> []) s3 = (x, s')" and "x \<noteq> Val ()" and "res \<noteq> Val ()"
  shows "batchRun p n a ex h s res s'"
proof -
  from assms(2) have "map brHeight rs1 @ brHeight r # map brHeight rs2 = [a..b]" by simp
  from upto_take [OF this] have t: "map brHeight rs1 = [a..a + int (length rs1) - 1]"
    "brHeight r = a + int (length rs1)" "a + int (length rs1) - 1 \<le> n" using assms(3) by simp_all
  have "scanEnd p ex a h rs1 s3 res s'" unfolding scanEnd_def using assms(5-7) t(2) by blast
  then show ?thesis
    unfolding batchRun_def using t assms(1) assms(4) [unfolded linked_append] by blast
qed

lemma runBatches_run:
  assumes "runBatches p n a ex h s = (res, s')" and "\<not> ex \<longrightarrow> h = '''' \<and> a = n"
  shows "batchRun p n a ex h s res s'"
  using assms
proof (induction "nat (n + 1 - a)" arbitrary: a ex h s rule: less_induct)
  case less
  let ?b = "min (a + chunkOf p - 1) n"
  note run = less.prems(1) [unfolded runBatches.simps [of p n a]]
  show ?case
  proof (cases "n < a")
    case True
    then have "scSleep p (100 * millisecond) s = (res, s')" using run by simp
    then have "store s' = store s" by (rule keepsD [OF keeps_store_sleep])
    then show ?thesis by (intro batchRun_now [of s]) (simp_all add: scanEnd_def)
  next
    case False
    show ?thesis
    proof (cases "envCtx (snEnv p) (wdExt (apWorld s)) = None")
      case ctx: False
      then show ?thesis using run False by (intro batchRun_now [of s]) (auto simp: scanEnd_def bnd_def getS_def ret_def)
    next
      case ctx: True
      obtain x s1 where l: "loadBlocks p a ?b s = (x, s1)" by (rule prod.exhaust)
      have st: "store s1 = store s" using keepsD [OF keeps_loadBlocks l] .
      show ?thesis
      proof (cases x)
        case (Val bs)
        note hs = loadBlocks_heights [OF l [unfolded Val]]
        show ?thesis
        proof (cases "ex \<and> \<not> linked h bs")
          case True
          then have "handleRollback p s1 = (res, s')"
            using run False ctx l Val by (simp add: bnd_def getS_def wrapErr_def Let_def validateChain_linked)
          then have "scanEnd p ex a h [] s res s'"
            using True l Val unfolding scanEnd_def
            by (intro disjI2 exI [of _ s] exI [of _ s1] exI [of _ ?b] exI [of _ bs]) (simp add: afterBatch_def)
          then show ?thesis by (intro batchRun_now [of s]) simp_all
        next
          case ok: False
          obtain y s2 where c: "commitAll p bs ex s1 = (y, s2)" by (rule prod.exhaust)
          have b: "bnd (commitAll p bs ex) (\<lambda>_. runBatches p n (a + chunkOf p) (ex \<or> bs \<noteq> []) (afterBatch bs h)) s1 = (res, s')"
            using run False ctx l Val ok by (simp add: bnd_def getS_def wrapErr_def Let_def validateChain_linked split: if_split_asm)
          have one: "bs = [hd bs]" if "\<not> ex"
          proof -
            from less.prems(2) that have "[a..?b] = [a]" using chunkOf_pos [of p] by simp
            with hs show ?thesis by (cases bs) auto
          qed
          have v: "linked h bs"
          proof (cases ex)
            case False
            then have "h = ''''" using less.prems(2) by simp
            then show ?thesis using one [OF False] linked_first(2) by metis
          qed (use ok in simp)
          from c show ?thesis
          proof (cases rule: commitAll_run)
            case all
            then have r: "runBatches p n (a + chunkOf p) (ex \<or> bs \<noteq> []) (afterBatch bs h) s2 = (res, s')"
              using b c by (simp add: bnd_def)
            have n: "a \<le> ?b" using False chunkOf_pos [of p] by simp
            have len: "int (length bs) = ?b - a + 1" using arg_cong [OF hs, of length] n by simp
            then have ne: "bs \<noteq> []" using n by auto
            note front = commitRun_start [OF all(2) st]
            show ?thesis
            proof (cases "n < a + chunkOf p")
              case True
              then have "scSleep p (100 * millisecond) s2 = (res, s')" using r [unfolded runBatches.simps [of p n "a + chunkOf p"]] by simp
              then have "store s' = store s2" by (rule keepsD [OF keeps_store_sleep])
              then show ?thesis
                unfolding batchRun_def using front hs len v True by (intro exI [of _ bs] exI [of _ s2]) (simp add: scanEnd_def)
            next
              case more: False
              then have bb: "?b = a + chunkOf p - 1" by simp
              have m: "batchRun p n (a + chunkOf p) (ex \<or> bs \<noteq> []) (afterBatch bs h) s2 res s'"
                by (rule less.hyps [OF _ r]) (use ne chunkOf_step [OF False] in auto)
              show ?thesis
                by (rule batchRun_extend [OF front hs [unfolded bb] chunkOf_pos _ v m]) (use more in simp)
            qed
          next
            case (stop rs1 r rs2 s3 z)
            have "bnd (commitAll p bs ex) (\<lambda>_. runBatches p n (a + chunkOf p) (ex \<or> bs \<noteq> []) (afterBatch bs h)) s1 = (y, s2)"
              using c stop(5) by (cases y) (simp_all add: bnd_def)
            then have e: "res = y" "s' = s2" using b by simp_all
            show ?thesis
              by (rule batchRun_stop [OF commitRun_start [OF stop(2) st] hs [unfolded stop(1)] _ v [unfolded stop(1)]])
                (use stop(3-5) e in simp_all)
          qed
        qed
      qed (use run False ctx l st in \<open>auto simp: bnd_def getS_def wrapErr_def Let_def scanEnd_def intro!: batchRun_now [of s]\<close>)
    qed
  qed
qed

end
