(* ===== verification/ScannerProps.thy ===== *)
theory ScannerProps
  imports ScannerFacts
begin

text \<open>
  The properties of the scanner of a blockchain: a block is committed as a whole, the committed blocks
  follow and link to each other, a block that does not link is rolled back, and no event of an owner's
  wallet is missed.
\<close>

section \<open>Commits\<close>

text \<open>
  C10. The commit of a block is all or nothing: either the webhooks and the jobs of all its events, one of each
  per event and in their order, and the number and hash of the block are stored together, or no table
  has changed. The scanner takes the block for parsed only when it is told of the success.
\<close>

theorem block_is_committed_as_a_whole:
  fixes s :: "'e scanner"
  assumes "commitBlockResult p r ex s = (res, s')"
  shows "blockCommitted p r ex s s' \<and> scLastParsed s' = (if res = Val () then brHeight r else scLastParsed s) \<or>
    sameTables s s' \<and> scLastParsed s' = scLastParsed s \<and> res \<noteq> Val ()"
proof -
  obtain q s1 where t: "inAppTx (snEnv p) (commitBody p r ex) s = (q, s1)" by (rule prod.exhaust)
  have k: "scLastParsed s1 = scLastParsed s"
    by (rule keepsD [OF keeps_inAppTx t], simp) (rule keeps_beside_commit, simp)
  have e: "(res, s') = (case q of Val u \<Rightarrow> (Val (), s1\<lparr>scLastParsed := brHeight r\<rparr>) | Err e \<Rightarrow> (Err e, s1) | Panic m \<Rightarrow> (Panic m, s1))"
    using assms t by (auto simp: commitBlockResult_def bnd_def modS_def split: outcome.split_asm)
  from t show ?thesis
    by (cases rule: commitTx_cases) (use e k in \<open>auto simp: blockCommitted_def sameTables_def split: outcome.split_asm\<close>)
qed

section \<open>Links\<close>

text \<open>What the scanner knows of the last block: its hash, or nothing if it cannot be read.\<close>

definition knownHash :: "'e scan_params \<Rightarrow> 'e scanner \<Rightarrow> string \<Rightarrow> bool" where
  "knownHash p s h \<longleftrightarrow> h = '''' \<or> (\<exists>r. filter (\<lambda>r. pbBlockchain r = snBlockchain p) (tbBlocks (apTables s)) \<noteq> [] \<and>
     r = hd (filter (\<lambda>r. pbBlockchain r = snBlockchain p) (tbBlocks (apTables s))) \<and> h = textString (pbHash r))"

definition firstBlock :: "'e scanner \<Rightarrow> int" where
  "firstBlock s = (if scLastParsed s = -1 then scLastNode s else scLastParsed s + 1)"

lemma lastHash_known:
  assumes "catchErr (bnd (blocksLastBlock (snEnv p) (snBlockchain p)) (\<lambda>b. ret (snd b))) (\<lambda>_. ret '''') s = (x, s1)"
  shows "(\<exists>m. x = Panic m) \<or> (\<exists>h. x = Val h \<and> knownHash p s h)"
proof -
  obtain q s2 where b: "blocksLastBlock (snEnv p) (snBlockchain p) s = (q, s2)" by (rule prod.exhaust)
  show ?thesis
  proof (cases q)
    case (Val y)
    have v: "tbView False s = apTables s" by (simp add: tbView_def split: option.split)
    from b Val obtain r where "qBlockLast (snEnv p) ''processed_blocks.LastBlock'' (snBlockchain p) s = (Val r, s2)"
      and y: "snd y = textString (pbHash r)" by (auto simp: blocksLastBlock_def op_Val noRows_Val)
    then have "oneRow (filter (\<lambda>r. pbBlockchain r = snBlockchain p) (tbBlocks (apTables s))) = Inr r"
      unfolding qBlockLast_def by (auto simp: tbRead_def v ofSum_def op_defs split: prod.split_asm db_fault.split_asm sum.split_asm)
    then have "knownHash p s (snd y)" using y by (auto simp: knownHash_def oneRow_def split: list.split_asm)
    then show ?thesis using assms b Val by (auto simp: op_defs)
  qed (use assms b in \<open>auto simp: op_defs knownHash_def\<close>)
qed


lemma rollbackTx:
  fixes s :: "'e scanner"
  assumes "inAppTx env (wrapErr m (blocksUpdateNumberWithHash env True b n h)) s = (res, s')"
  shows "(\<exists>rows. apTables s' = (apTables s)\<lparr>tbBlocks := rows\<rparr> \<and> (res = Val () \<longrightarrow> 0 < n \<and> rows = setBlock True b n h (tbBlocks (apTables s)))) \<and>
    wdDb (apWorld s') = wdDb (apWorld s) \<and> scLastParsed s' = scLastParsed s"
proof -
  let ?upd = "wrapErr m (blocksUpdateNumberWithHash env True b n h) :: ('e scanner) act"
  have held: "keeps heldA ?upd"
    unfolding blocksUpdateNumberWithHash_def qBlockUpdateWithHash_def by (intro keeps_intros heldA_tbExec)
  have "keeps scLastParsed ?upd"
    unfolding blocksUpdateNumberWithHash_def qBlockUpdateWithHash_def
    by (intro keeps_intros, rule keepsI)
      (auto simp: tbExec_def Let_def tbApply_def appExt_def split: prod.split db_fault.split option.split)
  from keepsD [OF keeps_inAppTx [OF _ this] assms] have last: "scLastParsed s' = scLastParsed s" by simp
  from assms held show ?thesis
  proof (cases rule: inAppTx_cases)
    case none
    with last show ?thesis by (auto intro!: exI [of _ "tbBlocks (apTables s)"])
  next
    case (all x e s2)
    let ?s1 = "s\<lparr>apWorld := (apWorld s)\<lparr>wdExt := e, wdTx := Some id\<rparr>, apTx := Some id\<rparr>"
    have row: "(if True then ?upd else wrapErr m (blocksCreate env True b n h)) ?s1 = (Val x, s2)" using all(1) by simp
    have "wdTx (apWorld s2) = Some id"
      using all(1) by (auto simp: blocksUpdateNumberWithHash_def qBlockUpdateWithHash_def op_Val tbExec_def Let_def tbApply_def
          appExt_def split: prod.split_asm db_fault.split_asm option.split_asm)
    moreover have "wdDb (apWorld s2) = wdDb (apWorld s)" using heldA_open [OF _ _ keepsD [OF held all(1)]] by simp
    moreover from blockRow_Val [OF row] have "apTables s2 = apTables s" "0 < n"
      "apTx s2 = Some (\<lambda>t. t\<lparr>tbBlocks := setBlock True b n h (tbBlocks t)\<rparr>)" by auto
    ultimately show ?thesis using all(2,3) last by (auto simp: dbView_def tbView_def)
  qed
qed

text \<open>The block a rollback restarts from, and the hash of its predecessor, as the explorer proxy tells them.\<close>

definition revertedTo :: "'e scan_params \<Rightarrow> 64 word \<Rightarrow> string \<Rightarrow> bool" where
  "revertedTo p n hash \<longleftrightarrow> (\<exists>x y z header y'. getRollbackStartingBlock (snProxy p) (snBlockchain p) x = (Val n, y) \<and>
     pxGetBlock (snProxy p) (convertBlockchain (snBlockchain p)) (word_of_int (sint n - 1)) z = (Val header, y') \<and> hash = bhHash header)"

text \<open>
  C21. A rollback takes back nothing that was reported: it leaves the webhooks and the jobs alone. When it succeeds
  the scanner goes on with the block that the last incident names, and the tables hold its predecessor.
\<close>

theorem rollback_restarts_at_the_incident:
  fixes s :: "'e scanner"
  assumes "handleRollback p s = (res, s')"
  shows "tbEvents (apTables s') = tbEvents (apTables s) \<and> tbJobs (apTables s') = tbJobs (apTables s) \<and>
    wdDb (apWorld s') = wdDb (apWorld s) \<and>
    (res = Val () \<longrightarrow> (\<exists>n hash. revertedTo p n hash \<and> scLastParsed s' = sint n - 1 \<and> 1 < sint n \<and>
       tbBlocks (apTables s') = setBlock True (snBlockchain p) (sint n - 1) hash (tbBlocks (apTables s))))"
proof -
  let ?ask = "wrapErr ''get rollback starting block'' (liftAE (getRollbackStartingBlock (snProxy p) (snBlockchain p))) :: ('e scanner, _) op"
  let ?get = "\<lambda>n. wrapErr ''get rollback block hash''
      (liftAE (pxGetBlock (snProxy p) (convertBlockchain (snBlockchain p)) (word_of_int (sint n - 1)))) :: ('e scanner, _) op"
  let ?upd = "\<lambda>n header. wrapErr ''update processed block after rollback''
      (blocksUpdateNumberWithHash (snEnv p) True (snBlockchain p) (sint n - 1) (bhHash header)) :: ('e scanner) act"
  have k: "keeps store ?ask" "keeps store (?get n)" for n by (intro keeps_intros)+
  obtain q s1 where a: "?ask s = (q, s1)" by (rule prod.exhaust)
  note s1 = keepsD [OF k(1) a]
  show ?thesis
  proof (cases q)
    case (Val n)
    obtain q2 s2 where g: "?get n s1 = (q2, s2)" by (rule prod.exhaust)
    note s2 = keepsD [OF k(2) g]
    show ?thesis
    proof (cases q2)
      case header: (Val header)
      let ?s3 = "s2\<lparr>scLastParsed := sint n - 1\<rparr>"
      have t: "inAppTx (snEnv p) (?upd n header) ?s3 = (res, s')"
        using assms a g Val header by (simp add: handleRollback_def bnd_def Let_def modS_def)
      from a Val g header have src: "revertedTo p n (bhHash header)"
        unfolding revertedTo_def by (fastforce simp: liftAE_def op_Val simp del: of_int_diff word_of_int_inverse)
      from rollbackTx [OF t] src s1 s2 show ?thesis by (auto simp: store_def intro!: exI [of _ n])
    qed (use assms a g Val s1 s2 in \<open>auto simp: handleRollback_def bnd_def Let_def store_def\<close>)
  qed (use assms a s1 in \<open>auto simp: handleRollback_def bnd_def store_def\<close>)
qed

section \<open>Events\<close>

text \<open>
  A row of a wallet with the address, whatever its kind; and faults of the connection that do not look
  like a missing row.
\<close>

definition walletRow :: "db \<Rightarrow> blockchain_type \<Rightarrow> string \<Rightarrow> bool" where
  "walletRow d b a \<longleftrightarrow> (\<exists>w \<in> set (dbHotWallets d). walletIs b a w) \<or> (\<exists>w \<in> set (dbProcessingWallets d). walletIs b a w) \<or>
     (\<exists>w \<in> set (dbColdWallets d). walletIs b a w)"

definition missingRow :: "goerr \<Rightarrow> bool" where
  "missingRow e \<longleftrightarrow> errIs e errNoRows \<or> errIs e storeErrNotFound \<or> errIs e errAddressNotFound"

definition honestFaults :: "'e env \<Rightarrow> bool" where
  "honestFaults env \<longleftrightarrow> (\<forall>n x y e. envFault env n x \<in> {(FaultBefore e, y), (FaultAfter e, y)} \<longrightarrow> \<not> missingRow e)"

lemma honest_read:
  assumes "noRowsToNotFound (dbRead env False nm (\<lambda>d. oneRow (filter P (rows d)))) w = (Err e, w')" and "honestFaults env"
  shows "\<not> errIs e errAddressNotFound \<and> (errIs e storeErrNotFound \<longrightarrow> filter P (rows (wdDb w)) = [])"
proof -
  obtain fl y where f: "envFault env nm (wdExt w) = (fl, y)" by (rule prod.exhaust)
  have v: "dbView False w = wdDb w" by (rule dbView_outside)
  have h: "\<not> missingRow e'" if "fl = FaultBefore e' \<or> fl = FaultAfter e'" for e'
    using assms(2) f that unfolding honestFaults_def by blast
  show ?thesis
  proof (cases fl)
    case NoFault
    with assms(1) f v show ?thesis
      by (auto simp: noRowsToNotFound_def dbRead_def ofSum_def oneRow_def op_defs storeErrNotFound_def errNoRows_def errAddressNotFound_def
          split: list.split_asm)
  next
    case (FaultBefore e')
    with assms(1) f h [of e'] show ?thesis
      by (auto simp: noRowsToNotFound_def dbRead_def op_defs missingRow_def split: if_split_asm)
  next
    case (FaultAfter e')
    with assms(1) f h [of e'] show ?thesis
      by (auto simp: noRowsToNotFound_def dbRead_def op_defs missingRow_def split: if_split_asm)
  qed
qed

lemma guard_errors: "\<not> errIs (invalidBlockchain m b) errAddressNotFound" "\<not> errIs (invalidBlockchain m b) storeErrNotFound"
  "\<not> errIs storeErrEmptyAddress errAddressNotFound" "\<not> errIs storeErrEmptyAddress storeErrNotFound"
  by (simp_all add: invalidBlockchain_def storeErrEmptyAddress_def errAddressNotFound_def storeErrNotFound_def)

lemma bnd_guard_Err: "bnd (guardE c e0) (\<lambda>_. m) w = (Err e, w') \<longleftrightarrow> (if c then m w = (Err e, w') else e = e0 \<and> w' = w)"
  by (auto simp: op_defs)

lemma lookup_missing:
  assumes "honestFaults env"
  shows "hotGetByBlockchainAndAddress env b a w = (Err e, w') \<Longrightarrow>
      \<not> errIs e errAddressNotFound \<and> (errIs e storeErrNotFound \<longrightarrow> (\<forall>x \<in> set (dbHotWallets (wdDb w)). \<not> walletIs b a x))"
    and "processingGetByBlockchainAndAddress env b a w = (Err e, w') \<Longrightarrow>
      \<not> errIs e errAddressNotFound \<and> (errIs e storeErrNotFound \<longrightarrow> (\<forall>x \<in> set (dbProcessingWallets (wdDb w)). \<not> walletIs b a x))"
    and "coldGetByBlockchainAndAddress env b a w = (Err e, w') \<Longrightarrow>
      \<not> errIs e errAddressNotFound \<and> (errIs e storeErrNotFound \<longrightarrow> (\<forall>x \<in> set (dbColdWallets (wdDb w)). \<not> walletIs b a x))"
  unfolding hotGetByBlockchainAndAddress_def processingGetByBlockchainAndAddress_def coldGetByBlockchainAndAddress_def
    qHotGetByAddress_def qProcessingGetByAddress_def qColdGetByAddress_def bnd_guard_Err
  by (auto simp: guard_errors filter_empty_conv split: if_split_asm dest: honest_read [OF _ assms])

lemma lookupOrNext_Err: "lookupOrNext msg m f n w = (Err e, w') \<Longrightarrow>
   \<exists>e1 w1. m w = (Err e1, w1) \<and> (if errIs e1 storeErrNotFound then n w1 = (Err e, w') else e = Wrapf (msg @ '': '') e1)"
  by (auto simp: lookupOrNext_def op_defs split: prod.split_asm outcome.split_asm if_split_asm)

lemma checkWallet_missing:
  assumes "checkWallet env False b a w = (Err e, w')" and "errIs e errAddressNotFound" and "honestFaults env"
  shows "\<not> walletRow (wdDb w) b a"
proof -
  note miss = lookup_missing [OF assms(3)]
  have "checkWalletInDatabase env b a w = (Err e, w')"
    using assms(1,2) by (auto simp: checkWallet_def bnd_guard_Err guard_errors split: if_split_asm)
  note l1 = lookupOrNext_Err [OF this [unfolded checkWalletInDatabase_def]]
  then obtain e1 w1 where h: "hotGetByBlockchainAndAddress env b a w = (Err e1, w1)" and n1: "errIs e1 storeErrNotFound"
    and r1: "lookupOrNext ''find processing wallets'' (processingGetByBlockchainAndAddress env b a) (plainResult WalletTypeProcessing)
       (lookupOrNext ''find cold wallets'' (coldGetByBlockchainAndAddress env b a) (plainResult WalletTypeCold)
       (fail (Wrapf ''check wallet in database: '' errAddressNotFound))) w1 = (Err e, w')"
    using assms(2) miss(1) by (auto split: if_split_asm)
  from lookupOrNext_Err [OF r1] obtain e2 w2 where p: "processingGetByBlockchainAndAddress env b a w1 = (Err e2, w2)"
    and n2: "errIs e2 storeErrNotFound"
    and r2: "lookupOrNext ''find cold wallets'' (coldGetByBlockchainAndAddress env b a) (plainResult WalletTypeCold)
       (fail (Wrapf ''check wallet in database: '' errAddressNotFound)) w2 = (Err e, w')"
    using assms(2) miss(2) by (auto split: if_split_asm)
  from lookupOrNext_Err [OF r2] obtain e3 w3 where c: "coldGetByBlockchainAndAddress env b a w2 = (Err e3, w3)"
    and n3: "errIs e3 storeErrNotFound" using assms(2) miss(3) by (auto split: if_split_asm)
  have "wdDb w1 = wdDb w" "wdDb w2 = wdDb w"
    using keepsD [OF keeps_wallet_lookups(1) h] keepsD [OF keeps_wallet_lookups(2) p] by simp_all
  then show ?thesis using miss(1) [OF h] miss(2) [OF p] miss(3) [OF c] n1 n2 n3 by (auto simp: walletRow_def)
qed

text \<open>What is reported for one check of an event.\<close>

definition reports :: "db \<Rightarrow> blockchain_type \<Rightarrow> chain_tx \<Rightarrow> chain_event \<Rightarrow> event_check \<Rightarrow> create_webhook \<Rightarrow> bool" where
  "reports d b tx ev k c \<longleftrightarrow> cwTx c = tx \<and> cwEvent c = ev \<and> cwKind c = ekKind k \<and> knownWallet d b (ekAddress k) (cwCheckResult c)"

lemma collectOp_Val:
  assumes "collectOp xs f s = (Val ys, s')" and "\<And>x. keeps v (f x)"
  shows "\<exists>yss. ys = concat yss \<and> list_all2 (\<lambda>x y. \<exists>s1 s2. v s1 = v s \<and> f x s1 = (Val y, s2)) xs yss"
  using assms(1)
proof (induction xs arbitrary: s ys)
  case Nil
  then show ?case by (auto simp: ret_def)
next
  case (Cons x xs)
  then obtain y s1 zs where x: "f x s = (Val y, s1)" and r: "collectOp xs f s1 = (Val zs, s')" and ys: "ys = y @ zs"
    by (auto simp: op_Val)
  from Cons.IH [OF r] keepsD [OF assms(2) x] obtain yss where
    "zs = concat yss" "list_all2 (\<lambda>x y. \<exists>s1 s2. v s1 = v s \<and> f x s1 = (Val y, s2)) xs yss" by auto
  with x ys show ?case by (intro exI [of _ "y # yss"]) auto
qed

lemma collected:
  assumes "collectOp xs f s = (Val ys, s')" and "\<And>x. keeps v (f x)"
  shows "x \<in> set xs \<Longrightarrow> \<exists>y s1 s2. v s1 = v s \<and> f x s1 = (Val y, s2) \<and> set y \<subseteq> set ys"
    and "z \<in> set ys \<Longrightarrow> \<exists>x \<in> set xs. \<exists>y s1 s2. v s1 = v s \<and> f x s1 = (Val y, s2) \<and> z \<in> set y"
proof -
  from collectOp_Val [OF assms] obtain yss where y: "ys = concat yss"
    "list_all2 (\<lambda>x y. \<exists>s1 s2. v s1 = v s \<and> f x s1 = (Val y, s2)) xs yss" by blast
  show "\<exists>y s1 s2. v s1 = v s \<and> f x s1 = (Val y, s2) \<and> set y \<subseteq> set ys" if "x \<in> set xs"
    using y that by (fastforce simp: list_all2_conv_all_nth in_set_conv_nth)
  show "\<exists>x \<in> set xs. \<exists>y s1 s2. v s1 = v s \<and> f x s1 = (Val y, s2) \<and> z \<in> set y" if "z \<in> set ys"
    using y that by (fastforce simp: list_all2_conv_all_nth in_set_conv_nth)
qed

lemma keeps_checkEvent: "keeps store (checkEvent p tx ev)" "keeps store (checkAddress p tx ev k)"
  unfolding checkEvent_def checkAddress_def by (intro keeps_intros keeps_store_liftA keeps_checkWallet)+

lemma checkAddress_Val:
  assumes "checkAddress p tx ev k s = (Val cs, s')" and "\<not> snUseCacheForWallets p" and "honestFaults (snEnv p)"
  shows "(\<forall>c \<in> set cs. reports (wdDb (apWorld s)) (snBlockchain p) tx ev k c) \<and>
    (walletRow (wdDb (apWorld s)) (snBlockchain p) (ekAddress k) \<longrightarrow> cs \<noteq> [])"
proof -
  obtain x w where c: "checkWallet (snEnv p) False (snBlockchain p) (ekAddress k) (apWorld s) = (x, w)" by (rule prod.exhaust)
  show ?thesis
  proof (cases x)
    case (Val r)
    from checkWallet_db [OF c [unfolded Val]] show ?thesis
      using assms(1,2) c Val by (auto simp: checkAddress_def liftA_def op_defs reports_def)
  next
    case (Err e)
    with assms(1,2) c have "cs = [] \<and> errIs e errAddressNotFound"
      by (auto simp: checkAddress_def liftA_def op_defs split: if_split_asm)
    with checkWallet_missing [OF c [unfolded Err] _ assms(3)] show ?thesis by simp
  qed (use assms(1,2) c in \<open>auto simp: checkAddress_def liftA_def op_defs\<close>)
qed

text \<open>The checks of a block: the event of a transaction that is not skipped, and an address of it.\<close>

definition toCheck :: "'e scan_params \<Rightarrow> chain_tx list \<Rightarrow> chain_tx \<Rightarrow> chain_event \<Rightarrow> event_check \<Rightarrow> bool" where
  "toCheck p txs tx ev k \<longleftrightarrow> tx \<in> set txs \<and> ev \<in> set (ctEvents tx) \<and> \<not> skipEvent tx ev \<and> k \<in> set (checksForEvent p ev)"

lemma checkEvent_Val: "checkEvent p tx ev s = (Val cs, s') \<Longrightarrow>
    (if skipEvent tx ev then cs = [] else collectOp (checksForEvent p ev) (checkAddress p tx ev) s = (Val cs, s'))"
  by (auto simp: checkEvent_def op_Val ret_Val)

lemma checksOfBlock:
  assumes "collectOp txs (\<lambda>tx. collectOp (ctEvents tx) (checkEvent p tx)) s = (Val cs, s')"
  shows "toCheck p txs tx ev k \<Longrightarrow> \<exists>y s1 s2. store s1 = store s \<and> checkAddress p tx ev k s1 = (Val y, s2) \<and> set y \<subseteq> set cs"
    and "c \<in> set cs \<Longrightarrow> \<exists>tx ev k y s1 s2. toCheck p txs tx ev k \<and> store s1 = store s \<and> checkAddress p tx ev k s1 = (Val y, s2) \<and> c \<in> set y"
proof -
  note inner = keeps_collectOp [where v = store, OF keeps_checkEvent(1)]
  note outer = collected [OF assms inner]
  show "\<exists>y s1 s2. store s1 = store s \<and> checkAddress p tx ev k s1 = (Val y, s2) \<and> set y \<subseteq> set cs" if "toCheck p txs tx ev k"
  proof -
    from that have t: "tx \<in> set txs" "ev \<in> set (ctEvents tx)" "\<not> skipEvent tx ev" "k \<in> set (checksForEvent p ev)"
      by (simp_all add: toCheck_def)
    from outer(1) [OF t(1)] obtain y s1 s2 where y: "store s1 = store s" "collectOp (ctEvents tx) (checkEvent p tx) s1 = (Val y, s2)"
      "set y \<subseteq> set cs" by blast
    from collected(1) [OF y(2) keeps_checkEvent(1) t(2)] obtain z s3 s4 where z: "store s3 = store s1"
      "checkEvent p tx ev s3 = (Val z, s4)" "set z \<subseteq> set y" by blast
    from checkEvent_Val [OF z(2)] t(3) have "collectOp (checksForEvent p ev) (checkAddress p tx ev) s3 = (Val z, s4)" by simp
    from collected(1) [OF this keeps_checkEvent(2) t(4)] y z show ?thesis by (metis subset_trans)
  qed
  show "\<exists>tx ev k y s1 s2. toCheck p txs tx ev k \<and> store s1 = store s \<and> checkAddress p tx ev k s1 = (Val y, s2) \<and> c \<in> set y" if "c \<in> set cs"
  proof -
    from outer(2) [OF that] obtain tx y s1 s2 where y: "tx \<in> set txs" "store s1 = store s"
      "collectOp (ctEvents tx) (checkEvent p tx) s1 = (Val y, s2)" "c \<in> set y" by blast
    from collected(2) [OF y(3) keeps_checkEvent(1) y(4)] obtain ev z s3 s4 where z: "ev \<in> set (ctEvents tx)" "store s3 = store s1"
      "checkEvent p tx ev s3 = (Val z, s4)" "c \<in> set z" by blast
    from checkEvent_Val [OF z(3)] z(4) have e: "\<not> skipEvent tx ev" "collectOp (checksForEvent p ev) (checkAddress p tx ev) s3 = (Val z, s4)"
      by (auto split: if_split_asm)
    from collected(2) [OF e(2) keeps_checkEvent(2) z(4)] obtain k u s5 s6 where
      "k \<in> set (checksForEvent p ev)" "store s5 = store s3" "checkAddress p tx ev k s5 = (Val u, s6)" "c \<in> set u" by blast
    with y z e show ?thesis unfolding toCheck_def by metis
  qed
qed


end
