(* ===== verification/TScan.thy ===== *)
theory TScan
  imports Jobs CreateLock
begin

text \<open>
  \<open>internal/tscanner\<close>: every second the new transfers are put into the queue of jobs and their status
  becomes \<open>processing\<close>, all of that in one transaction. Ticks can overlap, with each other, with the
  creation of transfers and with the machines that work on the transfers; the flag \<open>inUse\<close> lets one
  tick in at a time.
\<close>

section \<open>A tick\<close>

record 'e tscan = "'e app" +
  tsInUse :: bool

text \<open>The column \<open>created_at\<close> is not null; rows of the same time keep their order here.\<close>

definition findAllNewTransfers :: "'e env \<Rightarrow> ('e world, transfer list) op" where
  "findAllNewTransfers env =
     dbRead env False ''transfers.FindAllNewTransfers''
       (\<lambda>d. Inr (take 100 (sort_key createdAt (filter (\<lambda>t. trStatus t = TransferStatusNew) (dbTransfers d)))))"

definition transferJob :: "transfer \<Rightarrow> job" where
  "transferJob t = \<lparr>jbArgs = TransferWorkflowArgs (trID t), jbUnique = False, jbScheduledAt = None\<rparr>"

definition handleTransfer :: "'e env \<Rightarrow> transfer \<Rightarrow> (('e, 'z) app_scheme) act" where
  "handleTransfer env t =
     bnd (wrapErr ''insert transfer workflow job'' (insertJob env (transferJob t))) (\<lambda>_.
     wrapErr ''set transfer status'' (liftA (transfersSetStatus env True (trID t) TransferStatusProcessing)))"

text \<open>The two halves of \<open>processAllNewTransfers\<close>: the query, and the transaction.\<close>

definition pickNew :: "'e env \<Rightarrow> (('e, 'z) app_scheme, transfer list) op" where
  "pickNew env = liftA (findAllNewTransfers env)"

definition enqueueAll :: "'e env \<Rightarrow> transfer list \<Rightarrow> (('e, 'z) app_scheme) act" where
  "enqueueAll env ts =
     wrapErr ''begin tx'' (inAppTx env (forEach ts (\<lambda>t. wrapErr ''handle transfer'' (handleTransfer env t))))"

definition processAllNewTransfers :: "'e env \<Rightarrow> ('e tscan) act" where
  "processAllNewTransfers env s =
     (if tsInUse s then (Val (), s)
      else (case bnd (pickNew env) (enqueueAll env) (s\<lparr>tsInUse := True\<rparr>) of
              (r, s') \<Rightarrow> (r, s'\<lparr>tsInUse := False\<rparr>)))"

section \<open>What a transaction of the scanner does\<close>

text \<open>The rows after the status of those with an identifier in \<open>ids\<close> was set, without the times of the updates.\<close>

definition untimed :: "transfer \<Rightarrow> transfer" where
  "untimed t = t\<lparr>trUpdatedAt := None\<rparr>"

definition startRow :: "uuid set \<Rightarrow> transfer \<Rightarrow> transfer" where
  "startRow ids t = (if trID t \<in> ids then (untimed t)\<lparr>trStatus := TransferStatusProcessing\<rparr> else untimed t)"

definition sameBut :: "db \<Rightarrow> db \<Rightarrow> bool" where
  "sameBut d d' \<longleftrightarrow> d\<lparr>dbTransfers := []\<rparr> = d'\<lparr>dbTransfers := []\<rparr>"

lemma heldA_handle: "keeps heldA (handleTransfer env t)"
  unfolding handleTransfer_def insertJob_def transfersSetStatus_def qTransferSetStatus_def
  by (intro keeps_intros heldA_tbExec heldA_liftA held_query)

lemma handleTransfer_Val:
  assumes "handleTransfer env t s = (Val u, s')" and "apTx s = Some f" and "wdTx (apWorld s) = Some g"
  shows "(\<exists>now. wdTx (apWorld s') = Some (updTransfer (trID t) (\<lambda>t. t\<lparr>trStatus := TransferStatusProcessing\<rparr>) now \<circ> g)) \<and>
    apTx s' = Some ((\<lambda>x. x\<lparr>tbJobs := tbJobs x @ [transferJob t]\<rparr>) \<circ> f) \<and>
    apTables s' = apTables s \<and> wdDb (apWorld s') = wdDb (apWorld s)"
proof -
  from assms(1) obtain s1 w' where j: "insertJob env (transferJob t) s = (Val (), s1)"
    and q: "dbExec env True ''transfers.SetStatus'' (updTransfer (trID t) (\<lambda>t. t\<lparr>trStatus := TransferStatusProcessing\<rparr>)) (apWorld s1) = (Val u, w')"
    and s': "s' = s1\<lparr>apWorld := w'\<rparr>"
    unfolding handleTransfer_def transfersSetStatus_def qTransferSetStatus_def by (auto simp: op_Val)
  from tbExec_Val [OF j [unfolded insertJob_def] assms(2)] obtain x where
    s1: "s1 = (appExt s x)\<lparr>apTx := Some ((\<lambda>x. x\<lparr>tbJobs := tbJobs x @ [transferJob t]\<rparr>) \<circ> f)\<rparr>" by blast
  with dbExec_tx [OF q] assms(3) obtain now e where
    "w' = (apWorld s1)\<lparr>wdExt := e, wdTx := Some (updTransfer (trID t) (\<lambda>t. t\<lparr>trStatus := TransferStatusProcessing\<rparr>) now \<circ> g)\<rparr>"
    by auto
  then show ?thesis using s1 s' by auto
qed

lemma startRow_upd:
  "map (startRow ids) (dbTransfers (updTransfer i (\<lambda>t. t\<lparr>trStatus := TransferStatusProcessing\<rparr>) now d)) =
   map (startRow (insert i ids)) (dbTransfers d)"
  by (auto simp: updTransfer_def startRow_def untimed_def)

lemma sameBut_upd: "sameBut d (updTransfer i f now d') = sameBut d d'"
  by (simp add: sameBut_def updTransfer_def)

lemma sameBut_upd1: "sameBut (updTransfer i f now d) d' = sameBut d d'"
  by (simp add: sameBut_def updTransfer_def)

lemma handleAll_Val:
  assumes "forEach ts (\<lambda>t. wrapErr m (handleTransfer env t)) s = (Val u, s')" and "apTx s = Some f" and "wdTx (apWorld s) = Some g"
  shows "\<exists>f' g'. apTx s' = Some f' \<and> wdTx (apWorld s') = Some g' \<and> apTables s' = apTables s \<and> wdDb (apWorld s') = wdDb (apWorld s) \<and>
     (\<forall>x. f' x = (f x)\<lparr>tbJobs := tbJobs (f x) @ map transferJob ts\<rparr>) \<and>
     (\<forall>d. sameBut (g d) (g' d) \<and> map (startRow {}) (dbTransfers (g' d)) = map (startRow (trID ` set ts)) (dbTransfers (g d)))"
  using assms
proof (induction ts arbitrary: s f g)
  case Nil
  then show ?case by (auto simp: ret_def sameBut_def)
next
  case (Cons t ts)
  from Cons.prems(1) obtain u1 s1 where h: "handleTransfer env t s = (Val u1, s1)"
    and r: "forEach ts (\<lambda>t. wrapErr m (handleTransfer env t)) s1 = (Val u, s')"
    by (auto simp: op_Val)
  from handleTransfer_Val [OF h Cons.prems(2,3)] obtain now where
    g1: "wdTx (apWorld s1) = Some (updTransfer (trID t) (\<lambda>t. t\<lparr>trStatus := TransferStatusProcessing\<rparr>) now \<circ> g)"
    and f1: "apTx s1 = Some ((\<lambda>x. x\<lparr>tbJobs := tbJobs x @ [transferJob t]\<rparr>) \<circ> f)"
    and k: "apTables s1 = apTables s" "wdDb (apWorld s1) = wdDb (apWorld s)" by blast
  from Cons.IH [OF r f1 g1] obtain f' g' where
    w: "apTx s' = Some f'" "wdTx (apWorld s') = Some g'" "apTables s' = apTables s" "wdDb (apWorld s') = wdDb (apWorld s)"
    and jobs: "\<And>x. f' x = (f x)\<lparr>tbJobs := (tbJobs (f x) @ [transferJob t]) @ map transferJob ts\<rparr>"
    and same: "\<And>d. sameBut (updTransfer (trID t) (\<lambda>t. t\<lparr>trStatus := TransferStatusProcessing\<rparr>) now (g d)) (g' d)"
    and rows: "\<And>d. map (startRow {}) (dbTransfers (g' d)) = map (startRow (trID ` set ts))
      (dbTransfers (updTransfer (trID t) (\<lambda>t. t\<lparr>trStatus := TransferStatusProcessing\<rparr>) now (g d)))"
    using k by auto
  have same2: "sameBut (g d) (g' d)" for d using same [of d] by (simp add: sameBut_upd1)
  have rows2: "map (startRow {}) (dbTransfers (g' d)) = map (startRow (trID ` set (t # ts))) (dbTransfers (g d))" for d
    using rows [of d] unfolding startRow_upd by simp
  have "f' x = (f x)\<lparr>tbJobs := tbJobs (f x) @ map transferJob (t # ts)\<rparr>" for x by (subst jobs) simp
  with w same2 rows2 show ?case by blast
qed

text \<open>All of the picked transfers are started with a job each, or none of them.\<close>

definition startedAll :: "transfer list \<Rightarrow> ('e, 'z) app_scheme \<Rightarrow> ('e, 'z) app_scheme \<Rightarrow> bool" where
  "startedAll ts s s' \<longleftrightarrow>
     apTables s' = (apTables s)\<lparr>tbJobs := tbJobs (apTables s) @ map transferJob ts\<rparr> \<and>
     sameBut (wdDb (apWorld s)) (wdDb (apWorld s')) \<and>
     map untimed (dbTransfers (wdDb (apWorld s'))) = map (startRow (trID ` set ts)) (dbTransfers (wdDb (apWorld s)))"

lemma startRow_empty [simp]: "startRow {} = untimed"
  by (rule ext) (simp add: startRow_def)

lemma enqueueAll_cases:
  assumes "enqueueAll env ts s = (r, s')"
  obtains (none) "wdDb (apWorld s') = wdDb (apWorld s)" "apTables s' = apTables s" "\<forall>x. r \<noteq> Val x"
  | (all) "startedAll ts s s'"
      "r = Val () \<or> (\<exists>e y y'. r = Err (Wrapf ''begin tx: '' e) \<and> envFault env ''commit'' y = (FaultAfter e, y'))"
proof -
  let ?body = "forEach ts (\<lambda>t. wrapErr ''handle transfer'' (handleTransfer env t)) :: ((_, _) app_scheme) act"
  obtain q where q: "inAppTx env ?body s = (q, s')" and r: "r = (case q of Err e \<Rightarrow> Err (Wrapf ''begin tx: '' e) | x \<Rightarrow> x)"
    using assms(1) unfolding enqueueAll_def wrapErr_def by (auto split: prod.split_asm outcome.split_asm)
  have k: "keeps heldA ?body" by (intro keeps_intros heldA_handle)
  from q k show thesis
  proof (cases rule: inAppTx_cases)
    case none
    show thesis by (rule that(1)) (use none r in \<open>auto split: outcome.splits\<close>)
  next
    case (all x e s2)
    from handleAll_Val [OF all(1), of id id] obtain f' g' where
      f': "apTx s2 = Some f'" "\<forall>x. f' x = x\<lparr>tbJobs := tbJobs x @ map transferJob ts\<rparr>" and
      g': "wdTx (apWorld s2) = Some g'"
        "\<forall>d. sameBut d (g' d) \<and> map untimed (dbTransfers (g' d)) = map (startRow (trID ` set ts)) (dbTransfers d)"
      and k2: "apTables s2 = apTables s" "wdDb (apWorld s2) = wdDb (apWorld s)" by simp blast
    show thesis
    proof (rule that(2))
      show "startedAll ts s s'" using all(2,3) f' g' k2 by (simp add: startedAll_def dbView_def tbView_def)
      show "r = Val () \<or> (\<exists>e y y'. r = Err (Wrapf ''begin tx: '' e) \<and> envFault env ''commit'' y = (FaultAfter e, y'))"
        using all(4) r by auto
    qed
  qed
qed

section \<open>Runs\<close>

text \<open>
  Ticks side by side with the creation of transfers and with the work on them. A tick is between the
  setting and the resetting of \<open>inUse\<close> while it reads or has picked its transfers. The primary key keeps
  the identifiers apart; the work on the transfers neither starts a new one nor renews another, and
  queues no transfer.
\<close>

datatype tick = Idle | Reading | Picked "transfer list" | TickEnded

fun inTick :: "tick \<Rightarrow> bool" where
  "inTick Reading = True"
| "inTick (Picked ts) = True"
| "inTick _ = False"

record 'e ticks =
  tkApp :: "'e app"
  tkInUse :: bool
  tkPhase :: "nat \<Rightarrow> tick"

text \<open>The transfers that have a job, once for every job.\<close>

fun jobTransfer :: "job_args \<Rightarrow> uuid list" where
  "jobTransfer (TransferWorkflowArgs i) = [i]"
| "jobTransfer (WebhookWaitingConfirmationsArgs a) = []"

definition queued :: "('e, 'z) app_scheme \<Rightarrow> uuid list" where
  "queued s = concat (map (\<lambda>j. jobTransfer (jbArgs j)) (tbJobs (apTables s)))"

abbreviation rowsOf :: "('e, 'z) app_scheme \<Rightarrow> transfer list" where
  "rowsOf s \<equiv> dbTransfers (wdDb (apWorld s))"

definition staysNew :: "transfer \<Rightarrow> transfer \<Rightarrow> bool" where
  "staysNew t t' \<longleftrightarrow> trID t' = trID t \<and> (trStatus t' = TransferStatusNew \<longleftrightarrow> trStatus t = TransferStatusNew)"

inductive tick_step :: "'e create_service \<Rightarrow> 'e ticks \<Rightarrow> 'e ticks \<Rightarrow> bool" for p :: "'e create_service" where
  enter: "tkPhase s i = Idle \<Longrightarrow> \<not> tkInUse s \<Longrightarrow>
     tick_step p s (s\<lparr>tkInUse := True, tkPhase := (tkPhase s)(i := Reading)\<rparr>)"
| skip: "tkPhase s i = Idle \<Longrightarrow> tkInUse s \<Longrightarrow> tick_step p s (s\<lparr>tkPhase := (tkPhase s)(i := TickEnded)\<rparr>)"
| pick: "tkPhase s i = Reading \<Longrightarrow> pickNew (csEnv p) (tkApp s) = (Val ts, a) \<Longrightarrow>
     tick_step p s (s\<lparr>tkApp := a, tkPhase := (tkPhase s)(i := Picked ts)\<rparr>)"
| fault: "tkPhase s i = Reading \<Longrightarrow> pickNew (csEnv p) (tkApp s) = (r, a) \<Longrightarrow> \<forall>ts. r \<noteq> Val ts \<Longrightarrow>
     tick_step p s (s\<lparr>tkApp := a, tkInUse := False, tkPhase := (tkPhase s)(i := TickEnded)\<rparr>)"
| enqueue: "tkPhase s i = Picked ts \<Longrightarrow> enqueueAll (csEnv p) ts (tkApp s) = (r, a) \<Longrightarrow>
     tick_step p s (s\<lparr>tkApp := a, tkInUse := False, tkPhase := (tkPhase s)(i := TickEnded)\<rparr>)"
| creation: "createTransfer p rq (apWorld (tkApp s)) = (r, w) \<Longrightarrow> distinct (map trID (dbTransfers (wdDb w))) \<Longrightarrow>
     tick_step p s (s\<lparr>tkApp := (tkApp s)\<lparr>apWorld := w\<rparr>\<rparr>)"
| work: "list_all2 staysNew (rowsOf (tkApp s)) (rowsOf a) \<Longrightarrow> queued a = queued (tkApp s) \<Longrightarrow>
     tick_step p s (s\<lparr>tkApp := a\<rparr>)"

inductive ticking :: "'e create_service \<Rightarrow> 'e ticks \<Rightarrow> bool" for p :: "'e create_service" where
  start: "queued (tkApp s) = [] \<Longrightarrow> distinct (map trID (rowsOf (tkApp s))) \<Longrightarrow> \<not> tkInUse s \<Longrightarrow>
     \<forall>i. tkPhase s i = Idle \<Longrightarrow> ticking p s"
| run: "ticking p s \<Longrightarrow> tick_step p s s' \<Longrightarrow> ticking p s'"

text \<open>
  The invariant: a queued transfer has one job and is not new any more; what a tick has picked is new
  still, and only one tick is at work.
\<close>

definition newIn :: "uuid \<Rightarrow> transfer list \<Rightarrow> bool" where
  "newIn i ts \<longleftrightarrow> (\<exists>t \<in> set ts. trID t = i \<and> trStatus t = TransferStatusNew)"

definition queueOk :: "('e, 'z) app_scheme \<Rightarrow> bool" where
  "queueOk s \<longleftrightarrow> distinct (map trID (rowsOf s)) \<and> distinct (queued s) \<and>
     (\<forall>i \<in> set (queued s). i \<in> trID ` set (rowsOf s) \<and> \<not> newIn i (rowsOf s))"

definition pickedOk :: "transfer list \<Rightarrow> tick \<Rightarrow> bool" where
  "pickedOk rows ph \<longleftrightarrow> (case ph of Picked ts \<Rightarrow> distinct (map trID ts) \<and> (\<forall>t \<in> set ts. newIn (trID t) rows) | _ \<Rightarrow> True)"

definition ticksOk :: "'e ticks \<Rightarrow> bool" where
  "ticksOk s \<longleftrightarrow> queueOk (tkApp s) \<and> (\<forall>i. pickedOk (rowsOf (tkApp s)) (tkPhase s i)) \<and>
     (if tkInUse s then \<exists>i. \<forall>j. inTick (tkPhase s j) \<longleftrightarrow> j = i else \<forall>j. \<not> inTick (tkPhase s j))"

lemma pickedOk_simps [simp]: "pickedOk rows Idle" "pickedOk rows Reading" "pickedOk rows TickEnded"
  by (simp_all add: pickedOk_def)

lemma pickedOk_notIn: "\<not> inTick ph \<Longrightarrow> pickedOk rows ph"
  by (cases ph) simp_all

lemma pickNew_frame: "pickNew env s = (r, a) \<Longrightarrow> wdDb (apWorld a) = wdDb (apWorld s) \<and> apTables a = apTables s"
  by (auto simp: pickNew_def liftA_def findAllNewTransfers_def dbRead_def ofSum_def op_defs split: prod.split_asm db_fault.split_asm)

lemma pickNew_Val:
  assumes "pickNew env s = (Val ts, a)" and "distinct (map trID (rowsOf s))"
  shows "pickedOk (rowsOf s) (Picked ts)"
proof -
  let ?new = "filter (\<lambda>t. trStatus t = TransferStatusNew) (rowsOf s)"
  have "dbView False (apWorld s) = wdDb (apWorld s)" by (simp add: dbView_def split: option.split)
  with assms(1) have ts: "ts = take 100 (sort_key createdAt ?new)"
    by (auto simp: pickNew_def findAllNewTransfers_def op_Val dbRead_def ofSum_def op_defs split: prod.split_asm db_fault.split_asm)
  have "distinct (map trID ?new)" using assms(2) by (rule distinct_map_filter)
  then have "distinct (map trID (sort_key createdAt ?new))"
    by (simp add: distinct_map)
  then have "distinct (map trID ts)" unfolding ts take_map [symmetric] by (rule distinct_take)
  moreover have "newIn (trID t) (rowsOf s)" if "t \<in> set ts" for t
    using in_set_takeD [of t 100 "sort_key createdAt ?new"] that ts by (auto simp: newIn_def)
  ultimately show ?thesis by (simp add: pickedOk_def)
qed

lemma newIn_append: "newIn i (xs @ ys) \<longleftrightarrow> newIn i xs \<or> newIn i ys"
  by (auto simp: newIn_def)

lemma newIn_simps [simp]: "newIn i [] = False"
  "newIn i (t # ts) \<longleftrightarrow> trID t = i \<and> trStatus t = TransferStatusNew \<or> newIn i ts"
  by (auto simp: newIn_def)

lemma newIn_untimed: "newIn i (map untimed ts) = newIn i ts"
  by (induction ts) (auto simp: untimed_def)

lemma newIn_start: "newIn i (map (startRow ids) ts) \<longleftrightarrow> newIn i ts \<and> i \<notin> ids"
  by (induction ts) (auto simp: startRow_def untimed_def)

lemma ids_untimed: "map trID (map untimed ts) = map trID ts" "map trID (map (startRow ids) ts) = map trID ts"
  by (auto simp: untimed_def startRow_def)

lemma newIn_ids: "newIn i ts \<Longrightarrow> i \<in> trID ` set ts"
  by (auto simp: newIn_def)

lemma queueOk_enqueue:
  assumes "enqueueAll env ts s = (r, a)" and "queueOk s" and "pickedOk (rowsOf s) (Picked ts)"
  shows "queueOk a"
  using assms(1)
proof (cases rule: enqueueAll_cases)
  case none
  with assms(2) show ?thesis by (simp add: queueOk_def queued_def)
next
  case all
  then have q: "queued a = queued s @ map trID ts"
    by (simp add: startedAll_def queued_def transferJob_def comp_def)
  from all have rows: "map untimed (rowsOf a) = map (startRow (trID ` set ts)) (rowsOf s)" by (simp add: startedAll_def)
  have ids: "map trID (rowsOf a) = map trID (rowsOf s)" using arg_cong [OF rows, of "map trID"] unfolding ids_untimed .
  then have idset: "trID ` set (rowsOf a) = trID ` set (rowsOf s)" by (metis set_map)
  have new: "newIn i (rowsOf a) \<longleftrightarrow> newIn i (rowsOf s) \<and> i \<notin> trID ` set ts" for i
    using newIn_untimed [of i "rowsOf a"] unfolding rows newIn_start by simp
  show ?thesis
    using assms(2,3) ids idset new unfolding queueOk_def q pickedOk_def by (auto dest: newIn_ids)
qed

lemma createTransfer_rows:
  fixes p :: "'e create_service"
  assumes "createTransfer p r w = (res, w')"
  shows "wdDb w' = wdDb w \<or> (\<exists>i now row. wdDb w' = addTransfer (newTransfer i now row) (wdDb w))"
proof (cases "acceptRequest p r w = (Val (), w)")
  case True
  then have "createLocked p r w = (res, w')" using assms by (simp add: createTransfer_def bnd_def)
  then show ?thesis by (cases rule: createLocked_cases) auto
next
  case False
  with assms show ?thesis
    by (cases "acceptRequest p r w"; cases "fst (acceptRequest p r w)")
      (auto simp: createTransfer_def bnd_def acceptRequest_Val dest: keepsD [OF keeps_accept])
qed

lemma queueOk_create:
  fixes p :: "'e create_service"
  assumes "createTransfer p rq (apWorld s) = (r, w)" and "distinct (map trID (dbTransfers (wdDb w)))" and "queueOk s"
  shows "queueOk (s\<lparr>apWorld := w\<rparr>)" and "pickedOk (rowsOf s) ph \<Longrightarrow> pickedOk (dbTransfers (wdDb w)) ph"
proof -
  obtain xs where x: "dbTransfers (wdDb w) = rowsOf s @ xs"
    using createTransfer_rows [OF assms(1)] by (auto simp: addTransfer_def)
  have "i \<notin> trID ` set xs" if "i \<in> trID ` set (rowsOf s)" for i using assms(2) that unfolding x by auto
  moreover have "queued (s\<lparr>apWorld := w\<rparr>) = queued s" by (simp add: queued_def)
  ultimately show "queueOk (s\<lparr>apWorld := w\<rparr>)"
    using assms(2,3) newIn_ids [of _ xs] unfolding queueOk_def by (simp add: x newIn_append image_Un) metis
  show "pickedOk (dbTransfers (wdDb w)) ph" if "pickedOk (rowsOf s) ph"
    using that by (auto simp: pickedOk_def x newIn_append split: tick.split)
qed

lemma queueOk_work:
  assumes "list_all2 staysNew (rowsOf s) (rowsOf a)" and "queued a = queued s"
  shows "queueOk a = queueOk s" and "pickedOk (rowsOf a) ph = pickedOk (rowsOf s) ph"
proof -
  have ids: "map trID (rowsOf a) = map trID (rowsOf s)" using assms(1)
    by (induction rule: list_all2_induct) (simp_all add: staysNew_def)
  have new: "newIn i (rowsOf a) = newIn i (rowsOf s)" for i using assms(1)
    by (induction rule: list_all2_induct) (simp_all add: staysNew_def)
  have idset: "trID ` set (rowsOf a) = trID ` set (rowsOf s)" using ids by (metis set_map)
  show "queueOk a = queueOk s" by (simp add: queueOk_def ids new idset assms(2))
  show "pickedOk (rowsOf a) ph = pickedOk (rowsOf s) ph" by (simp add: pickedOk_def new split: tick.split)
qed

lemma tick_leaves:
  assumes "if l then \<exists>i. \<forall>j. inTick (ph j) \<longleftrightarrow> j = i else \<forall>j. \<not> inTick (ph j)" and "inTick (ph i)"
  shows "l" and "\<not> inTick ((ph(i := TickEnded)) j)"
  using assms by (auto split: if_split_asm)

lemma ticksOk_step:
  fixes p :: "'e create_service"
  assumes "tick_step p s s'" and "ticksOk s"
  shows "ticksOk s'"
proof -
  from assms(2) have q: "queueOk (tkApp s)" and k: "\<And>i. pickedOk (rowsOf (tkApp s)) (tkPhase s i)"
    and f: "if tkInUse s then \<exists>i. \<forall>j. inTick (tkPhase s j) \<longleftrightarrow> j = i else \<forall>j. \<not> inTick (tkPhase s j)"
    by (auto simp: ticksOk_def)
  note leaves = tick_leaves [OF f]
  from assms(1) show ?thesis
  proof (cases rule: tick_step.cases)
    case (skip i)
    have "inTick (((tkPhase s)(i := TickEnded)) j) = inTick (tkPhase s j)" for j using skip(2) by simp
    with q k f skip show ?thesis by (simp add: ticksOk_def del: fun_upd_apply) (simp add: pickedOk_def)
  next
    case (pick i ts a)
    from pickNew_frame [OF pick(3)] have d: "rowsOf a = rowsOf (tkApp s)" "queued a = queued (tkApp s)" by (simp_all add: queued_def)
    have "pickedOk (rowsOf (tkApp s)) (Picked ts)" using pickNew_Val [OF pick(3)] q by (simp add: queueOk_def)
    moreover have "\<forall>j. inTick (((tkPhase s)(i := Picked ts)) j) \<longleftrightarrow> j = i"
      using f pick(2) by (auto split: if_split_asm) (metis inTick.simps(1))
    ultimately show ?thesis using q k d pick(2) leaves(1) [of i]
      unfolding pick(1) by (simp add: ticksOk_def queueOk_def) blast
  next
    case (fault i r a)
    from pickNew_frame [OF fault(3)] have d: "rowsOf a = rowsOf (tkApp s)" "queued a = queued (tkApp s)" by (simp_all add: queued_def)
    with q k leaves(2) [of i] fault(2) show ?thesis
      unfolding fault(1) by (auto simp: ticksOk_def queueOk_def)
  next
    case (enqueue i ts r a)
    have "queueOk a" using queueOk_enqueue [OF enqueue(3) q] k [of i] enqueue(2) by simp
    moreover have "\<not> inTick (((tkPhase s)(i := TickEnded)) j)" for j using leaves(2) [of i] enqueue(2) by simp
    ultimately show ?thesis unfolding enqueue(1) by (simp add: ticksOk_def pickedOk_notIn del: fun_upd_apply)
  next
    case (creation rq r w)
    with queueOk_create [OF creation(2,3) q] k f show ?thesis by (simp add: ticksOk_def)
  next
    case (work a)
    with queueOk_work [OF work(2,3)] q k f show ?thesis by (simp add: ticksOk_def)
  qed (use q k f in \<open>auto simp: ticksOk_def\<close>)
qed

lemma ticking_ok: "ticking p s \<Longrightarrow> ticksOk s"
proof (induction rule: ticking.induct)
  case (start s)
  then show ?case by (simp add: ticksOk_def queueOk_def)
next
  case (run s s')
  then show ?case by (blast intro: ticksOk_step)
qed


section \<open>One tick\<close>

definition picked :: "db \<Rightarrow> transfer list" where
  "picked d = take 100 (sort_key createdAt (filter (\<lambda>t. trStatus t = TransferStatusNew) (dbTransfers d)))"

lemma pickNew_picked: "pickNew env s = (Val ts, a) \<Longrightarrow> ts = picked (wdDb (apWorld s))"
  by (auto simp: pickNew_def findAllNewTransfers_def op_Val dbRead_def ofSum_def op_defs picked_def dbView_def
      split: prod.split_asm db_fault.split_asm option.split)

text \<open>
  C20. One tick starts the oldest hundred new transfers together, each with one job, or it changes nothing: a
  tick that reports success has started all of them, and one that reports an error leaves no transfer
  started without its job and no job without its transfer. The flag is free again in every case.
\<close>

theorem new_transfers_are_started_together:
  fixes s :: "'e tscan"
  assumes "processAllNewTransfers env s = (r, s')" and "\<not> tsInUse s"
  shows "\<not> tsInUse s' \<and>
    (startedAll (picked (wdDb (apWorld s))) s s' \<or>
     r \<noteq> Val () \<and> wdDb (apWorld s') = wdDb (apWorld s) \<and> apTables s' = apTables s)"
proof -
  let ?s1 = "s\<lparr>tsInUse := True\<rparr>"
  obtain q a where b: "bnd (pickNew env) (enqueueAll env) ?s1 = (q, a)" by (rule prod.exhaust)
  with assms have r: "r = q" and s': "s' = a\<lparr>tsInUse := False\<rparr>" by (auto simp: processAllNewTransfers_def)
  obtain p s2 where p: "pickNew env ?s1 = (p, s2)" by (rule prod.exhaust)
  note k = pickNew_frame [OF p]
  show ?thesis
  proof (cases p)
    case (Val ts)
    then have e: "enqueueAll env ts s2 = (q, a)" using b p by (simp add: bnd_def)
    have ts: "ts = picked (wdDb (apWorld s))" using pickNew_picked [OF p [unfolded Val]] by simp
    from e show ?thesis
      by (cases rule: enqueueAll_cases) (use k ts r s' in \<open>auto simp: startedAll_def\<close>)
  qed (use b p k r s' in \<open>auto simp: bnd_def\<close>)
qed

section \<open>A sample\<close>

text \<open>The transfer that the sample of the creation leaves behind is picked and started.\<close>

definition noTables :: tables where
  "noTables = \<lparr>tbBlocks = [], tbEvents = [], tbJobs = []\<rparr>"

definition scanWorld :: "unit world \<Rightarrow> tables \<Rightarrow> unit app" where
  "scanWorld w t = \<lparr>apWorld = w, apTables = t, apTx = None\<rparr>"

definition startedWorld :: "unit world" where
  "startedWorld = createWorld\<lparr>wdDb := (wdDb createWorld)\<lparr>dbTransfers :=
     [bookedTransfer, (createdTransfer ''resources'')\<lparr>trStatus := TransferStatusProcessing, trUpdatedAt := Some 7\<rparr>]\<rparr>\<rparr>"

definition startedTables :: tables where
  "startedTables = noTables\<lparr>tbJobs := [transferJob (createdTransfer ''resources'')]\<rparr>"

lemma created_id [simp]: "trID (createdTransfer k) = ''new-id''" "trStatus (createdTransfer k) = TransferStatusNew"
  "trID bookedTransfer = ''transfer-0''" "trStatus bookedTransfer = TransferStatusProcessing"
  by (simp_all add: createdTransfer_def newTransfer_def createRow_def createParams_def bookedTransfer_def zeroTransfer_def)

lemma create_env [simp]: "envFault createEnv n x = (NoFault, x)" "envNow createEnv x = 7" "csEnv createDemo = createEnv"
  by (simp_all add: createEnv_def trxEnv_def evmEnv_def createDemo_def)

lemma created_rows: "dbTransfers (wdDb (createdWorld k)) = [bookedTransfer, createdTransfer k]" "wdTx (createdWorld k) = None"
  by (simp_all add: createdWorld_def createWorld_def addTransfer_def)

lemma demo_pick: "apWorld s = createdWorld k \<Longrightarrow> pickNew createEnv s = (Val [createdTransfer k], s)"
  by (simp add: pickNew_def liftA_def findAllNewTransfers_def dbRead_def ofSum_def op_defs dbView_def created_rows)

lemma demo_enqueue:
  assumes "apWorld s = createdWorld ''resources''" and "apTables s = noTables" and "apTx s = None"
  shows "enqueueAll createEnv [createdTransfer ''resources''] s = (Val (), s\<lparr>apWorld := startedWorld, apTables := startedTables\<rparr>)"
  using assms
  by (cases s) (simp add: enqueueAll_def inAppTx_def appBegin_def appCommit_def appDone_def handleTransfer_def insertJob_def tbExec_def
      tbView_def tbApply_def liftA_def op_defs txBegin_def transfersSetStatus_def qTransferSetStatus_def
      dbExec_def dbQuery_def dbApply_def dbView_def ofSum_def appExt_def Let_def nilUuid_def,
    simp add: createdWorld_def createWorld_def addTransfer_def updTransfer_def startedWorld_def startedTables_def noTables_def)

definition sampleScan :: "unit tscan" where
  "sampleScan = \<lparr>apWorld = createdWorld ''resources'', apTables = noTables, apTx = None, tsInUse = False\<rparr>"

theorem new_transfers_are_started_together_witness:
  "\<exists>s'. processAllNewTransfers createEnv sampleScan = (Val (), s') \<and> tbJobs (apTables s') = [transferJob (createdTransfer ''resources'')]"
proof -
  have "bnd (pickNew createEnv) (enqueueAll createEnv) (sampleScan\<lparr>tsInUse := True\<rparr>) =
      (Val (), (sampleScan\<lparr>tsInUse := True\<rparr>)\<lparr>apWorld := startedWorld, apTables := startedTables\<rparr>)"
    by (simp add: bnd_def sampleScan_def demo_pick [where k = "''resources''"] demo_enqueue)
  then have p: "processAllNewTransfers createEnv sampleScan = (Val (), sampleScan\<lparr>apWorld := startedWorld, apTables := startedTables\<rparr>)"
    by (simp add: processAllNewTransfers_def sampleScan_def)
  have "picked (wdDb (apWorld sampleScan)) = [createdTransfer ''resources'']"
    by (simp add: sampleScan_def picked_def created_rows)
  with new_transfers_are_started_together [OF p] p show ?thesis
    by (simp add: startedAll_def sampleScan_def startedTables_def noTables_def)
qed

definition twoTicks :: "unit world \<Rightarrow> tables \<Rightarrow> bool \<Rightarrow> tick \<Rightarrow> tick \<Rightarrow> unit ticks" where
  "twoTicks w t l a b = \<lparr>tkApp = scanWorld w t, tkInUse = l, tkPhase = (\<lambda>_. Idle)(0 := a, 1 := b)\<rparr>"

lemma twoTicks_upd [simp]:
  "tkApp (twoTicks w t l a b) = scanWorld w t" "tkInUse (twoTicks w t l a b) = l"
  "tkPhase (twoTicks w t l a b) 0 = a" "tkPhase (twoTicks w t l a b) (Suc 0) = b"
  "(twoTicks w t l a b)\<lparr>tkApp := scanWorld w' t'\<rparr> = twoTicks w' t' l a b"
  "(twoTicks w t l a b)\<lparr>tkInUse := l'\<rparr> = twoTicks w t l' a b"
  "(twoTicks w t l a b)\<lparr>tkPhase := (tkPhase (twoTicks w0 t0 l0 a b))(0 := x)\<rparr> = twoTicks w t l x b"
  "(twoTicks w t l a b)\<lparr>tkPhase := (tkPhase (twoTicks w0 t0 l0 a b))(Suc 0 := x)\<rparr> = twoTicks w t l a x"
  by (simp_all add: twoTicks_def fun_upd_twist)

lemma scanWorld_simps [simp]:
  "apWorld (scanWorld w t) = w" "apTables (scanWorld w t) = t" "apTx (scanWorld w t) = None"
  "(scanWorld w t)\<lparr>apWorld := w'\<rparr> = scanWorld w' t" "(scanWorld w t)\<lparr>apWorld := w', apTables := t'\<rparr> = scanWorld w' t'"
  by (simp_all add: scanWorld_def)

lemma demo_ticks: "ticking createDemo (twoTicks startedWorld startedTables False TickEnded TickEnded)"
proof -
  let ?c = createDemo and ?k = "''resources''" and ?w = "createdWorld ''resources''"
  have "ticking ?c (twoTicks createWorld noTables False Idle Idle)"
    by (rule ticking.start) (auto simp: queued_def noTables_def createWorld_def twoTicks_def scanWorld_def)
  moreover have "tick_step ?c (twoTicks createWorld noTables False Idle Idle) (twoTicks ?w noTables False Idle Idle)"
    using tick_step.creation [of ?c "createDemoRequest ?k ''req-1''" "twoTicks createWorld noTables False Idle Idle" _ ?w]
    by (simp add: demo_created created_rows)
  moreover have "tick_step ?c (twoTicks ?w noTables False Idle Idle) (twoTicks ?w noTables True Reading Idle)"
    using tick_step.enter [of "twoTicks ?w noTables False Idle Idle" 0 ?c] by simp
  moreover have "tick_step ?c (twoTicks ?w noTables True Reading Idle) (twoTicks ?w noTables True Reading TickEnded)"
    using tick_step.skip [of "twoTicks ?w noTables True Reading Idle" 1 ?c] by simp
  moreover have "tick_step ?c (twoTicks ?w noTables True Reading TickEnded) (twoTicks ?w noTables True (Picked [createdTransfer ?k]) TickEnded)"
    using tick_step.pick [of "twoTicks ?w noTables True Reading TickEnded" 0 ?c "[createdTransfer ?k]" "scanWorld ?w noTables"]
    by (simp add: demo_pick [where k = ?k])
  moreover have "tick_step ?c (twoTicks ?w noTables True (Picked [createdTransfer ?k]) TickEnded) (twoTicks startedWorld startedTables False TickEnded TickEnded)"
    using tick_step.enqueue [of "twoTicks ?w noTables True (Picked [createdTransfer ?k]) TickEnded" 0 "[createdTransfer ?k]" ?c
        "Val ()" "scanWorld startedWorld startedTables"] by (simp add: demo_enqueue)
  ultimately show ?thesis by (meson ticking.run)
qed


end
