(* ===== verification/ScanSample.thy ===== *)
theory ScanSample
  imports ScannerProps TScan
begin

text \<open>
  A chain of Tron on which the properties of the scanner are applied: block 11 holds a deposit of tokens to the
  hot wallet of the sample owner, and the last incident reverts the chain to block 9.
\<close>

section \<open>The sample chain\<close>

definition depositEvent :: chain_event where
  "depositEvent = \<lparr>ceType = Some EVENT_TYPE_TRANSFER, ceStatus = None, ceAddressFrom = Some ''stranger'', ceAddressTo = Some ''hot-1'',
     ceValue = Some ''5'', ceAssetIdentifier = Some ''usdt'', ceBlockchainUniqKey = Some ''key-1''\<rparr>"

definition depositTx :: chain_tx where
  "depositTx = \<lparr>ctHash = ''tx-1'', ctConfirmations = 1, ctStatus = ''success'', ctFee = ''0'', ctAddressFrom = Some ''stranger'',
     ctCreatedAt = Some 5, ctEvents = [depositEvent]\<rparr>"

definition chainProxy :: "string \<Rightarrow> unit proxy" where
  "chainProxy prev =
     \<lparr>pxSleep = (\<lambda>_ x. x), pxCtx = (\<lambda>_. None), pxDecimalParse = (\<lambda>_. Inr 0), pxInfo = (\<lambda>_ _ x. (Val [], x)),
      pxBalance = (\<lambda>_ _ _ x. (Val ''0'', x)), pxAssetInfo = (\<lambda>_ _ x. (Val (Some 6), x)),
      pxLastBlockHeight = (\<lambda>_ x. (Val 11, x)),
      pxGetBlock = (\<lambda>_ h x. (Val \<lparr>bhHash = (if h = 11 then ''h11'' else ''h8''), bhPrevHash = prev\<rparr>, x)),
      pxIncidents = (\<lambda>_ _ _ x. (Val [\<lparr>inType = INCIDENT_TYPE_ROLLBACK, inRevertToBlockHeight = 9\<rparr>], x)),
      pxFind = (\<lambda>h _ _ page _ x. (Val (if h = Some 11 \<and> page = 1 then [depositTx] else [], False), x)),
      pxGetInfo = (\<lambda>_ _ x. (Val (Some (Some depositTx)), x)), pxUTXO = (\<lambda>_ _ x. (Val (Some []), x))\<rparr>"

definition scanDemo :: "string \<Rightarrow> unit scan_params" where
  "scanDemo prev =
     \<lparr>snEnv = createEnv, snProxy = chainProxy prev,
      snBch = \<lparr>blDecodeAddress = (\<lambda>_. Inl ErrNotFound), blNewAddressPubKeyHash = Inr, blNewAddressScriptHashFromHash = Inr,
        blTypeName = (\<lambda>_. ''''), blCheckEncodePubKeyHash = id, blCheckEncodeScriptHash = id\<rparr>,
      snBlockchain = BlockchainTypeTron, snBlocksInChunk = 20, snActivationContract = ''contract'', snUseCacheForWallets = False\<rparr>"

definition scanTables :: tables where
  "scanTables = noTables\<lparr>tbBlocks := [\<lparr>pbBlockchain = BlockchainTypeTron, pbNumber = 10, pbHash = Some ''h10''\<rparr>]\<rparr>"

definition scanStart :: "unit scanner" where
  "scanStart = \<lparr>apWorld = createWorld, apTables = scanTables, apTx = None, scLastNode = 11, scLastParsed = 10\<rparr>"

definition depositCheck :: create_webhook where
  "depositCheck = \<lparr>cwTx = depositTx, cwEvent = depositEvent, cwKind = WebhookKindDeposit,
     cwCheckResult = \<lparr>cwWalletType = WalletTypeHot, cwOwnerID = ''owner-1'', cwExternalWalletID = Some ''user'', cwIsActivated = Some True\<rparr>\<rparr>"

definition block11 :: "string \<Rightarrow> block_result" where
  "block11 prev = \<lparr>brHeight = 11, brBlockHash = ''h11'', brPrevHash = prev, brWhParams = [depositCheck]\<rparr>"

lemma scan_params [simp]: "snEnv (scanDemo h) = createEnv" "snProxy (scanDemo h) = chainProxy h" "snBlockchain (scanDemo h) = BlockchainTypeTron"
  "snUseCacheForWallets (scanDemo h) = False" "chunkOf (scanDemo h) = 20"
  by (simp_all add: scanDemo_def chunkOf_def)

lemma honest_create: "honestFaults createEnv"
  by (simp add: honestFaults_def)

lemma scan_ext [simp]: "appExt scanStart () = scanStart"
  by (simp add: appExt_def scanStart_def createWorld_def)

lemma liftAE_start: "m () = (r, ()) \<Longrightarrow> liftAE m scanStart = (r, scanStart)"
  by (simp add: liftAE_def liftA_def liftExt_def scanStart_def createWorld_def)

lemma sample_find: "findTransactions (chainProxy h) BlockchainTypeTron (Some 11) None () = (Val [depositTx], ())"
  by (simp add: findTransactions_def orBlocked_def findPages.simps chainProxy_def)

lemma sample_wallet:
  "checkWallet createEnv False BlockchainTypeTron ''hot-1'' createWorld = (Val (cwCheckResult depositCheck), createWorld)"
  "\<exists>e. checkWallet createEnv False BlockchainTypeTron ''stranger'' createWorld = (Err e, createWorld) \<and> errIs e errAddressNotFound"
  by (simp_all add: checkWallet_def checkWalletInDatabase_def lookupOrNext_def hotGetByBlockchainAndAddress_def
      processingGetByBlockchainAndAddress_def coldGetByBlockchainAndAddress_def noRowsToNotFound_def qHotGetByAddress_def
      qProcessingGetByAddress_def qColdGetByAddress_def dbRead_def dbView_def oneRow_def ofSum_def op_defs createWorld_def
      walletIs_def hotResult_def depositCheck_def errNoRows_def storeErrNotFound_def errAddressNotFound_def)

lemma sample_fetch: "fetchBlockData (scanDemo h) 11 scanStart = (Val (block11 h), scanStart)"
proof -
  have w: "apWorld scanStart = createWorld" "scanStart\<lparr>apWorld := createWorld\<rparr> = scanStart" by (simp_all add: scanStart_def)
  obtain e where e: "checkWallet createEnv False BlockchainTypeTron ''stranger'' createWorld = (Err e, createWorld)" "errIs e errAddressNotFound"
    using sample_wallet(2) by blast
  have c: "checkAddress (scanDemo h) depositTx depositEvent \<lparr>ekAddress = ''stranger'', ekKind = WebhookKindTransfer\<rparr> scanStart = (Val [], scanStart)"
    "checkAddress (scanDemo h) depositTx depositEvent \<lparr>ekAddress = ''hot-1'', ekKind = WebhookKindDeposit\<rparr> scanStart = (Val [depositCheck], scanStart)"
    using e by (simp_all add: checkAddress_def liftA_def op_defs w sample_wallet(1)) (simp add: depositCheck_def)
  have ks: "checksForEvent (scanDemo h) depositEvent =
      [\<lparr>ekAddress = ''stranger'', ekKind = WebhookKindTransfer\<rparr>, \<lparr>ekAddress = ''hot-1'', ekKind = WebhookKindDeposit\<rparr>]"
    by (simp add: checksForEvent_def depositEvent_def)
  have "\<not> skipEvent depositTx depositEvent" by (simp add: skipEvent_def depositEvent_def textString_def)
  then have "checkEvent (scanDemo h) depositTx depositEvent scanStart = (Val [depositCheck], scanStart)"
    by (simp add: checkEvent_def ks c bnd_def wrapErr_def ret_def)
  moreover have "ctEvents depositTx = [depositEvent]" by (simp add: depositTx_def)
  moreover have "pxGetBlock (chainProxy h) b 11 () = (Val \<lparr>bhHash = ''h11'', bhPrevHash = h\<rparr>, ())" for b by (simp add: chainProxy_def)
  ultimately show ?thesis
    by (simp add: fetchBlockData_def bnd_def wrapErr_def ret_def liftAE_start sample_find block11_def)
qed



section \<open>Its commit\<close>

definition ownedWorld :: "unit world" where
  "ownedWorld = createWorld\<lparr>wdOwnerCache := [''owner-1'' \<mapsto> hd (dbOwners (wdDb createWorld))]\<rparr>"

definition depositData :: "string \<Rightarrow> event_transaction" where
  "depositData h = createParamsData (scanDemo h) depositCheck False"

definition depositParams :: "string \<Rightarrow> event_params" where
  "depositParams h = \<lparr>npKind = WebhookKindDeposit, npStatus = WebhookStatusNew, npPayload = eventPayload (depositData h), npClientID = ''client-1''\<rparr>"

definition block11Tables :: "string \<Rightarrow> tables" where
  "block11Tables h = \<lparr>tbBlocks = [\<lparr>pbBlockchain = BlockchainTypeTron, pbNumber = 11, pbHash = Some ''h11''\<rparr>],
     tbEvents = insertEventWebhook 7 (depositParams h) [], tbJobs = [confirmationsJob (scanDemo h) depositCheck False 7]\<rparr>"

definition scanDone :: "string \<Rightarrow> unit scanner" where
  "scanDone h = scanStart\<lparr>apWorld := ownedWorld, apTables := block11Tables h, scLastParsed := 11\<rparr>"

definition openScan :: "unit world \<Rightarrow> (tables \<Rightarrow> tables) \<Rightarrow> unit scanner" where
  "openScan w f = scanStart\<lparr>apWorld := w\<lparr>wdTx := Some id\<rparr>, apTx := Some f\<rparr>"

lemma sample_before: "beforeCreateWhHandler (scanDemo h) depositCheck (openScan createWorld id) = (Val False, openScan createWorld id)"
  by (simp add: beforeCreateWhHandler_def isSystemTransactionsSupported_def qFindSystemTransactions_def dbRead_def liftA_def ofSum_def
      op_defs openScan_def scanStart_def createWorld_def dbView_def checkActivated_def depositCheck_def)

lemma sample_params: "liftA (eventTransactionCreateParams createEnv (depositData h)) (openScan createWorld id) =
    (Val (depositParams h), openScan ownedWorld id)"
  by (simp add: eventTransactionCreateParams_def requestIDOf_def ownersGetByID_def qOwnerGetByID_def noRowsToNotFound_def dbRead_def
      liftA_def ofSum_def op_defs openScan_def scanStart_def createWorld_def dbView_def oneRow_def nilUuid_def ownedWorld_def
      depositData_def createParamsData_def Let_def depositCheck_def depositParams_def eventPayload_def)

lemma open_simps [simp]: "apTx (openScan w f) = Some f" "apWorld (openScan w f) = w\<lparr>wdTx := Some id\<rparr>"
  "apTables (openScan w f) = scanTables" "appExt (openScan w f) () = openScan w f" "(openScan w f)\<lparr>apTx := Some g\<rparr> = openScan w g"
  "tbView True (openScan w f) = f scanTables" "tbApply True g (openScan w f) = openScan w (g \<circ> f)"
  by (simp_all add: openScan_def scanStart_def appExt_def tbView_def tbApply_def)

text \<open>What the body of the commit writes: the job, then the webhook, then the row of the block.\<close>

definition block11Writes :: "string \<Rightarrow> tables \<Rightarrow> tables" where
  "block11Writes h t =
     (let t1 = t\<lparr>tbJobs := tbJobs t @ [confirmationsJob (scanDemo h) depositCheck False 7]\<rparr>;
          t2 = t1\<lparr>tbEvents := insertEventWebhook 7 (depositParams h) (tbEvents t1)\<rparr>
      in t2\<lparr>tbBlocks := setBlock True BlockchainTypeTron 11 ''h11'' (tbBlocks t2)\<rparr>)"

lemma sample_createWebhook: "createWebhook (scanDemo h) depositCheck (openScan createWorld id) =
    (Val [depositParams h], openScan ownedWorld ((\<lambda>t. t\<lparr>tbJobs := tbJobs t @ [confirmationsJob (scanDemo h) depositCheck False 7]\<rparr>) \<circ> id))"
  by (simp add: createWebhook_def bnd_def wrapErr_def sample_before sample_params [unfolded depositData_def] getS_def ret_def
      insertJob_def tbExec_def)

lemma sample_writes: "block11Writes h scanTables = block11Tables h"
  by (simp add: block11Writes_def block11Tables_def scanTables_def noTables_def setBlock_def)

lemma sample_body: "commitBody (scanDemo h) (block11 h) True (openScan createWorld id) = (Val (), openScan ownedWorld (block11Writes h))"
  by (simp add: commitBody_def bnd_def wrapErr_def sample_createWebhook block11_def eventsBatchCreate_def checkEventParams_def
      qEventWebhookCreate_def catchErr_def tbExec_def depositParams_def ret_def guardE_def blocksUpdateNumberWithHash_def
      qBlockUpdateWithHash_def)
    (simp add: block11Writes_def [abs_def] comp_def Let_def depositParams_def setBlock_def)

lemma sample_commit: "commitBlockResult (scanDemo h) (block11 h) True scanStart = (Val (), scanDone h)"
proof -
  have "appBegin createEnv scanStart = (Val (), openScan createWorld id)"
    by (simp add: appBegin_def bnd_def liftA_def txBegin_def modS_def openScan_def scanStart_def createWorld_def)
  moreover have "appCommit createEnv (openScan ownedWorld (block11Writes h)) =
      (Val (), scanStart\<lparr>apWorld := ownedWorld, apTables := block11Tables h\<rparr>)"
    using sample_writes [of h] by (simp add: appCommit_def appDone_def appExt_def dbView_def)
      (simp add: openScan_def scanStart_def ownedWorld_def createWorld_def)
  ultimately show ?thesis using sample_body [of h]
    by (simp add: commitBlockResult_def inAppTx_def bnd_def modS_def ret_def scanDone_def block11_def)
qed

text \<open>The webhook, the job and the block are stored together.\<close>

theorem block_is_committed_as_a_whole_witness:
  "blockCommitted (scanDemo ''h10'') (block11 ''h10'') True scanStart (scanDone ''h10'') \<and> scLastParsed (scanDone ''h10'') = 11"
  using block_is_committed_as_a_whole [OF sample_commit] by (simp add: block11_def)


section \<open>Its run\<close>

lemma sample_last: "blocksLastBlock createEnv BlockchainTypeTron scanStart = (Val (10, ''h10''), scanStart)"
  by (simp add: blocksLastBlock_def noRowsToNotFound_def qBlockLast_def tbRead_def tbView_def ofSum_def oneRow_def op_defs
  scanTables_def noTables_def scanStart_def textString_def appExt_def createWorld_def)

lemma sample_load: "loadBlocks (scanDemo h) 11 11 scanStart = (Val [block11 h], scanStart)"
  by (simp add: loadBlocks_def tryE_def sample_fetch ofSum_def op_defs)

lemma sample_run: "handleBlocks (scanDemo ''h10'') scanStart = (Val (), scanDone ''h10'')"
proof -
  have n: "scLastNode scanStart = 11" "scLastParsed scanStart = 10" "envCtx createEnv e = None" for e
    by (simp_all add: scanStart_def createEnv_def trxEnv_def evmEnv_def)
  have z: "scSleep (scanDemo ''h10'') d (scanDone ''h10'') = (Val (), scanDone ''h10'')" for d
    by (simp add: scSleep_def modS_def scanDone_def appExt_def scanStart_def ownedWorld_def createWorld_def)
  have "runBatches (scanDemo ''h10'') 11 31 True ''h11'' (scanDone ''h10'') = (Val (), scanDone ''h10'')"
    by (subst runBatches.simps) (simp add: z)
  moreover have "commitAll (scanDemo ''h10'') [block11 ''h10''] True scanStart = (Val (), scanDone ''h10'')"
    by (simp add: bnd_def wrapErr_def sample_commit ret_def)
  ultimately have "runBatches (scanDemo ''h10'') 11 11 True ''h10'' scanStart = (Val (), scanDone ''h10'')"
    by (subst runBatches.simps)
      (simp add: bnd_def getS_def wrapErr_def n sample_load Let_def block11_def afterBatch_def del: commitAll.simps)
  then show ?thesis by (simp add: handleBlocks_def Let_def n bnd_def catchErr_def ret_def sample_last)
qed


text \<open>The last incident of the sample reverts the chain to block 9, so that block 8 becomes the last one.\<close>

definition scanBack :: "unit scanner" where
  "scanBack = scanStart\<lparr>apTables := scanTables\<lparr>tbBlocks := [\<lparr>pbBlockchain = BlockchainTypeTron, pbNumber = 8, pbHash = Some ''h8''\<rparr>]\<rparr>,
     scLastParsed := 8\<rparr>"

lemma sample_rollback: "handleRollback (scanDemo h) scanStart = (Val (), scanBack)"
proof -
  have "getRollbackStartingBlock (chainProxy h) BlockchainTypeTron () = (Val 9, ())"
    by (simp add: getRollbackStartingBlock_def getIncidents_def chainProxy_def op_defs)
  moreover have "pxGetBlock (chainProxy h) b 8 () = (Val \<lparr>bhHash = ''h8'', bhPrevHash = h\<rparr>, ())" for b
    by (simp add: chainProxy_def)
  ultimately show ?thesis
    by (simp add: handleRollback_def bnd_def wrapErr_def liftAE_start Let_def modS_def)
      (simp add: inAppTx_def appBegin_def appCommit_def appDone_def bnd_def liftA_def txBegin_def modS_def blocksUpdateNumberWithHash_def
        qBlockUpdateWithHash_def tbExec_def tbApply_def guardE_def ret_def  appExt_def scanStart_def
        createWorld_def dbView_def tbView_def wrapErr_def scanBack_def scanTables_def noTables_def)
qed

theorem rollback_restarts_at_the_incident_witness:
  "tbJobs (apTables scanBack) = tbJobs (apTables scanStart) \<and>
    (\<exists>n hash. revertedTo (scanDemo ''other'') n hash \<and> scLastParsed scanBack = sint n - 1 \<and>
      tbBlocks (apTables scanBack) = setBlock True BlockchainTypeTron (sint n - 1) hash (tbBlocks (apTables scanStart)))"
  using rollback_restarts_at_the_incident [OF sample_rollback [of "''other''"]] by auto

end
