(* ===== verification/Spec2Isabelle.thy ===== *)
theory Spec2Isabelle
  imports Retry UtxoRun EvmRun ServicesProps TronProps CreateLock ScanSample
begin

text \<open>
  Verification of dv-processing, the service that moves the funds of merchants' wallets.

  The program. A transfer is a row of the database. A job of the task manager builds a state machine
  for it (\<open>internal/fsm\<close>), restores the snapshot of an earlier run and runs the workflow engine
  (\<open>internal/workflow\<close>) over the machine's stages and steps. The steps validate the request, build and
  sign a transaction (\<open>pkg/walletsdk\<close>), store its hash, hand it to the node and wait for its
  confirmations. The services (\<open>internal/services\<close>) read and write the rows through the queries of
  \<open>internal/store\<close> and queue webhooks. Snapshots are stored around every step, so that a job that is
  tried again goes on where the last run stopped.
  Two scanners feed the service: one gives the new transfers to the queue, and one for each chain reads
  its blocks and queues a webhook for every event at an owner's wallet.

  The theories, in the order of the code's layers.

  \<^item> Prelude: errors (\<open>goerr\<close>, with \<open>errors.Is\<close> and \<open>errors.As\<close>), the values an \<open>any\<close> holds, durations and
    operations. An operation takes a state and returns an \<open>outcome\<close> (a value, an error, a panic) and a
    state; \<open>bnd\<close> is the sequence of a Go function that returns at the first error, and the state of a
    failed operation is kept, as Go keeps it. The collection \<open>op_Val\<close> turns the success of a sequence
    into the success of its parts, \<open>keeps\<close> says that an operation leaves a view of the state alone.
  \<^item> Constants: the types of chains, statuses and kinds (\<open>wconstants\<close>, \<open>internal/constants\<close>), the
    minimal confirmations and block times as 64-bit words, conversions of \<open>internal/models\<close>.
  \<^item> Retry: \<open>pkg/retry\<close>. The locale of the bounded loops is interpreted for the linear and the backoff
    policy. The infinite policy is a \<open>partial_function\<close>: \<open>None\<close> is a call that does not return.
  \<^item> Workflow: \<open>internal/workflow\<close>. A workflow is a record of stages of steps with their states; the
    functions, hooks, the clock and the context are the record \<open>hooks\<close>. \<open>handleStep\<close>, \<open>runSteps\<close>,
    \<open>handleStage\<close>, \<open>runStages\<close>, \<open>execute\<close> and \<open>runWorkflow\<close> are the code's functions and loops. A step
    that may be retried for ever makes them partial, again \<open>None\<close>.
  \<^item> WorkflowFacts, WorkflowCount, WorkflowLaws: the frame and the fate of steps during a run, the
    bound on the attempts of a step, and the engine's own properties. Their locales name what a machine
    must promise of its functions (that they leave the engine's fields alone, that only one step
    raises a counter); FsmUtxo and UtxoRun interpret them.
  \<^item> Store: rows and tables of the database, queries with their errors, transactions, and the
    environment: clock, faults of the database, identifiers, the order in which a map is ranged over.
  \<^item> Services, ServicesFacts, ServicesProps: the methods of the services and what a successful or a
    faultless one has read and written; the cache of wallets refines the database.
  \<^item> TxBuilder, TxBuilderFacts: the transaction builder of the four coins with unspent outputs, over a
    record of the library functions it calls (decoding, hashing, signing).
  \<^item> Fsm: what all state machines share. FsmUtxo: the machines of BTC, LTC, DOGE and BCH, whose packages
    differ in few places; a coin is an argument of each definition and those places are cases on it.
    FsmUtxoFacts, UtxoSend and UtxoRun: what is stored and sent, and whole runs.
  \<^item> EvmFee: \<open>pkg/walletsdk/evm\<close>, units, estimates of the price and the amount of gas, derivation of
    wallets. The node and go-ethereum are records of functions. FsmEvm: the machine of the EVM chains
    (\<open>internal/fsm/fsmevm\<close>), with the purchase of gas for a token, transactions of the chain's asset and
    of tokens, and the failure event in one transaction of the database (\<open>inTx\<close>). Its state has a list
    of the transactions handed to the node, which no definition reads. FsmEvmFacts and EvmRun: the
    machine as an instance of the engine's locales, whole runs, and its properties.

  \<^item> TronRes, TronResFacts: \<open>pkg/walletsdk/tron\<close>. Conversions between TRX, energy and bandwidth, what an
    account has and may delegate, estimates of transfers, delegations and activations, the reclaim by
    hand, keys. The node (\<open>tron_node\<close>) and the functions of the libraries (\<open>tron_lib\<close>) are records of
    functions. The facts: round trips and bounds of the conversions, what an estimate covers.
  \<^item> FsmTron: the machine of Tron (\<open>internal/fsm/fsmtron\<close>): activation of the wallet, TRX to burn,
    delegation and reclaim of resources, orders at the resource manager (\<open>tpGetOrder\<close>), sending, and the
    compensation. Its state has the data that a group of goroutines collects (\<open>tfLocal\<close>, stored when the
    step ends) and the list of the calls submitted to the node with the kind of their step (\<open>tfSent\<close>),
    which no definition reads. FsmTronFacts: what operations leave alone, the machine as an instance of the
    engine's locales. TronCalls: which step submits what. TronRun, TronStuck: whole runs, and what becomes
    of a compensation. TronProps: the properties at sample transfers.

  \<^item> Create: the creation of a transfer (\<open>internal/services/transfers\<close>: \<open>create.go\<close>, \<open>validate.go\<close>, \<open>btclike.go\<close>,
    \<open>eth.go\<close>, \<open>tron.go\<close>) with the queries of \<open>repo_transfers\<close> it runs, \<open>pkg/avalidator\<close> and the codes of
    \<open>rpccode\<close>. CreateFacts: the checks write nothing, what an accepted request and a prepared row satisfy, what
    an insertion does however it ends. CreateProps, CreateSample: the properties of a call and a sample of them.
    CreateLock: calls that run at the same time, as a step relation with the flag \<open>isLocked\<close>.

  \<^item> Proxy: \<open>internal/eproxy\<close>, the questions the service asks the explorer proxy, with their attempts and
    pages. The generated clients are the fields of the record \<open>proxy\<close>.
  \<^item> Jobs: what the scanners share. The state \<open>app\<close> adds the tables of processed blocks, of webhooks about
    events and of jobs to the world, and \<open>inAppTx\<close> is a transaction over all of them;
    \<open>internal/services/processedblocks\<close>, and the webhooks about events of \<open>internal/services/webhooks\<close>.
  \<^item> TScan: \<open>internal/tscanner\<close>, which gives the new transfers to the queue. A tick is an operation, and
    overlapping ticks are the step relation \<open>tick_step\<close>, whose steps also create transfers and work on them.
  \<^item> Scanner: \<open>internal/escanner/scanner.go\<close>, fetching of blocks, their commit, the check that they link and
    the rollback, with the loop over the batches as a function that ends. ScannerFacts: what a commit and a run of
    the loop have done (\<open>commitRun\<close>, \<open>batchRun\<close>). ScannerProps, ScanSample: its properties and a sample of them.

  Bounds and fuel. No fuel is used. A run of the machines returns for every input because each step
  has a limit of attempts; this is a part of the property that a run sends at most once. Amounts are
  rationals (\<open>decimal.Decimal\<close> adds, subtracts and multiplies exactly; its division and its printing are
  parameters), the values of outputs and the resources of Tron's nodes are 64-bit words and the
  properties about them say when the sums fit.

  Not modelled. The content of logs and the time limits of requests. The scheduler of goroutines, but for the
  calls of \<open>Create\<close> and the ticks of \<open>TScan\<close>: a goroutine that is waited for is a sequence, and those of one
  group run one after the other. Third-party libraries and remote services (btcutil, go-ethereum, gotron,
  river, pgx, the explorer proxy, the resource manager) are parameters; the queue is the list of the
  jobs inserted into it. The heights of blocks are integers. The creation of wallets, keys and two-factor
  codes, the workers of the queue, the sender of the webhooks, the RPC handlers and the start-up are left
  out; the list of components gives the reasons.
\<close>

end
